(* ===== verification/Lotus_Prelude.thy ===== *)
theory Lotus_Prelude
  imports Main "HOL-Library.AList" "HOL-Library.Char_ord" "HOL-Library.List_Lexorder"
    "HOL-Library.Product_Lexorder" "HOL-Library.Sublist"
begin

text \<open>
  The shared ground of the development: the Python constructs that the modelled code of
  lotus-advise uses everywhere, with the lemmas the components share.

  \<^item> A Python \<open>dict\<close> is an association list in insertion order. \<open>dict_set\<close> replaces a
    value in place and appends a new key at the end, as Python does; \<open>dict_get\<close> is
    \<open>d.get(k)\<close>, \<open>dict_values\<close> is \<open>list(d.values())\<close> and \<open>dict_push\<close> is
    \<open>d.setdefault(k, []).append(x)\<close>. Records are values, so the \<open>deepcopy\<close> calls of the
    source are the identity here.
  \<^item> An exception is an \<open>Inl\<close> value of a sum type; \<open>rbind\<close> sequences fallible steps.
  \<^item> A string is a list of characters, each read as the code point of the same number
    (Latin-1); string order is Python's code point order.
  \<^item> A timestamp is an aware UTC \<open>datetime\<close>, as the number of microseconds since
    1970-01-01T00:00:00+00:00.
  \<^item> \<open>sort_key\<close> of the HOL library is a stable sort, as \<open>list.sort\<close> is.
\<close>

named_theorems lotus_dict \<open>lookup and membership laws of the dictionaries\<close>
named_theorems lotus_bind \<open>results of fallible steps\<close>
named_theorems lotus_str \<open>string normalisation laws\<close>

section \<open>Dictionaries\<close>

type_synonym ('k, 'v) dict = "('k \<times> 'v) list"

type_synonym timestamp = int

definition dict_get :: "('k, 'v) dict \<Rightarrow> 'k \<Rightarrow> 'v option" where
  "dict_get d k = map_of d k"

definition dict_set :: "'k \<Rightarrow> 'v \<Rightarrow> ('k, 'v) dict \<Rightarrow> ('k, 'v) dict" where
  "dict_set k v d = AList.update k v d"

definition dict_values :: "('k, 'v) dict \<Rightarrow> 'v list" where
  "dict_values d = map snd d"

definition dict_keys :: "('k, 'v) dict \<Rightarrow> 'k list" where
  "dict_keys d = map fst d"

definition dict_wf :: "('k, 'v) dict \<Rightarrow> bool" where
  "dict_wf d = distinct (map fst d)"

definition dict_setdefault :: "'k \<Rightarrow> 'v \<Rightarrow> ('k, 'v) dict \<Rightarrow> ('k, 'v) dict" where
  "dict_setdefault k v d = (case dict_get d k of None \<Rightarrow> dict_set k v d | Some _ \<Rightarrow> d)"

definition dict_list :: "('k, 'v list) dict \<Rightarrow> 'k \<Rightarrow> 'v list" where
  "dict_list d k = (case dict_get d k of None \<Rightarrow> [] | Some xs \<Rightarrow> xs)"

definition dict_push :: "'k \<Rightarrow> 'v \<Rightarrow> ('k, 'v list) dict \<Rightarrow> ('k, 'v list) dict" where
  "dict_push k x d = dict_set k (dict_list d k @ [x]) d"

lemma dict_get_empty [simp, lotus_dict]: "dict_get [] k = None"
  by (simp add: dict_get_def)

lemma dict_get_Cons [simp]: "dict_get ((k, v) # d) j = (if j = k then Some v else dict_get d j)"
  by (simp add: dict_get_def)

lemma dict_get_set [simp, lotus_dict]:
  "dict_get (dict_set k v d) j = (if j = k then Some v else dict_get d j)"
  by (simp add: dict_get_def dict_set_def update_conv')

lemma dict_set_empty [simp]: "dict_set k v [] = [(k, v)]"
  by (simp add: dict_set_def)

lemma dict_set_Cons [simp]:
  "dict_set k v ((j, w) # d) = (if j = k then (k, v) # d else (j, w) # dict_set k v d)"
  by (simp add: dict_set_def)

lemma dict_get_setdefault [simp, lotus_dict]:
  "dict_get (dict_setdefault k v d) j =
     (if j = k then (case dict_get d k of None \<Rightarrow> Some v | Some w \<Rightarrow> Some w) else dict_get d j)"
  by (simp add: dict_setdefault_def split: option.splits)

lemma dict_list_push [simp, lotus_dict]:
  "dict_list (dict_push k x d) j = dict_list d j @ (if j = k then [x] else [])"
  by (simp add: dict_list_def dict_push_def)

lemma dict_list_empty [simp]: "dict_list [] k = []"
  by (simp add: dict_list_def)

lemma dict_wf_empty [simp]: "dict_wf []"
  by (simp add: dict_wf_def)

lemma dict_wf_set [simp]: "dict_wf d \<Longrightarrow> dict_wf (dict_set k v d)"
  by (simp add: dict_wf_def dict_set_def distinct_update)

lemma dict_wf_push [simp]: "dict_wf d \<Longrightarrow> dict_wf (dict_push k x d)"
  by (simp add: dict_push_def)

lemma dict_wf_setdefault [simp]: "dict_wf d \<Longrightarrow> dict_wf (dict_setdefault k v d)"
  by (simp add: dict_setdefault_def split: option.splits)

lemma dict_get_SomeD: "dict_get d k = Some v \<Longrightarrow> (k, v) \<in> set d"
  by (simp add: dict_get_def map_of_SomeD)

lemma dict_get_in_values: "dict_get d k = Some v \<Longrightarrow> v \<in> set (dict_values d)"
  by (force simp: dict_values_def dest: dict_get_SomeD)

lemma dict_values_get:
  "dict_wf d \<Longrightarrow> v \<in> set (dict_values d) \<Longrightarrow> \<exists>k. dict_get d k = Some v"
  by (force simp: dict_values_def dict_get_def dict_wf_def)

lemma set_dict_values:
  "dict_wf d \<Longrightarrow> set (dict_values d) = {v. \<exists>k. dict_get d k = Some v}"
  by (auto dest: dict_get_in_values dict_values_get)

section \<open>Fallible steps\<close>

definition rbind :: "'e + 'a \<Rightarrow> ('a \<Rightarrow> 'e + 'b) \<Rightarrow> 'e + 'b" where
  "rbind r f = (case r of Inl e \<Rightarrow> Inl e | Inr x \<Rightarrow> f x)"

definition rmap_error :: "('e \<Rightarrow> 'f) \<Rightarrow> 'e + 'a \<Rightarrow> 'f + 'a" where
  "rmap_error h r = (case r of Inl e \<Rightarrow> Inl (h e) | Inr x \<Rightarrow> Inr x)"

lemma rbind_simps [simp, lotus_bind]: "rbind (Inl e) f = Inl e" "rbind (Inr x) f = f x"
  by (simp_all add: rbind_def)

lemma rbind_eq_Inr [lotus_bind]: "(rbind r f = Inr y) = (\<exists>x. r = Inr x \<and> f x = Inr y)"
  by (cases r) auto

lemma rbind_eq_Inl [lotus_bind]:
  "(rbind r f = Inl e) = (r = Inl e \<or> (\<exists>x. r = Inr x \<and> f x = Inl e))"
  by (cases r) auto

lemma rmap_error_simps [simp, lotus_bind]:
  "rmap_error h (Inl e) = Inl (h e)" "rmap_error h (Inr x) = Inr x"
  by (simp_all add: rmap_error_def)

lemma rmap_error_eq_Inr [simp, lotus_bind]: "(rmap_error h r = Inr y) = (r = Inr y)"
  by (cases r) auto

lemma rmap_error_eq_Inl [lotus_bind]: "(rmap_error h r = Inl e) = (\<exists>e'. r = Inl e' \<and> e = h e')"
  by (cases r) auto

section \<open>Strings\<close>

text \<open>\<open>str.isspace\<close> on the code points below 256, which is what \<open>strip\<close> and \<open>split\<close> use.\<close>

definition py_space :: "char \<Rightarrow> bool" where
  "py_space c = (let n = of_char c :: nat in
     (9 \<le> n \<and> n \<le> 13) \<or> (28 \<le> n \<and> n \<le> 32) \<or> n = 133 \<or> n = 160)"

definition py_strip :: "string \<Rightarrow> string" where
  "py_strip s = rev (dropWhile py_space (rev (dropWhile py_space s)))"

text \<open>The truth value of an optional string: \<open>None\<close> and \<open>""\<close> are false.\<close>

definition truthy :: "string option \<Rightarrow> bool" where
  "truthy v = (case v of None \<Rightarrow> False | Some s \<Rightarrow> s \<noteq> [])"

text \<open>\<open>a or b\<close> on optional integers (\<open>0\<close> is false) and \<open>a or b\<close> on optional strings.\<close>

definition int_or :: "int option \<Rightarrow> int option \<Rightarrow> int option" where
  "int_or a b = (case a of None \<Rightarrow> b | Some n \<Rightarrow> if n = 0 then b else Some n)"

definition str_or :: "string option \<Rightarrow> string option \<Rightarrow> string option" where
  "str_or a b = (if truthy a then a else b)"

lemma truthy_simps [simp]: "truthy None = False" "truthy (Some s) = (s \<noteq> [])"
  by (simp_all add: truthy_def)

lemma dropWhile_hd: "dropWhile P xs = y # ys \<Longrightarrow> \<not> P y"
  by (induction xs) (auto split: if_splits)

lemma dropWhile_suffix: "suffix (dropWhile P xs) xs"
  by (metis suffixI takeWhile_dropWhile_id)

lemma dropWhile_rev_suffix_id:
  assumes "dropWhile P xs = xs"
  shows "dropWhile P (rev (dropWhile P (rev xs))) = rev (dropWhile P (rev xs))"
proof (cases "rev (dropWhile P (rev xs))")
  case Nil
  then show ?thesis by (simp only: dropWhile.simps)
next
  case (Cons y ys)
  have "prefix (rev (dropWhile P (rev xs))) xs"
    using dropWhile_suffix [of P "rev xs"] by (simp add: suffix_to_prefix)
  with Cons obtain zs where "xs = y # zs" by (auto simp: prefix_def)
  with assms have "\<not> P y" by (auto split: if_splits dest: dropWhile_hd)
  with Cons show ?thesis by simp
qed

lemma dropWhile_idem [simp]: "dropWhile P (dropWhile P xs) = dropWhile P xs"
  by (induction xs) auto

lemma py_strip_idem [simp, lotus_str]: "py_strip (py_strip s) = py_strip s"
proof -
  let ?t = "dropWhile py_space s"
  have "dropWhile py_space (rev (dropWhile py_space (rev ?t))) = rev (dropWhile py_space (rev ?t))"
    by (rule dropWhile_rev_suffix_id) simp
  then show ?thesis by (simp add: py_strip_def)
qed

lemma py_strip_subset: "set (py_strip s) \<subseteq> set s"
  unfolding py_strip_def by (metis set_dropWhileD set_rev subsetI)

lemma length_py_strip: "length (py_strip s) \<le> length s"
  unfolding py_strip_def by (metis length_dropWhile_le length_rev order_trans)

section \<open>Slices and sorting\<close>

text \<open>\<open>xs[:n]\<close>, for any integer \<open>n\<close>.\<close>

definition py_take :: "int \<Rightarrow> 'a list \<Rightarrow> 'a list" where
  "py_take n xs = (if 0 \<le> n then take (nat n) xs else take (length xs - nat (- n)) xs)"

text \<open>\<open>sorted(xs, key=f, reverse=True)\<close> keeps the order of elements with equal keys.\<close>

definition sort_key_desc :: "('a \<Rightarrow> 'k::linorder) \<Rightarrow> 'a list \<Rightarrow> 'a list" where
  "sort_key_desc f xs = rev (sort_key f (rev xs))"

lemma set_sort_key_desc [simp]: "set (sort_key_desc f xs) = set xs"
  by (simp add: sort_key_desc_def)

lemma length_sort_key_desc [simp]: "length (sort_key_desc f xs) = length xs"
  by (simp add: sort_key_desc_def)

lemma sort_key_desc_sorted: "sorted_wrt (\<lambda>x y. f y \<le> f x) (sort_key_desc f xs)"
proof -
  have "sorted (map f (sort_key f (rev xs)))" by simp
  then show ?thesis
    by (simp add: sort_key_desc_def sorted_map sorted_wrt_rev)
qed

lemma distinct_sort_key_desc [simp]: "distinct (sort_key_desc f xs) = distinct xs"
  by (simp add: sort_key_desc_def)

lemma set_py_take: "set (py_take n xs) \<subseteq> set xs"
  by (auto simp: py_take_def dest: in_set_takeD)

lemma py_take_prefix: "prefix (py_take n xs) xs"
  by (simp add: py_take_def take_is_prefix)

lemma length_py_take: "0 \<le> n \<Longrightarrow> int (length (py_take n xs)) = min n (int (length xs))"
  by (auto simp: py_take_def)

lemma py_take_all: "int (length xs) \<le> n \<Longrightarrow> py_take n xs = xs"
  by (auto simp: py_take_def)

text \<open>Changing the first element that matches, in place.\<close>

fun update_first :: "('a \<Rightarrow> bool) \<Rightarrow> ('a \<Rightarrow> 'a) \<Rightarrow> 'a list \<Rightarrow> 'a list" where
  "update_first p f [] = []"
| "update_first p f (x # xs) = (if p x then f x # xs else x # update_first p f xs)"

lemma map_update_first: "(\<And>x. g (f x) = g x) \<Longrightarrow> map g (update_first p f xs) = map g xs"
  by (induction xs) auto

lemma length_update_first [simp]: "length (update_first p f xs) = length xs"
  by (induction xs) auto

lemma update_first_eq_Nil [simp]: "update_first p f xs = [] \<longleftrightarrow> xs = []"
  by (cases xs) auto

lemma find_append: "find P (xs @ ys) = (case find P xs of None \<Rightarrow> find P ys | Some x \<Rightarrow> Some x)"
  by (induction xs) auto

lemma find_update_first:
  assumes "\<And>x. k (f x) = k x"
  shows "find (\<lambda>x. k x = d) (update_first (\<lambda>x. k x = c) f xs) =
    (if d = c then map_option f (find (\<lambda>x. k x = c) xs) else find (\<lambda>x. k x = d) xs)"
  using assms by (induction xs) auto

text \<open>\<open>str.upper\<close> of the ASCII letters.\<close>

definition upper_char :: "char \<Rightarrow> char" where
  "upper_char c =
     (if CHR ''a'' \<le> c \<and> c \<le> CHR ''z'' then char_of ((of_char c :: nat) - 32) else c)"

section \<open>Decimal digits and ISO 8601 timestamps\<close>

definition digit_char :: "nat \<Rightarrow> char" where
  "digit_char n = char_of (48 + n mod 10)"

fun nat_digits :: "nat \<Rightarrow> string" where
  "nat_digits n = (if n < 10 then [digit_char n] else nat_digits (n div 10) @ [digit_char n])"

declare nat_digits.simps [simp del]

text \<open>\<open>str(n)\<close> of an integer.\<close>

definition int_str :: "int \<Rightarrow> string" where
  "int_str n = (if n < 0 then CHR ''-'' # nat_digits (nat (- n)) else nat_digits (nat n))"

text \<open>A number in \<open>k\<close> decimal digits, with leading zeros.\<close>

fun pad_digits :: "nat \<Rightarrow> nat \<Rightarrow> string" where
  "pad_digits 0 n = []"
| "pad_digits (Suc k) n = pad_digits k (n div 10) @ [digit_char n]"

text \<open>
  \<open>datetime.isoformat()\<close> of an aware UTC timestamp: the proleptic Gregorian date of the day
  number (days since 1970-01-01, in eras of 400 years that start on 1 March), the time of day,
  the microseconds when they are not zero, and the offset.
\<close>

definition civil_from_days :: "int \<Rightarrow> int \<times> int \<times> int" where
  "civil_from_days days =
     (let z = days + 719468;
          era = z div 146097;
          doe = z mod 146097;
          yoe = (doe - doe div 1460 + doe div 36524 - doe div 146096) div 365;
          doy = doe - (365 * yoe + yoe div 4 - yoe div 100);
          mp = (5 * doy + 2) div 153;
          d = doy - (153 * mp + 2) div 5 + 1;
          m = (if mp < 10 then mp + 3 else mp - 9);
          y = yoe + era * 400 + (if m \<le> 2 then 1 else 0)
      in (y, m, d))"

definition isoformat :: "timestamp \<Rightarrow> string" where
  "isoformat t =
     (let days = t div 86400000000; tod = t mod 86400000000;
          secs = tod div 1000000; micros = tod mod 1000000;
          ymd = civil_from_days days
      in pad_digits 4 (nat (fst ymd)) @ ''-'' @ pad_digits 2 (nat (fst (snd ymd))) @ ''-'' @
         pad_digits 2 (nat (snd (snd ymd))) @ ''T'' @
         pad_digits 2 (nat (secs div 3600)) @ '':'' @
         pad_digits 2 (nat (secs div 60 mod 60)) @ '':'' @
         pad_digits 2 (nat (secs mod 60)) @
         (if micros = 0 then [] else ''.'' @ pad_digits 6 (nat micros)) @ ''+00:00'')"

section \<open>Runs of a system and their invariants\<close>

text \<open>
  The one interface every stateful component shares: a step function that returns the next state
  and a result, what the environment promises of a command, a predicate that the steps keep and a
  relation that orders the states they lead through. What follows for whole runs is proved here.
\<close>

fun run_steps :: "('s \<Rightarrow> 'c \<Rightarrow> 's \<times> 'r) \<Rightarrow> 's \<Rightarrow> 'c list \<Rightarrow> 's" where
  "run_steps step s [] = s"
| "run_steps step s (c # cs) = run_steps step (fst (step s c)) cs"

text \<open>Each command of the run meets what the environment promises in the state it meets.\<close>

fun run_ok :: "('s \<Rightarrow> 'c \<Rightarrow> bool) \<Rightarrow> ('s \<Rightarrow> 'c \<Rightarrow> 's \<times> 'r) \<Rightarrow> 's \<Rightarrow> 'c list \<Rightarrow> bool" where
  "run_ok ok step s [] = True"
| "run_ok ok step s (c # cs) = (ok s c \<and> run_ok ok step (fst (step s c)) cs)"

lemma run_steps_append: "run_steps step s (cs @ ds) = run_steps step (run_steps step s cs) ds"
  by (induction cs arbitrary: s) auto

lemma run_ok_append [simp]:
  "run_ok ok step s (cs @ ds) = (run_ok ok step s cs \<and> run_ok ok step (run_steps step s cs) ds)"
  by (induction cs arbitrary: s) auto

locale guarded_steps =
  fixes step :: "'s \<Rightarrow> 'c \<Rightarrow> 's \<times> 'r"
    and ok :: "'s \<Rightarrow> 'c \<Rightarrow> bool"
    and inv :: "'s \<Rightarrow> bool"
    and later :: "'s \<Rightarrow> 's \<Rightarrow> bool"
  assumes step_inv: "inv s \<Longrightarrow> ok s c \<Longrightarrow> inv (fst (step s c))"
    and step_later: "inv s \<Longrightarrow> ok s c \<Longrightarrow> later s (fst (step s c))"
    and later_refl: "later s s"
    and later_trans: "later s t \<Longrightarrow> later t u \<Longrightarrow> later s u"
begin

lemma run_inv: "inv s \<Longrightarrow> run_ok ok step s cs \<Longrightarrow> inv (run_steps step s cs)"
  by (induction cs arbitrary: s) (auto intro: step_inv)

lemma run_later: "inv s \<Longrightarrow> run_ok ok step s cs \<Longrightarrow> later s (run_steps step s cs)"
  by (induction cs arbitrary: s) (auto intro: later_refl later_trans step_later step_inv)

end

text \<open>The keyed stores of the repositories: what a lookup returns after a write.\<close>

locale keyed_store =
  fixes get :: "'s \<Rightarrow> 'k \<Rightarrow> 'v option"
    and put :: "'v \<Rightarrow> 's \<Rightarrow> 's"
    and key_of :: "'v \<Rightarrow> 'k"
  assumes get_put: "get (put v s) k = (if k = key_of v then Some v else get s k)"
begin

lemma get_put_same: "get (put v s) (key_of v) = Some v"
  by (simp add: get_put)

lemma get_put_other: "k \<noteq> key_of v \<Longrightarrow> get (put v s) k = get s k"
  by (simp add: get_put)

lemma get_fold_other: "k \<notin> key_of ` set vs \<Longrightarrow> get (fold put vs s) k = get s k"
  by (induction vs arbitrary: s) (auto simp: get_put)

lemma put_put_get: "key_of v = key_of w \<Longrightarrow> get (put w (put v s)) k = get (put w s) k"
  by (simp add: get_put)

lemma put_commute_get:
  "key_of v \<noteq> key_of w \<Longrightarrow> get (put w (put v s)) k = get (put v (put w s)) k"
  by (auto simp: get_put)

end

end
