(* ===== verification/Canonical_Json.thy ===== *)
theory Canonical_Json
  imports Lotus_Prelude
begin

text \<open>
  JSON values, their canonical text and the request hashes built from it
  (src/core/common/canonical.py), and the identifier and actor normalisers
  (src/core/common/idempotency.py, src/core/common/actors.py).

  \<open>json\<close> is the value a \<open>dict[str, Any]\<close> of the code holds after \<open>model_dump(mode="json")\<close>;
  an object is the list of its items in insertion order, and a float is the text that
  \<open>float.__repr__\<close> gives for it. SHA-256 of \<open>hashlib\<close> is the parameter \<open>sha256_hex\<close>.
  That the canonical text determines the value up to the order of object keys is proved in
  the theory Canonical_Injective.
\<close>

datatype json =
    JNull
  | JBool bool
  | JInt int
  | JFloat string
  | JStr string
  | JArr "json list"
  | JObj "(string \<times> json) list"

section \<open>Reading objects\<close>

text \<open>\<open>d.get(k)\<close> on an object: a missing key reads as \<open>None\<close>, the same value as an explicit null.\<close>

definition obj_get :: "(string \<times> json) list \<Rightarrow> string \<Rightarrow> json" where
  "obj_get d k = (case dict_get d k of None \<Rightarrow> JNull | Some v \<Rightarrow> v)"

fun opt_str :: "string option \<Rightarrow> json" where
  "opt_str None = JNull"
| "opt_str (Some s) = JStr s"

fun opt_int :: "int option \<Rightarrow> json" where
  "opt_int None = JNull"
| "opt_int (Some n) = JInt n"

text \<open>\<open>{key: value for key, value in d.items() if value is not None}\<close>.\<close>

definition drop_nulls :: "(string \<times> json) list \<Rightarrow> (string \<times> json) list" where
  "drop_nulls d = filter (\<lambda>(k, v). v \<noteq> JNull) d"

lemma obj_get_set [simp]: "obj_get (dict_set k v d) j = (if j = k then v else obj_get d j)"
  by (simp add: obj_get_def)

lemma obj_get_Nil [simp]: "obj_get [] k = JNull"
  by (simp add: obj_get_def)

lemma obj_get_Cons [simp]: "obj_get ((k, v) # d) j = (if j = k then v else obj_get d j)"
  by (simp add: obj_get_def)

lemma dict_get_drop_nulls:
  "dict_wf d \<Longrightarrow> dict_get (drop_nulls d) k = (if obj_get d k = JNull then None else dict_get d k)"
proof (induction d)
  case Nil
  then show ?case by (simp add: drop_nulls_def)
next
  case (Cons p d)
  obtain j v where p: "p = (j, v)" by (cases p)
  from Cons.prems have wf: "dict_wf d" and j: "j \<notin> fst ` set d"
    by (auto simp: dict_wf_def p)
  have "dict_get d j = None" "dict_get (drop_nulls d) j = None"
    using j by (auto simp: dict_get_def map_of_eq_None_iff drop_nulls_def)
  with Cons.IH [OF wf] show ?case
    by (auto simp: p drop_nulls_def)
qed

lemma obj_get_drop_nulls [simp]: "dict_wf d \<Longrightarrow> obj_get (drop_nulls d) k = obj_get d k"
  by (auto simp: obj_get_def dict_get_drop_nulls split: option.splits)

section \<open>The canonical text\<close>

definition hex_char :: "nat \<Rightarrow> char" where
  "hex_char n = (if n < 10 then char_of (48 + n) else char_of (87 + n))"

definition u_escape :: "char \<Rightarrow> string" where
  "u_escape c = [CHR 0x5C, CHR ''u'', CHR ''0'', CHR ''0''] @ [hex_char (of_char c div 16), hex_char (of_char c mod 16)]"

text \<open>The escapes of \<open>json.dumps\<close> with its default \<open>ensure_ascii=True\<close>.\<close>

definition json_escape :: "char \<Rightarrow> string" where
  "json_escape c =
     (if c = CHR 0x22 then [CHR 0x5C, CHR 0x22]
      else if c = CHR 0x5C then [CHR 0x5C, CHR 0x5C]
      else if c = CHR 0x0A then [CHR 0x5C, CHR ''n'']
      else if c = CHR 0x0D then [CHR 0x5C, CHR ''r'']
      else if c = CHR 0x09 then [CHR 0x5C, CHR ''t'']
      else if c = CHR 0x0C then [CHR 0x5C, CHR ''f'']
      else if c = CHR 0x08 then [CHR 0x5C, CHR ''b'']
      else if 32 \<le> (of_char c :: nat) \<and> (of_char c :: nat) \<le> 126 then [c]
      else u_escape c)"

definition json_quote :: "string \<Rightarrow> string" where
  "json_quote s = [CHR 0x22] @ concat (map json_escape s) @ [CHR 0x22]"

fun join_with :: "string \<Rightarrow> string list \<Rightarrow> string" where
  "join_with sep [] = []"
| "join_with sep [x] = x"
| "join_with sep (x # y # xs) = x @ sep @ join_with sep (y # xs)"

definition json_member :: "string \<times> string \<Rightarrow> string" where
  "json_member kv = json_quote (fst kv) @ '':'' @ snd kv"

text \<open>\<open>json.dumps(payload, sort_keys=True, separators=(",", ":"))\<close>.\<close>

fun canonical_json :: "json \<Rightarrow> string" where
  "canonical_json JNull = ''null''"
| "canonical_json (JBool b) = (if b then ''true'' else ''false'')"
| "canonical_json (JInt n) = int_str n"
| "canonical_json (JFloat t) = t"
| "canonical_json (JStr s) = json_quote s"
| "canonical_json (JArr xs) = ''['' @ join_with '','' (map canonical_json xs) @ '']''"
| "canonical_json (JObj d) =
     ''{'' @ join_with '','' (map json_member (sort_key fst (map (\<lambda>(k, v). (k, canonical_json v)) d)))
     @ ''}''"

definition hash_canonical_payload :: "(string \<Rightarrow> string) \<Rightarrow> json \<Rightarrow> string" where
  "hash_canonical_payload sha256_hex payload = ''sha256:'' @ sha256_hex (canonical_json payload)"

text \<open>The recursive removal of excluded keys.\<close>

fun strip_keys :: "json \<Rightarrow> string list \<Rightarrow> json" where
  "strip_keys (JObj d) excl =
     JObj (map (\<lambda>(k, v). (k, strip_keys v excl)) (filter (\<lambda>(k, v). k \<notin> set excl) d))"
| "strip_keys (JArr xs) excl = JArr (map (\<lambda>x. strip_keys x excl) xs)"
| "strip_keys v excl = v"

section \<open>Equality up to the order of keys\<close>

text \<open>
  The code compares objects with \<open>==\<close>, which ignores the order of keys: two values are equal when
  they agree after their keys are sorted, at every level.
\<close>

fun json_norm :: "json \<Rightarrow> json" where
  "json_norm (JObj d) = JObj (sort_key fst (map (\<lambda>(k, v). (k, json_norm v)) d))"
| "json_norm (JArr xs) = JArr (map json_norm xs)"
| "json_norm v = v"

definition json_eq :: "json \<Rightarrow> json \<Rightarrow> bool" where
  "json_eq a b = (json_norm a = json_norm b)"

lemma json_eq_refl [simp]: "json_eq a a"
  by (simp add: json_eq_def)

section \<open>\<open>str(x)\<close> of a JSON value\<close>

definition py_hex_escape :: "char \<Rightarrow> string" where
  "py_hex_escape c = [CHR 0x5C, CHR ''x''] @ [hex_char (of_char c div 16), hex_char (of_char c mod 16)]"

definition py_repr_char :: "char \<Rightarrow> char \<Rightarrow> string" where
  "py_repr_char q c =
     (if c = q \<or> c = CHR 0x5C then [CHR 0x5C, c]
      else if c = CHR 0x09 then [CHR 0x5C, CHR ''t'']
      else if c = CHR 0x0A then [CHR 0x5C, CHR ''n'']
      else if c = CHR 0x0D then [CHR 0x5C, CHR ''r'']
      else let n = of_char c :: nat in
        if n < 32 \<or> (127 \<le> n \<and> n \<le> 160) \<or> n = 173 then py_hex_escape c else [c])"

definition py_repr_str :: "string \<Rightarrow> string" where
  "py_repr_str s =
     (let q = (if CHR 0x27 \<in> set s \<and> CHR 0x22 \<notin> set s then CHR 0x22 else CHR 0x27)
      in [q] @ concat (map (py_repr_char q) s) @ [q])"

fun py_repr :: "json \<Rightarrow> string" where
  "py_repr JNull = ''None''"
| "py_repr (JBool b) = (if b then ''True'' else ''False'')"
| "py_repr (JInt n) = int_str n"
| "py_repr (JFloat t) = t"
| "py_repr (JStr s) = py_repr_str s"
| "py_repr (JArr xs) = ''['' @ join_with '', '' (map py_repr xs) @ '']''"
| "py_repr (JObj d) =
     ''{'' @ join_with '', '' (map (\<lambda>(k, v). py_repr_str k @ '': '' @ py_repr v) d) @ ''}''"

fun py_str :: "json \<Rightarrow> string" where
  "py_str (JStr s) = s"
| "py_str v = py_repr v"

text \<open>The truth value of a JSON value.\<close>

fun json_truthy :: "json \<Rightarrow> bool" where
  "json_truthy JNull = False"
| "json_truthy (JBool b) = b"
| "json_truthy (JInt n) = (n \<noteq> 0)"
| "json_truthy (JFloat t) = (t \<noteq> ''0.0'' \<and> t \<noteq> ''-0.0'')"
| "json_truthy (JStr t) = (t \<noteq> [])"
| "json_truthy (JArr xs) = (xs \<noteq> [])"
| "json_truthy (JObj d) = (d \<noteq> [])"

section \<open>Normalised identifiers and actors\<close>

definition MAX_IDEMPOTENCY_KEY_LENGTH :: nat where
  "MAX_IDEMPOTENCY_KEY_LENGTH = 128"

definition contains_control_character :: "string \<Rightarrow> bool" where
  "contains_control_character value =
     list_ex (\<lambda>c. (of_char c :: nat) < 32 \<or> (of_char c :: nat) = 127) value"

definition normalize_optional_idempotency_key :: "string option \<Rightarrow> string option" where
  "normalize_optional_idempotency_key key =
     (case key of
        None \<Rightarrow> None
      | Some k \<Rightarrow>
          (let normalized = py_strip k in
           if normalized = [] \<or> MAX_IDEMPOTENCY_KEY_LENGTH < length normalized
              \<or> contains_control_character normalized
           then None else Some normalized))"

definition normalize_required_idempotency_key :: "string option \<Rightarrow> string + string" where
  "normalize_required_idempotency_key key =
     (case normalize_optional_idempotency_key key of
        None \<Rightarrow> Inl ''IDEMPOTENCY_KEY_REQUIRED''
      | Some k \<Rightarrow> Inr k)"

definition normalize_required_actor_id :: "string \<Rightarrow> string \<Rightarrow> string + string" where
  "normalize_required_actor_id value error_code =
     (let normalized = py_strip value in
      if normalized = [] then Inl error_code else Inr normalized)"

text \<open>\<open>value.split()\<close>: the maximal runs of characters that are not white space.\<close>

fun py_split_aux :: "string \<Rightarrow> string \<Rightarrow> string list" where
  "py_split_aux acc [] = (if acc = [] then [] else [rev acc])"
| "py_split_aux acc (c # cs) =
     (if py_space c then (if acc = [] then py_split_aux [] cs else rev acc # py_split_aux [] cs)
      else py_split_aux (c # acc) cs)"

definition py_split :: "string \<Rightarrow> string list" where
  "py_split s = py_split_aux [] s"

definition normalize_optional_support_note :: "string option \<Rightarrow> string option" where
  "normalize_optional_support_note value =
     (case value of
        None \<Rightarrow> None
      | Some v \<Rightarrow>
          (let normalized = join_with '' '' (py_split v) in
           if normalized = [] then None else Some normalized))"

end
