(* ===== verification/Workflow_Rules.thy ===== *)
theory Workflow_Rules
  imports Canonical_Json
begin

text \<open>
  The proposal workflow state machine of src/core/proposals/workflow_rules.py over the contract
  types of src/core/proposals/contract_types.py, with the expected-state check
  (concurrency.py), the lifecycle-origin check (lifecycle.py) and the wrappers that map rule
  errors to the errors of exceptions.py (command_validation.py).

  States, events and statuses are enumerations; a member whose name is used by two contract
  types carries the suffix of its type (\<open>REJECTED_ev\<close> is the event \<open>"REJECTED"\<close>). The rule
  tables are association lists, searched as the code's dictionaries are.
\<close>

section \<open>Contract types\<close>

datatype workflow_state =
    DRAFT | RISK_REVIEW | COMPLIANCE_REVIEW | AWAITING_CLIENT_CONSENT | EXECUTION_READY
  | EXECUTED | REJECTED | CANCELLED | EXPIRED

datatype workflow_event_type =
    CREATED | NEW_VERSION_CREATED | SUBMITTED_FOR_RISK_REVIEW | RISK_APPROVED
  | SUBMITTED_FOR_COMPLIANCE_REVIEW | COMPLIANCE_APPROVED | CLIENT_CONSENT_RECORDED
  | EXECUTION_REQUESTED | EXECUTION_ACCEPTED | EXECUTION_PARTIALLY_EXECUTED
  | EXECUTION_REJECTED | EXECUTION_CANCELLED | EXECUTION_EXPIRED | NARRATIVE_REVIEWED
  | REPORT_REQUESTED | EXECUTED_ev | REJECTED_ev | EXPIRED_ev | CANCELLED_ev

datatype approval_type = RISK | COMPLIANCE | CLIENT_CONSENT

datatype creation_status = READY | PENDING_REVIEW | BLOCKED

fun creation_status_name :: "creation_status \<Rightarrow> string" where
  "creation_status_name READY = ''READY''"
| "creation_status_name PENDING_REVIEW = ''PENDING_REVIEW''"
| "creation_status_name BLOCKED = ''BLOCKED''"

datatype async_operation_type = CREATE_PROPOSAL | CREATE_PROPOSAL_VERSION

datatype async_operation_status = PENDING | RUNNING | SUCCEEDED | FAILED

datatype lifecycle_origin = DIRECT_CREATE | WORKSPACE_HANDOFF

datatype handoff_status =
    NOT_REQUESTED | REQUESTED | ACCEPTED | PARTIALLY_EXECUTED | EXECUTED_hs | REJECTED_hs
  | CANCELLED_hs | EXPIRED_hs

datatype update_status =
    ACCEPTED_us | PARTIALLY_EXECUTED_us | REJECTED_us | CANCELLED_us | EXPIRED_us | EXECUTED_us

text \<open>The wire names of the members, as they appear in the JSON of a request.\<close>

fun state_name :: "workflow_state \<Rightarrow> string" where
  "state_name DRAFT = ''DRAFT''"
| "state_name RISK_REVIEW = ''RISK_REVIEW''"
| "state_name COMPLIANCE_REVIEW = ''COMPLIANCE_REVIEW''"
| "state_name AWAITING_CLIENT_CONSENT = ''AWAITING_CLIENT_CONSENT''"
| "state_name EXECUTION_READY = ''EXECUTION_READY''"
| "state_name EXECUTED = ''EXECUTED''"
| "state_name REJECTED = ''REJECTED''"
| "state_name CANCELLED = ''CANCELLED''"
| "state_name EXPIRED = ''EXPIRED''"

fun event_type_name :: "workflow_event_type \<Rightarrow> string" where
  "event_type_name CREATED = ''CREATED''"
| "event_type_name NEW_VERSION_CREATED = ''NEW_VERSION_CREATED''"
| "event_type_name SUBMITTED_FOR_RISK_REVIEW = ''SUBMITTED_FOR_RISK_REVIEW''"
| "event_type_name RISK_APPROVED = ''RISK_APPROVED''"
| "event_type_name SUBMITTED_FOR_COMPLIANCE_REVIEW = ''SUBMITTED_FOR_COMPLIANCE_REVIEW''"
| "event_type_name COMPLIANCE_APPROVED = ''COMPLIANCE_APPROVED''"
| "event_type_name CLIENT_CONSENT_RECORDED = ''CLIENT_CONSENT_RECORDED''"
| "event_type_name EXECUTION_REQUESTED = ''EXECUTION_REQUESTED''"
| "event_type_name EXECUTION_ACCEPTED = ''EXECUTION_ACCEPTED''"
| "event_type_name EXECUTION_PARTIALLY_EXECUTED = ''EXECUTION_PARTIALLY_EXECUTED''"
| "event_type_name EXECUTION_REJECTED = ''EXECUTION_REJECTED''"
| "event_type_name EXECUTION_CANCELLED = ''EXECUTION_CANCELLED''"
| "event_type_name EXECUTION_EXPIRED = ''EXECUTION_EXPIRED''"
| "event_type_name NARRATIVE_REVIEWED = ''NARRATIVE_REVIEWED''"
| "event_type_name REPORT_REQUESTED = ''REPORT_REQUESTED''"
| "event_type_name EXECUTED_ev = ''EXECUTED''"
| "event_type_name REJECTED_ev = ''REJECTED''"
| "event_type_name EXPIRED_ev = ''EXPIRED''"
| "event_type_name CANCELLED_ev = ''CANCELLED''"

fun approval_type_name :: "approval_type \<Rightarrow> string" where
  "approval_type_name RISK = ''RISK''"
| "approval_type_name COMPLIANCE = ''COMPLIANCE''"
| "approval_type_name CLIENT_CONSENT = ''CLIENT_CONSENT''"

fun update_status_name :: "update_status \<Rightarrow> string" where
  "update_status_name ACCEPTED_us = ''ACCEPTED''"
| "update_status_name PARTIALLY_EXECUTED_us = ''PARTIALLY_EXECUTED''"
| "update_status_name REJECTED_us = ''REJECTED''"
| "update_status_name CANCELLED_us = ''CANCELLED''"
| "update_status_name EXPIRED_us = ''EXPIRED''"
| "update_status_name EXECUTED_us = ''EXECUTED''"

section \<open>Errors\<close>

text \<open>
  The exceptions of exceptions.py with their message, the two Python exceptions that a
  command can let through (\<open>datetime.fromisoformat\<close> and the comparison of naive and aware
  timestamps), and any other exception by its class name and message.
\<close>

datatype proposal_error =
    ProposalLifecycleError string
  | ProposalNotFoundError string
  | ProposalValidationError string
  | ProposalIdempotencyConflictError string
  | ProposalStateConflictError string
  | ProposalTransitionError string
  | PyValueError string
  | PyTypeError string
  | PyException string string

section \<open>The rule tables\<close>

definition TERMINAL_STATES :: "workflow_state list" where
  "TERMINAL_STATES = [EXECUTED, REJECTED, CANCELLED, EXPIRED]"

definition TRANSITION_MAP :: "((workflow_state \<times> workflow_event_type) \<times> workflow_state) list" where
  "TRANSITION_MAP =
     [((DRAFT, SUBMITTED_FOR_RISK_REVIEW), RISK_REVIEW),
      ((DRAFT, SUBMITTED_FOR_COMPLIANCE_REVIEW), COMPLIANCE_REVIEW),
      ((RISK_REVIEW, RISK_APPROVED), AWAITING_CLIENT_CONSENT),
      ((RISK_REVIEW, REJECTED_ev), REJECTED),
      ((COMPLIANCE_REVIEW, COMPLIANCE_APPROVED), AWAITING_CLIENT_CONSENT),
      ((COMPLIANCE_REVIEW, REJECTED_ev), REJECTED),
      ((AWAITING_CLIENT_CONSENT, CLIENT_CONSENT_RECORDED), EXECUTION_READY),
      ((AWAITING_CLIENT_CONSENT, REJECTED_ev), REJECTED),
      ((EXECUTION_READY, EXECUTION_REQUESTED), EXECUTION_READY),
      ((EXECUTION_READY, EXECUTED_ev), EXECUTED),
      ((EXECUTION_READY, EXPIRED_ev), EXPIRED)]"

definition EXECUTION_STATUS_EVENT_TYPES :: "workflow_event_type list" where
  "EXECUTION_STATUS_EVENT_TYPES =
     [EXECUTION_REQUESTED, EXECUTION_ACCEPTED, EXECUTION_PARTIALLY_EXECUTED, EXECUTION_REJECTED,
      EXECUTION_CANCELLED, EXECUTION_EXPIRED, EXECUTED_ev]"

definition EXECUTION_UPDATE_EVENT_MAP ::
  "(update_status \<times> (workflow_event_type \<times> workflow_state)) list" where
  "EXECUTION_UPDATE_EVENT_MAP =
     [(ACCEPTED_us, (EXECUTION_ACCEPTED, EXECUTION_READY)),
      (PARTIALLY_EXECUTED_us, (EXECUTION_PARTIALLY_EXECUTED, EXECUTION_READY)),
      (REJECTED_us, (EXECUTION_REJECTED, REJECTED)),
      (CANCELLED_us, (EXECUTION_CANCELLED, CANCELLED)),
      (EXPIRED_us, (EXECUTION_EXPIRED, EXPIRED)),
      (EXECUTED_us, (EXECUTED_ev, EXECUTED))]"

definition EXECUTION_STATUS_BY_EVENT_TYPE :: "(workflow_event_type \<times> handoff_status) list" where
  "EXECUTION_STATUS_BY_EVENT_TYPE =
     [(EXECUTION_REQUESTED, REQUESTED),
      (EXECUTION_ACCEPTED, ACCEPTED),
      (EXECUTION_PARTIALLY_EXECUTED, PARTIALLY_EXECUTED),
      (EXECUTION_REJECTED, REJECTED_hs),
      (EXECUTION_CANCELLED, CANCELLED_hs),
      (EXECUTION_EXPIRED, EXPIRED_hs),
      (EXECUTED_ev, EXECUTED_hs)]"

definition EXECUTION_STATE_CORRELATION_BY_STATUS :: "(handoff_status \<times> string) list" where
  "EXECUTION_STATE_CORRELATION_BY_STATUS =
     [(REQUESTED, ''EXECUTION_REQUESTED_EVENT''),
      (ACCEPTED, ''EXECUTION_REQUESTED_AND_ACCEPTED_EVENTS''),
      (PARTIALLY_EXECUTED, ''EXECUTION_REQUESTED_AND_PARTIAL_EXECUTION_EVENTS''),
      (EXECUTED_hs, ''EXECUTION_REQUESTED_AND_EXECUTED_EVENTS''),
      (REJECTED_hs, ''EXECUTION_REQUESTED_AND_REJECTED_EVENTS''),
      (CANCELLED_hs, ''EXECUTION_REQUESTED_AND_CANCELLED_EVENTS''),
      (EXPIRED_hs, ''EXECUTION_REQUESTED_AND_EXPIRED_EVENTS'')]"

definition APPROVAL_TRANSITION_RULES ::
  "(approval_type \<times> (workflow_state \<times> workflow_event_type \<times> workflow_state)) list" where
  "APPROVAL_TRANSITION_RULES =
     [(RISK, (RISK_REVIEW, RISK_APPROVED, AWAITING_CLIENT_CONSENT)),
      (COMPLIANCE, (COMPLIANCE_REVIEW, COMPLIANCE_APPROVED, AWAITING_CLIENT_CONSENT)),
      (CLIENT_CONSENT, (AWAITING_CLIENT_CONSENT, CLIENT_CONSENT_RECORDED, EXECUTION_READY))]"

section \<open>The rules\<close>

definition resolve_transition_state ::
  "workflow_state \<Rightarrow> workflow_event_type \<Rightarrow> string + workflow_state" where
  "resolve_transition_state current_state event_type =
     (if event_type = CANCELLED_ev \<and> current_state \<notin> set TERMINAL_STATES then Inr CANCELLED
      else case map_of TRANSITION_MAP (current_state, event_type) of
             None \<Rightarrow> Inl ''INVALID_TRANSITION''
           | Some next_state \<Rightarrow> Inr next_state)"

definition resolve_approval_transition ::
  "workflow_state \<Rightarrow> approval_type \<Rightarrow> bool \<Rightarrow> string + (workflow_event_type \<times> workflow_state)" where
  "resolve_approval_transition current_state approval_type approved =
     (case map_of APPROVAL_TRANSITION_RULES approval_type of
        None \<Rightarrow> Inl ''INVALID_APPROVAL_TYPE''
      | Some (required_state, approved_event_type, approved_next_state) \<Rightarrow>
          if current_state \<noteq> required_state then Inl ''INVALID_APPROVAL_STATE''
          else if \<not> approved then Inr (REJECTED_ev, REJECTED)
          else Inr (approved_event_type, approved_next_state))"

text \<open>\<open>EXECUTION_UPDATE_EVENT_MAP[update_status]\<close>: a missing key is a \<open>KeyError\<close>.\<close>

definition resolve_execution_update_event ::
  "update_status \<Rightarrow> string + (workflow_event_type \<times> workflow_state)" where
  "resolve_execution_update_event update_status =
     (case map_of EXECUTION_UPDATE_EVENT_MAP update_status of
        None \<Rightarrow> Inl ''KeyError''
      | Some r \<Rightarrow> Inr r)"

definition execution_status_for_event :: "workflow_event_type \<Rightarrow> handoff_status" where
  "execution_status_for_event event_type =
     (case map_of EXECUTION_STATUS_BY_EVENT_TYPE event_type of
        None \<Rightarrow> NOT_REQUESTED | Some st \<Rightarrow> st)"

definition execution_state_correlation :: "handoff_status \<Rightarrow> string" where
  "execution_state_correlation handoff_status =
     (case map_of EXECUTION_STATE_CORRELATION_BY_STATUS handoff_status of
        None \<Rightarrow> ''NO_EXECUTION_EVENTS_RECORDED'' | Some c \<Rightarrow> c)"

definition validate_expected_state ::
  "workflow_state \<Rightarrow> workflow_state option \<Rightarrow> bool \<Rightarrow> string + unit" where
  "validate_expected_state current_state expected_state require_expected_state =
     (if expected_state = None \<and> require_expected_state
        then Inl ''STATE_CONFLICT: expected_state is required''
      else if expected_state \<noteq> None \<and> expected_state \<noteq> Some current_state
        then Inl ''STATE_CONFLICT: expected_state mismatch''
      else Inr ())"

definition validate_lifecycle_origin :: "lifecycle_origin \<Rightarrow> string option \<Rightarrow> string + unit" where
  "validate_lifecycle_origin origin source_workspace_id =
     (if origin = WORKSPACE_HANDOFF \<and> \<not> truthy source_workspace_id
        then Inl ''WORKSPACE_HANDOFF_SOURCE_WORKSPACE_ID_REQUIRED''
      else if origin = DIRECT_CREATE \<and> source_workspace_id \<noteq> None
        then Inl ''DIRECT_CREATE_CANNOT_INCLUDE_SOURCE_WORKSPACE_ID''
      else Inr ())"

definition validate_proposal_expected_state ::
  "workflow_state \<Rightarrow> workflow_state option \<Rightarrow> bool \<Rightarrow> proposal_error + unit" where
  "validate_proposal_expected_state current_state expected_state require_expected_state =
     rmap_error ProposalStateConflictError
       (validate_expected_state current_state expected_state require_expected_state)"

definition resolve_proposal_transition_state ::
  "workflow_state \<Rightarrow> workflow_event_type \<Rightarrow> proposal_error + workflow_state" where
  "resolve_proposal_transition_state current_state event_type =
     rmap_error ProposalTransitionError (resolve_transition_state current_state event_type)"

definition resolve_proposal_approval_transition ::
  "workflow_state \<Rightarrow> approval_type \<Rightarrow> bool \<Rightarrow> proposal_error + (workflow_event_type \<times> workflow_state)"
  where
  "resolve_proposal_approval_transition current_state approval_type approved =
     rmap_error ProposalTransitionError
       (resolve_approval_transition current_state approval_type approved)"

section \<open>What the rules allow\<close>

text \<open>
  The state graph as a relation: one rule per row of the workflow specification
  (docs/rfcs/RFC-0013, section 7.2), with the event that drives it. It is the abstract
  specification of the transition table.
\<close>

inductive lifecycle_edge :: "workflow_state \<Rightarrow> workflow_event_type \<Rightarrow> workflow_state \<Rightarrow> bool" where
  submit_risk: "lifecycle_edge DRAFT SUBMITTED_FOR_RISK_REVIEW RISK_REVIEW"
| submit_compliance: "lifecycle_edge DRAFT SUBMITTED_FOR_COMPLIANCE_REVIEW COMPLIANCE_REVIEW"
| approve_risk: "lifecycle_edge RISK_REVIEW RISK_APPROVED AWAITING_CLIENT_CONSENT"
| approve_compliance: "lifecycle_edge COMPLIANCE_REVIEW COMPLIANCE_APPROVED AWAITING_CLIENT_CONSENT"
| reject: "s \<in> {RISK_REVIEW, COMPLIANCE_REVIEW, AWAITING_CLIENT_CONSENT} \<Longrightarrow>
    lifecycle_edge s REJECTED_ev REJECTED"
| consent: "lifecycle_edge AWAITING_CLIENT_CONSENT CLIENT_CONSENT_RECORDED EXECUTION_READY"
| handoff: "lifecycle_edge EXECUTION_READY EXECUTION_REQUESTED EXECUTION_READY"
| execute: "lifecycle_edge EXECUTION_READY EXECUTED_ev EXECUTED"
| expire: "lifecycle_edge EXECUTION_READY EXPIRED_ev EXPIRED"
| cancel: "s \<notin> {EXECUTED, REJECTED, CANCELLED, EXPIRED} \<Longrightarrow> lifecycle_edge s CANCELLED_ev CANCELLED"

inductive_cases lifecycle_edgeE: "lifecycle_edge s e t"
inductive_simps lifecycle_edge_into_ready: "lifecycle_edge s e EXECUTION_READY"

lemmas rule_tables = TERMINAL_STATES_def TRANSITION_MAP_def EXECUTION_STATUS_EVENT_TYPES_def
  EXECUTION_UPDATE_EVENT_MAP_def EXECUTION_STATUS_BY_EVENT_TYPE_def APPROVAL_TRANSITION_RULES_def
  EXECUTION_STATE_CORRELATION_BY_STATUS_def

lemma resolve_transition_edge:
  "(resolve_transition_state s e = Inr t) = lifecycle_edge s e t"
  by (cases s; cases e)
    (auto simp: resolve_transition_state_def rule_tables lifecycle_edge.simps)

lemma resolve_approval_edge:
  "resolve_approval_transition s a ok = Inr (e, t) \<Longrightarrow> lifecycle_edge s e t"
  by (cases a; cases ok; cases s)
    (auto simp: resolve_approval_transition_def rule_tables lifecycle_edge.simps)

lemma resolve_approval_total_type:
  "resolve_approval_transition s a ok \<noteq> Inl ''INVALID_APPROVAL_TYPE''"
  by (cases a) (auto simp: resolve_approval_transition_def rule_tables)

lemma resolve_execution_update_total:
  "\<exists>e t. resolve_execution_update_event u = Inr (e, t)"
  by (cases u) (auto simp: resolve_execution_update_event_def rule_tables)

lemma resolve_execution_update_target:
  "resolve_execution_update_event u = Inr (e, t) \<Longrightarrow>
     t = EXECUTION_READY \<or> t \<in> set TERMINAL_STATES"
  by (cases u) (auto simp: resolve_execution_update_event_def rule_tables)

lemma terminal_no_transition:
  "s \<in> set TERMINAL_STATES \<Longrightarrow> resolve_transition_state s e = Inl ''INVALID_TRANSITION''"
  by (cases e) (auto simp: resolve_transition_state_def rule_tables)

lemma terminal_no_approval:
  "s \<in> set TERMINAL_STATES \<Longrightarrow> \<exists>m. resolve_approval_transition s a ok = Inl m"
  by (cases a) (auto simp: resolve_approval_transition_def rule_tables)

lemma expected_state_ok:
  "validate_proposal_expected_state cur exp req = Inr () \<Longrightarrow> exp = None \<or> exp = Some cur"
  by (auto simp: validate_proposal_expected_state_def validate_expected_state_def
      rmap_error_def split: if_splits)

fun approval_state :: "approval_type \<Rightarrow> workflow_state" where
  "approval_state RISK = RISK_REVIEW"
| "approval_state COMPLIANCE = COMPLIANCE_REVIEW"
| "approval_state CLIENT_CONSENT = AWAITING_CLIENT_CONSENT"

lemma resolve_approval_shape:
  "resolve_approval_transition s a ok = Inr (e, t) \<Longrightarrow>
     s = approval_state a \<and> (\<not> ok \<longrightarrow> t = REJECTED)"
  by (cases a; cases ok) (auto simp: resolve_approval_transition_def rule_tables split: if_splits)

end
