(* ===== verification/Proposal_Records.thy ===== *)
theory Proposal_Records
  imports Workflow_Rules
begin

text \<open>
  The records the proposal repository keeps (src/core/proposals/persistence_models.py,
  memo_persistence_models.py, src/core/advisor_cockpit/persistence.py) and the request models of
  the lifecycle commands (workflow_response_models.py, delivery_execution_models.py) with their
  JSON form, which the request hashes are computed from. A field carries the prefix of its
  record: \<open>pr_\<close> proposal, \<open>pv_\<close> version, \<open>we_\<close> workflow event, \<open>ap_\<close> approval, \<open>ik_\<close>
  idempotency, \<open>sk_\<close> simulation idempotency, \<open>ao_\<close> async operation, \<open>mm_\<close> memo, \<open>mk_\<close> memo
  idempotency, \<open>me_\<close> memo event, \<open>ca_\<close> and \<open>ck_\<close> cockpit acknowledgement.
\<close>

type_synonym json_dict = "(string \<times> json) list"

section \<open>Persisted records\<close>

record proposal_record =
  pr_proposal_id :: string
  pr_portfolio_id :: string
  pr_mandate_id :: "string option"
  pr_jurisdiction :: "string option"
  pr_created_by :: string
  pr_created_at :: timestamp
  pr_last_event_at :: timestamp
  pr_current_state :: workflow_state
  pr_current_version_no :: int
  pr_title :: "string option"
  pr_advisor_notes :: "string option"
  pr_lifecycle_origin :: lifecycle_origin
  pr_source_workspace_id :: "string option"

record proposal_version_record =
  pv_proposal_version_id :: string
  pv_proposal_id :: string
  pv_version_no :: int
  pv_created_at :: timestamp
  pv_request_hash :: string
  pv_artifact_hash :: string
  pv_simulation_hash :: string
  pv_status_at_creation :: creation_status
  pv_proposal_result_json :: json_dict
  pv_artifact_json :: json_dict
  pv_evidence_bundle_json :: json_dict
  pv_gate_decision_json :: "json_dict option"

record workflow_event_record =
  we_event_id :: string
  we_proposal_id :: string
  we_event_type :: workflow_event_type
  we_from_state :: "workflow_state option"
  we_to_state :: workflow_state
  we_actor_id :: string
  we_occurred_at :: timestamp
  we_reason_json :: json_dict
  we_related_version_no :: "int option"

record approval_record =
  ap_approval_id :: string
  ap_proposal_id :: string
  ap_approval_type :: approval_type
  ap_approved :: bool
  ap_actor_id :: string
  ap_occurred_at :: timestamp
  ap_details_json :: json_dict
  ap_related_version_no :: "int option"

record idempotency_record =
  ik_idempotency_key :: string
  ik_request_hash :: string
  ik_proposal_id :: string
  ik_proposal_version_no :: int
  ik_created_at :: timestamp

record simulation_idempotency_record =
  sk_idempotency_key :: string
  sk_request_hash :: string
  sk_response_json :: json_dict
  sk_created_at :: timestamp

record transition_result =
  tr_proposal :: proposal_record
  tr_event :: workflow_event_record
  tr_approval :: "approval_record option"

record async_operation_record =
  ao_operation_id :: string
  ao_operation_type :: async_operation_type
  ao_status :: async_operation_status
  ao_correlation_id :: string
  ao_idempotency_key :: "string option"
  ao_proposal_id :: "string option"
  ao_created_by :: string
  ao_created_at :: timestamp
  ao_payload_json :: json_dict
  ao_attempt_count :: int
  ao_max_attempts :: int
  ao_started_at :: "timestamp option"
  ao_lease_expires_at :: "timestamp option"
  ao_finished_at :: "timestamp option"
  ao_result_json :: "json_dict option"
  ao_error_json :: "json_dict option"

datatype memo_lifecycle_status = MEMO_DRAFT | MEMO_FINALIZED_st

datatype memo_event_type =
    MEMO_DRAFT_CREATED | MEMO_FINALIZED | MEMO_REVIEW_RECORDED | MEMO_REPORT_PACKAGE_RECORDED
  | MEMO_ARCHIVE_RECORDED | MEMO_AI_REFERENCE_RECORDED

record memo_record =
  mm_memo_id :: string
  mm_proposal_id :: string
  mm_proposal_version_no :: int
  mm_proposal_version_id :: "string option"
  mm_artifact_id :: "string option"
  mm_memo_version :: string
  mm_memo_status :: string
  mm_lifecycle_status :: memo_lifecycle_status
  mm_created_by :: string
  mm_created_at :: timestamp
  mm_source_input_hash :: string
  mm_memo_hash :: string
  mm_memo_json :: json_dict
  mm_projection_json :: json_dict
  mm_review_events_json :: "json_dict list"
  mm_report_package_events_json :: "json_dict list"
  mm_archive_refs_json :: "json_dict list"
  mm_ai_refs_json :: "json_dict list"
  mm_replay_metadata_json :: json_dict

record memo_idempotency_record =
  mk_idempotency_key :: string
  mk_request_hash :: string
  mk_memo_id :: string
  mk_proposal_id :: string
  mk_proposal_version_no :: int
  mk_created_at :: timestamp

record memo_event_record =
  me_event_id :: string
  me_memo_id :: string
  me_proposal_id :: string
  me_proposal_version_no :: int
  me_event_type :: memo_event_type
  me_actor_id :: string
  me_occurred_at :: timestamp
  me_reason_json :: json_dict

record cockpit_acknowledgement_record =
  ca_acknowledgement_id :: string
  ca_action_item_id :: string
  ca_action_item_version :: int
  ca_acknowledged_by :: string
  ca_acknowledged_at :: timestamp
  ca_acknowledgement_note :: "string option"
  ca_correlation_id :: "string option"
  ca_reason_json :: json_dict

record cockpit_acknowledgement_idempotency_record =
  ck_idempotency_key :: string
  ck_request_hash :: string
  ck_acknowledgement_id :: string
  ck_action_item_id :: string
  ck_created_at :: timestamp

section \<open>Command payloads\<close>

record state_transition_request =
  tq_event_type :: workflow_event_type
  tq_actor_id :: string
  tq_related_version_no :: "int option"
  tq_reason :: json_dict
  tq_expected_state :: "workflow_state option"

record approval_request =
  aq_approval_type :: approval_type
  aq_approved :: bool
  aq_actor_id :: string
  aq_related_version_no :: "int option"
  aq_details :: json_dict
  aq_expected_state :: "workflow_state option"

record execution_handoff_request =
  hq_actor_id :: string
  hq_execution_provider :: string
  hq_related_version_no :: "int option"
  hq_expected_state :: "workflow_state option"
  hq_correlation_id :: "string option"
  hq_external_request_id :: "string option"
  hq_notes :: json_dict

record execution_update_request =
  uq_update_id :: string
  uq_actor_id :: string
  uq_execution_request_id :: string
  uq_execution_provider :: string
  uq_update_status :: update_status
  uq_related_version_no :: "int option"
  uq_external_execution_id :: "string option"
  uq_occurred_at :: "string option"
  uq_details :: json_dict

text \<open>\<open>payload.model_dump(mode="json")\<close>, field by field in declaration order.\<close>

definition opt_state :: "workflow_state option \<Rightarrow> json" where
  "opt_state s = opt_str (map_option state_name s)"

definition state_transition_request_json :: "state_transition_request \<Rightarrow> json" where
  "state_transition_request_json q = JObj
     [(''event_type'', JStr (event_type_name (tq_event_type q))),
      (''actor_id'', JStr (tq_actor_id q)),
      (''related_version_no'', opt_int (tq_related_version_no q)),
      (''reason'', JObj (tq_reason q)),
      (''expected_state'', opt_state (tq_expected_state q))]"

definition approval_request_json :: "approval_request \<Rightarrow> json" where
  "approval_request_json q = JObj
     [(''approval_type'', JStr (approval_type_name (aq_approval_type q))),
      (''approved'', JBool (aq_approved q)),
      (''actor_id'', JStr (aq_actor_id q)),
      (''related_version_no'', opt_int (aq_related_version_no q)),
      (''details'', JObj (aq_details q)),
      (''expected_state'', opt_state (aq_expected_state q))]"

definition execution_handoff_request_json :: "execution_handoff_request \<Rightarrow> json" where
  "execution_handoff_request_json q = JObj
     [(''actor_id'', JStr (hq_actor_id q)),
      (''execution_provider'', JStr (hq_execution_provider q)),
      (''related_version_no'', opt_int (hq_related_version_no q)),
      (''expected_state'', opt_state (hq_expected_state q)),
      (''correlation_id'', opt_str (hq_correlation_id q)),
      (''external_request_id'', opt_str (hq_external_request_id q)),
      (''notes'', JObj (hq_notes q))]"

definition execution_update_request_json :: "execution_update_request \<Rightarrow> json" where
  "execution_update_request_json q = JObj
     [(''update_id'', JStr (uq_update_id q)),
      (''actor_id'', JStr (uq_actor_id q)),
      (''execution_request_id'', JStr (uq_execution_request_id q)),
      (''execution_provider'', JStr (uq_execution_provider q)),
      (''update_status'', JStr (update_status_name (uq_update_status q))),
      (''related_version_no'', opt_int (uq_related_version_no q)),
      (''external_execution_id'', opt_str (uq_external_execution_id q)),
      (''occurred_at'', opt_str (uq_occurred_at q)),
      (''details'', JObj (uq_details q))]"

end
