(* ===== verification/Repository_Queries.thy ===== *)
theory Repository_Queries
  imports Proposal_Records
begin

text \<open>
  The pure queries of the in-memory repository (src/infrastructure/proposals/in_memory_query.py):
  the filtered, cursor-paged proposal list, the ordered memo, event, approval and version lists,
  and the selection of recoverable async operations.
\<close>

section \<open>The proposal page\<close>

definition proposal_matches_portfolio :: "proposal_record \<Rightarrow> string option \<Rightarrow> bool" where
  "proposal_matches_portfolio row portfolio_id =
     (case portfolio_id of None \<Rightarrow> True | Some p \<Rightarrow> pr_portfolio_id row = p)"

definition proposal_matches_state :: "proposal_record \<Rightarrow> string option \<Rightarrow> bool" where
  "proposal_matches_state row st =
     (case st of None \<Rightarrow> True | Some s \<Rightarrow> state_name (pr_current_state row) = s)"

definition proposal_matches_creator :: "proposal_record \<Rightarrow> string option \<Rightarrow> bool" where
  "proposal_matches_creator row created_by =
     (case created_by of None \<Rightarrow> True | Some c \<Rightarrow> pr_created_by row = c)"

definition proposal_created_on_or_after :: "proposal_record \<Rightarrow> timestamp option \<Rightarrow> bool" where
  "proposal_created_on_or_after row created_from =
     (case created_from of None \<Rightarrow> True | Some t \<Rightarrow> t \<le> pr_created_at row)"

definition proposal_created_on_or_before :: "proposal_record \<Rightarrow> timestamp option \<Rightarrow> bool" where
  "proposal_created_on_or_before row created_to =
     (case created_to of None \<Rightarrow> True | Some t \<Rightarrow> pr_created_at row \<le> t)"

record proposal_filter =
  pf_portfolio_id :: "string option"
  pf_state :: "string option"
  pf_created_by :: "string option"
  pf_created_from :: "timestamp option"
  pf_created_to :: "timestamp option"

definition proposal_matches_filters :: "proposal_record \<Rightarrow> proposal_filter \<Rightarrow> bool" where
  "proposal_matches_filters row f =
     (proposal_matches_portfolio row (pf_portfolio_id f) \<and>
      proposal_matches_state row (pf_state f) \<and>
      proposal_matches_creator row (pf_created_by f) \<and>
      proposal_created_on_or_after row (pf_created_from f) \<and>
      proposal_created_on_or_before row (pf_created_to f))"

fun proposal_cursor_index_from :: "nat \<Rightarrow> proposal_record list \<Rightarrow> string \<Rightarrow> nat option" where
  "proposal_cursor_index_from i [] cursor = None"
| "proposal_cursor_index_from i (row # rows) cursor =
     (if pr_proposal_id row = cursor then Some i
      else proposal_cursor_index_from (Suc i) rows cursor)"

definition proposal_cursor_index :: "proposal_record list \<Rightarrow> string \<Rightarrow> nat option" where
  "proposal_cursor_index rows cursor = proposal_cursor_index_from 0 rows cursor"

definition apply_proposal_cursor :: "proposal_record list \<Rightarrow> string option \<Rightarrow> proposal_record list" where
  "apply_proposal_cursor rows cursor =
     (case cursor of
        None \<Rightarrow> rows
      | Some c \<Rightarrow>
          if c = [] then rows
          else (case proposal_cursor_index rows c of
                  None \<Rightarrow> rows
                | Some i \<Rightarrow> drop (i + 1) rows))"

definition next_page_cursor ::
  "proposal_record list \<Rightarrow> proposal_record list \<Rightarrow> int \<Rightarrow> string option" where
  "next_page_cursor filtered page limit =
     (if int (length filtered) \<le> limit \<or> page = [] then None
      else Some (pr_proposal_id (last page)))"

definition proposal_sort_key :: "proposal_record \<Rightarrow> timestamp \<times> string" where
  "proposal_sort_key row = (pr_created_at row, pr_proposal_id row)"

definition matching_proposals :: "proposal_record list \<Rightarrow> proposal_filter \<Rightarrow> proposal_record list" where
  "matching_proposals rows f =
     filter (\<lambda>row. proposal_matches_filters row f) (sort_key_desc proposal_sort_key rows)"

definition filtered_proposal_page ::
  "proposal_record list \<Rightarrow> proposal_filter \<Rightarrow> int \<Rightarrow> string option \<Rightarrow>
   proposal_record list \<times> string option" where
  "filtered_proposal_page rows f limit cursor =
     (let filtered = apply_proposal_cursor (matching_proposals rows f) cursor;
          page = py_take limit filtered
      in (page, next_page_cursor filtered page limit))"

section \<open>Ordered lists\<close>

text \<open>\<open>{proposal_id: index for index, proposal_id in enumerate(proposal_ids)}[pid]\<close>: of a repeated
  identifier the last position counts.\<close>

definition id_order :: "string list \<Rightarrow> string \<Rightarrow> nat" where
  "id_order ids pid =
     (case map_of (rev (zip ids [0..<length ids])) pid of None \<Rightarrow> 0 | Some i \<Rightarrow> i)"

definition ordered_memos_for_proposal :: "memo_record list \<Rightarrow> string \<Rightarrow> memo_record list" where
  "ordered_memos_for_proposal memos proposal_id =
     sort_key (\<lambda>m. (mm_proposal_version_no m, mm_created_at m, mm_memo_id m))
       (filter (\<lambda>m. mm_proposal_id m = proposal_id) memos)"

definition ordered_memos_for_proposals :: "memo_record list \<Rightarrow> string list \<Rightarrow> memo_record list" where
  "ordered_memos_for_proposals memos proposal_ids =
     (if proposal_ids = [] then []
      else sort_key (\<lambda>m. (id_order proposal_ids (mm_proposal_id m), mm_proposal_version_no m,
                          mm_created_at m, mm_memo_id m))
             (filter (\<lambda>m. mm_proposal_id m \<in> set proposal_ids) memos))"

definition ordered_memo_events :: "memo_event_record list \<Rightarrow> memo_event_record list" where
  "ordered_memo_events events = sort_key (\<lambda>e. (me_occurred_at e, me_event_id e)) events"

definition ordered_events_for_proposals ::
  "workflow_event_record list list \<Rightarrow> string list \<Rightarrow> workflow_event_record list" where
  "ordered_events_for_proposals event_groups proposal_ids =
     (if proposal_ids = [] then []
      else sort_key (\<lambda>e. (id_order proposal_ids (we_proposal_id e), we_occurred_at e, we_event_id e))
             (filter (\<lambda>e. we_proposal_id e \<in> set proposal_ids) (concat event_groups)))"

definition ordered_approvals_for_proposals ::
  "approval_record list list \<Rightarrow> string list \<Rightarrow> approval_record list" where
  "ordered_approvals_for_proposals approval_groups proposal_ids =
     (if proposal_ids = [] then []
      else sort_key (\<lambda>a. (id_order proposal_ids (ap_proposal_id a), ap_occurred_at a,
                          ap_approval_id a))
             (filter (\<lambda>a. ap_proposal_id a \<in> set proposal_ids) (concat approval_groups)))"

definition ordered_versions_for_proposal ::
  "proposal_version_record list \<Rightarrow> string \<Rightarrow> proposal_version_record list" where
  "ordered_versions_for_proposal versions proposal_id =
     sort_key pv_version_no (filter (\<lambda>v. pv_proposal_id v = proposal_id) versions)"

definition current_version_for_proposal ::
  "proposal_version_record list \<Rightarrow> string \<Rightarrow> proposal_version_record option" where
  "current_version_for_proposal versions proposal_id =
     (case sort_key_desc pv_version_no (filter (\<lambda>v. pv_proposal_id v = proposal_id) versions) of
        [] \<Rightarrow> None
      | v # _ \<Rightarrow> Some v)"

section \<open>Async operations\<close>

definition operation_is_pending :: "async_operation_record \<Rightarrow> bool" where
  "operation_is_pending operation = (ao_status operation = PENDING)"

definition running_operation_lease_has_expired :: "async_operation_record \<Rightarrow> timestamp \<Rightarrow> bool" where
  "running_operation_lease_has_expired operation as_of =
     (ao_status operation = RUNNING \<and> ao_finished_at operation = None \<and>
      (case ao_lease_expires_at operation of None \<Rightarrow> False | Some t \<Rightarrow> t \<le> as_of))"

definition operation_is_recoverable :: "async_operation_record \<Rightarrow> timestamp \<Rightarrow> bool" where
  "operation_is_recoverable operation as_of =
     (operation_is_pending operation \<or> running_operation_lease_has_expired operation as_of)"

definition non_positive_limit :: "int option \<Rightarrow> bool" where
  "non_positive_limit limit = (case limit of None \<Rightarrow> False | Some n \<Rightarrow> n \<le> 0)"

definition limited_records :: "'a list \<Rightarrow> int option \<Rightarrow> 'a list" where
  "limited_records records limit = (case limit of None \<Rightarrow> records | Some n \<Rightarrow> py_take n records)"

definition recoverable_operation_rows ::
  "async_operation_record list \<Rightarrow> timestamp \<Rightarrow> async_operation_record list" where
  "recoverable_operation_rows operations as_of =
     filter (\<lambda>operation. operation_is_recoverable operation as_of) operations"

definition operation_sort_key :: "async_operation_record \<Rightarrow> timestamp \<times> string" where
  "operation_sort_key operation = (ao_created_at operation, ao_operation_id operation)"

definition recoverable_operations ::
  "async_operation_record list \<Rightarrow> timestamp \<Rightarrow> int option \<Rightarrow> async_operation_record list" where
  "recoverable_operations operations as_of limit =
     (if non_positive_limit limit then []
      else limited_records
             (sort_key operation_sort_key (recoverable_operation_rows operations as_of)) limit)"

definition control_operations ::
  "async_operation_record list \<Rightarrow> int option \<Rightarrow> async_operation_record list" where
  "control_operations operations limit =
     (if non_positive_limit limit then []
      else limited_records
             (sort_key operation_sort_key
                (filter (\<lambda>operation. ao_status operation \<in> {PENDING, RUNNING, FAILED}) operations))
             limit)"

section \<open>Paging loses and repeats nothing\<close>

lemma distinct_matching [simp]: "distinct rows \<Longrightarrow> distinct (matching_proposals rows f)"
  by (simp add: matching_proposals_def)

lemma set_matching:
  "set (matching_proposals rows f) = {row \<in> set rows. proposal_matches_filters row f}"
  by (auto simp: matching_proposals_def)

lemma cursor_index_from_spec:
  "distinct (map pr_proposal_id rows) \<Longrightarrow> i < length rows \<Longrightarrow>
   proposal_cursor_index_from k rows (pr_proposal_id (rows ! i)) = Some (k + i)"
proof (induction rows arbitrary: i k)
  case Nil
  then show ?case by simp
next
  case (Cons row rows)
  show ?case
  proof (cases i)
    case 0
    then show ?thesis by simp
  next
    case (Suc j)
    with Cons.prems have "pr_proposal_id row \<noteq> pr_proposal_id (rows ! j)"
      by (metis Suc_less_eq distinct.simps(2) length_Cons list.simps(9) nth_mem image_eqI list.set_map)
    with Suc Cons show ?thesis by simp
  qed
qed

lemma cursor_after_prefix:
  assumes "distinct (map pr_proposal_id (xs @ ys))" and "xs \<noteq> []"
    and "pr_proposal_id (last xs) \<noteq> []"
  shows "apply_proposal_cursor (xs @ ys) (Some (pr_proposal_id (last xs))) = ys"
proof -
  let ?i = "length xs - 1"
  have last: "last xs = (xs @ ys) ! ?i" and i: "?i < length (xs @ ys)"
    using assms(2) by (cases xs; simp add: last_conv_nth nth_append)+
  have "proposal_cursor_index (xs @ ys) (pr_proposal_id (last xs)) = Some ?i"
    unfolding proposal_cursor_index_def last
    using cursor_index_from_spec [OF assms(1) i, of 0] by simp
  with assms(2,3) show ?thesis by (simp add: apply_proposal_cursor_def)
qed

text \<open>Following \<open>next_cursor\<close> page by page, with fuel for the number of pages.\<close>

fun all_pages ::
  "nat \<Rightarrow> proposal_record list \<Rightarrow> proposal_filter \<Rightarrow> int \<Rightarrow> string option \<Rightarrow> proposal_record list" where
  "all_pages 0 rows f limit cursor = []"
| "all_pages (Suc n) rows f limit cursor =
     (let r = filtered_proposal_page rows f limit cursor
      in fst r @ (case snd r of None \<Rightarrow> [] | Some c \<Rightarrow> all_pages n rows f limit (Some c)))"

lemma page_after_prefix:
  assumes dist: "distinct (map pr_proposal_id (matching_proposals rows f))"
    and ids: "\<And>row. row \<in> set rows \<Longrightarrow> pr_proposal_id row \<noteq> []"
    and xs: "matching_proposals rows f = xs @ ys" and ne: "xs \<noteq> []"
  shows "filtered_proposal_page rows f limit (Some (pr_proposal_id (last xs))) =
    (py_take limit ys, next_page_cursor ys (py_take limit ys) limit)"
proof -
  have "last xs \<in> set (matching_proposals rows f)" using xs ne by simp
  then have "pr_proposal_id (last xs) \<noteq> []" using ids by (simp add: set_matching)
  with cursor_after_prefix [of xs ys] dist xs ne
  have "apply_proposal_cursor (matching_proposals rows f) (Some (pr_proposal_id (last xs))) = ys"
    by simp
  then show ?thesis by (simp add: filtered_proposal_page_def Let_def)
qed

lemma all_pages_after_prefix:
  assumes dist: "distinct (map pr_proposal_id (matching_proposals rows f))"
    and ids: "\<And>row. row \<in> set rows \<Longrightarrow> pr_proposal_id row \<noteq> []"
    and limit: "0 < limit"
  shows "matching_proposals rows f = xs @ ys \<Longrightarrow> xs \<noteq> [] \<Longrightarrow> length ys < n \<Longrightarrow>
    all_pages n rows f limit (Some (pr_proposal_id (last xs))) = ys"
proof (induction n arbitrary: xs ys)
  case 0
  then show ?case by simp
next
  case (Suc n)
  note page = page_after_prefix [OF dist ids Suc.prems(1,2), of limit]
  show ?case
  proof (cases "int (length ys) \<le> limit")
    case True
    then show ?thesis by (simp add: page next_page_cursor_def py_take_all)
  next
    case False
    define zs where "zs = take (nat limit) ys"
    define ws where "ws = drop (nat limit) ys"
    have zs: "py_take limit ys = zs" "zs \<noteq> []" "ys = zs @ ws" "length ws < n"
      using False limit Suc.prems(3) by (auto simp: zs_def ws_def py_take_def)
    have split: "matching_proposals rows f = (xs @ zs) @ ws"
      unfolding append_assoc zs(3) [symmetric] by (rule Suc.prems(1))
    have "all_pages n rows f limit (Some (pr_proposal_id (last (xs @ zs)))) = ws"
      by (rule Suc.IH [OF split _ zs(4)]) (simp add: zs(2))
    then have tail: "all_pages n rows f limit (Some (pr_proposal_id (last zs))) = ws"
      using zs(2) by simp
    have "all_pages (Suc n) rows f limit (Some (pr_proposal_id (last xs))) = zs @ ws"
      using False tail zs(2) by (simp add: page next_page_cursor_def zs(1))
    then show ?thesis by (simp only: zs(3) [symmetric])
  qed
qed

lemma all_pages_matching:
  assumes dist: "distinct (map pr_proposal_id rows)"
    and ids: "\<And>row. row \<in> set rows \<Longrightarrow> pr_proposal_id row \<noteq> []"
    and limit: "0 < limit" and n: "length (matching_proposals rows f) < n"
  shows "all_pages n rows f limit None = matching_proposals rows f"
proof -
  let ?m = "matching_proposals rows f"
  have inj: "distinct (map pr_proposal_id ?m)"
    using dist by (auto simp: distinct_map matching_proposals_def inj_on_def)
  obtain k where n_eq: "n = Suc k" using n by (cases n) auto
  have page: "filtered_proposal_page rows f limit None =
      (py_take limit ?m, next_page_cursor ?m (py_take limit ?m) limit)"
    by (simp add: filtered_proposal_page_def apply_proposal_cursor_def Let_def)
  show ?thesis
  proof (cases "int (length ?m) \<le> limit")
    case True
    then show ?thesis by (simp add: n_eq page next_page_cursor_def py_take_all)
  next
    case False
    define zs where "zs = take (nat limit) ?m"
    define ws where "ws = drop (nat limit) ?m"
    have zs: "py_take limit ?m = zs" "zs \<noteq> []" "?m = zs @ ws" "length ws < k"
      using False limit n by (auto simp: zs_def ws_def py_take_def n_eq)
    have tail: "all_pages k rows f limit (Some (pr_proposal_id (last zs))) = ws"
      by (rule all_pages_after_prefix [OF inj ids limit zs(3,2,4)])
    have "all_pages (Suc k) rows f limit None = zs @ ws"
      using False tail zs(2) by (simp add: page next_page_cursor_def zs(1))
    then show ?thesis by (simp only: n_eq zs(3) [symmetric])
  qed
qed

lemma matching_proposals_sorted:
  "sorted_wrt (\<lambda>x y. proposal_sort_key y \<le> proposal_sort_key x) (matching_proposals rows f)"
  unfolding matching_proposals_def
  by (rule sorted_wrt_filter) (rule sort_key_desc_sorted)

section \<open>Selection of operations\<close>

lemma set_limited_records: "set (limited_records xs limit) \<subseteq> set xs"
  by (auto simp: limited_records_def split: option.splits dest: set_py_take [THEN subsetD])

lemma recoverable_operations_sound:
  "operation \<in> set (recoverable_operations operations as_of limit) \<Longrightarrow>
     operation \<in> set operations \<and> operation_is_recoverable operation as_of"
  by (auto simp: recoverable_operations_def recoverable_operation_rows_def
      dest!: set_limited_records [THEN subsetD] split: if_splits)

lemma recoverable_operations_complete:
  "set (recoverable_operations operations as_of None) =
     {operation \<in> set operations. operation_is_recoverable operation as_of}"
  by (auto simp: recoverable_operations_def recoverable_operation_rows_def non_positive_limit_def
      limited_records_def)

lemma recoverable_not_finished:
  "operation_is_recoverable operation as_of \<Longrightarrow> ao_status operation \<notin> {SUCCEEDED, FAILED}"
  by (auto simp: operation_is_recoverable_def operation_is_pending_def
      running_operation_lease_has_expired_def)

lemma sort_key_desc_hd_max:
  "sort_key_desc f xs = y # ys \<Longrightarrow> x \<in> set xs \<Longrightarrow> f x \<le> f y"
  using sort_key_desc_sorted [of f xs] set_sort_key_desc [of f xs] by (metis order_refl set_ConsD sorted_wrt.simps(2))

lemma current_version_max:
  assumes "current_version_for_proposal versions pid = Some v"
  shows "v \<in> set versions \<and> pv_proposal_id v = pid \<and>
    (\<forall>w \<in> set versions. pv_proposal_id w = pid \<longrightarrow> pv_version_no w \<le> pv_version_no v)"
proof -
  let ?fs = "filter (\<lambda>v. pv_proposal_id v = pid) versions"
  obtain ys where ys: "sort_key_desc pv_version_no ?fs = v # ys"
    using assms by (auto simp: current_version_for_proposal_def split: list.splits)
  have "v \<in> set ?fs" using set_sort_key_desc [of pv_version_no ?fs] ys by (metis list.set_intros(1))
  moreover have "\<forall>w \<in> set ?fs. pv_version_no w \<le> pv_version_no v"
    using sort_key_desc_hd_max [OF ys] by blast
  ultimately show ?thesis by auto
qed

lemma current_version_exists:
  assumes "v \<in> set versions" and "pv_proposal_id v = pid"
  shows "current_version_for_proposal versions pid \<noteq> None"
proof -
  let ?fs = "filter (\<lambda>v. pv_proposal_id v = pid) versions"
  have "v \<in> set (sort_key_desc pv_version_no ?fs)" using assms by simp
  then obtain w ws where "sort_key_desc pv_version_no ?fs = w # ws" by (metis list.set_cases)
  then show ?thesis by (simp add: current_version_for_proposal_def)
qed

end
