(* ===== verification/Proposal_Repository.thy ===== *)
theory Proposal_Repository
  imports Repository_Queries
begin

text \<open>
  The in-memory proposal repository (src/infrastructure/proposals/in_memory.py): its state is the
  record \<open>proposal_store\<close>, one dictionary per attribute of the class, and each method is a
  function \<open>mem_*\<close> of that state. A method that raises returns a sum; the lock of the class
  makes every method one atomic step. \<open>proposal_repository\<close> is the interface the commands
  are written against (src/core/proposals/repository.py), \<open>in_memory_repository\<close> the instance
  built from the methods, and the locale \<open>lifecycle_repository\<close> states the laws the lifecycle
  commands rest on.
\<close>

record proposal_store =
  ps_proposals :: "(string, proposal_record) dict"
  ps_versions :: "(string \<times> int, proposal_version_record) dict"
  ps_events :: "(string, workflow_event_record list) dict"
  ps_approvals :: "(string, approval_record list) dict"
  ps_idempotency :: "(string, idempotency_record) dict"
  ps_simulation_idempotency :: "(string, simulation_idempotency_record) dict"
  ps_memo_idempotency :: "(string, memo_idempotency_record) dict"
  ps_operations :: "(string, async_operation_record) dict"
  ps_operation_by_correlation :: "(string, string) dict"
  ps_operation_by_idempotency :: "(string, string) dict"
  ps_memos :: "(string, memo_record) dict"
  ps_memo_by_proposal_version :: "(string \<times> int, string) dict"
  ps_memo_events :: "(string, memo_event_record list) dict"
  ps_cockpit_acknowledgements :: "(string, cockpit_acknowledgement_record) dict"
  ps_cockpit_acknowledgement_idempotency ::
    "(string, cockpit_acknowledgement_idempotency_record) dict"

definition empty_store :: proposal_store where
  "empty_store = \<lparr>ps_proposals = [], ps_versions = [], ps_events = [], ps_approvals = [],
     ps_idempotency = [], ps_simulation_idempotency = [], ps_memo_idempotency = [],
     ps_operations = [], ps_operation_by_correlation = [], ps_operation_by_idempotency = [],
     ps_memos = [], ps_memo_by_proposal_version = [], ps_memo_events = [],
     ps_cockpit_acknowledgements = [], ps_cockpit_acknowledgement_idempotency = []\<rparr>"

section \<open>Idempotency records\<close>

definition mem_get_idempotency :: "proposal_store \<Rightarrow> string \<Rightarrow> idempotency_record option" where
  "mem_get_idempotency s idempotency_key = dict_get (ps_idempotency s) idempotency_key"

definition mem_save_idempotency :: "idempotency_record \<Rightarrow> proposal_store \<Rightarrow> proposal_store" where
  "mem_save_idempotency r s =
     s\<lparr>ps_idempotency := dict_set (ik_idempotency_key r) r (ps_idempotency s)\<rparr>"

definition mem_get_simulation_idempotency ::
  "proposal_store \<Rightarrow> string \<Rightarrow> simulation_idempotency_record option" where
  "mem_get_simulation_idempotency s idempotency_key =
     dict_get (ps_simulation_idempotency s) idempotency_key"

definition mem_save_simulation_idempotency ::
  "simulation_idempotency_record \<Rightarrow> proposal_store \<Rightarrow> proposal_store" where
  "mem_save_simulation_idempotency r s =
     s\<lparr>ps_simulation_idempotency :=
        dict_set (sk_idempotency_key r) r (ps_simulation_idempotency s)\<rparr>"

definition mem_get_memo_idempotency :: "proposal_store \<Rightarrow> string \<Rightarrow> memo_idempotency_record option"
  where
  "mem_get_memo_idempotency s idempotency_key = dict_get (ps_memo_idempotency s) idempotency_key"

definition memo_idempotency_conflict ::
  "proposal_store \<Rightarrow> memo_idempotency_record \<Rightarrow> bool" where
  "memo_idempotency_conflict s r =
     (case dict_get (ps_memo_idempotency s) (mk_idempotency_key r) of
        None \<Rightarrow> False
      | Some existing \<Rightarrow> mk_request_hash existing \<noteq> mk_request_hash r \<or>
                         mk_memo_id existing \<noteq> mk_memo_id r)"

definition mem_save_memo_idempotency ::
  "memo_idempotency_record \<Rightarrow> proposal_store \<Rightarrow> proposal_error + proposal_store" where
  "mem_save_memo_idempotency r s =
     (case dict_get (ps_memo_idempotency s) (mk_idempotency_key r) of
        Some existing \<Rightarrow>
          if mk_request_hash existing \<noteq> mk_request_hash r \<or> mk_memo_id existing \<noteq> mk_memo_id r
          then Inl (PyValueError ''MEMO_IDEMPOTENCY_KEY_CONFLICT'')
          else Inr s
      | None \<Rightarrow>
          Inr (s\<lparr>ps_memo_idempotency := dict_set (mk_idempotency_key r) r (ps_memo_idempotency s)\<rparr>))"

section \<open>Memos\<close>

definition memo_version_key :: "memo_record \<Rightarrow> string \<times> int" where
  "memo_version_key memo = (mm_proposal_id memo, mm_proposal_version_no memo)"

definition put_memo :: "memo_record \<Rightarrow> proposal_store \<Rightarrow> proposal_store" where
  "put_memo memo s =
     s\<lparr>ps_memos := dict_set (mm_memo_id memo) memo (ps_memos s),
       ps_memo_by_proposal_version :=
         dict_set (memo_version_key memo) (mm_memo_id memo) (ps_memo_by_proposal_version s)\<rparr>"

definition mem_create_memo :: "memo_record \<Rightarrow> proposal_store \<Rightarrow> proposal_error + proposal_store" where
  "mem_create_memo memo s =
     (let existing_memo_id = dict_get (ps_memo_by_proposal_version s) (memo_version_key memo) in
      if existing_memo_id \<noteq> None \<and> existing_memo_id \<noteq> Some (mm_memo_id memo)
        then Inl (PyValueError ''MEMO_PROPOSAL_VERSION_CONFLICT'')
      else case dict_get (ps_memos s) (mm_memo_id memo) of
             Some existing \<Rightarrow>
               if mm_memo_hash existing \<noteq> mm_memo_hash memo
               then Inl (PyValueError ''MEMO_HASH_CONFLICT'') else Inr s
           | None \<Rightarrow> Inr (put_memo memo s))"

definition validate_memo_idempotency_write ::
  "memo_idempotency_record \<Rightarrow> proposal_store \<Rightarrow> proposal_error + unit" where
  "validate_memo_idempotency_write r s =
     (if memo_idempotency_conflict s r
      then Inl (PyValueError ''MEMO_IDEMPOTENCY_KEY_CONFLICT'') else Inr ())"

definition validate_memo_write ::
  "memo_record \<Rightarrow> memo_idempotency_record option \<Rightarrow> proposal_store \<Rightarrow> proposal_error + unit" where
  "validate_memo_write memo idempotency s =
     (let existing_memo_id = dict_get (ps_memo_by_proposal_version s) (memo_version_key memo) in
      if existing_memo_id \<noteq> None \<and> existing_memo_id \<noteq> Some (mm_memo_id memo)
        then Inl (PyValueError ''MEMO_PROPOSAL_VERSION_CONFLICT'')
      else if (case dict_get (ps_memos s) (mm_memo_id memo) of
                 None \<Rightarrow> False | Some existing \<Rightarrow> mm_memo_hash existing \<noteq> mm_memo_hash memo)
        then Inl (PyValueError ''MEMO_HASH_CONFLICT'')
      else case idempotency of
             None \<Rightarrow> Inr ()
           | Some r \<Rightarrow> validate_memo_idempotency_write r s)"

definition store_memo_if_absent :: "memo_record \<Rightarrow> proposal_store \<Rightarrow> proposal_store" where
  "store_memo_if_absent memo s =
     (case dict_get (ps_memos s) (mm_memo_id memo) of
        Some _ \<Rightarrow> s | None \<Rightarrow> put_memo memo s)"

definition store_memo_idempotency_if_absent ::
  "memo_idempotency_record option \<Rightarrow> proposal_store \<Rightarrow> proposal_store" where
  "store_memo_idempotency_if_absent idempotency s =
     (case idempotency of
        None \<Rightarrow> s
      | Some r \<Rightarrow> s\<lparr>ps_memo_idempotency :=
          dict_setdefault (mk_idempotency_key r) r (ps_memo_idempotency s)\<rparr>)"

definition append_memo_event_if_absent :: "memo_event_record \<Rightarrow> proposal_store \<Rightarrow> proposal_store"
  where
  "append_memo_event_if_absent event s =
     (let events = dict_setdefault (me_memo_id event) [] (ps_memo_events s) in
      if list_ex (\<lambda>e. me_event_id e = me_event_id event) (dict_list events (me_memo_id event))
      then s\<lparr>ps_memo_events := events\<rparr>
      else s\<lparr>ps_memo_events := dict_push (me_memo_id event) event events\<rparr>)"

definition mem_create_memo_with_idempotency_event ::
  "memo_record \<Rightarrow> memo_idempotency_record option \<Rightarrow> memo_event_record \<Rightarrow> proposal_store \<Rightarrow>
   proposal_error + proposal_store" where
  "mem_create_memo_with_idempotency_event memo idempotency event s =
     rbind (validate_memo_write memo idempotency s)
       (\<lambda>_. Inr (append_memo_event_if_absent event
                   (store_memo_idempotency_if_absent idempotency (store_memo_if_absent memo s))))"

definition mem_get_memo :: "proposal_store \<Rightarrow> string \<Rightarrow> memo_record option" where
  "mem_get_memo s memo_id = dict_get (ps_memos s) memo_id"

definition mem_get_memo_by_proposal_version ::
  "proposal_store \<Rightarrow> string \<Rightarrow> int \<Rightarrow> memo_record option" where
  "mem_get_memo_by_proposal_version s proposal_id proposal_version_no =
     (case dict_get (ps_memo_by_proposal_version s) (proposal_id, proposal_version_no) of
        None \<Rightarrow> None
      | Some memo_id \<Rightarrow> dict_get (ps_memos s) memo_id)"

definition mem_list_memos :: "proposal_store \<Rightarrow> string \<Rightarrow> memo_record list" where
  "mem_list_memos s proposal_id = ordered_memos_for_proposal (dict_values (ps_memos s)) proposal_id"

definition mem_list_memos_for_proposals :: "proposal_store \<Rightarrow> string list \<Rightarrow> memo_record list" where
  "mem_list_memos_for_proposals s proposal_ids =
     ordered_memos_for_proposals (dict_values (ps_memos s)) proposal_ids"

definition mem_append_memo_event :: "memo_event_record \<Rightarrow> proposal_store \<Rightarrow> proposal_store" where
  "mem_append_memo_event event s =
     (let events = dict_setdefault (me_memo_id event) [] (ps_memo_events s) in
      if list_ex (\<lambda>e. me_event_id e = me_event_id event) (dict_list events (me_memo_id event))
      then s\<lparr>ps_memo_events := events\<rparr>
      else s\<lparr>ps_memo_events := dict_push (me_memo_id event) event events\<rparr>)"

definition mem_list_memo_events :: "proposal_store \<Rightarrow> string \<Rightarrow> memo_event_record list" where
  "mem_list_memo_events s memo_id = ordered_memo_events (dict_list (ps_memo_events s) memo_id)"

section \<open>Cockpit acknowledgements\<close>

definition mem_get_cockpit_acknowledgement ::
  "proposal_store \<Rightarrow> string \<Rightarrow> cockpit_acknowledgement_record option" where
  "mem_get_cockpit_acknowledgement s action_item_id =
     dict_get (ps_cockpit_acknowledgements s) action_item_id"

definition mem_list_cockpit_acknowledgements ::
  "proposal_store \<Rightarrow> string list \<Rightarrow> (string, cockpit_acknowledgement_record) dict" where
  "mem_list_cockpit_acknowledgements s action_item_ids =
     List.map_filter
       (\<lambda>i. map_option (\<lambda>r. (i, r)) (dict_get (ps_cockpit_acknowledgements s) i))
       (rev (remdups (rev action_item_ids)))"

definition mem_save_cockpit_acknowledgement_with_idempotency ::
  "cockpit_acknowledgement_record \<Rightarrow> cockpit_acknowledgement_idempotency_record \<Rightarrow>
   proposal_store \<Rightarrow> proposal_error + proposal_store" where
  "mem_save_cockpit_acknowledgement_with_idempotency acknowledgement idempotency s =
     (case dict_get (ps_cockpit_acknowledgement_idempotency s) (ck_idempotency_key idempotency) of
        Some existing \<Rightarrow>
          if ck_request_hash existing \<noteq> ck_request_hash idempotency \<or>
             ck_acknowledgement_id existing \<noteq> ck_acknowledgement_id idempotency \<or>
             ck_action_item_id existing \<noteq> ck_action_item_id idempotency
          then Inl (PyValueError ''COCKPIT_ACKNOWLEDGEMENT_IDEMPOTENCY_KEY_CONFLICT'')
          else Inr s
      | None \<Rightarrow>
          Inr (s\<lparr>ps_cockpit_acknowledgement_idempotency :=
                 dict_set (ck_idempotency_key idempotency) idempotency
                   (ps_cockpit_acknowledgement_idempotency s),
               ps_cockpit_acknowledgements :=
                 dict_set (ca_action_item_id acknowledgement) acknowledgement
                   (ps_cockpit_acknowledgements s)\<rparr>))"

definition mem_get_cockpit_acknowledgement_idempotency ::
  "proposal_store \<Rightarrow> string \<Rightarrow> cockpit_acknowledgement_idempotency_record option" where
  "mem_get_cockpit_acknowledgement_idempotency s idempotency_key =
     dict_get (ps_cockpit_acknowledgement_idempotency s) idempotency_key"

section \<open>Async operations\<close>

text \<open>The three dictionary writes that \<open>create_operation\<close>, \<open>update_operation\<close> and the
  create-if-absent path have in common.\<close>

definition store_operation :: "async_operation_record \<Rightarrow> proposal_store \<Rightarrow> proposal_store" where
  "store_operation operation s =
     s\<lparr>ps_operations := dict_set (ao_operation_id operation) operation (ps_operations s),
       ps_operation_by_correlation :=
         dict_set (ao_correlation_id operation) (ao_operation_id operation)
           (ps_operation_by_correlation s),
       ps_operation_by_idempotency :=
         (case ao_idempotency_key operation of
            None \<Rightarrow> ps_operation_by_idempotency s
          | Some k \<Rightarrow> if k = [] then ps_operation_by_idempotency s
              else dict_set k (ao_operation_id operation) (ps_operation_by_idempotency s))\<rparr>"

definition mem_create_operation :: "async_operation_record \<Rightarrow> proposal_store \<Rightarrow> proposal_store" where
  "mem_create_operation operation s = store_operation operation s"

definition existing_operation_by_key ::
  "proposal_store \<Rightarrow> string option \<Rightarrow> async_operation_record option" where
  "existing_operation_by_key s key =
     (case key of
        None \<Rightarrow> None
      | Some k \<Rightarrow>
          if k = [] then None
          else (case dict_get (ps_operation_by_idempotency s) k of
                  None \<Rightarrow> None
                | Some operation_id \<Rightarrow> dict_get (ps_operations s) operation_id))"

definition mem_create_operation_if_absent_by_idempotency ::
  "async_operation_record \<Rightarrow> proposal_store \<Rightarrow> (async_operation_record \<times> bool) \<times> proposal_store"
  where
  "mem_create_operation_if_absent_by_idempotency operation s =
     (case existing_operation_by_key s (ao_idempotency_key operation) of
        Some existing \<Rightarrow> ((existing, False), s)
      | None \<Rightarrow> ((operation, True), store_operation operation s))"

definition mem_update_operation :: "async_operation_record \<Rightarrow> proposal_store \<Rightarrow> proposal_store" where
  "mem_update_operation operation s = store_operation operation s"

definition mem_get_operation :: "proposal_store \<Rightarrow> string \<Rightarrow> async_operation_record option" where
  "mem_get_operation s operation_id = dict_get (ps_operations s) operation_id"

definition mem_get_operation_by_correlation ::
  "proposal_store \<Rightarrow> string \<Rightarrow> async_operation_record option" where
  "mem_get_operation_by_correlation s correlation_id =
     (case dict_get (ps_operation_by_correlation s) correlation_id of
        None \<Rightarrow> None
      | Some operation_id \<Rightarrow> dict_get (ps_operations s) operation_id)"

definition mem_get_operation_by_idempotency ::
  "proposal_store \<Rightarrow> string \<Rightarrow> async_operation_record option" where
  "mem_get_operation_by_idempotency s idempotency_key =
     (case dict_get (ps_operation_by_idempotency s) idempotency_key of
        None \<Rightarrow> None
      | Some operation_id \<Rightarrow> dict_get (ps_operations s) operation_id)"

definition mem_list_recoverable_operations ::
  "proposal_store \<Rightarrow> timestamp \<Rightarrow> int option \<Rightarrow> async_operation_record list" where
  "mem_list_recoverable_operations s as_of limit =
     recoverable_operations (dict_values (ps_operations s)) as_of limit"

definition mem_list_operations_for_control ::
  "proposal_store \<Rightarrow> timestamp \<Rightarrow> int option \<Rightarrow> async_operation_record list" where
  "mem_list_operations_for_control s as_of limit =
     control_operations (dict_values (ps_operations s)) limit"

section \<open>Proposals, versions, events, approvals\<close>

definition mem_create_proposal :: "proposal_record \<Rightarrow> proposal_store \<Rightarrow> proposal_store" where
  "mem_create_proposal proposal s =
     s\<lparr>ps_proposals := dict_set (pr_proposal_id proposal) proposal (ps_proposals s)\<rparr>"

definition mem_create_proposal_with_version_event_idempotency ::
  "proposal_record \<Rightarrow> proposal_version_record \<Rightarrow> workflow_event_record \<Rightarrow> idempotency_record \<Rightarrow>
   proposal_store \<Rightarrow> proposal_store" where
  "mem_create_proposal_with_version_event_idempotency proposal version event idempotency s =
     s\<lparr>ps_proposals := dict_set (pr_proposal_id proposal) proposal (ps_proposals s),
       ps_versions :=
         dict_set (pv_proposal_id version, pv_version_no version) version (ps_versions s),
       ps_events := dict_push (we_proposal_id event) event (ps_events s),
       ps_idempotency :=
         dict_set (ik_idempotency_key idempotency) idempotency (ps_idempotency s)\<rparr>"

definition mem_update_proposal :: "proposal_record \<Rightarrow> proposal_store \<Rightarrow> proposal_store" where
  "mem_update_proposal proposal s =
     s\<lparr>ps_proposals := dict_set (pr_proposal_id proposal) proposal (ps_proposals s)\<rparr>"

definition mem_get_proposal :: "proposal_store \<Rightarrow> string \<Rightarrow> proposal_record option" where
  "mem_get_proposal s proposal_id = dict_get (ps_proposals s) proposal_id"

definition mem_list_proposals ::
  "proposal_store \<Rightarrow> proposal_filter \<Rightarrow> int \<Rightarrow> string option \<Rightarrow>
   proposal_record list \<times> string option" where
  "mem_list_proposals s f limit cursor =
     filtered_proposal_page (dict_values (ps_proposals s)) f limit cursor"

definition mem_create_version :: "proposal_version_record \<Rightarrow> proposal_store \<Rightarrow> proposal_store" where
  "mem_create_version version s =
     s\<lparr>ps_versions := dict_set (pv_proposal_id version, pv_version_no version) version
                        (ps_versions s)\<rparr>"

definition mem_get_version ::
  "proposal_store \<Rightarrow> string \<Rightarrow> int \<Rightarrow> proposal_version_record option" where
  "mem_get_version s proposal_id version_no = dict_get (ps_versions s) (proposal_id, version_no)"

definition mem_list_versions :: "proposal_store \<Rightarrow> string \<Rightarrow> proposal_version_record list" where
  "mem_list_versions s proposal_id =
     ordered_versions_for_proposal (dict_values (ps_versions s)) proposal_id"

definition mem_get_current_version ::
  "proposal_store \<Rightarrow> string \<Rightarrow> proposal_version_record option" where
  "mem_get_current_version s proposal_id =
     current_version_for_proposal (dict_values (ps_versions s)) proposal_id"

definition mem_append_event :: "workflow_event_record \<Rightarrow> proposal_store \<Rightarrow> proposal_store" where
  "mem_append_event event s =
     s\<lparr>ps_events := dict_push (we_proposal_id event) event (ps_events s)\<rparr>"

definition mem_list_events :: "proposal_store \<Rightarrow> string \<Rightarrow> workflow_event_record list" where
  "mem_list_events s proposal_id = dict_list (ps_events s) proposal_id"

definition mem_list_events_for_proposals ::
  "proposal_store \<Rightarrow> string list \<Rightarrow> workflow_event_record list" where
  "mem_list_events_for_proposals s proposal_ids =
     ordered_events_for_proposals (dict_values (ps_events s)) proposal_ids"

definition mem_create_approval :: "approval_record \<Rightarrow> proposal_store \<Rightarrow> proposal_store" where
  "mem_create_approval approval s =
     s\<lparr>ps_approvals := dict_push (ap_proposal_id approval) approval (ps_approvals s)\<rparr>"

definition mem_list_approvals :: "proposal_store \<Rightarrow> string \<Rightarrow> approval_record list" where
  "mem_list_approvals s proposal_id = dict_list (ps_approvals s) proposal_id"

definition mem_list_approvals_for_proposals ::
  "proposal_store \<Rightarrow> string list \<Rightarrow> approval_record list" where
  "mem_list_approvals_for_proposals s proposal_ids =
     ordered_approvals_for_proposals (dict_values (ps_approvals s)) proposal_ids"

definition mem_transition_proposal ::
  "proposal_record \<Rightarrow> workflow_event_record \<Rightarrow> approval_record option \<Rightarrow>
   workflow_state option \<Rightarrow> int option \<Rightarrow> proposal_store \<Rightarrow>
   proposal_error + (transition_result \<times> proposal_store)" where
  "mem_transition_proposal proposal event approval expected_current_state
       expected_current_version_no s =
     (let current = dict_get (ps_proposals s) (pr_proposal_id proposal) in
      if expected_current_state \<noteq> None \<and> expected_current_version_no \<noteq> None \<and>
         (case current of
            None \<Rightarrow> True
          | Some c \<Rightarrow> Some (pr_current_state c) \<noteq> expected_current_state \<or>
                       Some (pr_current_version_no c) \<noteq> expected_current_version_no)
      then Inl (ProposalStateConflictError
                  ''STATE_CONFLICT: proposal aggregate changed during transition'')
      else
        Inr (\<lparr>tr_proposal = proposal, tr_event = event, tr_approval = approval\<rparr>,
             s\<lparr>ps_events := dict_push (we_proposal_id event) event (ps_events s),
               ps_approvals :=
                 (case approval of None \<Rightarrow> ps_approvals s
                  | Some a \<Rightarrow> dict_push (ap_proposal_id a) a (ps_approvals s)),
               ps_proposals :=
                 dict_set (pr_proposal_id proposal) proposal (ps_proposals s)\<rparr>))"

section \<open>The interface and its in-memory instance\<close>

text \<open>
  The methods of the protocol that the modelled commands call; the state is the type parameter
  \<open>'s\<close>, so that a command is one function for every repository.
\<close>

record 's proposal_repository =
  rp_get_proposal :: "'s \<Rightarrow> string \<Rightarrow> proposal_record option"
  rp_get_version :: "'s \<Rightarrow> string \<Rightarrow> int \<Rightarrow> proposal_version_record option"
  rp_get_current_version :: "'s \<Rightarrow> string \<Rightarrow> proposal_version_record option"
  rp_list_versions :: "'s \<Rightarrow> string \<Rightarrow> proposal_version_record list"
  rp_list_events :: "'s \<Rightarrow> string \<Rightarrow> workflow_event_record list"
  rp_list_approvals :: "'s \<Rightarrow> string \<Rightarrow> approval_record list"
  rp_get_idempotency :: "'s \<Rightarrow> string \<Rightarrow> idempotency_record option"
  rp_create_version :: "proposal_version_record \<Rightarrow> 's \<Rightarrow> proposal_error + 's"
  rp_append_event :: "workflow_event_record \<Rightarrow> 's \<Rightarrow> 's"
  rp_create_proposal_with_version_event_idempotency ::
    "proposal_record \<Rightarrow> proposal_version_record \<Rightarrow> workflow_event_record \<Rightarrow> idempotency_record \<Rightarrow>
     's \<Rightarrow> proposal_error + 's"
  rp_transition_proposal ::
    "proposal_record \<Rightarrow> workflow_event_record \<Rightarrow> approval_record option \<Rightarrow>
     workflow_state option \<Rightarrow> int option \<Rightarrow> 's \<Rightarrow> proposal_error + (transition_result \<times> 's)"
  rp_get_operation :: "'s \<Rightarrow> string \<Rightarrow> async_operation_record option"
  rp_get_operation_by_correlation :: "'s \<Rightarrow> string \<Rightarrow> async_operation_record option"
  rp_get_operation_by_idempotency :: "'s \<Rightarrow> string \<Rightarrow> async_operation_record option"
  rp_create_operation :: "async_operation_record \<Rightarrow> 's \<Rightarrow> 's"
  rp_create_operation_if_absent_by_idempotency ::
    "async_operation_record \<Rightarrow> 's \<Rightarrow> (async_operation_record \<times> bool) \<times> 's"
  rp_update_operation :: "async_operation_record \<Rightarrow> 's \<Rightarrow> 's"
  rp_list_recoverable_operations ::
    "'s \<Rightarrow> timestamp \<Rightarrow> int option \<Rightarrow> async_operation_record list"
  rp_list_operations_for_control ::
    "'s \<Rightarrow> timestamp \<Rightarrow> int option \<Rightarrow> async_operation_record list"

definition in_memory_repository :: "proposal_store proposal_repository" where
  "in_memory_repository =
     \<lparr>rp_get_proposal = mem_get_proposal,
      rp_get_version = mem_get_version,
      rp_get_current_version = mem_get_current_version,
      rp_list_versions = mem_list_versions,
      rp_list_events = mem_list_events,
      rp_list_approvals = mem_list_approvals,
      rp_get_idempotency = mem_get_idempotency,
      rp_create_version = (\<lambda>v s. Inr (mem_create_version v s)),
      rp_append_event = mem_append_event,
      rp_create_proposal_with_version_event_idempotency =
        (\<lambda>p v e i s. Inr (mem_create_proposal_with_version_event_idempotency p v e i s)),
      rp_transition_proposal = mem_transition_proposal,
      rp_get_operation = mem_get_operation,
      rp_get_operation_by_correlation = mem_get_operation_by_correlation,
      rp_get_operation_by_idempotency = mem_get_operation_by_idempotency,
      rp_create_operation = mem_create_operation,
      rp_create_operation_if_absent_by_idempotency =
        mem_create_operation_if_absent_by_idempotency,
      rp_update_operation = mem_update_operation,
      rp_list_recoverable_operations = mem_list_recoverable_operations,
      rp_list_operations_for_control = mem_list_operations_for_control\<rparr>"

lemma in_memory_simps [simp]:
  "rp_get_proposal in_memory_repository = mem_get_proposal"
  "rp_get_version in_memory_repository = mem_get_version"
  "rp_get_current_version in_memory_repository = mem_get_current_version"
  "rp_list_versions in_memory_repository = mem_list_versions"
  "rp_list_events in_memory_repository = mem_list_events"
  "rp_list_approvals in_memory_repository = mem_list_approvals"
  "rp_get_idempotency in_memory_repository = mem_get_idempotency"
  "rp_create_version in_memory_repository v s = Inr (mem_create_version v s)"
  "rp_append_event in_memory_repository = mem_append_event"
  "rp_create_proposal_with_version_event_idempotency in_memory_repository p v e i s =
     Inr (mem_create_proposal_with_version_event_idempotency p v e i s)"
  "rp_transition_proposal in_memory_repository = mem_transition_proposal"
  "rp_get_operation in_memory_repository = mem_get_operation"
  "rp_get_operation_by_correlation in_memory_repository = mem_get_operation_by_correlation"
  "rp_get_operation_by_idempotency in_memory_repository = mem_get_operation_by_idempotency"
  "rp_create_operation in_memory_repository = mem_create_operation"
  "rp_create_operation_if_absent_by_idempotency in_memory_repository =
     mem_create_operation_if_absent_by_idempotency"
  "rp_update_operation in_memory_repository = mem_update_operation"
  "rp_list_recoverable_operations in_memory_repository = mem_list_recoverable_operations"
  "rp_list_operations_for_control in_memory_repository = mem_list_operations_for_control"
  by (simp_all add: in_memory_repository_def)

section \<open>Stores as keyed maps\<close>

interpretation proposals_kv: keyed_store mem_get_proposal mem_update_proposal pr_proposal_id
  by unfold_locales (simp add: mem_get_proposal_def mem_update_proposal_def)

interpretation versions_kv: keyed_store
  "\<lambda>s k. mem_get_version s (fst k) (snd k)" mem_create_version
  "\<lambda>v. (pv_proposal_id v, pv_version_no v)"
  by unfold_locales (auto simp: mem_get_version_def mem_create_version_def)

interpretation idempotency_kv: keyed_store
  mem_get_idempotency mem_save_idempotency ik_idempotency_key
  by unfold_locales (simp add: mem_get_idempotency_def mem_save_idempotency_def)

interpretation simulation_kv: keyed_store
  mem_get_simulation_idempotency mem_save_simulation_idempotency sk_idempotency_key
  by unfold_locales
    (simp add: mem_get_simulation_idempotency_def mem_save_simulation_idempotency_def)

interpretation operations_kv: keyed_store mem_get_operation mem_update_operation ao_operation_id
  by unfold_locales
    (simp add: mem_get_operation_def mem_update_operation_def store_operation_def)

section \<open>The laws of the lifecycle repository\<close>

text \<open>
  What the lifecycle commands rely on: \<open>transition_proposal\<close> is a compare-and-set of the stored
  proposal that appends the event (and the approval) to the logs, and touches no other proposal;
  the other writes keep the logs.
\<close>

locale lifecycle_repository =
  fixes repo :: "'s proposal_repository"
  assumes transition_ok:
    "rp_transition_proposal repo p e a (Some st) (Some n) s = Inr (r, s') \<Longrightarrow>
       (\<exists>c. rp_get_proposal repo s (pr_proposal_id p) = Some c \<and>
            pr_current_state c = st \<and> pr_current_version_no c = n) \<and>
       r = \<lparr>tr_proposal = p, tr_event = e, tr_approval = a\<rparr> \<and>
       (\<forall>k. rp_get_proposal repo s' k =
              (if k = pr_proposal_id p then Some p else rp_get_proposal repo s k)) \<and>
       (\<forall>k. rp_list_events repo s' k =
              rp_list_events repo s k @ (if k = we_proposal_id e then [e] else [])) \<and>
       (\<forall>k. rp_list_approvals repo s' k =
              rp_list_approvals repo s k @
              (case a of None \<Rightarrow> [] | Some x \<Rightarrow> if k = ap_proposal_id x then [x] else []))"
    and transition_possible:
    "rp_get_proposal repo s (pr_proposal_id p) = Some c \<Longrightarrow>
       pr_current_state c = st \<Longrightarrow> pr_current_version_no c = n \<Longrightarrow>
       \<exists>r s'. rp_transition_proposal repo p e a (Some st) (Some n) s = Inr (r, s')"
    and create_version_frame:
    "rp_create_version repo v s = Inr s' \<Longrightarrow>
       rp_get_proposal repo s' = rp_get_proposal repo s \<and>
       rp_list_events repo s' = rp_list_events repo s \<and>
       rp_list_approvals repo s' = rp_list_approvals repo s"
begin

lemma transition_get:
  "rp_transition_proposal repo p e a (Some st) (Some n) s = Inr (r, s') \<Longrightarrow>
     rp_get_proposal repo s' k =
       (if k = pr_proposal_id p then Some p else rp_get_proposal repo s k)"
  using transition_ok by blast

lemma transition_events:
  "rp_transition_proposal repo p e a (Some st) (Some n) s = Inr (r, s') \<Longrightarrow>
     rp_list_events repo s' k =
       rp_list_events repo s k @ (if k = we_proposal_id e then [e] else [])"
  using transition_ok by blast

lemma transition_approvals:
  "rp_transition_proposal repo p e a (Some st) (Some n) s = Inr (r, s') \<Longrightarrow>
     rp_list_approvals repo s' k =
       rp_list_approvals repo s k @
       (case a of None \<Rightarrow> [] | Some x \<Rightarrow> if k = ap_proposal_id x then [x] else [])"
  using transition_ok by blast

lemma transition_result:
  "rp_transition_proposal repo p e a (Some st) (Some n) s = Inr (r, s') \<Longrightarrow>
     r = \<lparr>tr_proposal = p, tr_event = e, tr_approval = a\<rparr>"
  using transition_ok by blast

lemma transition_current:
  "rp_transition_proposal repo p e a (Some st) (Some n) s = Inr (r, s') \<Longrightarrow>
     \<exists>c. rp_get_proposal repo s (pr_proposal_id p) = Some c \<and>
         pr_current_state c = st \<and> pr_current_version_no c = n"
  using transition_ok by blast

lemmas transition_laws = transition_get transition_events transition_approvals transition_result

end

interpretation mem: lifecycle_repository in_memory_repository
proof unfold_locales
  fix p e a st n s r s'
  assume "rp_transition_proposal in_memory_repository p e a (Some st) (Some n) s = Inr (r, s')"
  then show "(\<exists>c. rp_get_proposal in_memory_repository s (pr_proposal_id p) = Some c \<and>
            pr_current_state c = st \<and> pr_current_version_no c = n) \<and>
       r = \<lparr>tr_proposal = p, tr_event = e, tr_approval = a\<rparr> \<and>
       (\<forall>k. rp_get_proposal in_memory_repository s' k =
              (if k = pr_proposal_id p then Some p else rp_get_proposal in_memory_repository s k)) \<and>
       (\<forall>k. rp_list_events in_memory_repository s' k =
              rp_list_events in_memory_repository s k @ (if k = we_proposal_id e then [e] else [])) \<and>
       (\<forall>k. rp_list_approvals in_memory_repository s' k =
              rp_list_approvals in_memory_repository s k @
              (case a of None \<Rightarrow> [] | Some x \<Rightarrow> if k = ap_proposal_id x then [x] else []))"
    by (auto simp: mem_transition_proposal_def mem_get_proposal_def mem_list_events_def
        mem_list_approvals_def Let_def split: if_splits option.splits)
next
  fix s and p c :: proposal_record and st n e a
  assume "rp_get_proposal in_memory_repository s (pr_proposal_id p) = Some c"
    "pr_current_state c = st" "pr_current_version_no c = n"
  then show "\<exists>r s'. rp_transition_proposal in_memory_repository p e a (Some st) (Some n) s
      = Inr (r, s')"
    by (simp add: mem_transition_proposal_def mem_get_proposal_def)
next
  fix v s s'
  assume "rp_create_version in_memory_repository v s = Inr s'"
  then show "rp_get_proposal in_memory_repository s' = rp_get_proposal in_memory_repository s \<and>
       rp_list_events in_memory_repository s' = rp_list_events in_memory_repository s \<and>
       rp_list_approvals in_memory_repository s' = rp_list_approvals in_memory_repository s"
    by (auto simp: mem_create_version_def mem_get_proposal_def mem_list_events_def
        mem_list_approvals_def fun_eq_iff)
qed

section \<open>The store invariant\<close>

text \<open>
  Every stored record is filed under its own key, the secondary indexes of the operations point
  at stored operations, and no dictionary repeats a key.
\<close>

definition store_inv :: "proposal_store \<Rightarrow> bool" where
  "store_inv s \<longleftrightarrow>
     dict_wf (ps_proposals s) \<and> dict_wf (ps_versions s) \<and> dict_wf (ps_operations s) \<and>
     (\<forall>k p. dict_get (ps_proposals s) k = Some p \<longrightarrow> pr_proposal_id p = k) \<and>
     (\<forall>k v. dict_get (ps_versions s) k = Some v \<longrightarrow> (pv_proposal_id v, pv_version_no v) = k) \<and>
     (\<forall>k e. e \<in> set (dict_list (ps_events s) k) \<longrightarrow> we_proposal_id e = k) \<and>
     (\<forall>k a. a \<in> set (dict_list (ps_approvals s) k) \<longrightarrow> ap_proposal_id a = k) \<and>
     (\<forall>k r. dict_get (ps_idempotency s) k = Some r \<longrightarrow> ik_idempotency_key r = k) \<and>
     (\<forall>k r. dict_get (ps_operations s) k = Some r \<longrightarrow> ao_operation_id r = k) \<and>
     (\<forall>k i. dict_get (ps_operation_by_correlation s) k = Some i \<longrightarrow>
            dict_get (ps_operations s) i \<noteq> None) \<and>
     (\<forall>k i. dict_get (ps_operation_by_idempotency s) k = Some i \<longrightarrow>
            dict_get (ps_operations s) i \<noteq> None) \<and>
     (\<forall>k m. dict_get (ps_memos s) k = Some m \<longrightarrow> mm_memo_id m = k) \<and>
     (\<forall>k i. dict_get (ps_memo_by_proposal_version s) k = Some i \<longrightarrow>
            (\<exists>m. dict_get (ps_memos s) i = Some m))"

lemma store_inv_empty: "store_inv empty_store"
  by (simp add: store_inv_def empty_store_def)

lemma store_inv_create_version: "store_inv s \<Longrightarrow> store_inv (mem_create_version v s)"
  by (auto simp: store_inv_def mem_create_version_def)

lemma store_inv_update_proposal: "store_inv s \<Longrightarrow> store_inv (mem_update_proposal p s)"
  by (auto simp: store_inv_def mem_update_proposal_def)

lemma store_inv_append_event: "store_inv s \<Longrightarrow> store_inv (mem_append_event e s)"
  by (auto simp: store_inv_def mem_append_event_def)

lemma store_inv_create_approval: "store_inv s \<Longrightarrow> store_inv (mem_create_approval a s)"
  by (auto simp: store_inv_def mem_create_approval_def)

lemma store_inv_create_all:
  "store_inv s \<Longrightarrow> store_inv (mem_create_proposal_with_version_event_idempotency p v e i s)"
  by (auto simp: store_inv_def mem_create_proposal_with_version_event_idempotency_def)

lemma store_inv_transition:
  "store_inv s \<Longrightarrow> mem_transition_proposal p e a es en s = Inr (r, s') \<Longrightarrow> store_inv s'"
  by (auto simp: store_inv_def mem_transition_proposal_def Let_def split: if_splits option.splits)

lemma store_inv_store_operation: "store_inv s \<Longrightarrow> store_inv (store_operation r s)"
  by (auto simp: store_inv_def store_operation_def split: option.splits if_splits)

lemma store_inv_put_memo: "store_inv s \<Longrightarrow> store_inv (put_memo m s)"
  by (auto simp: store_inv_def put_memo_def split: if_splits)

lemma store_inv_create_memo: "store_inv s \<Longrightarrow> mem_create_memo m s = Inr s' \<Longrightarrow> store_inv s'"
  by (auto simp: mem_create_memo_def Let_def store_inv_put_memo split: if_splits option.splits)

lemma store_inv_memo_idempotency:
  "store_inv (s\<lparr>ps_memo_idempotency := x\<rparr>) = store_inv s"
  "store_inv (s\<lparr>ps_memo_events := y\<rparr>) = store_inv s"
  by (simp_all add: store_inv_def)

lemma store_inv_create_memo_with:
  "store_inv s \<Longrightarrow> mem_create_memo_with_idempotency_event m i e s = Inr s' \<Longrightarrow> store_inv s'"
  by (auto simp: mem_create_memo_with_idempotency_event_def lotus_bind
      append_memo_event_if_absent_def store_memo_idempotency_if_absent_def
      store_memo_if_absent_def store_inv_memo_idempotency store_inv_put_memo Let_def
      split: option.splits)

end
