(* ===== verification/Lifecycle_Commands.thy ===== *)
theory Lifecycle_Commands
  imports Proposal_Repository
begin

text \<open>
  The state-transition and approval commands (src/core/proposals/lifecycle_command.py) with the
  events they build (lifecycle_events.py), the replay search (idempotency.py), the conditional
  persistence (transition_persistence.py) and the projections of the responses
  (projections.py, lifecycle_response_models.py, workflow_response_models.py).

  A command is a function of the repository, its arguments and the repository state. The
  identifiers \<open>uuid4\<close> generates are arguments. The commands' log invariant
  (\<open>log_ok\<close>) and the replay laws are proved once, in the locale of the repository interface.
\<close>

section \<open>Projections\<close>

record proposal_summary =
  sm_proposal_id :: string
  sm_portfolio_id :: string
  sm_mandate_id :: "string option"
  sm_jurisdiction :: "string option"
  sm_created_by :: string
  sm_created_at :: string
  sm_last_event_at :: string
  sm_current_state :: workflow_state
  sm_current_version_no :: int
  sm_title :: "string option"
  sm_lifecycle_origin :: lifecycle_origin
  sm_source_workspace_id :: "string option"

record workflow_event =
  wv_event_id :: string
  wv_proposal_id :: string
  wv_event_type :: workflow_event_type
  wv_from_state :: "workflow_state option"
  wv_to_state :: workflow_state
  wv_actor_id :: string
  wv_occurred_at :: string
  wv_reason :: json_dict
  wv_related_version_no :: "int option"

record approval_view =
  av_approval_id :: string
  av_proposal_id :: string
  av_approval_type :: approval_type
  av_approved :: bool
  av_actor_id :: string
  av_occurred_at :: string
  av_details :: json_dict
  av_related_version_no :: "int option"

record state_transition_response =
  ts_proposal_id :: string
  ts_current_state :: workflow_state
  ts_latest_workflow_event :: workflow_event
  ts_approval :: "approval_view option"

definition to_proposal_summary :: "proposal_record \<Rightarrow> proposal_summary" where
  "to_proposal_summary p =
     \<lparr>sm_proposal_id = pr_proposal_id p, sm_portfolio_id = pr_portfolio_id p,
      sm_mandate_id = pr_mandate_id p, sm_jurisdiction = pr_jurisdiction p,
      sm_created_by = pr_created_by p, sm_created_at = isoformat (pr_created_at p),
      sm_last_event_at = isoformat (pr_last_event_at p),
      sm_current_state = pr_current_state p, sm_current_version_no = pr_current_version_no p,
      sm_title = pr_title p, sm_lifecycle_origin = pr_lifecycle_origin p,
      sm_source_workspace_id = pr_source_workspace_id p\<rparr>"

definition to_workflow_event :: "workflow_event_record \<Rightarrow> workflow_event" where
  "to_workflow_event e =
     \<lparr>wv_event_id = we_event_id e, wv_proposal_id = we_proposal_id e,
      wv_event_type = we_event_type e, wv_from_state = we_from_state e,
      wv_to_state = we_to_state e, wv_actor_id = we_actor_id e,
      wv_occurred_at = isoformat (we_occurred_at e), wv_reason = we_reason_json e,
      wv_related_version_no = we_related_version_no e\<rparr>"

definition to_approval_record :: "approval_record option \<Rightarrow> approval_view option" where
  "to_approval_record approval =
     (case approval of
        None \<Rightarrow> None
      | Some a \<Rightarrow> Some
          \<lparr>av_approval_id = ap_approval_id a, av_proposal_id = ap_proposal_id a,
           av_approval_type = ap_approval_type a, av_approved = ap_approved a,
           av_actor_id = ap_actor_id a, av_occurred_at = isoformat (ap_occurred_at a),
           av_details = ap_details_json a, av_related_version_no = ap_related_version_no a\<rparr>)"

section \<open>Replay search\<close>

definition metadata_matches_replay :: "json_dict \<Rightarrow> string \<Rightarrow> string \<Rightarrow> string + bool" where
  "metadata_matches_replay metadata idempotency_key request_hash =
     (if obj_get metadata ''idempotency_key'' \<noteq> JStr idempotency_key then Inr False
      else let existing_hash = obj_get metadata ''idempotency_request_hash'' in
        if existing_hash \<noteq> JNull \<and> existing_hash \<noteq> JStr request_hash
        then Inl ''IDEMPOTENCY_KEY_CONFLICT: request hash mismatch''
        else Inr True)"

fun search_replayed ::
  "('r \<Rightarrow> json_dict) \<Rightarrow> string \<Rightarrow> string \<Rightarrow> 'r list \<Rightarrow> string + 'r option" where
  "search_replayed metadata key request_hash [] = Inr None"
| "search_replayed metadata key request_hash (r # rs) =
     rbind (metadata_matches_replay (metadata r) key request_hash)
       (\<lambda>m. if m then Inr (Some r) else search_replayed metadata key request_hash rs)"

definition find_replayed_record ::
  "('r \<Rightarrow> json_dict) \<Rightarrow> 'r list \<Rightarrow> string option \<Rightarrow> string \<Rightarrow> string + 'r option" where
  "find_replayed_record metadata records idempotency_key request_hash =
     (case idempotency_key of
        None \<Rightarrow> Inr None
      | Some key \<Rightarrow> if key = [] then Inr None
          else search_replayed metadata key request_hash (rev records))"

definition find_replayed_event ::
  "workflow_event_record list \<Rightarrow> string option \<Rightarrow> string \<Rightarrow> string + workflow_event_record option"
  where
  "find_replayed_event events idempotency_key request_hash =
     find_replayed_record we_reason_json events idempotency_key request_hash"

definition find_replayed_approval ::
  "approval_record list \<Rightarrow> string option \<Rightarrow> string \<Rightarrow> string + approval_record option" where
  "find_replayed_approval approvals idempotency_key request_hash =
     find_replayed_record ap_details_json approvals idempotency_key request_hash"

definition load_replayed_event ::
  "'s proposal_repository \<Rightarrow> 's \<Rightarrow> string \<Rightarrow> string option \<Rightarrow> string \<Rightarrow>
   proposal_error + workflow_event_record option" where
  "load_replayed_event repo s proposal_id idempotency_key request_hash =
     rmap_error ProposalIdempotencyConflictError
       (find_replayed_event (rp_list_events repo s proposal_id) idempotency_key request_hash)"

definition load_replayed_approval ::
  "'s proposal_repository \<Rightarrow> 's \<Rightarrow> string \<Rightarrow> string option \<Rightarrow> string \<Rightarrow>
   proposal_error + approval_record option" where
  "load_replayed_approval repo s proposal_id idempotency_key request_hash =
     rmap_error ProposalIdempotencyConflictError
       (find_replayed_approval (rp_list_approvals repo s proposal_id) idempotency_key request_hash)"

section \<open>Lifecycle events\<close>

definition correlation_reason :: "string option \<Rightarrow> json_dict" where
  "correlation_reason correlation_id =
     (case correlation_id of
        None \<Rightarrow> [] | Some c \<Rightarrow> if c = [] then [] else [(''correlation_id'', JStr c)])"

definition build_proposal_created_event ::
  "string \<Rightarrow> string \<Rightarrow> string \<Rightarrow> timestamp \<Rightarrow> int \<Rightarrow> string option \<Rightarrow> workflow_event_record" where
  "build_proposal_created_event event_id proposal_id actor_id occurred_at related_version_no
       correlation_id =
     \<lparr>we_event_id = event_id, we_proposal_id = proposal_id, we_event_type = CREATED,
      we_from_state = None, we_to_state = DRAFT, we_actor_id = actor_id,
      we_occurred_at = occurred_at, we_reason_json = correlation_reason correlation_id,
      we_related_version_no = Some related_version_no\<rparr>"

definition build_new_version_created_event ::
  "string \<Rightarrow> proposal_record \<Rightarrow> string \<Rightarrow> timestamp \<Rightarrow> int \<Rightarrow> string option \<Rightarrow>
   workflow_event_record" where
  "build_new_version_created_event event_id proposal actor_id occurred_at related_version_no
       correlation_id =
     \<lparr>we_event_id = event_id, we_proposal_id = pr_proposal_id proposal,
      we_event_type = NEW_VERSION_CREATED,
      we_from_state = Some (pr_current_state proposal), we_to_state = DRAFT,
      we_actor_id = actor_id, we_occurred_at = occurred_at,
      we_reason_json = correlation_reason correlation_id,
      we_related_version_no = Some related_version_no\<rparr>"

text \<open>The two assignments that stamp a reason with the idempotency metadata.\<close>

definition with_idempotency :: "json_dict \<Rightarrow> string option \<Rightarrow> string \<Rightarrow> json_dict" where
  "with_idempotency reason idempotency_key request_hash =
     (case idempotency_key of
        None \<Rightarrow> reason
      | Some k \<Rightarrow> if k = [] then reason
          else dict_set ''idempotency_request_hash'' (JStr request_hash)
                 (dict_set ''idempotency_key'' (JStr k) reason))"

definition build_state_transition_event ::
  "string \<Rightarrow> proposal_record \<Rightarrow> state_transition_request \<Rightarrow> workflow_state \<Rightarrow> timestamp \<Rightarrow>
   string option \<Rightarrow> string \<Rightarrow> workflow_event_record" where
  "build_state_transition_event event_id proposal payload to_state occurred_at idempotency_key
       request_hash =
     \<lparr>we_event_id = event_id, we_proposal_id = pr_proposal_id proposal,
      we_event_type = tq_event_type payload,
      we_from_state = Some (pr_current_state proposal), we_to_state = to_state,
      we_actor_id = tq_actor_id payload, we_occurred_at = occurred_at,
      we_reason_json = with_idempotency (tq_reason payload) idempotency_key request_hash,
      we_related_version_no = tq_related_version_no payload\<rparr>"

definition apply_lifecycle_transition_state ::
  "proposal_record \<Rightarrow> workflow_state \<Rightarrow> workflow_event_record \<Rightarrow> proposal_record" where
  "apply_lifecycle_transition_state proposal to_state event =
     proposal\<lparr>pr_current_state := to_state, pr_last_event_at := we_occurred_at event\<rparr>"

definition build_state_transition_event_and_apply_state ::
  "string \<Rightarrow> proposal_record \<Rightarrow> state_transition_request \<Rightarrow> workflow_state \<Rightarrow> timestamp \<Rightarrow>
   string option \<Rightarrow> string \<Rightarrow> workflow_event_record \<times> proposal_record" where
  "build_state_transition_event_and_apply_state event_id proposal payload to_state occurred_at
       idempotency_key request_hash =
     (let event = build_state_transition_event event_id proposal payload to_state occurred_at
                    idempotency_key request_hash
      in (event, apply_lifecycle_transition_state proposal to_state event))"

definition build_approval_record ::
  "string \<Rightarrow> string \<Rightarrow> approval_request \<Rightarrow> timestamp \<Rightarrow> string option \<Rightarrow> string \<Rightarrow> approval_record"
  where
  "build_approval_record approval_id proposal_id payload occurred_at idempotency_key request_hash =
     \<lparr>ap_approval_id = approval_id, ap_proposal_id = proposal_id,
      ap_approval_type = aq_approval_type payload, ap_approved = aq_approved payload,
      ap_actor_id = aq_actor_id payload, ap_occurred_at = occurred_at,
      ap_details_json = with_idempotency (aq_details payload) idempotency_key request_hash,
      ap_related_version_no = aq_related_version_no payload\<rparr>"

definition build_approval_transition_event ::
  "string \<Rightarrow> proposal_record \<Rightarrow> approval_request \<Rightarrow> workflow_event_type \<Rightarrow> workflow_state \<Rightarrow>
   timestamp \<Rightarrow> string option \<Rightarrow> string \<Rightarrow> workflow_event_record" where
  "build_approval_transition_event event_id proposal payload event_type to_state occurred_at
       idempotency_key request_hash =
     \<lparr>we_event_id = event_id, we_proposal_id = pr_proposal_id proposal,
      we_event_type = event_type,
      we_from_state = Some (pr_current_state proposal), we_to_state = to_state,
      we_actor_id = aq_actor_id payload, we_occurred_at = occurred_at,
      we_reason_json = with_idempotency (aq_details payload) idempotency_key request_hash,
      we_related_version_no = aq_related_version_no payload\<rparr>"

record approval_command_state =
  as_approval :: approval_record
  as_event :: workflow_event_record

definition build_approval_command_state_and_apply_transition ::
  "string \<Rightarrow> string \<Rightarrow> proposal_record \<Rightarrow> approval_request \<Rightarrow> workflow_event_type \<Rightarrow>
   workflow_state \<Rightarrow> timestamp \<Rightarrow> string option \<Rightarrow> string \<Rightarrow>
   approval_command_state \<times> proposal_record" where
  "build_approval_command_state_and_apply_transition approval_id event_id proposal payload
       event_type to_state occurred_at idempotency_key request_hash =
     (let approval = build_approval_record approval_id (pr_proposal_id proposal) payload occurred_at
                       idempotency_key request_hash;
          event = build_approval_transition_event event_id proposal payload event_type to_state
                    (ap_occurred_at approval) idempotency_key request_hash
      in (\<lparr>as_approval = approval, as_event = event\<rparr>,
          apply_lifecycle_transition_state proposal to_state event))"

section \<open>Responses and persistence\<close>

definition build_state_transition_response ::
  "string \<Rightarrow> workflow_state \<Rightarrow> workflow_event_record \<Rightarrow> state_transition_response" where
  "build_state_transition_response proposal_id current_state event =
     \<lparr>ts_proposal_id = proposal_id, ts_current_state = current_state,
      ts_latest_workflow_event = to_workflow_event event, ts_approval = None\<rparr>"

definition build_state_transition_replay_response ::
  "string \<Rightarrow> workflow_event_record \<Rightarrow> state_transition_response" where
  "build_state_transition_replay_response proposal_id event =
     build_state_transition_response proposal_id (we_to_state event) event"

definition build_approval_transition_response ::
  "string \<Rightarrow> workflow_state \<Rightarrow> workflow_event_record \<Rightarrow> approval_record option \<Rightarrow>
   state_transition_response" where
  "build_approval_transition_response proposal_id current_state event approval =
     \<lparr>ts_proposal_id = proposal_id, ts_current_state = current_state,
      ts_latest_workflow_event = to_workflow_event event,
      ts_approval = to_approval_record approval\<rparr>"

definition build_approval_replay_response_from_referents ::
  "string \<Rightarrow> approval_record \<Rightarrow> workflow_event_record option \<Rightarrow> state_transition_response option"
  where
  "build_approval_replay_response_from_referents proposal_id approval event =
     (case event of
        None \<Rightarrow> None
      | Some e \<Rightarrow> Some (build_approval_transition_response proposal_id (we_to_state e) e (Some approval)))"

definition persist_proposal_transition ::
  "'s proposal_repository \<Rightarrow> proposal_record \<Rightarrow> workflow_event_record \<Rightarrow> 's \<Rightarrow>
   proposal_error + (transition_result \<times> 's)" where
  "persist_proposal_transition repo proposal event s =
     rp_transition_proposal repo proposal event None (we_from_state event)
       (Some (pr_current_version_no proposal)) s"

definition persist_proposal_approval_transition ::
  "'s proposal_repository \<Rightarrow> proposal_record \<Rightarrow> workflow_event_record \<Rightarrow> approval_record \<Rightarrow> 's \<Rightarrow>
   proposal_error + (transition_result \<times> 's)" where
  "persist_proposal_approval_transition repo proposal event approval s =
     rp_transition_proposal repo proposal event (Some approval) (we_from_state event)
       (Some (pr_current_version_no proposal)) s"

section \<open>The commands\<close>

definition build_state_transition_request_hash ::
  "(string \<Rightarrow> string) \<Rightarrow> state_transition_request \<Rightarrow> string" where
  "build_state_transition_request_hash sha payload =
     hash_canonical_payload sha (state_transition_request_json payload)"

definition build_approval_request_hash :: "(string \<Rightarrow> string) \<Rightarrow> approval_request \<Rightarrow> string" where
  "build_approval_request_hash sha payload =
     hash_canonical_payload sha (approval_request_json payload)"

definition transition_proposal_state ::
  "(string \<Rightarrow> string) \<Rightarrow> 's proposal_repository \<Rightarrow> string \<Rightarrow> state_transition_request \<Rightarrow>
   string option \<Rightarrow> bool \<Rightarrow> timestamp \<Rightarrow> string \<Rightarrow> 's \<Rightarrow>
   proposal_error + (state_transition_response \<times> 's)" where
  "transition_proposal_state sha repo proposal_id payload raw_key require_expected_state
       occurred_at event_id s =
     (let idempotency_key = normalize_optional_idempotency_key raw_key in
      case rp_get_proposal repo s proposal_id of
        None \<Rightarrow> Inl (ProposalNotFoundError ''PROPOSAL_NOT_FOUND'')
      | Some proposal \<Rightarrow>
          let request_hash = build_state_transition_request_hash sha payload in
          rbind (load_replayed_event repo s proposal_id idempotency_key request_hash)
            (\<lambda>replay_event. case replay_event of
               Some e \<Rightarrow> Inr (build_state_transition_replay_response proposal_id e, s)
             | None \<Rightarrow>
                 rbind (validate_proposal_expected_state (pr_current_state proposal)
                          (tq_expected_state payload) require_expected_state)
                   (\<lambda>_. rbind (resolve_proposal_transition_state (pr_current_state proposal)
                                 (tq_event_type payload))
                     (\<lambda>to_state.
                        let ep = build_state_transition_event_and_apply_state event_id proposal
                                   payload to_state occurred_at idempotency_key request_hash
                        in rbind (persist_proposal_transition repo (snd ep) (fst ep) s)
                          (\<lambda>(result, s'). Inr (build_state_transition_response proposal_id
                             (pr_current_state (tr_proposal result)) (tr_event result), s'))))))"

definition record_proposal_approval ::
  "(string \<Rightarrow> string) \<Rightarrow> 's proposal_repository \<Rightarrow> string \<Rightarrow> approval_request \<Rightarrow>
   string option \<Rightarrow> bool \<Rightarrow> timestamp \<Rightarrow> string \<Rightarrow> string \<Rightarrow> 's \<Rightarrow>
   proposal_error + (state_transition_response \<times> 's)" where
  "record_proposal_approval sha repo proposal_id payload raw_key require_expected_state
       occurred_at approval_id event_id s =
     (let idempotency_key = normalize_optional_idempotency_key raw_key in
      case rp_get_proposal repo s proposal_id of
        None \<Rightarrow> Inl (ProposalNotFoundError ''PROPOSAL_NOT_FOUND'')
      | Some proposal \<Rightarrow>
          let request_hash = build_approval_request_hash sha payload in
          rbind (load_replayed_approval repo s proposal_id idempotency_key request_hash)
            (\<lambda>replay_approval. case replay_approval of
               Some approval \<Rightarrow>
                 rbind (load_replayed_event repo s proposal_id idempotency_key request_hash)
                   (\<lambda>replay_event.
                      case build_approval_replay_response_from_referents proposal_id approval
                             replay_event of
                        None \<Rightarrow>
                          Inl (ProposalLifecycleError ''PROPOSAL_IDEMPOTENCY_REFERENT_NOT_FOUND'')
                      | Some response \<Rightarrow> Inr (response, s))
             | None \<Rightarrow>
                 rbind (validate_proposal_expected_state (pr_current_state proposal)
                          (aq_expected_state payload) require_expected_state)
                   (\<lambda>_. rbind (resolve_proposal_approval_transition (pr_current_state proposal)
                                 (aq_approval_type payload) (aq_approved payload))
                     (\<lambda>(event_type, to_state).
                        let cp = build_approval_command_state_and_apply_transition approval_id
                                   event_id proposal payload event_type to_state occurred_at
                                   idempotency_key request_hash
                        in rbind (persist_proposal_approval_transition repo (snd cp)
                                    (as_event (fst cp)) (as_approval (fst cp)) s)
                          (\<lambda>(result, s'). Inr (build_approval_transition_response proposal_id
                             (pr_current_state (tr_proposal result)) (tr_event result)
                             (tr_approval result), s'))))))"

end
