(* ===== verification/Lifecycle_Invariant.thy ===== *)
theory Lifecycle_Invariant
  imports Lifecycle_Commands
begin

text \<open>
  What the lifecycle commands keep true, proved once for every repository that obeys the laws of
  \<open>lifecycle_repository\<close>: the event log of each proposal is a chain from creation to the
  proposal's current state, made of legal steps only, and a retried command is answered from
  the log without a write.
\<close>

section \<open>Legal steps and chains\<close>

text \<open>
  The steps the log may hold: the edges of the state graph, a new version of a proposal that is
  not closed, the annotations that keep the state, and the downstream execution updates, which
  are accepted from any open state.
\<close>

inductive legal_step :: "workflow_state \<Rightarrow> workflow_event_type \<Rightarrow> workflow_state \<Rightarrow> bool" where
  edge: "lifecycle_edge s e t \<Longrightarrow> legal_step s e t"
| new_version: "s \<notin> set TERMINAL_STATES \<Longrightarrow> legal_step s NEW_VERSION_CREATED DRAFT"
| annotation: "e \<in> {NARRATIVE_REVIEWED, REPORT_REQUESTED} \<Longrightarrow> legal_step s e s"
| update: "s \<notin> set TERMINAL_STATES \<Longrightarrow> resolve_execution_update_event u = Inr (e, t) \<Longrightarrow>
    legal_step s e t"

definition legal_event :: "workflow_event_record \<Rightarrow> bool" where
  "legal_event e \<longleftrightarrow>
     (case we_from_state e of
        None \<Rightarrow> we_event_type e = CREATED \<and> we_to_state e = DRAFT
      | Some s \<Rightarrow> legal_step s (we_event_type e) (we_to_state e))"

fun chain_from ::
  "workflow_state option \<Rightarrow> workflow_event_record list \<Rightarrow> workflow_state option \<Rightarrow> bool" where
  "chain_from st [] final = (st = final)"
| "chain_from st (e # es) final =
     (we_from_state e = st \<and> chain_from (Some (we_to_state e)) es final)"

lemma chain_from_snoc [simp]:
  "chain_from st (es @ [e]) final =
     (chain_from st es (we_from_state e) \<and> final = Some (we_to_state e))"
  by (induction es arbitrary: st) auto

lemma chain_from_append:
  "chain_from st (es @ fs) final = (\<exists>m. chain_from st es m \<and> chain_from m fs final)"
  by (induction es arbitrary: st) auto

lemma legal_step_terminal:
  "legal_step s e t \<Longrightarrow> s \<in> set TERMINAL_STATES \<Longrightarrow> t = s"
  by (erule legal_step.cases)
    (auto simp: resolve_transition_edge [symmetric] terminal_no_transition)

lemma legal_step_terminal_event:
  "legal_step s e t \<Longrightarrow> s \<in> set TERMINAL_STATES \<Longrightarrow> e \<in> {NARRATIVE_REVIEWED, REPORT_REQUESTED}"
  by (erule legal_step.cases)
    (auto simp: resolve_transition_edge [symmetric] terminal_no_transition)

lemma legal_event_someD:
  "legal_event e \<Longrightarrow> we_from_state e = Some s \<Longrightarrow> legal_step s (we_event_type e) (we_to_state e)"
  by (simp add: legal_event_def)

lemma chain_terminal_stays:
  assumes "chain_from (Some s) es final" and "\<forall>e \<in> set es. legal_event e"
    and "s \<in> set TERMINAL_STATES"
  shows "final = Some s \<and> (\<forall>e \<in> set es. we_to_state e = s)"
  using assms
proof (induction es)
  case Nil
  then show ?case by simp
next
  case (Cons e es)
  from Cons.prems have "we_to_state e = s"
    by (auto dest!: legal_event_someD dest: legal_step_terminal)
  with Cons show ?case by simp
qed

lemma chain_terminal_after:
  assumes "chain_from st (es @ e # fs) final" and "\<forall>e \<in> set (es @ e # fs). legal_event e"
    and "we_to_state e \<in> set TERMINAL_STATES"
  shows "final = Some (we_to_state e) \<and> (\<forall>f \<in> set fs. we_to_state f = we_to_state e)"
proof -
  have "chain_from (Some (we_to_state e)) fs final"
    using assms(1) by (auto simp: chain_from_append)
  then show ?thesis using assms(2,3) by (intro chain_terminal_stays) auto
qed

section \<open>The replay search finds the latest record of a key\<close>

lemma obj_get_with_idempotency [simp]:
  assumes "k \<noteq> []"
  shows "obj_get (with_idempotency r (Some k) h) ''idempotency_key'' = JStr k"
    and "obj_get (with_idempotency r (Some k) h) ''idempotency_request_hash'' = JStr h"
  using assms by (simp_all add: with_idempotency_def)

lemma with_idempotency_None [simp]: "with_idempotency r None h = r"
  by (simp add: with_idempotency_def)

lemma search_replayed_skip:
  "\<forall>r \<in> set rs. obj_get (metadata r) ''idempotency_key'' \<noteq> JStr k \<Longrightarrow>
     search_replayed metadata k h (rs @ rs') = search_replayed metadata k h rs'"
  by (induction rs) (auto simp: metadata_matches_replay_def)

lemma search_replayed_in: "search_replayed metadata k h rs = Inr (Some r) \<Longrightarrow> r \<in> set rs"
  by (induction rs) (auto simp: rbind_eq_Inr split: if_splits)

lemma find_replayed_in: "find_replayed_record metadata rs key h = Inr (Some r) \<Longrightarrow> r \<in> set rs"
  by (auto simp: find_replayed_record_def dest: search_replayed_in split: option.splits if_splits)

lemma find_replayed_hit:
  assumes "k \<noteq> []" and "obj_get (metadata r) ''idempotency_key'' = JStr k"
    and "obj_get (metadata r) ''idempotency_request_hash'' = JStr h"
    and "\<forall>x \<in> set later. obj_get (metadata x) ''idempotency_key'' \<noteq> JStr k"
  shows "find_replayed_record metadata (earlier @ r # later) (Some k) h = Inr (Some r)"
  using assms search_replayed_skip [of "rev later" metadata k h "r # rev earlier"]
  by (simp add: find_replayed_record_def metadata_matches_replay_def)

lemma find_replayed_conflict:
  assumes "k \<noteq> []" and "obj_get (metadata r) ''idempotency_key'' = JStr k"
    and "obj_get (metadata r) ''idempotency_request_hash'' = JStr h" and "h \<noteq> h'"
    and "\<forall>x \<in> set later. obj_get (metadata x) ''idempotency_key'' \<noteq> JStr k"
  shows "find_replayed_record metadata (earlier @ r # later) (Some k) h' =
    Inl ''IDEMPOTENCY_KEY_CONFLICT: request hash mismatch''"
  using assms search_replayed_skip [of "rev later" metadata k h' "r # rev earlier"]
  by (simp add: find_replayed_record_def metadata_matches_replay_def)

lemma find_replayed_fresh:
  assumes "\<forall>x \<in> set rs. obj_get (metadata x) ''idempotency_key'' \<noteq> JStr k"
  shows "find_replayed_record metadata rs (Some k) h = Inr None"
  using assms search_replayed_skip [of "rev rs" metadata k h "[]"]
  by (simp add: find_replayed_record_def)

lemma find_replayed_no_key [simp]: "find_replayed_record metadata rs None h = Inr None"
  by (simp add: find_replayed_record_def)

lemma normalized_key_nonempty:
  "normalize_optional_idempotency_key raw = Some k \<Longrightarrow> k \<noteq> []"
  by (auto simp: normalize_optional_idempotency_key_def Let_def split: option.splits if_splits)

lemma normalized_key_idem:
  "normalize_optional_idempotency_key raw = Some k \<Longrightarrow>
     normalize_optional_idempotency_key (Some k) = Some k"
  by (auto simp: normalize_optional_idempotency_key_def Let_def split: option.splits if_splits)

section \<open>The log invariant\<close>

definition log_ok :: "'s proposal_repository \<Rightarrow> 's \<Rightarrow> string \<Rightarrow> bool" where
  "log_ok repo s pid \<longleftrightarrow>
     (case rp_get_proposal repo s pid of
        None \<Rightarrow> rp_list_events repo s pid = []
      | Some p \<Rightarrow>
          pr_proposal_id p = pid \<and>
          chain_from None (rp_list_events repo s pid) (Some (pr_current_state p)) \<and>
          (\<forall>e \<in> set (rp_list_events repo s pid). legal_event e \<and> we_proposal_id e = pid))"

definition lifecycle_inv :: "'s proposal_repository \<Rightarrow> 's \<Rightarrow> bool" where
  "lifecycle_inv repo s \<longleftrightarrow> (\<forall>pid. log_ok repo s pid)"

lemma lifecycle_invD:
  "lifecycle_inv repo s \<Longrightarrow> rp_get_proposal repo s pid = Some p \<Longrightarrow>
     pr_proposal_id p = pid \<and>
     chain_from None (rp_list_events repo s pid) (Some (pr_current_state p)) \<and>
     (\<forall>e \<in> set (rp_list_events repo s pid). legal_event e \<and> we_proposal_id e = pid)"
  by (drule spec [where x = pid, OF iffD1 [OF lifecycle_inv_def]]) (simp add: log_ok_def)

lemma lifecycle_inv_id:
  "lifecycle_inv repo s \<Longrightarrow> rp_get_proposal repo s pid = Some p \<Longrightarrow> pr_proposal_id p = pid"
  by (simp add: lifecycle_invD)

context lifecycle_repository
begin

lemma transition_keeps_inv:
  assumes inv: "lifecycle_inv repo s"
    and p: "rp_get_proposal repo s pid = Some p"
    and tr: "rp_transition_proposal repo p' e a (Some (pr_current_state p)) (Some n) s = Inr (r, s')"
    and p': "pr_proposal_id p' = pid" and e: "we_proposal_id e = pid"
    and from_st: "we_from_state e = Some (pr_current_state p)"
    and to_st: "we_to_state e = pr_current_state p'"
    and step: "legal_step (pr_current_state p) (we_event_type e) (pr_current_state p')"
  shows "lifecycle_inv repo s'"
  unfolding lifecycle_inv_def
proof
  fix k
  note get = transition_get [OF tr] and evs = transition_events [OF tr]
  show "log_ok repo s' k"
  proof (cases "k = pid")
    case True
    then show ?thesis
      using lifecycle_invD [OF inv p] step
      by (simp add: log_ok_def get evs p' e from_st to_st legal_event_def)
  next
    case False
    then show ?thesis
      using spec [OF iffD1 [OF lifecycle_inv_def inv], of k]
      by (simp add: log_ok_def get evs p' e split: option.splits)
  qed
qed

text \<open>What a successful transition command did: a replay, or one legal step that was persisted.\<close>

lemma transition_command_cases:
  assumes cmd: "transition_proposal_state sha repo pid payload raw req at eid s = Inr (resp, s')"
  obtains (replay) ev where "s' = s"
      and "resp = build_state_transition_replay_response pid ev"
      and "load_replayed_event repo s pid (normalize_optional_idempotency_key raw)
             (build_state_transition_request_hash sha payload) = Inr (Some ev)"
    | (fresh) p t where "rp_get_proposal repo s pid = Some p"
      and "lifecycle_edge (pr_current_state p) (tq_event_type payload) t"
      and "tq_expected_state payload = None \<or> tq_expected_state payload = Some (pr_current_state p)"
      and "resp = build_state_transition_response pid t
             (build_state_transition_event eid p payload t at
               (normalize_optional_idempotency_key raw)
               (build_state_transition_request_hash sha payload))"
      and "rp_transition_proposal repo
             (apply_lifecycle_transition_state p t
               (build_state_transition_event eid p payload t at
                 (normalize_optional_idempotency_key raw)
                 (build_state_transition_request_hash sha payload)))
             (build_state_transition_event eid p payload t at
               (normalize_optional_idempotency_key raw)
               (build_state_transition_request_hash sha payload))
             None (Some (pr_current_state p)) (Some (pr_current_version_no p)) s
           = Inr (\<lparr>tr_proposal = apply_lifecycle_transition_state p t
               (build_state_transition_event eid p payload t at
                 (normalize_optional_idempotency_key raw)
                 (build_state_transition_request_hash sha payload)),
               tr_event = build_state_transition_event eid p payload t at
                 (normalize_optional_idempotency_key raw)
                 (build_state_transition_request_hash sha payload), tr_approval = None\<rparr>, s')"
proof -
  let ?k = "normalize_optional_idempotency_key raw"
  let ?h = "build_state_transition_request_hash sha payload"
  obtain p where p: "rp_get_proposal repo s pid = Some p"
    using cmd by (auto simp: transition_proposal_state_def Let_def split: option.splits)
  obtain re where re: "load_replayed_event repo s pid ?k ?h = Inr re"
    using cmd p by (auto simp: transition_proposal_state_def Let_def rbind_eq_Inr)
  show thesis
  proof (cases re)
    case (Some ev)
    have "s' = s" "resp = build_state_transition_replay_response pid ev"
      using cmd p re Some by (simp_all add: transition_proposal_state_def)
    then show ?thesis by (rule replay) (simp add: re Some)
  next
    case None
    obtain t r where t: "resolve_transition_state (pr_current_state p) (tq_event_type payload) = Inr t"
      and ok: "validate_proposal_expected_state (pr_current_state p) (tq_expected_state payload) req
        = Inr ()"
      and tr: "persist_proposal_transition repo
          (apply_lifecycle_transition_state p t (build_state_transition_event eid p payload t at ?k ?h))
          (build_state_transition_event eid p payload t at ?k ?h) s = Inr (r, s')"
      and resp: "resp = build_state_transition_response pid (pr_current_state (tr_proposal r)) (tr_event r)"
      using cmd p re None
      by (auto simp: transition_proposal_state_def Let_def rbind_eq_Inr
          build_state_transition_event_and_apply_state_def resolve_proposal_transition_state_def)
    have tr': "rp_transition_proposal repo
          (apply_lifecycle_transition_state p t (build_state_transition_event eid p payload t at ?k ?h))
          (build_state_transition_event eid p payload t at ?k ?h) None
          (Some (pr_current_state p)) (Some (pr_current_version_no p)) s = Inr (r, s')"
      using tr by (simp add: persist_proposal_transition_def build_state_transition_event_def
          apply_lifecycle_transition_state_def)
    note r = transition_result [OF tr']
    show ?thesis
    proof (rule fresh)
      show "rp_get_proposal repo s pid = Some p" by (rule p)
      show "lifecycle_edge (pr_current_state p) (tq_event_type payload) t"
        using t by (simp add: resolve_transition_edge)
      show "tq_expected_state payload = None \<or>
          tq_expected_state payload = Some (pr_current_state p)"
        by (rule expected_state_ok [OF ok])
      show "resp = build_state_transition_response pid t
          (build_state_transition_event eid p payload t at ?k ?h)"
        using resp r by (simp add: apply_lifecycle_transition_state_def)
    qed (use tr' r in simp)
  qed
qed

lemma transition_command_inv:
  assumes inv: "lifecycle_inv repo s"
    and cmd: "transition_proposal_state sha repo pid payload raw req at eid s = Inr (resp, s')"
  shows "lifecycle_inv repo s'"
  using cmd
proof (cases rule: transition_command_cases)
  case (replay ev)
  with inv show ?thesis by simp
next
  case (fresh p t)
  show ?thesis
    by (rule transition_keeps_inv [OF inv fresh(1) fresh(5)])
      (use fresh(2) lifecycle_inv_id [OF inv fresh(1)] in
        \<open>auto simp: apply_lifecycle_transition_state_def build_state_transition_event_def
          intro: legal_step.edge\<close>)
qed

text \<open>What a successful approval command did.\<close>

lemma approval_command_cases:
  assumes cmd: "record_proposal_approval sha repo pid payload raw req at aid eid s = Inr (resp, s')"
  obtains (replay) ap ev where "s' = s"
      and "resp = build_approval_transition_response pid (we_to_state ev) ev (Some ap)"
      and "ap \<in> set (rp_list_approvals repo s pid)" and "ev \<in> set (rp_list_events repo s pid)"
    | (fresh) p ety t cs p' where "rp_get_proposal repo s pid = Some p"
      and "resolve_approval_transition (pr_current_state p) (aq_approval_type payload)
             (aq_approved payload) = Inr (ety, t)"
      and "(cs, p') = build_approval_command_state_and_apply_transition aid eid p payload ety t at
             (normalize_optional_idempotency_key raw) (build_approval_request_hash sha payload)"
      and "resp = build_approval_transition_response pid t (as_event cs) (Some (as_approval cs))"
      and "rp_transition_proposal repo p' (as_event cs) (Some (as_approval cs))
             (Some (pr_current_state p)) (Some (pr_current_version_no p)) s
           = Inr (\<lparr>tr_proposal = p', tr_event = as_event cs, tr_approval = Some (as_approval cs)\<rparr>, s')"
proof -
  let ?k = "normalize_optional_idempotency_key raw"
  let ?h = "build_approval_request_hash sha payload"
  obtain p where p: "rp_get_proposal repo s pid = Some p"
    using cmd by (auto simp: record_proposal_approval_def Let_def split: option.splits)
  obtain ra where ra: "load_replayed_approval repo s pid ?k ?h = Inr ra"
    using cmd p by (auto simp: record_proposal_approval_def Let_def rbind_eq_Inr)
  show thesis
  proof (cases ra)
    case (Some ap)
    then have "ap \<in> set (rp_list_approvals repo s pid)"
      using ra by (auto simp: load_replayed_approval_def find_replayed_approval_def
          dest: find_replayed_in)
    moreover
    have cmd': "rbind (load_replayed_event repo s pid ?k ?h)
        (\<lambda>re. case build_approval_replay_response_from_referents pid ap re of
           None \<Rightarrow> Inl (ProposalLifecycleError ''PROPOSAL_IDEMPOTENCY_REFERENT_NOT_FOUND'')
         | Some response \<Rightarrow> Inr (response, s)) = Inr (resp, s')"
      using cmd p ra Some by (simp add: record_proposal_approval_def)
    then obtain re where re: "load_replayed_event repo s pid ?k ?h = Inr re"
      by (auto simp: rbind_eq_Inr)
    with cmd' obtain ev where ev: "re = Some ev"
      and "resp = build_approval_transition_response pid (we_to_state ev) ev (Some ap)" "s' = s"
      by (cases re) (auto simp: build_approval_replay_response_from_referents_def)
    moreover from re ev have "ev \<in> set (rp_list_events repo s pid)"
      by (auto simp: load_replayed_event_def find_replayed_event_def dest: find_replayed_in)
    ultimately show ?thesis using replay by blast
  next
    case None
    obtain ety t r where t: "resolve_approval_transition (pr_current_state p)
        (aq_approval_type payload) (aq_approved payload) = Inr (ety, t)"
      and tr: "persist_proposal_approval_transition repo
          (snd (build_approval_command_state_and_apply_transition aid eid p payload ety t at ?k ?h))
          (as_event (fst (build_approval_command_state_and_apply_transition aid eid p payload ety t at ?k ?h)))
          (as_approval (fst (build_approval_command_state_and_apply_transition aid eid p payload ety t at ?k ?h)))
          s = Inr (r, s')"
      and resp: "resp = build_approval_transition_response pid (pr_current_state (tr_proposal r))
          (tr_event r) (tr_approval r)"
      using cmd p ra None
      by (auto simp: record_proposal_approval_def Let_def rbind_eq_Inr
          resolve_proposal_approval_transition_def)
    obtain cs p' where cp: "build_approval_command_state_and_apply_transition aid eid p payload ety t
        at ?k ?h = (cs, p')" by (rule prod.exhaust)
    have fields: "we_from_state (as_event cs) = Some (pr_current_state p)"
      "pr_current_version_no p' = pr_current_version_no p" "pr_current_state p' = t"
      using cp by (auto simp: build_approval_command_state_and_apply_transition_def Let_def
          build_approval_transition_event_def apply_lifecycle_transition_state_def)
    have tr': "rp_transition_proposal repo p' (as_event cs) (Some (as_approval cs))
        (Some (pr_current_state p)) (Some (pr_current_version_no p)) s = Inr (r, s')"
      using tr by (simp add: persist_proposal_approval_transition_def cp fields)
    show ?thesis
      by (rule fresh [OF p t cp [symmetric]])
        (use resp tr' transition_result [OF tr'] fields in simp_all)
  qed
qed

lemma approval_command_inv:
  assumes inv: "lifecycle_inv repo s"
    and cmd: "record_proposal_approval sha repo pid payload raw req at aid eid s = Inr (resp, s')"
  shows "lifecycle_inv repo s'"
  using cmd
proof (cases rule: approval_command_cases)
  case (replay ap ev)
  with inv show ?thesis by simp
next
  case (fresh p ety t cs p')
  note build = build_approval_command_state_and_apply_transition_def Let_def
    build_approval_transition_event_def apply_lifecycle_transition_state_def
  show ?thesis
    by (rule transition_keeps_inv [OF inv fresh(1) fresh(5)])
      (use fresh(3) lifecycle_inv_id [OF inv fresh(1)] resolve_approval_edge [OF fresh(2)] in
        \<open>auto simp: build intro: legal_step.edge\<close>)
qed

section \<open>Retries\<close>

text \<open>
  A command with a valid key that was carried out is answered, on any later state that still
  holds its event as the last one under that key, with the response it gave the first time and
  without a write; the same key with another request is refused.
\<close>

lemma transition_retry:
  assumes first: "transition_proposal_state sha repo pid payload raw req at eid s = Inr (resp, s1)"
    and key: "normalize_optional_idempotency_key raw = Some k"
    and new: "load_replayed_event repo s pid (Some k)
      (build_state_transition_request_hash sha payload) = Inr None"
    and inv: "lifecycle_inv repo s"
    and later: "rp_list_events repo s2 pid = rp_list_events repo s1 pid @ es"
    and other_keys: "\<forall>e \<in> set es. obj_get (we_reason_json e) ''idempotency_key'' \<noteq> JStr k"
    and there: "rp_get_proposal repo s2 pid \<noteq> None"
  shows "transition_proposal_state sha repo pid payload raw req' at' eid' s2 = Inr (resp, s2)"
  using first
proof (cases rule: transition_command_cases)
  case (replay ev)
  then show ?thesis using new key by simp
next
  case (fresh p t)
  let ?h = "build_state_transition_request_hash sha payload"
  let ?e = "build_state_transition_event eid p payload t at (Some k) ?h"
  have kne: "k \<noteq> []" by (rule normalized_key_nonempty [OF key])
  have "we_proposal_id ?e = pid"
    using lifecycle_inv_id [OF inv fresh(1)] by (simp add: build_state_transition_event_def)
  then have "rp_list_events repo s2 pid = rp_list_events repo s pid @ ?e # es"
    using transition_events [OF fresh(5) [unfolded key], of pid] later by simp
  then have "find_replayed_event (rp_list_events repo s2 pid) (Some k) ?h = Inr (Some ?e)"
    unfolding find_replayed_event_def
    by (simp only:) (rule find_replayed_hit,
        use kne other_keys in \<open>simp_all add: build_state_transition_event_def\<close>)
  then show ?thesis
    using there fresh(4)
    by (auto simp: transition_proposal_state_def key load_replayed_event_def
        build_state_transition_replay_response_def build_state_transition_event_def)
qed

lemma transition_key_reuse_refused:
  assumes first: "transition_proposal_state sha repo pid payload raw req at eid s = Inr (resp, s1)"
    and key: "normalize_optional_idempotency_key raw = Some k"
    and new: "load_replayed_event repo s pid (Some k)
      (build_state_transition_request_hash sha payload) = Inr None"
    and inv: "lifecycle_inv repo s"
    and later: "rp_list_events repo s2 pid = rp_list_events repo s1 pid @ es"
    and other_keys: "\<forall>e \<in> set es. obj_get (we_reason_json e) ''idempotency_key'' \<noteq> JStr k"
    and there: "rp_get_proposal repo s2 pid \<noteq> None"
    and differs: "build_state_transition_request_hash sha payload \<noteq>
      build_state_transition_request_hash sha payload'"
  shows "transition_proposal_state sha repo pid payload' raw req' at' eid' s2 =
    Inl (ProposalIdempotencyConflictError ''IDEMPOTENCY_KEY_CONFLICT: request hash mismatch'')"
  using first
proof (cases rule: transition_command_cases)
  case (replay ev)
  then show ?thesis using new key by simp
next
  case (fresh p t)
  let ?h = "build_state_transition_request_hash sha payload"
  let ?h' = "build_state_transition_request_hash sha payload'"
  let ?e = "build_state_transition_event eid p payload t at (Some k) ?h"
  have kne: "k \<noteq> []" by (rule normalized_key_nonempty [OF key])
  have "we_proposal_id ?e = pid"
    using lifecycle_inv_id [OF inv fresh(1)] by (simp add: build_state_transition_event_def)
  then have "rp_list_events repo s2 pid = rp_list_events repo s pid @ ?e # es"
    using transition_events [OF fresh(5) [unfolded key], of pid] later by simp
  then have "find_replayed_event (rp_list_events repo s2 pid) (Some k) ?h' =
      Inl ''IDEMPOTENCY_KEY_CONFLICT: request hash mismatch''"
    unfolding find_replayed_event_def
    by (simp only:) (rule find_replayed_conflict [where h = ?h],
        use kne other_keys differs in \<open>simp_all add: build_state_transition_event_def\<close>)
  then show ?thesis
    using there by (auto simp: transition_proposal_state_def key load_replayed_event_def)
qed

end

end
