(* ===== verification/Execution_Commands.thy ===== *)
theory Execution_Commands
  imports Lifecycle_Invariant
begin

text \<open>
  The execution handoff and the ingestion of downstream execution updates
  (src/core/proposals/execution_handoff.py, execution_handoff_command.py, execution_update.py,
  execution_update_command.py), the execution status read model (execution_status.py) and the
  ownership boundary (execution_boundary.py).

  \<open>datetime.fromisoformat\<close> on a caller's text is the parameter \<open>parse_iso\<close>: the text may be an
  aware or a naive timestamp or not a timestamp at all. A response model checks its optional
  text fields, so a reason entry that is neither text nor null is a \<open>ValueError\<close>.
\<close>

section \<open>Ownership boundary\<close>

definition execution_ownership_boundary :: json_dict where
  "execution_ownership_boundary =
     [(''advisory_role'', JStr ''HANDOFF_REQUEST_AND_STATUS_RECONCILIATION''),
      (''execution_system_of_record'', JStr ''DOWNSTREAM_EXECUTION_PROVIDER''),
      (''ownership_boundary'', JStr ''DOWNSTREAM_EXECUTION_SYSTEM_OF_RECORD'')]"

section \<open>Handoff\<close>

record execution_handoff_response =
  hr_proposal :: proposal_summary
  hr_execution_request_id :: string
  hr_handoff_status :: handoff_status
  hr_execution_provider :: string
  hr_execution_ownership :: json_dict
  hr_latest_workflow_event :: workflow_event

definition build_execution_handoff_request_hash ::
  "(string \<Rightarrow> string) \<Rightarrow> execution_handoff_request \<Rightarrow> string" where
  "build_execution_handoff_request_hash sha payload =
     hash_canonical_payload sha (execution_handoff_request_json payload)"

definition validate_execution_handoff_ready :: "workflow_state \<Rightarrow> string + unit" where
  "validate_execution_handoff_ready current_state =
     (if current_state \<noteq> EXECUTION_READY
      then Inl ''STATE_CONFLICT: proposal must be EXECUTION_READY for execution handoff''
      else Inr ())"

definition build_execution_handoff_replay_response ::
  "proposal_record \<Rightarrow> workflow_event_record \<Rightarrow> execution_handoff_response" where
  "build_execution_handoff_replay_response proposal replay_event =
     (let execution_request_id = obj_get (we_reason_json replay_event) ''execution_request_id'' in
      \<lparr>hr_proposal = to_proposal_summary proposal,
       hr_execution_request_id =
         (if execution_request_id \<noteq> JNull then py_str execution_request_id else []),
       hr_handoff_status = REQUESTED,
       hr_execution_provider =
         py_str (obj_get (we_reason_json replay_event) ''execution_provider''),
       hr_execution_ownership = execution_ownership_boundary,
       hr_latest_workflow_event = to_workflow_event replay_event\<rparr>)"

definition build_execution_handoff_requested_event ::
  "string \<Rightarrow> proposal_record \<Rightarrow> execution_handoff_request \<Rightarrow> timestamp \<Rightarrow> string \<Rightarrow>
   string option \<Rightarrow> string \<Rightarrow> workflow_event_record" where
  "build_execution_handoff_requested_event event_id proposal payload occurred_at
       execution_request_id idempotency_key request_hash =
     (let reason_json = with_idempotency
            [(''execution_request_id'', JStr execution_request_id),
             (''execution_provider'', JStr (hq_execution_provider payload)),
             (''correlation_id'', opt_str (hq_correlation_id payload)),
             (''external_request_id'', opt_str (hq_external_request_id payload)),
             (''execution_ownership'', JObj execution_ownership_boundary),
             (''notes'', JObj (hq_notes payload))]
            idempotency_key request_hash
      in \<lparr>we_event_id = event_id, we_proposal_id = pr_proposal_id proposal,
          we_event_type = EXECUTION_REQUESTED,
          we_from_state = Some (pr_current_state proposal), we_to_state = EXECUTION_READY,
          we_actor_id = hq_actor_id payload, we_occurred_at = occurred_at,
          we_reason_json = drop_nulls reason_json,
          we_related_version_no =
            int_or (hq_related_version_no payload) (Some (pr_current_version_no proposal))\<rparr>)"

definition apply_execution_handoff_state ::
  "proposal_record \<Rightarrow> workflow_event_record \<Rightarrow> proposal_record" where
  "apply_execution_handoff_state proposal event =
     proposal\<lparr>pr_last_event_at := we_occurred_at event\<rparr>"

definition build_execution_handoff_event_and_apply_state ::
  "string \<Rightarrow> proposal_record \<Rightarrow> execution_handoff_request \<Rightarrow> timestamp \<Rightarrow> string \<Rightarrow>
   string option \<Rightarrow> string \<Rightarrow> workflow_event_record \<times> proposal_record" where
  "build_execution_handoff_event_and_apply_state event_id proposal payload occurred_at
       execution_request_id idempotency_key request_hash =
     (let event = build_execution_handoff_requested_event event_id proposal payload occurred_at
                    execution_request_id idempotency_key request_hash
      in (event, apply_execution_handoff_state proposal event))"

definition build_execution_handoff_response ::
  "proposal_record \<Rightarrow> workflow_event_record \<Rightarrow> string \<Rightarrow> string \<Rightarrow> execution_handoff_response" where
  "build_execution_handoff_response proposal event execution_request_id execution_provider =
     \<lparr>hr_proposal = to_proposal_summary proposal,
      hr_execution_request_id = execution_request_id, hr_handoff_status = REQUESTED,
      hr_execution_provider = execution_provider,
      hr_execution_ownership = execution_ownership_boundary,
      hr_latest_workflow_event = to_workflow_event event\<rparr>"

definition request_proposal_execution_handoff ::
  "(string \<Rightarrow> string) \<Rightarrow> 's proposal_repository \<Rightarrow> string \<Rightarrow> execution_handoff_request \<Rightarrow>
   string option \<Rightarrow> bool \<Rightarrow> timestamp \<Rightarrow> string \<Rightarrow> string \<Rightarrow> 's \<Rightarrow>
   proposal_error + (execution_handoff_response \<times> 's)" where
  "request_proposal_execution_handoff sha repo proposal_id payload raw_key require_expected_state
       occurred_at new_request_id event_id s =
     (let idempotency_key = normalize_optional_idempotency_key raw_key in
      case rp_get_proposal repo s proposal_id of
        None \<Rightarrow> Inl (ProposalNotFoundError ''PROPOSAL_NOT_FOUND'')
      | Some proposal \<Rightarrow>
          let request_hash = build_execution_handoff_request_hash sha payload in
          rbind (load_replayed_event repo s proposal_id idempotency_key request_hash)
            (\<lambda>replay_event. case replay_event of
               Some e \<Rightarrow> Inr (build_execution_handoff_replay_response proposal e, s)
             | None \<Rightarrow>
                 rbind (validate_proposal_expected_state (pr_current_state proposal)
                          (hq_expected_state payload) require_expected_state)
                   (\<lambda>_. rbind (rmap_error ProposalStateConflictError
                                 (validate_execution_handoff_ready (pr_current_state proposal)))
                     (\<lambda>_.
                        let execution_request_id =
                              (case hq_external_request_id payload of
                                 Some i \<Rightarrow> if i = [] then new_request_id else i
                               | None \<Rightarrow> new_request_id);
                            ep = build_execution_handoff_event_and_apply_state event_id proposal
                                   payload occurred_at execution_request_id idempotency_key
                                   request_hash
                        in rbind (persist_proposal_transition repo (snd ep) (fst ep) s)
                          (\<lambda>(result, s'). Inr (build_execution_handoff_response
                             (tr_proposal result) (tr_event result) execution_request_id
                             (hq_execution_provider payload), s'))))))"

section \<open>Execution status\<close>

record execution_status_projection =
  xp_handoff_status :: handoff_status
  xp_execution_request_id :: json
  xp_execution_provider :: json
  xp_related_version_no :: "int option"
  xp_handoff_requested_at :: "string option"
  xp_executed_at :: "string option"
  xp_external_execution_id :: json

record execution_status_response =
  xs_proposal :: proposal_summary
  xs_handoff_status :: handoff_status
  xs_execution_request_id :: "string option"
  xs_execution_provider :: "string option"
  xs_related_version_no :: "int option"
  xs_handoff_requested_at :: "string option"
  xs_executed_at :: "string option"
  xs_external_execution_id :: "string option"
  xs_latest_workflow_event :: "workflow_event option"
  xs_execution_ownership :: json_dict
  xs_explanation :: json_dict

fun first_event_where ::
  "(workflow_event_record \<Rightarrow> bool) \<Rightarrow> workflow_event_record list \<Rightarrow> workflow_event_record option" where
  "first_event_where P [] = None"
| "first_event_where P (e # es) = (if P e then Some e else first_event_where P es)"

definition latest_execution_requested_event ::
  "workflow_event_record list \<Rightarrow> workflow_event_record option" where
  "latest_execution_requested_event events =
     first_event_where (\<lambda>e. we_event_type e = EXECUTION_REQUESTED) (rev events)"

definition latest_execution_status_event ::
  "workflow_event_record list \<Rightarrow> workflow_event_record option" where
  "latest_execution_status_event events =
     first_event_where (\<lambda>e. we_event_type e \<in> set EXECUTION_STATUS_EVENT_TYPES) (rev events)"

definition empty_projection :: execution_status_projection where
  "empty_projection = \<lparr>xp_handoff_status = NOT_REQUESTED, xp_execution_request_id = JNull,
     xp_execution_provider = JNull, xp_related_version_no = None,
     xp_handoff_requested_at = None, xp_executed_at = None, xp_external_execution_id = JNull\<rparr>"

definition requested_event_projection ::
  "workflow_event_record option \<Rightarrow> execution_status_projection" where
  "requested_event_projection event =
     (case event of
        None \<Rightarrow> empty_projection
      | Some e \<Rightarrow> empty_projection
          \<lparr>xp_handoff_status := REQUESTED,
           xp_execution_request_id := obj_get (we_reason_json e) ''execution_request_id'',
           xp_execution_provider := obj_get (we_reason_json e) ''execution_provider'',
           xp_related_version_no := we_related_version_no e,
           xp_handoff_requested_at := Some (isoformat (we_occurred_at e))\<rparr>)"

definition first_present :: "json \<Rightarrow> json \<Rightarrow> json" where
  "first_present a b = (if a \<noteq> JNull then a else b)"

definition status_event_projection ::
  "workflow_event_record \<Rightarrow> execution_status_projection \<Rightarrow> bool \<Rightarrow> execution_status_projection" where
  "status_event_projection event projection has_request_event =
     projection
       \<lparr>xp_handoff_status := execution_status_for_event (we_event_type event),
        xp_execution_request_id :=
          (if has_request_event then xp_execution_request_id projection
           else obj_get (we_reason_json event) ''execution_request_id''),
        xp_execution_provider :=
          (if has_request_event then xp_execution_provider projection
           else obj_get (we_reason_json event) ''execution_provider''),
        xp_related_version_no :=
          int_or (we_related_version_no event) (xp_related_version_no projection),
        xp_executed_at :=
          (if we_event_type event \<noteq> EXECUTED_ev then None
           else Some (isoformat (we_occurred_at event))),
        xp_external_execution_id :=
          first_present (obj_get (we_reason_json event) ''external_execution_id'')
            (obj_get (we_reason_json event) ''execution_id'')\<rparr>"

definition build_execution_status_projection ::
  "workflow_event_record option \<Rightarrow> workflow_event_record option \<Rightarrow> execution_status_projection" where
  "build_execution_status_projection latest_execution_requested latest_execution_event =
     (let projection = requested_event_projection latest_execution_requested in
      case latest_execution_event of
        None \<Rightarrow> projection
      | Some e \<Rightarrow> status_event_projection e projection (latest_execution_requested \<noteq> None))"

definition optional_text :: "json \<Rightarrow> proposal_error + string option" where
  "optional_text v =
     (case v of JNull \<Rightarrow> Inr None | JStr t \<Rightarrow> Inr (Some t) | _ \<Rightarrow> Inl (PyValueError ''ValidationError''))"

definition build_execution_status_response ::
  "proposal_record \<Rightarrow> workflow_event_record list \<Rightarrow> proposal_error + execution_status_response" where
  "build_execution_status_response proposal events =
     (let latest_execution_event = latest_execution_status_event events;
          projection = build_execution_status_projection (latest_execution_requested_event events)
                         latest_execution_event
      in rbind (optional_text (xp_execution_request_id projection)) (\<lambda>request_id.
         rbind (optional_text (xp_execution_provider projection)) (\<lambda>provider.
         rbind (optional_text (xp_external_execution_id projection)) (\<lambda>external_id.
           Inr \<lparr>xs_proposal = to_proposal_summary proposal,
                xs_handoff_status = xp_handoff_status projection,
                xs_execution_request_id = request_id,
                xs_execution_provider = provider,
                xs_related_version_no = xp_related_version_no projection,
                xs_handoff_requested_at = xp_handoff_requested_at projection,
                xs_executed_at = xp_executed_at projection,
                xs_external_execution_id = external_id,
                xs_latest_workflow_event = map_option to_workflow_event latest_execution_event,
                xs_execution_ownership = execution_ownership_boundary,
                xs_explanation =
                  [(''source'', JStr ''ADVISORY_WORKFLOW_EVENTS''),
                   (''state_correlation'',
                    JStr (execution_state_correlation (xp_handoff_status projection))),
                   (''execution_ownership'', JObj execution_ownership_boundary)]\<rparr>))))"

section \<open>Execution updates\<close>

text \<open>
  What \<open>datetime.fromisoformat\<close> makes of a caller's text. Comparing a naive timestamp with an aware
  one is a \<open>TypeError\<close>, a text that is no timestamp a \<open>ValueError\<close>; the command catches neither.
\<close>

datatype iso_result = IsoAware timestamp | IsoNaive timestamp | IsoInvalid

definition build_execution_update_idempotency_key :: "execution_update_request \<Rightarrow> string" where
  "build_execution_update_idempotency_key payload = ''execution-update:'' @ uq_update_id payload"

definition build_execution_update_request_hash ::
  "(string \<Rightarrow> string) \<Rightarrow> execution_update_request \<Rightarrow> string" where
  "build_execution_update_request_hash sha payload =
     hash_canonical_payload sha (execution_update_request_json payload)"

definition find_replayed_execution_update_event ::
  "workflow_event_record list \<Rightarrow> execution_update_request \<Rightarrow> string \<Rightarrow>
   string + workflow_event_record option" where
  "find_replayed_execution_update_event events payload request_hash =
     find_replayed_event events (Some (build_execution_update_idempotency_key payload)) request_hash"

definition validate_execution_update_handoff_identity ::
  "workflow_event_record \<Rightarrow> execution_update_request \<Rightarrow> string + unit" where
  "validate_execution_update_handoff_identity handoff_event payload =
     (if obj_get (we_reason_json handoff_event) ''execution_request_id'' \<noteq>
           JStr (uq_execution_request_id payload)
      then Inl ''EXECUTION_REQUEST_ID_MISMATCH''
      else if obj_get (we_reason_json handoff_event) ''execution_provider'' \<noteq>
           JStr (uq_execution_provider payload)
      then Inl ''EXECUTION_PROVIDER_MISMATCH''
      else Inr ())"

definition validate_execution_update_state ::
  "proposal_record \<Rightarrow> workflow_state list \<Rightarrow> string + unit" where
  "validate_execution_update_state proposal terminal_states =
     (if pr_current_state proposal \<in> set terminal_states
      then Inl ''PROPOSAL_TERMINAL_STATE: execution update rejected'' else Inr ())"

definition resolve_execution_update_occurred_at ::
  "(string \<Rightarrow> iso_result) \<Rightarrow> execution_update_request \<Rightarrow> timestamp \<Rightarrow>
   proposal_error + iso_result" where
  "resolve_execution_update_occurred_at parse_iso payload default_occurred_at =
     (case uq_occurred_at payload of
        None \<Rightarrow> Inr (IsoAware default_occurred_at)
      | Some text \<Rightarrow>
          (case parse_iso text of
             IsoInvalid \<Rightarrow> Inl (PyValueError ''Invalid isoformat string'')
           | r \<Rightarrow> Inr r))"

definition validate_execution_update_occurred_after_handoff ::
  "iso_result \<Rightarrow> workflow_event_record \<Rightarrow> proposal_error + timestamp" where
  "validate_execution_update_occurred_after_handoff occurred_at handoff_event =
     (case occurred_at of
        IsoAware t \<Rightarrow>
          if t < we_occurred_at handoff_event
          then Inl (ProposalValidationError ''EXECUTION_UPDATE_OCCURRED_BEFORE_HANDOFF'')
          else Inr t
      | _ \<Rightarrow> Inl (PyTypeError ''can't compare offset-naive and offset-aware datetimes''))"

definition build_execution_update_event ::
  "string \<Rightarrow> string \<Rightarrow> workflow_state \<Rightarrow> execution_update_request \<Rightarrow> workflow_event_type \<Rightarrow>
   workflow_state \<Rightarrow> timestamp \<Rightarrow> string \<Rightarrow> int option \<Rightarrow> workflow_event_record" where
  "build_execution_update_event event_id proposal_id current_state payload event_type to_state
       occurred_at request_hash handoff_related_version_no =
     (let reason_json =
            [(''update_id'', JStr (uq_update_id payload)),
             (''execution_request_id'', JStr (uq_execution_request_id payload)),
             (''execution_provider'', JStr (uq_execution_provider payload)),
             (''external_execution_id'', opt_str (uq_external_execution_id payload)),
             (''details'', JObj (uq_details payload)),
             (''idempotency_key'', JStr (build_execution_update_idempotency_key payload)),
             (''idempotency_request_hash'', JStr request_hash)]
      in \<lparr>we_event_id = event_id, we_proposal_id = proposal_id, we_event_type = event_type,
          we_from_state = Some current_state, we_to_state = to_state,
          we_actor_id = uq_actor_id payload, we_occurred_at = occurred_at,
          we_reason_json = drop_nulls reason_json,
          we_related_version_no =
            int_or (uq_related_version_no payload) handoff_related_version_no\<rparr>)"

definition apply_execution_update_state ::
  "proposal_record \<Rightarrow> workflow_state \<Rightarrow> workflow_event_record \<Rightarrow> proposal_record" where
  "apply_execution_update_state proposal to_state event =
     proposal\<lparr>pr_current_state := to_state, pr_last_event_at := we_occurred_at event\<rparr>"

definition build_execution_update_event_and_apply_state ::
  "string \<Rightarrow> proposal_record \<Rightarrow> execution_update_request \<Rightarrow> workflow_event_type \<Rightarrow>
   workflow_state \<Rightarrow> timestamp \<Rightarrow> string \<Rightarrow> int option \<Rightarrow>
   workflow_event_record \<times> proposal_record" where
  "build_execution_update_event_and_apply_state event_id proposal payload event_type to_state
       occurred_at request_hash handoff_related_version_no =
     (let event = build_execution_update_event event_id (pr_proposal_id proposal)
                    (pr_current_state proposal) payload event_type to_state occurred_at
                    request_hash handoff_related_version_no
      in (event, apply_execution_update_state proposal to_state event))"

definition required_execution_requested_event ::
  "workflow_event_record list \<Rightarrow> proposal_error + workflow_event_record" where
  "required_execution_requested_event events =
     (case latest_execution_requested_event events of
        None \<Rightarrow> Inl (ProposalValidationError ''EXECUTION_HANDOFF_NOT_FOUND'')
      | Some e \<Rightarrow> Inr e)"

definition resolve_valid_execution_update_timestamp ::
  "(string \<Rightarrow> iso_result) \<Rightarrow> execution_update_request \<Rightarrow> timestamp \<Rightarrow>
   workflow_event_record \<Rightarrow> proposal_error + timestamp" where
  "resolve_valid_execution_update_timestamp parse_iso payload default_occurred_at handoff_event =
     rbind (resolve_execution_update_occurred_at parse_iso payload default_occurred_at)
       (\<lambda>occurred_at.
          validate_execution_update_occurred_after_handoff occurred_at handoff_event)"

text \<open>
  \<open>None\<close> in the result means that the update was recorded; a replayed update returns the
  current status.
\<close>

definition record_proposal_execution_update ::
  "(string \<Rightarrow> string) \<Rightarrow> (string \<Rightarrow> iso_result) \<Rightarrow> 's proposal_repository \<Rightarrow> string \<Rightarrow>
   execution_update_request \<Rightarrow> workflow_state list \<Rightarrow> timestamp \<Rightarrow> string \<Rightarrow> 's \<Rightarrow>
   proposal_error + (execution_status_response option \<times> 's)" where
  "record_proposal_execution_update sha parse_iso repo proposal_id payload terminal_states
       default_occurred_at event_id s =
     (case rp_get_proposal repo s proposal_id of
        None \<Rightarrow> Inl (ProposalNotFoundError ''PROPOSAL_NOT_FOUND'')
      | Some proposal \<Rightarrow>
          let events = rp_list_events repo s proposal_id in
          rbind (required_execution_requested_event events) (\<lambda>handoff_event.
          rbind (rmap_error ProposalStateConflictError
                   (validate_execution_update_handoff_identity handoff_event payload)) (\<lambda>_.
            let request_hash = build_execution_update_request_hash sha payload in
            rbind (rmap_error ProposalIdempotencyConflictError
                     (find_replayed_execution_update_event events payload request_hash))
              (\<lambda>replay_event. if replay_event \<noteq> None
                 then rbind (build_execution_status_response proposal events)
                        (\<lambda>response. Inr (Some response, s))
                 else
                   rbind (rmap_error PyValueError
                            (resolve_execution_update_event (uq_update_status payload)))
                     (\<lambda>(event_type, to_state).
                   rbind (rmap_error ProposalStateConflictError
                            (validate_execution_update_state proposal terminal_states)) (\<lambda>_.
                   rbind (resolve_valid_execution_update_timestamp parse_iso payload
                            default_occurred_at handoff_event) (\<lambda>occurred_at.
                     let ep = build_execution_update_event_and_apply_state event_id proposal
                                payload event_type to_state occurred_at request_hash
                                (we_related_version_no handoff_event)
                     in rbind (persist_proposal_transition repo (snd ep) (fst ep) s)
                          (\<lambda>(result, s'). Inr (None, s')))))))))"

definition build_execution_status_view ::
  "'s proposal_repository \<Rightarrow> 's \<Rightarrow> string \<Rightarrow> proposal_error + execution_status_response" where
  "build_execution_status_view repo s proposal_id =
     (case rp_get_proposal repo s proposal_id of
        None \<Rightarrow> Inl (ProposalNotFoundError ''PROPOSAL_NOT_FOUND'')
      | Some proposal \<Rightarrow>
          build_execution_status_response proposal (rp_list_events repo s proposal_id))"

definition record_execution_update ::
  "(string \<Rightarrow> string) \<Rightarrow> (string \<Rightarrow> iso_result) \<Rightarrow> 's proposal_repository \<Rightarrow> string \<Rightarrow>
   execution_update_request \<Rightarrow> timestamp \<Rightarrow> string \<Rightarrow> 's \<Rightarrow>
   's \<times> (proposal_error + execution_status_response)" where
  "record_execution_update sha parse_iso repo proposal_id payload utc_now event_id s =
     (case record_proposal_execution_update sha parse_iso repo proposal_id payload TERMINAL_STATES
             utc_now event_id s of
        Inl err \<Rightarrow> (s, Inl err)
      | Inr (Some response, s') \<Rightarrow> (s', Inr response)
      | Inr (None, s') \<Rightarrow> (s', build_execution_status_view repo s' proposal_id))"

section \<open>What the commands keep\<close>

lemma latest_where_snoc [simp]:
  "latest_execution_requested_event (es @ [e]) =
     (if we_event_type e = EXECUTION_REQUESTED then Some e else latest_execution_requested_event es)"
  "latest_execution_status_event (es @ [e]) =
     (if we_event_type e \<in> set EXECUTION_STATUS_EVENT_TYPES then Some e
      else latest_execution_status_event es)"
  by (simp_all add: latest_execution_requested_event_def latest_execution_status_event_def)

lemma first_event_where_in: "first_event_where P es = Some e \<Longrightarrow> e \<in> set es \<and> P e"
  by (induction es) (auto split: if_splits)

lemma latest_requested_in:
  "latest_execution_requested_event es = Some e \<Longrightarrow> e \<in> set es \<and> we_event_type e = EXECUTION_REQUESTED"
  by (auto simp: latest_execution_requested_event_def dest: first_event_where_in)

lemma update_event_type_status:
  "resolve_execution_update_event u = Inr (e, t) \<Longrightarrow>
     e \<in> set EXECUTION_STATUS_EVENT_TYPES \<and> e \<noteq> EXECUTION_REQUESTED"
  by (cases u) (auto simp: resolve_execution_update_event_def rule_tables)

context lifecycle_repository
begin

text \<open>What a successful handoff did.\<close>

lemma handoff_command_cases:
  assumes cmd: "request_proposal_execution_handoff sha repo pid payload raw req at rid eid s =
      Inr (resp, s')"
  obtains (replay) p ev where "s' = s" and "rp_get_proposal repo s pid = Some p"
      and "resp = build_execution_handoff_replay_response p ev"
      and "ev \<in> set (rp_list_events repo s pid)"
    | (fresh) p request_id e where "rp_get_proposal repo s pid = Some p"
      and "pr_current_state p = EXECUTION_READY"
      and "e = build_execution_handoff_requested_event eid p payload at request_id
             (normalize_optional_idempotency_key raw)
             (build_execution_handoff_request_hash sha payload)"
      and "request_id = (case hq_external_request_id payload of
             Some i \<Rightarrow> if i = [] then rid else i | None \<Rightarrow> rid)"
      and "resp = build_execution_handoff_response (apply_execution_handoff_state p e) e request_id
             (hq_execution_provider payload)"
      and "rp_transition_proposal repo (apply_execution_handoff_state p e) e None
             (Some (pr_current_state p)) (Some (pr_current_version_no p)) s
           = Inr (\<lparr>tr_proposal = apply_execution_handoff_state p e, tr_event = e,
                   tr_approval = None\<rparr>, s')"
proof -
  let ?k = "normalize_optional_idempotency_key raw"
  let ?h = "build_execution_handoff_request_hash sha payload"
  let ?r = "case hq_external_request_id payload of
     Some i \<Rightarrow> if i = [] then rid else i | None \<Rightarrow> rid"
  obtain p where p: "rp_get_proposal repo s pid = Some p"
    using cmd by (auto simp: request_proposal_execution_handoff_def Let_def split: option.splits)
  let ?e = "build_execution_handoff_requested_event eid p payload at ?r ?k ?h"
  let ?p = "apply_execution_handoff_state p ?e"
  obtain re where re: "load_replayed_event repo s pid ?k ?h = Inr re"
    using cmd p by (auto simp: request_proposal_execution_handoff_def Let_def rbind_eq_Inr)
  show thesis
  proof (cases re)
    case (Some ev)
    have "s' = s" "resp = build_execution_handoff_replay_response p ev"
      using cmd p re Some by (simp_all add: request_proposal_execution_handoff_def)
    moreover have "ev \<in> set (rp_list_events repo s pid)"
      using re Some by (auto simp: load_replayed_event_def find_replayed_event_def
          dest: find_replayed_in)
    ultimately show ?thesis using replay p by blast
  next
    case None
    obtain r where st: "validate_execution_handoff_ready (pr_current_state p) = Inr ()"
      and tr: "persist_proposal_transition repo ?p ?e s = Inr (r, s')"
      and resp: "resp = build_execution_handoff_response (tr_proposal r) (tr_event r) ?r
            (hq_execution_provider payload)"
      using cmd p re None
      by (auto simp: request_proposal_execution_handoff_def Let_def rbind_eq_Inr
          build_execution_handoff_event_and_apply_state_def simp del: fun_upd_apply)
    have tr': "rp_transition_proposal repo ?p ?e None
          (Some (pr_current_state p)) (Some (pr_current_version_no p)) s = Inr (r, s')"
      using tr by (simp add: persist_proposal_transition_def Let_def
          build_execution_handoff_requested_event_def apply_execution_handoff_state_def)
    show ?thesis
      by (rule fresh [OF p _ refl refl])
        (use st resp tr' transition_result [OF tr'] in
          \<open>simp_all add: validate_execution_handoff_ready_def split: if_splits\<close>)
  qed
qed

lemma handoff_command_inv:
  assumes inv: "lifecycle_inv repo s"
    and cmd: "request_proposal_execution_handoff sha repo pid payload raw req at rid eid s =
      Inr (resp, s')"
  shows "lifecycle_inv repo s'"
  using cmd
proof (cases rule: handoff_command_cases)
  case (replay p ev)
  with inv show ?thesis by simp
next
  case (fresh p request_id e)
  have "legal_step EXECUTION_READY EXECUTION_REQUESTED EXECUTION_READY"
    by (rule legal_step.edge) (simp add: lifecycle_edge.simps)
  with fresh(2,3) lifecycle_inv_id [OF inv fresh(1)] show ?thesis
    by (intro transition_keeps_inv [OF inv fresh(1) fresh(6)])
      (simp_all add: apply_execution_handoff_state_def Let_def
        build_execution_handoff_requested_event_def)
qed

text \<open>What a successful execution update did.\<close>

lemma update_command_cases:
  assumes cmd: "record_proposal_execution_update sha parse repo pid payload terms now eid s =
      Inr (resp, s')"
  obtains (replay) p response where "s' = s" and "resp = Some response"
      and "rp_get_proposal repo s pid = Some p"
      and "build_execution_status_response p (rp_list_events repo s pid) = Inr response"
    | (fresh) p h ety t at e where "resp = None" and "rp_get_proposal repo s pid = Some p"
      and "latest_execution_requested_event (rp_list_events repo s pid) = Some h"
      and "validate_execution_update_handoff_identity h payload = Inr ()"
      and "resolve_execution_update_event (uq_update_status payload) = Inr (ety, t)"
      and "pr_current_state p \<notin> set terms"
      and "we_occurred_at h \<le> at"
      and "e = build_execution_update_event eid (pr_proposal_id p) (pr_current_state p) payload
             ety t at (build_execution_update_request_hash sha payload) (we_related_version_no h)"
      and "rp_transition_proposal repo (apply_execution_update_state p t e) e None
             (Some (pr_current_state p)) (Some (pr_current_version_no p)) s
           = Inr (\<lparr>tr_proposal = apply_execution_update_state p t e, tr_event = e,
                   tr_approval = None\<rparr>, s')"
proof -
  let ?h = "build_execution_update_request_hash sha payload"
  obtain p where p: "rp_get_proposal repo s pid = Some p"
    using cmd by (auto simp: record_proposal_execution_update_def split: option.splits)
  let ?es = "rp_list_events repo s pid"
  obtain h where h: "latest_execution_requested_event ?es = Some h"
    using cmd p by (auto simp: record_proposal_execution_update_def Let_def rbind_eq_Inr
        required_execution_requested_event_def split: option.splits)
  have ident: "validate_execution_update_handoff_identity h payload = Inr ()"
    using cmd p h by (auto simp: record_proposal_execution_update_def Let_def rbind_eq_Inr
        required_execution_requested_event_def)
  obtain re where re: "find_replayed_execution_update_event ?es payload ?h = Inr re"
    using cmd p h by (auto simp: record_proposal_execution_update_def Let_def rbind_eq_Inr
        required_execution_requested_event_def)
  obtain ety t where ev: "resolve_execution_update_event (uq_update_status payload) = Inr (ety, t)"
    using resolve_execution_update_total by blast
  note step = record_proposal_execution_update_def Let_def required_execution_requested_event_def
    p h ident re ev
  show thesis
  proof (cases re)
    case (Some e)
    then obtain response where "build_execution_status_response p ?es = Inr response"
      "resp = Some response" "s' = s"
      using cmd by (auto simp: step rbind_eq_Inr)
    then show ?thesis using replay p by blast
  next
    case None
    obtain at where st: "validate_execution_update_state p terms = Inr ()"
      and at: "resolve_valid_execution_update_timestamp parse payload now h = Inr at"
      using cmd None by (auto simp: step rbind_eq_Inr)
    let ?e = "build_execution_update_event eid (pr_proposal_id p) (pr_current_state p) payload
             ety t at ?h (we_related_version_no h)"
    obtain r where tr: "persist_proposal_transition repo (apply_execution_update_state p t ?e) ?e s
        = Inr (r, s')" and resp: "resp = None"
      using cmd None st at by (auto simp: step rbind_eq_Inr
          build_execution_update_event_and_apply_state_def)
    have tr': "rp_transition_proposal repo (apply_execution_update_state p t ?e) ?e None
          (Some (pr_current_state p)) (Some (pr_current_version_no p)) s = Inr (r, s')"
      using tr by (simp add: persist_proposal_transition_def Let_def
          build_execution_update_event_def apply_execution_update_state_def)
    have "we_occurred_at h \<le> at"
    proof -
      obtain x where x: "validate_execution_update_occurred_after_handoff x h = Inr at"
        using at by (auto simp: resolve_valid_execution_update_timestamp_def rbind_eq_Inr)
      then show ?thesis
        by (cases x)
          (auto simp: validate_execution_update_occurred_after_handoff_def split: if_splits)
    qed
    then show ?thesis
      using fresh [OF resp p h ident ev _ _ refl] st tr' transition_result [OF tr']
      by (simp add: validate_execution_update_state_def split: if_splits)
  qed
qed

lemma update_command_inv:
  assumes inv: "lifecycle_inv repo s"
    and cmd: "record_proposal_execution_update sha parse repo pid payload TERMINAL_STATES now eid s =
      Inr (resp, s')"
  shows "lifecycle_inv repo s'"
  using cmd
proof (cases rule: update_command_cases)
  case (replay p response)
  with inv show ?thesis by simp
next
  case (fresh p h ety t at e)
  have "legal_step (pr_current_state p) ety t"
    by (rule legal_step.update [OF fresh(6) fresh(5)])
  with fresh(8) lifecycle_inv_id [OF inv fresh(2)] show ?thesis
    by (intro transition_keeps_inv [OF inv fresh(2) fresh(9)])
      (simp_all add: apply_execution_update_state_def Let_def build_execution_update_event_def)
qed

text \<open>
  After an update was recorded, the status read model reports the status of that update, for the
  handoff it was matched with.
\<close>

lemma update_command_status:
  assumes inv: "lifecycle_inv repo s"
    and cmd: "record_proposal_execution_update sha parse repo pid payload terms now eid s =
      Inr (None, s')"
    and ev: "resolve_execution_update_event (uq_update_status payload) = Inr (ety, t)"
  shows "\<exists>x. build_execution_status_view repo s' pid = Inr x \<and>
    xs_handoff_status x = execution_status_for_event ety \<and>
    sm_current_state (xs_proposal x) = t \<and>
    xs_execution_request_id x = Some (uq_execution_request_id payload) \<and>
    xs_execution_provider x = Some (uq_execution_provider payload) \<and>
    xs_external_execution_id x = uq_external_execution_id payload"
  using cmd
proof (cases rule: update_command_cases)
  case (replay p response)
  then show ?thesis by simp
next
  case (fresh p h ety' t' at e)
  have tt: "ety' = ety" "t' = t" using fresh(5) ev by simp_all
  have pid: "pr_proposal_id p = pid" by (rule lifecycle_inv_id [OF inv fresh(2)])
  note get = transition_get [OF fresh(9)] and evs = transition_events [OF fresh(9)]
  have ety: "we_event_type e = ety" "we_proposal_id e = pid"
    using fresh(8) by (simp_all add: build_execution_update_event_def Let_def tt pid)
  have reason: "obj_get (we_reason_json e) ''external_execution_id'' =
      opt_str (uq_external_execution_id payload)"
    "obj_get (we_reason_json e) ''execution_id'' = JNull"
    using fresh(8) by (simp_all add: build_execution_update_event_def Let_def drop_nulls_def
        obj_get_def split: option.splits)
  have ident: "obj_get (we_reason_json h) ''execution_request_id'' =
        JStr (uq_execution_request_id payload)"
    "obj_get (we_reason_json h) ''execution_provider'' = JStr (uq_execution_provider payload)"
    using fresh(4) by (auto simp: validate_execution_update_handoff_identity_def split: if_splits)
  have view: "build_execution_status_view repo s' pid =
      build_execution_status_response (apply_execution_update_state p t e)
        (rp_list_events repo s pid @ [e])"
    by (simp add: build_execution_status_view_def get evs ety pid tt apply_execution_update_state_def)
  show ?thesis
    using fresh(3) update_event_type_status [OF ev]
    by (cases "uq_external_execution_id payload")
      (simp_all add: view build_execution_status_response_def Let_def ety
        build_execution_status_projection_def status_event_projection_def
        requested_event_projection_def ident reason optional_text_def first_present_def
        rbind_eq_Inr to_proposal_summary_def apply_execution_update_state_def)
qed

end

end
