(* ===== verification/Proposal_Context.thy ===== *)
theory Proposal_Context
  imports Proposal_Records
begin

text \<open>
  How a create, version or simulation request becomes the simulation input it stands for
  (src/core/proposals/context_resolution.py, context_ports.py, input_request_validation.py,
  simulation_gate.py), the policy context and the evidence of the resolution
  (src/core/advisory/policy_context.py, context_evidence.py), the request hashes
  (context_hashing.py) and the screen for error texts (error_details.py,
  src/core/common/sensitive_error_details.py).

  A simulation request is kept by its parts, each in its JSON form. The stateful resolver that
  lotus-core provides is a parameter: not configured, unavailable (which stands for a payload
  that does not validate as well), or the resolved parts. The date of today is a parameter.
\<close>

section \<open>Requests\<close>

datatype input_mode = Stateless | Stateful

fun input_mode_name :: "input_mode \<Rightarrow> string" where
  "input_mode_name Stateless = ''stateless''"
| "input_mode_name Stateful = ''stateful''"

record simulate_request =
  sr_portfolio_snapshot :: json_dict
  sr_market_data_snapshot :: json_dict
  sr_shelf_entries :: "json list"
  sr_options :: json_dict
  sr_proposed_cash_flows :: "json list"
  sr_proposed_trades :: "json list"
  sr_reference_model :: "json_dict option"
  sr_alternatives_request :: "json_dict option"
  sr_narrative_request :: "json_dict option"

record create_metadata =
  md_title :: "string option"
  md_advisor_notes :: "string option"
  md_jurisdiction :: "string option"
  md_mandate_id :: "string option"

record stateful_input =
  si_portfolio_id :: string
  si_as_of :: string
  si_household_id :: "string option"
  si_mandate_id :: "string option"
  si_benchmark_id :: "string option"
  si_narrative_request :: "json_dict option"

record resolved_context =
  rc_portfolio_id :: string
  rc_as_of :: string
  rc_portfolio_snapshot_id :: "string option"
  rc_market_data_snapshot_id :: "string option"
  rc_risk_context_id :: "string option"
  rc_reporting_context_id :: "string option"
  rc_source_provenance :: json
  rc_source_completeness :: json

record create_request =
  cq_created_by :: string
  cq_input_mode :: "input_mode option"
  cq_simulate_request :: "simulate_request option"
  cq_stateless_input :: "simulate_request option"
  cq_stateful_input :: "stateful_input option"
  cq_metadata :: create_metadata

record version_request =
  vq_created_by :: string
  vq_expected_current_version_no :: "int option"
  vq_input_mode :: "input_mode option"
  vq_simulate_request :: "simulate_request option"
  vq_stateless_input :: "simulate_request option"
  vq_stateful_input :: "stateful_input option"

record simulation_request =
  mq_input_mode :: "input_mode option"
  mq_simulate_request :: "simulate_request option"
  mq_stateless_input :: "simulate_request option"
  mq_stateful_input :: "stateful_input option"
  mq_alternatives_request :: "json_dict option"

subsection \<open>Their JSON forms\<close>

fun opt_obj :: "json_dict option \<Rightarrow> json" where
  "opt_obj None = JNull"
| "opt_obj (Some d) = JObj d"

definition simulate_request_json :: "simulate_request \<Rightarrow> json" where
  "simulate_request_json r = JObj
     [(''portfolio_snapshot'', JObj (sr_portfolio_snapshot r)),
      (''market_data_snapshot'', JObj (sr_market_data_snapshot r)),
      (''shelf_entries'', JArr (sr_shelf_entries r)),
      (''options'', JObj (sr_options r)),
      (''proposed_cash_flows'', JArr (sr_proposed_cash_flows r)),
      (''proposed_trades'', JArr (sr_proposed_trades r)),
      (''reference_model'', opt_obj (sr_reference_model r)),
      (''alternatives_request'', opt_obj (sr_alternatives_request r)),
      (''narrative_request'', opt_obj (sr_narrative_request r))]"

definition create_metadata_json :: "create_metadata \<Rightarrow> json" where
  "create_metadata_json m = JObj
     [(''title'', opt_str (md_title m)),
      (''advisor_notes'', opt_str (md_advisor_notes m)),
      (''jurisdiction'', opt_str (md_jurisdiction m)),
      (''mandate_id'', opt_str (md_mandate_id m))]"

definition stateless_input_json :: "simulate_request \<Rightarrow> json" where
  "stateless_input_json r = JObj [(''simulate_request'', simulate_request_json r)]"

definition stateful_input_json :: "stateful_input \<Rightarrow> json" where
  "stateful_input_json i = JObj
     [(''portfolio_id'', JStr (si_portfolio_id i)),
      (''as_of'', JStr (si_as_of i)),
      (''household_id'', opt_str (si_household_id i)),
      (''mandate_id'', opt_str (si_mandate_id i)),
      (''benchmark_id'', opt_str (si_benchmark_id i)),
      (''narrative_request'', opt_obj (si_narrative_request i))]"

definition resolved_context_json :: "resolved_context \<Rightarrow> json" where
  "resolved_context_json c = JObj
     [(''portfolio_id'', JStr (rc_portfolio_id c)),
      (''as_of'', JStr (rc_as_of c)),
      (''portfolio_snapshot_id'', opt_str (rc_portfolio_snapshot_id c)),
      (''market_data_snapshot_id'', opt_str (rc_market_data_snapshot_id c)),
      (''risk_context_id'', opt_str (rc_risk_context_id c)),
      (''reporting_context_id'', opt_str (rc_reporting_context_id c)),
      (''source_provenance'', rc_source_provenance c),
      (''source_completeness'', rc_source_completeness c)]"

fun json_of_option :: "('a \<Rightarrow> json) \<Rightarrow> 'a option \<Rightarrow> json" where
  "json_of_option f None = JNull"
| "json_of_option f (Some x) = f x"

definition canonicalize_create_command_payload :: "create_request \<Rightarrow> json" where
  "canonicalize_create_command_payload q = JObj
     [(''created_by'', JStr (cq_created_by q)),
      (''input_mode'', json_of_option (\<lambda>m. JStr (input_mode_name m)) (cq_input_mode q)),
      (''simulate_request'', json_of_option simulate_request_json (cq_simulate_request q)),
      (''stateless_input'', json_of_option stateless_input_json (cq_stateless_input q)),
      (''stateful_input'', json_of_option stateful_input_json (cq_stateful_input q)),
      (''metadata'', create_metadata_json (cq_metadata q))]"

subsection \<open>The exclusive input contract\<close>

definition validate_exclusive_input_contract ::
  "input_mode option \<Rightarrow> 'a option \<Rightarrow> 'b option \<Rightarrow> 'c option \<Rightarrow> string \<Rightarrow> string \<Rightarrow> string \<Rightarrow>
   string \<Rightarrow> string + unit" where
  "validate_exclusive_input_contract input_mode simulate_request stateless_input stateful_input
       legacy_message legacy_stateful_message stateless_message stateful_message =
     (case input_mode of
        None \<Rightarrow>
          if simulate_request = None \<or> stateless_input \<noteq> None then Inl legacy_message
          else if stateful_input \<noteq> None then Inl legacy_stateful_message
          else Inr ()
      | Some Stateless \<Rightarrow>
          if stateless_input = None \<or> simulate_request \<noteq> None \<or> stateful_input \<noteq> None
          then Inl stateless_message else Inr ()
      | Some Stateful \<Rightarrow>
          if stateful_input = None \<or> simulate_request \<noteq> None \<or> stateless_input \<noteq> None
          then Inl stateful_message else Inr ())"

definition create_request_valid :: "create_request \<Rightarrow> string + unit" where
  "create_request_valid q =
     (let legacy_message = ''legacy proposal create requests require simulate_request and must not '' @
            ''include stateless_input or stateful_input''
      in validate_exclusive_input_contract (cq_input_mode q) (cq_simulate_request q)
           (cq_stateless_input q) (cq_stateful_input q) legacy_message legacy_message
           (''stateless proposal create requests require stateless_input and must not '' @
            ''include simulate_request or stateful_input'')
           (''stateful proposal create requests require stateful_input and must not include '' @
            ''simulate_request or stateless_input''))"

section \<open>The screen for error texts\<close>

definition SENSITIVE_ERROR_DETAIL_FRAGMENTS :: "string list" where
  "SENSITIVE_ERROR_DETAIL_FRAGMENTS =
     [''authorization'', ''bearer '', ''cookie'', ''credential'', ''password'', ''secret'',
      ''token'', ''api_key'', ''apikey'', ''raw prompt'', ''raw payload'', ''raw source'',
      ''provider response'', ''provider output'']"

definition lower_char :: "char \<Rightarrow> char" where
  "lower_char c = (if 65 \<le> (of_char c :: nat) \<and> (of_char c :: nat) \<le> 90
     then char_of ((of_char c :: nat) + 32) else c)"

definition dash_to_space :: "char \<Rightarrow> char" where
  "dash_to_space c = (if c = CHR ''-'' \<or> c = CHR ''_'' then CHR '' '' else c)"

fun has_prefix :: "string \<Rightarrow> string \<Rightarrow> bool" where
  "has_prefix [] s = True"
| "has_prefix (p # ps) [] = False"
| "has_prefix (p # ps) (c # cs) = (p = c \<and> has_prefix ps cs)"

fun contains_text :: "string \<Rightarrow> string \<Rightarrow> bool" where
  "contains_text p [] = (p = [])"
| "contains_text p (c # cs) = (has_prefix p (c # cs) \<or> contains_text p cs)"

definition word_char :: "char \<Rightarrow> bool" where
  "word_char c = (let n = of_char c :: nat in
     (48 \<le> n \<and> n \<le> 57) \<or> (65 \<le> n \<and> n \<le> 90) \<or> n = 95 \<or> (97 \<le> n \<and> n \<le> 122))"

text \<open>
  The patterns \<open>\b<word>[-_ ]?id\s*[:=]\s*\S+\<close>, case-insensitive, on texts of ASCII characters:
  after the word, an optional separator, \<open>id\<close>, white space, a colon or an equals sign, white
  space and one more character.
\<close>

definition id_assignment_tail :: "string \<Rightarrow> bool" where
  "id_assignment_tail s =
     (has_prefix ''id'' (map lower_char s) \<and>
      (case dropWhile py_space (drop 2 s) of
         [] \<Rightarrow> False
       | c # cs \<Rightarrow> (c = CHR '':'' \<or> c = CHR ''='') \<and> dropWhile py_space cs \<noteq> []))"

definition id_assignment_at :: "string \<Rightarrow> string \<Rightarrow> bool" where
  "id_assignment_at word s =
     (has_prefix word (map lower_char s) \<and>
      (let r = drop (length word) s in
       id_assignment_tail r \<or>
       (case r of
          [] \<Rightarrow> False
        | c # cs \<Rightarrow> (c = CHR ''-'' \<or> c = CHR ''_'' \<or> c = CHR '' '') \<and> id_assignment_tail cs)))"

fun id_assignment_in :: "string \<Rightarrow> bool \<Rightarrow> string \<Rightarrow> bool" where
  "id_assignment_in word after_word_char [] = False"
| "id_assignment_in word after_word_char (c # cs) =
     ((\<not> after_word_char \<and> id_assignment_at word (c # cs)) \<or>
      id_assignment_in word (word_char c) cs)"

definition contains_sensitive_error_detail :: "string \<Rightarrow> bool" where
  "contains_sensitive_error_detail error_detail =
     (let normalized = map (\<lambda>c. dash_to_space (lower_char c)) error_detail in
      id_assignment_in ''trace'' False error_detail \<or>
      id_assignment_in ''correlation'' False error_detail \<or>
      list_ex (\<lambda>fragment. contains_text (map dash_to_space fragment) normalized)
        SENSITIVE_ERROR_DETAIL_FRAGMENTS)"

definition safe_proposal_error_detail :: "string \<Rightarrow> string \<Rightarrow> string" where
  "safe_proposal_error_detail detail fallback =
     (if contains_sensitive_error_detail detail then fallback else detail)"

definition PROPOSAL_CONTEXT_RESOLUTION_FAILED_DETAIL :: string where
  "PROPOSAL_CONTEXT_RESOLUTION_FAILED_DETAIL = ''PROPOSAL_CONTEXT_RESOLUTION_FAILED''"

section \<open>Policy context\<close>

record policy_selectors =
  sel_household_id :: "string option"
  sel_mandate_id :: "string option"
  sel_jurisdiction :: "string option"
  sel_legal_entity_code :: "string option"
  sel_benchmark_id :: "string option"

definition status_from_selector :: "string option \<Rightarrow> string" where
  "status_from_selector value = (if truthy value then ''AVAILABLE'' else ''MISSING'')"

definition build_advisory_policy_context ::
  "string \<Rightarrow> string \<Rightarrow> policy_selectors \<Rightarrow> json_dict" where
  "build_advisory_policy_context input_mode resolution_source selectors =
     (let client_status = status_from_selector (sel_household_id selectors);
          mandate_status = status_from_selector (sel_mandate_id selectors);
          jurisdiction_status = status_from_selector (sel_jurisdiction selectors);
          missing_context =
            (if client_status = ''MISSING'' then [JStr ''CLIENT_CONTEXT''] else []) @
            (if mandate_status = ''MISSING'' then [JStr ''MANDATE_CONTEXT''] else []) @
            (if jurisdiction_status = ''MISSING'' then [JStr ''JURISDICTION''] else [])
      in [(''input_mode'', JStr input_mode),
          (''context_source'', JStr resolution_source),
          (''client_context_status'', JStr client_status),
          (''mandate_context_status'', JStr mandate_status),
          (''jurisdiction_context_status'', JStr jurisdiction_status),
          (''household_id'', opt_str (sel_household_id selectors)),
          (''mandate_id'', opt_str (sel_mandate_id selectors)),
          (''jurisdiction'', opt_str (sel_jurisdiction selectors)),
          (''legal_entity_code'', opt_str (sel_legal_entity_code selectors)),
          (''benchmark_id'', opt_str (sel_benchmark_id selectors)),
          (''missing_context'', JArr missing_context)])"

definition policy_selectors_of ::
  "create_metadata option \<Rightarrow> stateful_input option \<Rightarrow> policy_selectors" where
  "policy_selectors_of metadata stateful =
     \<lparr>sel_household_id = Option.bind stateful si_household_id,
      sel_mandate_id =
        (case Option.bind metadata md_mandate_id of
           Some m \<Rightarrow> Some m
         | None \<Rightarrow> Option.bind stateful si_mandate_id),
      sel_jurisdiction = Option.bind metadata md_jurisdiction,
      sel_legal_entity_code = None,
      sel_benchmark_id = Option.bind stateful si_benchmark_id\<rparr>"

section \<open>Resolution\<close>

text \<open>The stateful resolver: \<open>None\<close> when none is configured.\<close>

type_synonym stateful_resolver =
  "(stateful_input \<Rightarrow> (simulate_request \<times> resolved_context) option) option"

record resolved_proposal_context =
  rx_input_mode :: input_mode
  rx_resolution_source :: string
  rx_simulate_request :: simulate_request
  rx_resolved_context :: resolved_context
  rx_metadata :: create_metadata
  rx_policy_selectors :: policy_selectors
  rx_used_legacy_contract :: bool

record resolved_simulation_context =
  ry_input_mode :: input_mode
  ry_resolution_source :: string
  ry_simulate_request :: simulate_request
  ry_resolved_context :: resolved_context
  ry_policy_selectors :: policy_selectors
  ry_used_legacy_contract :: bool

text \<open>The text and the optional text of a field that the request model has checked.\<close>

fun text_of :: "json \<Rightarrow> string" where
  "text_of (JStr s) = s"
| "text_of _ = []"

fun opt_text_of :: "json \<Rightarrow> string option" where
  "opt_text_of (JStr s) = Some s"
| "opt_text_of _ = None"

definition require_stateful_input :: "stateful_input option \<Rightarrow> string + stateful_input" where
  "require_stateful_input i =
     (case i of None \<Rightarrow> Inl ''PROPOSAL_STATEFUL_INPUT_REQUIRED'' | Some i \<Rightarrow> Inr i)"

definition require_stateless_simulate_request ::
  "simulate_request option \<Rightarrow> string + simulate_request" where
  "require_stateless_simulate_request i =
     (case i of None \<Rightarrow> Inl ''PROPOSAL_STATELESS_INPUT_REQUIRED'' | Some r \<Rightarrow> Inr r)"

definition require_legacy_simulate_request ::
  "simulate_request option \<Rightarrow> string + simulate_request" where
  "require_legacy_simulate_request i =
     (case i of None \<Rightarrow> Inl ''PROPOSAL_SIMULATE_REQUEST_REQUIRED'' | Some r \<Rightarrow> Inr r)"

definition build_resolved_context_from_simulate_request ::
  "string \<Rightarrow> simulate_request \<Rightarrow> resolved_context" where
  "build_resolved_context_from_simulate_request today r =
     \<lparr>rc_portfolio_id = text_of (obj_get (sr_portfolio_snapshot r) ''portfolio_id''),
      rc_as_of = (case sr_reference_model r of
                    Some m \<Rightarrow> text_of (obj_get m ''as_of'') | None \<Rightarrow> today),
      rc_portfolio_snapshot_id = opt_text_of (obj_get (sr_portfolio_snapshot r) ''snapshot_id''),
      rc_market_data_snapshot_id =
        opt_text_of (obj_get (sr_market_data_snapshot r) ''snapshot_id''),
      rc_risk_context_id = None, rc_reporting_context_id = None,
      rc_source_provenance = JNull, rc_source_completeness = JNull\<rparr>"

definition metadata_with_stateful_defaults ::
  "create_metadata \<Rightarrow> stateful_input option \<Rightarrow> create_metadata" where
  "metadata_with_stateful_defaults metadata stateful =
     (case stateful of
        None \<Rightarrow> metadata
      | Some i \<Rightarrow> if md_mandate_id metadata \<noteq> None then metadata
          else metadata\<lparr>md_mandate_id := si_mandate_id i\<rparr>)"

definition merge_alternatives_request ::
  "simulate_request \<Rightarrow> json_dict option \<Rightarrow> simulate_request" where
  "merge_alternatives_request r alternatives_request =
     (if alternatives_request = None then r
      else r\<lparr>sr_alternatives_request := alternatives_request\<rparr>)"

definition merge_stateful_narrative_request ::
  "simulate_request \<Rightarrow> stateful_input \<Rightarrow> simulate_request" where
  "merge_stateful_narrative_request r i =
     (if si_narrative_request i = None then r
      else r\<lparr>sr_narrative_request := si_narrative_request i\<rparr>)"

definition resolve_proposal_stateful_context ::
  "stateful_resolver \<Rightarrow> stateful_input \<Rightarrow> (simulate_request \<times> resolved_context) option" where
  "resolve_proposal_stateful_context resolver i =
     (case resolver of None \<Rightarrow> None | Some f \<Rightarrow> f i)"

definition resolve_stateful_input ::
  "stateful_resolver \<Rightarrow> stateful_input \<Rightarrow> string + (simulate_request \<times> resolved_context)" where
  "resolve_stateful_input resolver i =
     (case resolve_proposal_stateful_context resolver i of
        None \<Rightarrow> Inl ''PROPOSAL_STATEFUL_CONTEXT_RESOLUTION_UNAVAILABLE''
      | Some (r, c) \<Rightarrow> Inr (merge_stateful_narrative_request r i, c))"

definition direct_proposal_context ::
  "string \<Rightarrow> simulate_request \<Rightarrow> create_metadata \<Rightarrow> bool \<Rightarrow> resolved_proposal_context" where
  "direct_proposal_context today r metadata legacy =
     \<lparr>rx_input_mode = Stateless, rx_resolution_source = ''DIRECT_REQUEST'',
      rx_simulate_request = r,
      rx_resolved_context = build_resolved_context_from_simulate_request today r,
      rx_metadata = metadata, rx_policy_selectors = policy_selectors_of (Some metadata) None,
      rx_used_legacy_contract = legacy\<rparr>"

definition resolve_create_request ::
  "stateful_resolver \<Rightarrow> string \<Rightarrow> create_request \<Rightarrow> string + resolved_proposal_context" where
  "resolve_create_request resolver today payload =
     (case cq_input_mode payload of
        Some Stateful \<Rightarrow>
          rbind (require_stateful_input (cq_stateful_input payload)) (\<lambda>i.
          rbind (resolve_stateful_input resolver i) (\<lambda>(r, c).
            let metadata = metadata_with_stateful_defaults (cq_metadata payload) (Some i) in
            Inr \<lparr>rx_input_mode = Stateful, rx_resolution_source = ''LOTUS_CORE'',
                 rx_simulate_request = r, rx_resolved_context = c, rx_metadata = metadata,
                 rx_policy_selectors = policy_selectors_of (Some metadata) (Some i),
                 rx_used_legacy_contract = False\<rparr>))
      | Some Stateless \<Rightarrow>
          rbind (require_stateless_simulate_request (cq_stateless_input payload)) (\<lambda>r.
            Inr (direct_proposal_context today r (cq_metadata payload) False))
      | None \<Rightarrow>
          rbind (require_legacy_simulate_request (cq_simulate_request payload)) (\<lambda>r.
            Inr (direct_proposal_context today r (cq_metadata payload) True)))"

definition empty_metadata :: create_metadata where
  "empty_metadata =
     \<lparr>md_title = None, md_advisor_notes = None, md_jurisdiction = None, md_mandate_id = None\<rparr>"

definition resolve_version_request ::
  "stateful_resolver \<Rightarrow> string \<Rightarrow> version_request \<Rightarrow> string + resolved_proposal_context" where
  "resolve_version_request resolver today payload =
     (case vq_input_mode payload of
        Some Stateful \<Rightarrow>
          rbind (require_stateful_input (vq_stateful_input payload)) (\<lambda>i.
          rbind (resolve_stateful_input resolver i) (\<lambda>(r, c).
            let metadata = metadata_with_stateful_defaults empty_metadata (Some i) in
            Inr \<lparr>rx_input_mode = Stateful, rx_resolution_source = ''LOTUS_CORE'',
                 rx_simulate_request = r, rx_resolved_context = c, rx_metadata = metadata,
                 rx_policy_selectors = policy_selectors_of (Some metadata) (Some i),
                 rx_used_legacy_contract = False\<rparr>))
      | Some Stateless \<Rightarrow>
          rbind (require_stateless_simulate_request (vq_stateless_input payload)) (\<lambda>r.
            Inr (direct_proposal_context today r empty_metadata False))
      | None \<Rightarrow>
          rbind (require_legacy_simulate_request (vq_simulate_request payload)) (\<lambda>r.
            Inr (direct_proposal_context today r empty_metadata True)))"

definition direct_simulation_context ::
  "string \<Rightarrow> simulate_request \<Rightarrow> bool \<Rightarrow> resolved_simulation_context" where
  "direct_simulation_context today r legacy =
     \<lparr>ry_input_mode = Stateless, ry_resolution_source = ''DIRECT_REQUEST'',
      ry_simulate_request = r,
      ry_resolved_context = build_resolved_context_from_simulate_request today r,
      ry_policy_selectors = policy_selectors_of None None, ry_used_legacy_contract = legacy\<rparr>"

definition resolve_simulation_request ::
  "stateful_resolver \<Rightarrow> string \<Rightarrow> simulation_request \<Rightarrow> string + resolved_simulation_context"
  where
  "resolve_simulation_request resolver today payload =
     (case mq_input_mode payload of
        Some Stateful \<Rightarrow>
          rbind (require_stateful_input (mq_stateful_input payload)) (\<lambda>i.
          rbind (resolve_stateful_input resolver i) (\<lambda>(r, c).
            Inr \<lparr>ry_input_mode = Stateful, ry_resolution_source = ''LOTUS_CORE'',
                 ry_simulate_request =
                   merge_alternatives_request r (mq_alternatives_request payload),
                 ry_resolved_context = c,
                 ry_policy_selectors = policy_selectors_of None (Some i),
                 ry_used_legacy_contract = False\<rparr>))
      | Some Stateless \<Rightarrow>
          rbind (require_stateless_simulate_request (mq_stateless_input payload)) (\<lambda>r.
            Inr (direct_simulation_context today r False))
      | None \<Rightarrow>
          rbind (require_legacy_simulate_request (mq_simulate_request payload)) (\<lambda>r.
            Inr (direct_simulation_context today r True)))"

section \<open>Evidence and hashes\<close>

definition context_resolution_json ::
  "input_mode \<Rightarrow> string \<Rightarrow> bool \<Rightarrow> resolved_context \<Rightarrow> policy_selectors \<Rightarrow> json_dict" where
  "context_resolution_json mode source legacy context selectors =
     [(''input_mode'', JStr (input_mode_name mode)),
      (''resolution_source'', JStr source),
      (''used_legacy_contract'', JBool legacy),
      (''resolved_context'', resolved_context_json context),
      (''advisory_policy_context'',
       JObj (build_advisory_policy_context (input_mode_name mode) source selectors))]"

definition build_context_resolution_evidence :: "resolved_proposal_context \<Rightarrow> json_dict" where
  "build_context_resolution_evidence x =
     context_resolution_json (rx_input_mode x) (rx_resolution_source x)
       (rx_used_legacy_contract x) (rx_resolved_context x) (rx_policy_selectors x)"

definition advisory_context_json ::
  "input_mode \<Rightarrow> string \<Rightarrow> resolved_context \<Rightarrow> simulate_request \<Rightarrow> json" where
  "advisory_context_json mode source context r = JObj
     [(''input_mode'', JStr (input_mode_name mode)),
      (''resolution_source'', JStr source),
      (''resolved_context'', resolved_context_json context),
      (''simulate_request'', simulate_request_json r)]"

definition build_create_command_idempotency_hash :: "(string \<Rightarrow> string) \<Rightarrow> create_request \<Rightarrow> string"
  where
  "build_create_command_idempotency_hash sha payload =
     hash_canonical_payload sha (canonicalize_create_command_payload payload)"

definition canonicalize_create_request_payload ::
  "create_request \<Rightarrow> resolved_proposal_context \<Rightarrow> json" where
  "canonicalize_create_request_payload payload x = JObj
     [(''created_by'', JStr (cq_created_by payload)),
      (''metadata'', create_metadata_json (rx_metadata x)),
      (''advisory_context'', advisory_context_json (rx_input_mode x) (rx_resolution_source x)
         (rx_resolved_context x) (rx_simulate_request x))]"

definition build_create_request_hash ::
  "(string \<Rightarrow> string) \<Rightarrow> create_request \<Rightarrow> resolved_proposal_context \<Rightarrow> string" where
  "build_create_request_hash sha payload x =
     hash_canonical_payload sha (canonicalize_create_request_payload payload x)"

definition canonicalize_simulation_request_payload :: "resolved_simulation_context \<Rightarrow> json" where
  "canonicalize_simulation_request_payload y = JObj
     [(''advisory_context'', advisory_context_json (ry_input_mode y) (ry_resolution_source y)
         (ry_resolved_context y) (ry_simulate_request y))]"

definition build_simulation_request_hash ::
  "(string \<Rightarrow> string) \<Rightarrow> resolved_simulation_context \<Rightarrow> string" where
  "build_simulation_request_hash sha y =
     hash_canonical_payload sha (canonicalize_simulation_request_payload y)"

definition canonicalize_version_request_payload ::
  "version_request \<Rightarrow> resolved_proposal_context \<Rightarrow> json" where
  "canonicalize_version_request_payload payload x = JObj
     [(''created_by'', JStr (vq_created_by payload)),
      (''expected_current_version_no'', opt_int (vq_expected_current_version_no payload)),
      (''advisory_context'', advisory_context_json (rx_input_mode x) (rx_resolution_source x)
         (rx_resolved_context x) (rx_simulate_request x))]"

definition build_version_request_hash ::
  "(string \<Rightarrow> string) \<Rightarrow> version_request \<Rightarrow> resolved_proposal_context \<Rightarrow> string" where
  "build_version_request_hash sha payload x =
     hash_canonical_payload sha (canonicalize_version_request_payload payload x)"

section \<open>The simulation gate\<close>

definition validate_proposal_simulation_enabled ::
  "simulate_request \<Rightarrow> bool \<Rightarrow> string + unit" where
  "validate_proposal_simulation_enabled request require_simulation_flag =
     (if require_simulation_flag \<and>
         obj_get (sr_options request) ''enable_proposal_simulation'' \<noteq> JBool True
      then Inl ''PROPOSAL_SIMULATION_DISABLED: set options.enable_proposal_simulation=true''
      else Inr ())"

definition validate_proposal_simulation_flag ::
  "simulate_request \<Rightarrow> bool \<Rightarrow> proposal_error + unit" where
  "validate_proposal_simulation_flag request require_simulation_flag =
     rmap_error ProposalValidationError
       (validate_proposal_simulation_enabled request require_simulation_flag)"

section \<open>What the resolution guarantees\<close>

text \<open>A request that passed the contract check has the input its mode asks for.\<close>

lemma create_request_input_present:
  assumes "create_request_valid q = Inr ()"
  shows "case cq_input_mode q of
           None \<Rightarrow> cq_simulate_request q \<noteq> None
         | Some Stateless \<Rightarrow> cq_stateless_input q \<noteq> None
         | Some Stateful \<Rightarrow> cq_stateful_input q \<noteq> None"
  using assms
  by (auto simp: create_request_valid_def validate_exclusive_input_contract_def Let_def
      split: option.splits input_mode.splits if_splits)

lemma resolve_create_fails_only_stateful:
  assumes "create_request_valid q = Inr ()" and "resolve_create_request res today q = Inl m"
  shows "cq_input_mode q = Some Stateful \<and>
    m = ''PROPOSAL_STATEFUL_CONTEXT_RESOLUTION_UNAVAILABLE''"
proof (cases "cq_input_mode q")
  case None
  then show ?thesis using create_request_input_present [OF assms(1)] assms(2)
    by (auto simp: resolve_create_request_def require_legacy_simulate_request_def)
next
  case (Some mode)
  then show ?thesis using create_request_input_present [OF assms(1)] assms(2)
    by (cases mode)
      (auto simp: resolve_create_request_def require_stateful_input_def Let_def
        require_stateless_simulate_request_def resolve_stateful_input_def rbind_eq_Inl
        split: option.splits)
qed

end
