(* ===== verification/Version_Commands.thy ===== *)
theory Version_Commands
  imports Lifecycle_Invariant Proposal_Context
begin

text \<open>
  The commands that create a proposal and its versions (src/core/proposals/create_command.py,
  version_command.py) with the records they build (records.py, versions.py), their persistence
  (create_persistence.py), the materialisation of a version (materialization.py, evidence.py,
  simulation_execution.py), the replay of a create (replay_views.py, proposal_replay.py) and the
  responses (projections.py).

  The advisory engine (evaluate_advisory_proposal, build_proposal_artifact and the readiness
  builders) is an argument, the record \<open>advisory_engine\<close>: nothing here depends on what it computes.
  The identifiers and the clock are arguments as well. A command returns the state with its
  result: persisting a new version writes the version before the conditional transition, so a
  refused transition leaves a changed state behind.
\<close>

section \<open>The advisory engine\<close>

record proposal_result =
  rs_status :: creation_status
  rs_json :: json_dict
  rs_gate_decision :: "json_dict option"

record advisory_engine =
  en_evaluate :: "simulate_request \<Rightarrow> string \<Rightarrow> string option \<Rightarrow> string \<Rightarrow> string \<Rightarrow> input_mode \<Rightarrow>
    json \<Rightarrow> proposal_error + proposal_result"
  en_artifact :: "simulate_request \<Rightarrow> proposal_result \<Rightarrow> string \<Rightarrow> json_dict"
  en_artifact_evidence :: "simulate_request \<Rightarrow> proposal_result \<Rightarrow> string \<Rightarrow> json_dict"
  en_artifact_hash :: "json_dict \<Rightarrow> string"
  en_risk_lens :: "proposal_result \<Rightarrow> json"
  en_memo_source_readiness :: "json_dict \<Rightarrow> json"
  en_policy_source_readiness :: "json_dict \<Rightarrow> json"

section \<open>Identifiers of a correlation\<close>

definition MAX_CORRELATION_ID_LENGTH :: nat where
  "MAX_CORRELATION_ID_LENGTH = 128"

definition normalize_optional_correlation_id :: "string option \<Rightarrow> string option" where
  "normalize_optional_correlation_id correlation_id =
     (case correlation_id of
        None \<Rightarrow> None
      | Some c \<Rightarrow>
          (let stripped = py_strip c in
           if stripped = [] \<or> MAX_CORRELATION_ID_LENGTH < length stripped
              \<or> contains_control_character stripped
           then None else Some stripped))"

definition resolve_correlation_id :: "string option \<Rightarrow> string \<Rightarrow> string" where
  "resolve_correlation_id correlation_id new_hex =
     (case normalize_optional_correlation_id correlation_id of
        Some c \<Rightarrow> c
      | None \<Rightarrow> ''corr_'' @ new_hex)"

definition run_advisory_proposal_simulation ::
  "advisory_engine \<Rightarrow> simulate_request \<Rightarrow> string \<Rightarrow> input_mode \<Rightarrow> string \<Rightarrow> string option \<Rightarrow>
   string option \<Rightarrow> string \<Rightarrow> json \<Rightarrow> proposal_error + proposal_result" where
  "run_advisory_proposal_simulation eng request resolved_as_of mode request_hash idempotency_key
       correlation_id new_hex policy_context =
     en_evaluate eng request request_hash idempotency_key
       (resolve_correlation_id correlation_id new_hex) resolved_as_of mode policy_context"

definition build_proposal_evidence_bundle ::
  "advisory_engine \<Rightarrow> json_dict \<Rightarrow> proposal_result \<Rightarrow> json_dict \<Rightarrow> json_dict option \<Rightarrow>
   json_dict option \<Rightarrow> json_dict" where
  "build_proposal_evidence_bundle eng artifact_evidence result context_resolution override
       replay_lineage =
     (let b = dict_set ''context_resolution''
                (JObj (case override of Some x \<Rightarrow> x | None \<Rightarrow> context_resolution))
                artifact_evidence;
          b = dict_set ''risk_lens'' (en_risk_lens eng result) b;
          b = dict_set ''memo_source_readiness'' (en_memo_source_readiness eng b) b;
          b = dict_set ''policy_source_readiness'' (en_policy_source_readiness eng b) b
      in case replay_lineage of
           None \<Rightarrow> b
         | Some l \<Rightarrow> if l = [] then b else dict_set ''replay_lineage'' (JObj l) b)"

record version_materialization =
  vm_artifact :: json_dict
  vm_evidence_bundle :: json_dict

definition build_proposal_version_materialization ::
  "advisory_engine \<Rightarrow> simulate_request \<Rightarrow> proposal_result \<Rightarrow> timestamp \<Rightarrow> json_dict \<Rightarrow>
   json_dict option \<Rightarrow> json_dict option \<Rightarrow> version_materialization" where
  "build_proposal_version_materialization eng request result created_at context_resolution
       override replay_lineage =
     \<lparr>vm_artifact = en_artifact eng request result (isoformat created_at),
      vm_evidence_bundle = build_proposal_evidence_bundle eng
        (en_artifact_evidence eng request result (isoformat created_at)) result
        context_resolution override replay_lineage\<rparr>"

section \<open>Records\<close>

definition build_proposal_record ::
  "string \<Rightarrow> string \<Rightarrow> string option \<Rightarrow> string option \<Rightarrow> string \<Rightarrow> timestamp \<Rightarrow> int \<Rightarrow>
   string option \<Rightarrow> string option \<Rightarrow> lifecycle_origin \<Rightarrow> string option \<Rightarrow> proposal_record" where
  "build_proposal_record proposal_id portfolio_id mandate_id jurisdiction created_by created_at
       version_no title advisor_notes lifecycle_origin source_workspace_id =
     \<lparr>pr_proposal_id = proposal_id, pr_portfolio_id = portfolio_id, pr_mandate_id = mandate_id,
      pr_jurisdiction = jurisdiction, pr_created_by = created_by, pr_created_at = created_at,
      pr_last_event_at = created_at, pr_current_state = DRAFT,
      pr_current_version_no = version_no, pr_title = title, pr_advisor_notes = advisor_notes,
      pr_lifecycle_origin = lifecycle_origin, pr_source_workspace_id = source_workspace_id\<rparr>"

definition build_proposal_idempotency_record ::
  "string \<Rightarrow> string \<Rightarrow> string \<Rightarrow> int \<Rightarrow> timestamp \<Rightarrow> idempotency_record" where
  "build_proposal_idempotency_record idempotency_key request_hash proposal_id
       proposal_version_no created_at =
     \<lparr>ik_idempotency_key = idempotency_key, ik_request_hash = request_hash,
      ik_proposal_id = proposal_id, ik_proposal_version_no = proposal_version_no,
      ik_created_at = created_at\<rparr>"

record create_command_state =
  cs_proposal :: proposal_record
  cs_created_event :: workflow_event_record
  cs_idempotency_record :: idempotency_record

definition build_proposal_create_command_state ::
  "string \<Rightarrow> string \<Rightarrow> string option \<Rightarrow> string option \<Rightarrow> string \<Rightarrow> timestamp \<Rightarrow> int \<Rightarrow>
   string option \<Rightarrow> string option \<Rightarrow> lifecycle_origin \<Rightarrow> string option \<Rightarrow> string \<Rightarrow>
   string option \<Rightarrow> string \<Rightarrow> string \<Rightarrow> create_command_state" where
  "build_proposal_create_command_state proposal_id portfolio_id mandate_id jurisdiction created_by
       created_at version_no title advisor_notes lifecycle_origin source_workspace_id event_id
       correlation_id idempotency_key request_hash =
     \<lparr>cs_proposal = build_proposal_record proposal_id portfolio_id mandate_id jurisdiction
        created_by created_at version_no title advisor_notes lifecycle_origin
        source_workspace_id,
      cs_created_event = build_proposal_created_event event_id proposal_id created_by created_at
        version_no correlation_id,
      cs_idempotency_record = build_proposal_idempotency_record idempotency_key request_hash
        proposal_id version_no created_at\<rparr>"

definition build_proposal_version_record ::
  "(string \<Rightarrow> string) \<Rightarrow> advisory_engine \<Rightarrow> string \<Rightarrow> string \<Rightarrow> int \<Rightarrow> string \<Rightarrow> proposal_result \<Rightarrow>
   json_dict \<Rightarrow> json_dict \<Rightarrow> timestamp \<Rightarrow> bool \<Rightarrow> proposal_version_record" where
  "build_proposal_version_record sha eng proposal_version_id proposal_id version_no request_hash
       result artifact evidence_bundle created_at store_evidence_bundle =
     (let simulation_hash_payload =
            strip_keys (JObj (rs_json result)) [''correlation_id'', ''idempotency_key'']
      in \<lparr>pv_proposal_version_id = proposal_version_id, pv_proposal_id = proposal_id,
          pv_version_no = version_no, pv_created_at = created_at,
          pv_request_hash = request_hash,
          pv_artifact_hash = en_artifact_hash eng artifact,
          pv_simulation_hash = hash_canonical_payload sha simulation_hash_payload,
          pv_status_at_creation = rs_status result,
          pv_proposal_result_json = rs_json result, pv_artifact_json = artifact,
          pv_evidence_bundle_json = (if store_evidence_bundle then evidence_bundle else []),
          pv_gate_decision_json = rs_gate_decision result\<rparr>)"

definition validate_create_version_state ::
  "proposal_record \<Rightarrow> int option \<Rightarrow> workflow_state list \<Rightarrow> proposal_error + unit" where
  "validate_create_version_state proposal expected_current_version_no terminal_states =
     (if pr_current_state proposal \<in> set terminal_states
      then Inl (ProposalValidationError ''PROPOSAL_TERMINAL_STATE: cannot create version'')
      else if expected_current_version_no \<noteq> None \<and>
              expected_current_version_no \<noteq> Some (pr_current_version_no proposal)
      then Inl (ProposalStateConflictError
             ''VERSION_CONFLICT: expected_current_version_no mismatch'')
      else Inr ())"

definition validate_create_version_portfolio_context ::
  "string \<Rightarrow> string \<Rightarrow> bool \<Rightarrow> proposal_error + unit" where
  "validate_create_version_portfolio_context proposal_portfolio_id request_portfolio_id
       allow_portfolio_id_change =
     (if allow_portfolio_id_change then Inr ()
      else if request_portfolio_id \<noteq> proposal_portfolio_id
      then Inl (ProposalValidationError ''PORTFOLIO_CONTEXT_MISMATCH'')
      else Inr ())"

definition apply_new_version_lifecycle_state ::
  "proposal_record \<Rightarrow> int \<Rightarrow> timestamp \<Rightarrow> proposal_record" where
  "apply_new_version_lifecycle_state proposal version_no occurred_at =
     proposal\<lparr>pr_current_version_no := version_no, pr_current_state := DRAFT,
              pr_last_event_at := occurred_at\<rparr>"

definition build_new_version_created_event_and_apply_state ::
  "string \<Rightarrow> proposal_record \<Rightarrow> string \<Rightarrow> timestamp \<Rightarrow> int \<Rightarrow> string option \<Rightarrow>
   workflow_event_record \<times> proposal_record" where
  "build_new_version_created_event_and_apply_state event_id proposal actor_id occurred_at
       related_version_no correlation_id =
     (let event = build_new_version_created_event event_id proposal actor_id occurred_at
                    related_version_no correlation_id
      in (event, apply_new_version_lifecycle_state proposal related_version_no occurred_at))"

section \<open>Responses and replay\<close>

record version_detail =
  vd_proposal_version_id :: string
  vd_proposal_id :: string
  vd_version_no :: int
  vd_created_at :: string
  vd_request_hash :: string
  vd_artifact_hash :: string
  vd_simulation_hash :: string
  vd_status_at_creation :: creation_status
  vd_proposal_result :: json_dict
  vd_artifact :: json_dict
  vd_evidence_bundle :: json_dict
  vd_gate_decision :: "json_dict option"

definition to_version_detail :: "proposal_version_record \<Rightarrow> bool \<Rightarrow> version_detail" where
  "to_version_detail v include_evidence =
     \<lparr>vd_proposal_version_id = pv_proposal_version_id v, vd_proposal_id = pv_proposal_id v,
      vd_version_no = pv_version_no v, vd_created_at = isoformat (pv_created_at v),
      vd_request_hash = pv_request_hash v, vd_artifact_hash = pv_artifact_hash v,
      vd_simulation_hash = pv_simulation_hash v,
      vd_status_at_creation = pv_status_at_creation v,
      vd_proposal_result = pv_proposal_result_json v, vd_artifact = pv_artifact_json v,
      vd_evidence_bundle = (if include_evidence then pv_evidence_bundle_json v else []),
      vd_gate_decision = pv_gate_decision_json v\<rparr>"

record create_response =
  cr_proposal :: proposal_summary
  cr_version :: version_detail
  cr_latest_workflow_event :: workflow_event

definition to_create_response ::
  "proposal_record \<Rightarrow> proposal_version_record \<Rightarrow> workflow_event_record \<Rightarrow> create_response" where
  "to_create_response proposal version latest_event =
     \<lparr>cr_proposal = to_proposal_summary proposal,
      cr_version = to_version_detail version True,
      cr_latest_workflow_event = to_workflow_event latest_event\<rparr>"

definition build_create_response_from_referents ::
  "proposal_record option \<Rightarrow> proposal_version_record option \<Rightarrow> workflow_event_record list \<Rightarrow>
   create_response option" where
  "build_create_response_from_referents proposal version events =
     (case (proposal, version) of
        (Some p, Some v) \<Rightarrow>
          if events = [] then None else Some (to_create_response p v (last events))
      | _ \<Rightarrow> None)"

definition load_proposal_version_replay_referents ::
  "'s proposal_repository \<Rightarrow> 's \<Rightarrow> string \<Rightarrow> int \<Rightarrow>
   proposal_record option \<times> proposal_version_record option \<times> workflow_event_record list" where
  "load_proposal_version_replay_referents repo s proposal_id version_no =
     (case rp_get_proposal repo s proposal_id of
        None \<Rightarrow> (None, None, [])
      | Some p \<Rightarrow>
          (case rp_get_version repo s proposal_id version_no of
             None \<Rightarrow> (Some p, None, [])
           | Some v \<Rightarrow> (Some p, Some v, rp_list_events repo s proposal_id)))"

definition build_create_response_from_replay_referents ::
  "'s proposal_repository \<Rightarrow> 's \<Rightarrow> string \<Rightarrow> int \<Rightarrow> proposal_error + create_response" where
  "build_create_response_from_replay_referents repo s proposal_id version_no =
     (case load_proposal_version_replay_referents repo s proposal_id version_no of
        (p, v, events) \<Rightarrow>
          (case build_create_response_from_referents p v events of
             None \<Rightarrow> Inl (ProposalNotFoundError ''PROPOSAL_IDEMPOTENCY_REFERENT_NOT_FOUND'')
           | Some response \<Rightarrow> Inr response))"

section \<open>Persistence\<close>

definition persist_created_proposal ::
  "'s proposal_repository \<Rightarrow> create_command_state \<Rightarrow> proposal_version_record \<Rightarrow> 's \<Rightarrow>
   proposal_error + 's" where
  "persist_created_proposal repo command_state version s =
     rp_create_proposal_with_version_event_idempotency repo (cs_proposal command_state) version
       (cs_created_event command_state) (cs_idempotency_record command_state) s"

text \<open>The version is written first; the transition is conditional, and may be refused after it.\<close>

definition persist_created_proposal_version ::
  "'s proposal_repository \<Rightarrow> proposal_record \<Rightarrow> proposal_version_record \<Rightarrow>
   workflow_event_record \<Rightarrow> 's \<Rightarrow> 's \<times> (proposal_error + unit)" where
  "persist_created_proposal_version repo proposal version event s =
     (case rp_create_version repo version s of
        Inl err \<Rightarrow> (s, Inl err)
      | Inr s1 \<Rightarrow>
          (case rp_transition_proposal repo proposal event None (we_from_state event)
                  (Some (pv_version_no version - 1)) s1 of
             Inl err \<Rightarrow> (s1, Inl err)
           | Inr (r, s2) \<Rightarrow> (s2, Inr ())))"

section \<open>Creating a version\<close>

record version_settings =
  vs_store_evidence_bundle :: bool
  vs_require_simulation_flag :: bool
  vs_allow_portfolio_id_change :: bool

text \<open>The identifiers a command draws: proposal, version, event, correlation.\<close>

record fresh_ids =
  fi_proposal_id :: string
  fi_version_id :: string
  fi_event_id :: string
  fi_correlation_hex :: string

definition context_resolution_error :: "string \<Rightarrow> proposal_error" where
  "context_resolution_error m = ProposalValidationError
     (safe_proposal_error_detail m PROPOSAL_CONTEXT_RESOLUTION_FAILED_DETAIL)"

definition prepare_proposal_version ::
  "(string \<Rightarrow> string) \<Rightarrow> advisory_engine \<Rightarrow> stateful_resolver \<Rightarrow> string \<Rightarrow> version_settings \<Rightarrow>
   proposal_record \<Rightarrow> version_request \<Rightarrow> string option \<Rightarrow> json_dict option \<Rightarrow>
   json_dict option \<Rightarrow> timestamp \<Rightarrow> fresh_ids \<Rightarrow> proposal_error + proposal_version_record" where
  "prepare_proposal_version sha eng resolver today settings proposal payload correlation_id
       replay_lineage override now ids =
     rbind (validate_create_version_state proposal (vq_expected_current_version_no payload)
              TERMINAL_STATES) (\<lambda>_.
     rbind (rmap_error context_resolution_error
              (resolve_version_request resolver today payload)) (\<lambda>resolved.
     rbind (validate_proposal_simulation_flag (rx_simulate_request resolved)
              (vs_require_simulation_flag settings)) (\<lambda>_.
       let context_resolution = build_context_resolution_evidence resolved;
           request_hash = build_version_request_hash sha payload resolved in
     rbind (validate_create_version_portfolio_context (pr_portfolio_id proposal)
              (text_of (obj_get (sr_portfolio_snapshot (rx_simulate_request resolved))
                 ''portfolio_id''))
              (vs_allow_portfolio_id_change settings)) (\<lambda>_.
     rbind (run_advisory_proposal_simulation eng (rx_simulate_request resolved)
              (rc_as_of (rx_resolved_context resolved)) (rx_input_mode resolved) request_hash
              None correlation_id (fi_correlation_hex ids)
              (obj_get context_resolution ''advisory_policy_context'')) (\<lambda>result.
       let materialization = build_proposal_version_materialization eng
             (rx_simulate_request resolved) result now context_resolution override replay_lineage
       in Inr (build_proposal_version_record sha eng (fi_version_id ids)
             (pr_proposal_id proposal) (pr_current_version_no proposal + 1) request_hash result
             (vm_artifact materialization) (vm_evidence_bundle materialization) now
             (vs_store_evidence_bundle settings)))))))"

definition create_proposal_version ::
  "(string \<Rightarrow> string) \<Rightarrow> advisory_engine \<Rightarrow> stateful_resolver \<Rightarrow> string \<Rightarrow> version_settings \<Rightarrow>
   's proposal_repository \<Rightarrow> string \<Rightarrow> version_request \<Rightarrow> string option \<Rightarrow> json_dict option \<Rightarrow>
   json_dict option \<Rightarrow> timestamp \<Rightarrow> fresh_ids \<Rightarrow> 's \<Rightarrow> 's \<times> (proposal_error + create_response)"
  where
  "create_proposal_version sha eng resolver today settings repo proposal_id payload
       correlation_id replay_lineage override now ids s =
     (case rp_get_proposal repo s proposal_id of
        None \<Rightarrow> (s, Inl (ProposalNotFoundError ''PROPOSAL_NOT_FOUND''))
      | Some proposal \<Rightarrow>
          (case prepare_proposal_version sha eng resolver today settings proposal payload
                  correlation_id replay_lineage override now ids of
             Inl err \<Rightarrow> (s, Inl err)
           | Inr version \<Rightarrow>
               let ep = build_new_version_created_event_and_apply_state (fi_event_id ids)
                          proposal (vq_created_by payload) now
                          (pr_current_version_no proposal + 1) correlation_id
               in (case persist_created_proposal_version repo (snd ep) version (fst ep) s of
                     (s', Inl err) \<Rightarrow> (s', Inl err)
                   | (s', Inr _) \<Rightarrow> (s', Inr (to_create_response (snd ep) version (fst ep))))))"

section \<open>The replay of creates whose key was stored with an older request hash\<close>

text \<open>
  The match compares the stored evidence with the request field by field. Iterating over a
  \<open>sections\<close> entry that is null or a number is a \<open>TypeError\<close>.
\<close>

definition legacy_optional_fields_match :: "json_dict \<Rightarrow> (string \<times> json) list \<Rightarrow> bool" where
  "legacy_optional_fields_match actual expected =
     list_all (\<lambda>(field_name, value). json_eq (obj_get actual field_name) value) expected"

definition legacy_narrative_context :: "json_dict \<Rightarrow> json_dict option" where
  "legacy_narrative_context narrative =
     (case obj_get narrative ''narrative_policy'' of
        JObj p \<Rightarrow> (case obj_get p ''context'' of JObj c \<Rightarrow> Some c | _ \<Rightarrow> None)
      | _ \<Rightarrow> None)"

fun section_key_of :: "json \<Rightarrow> json list" where
  "section_key_of (JObj d) = [obj_get d ''section_key'']"
| "section_key_of _ = []"

definition legacy_narrative_section_keys :: "json_dict \<Rightarrow> proposal_error + json list" where
  "legacy_narrative_section_keys narrative =
     (case dict_get narrative ''sections'' of
        None \<Rightarrow> Inr []
      | Some (JArr xs) \<Rightarrow> Inr (concat (map section_key_of xs))
      | Some (JStr t) \<Rightarrow> Inr []
      | Some (JObj d) \<Rightarrow> Inr []
      | Some v \<Rightarrow> Inl (PyTypeError ''object is not iterable''))"

definition legacy_narrative_request_matches ::
  "json_dict \<Rightarrow> json_dict option \<Rightarrow> string \<Rightarrow> proposal_error + bool" where
  "legacy_narrative_request_matches artifact expected created_by =
     (case expected of
        None \<Rightarrow> Inr (obj_get artifact ''proposal_narrative'' = JNull)
      | Some e \<Rightarrow>
          (case obj_get artifact ''proposal_narrative'' of
             JObj narrative \<Rightarrow>
               (case legacy_narrative_context narrative of
                  None \<Rightarrow> Inr False
                | Some context \<Rightarrow>
                    if \<not> legacy_optional_fields_match narrative
                         [(''audience'', obj_get e ''audience''),
                          (''generation_mode'', obj_get e ''generation_mode'')]
                    then Inr False
                    else if \<not> legacy_optional_fields_match context
                         [(''jurisdiction'', obj_get e ''jurisdiction''),
                          (''client_audience'', obj_get e ''client_audience''),
                          (''product_types'', obj_get e ''product_types'')]
                    then Inr False
                    else rbind (legacy_narrative_section_keys narrative) (\<lambda>keys.
                      Inr (json_eq (JArr keys) (obj_get e ''sections'') \<and>
                           obj_get e ''requested_by'' = JStr created_by)))
           | _ \<Rightarrow> Inr False))"

definition opt_unless :: "'a option \<Rightarrow> 'a option \<Rightarrow> bool" where
  "opt_unless expected actual = (expected = None \<or> actual = expected)"

definition legacy_proposal_fields_match ::
  "proposal_record \<Rightarrow> create_request \<Rightarrow> stateful_input \<Rightarrow> bool" where
  "legacy_proposal_fields_match proposal payload i =
     (pr_created_by proposal = cq_created_by payload \<and>
      pr_portfolio_id proposal = si_portfolio_id i \<and>
      opt_unless (md_title (cq_metadata payload)) (pr_title proposal) \<and>
      opt_unless (md_advisor_notes (cq_metadata payload)) (pr_advisor_notes proposal) \<and>
      opt_unless (md_jurisdiction (cq_metadata payload)) (pr_jurisdiction proposal) \<and>
      opt_unless (str_or (md_mandate_id (cq_metadata payload)) (si_mandate_id i))
        (pr_mandate_id proposal))"

definition legacy_direct_proposal_fields_match ::
  "proposal_record \<Rightarrow> create_request \<Rightarrow> resolved_proposal_context \<Rightarrow> bool" where
  "legacy_direct_proposal_fields_match proposal payload x =
     (pr_created_by proposal = cq_created_by payload \<and>
      pr_portfolio_id proposal =
        text_of (obj_get (sr_portfolio_snapshot (rx_simulate_request x)) ''portfolio_id'') \<and>
      pr_title proposal = md_title (rx_metadata x) \<and>
      pr_advisor_notes proposal = md_advisor_notes (rx_metadata x) \<and>
      pr_jurisdiction proposal = md_jurisdiction (rx_metadata x) \<and>
      pr_mandate_id proposal = md_mandate_id (rx_metadata x))"

definition legacy_context_matches :: "proposal_version_record \<Rightarrow> stateful_input \<Rightarrow> bool" where
  "legacy_context_matches version i =
     (case obj_get (pv_evidence_bundle_json version) ''context_resolution'' of
        JObj r \<Rightarrow>
          (case obj_get r ''resolved_context'' of
             JObj c \<Rightarrow> legacy_optional_fields_match c
               [(''portfolio_id'', JStr (si_portfolio_id i)),
                (''as_of'', JStr (si_as_of i)),
                (''household_id'', opt_str (si_household_id i)),
                (''benchmark_id'', opt_str (si_benchmark_id i))]
           | _ \<Rightarrow> False)
      | _ \<Rightarrow> False)"

definition legacy_direct_context_matches ::
  "proposal_version_record \<Rightarrow> resolved_proposal_context \<Rightarrow> bool" where
  "legacy_direct_context_matches version x =
     (case obj_get (pv_evidence_bundle_json version) ''context_resolution'' of
        JObj r \<Rightarrow>
          obj_get r ''input_mode'' = JStr ''stateless'' \<and>
          obj_get r ''resolution_source'' = JStr ''DIRECT_REQUEST'' \<and>
          json_eq (obj_get r ''resolved_context'')
            (resolved_context_json (rx_resolved_context x))
      | _ \<Rightarrow> False)"

definition legacy_direct_inputs_match ::
  "proposal_version_record \<Rightarrow> resolved_proposal_context \<Rightarrow> bool" where
  "legacy_direct_inputs_match version x =
     (case obj_get (pv_evidence_bundle_json version) ''inputs'' of
        JObj inputs \<Rightarrow>
          (let r = rx_simulate_request x in
           json_eq (JObj inputs) (JObj
             [(''portfolio_snapshot'', JObj (sr_portfolio_snapshot r)),
              (''market_data_snapshot'', JObj (sr_market_data_snapshot r)),
              (''shelf_entries'', JArr (sr_shelf_entries r)),
              (''options'', JObj (sr_options r)),
              (''proposed_cash_flows'', JArr (sr_proposed_cash_flows r)),
              (''proposed_trades'', JArr (sr_proposed_trades r)),
              (''reference_model'', opt_obj (sr_reference_model r))]))
      | _ \<Rightarrow> False)"

definition is_matching_direct_legacy_replay ::
  "stateful_resolver \<Rightarrow> string \<Rightarrow> proposal_record \<Rightarrow> proposal_version_record \<Rightarrow>
   create_request \<Rightarrow> proposal_error + bool" where
  "is_matching_direct_legacy_replay resolver today proposal version payload =
     (case resolve_create_request resolver today payload of
        Inl m \<Rightarrow> Inr False
      | Inr x \<Rightarrow>
          if rx_resolution_source x \<noteq> ''DIRECT_REQUEST'' then Inr False
          else if \<not> legacy_direct_proposal_fields_match proposal payload x then Inr False
          else if \<not> legacy_direct_context_matches version x then Inr False
          else if \<not> legacy_direct_inputs_match version x then Inr False
          else legacy_narrative_request_matches (pv_artifact_json version)
                 (sr_narrative_request (rx_simulate_request x)) (cq_created_by payload))"

definition is_matching_legacy_replay ::
  "stateful_resolver \<Rightarrow> string \<Rightarrow> 's proposal_repository \<Rightarrow> 's \<Rightarrow> create_request \<Rightarrow>
   string \<Rightarrow> string \<Rightarrow> int \<Rightarrow> proposal_error + bool" where
  "is_matching_legacy_replay resolver today repo s payload stored_request_hash proposal_id
       proposal_version_no =
     (case (rp_get_proposal repo s proposal_id,
            rp_get_version repo s proposal_id proposal_version_no) of
        (Some proposal, Some version) \<Rightarrow>
          if stored_request_hash \<noteq> pv_request_hash version then Inr False
          else if cq_input_mode payload \<in> {None, Some Stateless}
          then is_matching_direct_legacy_replay resolver today proposal version payload
          else (case cq_stateful_input payload of
                  None \<Rightarrow> Inr False
                | Some i \<Rightarrow>
                    if \<not> legacy_proposal_fields_match proposal payload i then Inr False
                    else if \<not> legacy_context_matches version i then Inr False
                    else legacy_narrative_request_matches (pv_artifact_json version)
                           (si_narrative_request i) (cq_created_by payload))
      | _ \<Rightarrow> Inr False)"

section \<open>Creating a proposal\<close>

definition require_proposal_idempotency_key :: "string option \<Rightarrow> proposal_error + string" where
  "require_proposal_idempotency_key key =
     rmap_error (\<lambda>_. ProposalValidationError ''IDEMPOTENCY_KEY_REQUIRED'')
       (normalize_required_idempotency_key key)"

definition validate_proposal_lifecycle_origin ::
  "lifecycle_origin \<Rightarrow> string option \<Rightarrow> proposal_error + unit" where
  "validate_proposal_lifecycle_origin origin source_workspace_id =
     rmap_error ProposalValidationError (validate_lifecycle_origin origin source_workspace_id)"

definition prepare_created_proposal ::
  "(string \<Rightarrow> string) \<Rightarrow> advisory_engine \<Rightarrow> stateful_resolver \<Rightarrow> string \<Rightarrow> version_settings \<Rightarrow>
   create_request \<Rightarrow> string \<Rightarrow> string \<Rightarrow> string option \<Rightarrow> lifecycle_origin \<Rightarrow> string option \<Rightarrow>
   json_dict option \<Rightarrow> json_dict option \<Rightarrow> timestamp \<Rightarrow> fresh_ids \<Rightarrow>
   proposal_error + (create_command_state \<times> proposal_version_record)" where
  "prepare_created_proposal sha eng resolver today settings payload idempotency_key
       idempotency_request_hash correlation_id lifecycle_origin source_workspace_id
       replay_lineage override now ids =
     rbind (rmap_error context_resolution_error
              (resolve_create_request resolver today payload)) (\<lambda>resolved.
       let request_hash = build_create_request_hash sha payload resolved;
           request = rx_simulate_request resolved in
     rbind (validate_proposal_simulation_flag request (vs_require_simulation_flag settings)) (\<lambda>_.
       let context_resolution = build_context_resolution_evidence resolved in
     rbind (run_advisory_proposal_simulation eng request
              (rc_as_of (rx_resolved_context resolved)) (rx_input_mode resolved) request_hash
              (Some idempotency_key) correlation_id (fi_correlation_hex ids)
              (obj_get context_resolution ''advisory_policy_context'')) (\<lambda>result.
       let materialization = build_proposal_version_materialization eng request result now
             context_resolution override replay_lineage in
       Inr (build_proposal_create_command_state (fi_proposal_id ids)
              (text_of (obj_get (sr_portfolio_snapshot request) ''portfolio_id''))
              (md_mandate_id (rx_metadata resolved)) (md_jurisdiction (rx_metadata resolved))
              (cq_created_by payload) now 1 (md_title (rx_metadata resolved))
              (md_advisor_notes (rx_metadata resolved)) lifecycle_origin source_workspace_id
              (fi_event_id ids) correlation_id idempotency_key idempotency_request_hash,
            build_proposal_version_record sha eng (fi_version_id ids) (fi_proposal_id ids) 1
              request_hash result (vm_artifact materialization)
              (vm_evidence_bundle materialization) now (vs_store_evidence_bundle settings)))))"

definition create_proposal_command ::
  "(string \<Rightarrow> string) \<Rightarrow> advisory_engine \<Rightarrow> stateful_resolver \<Rightarrow> string \<Rightarrow> version_settings \<Rightarrow>
   's proposal_repository \<Rightarrow> create_request \<Rightarrow> string option \<Rightarrow> string option \<Rightarrow>
   lifecycle_origin \<Rightarrow> string option \<Rightarrow> json_dict option \<Rightarrow> json_dict option \<Rightarrow> timestamp \<Rightarrow>
   fresh_ids \<Rightarrow> 's \<Rightarrow> proposal_error + (create_response \<times> 's)" where
  "create_proposal_command sha eng resolver today settings repo payload raw_key correlation_id
       lifecycle_origin source_workspace_id replay_lineage override now ids s =
     rbind (require_proposal_idempotency_key raw_key) (\<lambda>idempotency_key.
     rbind (validate_proposal_lifecycle_origin lifecycle_origin source_workspace_id) (\<lambda>_.
       let idempotency_request_hash = build_create_command_idempotency_hash sha payload in
       case rp_get_idempotency repo s idempotency_key of
         Some existing \<Rightarrow>
           rbind (if ik_request_hash existing = idempotency_request_hash then Inr True
                  else is_matching_legacy_replay resolver today repo s payload
                         (ik_request_hash existing) (ik_proposal_id existing)
                         (ik_proposal_version_no existing))
             (\<lambda>matches.
                if matches
                then rbind (build_create_response_from_replay_referents repo s
                              (ik_proposal_id existing) (ik_proposal_version_no existing))
                       (\<lambda>response. Inr (response, s))
                else Inl (ProposalIdempotencyConflictError
                       ''IDEMPOTENCY_KEY_CONFLICT: request hash mismatch''))
       | None \<Rightarrow>
           rbind (prepare_created_proposal sha eng resolver today settings payload
                    idempotency_key idempotency_request_hash correlation_id lifecycle_origin
                    source_workspace_id replay_lineage override now ids)
             (\<lambda>(command_state, version).
                rbind (persist_created_proposal repo command_state version s)
                  (\<lambda>s'. Inr (to_create_response (cs_proposal command_state) version
                           (cs_created_event command_state), s')))))"

section \<open>What the commands keep\<close>

text \<open>
  The remaining laws of a repository: what creating a proposal stores, and that the version and
  idempotency records are changed by no other operation.
\<close>

locale version_repository = lifecycle_repository repo for repo :: "'s proposal_repository" +
  assumes create_ok:
    "rp_create_proposal_with_version_event_idempotency repo p v e i s = Inr s' \<Longrightarrow>
       (\<forall>k. rp_get_proposal repo s' k =
              (if k = pr_proposal_id p then Some p else rp_get_proposal repo s k)) \<and>
       (\<forall>k. rp_list_events repo s' k =
              rp_list_events repo s k @ (if k = we_proposal_id e then [e] else [])) \<and>
       (\<forall>k n. rp_get_version repo s' k n =
              (if (k, n) = (pv_proposal_id v, pv_version_no v) then Some v
               else rp_get_version repo s k n)) \<and>
       (\<forall>k. rp_get_idempotency repo s' k =
              (if k = ik_idempotency_key i then Some i else rp_get_idempotency repo s k))"
    and version_ok:
    "rp_create_version repo v s = Inr s' \<Longrightarrow>
       (\<forall>k n. rp_get_version repo s' k n =
              (if (k, n) = (pv_proposal_id v, pv_version_no v) then Some v
               else rp_get_version repo s k n)) \<and>
       rp_get_idempotency repo s' = rp_get_idempotency repo s"
    and transition_versions:
    "rp_transition_proposal repo p e a st n s = Inr (r, s') \<Longrightarrow>
       rp_get_version repo s' = rp_get_version repo s \<and>
       rp_get_idempotency repo s' = rp_get_idempotency repo s"
begin

lemma create_get:
  "rp_create_proposal_with_version_event_idempotency repo p v e i s = Inr s' \<Longrightarrow>
     rp_get_proposal repo s' k =
       (if k = pr_proposal_id p then Some p else rp_get_proposal repo s k)"
  using create_ok by blast

lemma create_events:
  "rp_create_proposal_with_version_event_idempotency repo p v e i s = Inr s' \<Longrightarrow>
     rp_list_events repo s' k =
       rp_list_events repo s k @ (if k = we_proposal_id e then [e] else [])"
  using create_ok by blast

lemma create_versions:
  "rp_create_proposal_with_version_event_idempotency repo p v e i s = Inr s' \<Longrightarrow>
     rp_get_version repo s' k n =
       (if (k, n) = (pv_proposal_id v, pv_version_no v) then Some v else rp_get_version repo s k n)"
  using create_ok by blast

lemma create_idempotency:
  "rp_create_proposal_with_version_event_idempotency repo p v e i s = Inr s' \<Longrightarrow>
     rp_get_idempotency repo s' k =
       (if k = ik_idempotency_key i then Some i else rp_get_idempotency repo s k)"
  using create_ok by blast

lemma version_versions:
  "rp_create_version repo v s = Inr s' \<Longrightarrow>
     rp_get_version repo s' k n =
       (if (k, n) = (pv_proposal_id v, pv_version_no v) then Some v else rp_get_version repo s k n)"
  using version_ok by blast

end

interpretation memv: version_repository in_memory_repository
proof unfold_locales
  fix p v e i and s s' :: proposal_store
  assume "rp_create_proposal_with_version_event_idempotency in_memory_repository p v e i s = Inr s'"
  then have s': "s' = mem_create_proposal_with_version_event_idempotency p v e i s" by simp
  show "(\<forall>k. rp_get_proposal in_memory_repository s' k =
              (if k = pr_proposal_id p then Some p else rp_get_proposal in_memory_repository s k)) \<and>
       (\<forall>k. rp_list_events in_memory_repository s' k =
              rp_list_events in_memory_repository s k @ (if k = we_proposal_id e then [e] else [])) \<and>
       (\<forall>k n. rp_get_version in_memory_repository s' k n =
              (if (k, n) = (pv_proposal_id v, pv_version_no v) then Some v
               else rp_get_version in_memory_repository s k n)) \<and>
       (\<forall>k. rp_get_idempotency in_memory_repository s' k =
              (if k = ik_idempotency_key i then Some i
               else rp_get_idempotency in_memory_repository s k))"
    by (auto simp: s' mem_create_proposal_with_version_event_idempotency_def mem_get_proposal_def
        mem_list_events_def mem_get_version_def mem_get_idempotency_def dict_list_def dict_push_def)
next
  fix v and s s' :: proposal_store
  assume "rp_create_version in_memory_repository v s = Inr s'"
  then show "(\<forall>k n. rp_get_version in_memory_repository s' k n =
              (if (k, n) = (pv_proposal_id v, pv_version_no v) then Some v
               else rp_get_version in_memory_repository s k n)) \<and>
       rp_get_idempotency in_memory_repository s' = rp_get_idempotency in_memory_repository s"
    by (auto simp: mem_create_version_def mem_get_version_def mem_get_idempotency_def fun_eq_iff)
next
  fix p e a st n r and s s' :: proposal_store
  assume "rp_transition_proposal in_memory_repository p e a st n s = Inr (r, s')"
  then show "rp_get_version in_memory_repository s' = rp_get_version in_memory_repository s \<and>
       rp_get_idempotency in_memory_repository s' = rp_get_idempotency in_memory_repository s"
    by (auto simp: mem_transition_proposal_def mem_get_version_def mem_get_idempotency_def
        fun_eq_iff Let_def split: if_splits option.splits)
qed

text \<open>
  Version numbers are contiguous: each version from one to the current one of a proposal is
  stored, under its own number.
\<close>

definition versions_inv :: "'s proposal_repository \<Rightarrow> 's \<Rightarrow> bool" where
  "versions_inv repo s \<longleftrightarrow>
     (\<forall>pid p. rp_get_proposal repo s pid = Some p \<longrightarrow>
        1 \<le> pr_current_version_no p \<and>
        (\<forall>n. 1 \<le> n \<and> n \<le> pr_current_version_no p \<longrightarrow>
           (\<exists>v. rp_get_version repo s pid n = Some v \<and> pv_proposal_id v = pid \<and>
                pv_version_no v = n))) \<and>
     (\<forall>k n v. rp_get_version repo s k n = Some v \<longrightarrow> pv_proposal_id v = k \<and> pv_version_no v = n)"

lemma versions_inv_key:
  "versions_inv repo s \<Longrightarrow> rp_get_version repo s k n = Some v \<Longrightarrow>
     pv_proposal_id v = k \<and> pv_version_no v = n"
  by (simp add: versions_inv_def)

lemma versions_invD:
  "versions_inv repo s \<Longrightarrow> rp_get_proposal repo s pid = Some p \<Longrightarrow>
     1 \<le> pr_current_version_no p \<and>
     (\<forall>n. 1 \<le> n \<and> n \<le> pr_current_version_no p \<longrightarrow>
        (\<exists>v. rp_get_version repo s pid n = Some v \<and> pv_proposal_id v = pid \<and> pv_version_no v = n))"
  by (simp add: versions_inv_def)

lemma prepare_version_fields:
  assumes "prepare_proposal_version sha eng res today st p q c l ov now ids = Inr v"
  shows "pv_proposal_id v = pr_proposal_id p" and "pv_version_no v = pr_current_version_no p + 1"
    and "pr_current_state p \<notin> set TERMINAL_STATES"
    and "vq_expected_current_version_no q = None \<or>
      vq_expected_current_version_no q = Some (pr_current_version_no p)"
proof -
  have st: "validate_create_version_state p (vq_expected_current_version_no q) TERMINAL_STATES = Inr ()"
    using assms unfolding prepare_proposal_version_def by (auto simp: rbind_eq_Inr)
  then show "pr_current_state p \<notin> set TERMINAL_STATES"
    and "vq_expected_current_version_no q = None \<or>
      vq_expected_current_version_no q = Some (pr_current_version_no p)"
    by (auto simp: validate_create_version_state_def split: if_splits)
  show "pv_proposal_id v = pr_proposal_id p" "pv_version_no v = pr_current_version_no p + 1"
    using assms
    by (auto simp: prepare_proposal_version_def rbind_eq_Inr Let_def
        build_proposal_version_record_def)
qed

lemma prepare_created_fields:
  assumes "prepare_created_proposal sha eng res today st q key h c orig src l ov now ids = Inr (cs, v)"
  shows "cs_proposal cs = build_proposal_record (fi_proposal_id ids)
      (pr_portfolio_id (cs_proposal cs)) (pr_mandate_id (cs_proposal cs))
      (pr_jurisdiction (cs_proposal cs)) (cq_created_by q) now 1 (pr_title (cs_proposal cs))
      (pr_advisor_notes (cs_proposal cs)) orig src"
    and "cs_created_event cs =
      build_proposal_created_event (fi_event_id ids) (fi_proposal_id ids) (cq_created_by q) now 1 c"
    and "cs_idempotency_record cs =
      build_proposal_idempotency_record key h (fi_proposal_id ids) 1 now"
    and "pv_proposal_id v = fi_proposal_id ids" and "pv_version_no v = 1"
  using assms
  by (auto simp: prepare_created_proposal_def rbind_eq_Inr Let_def build_proposal_record_def
      build_proposal_create_command_state_def build_proposal_version_record_def)

context version_repository
begin

text \<open>A persisted transition that does not touch the version number keeps the versions.\<close>

lemma transition_keeps_versions:
  assumes inv: "versions_inv repo s"
    and p: "rp_get_proposal repo s pid = Some p"
    and tr: "rp_transition_proposal repo p' e a (Some st) (Some n) s = Inr (r, s')"
    and p': "pr_proposal_id p' = pid" "pr_current_version_no p' = pr_current_version_no p"
  shows "versions_inv repo s'"
  using versions_invD [OF inv p] inv transition_versions [OF tr]
  by (auto simp: versions_inv_def transition_get [OF tr] p' split: if_splits)

text \<open>What \<open>create_proposal_version\<close> did, in success and in failure.\<close>

lemma version_command_cases:
  assumes cmd: "create_proposal_version sha eng res today st repo pid q c l ov now ids s = (s', out)"
  obtains (unchanged) err where "s' = s" and "out = Inl err"
    | (orphan) p v err where "rp_get_proposal repo s pid = Some p"
      and "prepare_proposal_version sha eng res today st p q c l ov now ids = Inr v"
      and "rp_create_version repo v s = Inr s'" and "out = Inl err"
    | (created) p v s1 e p' r where "rp_get_proposal repo s pid = Some p"
      and "prepare_proposal_version sha eng res today st p q c l ov now ids = Inr v"
      and "rp_create_version repo v s = Inr s1"
      and "e = build_new_version_created_event (fi_event_id ids) p (vq_created_by q) now
             (pr_current_version_no p + 1) c"
      and "p' = apply_new_version_lifecycle_state p (pr_current_version_no p + 1) now"
      and "rp_transition_proposal repo p' e None (Some (pr_current_state p))
             (Some (pr_current_version_no p)) s1 = Inr (r, s')"
      and "out = Inr (to_create_response p' v e)"
proof (cases "rp_get_proposal repo s pid")
  case None
  then show ?thesis using cmd unchanged by (auto simp: create_proposal_version_def)
next
  case (Some p)
  show ?thesis
  proof (cases "prepare_proposal_version sha eng res today st p q c l ov now ids")
    case (Inl err)
    then show ?thesis using cmd unchanged Some by (auto simp: create_proposal_version_def)
  next
    case (Inr v)
    let ?e = "build_new_version_created_event (fi_event_id ids) p (vq_created_by q) now
      (pr_current_version_no p + 1) c"
    let ?p = "apply_new_version_lifecycle_state p (pr_current_version_no p + 1) now"
    have from_st: "we_from_state ?e = Some (pr_current_state p)"
      by (simp add: build_new_version_created_event_def)
    note no = prepare_version_fields(2) [OF Inr]
    note step = create_proposal_version_def Let_def persist_created_proposal_version_def
      build_new_version_created_event_and_apply_state_def Some Inr no from_st
    show ?thesis
    proof (cases "rp_create_version repo v s")
      case (Inl err)
      then show ?thesis using cmd unchanged by (auto simp: step)
    next
      case cv: (Inr s1)
      show ?thesis
      proof (cases "rp_transition_proposal repo ?p ?e None (Some (pr_current_state p))
          (Some (pr_current_version_no p)) s1")
        case (Inl err)
        then show ?thesis using cmd cv orphan [OF Some Inr] by (auto simp: step)
      next
        case tr: (Inr rs)
        obtain r s2 where rs: "rs = (r, s2)" by (rule prod.exhaust)
        then have "s' = s2" "out = Inr (to_create_response ?p v ?e)"
          using cmd cv tr by (simp_all add: step)
        then show ?thesis using created [OF Some Inr cv refl refl] tr rs by simp
      qed
    qed
  qed
qed

lemma create_version_log:
  assumes "lifecycle_inv repo s" and "rp_create_version repo v s = Inr s1"
  shows "lifecycle_inv repo s1"
  using assms(1) create_version_frame [OF assms(2)]
  by (simp add: lifecycle_inv_def log_ok_def cong: option.case_cong)

text \<open>
  The log and the versions stay well formed whatever the outcome: even the version that is left
  behind by a refused transition is beyond the current one.
\<close>

lemma create_version_versions:
  assumes inv: "versions_inv repo s" and logs: "lifecycle_inv repo s"
    and p: "rp_get_proposal repo s pid = Some p"
    and v: "pv_proposal_id v = pr_proposal_id p" "pv_version_no v = pr_current_version_no p + 1"
    and cv: "rp_create_version repo v s = Inr s1"
  shows "versions_inv repo s1"
proof -
  have "pv_proposal_id v = pid" using v lifecycle_inv_id [OF logs p] by simp
  then show ?thesis
    using inv p create_version_frame [OF cv]
    by (auto simp: versions_inv_def version_versions [OF cv] v)
qed

lemma version_command_inv:
  assumes logs: "lifecycle_inv repo s" and vers: "versions_inv repo s"
    and cmd: "create_proposal_version sha eng res today st repo pid q c l ov now ids s = (s', out)"
  shows "lifecycle_inv repo s' \<and> versions_inv repo s'"
  using cmd
proof (cases rule: version_command_cases)
  case (unchanged err)
  with logs vers show ?thesis by simp
next
  case (orphan p v err)
  then show ?thesis
    using create_version_log [OF logs orphan(3)]
      create_version_versions [OF vers logs orphan(1) _ _ orphan(3)]
      prepare_version_fields [OF orphan(2)] by simp
next
  case (created p v s1 e p' r)
  note fields = prepare_version_fields [OF created(2)]
  have pid: "pr_proposal_id p = pid" by (rule lifecycle_inv_id [OF logs created(1)])
  have p1: "rp_get_proposal repo s1 pid = Some p"
    using created(1) create_version_frame [OF created(3)] by simp
  have logs1: "lifecycle_inv repo s1" by (rule create_version_log [OF logs created(3)])
  have vers1: "versions_inv repo s1"
    by (rule create_version_versions [OF vers logs created(1) fields(1,2) created(3)])
  have "legal_step (pr_current_state p) NEW_VERSION_CREATED DRAFT"
    by (rule legal_step.new_version [OF fields(3)])
  then have "lifecycle_inv repo s'"
    using created(4,5) pid
    by (intro transition_keeps_inv [OF logs1 p1 created(6)])
      (simp_all add: build_new_version_created_event_def apply_new_version_lifecycle_state_def)
  moreover have "versions_inv repo s'"
    unfolding versions_inv_def
  proof (intro conjI [OF _ allI [OF allI [OF allI [OF impI]]]] allI impI)
    fix k n w
    assume "rp_get_version repo s' k n = Some w"
    then show "pv_proposal_id w = k \<and> pv_version_no w = n"
      using versions_inv_key [OF vers1] transition_versions [OF created(6)] by simp
  next
    fix k p''
    assume k: "rp_get_proposal repo s' k = Some p''"
    have same: "rp_get_version repo s' = rp_get_version repo s1"
      using transition_versions [OF created(6)] by simp
    have new: "rp_get_version repo s1 pid (pr_current_version_no p + 1) = Some v"
      using fields(1,2) pid version_versions [OF created(3)] by simp
    show "1 \<le> pr_current_version_no p'' \<and> (\<forall>n. 1 \<le> n \<and> n \<le> pr_current_version_no p'' \<longrightarrow>
        (\<exists>v. rp_get_version repo s' k n = Some v \<and> pv_proposal_id v = k \<and> pv_version_no v = n))"
    proof (cases "k = pid")
      case True
      then have "pr_current_version_no p'' = pr_current_version_no p + 1"
        using k pid by (simp add: transition_get [OF created(6)] created(5)
            apply_new_version_lifecycle_state_def) auto
      moreover have "\<exists>w. rp_get_version repo s1 pid n = Some w \<and> pv_proposal_id w = pid \<and>
          pv_version_no w = n" if "1 \<le> n" "n \<le> pr_current_version_no p + 1" for n
      proof (cases "n = pr_current_version_no p + 1")
        case True
        then show ?thesis using new fields(1,2) pid by simp
      next
        case False
        then show ?thesis using versions_invD [OF vers1 p1] that by simp
      qed
      ultimately show ?thesis
        using versions_invD [OF vers1 p1] True by (simp add: same)
    next
      case False
      then have "rp_get_proposal repo s1 k = Some p''"
        using k pid by (simp add: transition_get [OF created(6)] created(5)
            apply_new_version_lifecycle_state_def)
      then show ?thesis using versions_invD [OF vers1] by (simp add: same)
    qed
  qed
  ultimately show ?thesis by simp
qed

text \<open>A version that was created is the next one, and puts the proposal back into draft.\<close>

lemma version_command_result:
  assumes logs: "lifecycle_inv repo s"
    and cmd: "create_proposal_version sha eng res today st repo pid q c l ov now ids s =
      (s', Inr resp)"
  shows "\<exists>p p' v. rp_get_proposal repo s pid = Some p \<and> rp_get_proposal repo s' pid = Some p' \<and>
    pr_current_version_no p' = pr_current_version_no p + 1 \<and> pr_current_state p' = DRAFT \<and>
    pr_current_state p \<notin> set TERMINAL_STATES \<and>
    rp_get_version repo s' pid (pr_current_version_no p') = Some v \<and>
    cr_version resp = to_version_detail v True"
  using cmd
proof (cases rule: version_command_cases)
  case (created p v s1 e p' r)
  then show ?thesis
    using prepare_version_fields [OF created(2)] lifecycle_inv_id [OF logs created(1)]
      transition_versions [OF created(6)] version_versions [OF created(3)]
    by (auto simp: transition_get [OF created(6)] apply_new_version_lifecycle_state_def
        to_create_response_def)
qed simp_all

text \<open>What \<open>create_proposal_command\<close> did.\<close>

lemma create_command_cases:
  assumes cmd: "create_proposal_command sha eng res today st repo q raw c orig src l ov now ids s =
      Inr (resp, s')"
  obtains (replay) k existing where "normalize_optional_idempotency_key raw = Some k"
      and "rp_get_idempotency repo s k = Some existing" and "s' = s"
      and "build_create_response_from_replay_referents repo s (ik_proposal_id existing)
             (ik_proposal_version_no existing) = Inr resp"
    | (created) k cs v where "normalize_optional_idempotency_key raw = Some k"
      and "rp_get_idempotency repo s k = None"
      and "prepare_created_proposal sha eng res today st q k
             (build_create_command_idempotency_hash sha q) c orig src l ov now ids = Inr (cs, v)"
      and "rp_create_proposal_with_version_event_idempotency repo (cs_proposal cs) v
             (cs_created_event cs) (cs_idempotency_record cs) s = Inr s'"
      and "resp = to_create_response (cs_proposal cs) v (cs_created_event cs)"
proof -
  obtain k where k: "normalize_optional_idempotency_key raw = Some k"
    using cmd by (auto simp: create_proposal_command_def rbind_eq_Inr
        require_proposal_idempotency_key_def rmap_error_def normalize_required_idempotency_key_def
        split: option.splits sum.splits)
  have key: "require_proposal_idempotency_key raw = Inr k"
    by (simp add: require_proposal_idempotency_key_def rmap_error_def
        normalize_required_idempotency_key_def k)
  obtain u where orig: "validate_proposal_lifecycle_origin orig src = Inr u"
    using cmd key by (auto simp: create_proposal_command_def rbind_eq_Inr)
  show thesis
  proof (cases "rp_get_idempotency repo s k")
    case (Some existing)
    obtain m where m: "(if ik_request_hash existing = build_create_command_idempotency_hash sha q
        then Inr True else is_matching_legacy_replay res today repo s q (ik_request_hash existing)
          (ik_proposal_id existing) (ik_proposal_version_no existing)) = Inr m"
      using cmd key orig Some
      by (auto simp: create_proposal_command_def rbind_eq_Inr Let_def simp del: if_split_asm)
    have "m" using cmd key orig Some m
      by (cases m) (simp_all add: create_proposal_command_def Let_def)
    then show ?thesis
      using cmd key orig Some m replay [OF k Some]
      by (auto simp: create_proposal_command_def Let_def rbind_eq_Inr)
  next
    case None
    then obtain cs v where
      "prepare_created_proposal sha eng res today st q k
         (build_create_command_idempotency_hash sha q) c orig src l ov now ids = Inr (cs, v)"
      "persist_created_proposal repo cs v s = Inr s'"
      "resp = to_create_response (cs_proposal cs) v (cs_created_event cs)"
      using cmd key orig by (auto simp: create_proposal_command_def Let_def rbind_eq_Inr)
    then show ?thesis using created [OF k None] by (simp add: persist_created_proposal_def)
  qed
qed

lemma create_command_inv:
  assumes logs: "lifecycle_inv repo s" and vers: "versions_inv repo s"
    and fresh: "rp_get_proposal repo s (fi_proposal_id ids) = None"
    and cmd: "create_proposal_command sha eng res today st repo q raw c orig src l ov now ids s =
      Inr (resp, s')"
  shows "lifecycle_inv repo s' \<and> versions_inv repo s'"
  using cmd
proof (cases rule: create_command_cases)
  case (replay k existing)
  with logs vers show ?thesis by simp
next
  case (created k cs v)
  note fields = prepare_created_fields [OF created(3)]
  let ?pid = "fi_proposal_id ids"
  note get = create_get [OF created(4)] and evs = create_events [OF created(4)]
  note vs = create_versions [OF created(4)]
  have new: "pr_proposal_id (cs_proposal cs) = ?pid" "pr_current_state (cs_proposal cs) = DRAFT"
    "pr_current_version_no (cs_proposal cs) = 1"
    using fields(1) by (metis build_proposal_record_def proposal_record.simps(1,8,9))+
  have ev: "we_proposal_id (cs_created_event cs) = ?pid"
    "legal_event (cs_created_event cs)" "we_from_state (cs_created_event cs) = None"
    "we_to_state (cs_created_event cs) = DRAFT"
    by (simp_all add: fields(2) build_proposal_created_event_def legal_event_def)
  have none: "rp_list_events repo s ?pid = []"
    using spec [OF iffD1 [OF lifecycle_inv_def logs], of ?pid] fresh by (simp add: log_ok_def)
  have "log_ok repo s' k" for k
  proof (cases "k = ?pid")
    case True
    then show ?thesis by (simp add: log_ok_def get evs new ev none)
  next
    case False
    then show ?thesis
      using spec [OF iffD1 [OF lifecycle_inv_def logs], of k]
      by (simp add: log_ok_def get evs new ev split: option.splits)
  qed
  moreover have "versions_inv repo s'"
    using vers fields(4,5) by (auto simp: versions_inv_def get new vs split: if_splits)
  ultimately show ?thesis by (simp add: lifecycle_inv_def)
qed

text \<open>
  In a state with well-formed logs and versions, a stored proposal and a stored version number
  can always be answered.
\<close>

lemma replay_referents_found:
  assumes logs: "lifecycle_inv repo s" and vers: "versions_inv repo s"
    and p: "rp_get_proposal repo s pid = Some p"
    and n: "1 \<le> n" "n \<le> pr_current_version_no p"
  shows "\<exists>resp. build_create_response_from_replay_referents repo s pid n = Inr resp \<and>
    sm_proposal_id (cr_proposal resp) = pid \<and> vd_version_no (cr_version resp) = n"
proof -
  obtain v where v: "rp_get_version repo s pid n = Some v" "pv_version_no v = n"
    using versions_invD [OF vers p] n by blast
  have "rp_list_events repo s pid \<noteq> []"
    using lifecycle_invD [OF logs p] by (metis chain_from.simps(1) option.distinct(1))
  then show ?thesis
    using p v lifecycle_inv_id [OF logs p]
    by (simp add: build_create_response_from_replay_referents_def
        load_proposal_version_replay_referents_def build_create_response_from_referents_def
        to_create_response_def to_proposal_summary_def to_version_detail_def)
qed

lemma create_key_stored:
  assumes cmd: "create_proposal_command sha eng res today st repo q raw c orig src l ov now ids s =
      Inr (resp, s')"
    and k: "normalize_optional_idempotency_key raw = Some k"
    and new: "rp_get_idempotency repo s k = None"
  shows "rp_get_idempotency repo s' k = Some (build_proposal_idempotency_record k
    (build_create_command_idempotency_hash sha q) (fi_proposal_id ids) 1 now)"
  using cmd
proof (cases rule: create_command_cases)
  case (replay k' existing)
  then show ?thesis using k new by simp
next
  case (created k' cs v)
  then show ?thesis
    using k prepare_created_fields(3) [OF created(3)] create_idempotency [OF created(4)]
    by (simp add: build_proposal_idempotency_record_def)
qed

lemma create_retry:
  assumes first: "create_proposal_command sha eng res today st repo q raw c orig src l ov now ids s =
      Inr (resp, s1)"
    and k: "normalize_optional_idempotency_key raw = Some k"
    and new: "rp_get_idempotency repo s k = None"
    and kept: "rp_get_idempotency repo s2 k = rp_get_idempotency repo s1 k"
    and there: "rp_get_proposal repo s2 (fi_proposal_id ids) \<noteq> None"
    and logs: "lifecycle_inv repo s2" and vers: "versions_inv repo s2"
    and orig: "validate_proposal_lifecycle_origin orig' src' = Inr ()"
  shows "\<exists>resp'. create_proposal_command sha eng' res' today' st' repo q raw c' orig' src' l' ov'
      now' ids' s2 = Inr (resp', s2) \<and>
    sm_proposal_id (cr_proposal resp') = fi_proposal_id ids \<and> vd_version_no (cr_version resp') = 1"
proof -
  have key: "require_proposal_idempotency_key raw = Inr k"
    by (simp add: require_proposal_idempotency_key_def rmap_error_def
        normalize_required_idempotency_key_def k)
  obtain p where p: "rp_get_proposal repo s2 (fi_proposal_id ids) = Some p"
    using there by blast
  obtain r where r: "build_create_response_from_replay_referents repo s2 (fi_proposal_id ids) 1 = Inr r"
    "sm_proposal_id (cr_proposal r) = fi_proposal_id ids" "vd_version_no (cr_version r) = 1"
    using replay_referents_found [OF logs vers p, of 1] versions_invD [OF vers p] by auto
  show ?thesis
    using kept create_key_stored [OF first k new] r
    by (simp add: create_proposal_command_def key orig Let_def build_proposal_idempotency_record_def)
qed

lemma create_key_reuse_refused:
  assumes first: "create_proposal_command sha eng res today st repo q raw c orig src l ov now ids s =
      Inr (resp, s1)"
    and k: "normalize_optional_idempotency_key raw = Some k"
    and new: "rp_get_idempotency repo s k = None"
    and kept: "rp_get_idempotency repo s2 k = rp_get_idempotency repo s1 k"
    and differs: "build_create_command_idempotency_hash sha q' \<noteq>
      build_create_command_idempotency_hash sha q"
    and no_legacy: "\<forall>v. rp_get_version repo s2 (fi_proposal_id ids) 1 = Some v \<longrightarrow>
      pv_request_hash v \<noteq> build_create_command_idempotency_hash sha q"
    and orig: "validate_proposal_lifecycle_origin orig' src' = Inr ()"
  shows "create_proposal_command sha eng' res' today' st' repo q' raw c' orig' src' l' ov'
      now' ids' s2 =
    Inl (ProposalIdempotencyConflictError ''IDEMPOTENCY_KEY_CONFLICT: request hash mismatch'')"
proof -
  have key: "require_proposal_idempotency_key raw = Inr k"
    by (simp add: require_proposal_idempotency_key_def rmap_error_def
        normalize_required_idempotency_key_def k)
  let ?rec = "build_proposal_idempotency_record k
    (build_create_command_idempotency_hash sha q) (fi_proposal_id ids) 1 now"
  have rec: "rp_get_idempotency repo s2 k = Some ?rec"
    using kept create_key_stored [OF first k new] by simp
  have "is_matching_legacy_replay res' today' repo s2 q' (ik_request_hash ?rec)
      (ik_proposal_id ?rec) (ik_proposal_version_no ?rec) = Inr False"
    using no_legacy
    by (auto simp: is_matching_legacy_replay_def build_proposal_idempotency_record_def
        split: option.splits)
  then show ?thesis
    using rec differs
    by (simp add: create_proposal_command_def key orig Let_def)
      (simp add: build_proposal_idempotency_record_def)
qed

end

end
