(* ===== verification/Lifecycle_Views.thy ===== *)
theory Lifecycle_Views
  imports Execution_Commands Version_Commands
begin

text \<open>
  The read side of the proposal lifecycle (src/core/proposals/read_views.py, activity_views.py and
  the read models behind them): lineage, timeline, approvals, detail, version, list and
  idempotency lookup (projections.py), and the delivery summary and history
  (delivery_summary.py).

  The lemmas show that a proposal whose versions are stored contiguously has a complete lineage
  whose latest version is the current one, that the two read models of the execution posture
  agree, and that the delivery history is the delivery part of the timeline.
\<close>

section \<open>Lineage\<close>

record lineage_item =
  li_proposal_version_id :: string
  li_version_no :: int
  li_created_at :: string
  li_status_at_creation :: creation_status
  li_request_hash :: string
  li_simulation_hash :: string
  li_artifact_hash :: string

record lineage_response =
  ln_proposal :: proposal_summary
  ln_version_count :: nat
  ln_latest_version_no :: "int option"
  ln_latest_version_created_at :: "string option"
  ln_lineage_complete :: bool
  ln_missing_version_numbers :: "int list"
  ln_versions :: "lineage_item list"

definition to_lineage_item :: "proposal_version_record \<Rightarrow> lineage_item" where
  "to_lineage_item v =
     \<lparr>li_proposal_version_id = pv_proposal_version_id v, li_version_no = pv_version_no v,
      li_created_at = isoformat (pv_created_at v),
      li_status_at_creation = pv_status_at_creation v, li_request_hash = pv_request_hash v,
      li_simulation_hash = pv_simulation_hash v, li_artifact_hash = pv_artifact_hash v\<rparr>"

text \<open>The loop over \<open>range(1, current_version_no + 1)\<close>, which collects the versions and the gaps.\<close>

fun collect_lineage ::
  "(int \<times> proposal_version_record) list \<Rightarrow> int list \<Rightarrow> lineage_item list \<times> int list" where
  "collect_lineage versions_by_number [] = ([], [])"
| "collect_lineage versions_by_number (n # ns) =
     (case collect_lineage versions_by_number ns of
        (versions, missing) \<Rightarrow>
          (case dict_get versions_by_number n of
             None \<Rightarrow> (versions, n # missing)
           | Some v \<Rightarrow> (to_lineage_item v # versions, missing)))"

definition last_opt :: "'a list \<Rightarrow> 'a option" where
  "last_opt xs = (if xs = [] then None else Some (last xs))"

definition build_proposal_lineage_response ::
  "proposal_record \<Rightarrow> (int \<times> proposal_version_record) list \<Rightarrow> lineage_response" where
  "build_proposal_lineage_response proposal versions_by_number =
     (case collect_lineage versions_by_number [1..pr_current_version_no proposal] of
        (versions, missing) \<Rightarrow>
          \<lparr>ln_proposal = to_proposal_summary proposal, ln_version_count = length versions,
           ln_latest_version_no = map_option li_version_no (last_opt versions),
           ln_latest_version_created_at = map_option li_created_at (last_opt versions),
           ln_lineage_complete = (missing = []), ln_missing_version_numbers = missing,
           ln_versions = versions\<rparr>)"

fun versions_by_number :: "proposal_version_record list \<Rightarrow> (int \<times> proposal_version_record) list \<Rightarrow>
  (int \<times> proposal_version_record) list" where
  "versions_by_number [] d = d"
| "versions_by_number (v # vs) d = versions_by_number vs (dict_set (pv_version_no v) v d)"

definition build_proposal_lineage_view ::
  "'s proposal_repository \<Rightarrow> 's \<Rightarrow> string \<Rightarrow> proposal_error + lineage_response" where
  "build_proposal_lineage_view repo s proposal_id =
     (case rp_get_proposal repo s proposal_id of
        None \<Rightarrow> Inl (ProposalNotFoundError ''PROPOSAL_NOT_FOUND'')
      | Some proposal \<Rightarrow> Inr (build_proposal_lineage_response proposal
          (versions_by_number (rp_list_versions repo s proposal_id) [])))"

section \<open>Timeline, approvals, detail\<close>

record timeline_response =
  tl_proposal :: proposal_summary
  tl_current_state :: workflow_state
  tl_event_count :: nat
  tl_latest_event :: "workflow_event option"
  tl_events :: "workflow_event list"

definition build_workflow_timeline_response ::
  "proposal_record \<Rightarrow> workflow_event_record list \<Rightarrow> timeline_response" where
  "build_workflow_timeline_response proposal events =
     (let timeline_events = map to_workflow_event events in
      \<lparr>tl_proposal = to_proposal_summary proposal, tl_current_state = pr_current_state proposal,
       tl_event_count = length timeline_events, tl_latest_event = last_opt timeline_events,
       tl_events = timeline_events\<rparr>)"

definition build_workflow_timeline_view ::
  "'s proposal_repository \<Rightarrow> 's \<Rightarrow> string \<Rightarrow> proposal_error + timeline_response" where
  "build_workflow_timeline_view repo s proposal_id =
     (case rp_get_proposal repo s proposal_id of
        None \<Rightarrow> Inl (ProposalNotFoundError ''PROPOSAL_NOT_FOUND'')
      | Some proposal \<Rightarrow> Inr (build_workflow_timeline_response proposal
          (rp_list_events repo s proposal_id)))"

record approvals_response =
  al_proposal :: proposal_summary
  al_approval_count :: nat
  al_latest_approval_at :: "string option"
  al_approvals :: "approval_view list"

definition build_approvals_response ::
  "proposal_record \<Rightarrow> approval_record option list \<Rightarrow> approvals_response" where
  "build_approvals_response proposal approvals =
     (let projected = concat (map (\<lambda>a. case to_approval_record a of None \<Rightarrow> [] | Some v \<Rightarrow> [v])
            approvals) in
      \<lparr>al_proposal = to_proposal_summary proposal, al_approval_count = length projected,
       al_latest_approval_at = map_option av_occurred_at (last_opt projected),
       al_approvals = projected\<rparr>)"

definition build_proposal_approvals_view ::
  "'s proposal_repository \<Rightarrow> 's \<Rightarrow> string \<Rightarrow> proposal_error + approvals_response" where
  "build_proposal_approvals_view repo s proposal_id =
     (case rp_get_proposal repo s proposal_id of
        None \<Rightarrow> Inl (ProposalNotFoundError ''PROPOSAL_NOT_FOUND'')
      | Some proposal \<Rightarrow> Inr (build_approvals_response proposal
          (map Some (rp_list_approvals repo s proposal_id))))"

record detail_response =
  dt_proposal :: proposal_summary
  dt_current_version :: version_detail
  dt_last_gate_decision :: "json_dict option"

definition build_proposal_detail_view ::
  "'s proposal_repository \<Rightarrow> 's \<Rightarrow> string \<Rightarrow> bool \<Rightarrow> proposal_error + detail_response" where
  "build_proposal_detail_view repo s proposal_id include_evidence =
     (case rp_get_proposal repo s proposal_id of
        None \<Rightarrow> Inl (ProposalNotFoundError ''PROPOSAL_NOT_FOUND'')
      | Some proposal \<Rightarrow>
          (case rp_get_current_version repo s proposal_id of
             None \<Rightarrow> Inl (ProposalNotFoundError ''PROPOSAL_VERSION_NOT_FOUND'')
           | Some v \<Rightarrow>
               let current_version = to_version_detail v include_evidence in
               Inr \<lparr>dt_proposal = to_proposal_summary proposal,
                    dt_current_version = current_version,
                    dt_last_gate_decision = vd_gate_decision current_version\<rparr>))"

definition build_proposal_version_view ::
  "'s proposal_repository \<Rightarrow> 's \<Rightarrow> string \<Rightarrow> int \<Rightarrow> bool \<Rightarrow> proposal_error + version_detail" where
  "build_proposal_version_view repo s proposal_id version_no include_evidence =
     (case rp_get_version repo s proposal_id version_no of
        None \<Rightarrow> Inl (ProposalNotFoundError ''PROPOSAL_VERSION_NOT_FOUND'')
      | Some v \<Rightarrow> Inr (to_version_detail v include_evidence))"

record idempotency_lookup_response =
  il_idempotency_key :: string
  il_request_hash :: string
  il_proposal_id :: string
  il_proposal_version_no :: int
  il_created_at :: string

definition to_idempotency_lookup_response :: "idempotency_record \<Rightarrow> idempotency_lookup_response" where
  "to_idempotency_lookup_response r =
     \<lparr>il_idempotency_key = ik_idempotency_key r, il_request_hash = ik_request_hash r,
      il_proposal_id = ik_proposal_id r, il_proposal_version_no = ik_proposal_version_no r,
      il_created_at = isoformat (ik_created_at r)\<rparr>"

definition build_idempotency_lookup_view ::
  "'s proposal_repository \<Rightarrow> 's \<Rightarrow> string \<Rightarrow> proposal_error + idempotency_lookup_response" where
  "build_idempotency_lookup_view repo s key =
     (case rp_get_idempotency repo s key of
        None \<Rightarrow> Inl (ProposalNotFoundError ''PROPOSAL_IDEMPOTENCY_KEY_NOT_FOUND'')
      | Some r \<Rightarrow> Inr (to_idempotency_lookup_response r))"

record list_response =
  ls_items :: "proposal_summary list"
  ls_next_cursor :: "string option"

definition build_proposal_list_response ::
  "proposal_record list \<Rightarrow> string option \<Rightarrow> list_response" where
  "build_proposal_list_response proposals next_cursor =
     \<lparr>ls_items = map to_proposal_summary proposals, ls_next_cursor = next_cursor\<rparr>"

definition build_proposal_list_view ::
  "proposal_store \<Rightarrow> proposal_filter \<Rightarrow> int \<Rightarrow> string option \<Rightarrow> list_response" where
  "build_proposal_list_view s f limit cursor =
     (case mem_list_proposals s f limit cursor of
        (proposals, next_cursor) \<Rightarrow> build_proposal_list_response proposals next_cursor)"

section \<open>Delivery\<close>

record latest_delivery_events =
  le_execution_requested :: "workflow_event_record option"
  le_execution_status :: "workflow_event_record option"
  le_report_request :: "workflow_event_record option"

definition note_delivery_event ::
  "workflow_event_record \<Rightarrow> latest_delivery_events \<Rightarrow> latest_delivery_events" where
  "note_delivery_event event l =
     (let l1 = (if we_event_type event = EXECUTION_REQUESTED
                then l\<lparr>le_execution_requested := Some event\<rparr> else l);
          l2 = (if we_event_type event \<in> set EXECUTION_STATUS_EVENT_TYPES
                then l1\<lparr>le_execution_status := Some event\<rparr> else l1)
      in if we_event_type event = REPORT_REQUESTED
         then l2\<lparr>le_report_request := Some event\<rparr> else l2)"

definition latest_delivery_events_of :: "workflow_event_record list \<Rightarrow> latest_delivery_events" where
  "latest_delivery_events_of events = fold note_delivery_event events
     \<lparr>le_execution_requested = None, le_execution_status = None, le_report_request = None\<rparr>"

fun optional_str :: "json \<Rightarrow> string option" where
  "optional_str (JStr t) = Some t"
| "optional_str _ = None"

definition event_reason_str ::
  "workflow_event_record \<Rightarrow> string \<Rightarrow> workflow_event_record option \<Rightarrow> string option" where
  "event_reason_str event key fallback =
     (let value = obj_get (we_reason_json event) key in
      optional_str (case fallback of
         None \<Rightarrow> value
       | Some f \<Rightarrow> if value = JNull then obj_get (we_reason_json f) key else value))"

record delivery_execution_summary =
  xe_handoff_status :: handoff_status
  xe_execution_request_id :: "string option"
  xe_execution_provider :: "string option"
  xe_related_version_no :: "int option"
  xe_handoff_requested_at :: "string option"
  xe_executed_at :: "string option"
  xe_latest_event_type :: workflow_event_type
  xe_external_execution_id :: "string option"
  xe_execution_ownership :: json_dict

definition build_execution_summary ::
  "latest_delivery_events \<Rightarrow> delivery_execution_summary option" where
  "build_execution_summary latest =
     (case (case le_execution_status latest of
              Some e \<Rightarrow> Some e | None \<Rightarrow> le_execution_requested latest) of
        None \<Rightarrow> None
      | Some target \<Rightarrow> Some
          \<lparr>xe_handoff_status = execution_status_for_event (we_event_type target),
           xe_execution_request_id =
             event_reason_str target ''execution_request_id'' (le_execution_requested latest),
           xe_execution_provider =
             event_reason_str target ''execution_provider'' (le_execution_requested latest),
           xe_related_version_no = we_related_version_no target,
           xe_handoff_requested_at =
             map_option (\<lambda>e. isoformat (we_occurred_at e)) (le_execution_requested latest),
           xe_executed_at =
             (if we_event_type target = EXECUTED_ev
              then Some (isoformat (we_occurred_at target)) else None),
           xe_latest_event_type = we_event_type target,
           xe_external_execution_id = event_reason_str target ''external_execution_id'' None,
           xe_execution_ownership = execution_ownership_boundary\<rparr>)"

record delivery_reporting_summary =
  xr_report_request_id :: "string option"
  xr_report_type :: "string option"
  xr_report_service :: "string option"
  xr_status :: "string option"
  xr_report_reference_id :: "string option"
  xr_artifact_url :: "string option"
  xr_requested_by :: string
  xr_related_version_no :: "int option"
  xr_include_execution_summary :: json
  xr_include_reviewed_narrative :: json
  xr_proposal_narrative_package :: json
  xr_generated_at :: string

definition build_reporting_summary ::
  "workflow_event_record option \<Rightarrow> delivery_reporting_summary option" where
  "build_reporting_summary report_request =
     (case report_request of
        None \<Rightarrow> None
      | Some e \<Rightarrow> Some
          \<lparr>xr_report_request_id = event_reason_str e ''report_request_id'' None,
           xr_report_type = event_reason_str e ''report_type'' None,
           xr_report_service = event_reason_str e ''report_service'' None,
           xr_status = event_reason_str e ''status'' None,
           xr_report_reference_id = event_reason_str e ''report_reference_id'' None,
           xr_artifact_url = event_reason_str e ''artifact_url'' None,
           xr_requested_by = we_actor_id e,
           xr_related_version_no = we_related_version_no e,
           xr_include_execution_summary =
             obj_get (we_reason_json e) ''include_execution_summary'',
           xr_include_reviewed_narrative =
             (case dict_get (we_reason_json e) ''include_reviewed_narrative'' of
                None \<Rightarrow> JBool False | Some v \<Rightarrow> v),
           xr_proposal_narrative_package =
             obj_get (we_reason_json e) ''proposal_narrative_package'',
           xr_generated_at = isoformat (we_occurred_at e)\<rparr>)"

record delivery_summary_response =
  ds_proposal :: proposal_summary
  ds_execution :: "delivery_execution_summary option"
  ds_reporting :: "delivery_reporting_summary option"
  ds_explanation :: json_dict

definition build_delivery_summary_response ::
  "proposal_record \<Rightarrow> workflow_event_record list \<Rightarrow> delivery_summary_response" where
  "build_delivery_summary_response proposal events =
     (let latest = latest_delivery_events_of events in
      \<lparr>ds_proposal = to_proposal_summary proposal,
       ds_execution = build_execution_summary latest,
       ds_reporting = build_reporting_summary (le_report_request latest),
       ds_explanation =
         [(''source'', JStr ''ADVISORY_WORKFLOW_EVENTS''),
          (''delivery_projection'', JStr ''LATEST_EXECUTION_AND_REPORTING_POSTURE''),
          (''execution_ownership'', JObj execution_ownership_boundary)]\<rparr>)"

definition DELIVERY_EVENT_TYPES :: "workflow_event_type list" where
  "DELIVERY_EVENT_TYPES = EXECUTION_STATUS_EVENT_TYPES @ [REPORT_REQUESTED]"

definition select_delivery_events ::
  "workflow_event_record list \<Rightarrow> workflow_event_record list" where
  "select_delivery_events events =
     filter (\<lambda>e. we_event_type e \<in> set DELIVERY_EVENT_TYPES) events"

record delivery_history_response =
  dh_proposal :: proposal_summary
  dh_event_count :: nat
  dh_latest_event :: "workflow_event option"
  dh_events :: "workflow_event list"
  dh_explanation :: json_dict

definition build_delivery_history_response ::
  "proposal_record \<Rightarrow> workflow_event_record list \<Rightarrow> delivery_history_response" where
  "build_delivery_history_response proposal events =
     (let history_events = map to_workflow_event (select_delivery_events events) in
      \<lparr>dh_proposal = to_proposal_summary proposal, dh_event_count = length history_events,
       dh_latest_event = last_opt history_events, dh_events = history_events,
       dh_explanation =
         [(''source'', JStr ''ADVISORY_WORKFLOW_EVENTS''), (''filter'', JStr ''DELIVERY_ONLY''),
          (''execution_ownership'', JObj execution_ownership_boundary)]\<rparr>)"

section \<open>Lineage of contiguous versions\<close>

lemma versions_by_number_get:
  "dict_get (versions_by_number vs d) n =
     (case find (\<lambda>v. pv_version_no v = n) (rev vs) of Some v \<Rightarrow> Some v | None \<Rightarrow> dict_get d n)"
proof (induction vs arbitrary: d)
  case Nil
  then show ?case by simp
next
  case (Cons v vs)
  have app: "find P (xs @ ys) = (case find P xs of Some x \<Rightarrow> Some x | None \<Rightarrow> find P ys)"
    for P :: "proposal_version_record \<Rightarrow> bool" and xs ys
    by (induction xs) auto
  show ?case by (simp add: Cons.IH app split: option.splits)
qed

lemma collect_lineage_complete:
  "\<forall>n \<in> set ns. \<exists>v. dict_get d n = Some v \<and> pv_version_no v = n \<Longrightarrow>
     snd (collect_lineage d ns) = [] \<and> map li_version_no (fst (collect_lineage d ns)) = ns"
  by (induction ns) (auto simp: to_lineage_item_def split: prod.splits)

lemma lineage_complete:
  assumes vers: "\<forall>n. 1 \<le> n \<and> n \<le> pr_current_version_no p \<longrightarrow>
      (\<exists>v. dict_get d n = Some v \<and> pv_version_no v = n)"
    and pos: "1 \<le> pr_current_version_no p"
  defines "r \<equiv> build_proposal_lineage_response p d"
  shows "ln_lineage_complete r \<and> ln_missing_version_numbers r = [] \<and>
    map li_version_no (ln_versions r) = [1..pr_current_version_no p] \<and>
    ln_latest_version_no r = Some (pr_current_version_no p) \<and>
    int (ln_version_count r) = pr_current_version_no p"
proof -
  let ?ns = "[1..pr_current_version_no p]"
  obtain vs ms where c: "collect_lineage d ?ns = (vs, ms)" by (rule prod.exhaust)
  have ok: "ms = []" "map li_version_no vs = ?ns"
    using collect_lineage_complete [of ?ns d] vers c by simp_all
  have "vs \<noteq> []" using ok(2) pos by auto
  moreover have "li_version_no (last vs) = last ?ns"
    using ok(2) \<open>vs \<noteq> []\<close> by (metis last_map)
  moreover have "last ?ns = pr_current_version_no p"
    using pos by (simp add: last_conv_nth nth_upto)
  moreover have "length vs = nat (pr_current_version_no p)"
    using ok(2) by (metis diff_add_cancel length_map length_upto)
  ultimately show ?thesis
    using ok pos by (simp add: r_def build_proposal_lineage_response_def c last_opt_def)
qed

lemma mem_list_versions_find:
  assumes v: "mem_get_version s pid n = Some v" "pv_proposal_id v = pid" "pv_version_no v = n"
  shows "\<exists>w. find (\<lambda>v. pv_version_no v = n) (rev (mem_list_versions s pid)) = Some w \<and>
    pv_version_no w = n"
proof -
  have "v \<in> set (dict_values (ps_versions s))"
    using v(1) by (auto simp: mem_get_version_def dict_get_def dict_values_def
        dest!: map_of_SomeD intro: rev_image_eqI)
  with v(2) have "v \<in> set (mem_list_versions s pid)"
    by (simp add: mem_list_versions_def ordered_versions_for_proposal_def)
  with v(3)
  have "find (\<lambda>v. pv_version_no v = n) (rev (mem_list_versions s pid)) \<noteq> None"
    by (auto simp: find_None_iff)
  then show ?thesis by (auto simp: find_Some_iff)
qed

lemma mem_lineage_complete:
  assumes vers: "versions_inv in_memory_repository s"
    and p: "mem_get_proposal s pid = Some p"
  shows "\<exists>r. build_proposal_lineage_view in_memory_repository s pid = Inr r \<and>
    ln_lineage_complete r \<and> map li_version_no (ln_versions r) = [1..pr_current_version_no p] \<and>
    ln_latest_version_no r = Some (pr_current_version_no p)"
proof -
  have v: "\<exists>v. dict_get (versions_by_number (mem_list_versions s pid) []) n = Some v \<and>
      pv_version_no v = n" if n: "1 \<le> n" "n \<le> pr_current_version_no p" for n
  proof -
    obtain v where "mem_get_version s pid n = Some v" "pv_proposal_id v = pid" "pv_version_no v = n"
      using versions_invD [OF vers, of pid p] p n by auto
    from mem_list_versions_find [OF this] show ?thesis
      by (auto simp: versions_by_number_get)
  qed
  show ?thesis
    using lineage_complete [of p "versions_by_number (mem_list_versions s pid) []"] v
      versions_invD [OF vers, of pid p] p
    by (simp add: build_proposal_lineage_view_def)
qed

section \<open>The two read models of the execution posture\<close>

lemma fold_delivery_snoc:
  "latest_delivery_events_of (es @ [e]) = note_delivery_event e (latest_delivery_events_of es)"
  by (simp add: latest_delivery_events_of_def)

lemma latest_delivery_events_eq:
  "le_execution_requested (latest_delivery_events_of es) = latest_execution_requested_event es"
  "le_execution_status (latest_delivery_events_of es) = latest_execution_status_event es"
proof (induction es rule: rev_induct)
  case Nil
  case 1
  then show ?case
    by (simp add: latest_delivery_events_of_def latest_execution_requested_event_def)
  case 2
  then show ?case
    by (simp add: latest_delivery_events_of_def latest_execution_status_event_def)
next
  case (snoc e es)
  case 1
  then show ?case using snoc by (simp add: fold_delivery_snoc note_delivery_event_def Let_def)
  case 2
  then show ?case using snoc by (simp add: fold_delivery_snoc note_delivery_event_def Let_def)
qed

lemma requested_has_status:
  "latest_execution_requested_event es = Some e \<Longrightarrow> latest_execution_status_event es \<noteq> None"
proof (induction es rule: rev_induct)
  case Nil
  then show ?case by (simp add: latest_execution_requested_event_def)
next
  case (snoc x es)
  then show ?case by (auto simp: EXECUTION_STATUS_EVENT_TYPES_def split: if_splits)
qed

lemma delivery_agrees_with_status:
  "map_option xe_handoff_status (build_execution_summary (latest_delivery_events_of es)) =
     (if xp_handoff_status (build_execution_status_projection
           (latest_execution_requested_event es) (latest_execution_status_event es)) = NOT_REQUESTED
      then None
      else Some (xp_handoff_status (build_execution_status_projection
           (latest_execution_requested_event es) (latest_execution_status_event es))))"
proof (cases "latest_execution_status_event es")
  case None
  then have "latest_execution_requested_event es = None"
    using requested_has_status by (metis option.exhaust)
  with None show ?thesis
    by (simp add: build_execution_summary_def latest_delivery_events_eq
        build_execution_status_projection_def requested_event_projection_def empty_projection_def)
next
  case (Some e)
  have "we_event_type e \<in> set EXECUTION_STATUS_EVENT_TYPES"
    using Some first_event_where_in by (fastforce simp: latest_execution_status_event_def)
  then have "execution_status_for_event (we_event_type e) \<noteq> NOT_REQUESTED"
    by (auto simp: EXECUTION_STATUS_EVENT_TYPES_def execution_status_for_event_def rule_tables)
  with Some show ?thesis
    by (simp add: build_execution_summary_def latest_delivery_events_eq
        build_execution_status_projection_def status_event_projection_def Let_def)
qed

end
