(* ===== verification/Narrative_Review.thy ===== *)
theory Narrative_Review
  imports Version_Commands Execution_Commands
begin

text \<open>
  Reviews of the narrative of a proposal version (src/core/proposals/narrative_review.py,
  narrative_views.py, with the request of src/core/advisory/narrative_review_models.py), the
  package of a reviewed narrative for a report (report_narrative_package.py) and the report
  request (reporting.py, report_request_command.py).

  The lemmas show that a review never changes the lifecycle state and is what the read model then
  reports, that no review releases a narrative to the client, and that a report carries a
  narrative only when the review that approved it was given to that very text.
\<close>

section \<open>Reviews\<close>

datatype review_action = APPROVE | REJECT | REQUEST_REGENERATION

fun review_action_name :: "review_action \<Rightarrow> string" where
  "review_action_name APPROVE = ''APPROVE''"
| "review_action_name REJECT = ''REJECT''"
| "review_action_name REQUEST_REGENERATION = ''REQUEST_REGENERATION''"

record narrative_review_request =
  nq_action :: review_action
  nq_reviewed_by :: string
  nq_reason :: string
  nq_client_ready_release_requested :: bool
  nq_replacement_narrative_id :: "string option"

definition narrative_review_request_json :: "narrative_review_request \<Rightarrow> json" where
  "narrative_review_request_json q = JObj
     [(''action'', JStr (review_action_name (nq_action q))),
      (''reviewed_by'', JStr (nq_reviewed_by q)),
      (''reason'', JStr (nq_reason q)),
      (''client_ready_release_requested'', JBool (nq_client_ready_release_requested q)),
      (''replacement_narrative_id'', opt_str (nq_replacement_narrative_id q))]"

text \<open>\<open>str(value or "")\<close>.\<close>

definition text_or_empty :: "json \<Rightarrow> string" where
  "text_or_empty v = (if json_truthy v then py_str v else [])"

definition narrative_of :: "proposal_version_record \<Rightarrow> string + json_dict" where
  "narrative_of version =
     (case obj_get (pv_artifact_json version) ''proposal_narrative'' of
        JObj n \<Rightarrow> Inr n
      | _ \<Rightarrow> Inl ''PROPOSAL_NARRATIVE_NOT_FOUND'')"

definition narrative_id_of :: "proposal_version_record \<Rightarrow> string + string" where
  "narrative_id_of version =
     rbind (narrative_of version) (\<lambda>n.
       let narrative_id = obj_get n ''narrative_id'' in
       Inr (if narrative_id \<noteq> JNull then py_str narrative_id else []))"

definition require_reviewable_narrative :: "proposal_version_record \<Rightarrow> string + json_dict" where
  "require_reviewable_narrative version =
     rbind (narrative_of version) (\<lambda>n.
       if \<not> json_truthy (obj_get n ''narrative_id'') then Inl ''PROPOSAL_NARRATIVE_NOT_FOUND''
       else Inr n)"

definition build_narrative_review_request_hash ::
  "(string \<Rightarrow> string) \<Rightarrow> proposal_version_record \<Rightarrow> narrative_review_request \<Rightarrow> string + string"
  where
  "build_narrative_review_request_hash sha version payload =
     rbind (narrative_id_of version) (\<lambda>narrative_id.
       Inr (hash_canonical_payload sha (JObj
         [(''proposal_id'', JStr (pv_proposal_id version)),
          (''proposal_version_no'', JInt (pv_version_no version)),
          (''narrative_id'', JStr narrative_id),
          (''payload'', narrative_review_request_json payload)])))"

fun review_state :: "review_action \<Rightarrow> string" where
  "review_state APPROVE = ''APPROVED_FOR_ADVISOR_USE''"
| "review_state REQUEST_REGENERATION = ''REGENERATION_REQUESTED''"
| "review_state REJECT = ''REJECTED''"

definition client_ready_status :: "narrative_review_request \<Rightarrow> string" where
  "client_ready_status payload =
     (if \<not> nq_client_ready_release_requested payload then ''NOT_REQUESTED''
      else if nq_action payload \<noteq> APPROVE then ''BLOCKED_REVIEW_REQUIRED''
      else ''BLOCKED_POLICY_OR_GUARDRAIL'')"

fun search_replayed_review ::
  "string \<Rightarrow> string \<Rightarrow> workflow_event_record list \<Rightarrow> string + workflow_event_record option" where
  "search_replayed_review key request_hash [] = Inr None"
| "search_replayed_review key request_hash (e # es) =
     (if we_event_type e \<noteq> NARRATIVE_REVIEWED then search_replayed_review key request_hash es
      else if obj_get (we_reason_json e) ''idempotency_key'' \<noteq> JStr key
      then search_replayed_review key request_hash es
      else let existing_hash = obj_get (we_reason_json e) ''idempotency_request_hash'' in
        if existing_hash \<noteq> JNull \<and> existing_hash \<noteq> JStr request_hash
        then Inl ''IDEMPOTENCY_KEY_CONFLICT: request hash mismatch''
        else Inr (Some e))"

definition find_replayed_review_event ::
  "'s proposal_repository \<Rightarrow> 's \<Rightarrow> string \<Rightarrow> string option \<Rightarrow> string \<Rightarrow>
   string + workflow_event_record option" where
  "find_replayed_review_event repo s proposal_id idempotency_key request_hash =
     (if \<not> truthy idempotency_key then Inr None
      else search_replayed_review (the idempotency_key) request_hash
             (rev (rp_list_events repo s proposal_id)))"

definition build_review_event ::
  "(string \<Rightarrow> string) \<Rightarrow> string \<Rightarrow> proposal_record \<Rightarrow> proposal_version_record \<Rightarrow> json_dict \<Rightarrow>
   narrative_review_request \<Rightarrow> string option \<Rightarrow> string \<Rightarrow> timestamp \<Rightarrow> workflow_event_record"
  where
  "build_review_event sha event_id proposal version narrative payload idempotency_key request_hash
       occurred_at =
     (let reason_json =
            [(''review_action'', JStr (review_action_name (nq_action payload))),
             (''review_state'', JStr (review_state (nq_action payload))),
             (''client_ready_status'', JStr (client_ready_status payload)),
             (''reason'', JStr (nq_reason payload)),
             (''narrative_id'', obj_get narrative ''narrative_id''),
             (''source_narrative_hash'', JStr (hash_canonical_payload sha (JObj narrative))),
             (''client_ready_release_requested'',
              JBool (nq_client_ready_release_requested payload)),
             (''replacement_narrative_id'', opt_str (nq_replacement_narrative_id payload))]
      in \<lparr>we_event_id = event_id, we_proposal_id = pr_proposal_id proposal,
          we_event_type = NARRATIVE_REVIEWED,
          we_from_state = Some (pr_current_state proposal),
          we_to_state = pr_current_state proposal,
          we_actor_id = nq_reviewed_by payload, we_occurred_at = occurred_at,
          we_reason_json = with_idempotency reason_json idempotency_key request_hash,
          we_related_version_no = Some (pv_version_no version)\<rparr>)"

record narrative_review_record =
  nr_review_id :: string
  nr_proposal_id :: string
  nr_proposal_version_no :: int
  nr_narrative_id :: string
  nr_action :: json
  nr_review_state :: json
  nr_client_ready_status :: json
  nr_reviewed_by :: string
  nr_reviewed_at :: string
  nr_reason :: string
  nr_source_narrative_hash :: string
  nr_replacement_narrative_id :: "string option"
  nr_replayed :: bool

definition review_record_from_event ::
  "workflow_event_record \<Rightarrow> bool \<Rightarrow> narrative_review_record" where
  "review_record_from_event event replayed =
     (let reason = we_reason_json event in
      \<lparr>nr_review_id = we_event_id event, nr_proposal_id = we_proposal_id event,
       nr_proposal_version_no =
         (case we_related_version_no event of None \<Rightarrow> 0 | Some n \<Rightarrow> n),
       nr_narrative_id = text_or_empty (obj_get reason ''narrative_id''),
       nr_action = obj_get reason ''review_action'',
       nr_review_state = obj_get reason ''review_state'',
       nr_client_ready_status = obj_get reason ''client_ready_status'',
       nr_reviewed_by = we_actor_id event, nr_reviewed_at = isoformat (we_occurred_at event),
       nr_reason = text_or_empty (obj_get reason ''reason''),
       nr_source_narrative_hash = text_or_empty (obj_get reason ''source_narrative_hash''),
       nr_replacement_narrative_id =
         (if obj_get reason ''replacement_narrative_id'' \<noteq> JNull
          then Some (py_str (obj_get reason ''replacement_narrative_id'')) else None),
       nr_replayed = replayed\<rparr>)"

fun search_latest_review ::
  "int \<Rightarrow> string \<Rightarrow> workflow_event_record list \<Rightarrow> narrative_review_record option" where
  "search_latest_review version_no narrative_id [] = None"
| "search_latest_review version_no narrative_id (e # es) =
     (if we_event_type e \<noteq> NARRATIVE_REVIEWED then search_latest_review version_no narrative_id es
      else if we_related_version_no e \<noteq> Some version_no
      then search_latest_review version_no narrative_id es
      else if obj_get (we_reason_json e) ''narrative_id'' \<noteq> JStr narrative_id
      then search_latest_review version_no narrative_id es
      else Some (review_record_from_event e False))"

definition latest_narrative_review_record ::
  "workflow_event_record list \<Rightarrow> proposal_version_record \<Rightarrow> narrative_review_record option" where
  "latest_narrative_review_record events version =
     (case narrative_id_of version of
        Inl m \<Rightarrow> None
      | Inr narrative_id \<Rightarrow>
          search_latest_review (pv_version_no version) narrative_id (rev events))"

record narrative_review_response =
  nw_proposal :: proposal_summary
  nw_narrative_review :: narrative_review_record
  nw_latest_workflow_event :: workflow_event

definition build_review_response ::
  "proposal_record \<Rightarrow> workflow_event_record \<Rightarrow> bool \<Rightarrow> narrative_review_response" where
  "build_review_response proposal event replayed =
     \<lparr>nw_proposal = to_proposal_summary proposal,
      nw_narrative_review = review_record_from_event event replayed,
      nw_latest_workflow_event = to_workflow_event event\<rparr>"

text \<open>The view turns a review error into a conflict or a validation error by its prefix.\<close>

definition review_error :: "string \<Rightarrow> proposal_error" where
  "review_error message =
     (if has_prefix ''IDEMPOTENCY_KEY_CONFLICT'' message
      then ProposalIdempotencyConflictError message else ProposalValidationError message)"

definition record_narrative_review_event ::
  "(string \<Rightarrow> string) \<Rightarrow> 's proposal_repository \<Rightarrow> string \<Rightarrow> proposal_record \<Rightarrow>
   proposal_version_record \<Rightarrow> narrative_review_request \<Rightarrow> string option \<Rightarrow> timestamp \<Rightarrow> 's \<Rightarrow>
   proposal_error + (narrative_review_response \<times> 's)" where
  "record_narrative_review_event sha repo event_id proposal version payload raw_key occurred_at s =
     (let idempotency_key = normalize_optional_idempotency_key raw_key in
      rbind (rmap_error review_error (require_reviewable_narrative version)) (\<lambda>narrative.
      rbind (rmap_error review_error
               (build_narrative_review_request_hash sha version payload)) (\<lambda>request_hash.
      rbind (rmap_error review_error (find_replayed_review_event repo s
               (pr_proposal_id proposal) idempotency_key request_hash)) (\<lambda>replay_event.
      case replay_event of
        Some e \<Rightarrow> Inr (build_review_response proposal e True, s)
      | None \<Rightarrow>
          let event = build_review_event sha event_id proposal version narrative payload
                        idempotency_key request_hash occurred_at in
          rbind (rp_transition_proposal repo (proposal\<lparr>pr_last_event_at := occurred_at\<rparr>) event
                   None (we_from_state event) (Some (pr_current_version_no proposal)) s)
            (\<lambda>(result, s').
               Inr (build_review_response (tr_proposal result) (tr_event result) False, s'))))))"

definition record_narrative_review ::
  "(string \<Rightarrow> string) \<Rightarrow> 's proposal_repository \<Rightarrow> string \<Rightarrow> int \<Rightarrow> narrative_review_request \<Rightarrow>
   string option \<Rightarrow> string \<Rightarrow> timestamp \<Rightarrow> 's \<Rightarrow>
   proposal_error + (narrative_review_response \<times> 's)" where
  "record_narrative_review sha repo proposal_id version_no payload idempotency_key event_id
       occurred_at s =
     (case load_proposal_version_replay_referents repo s proposal_id version_no of
        (None, _, _) \<Rightarrow> Inl (ProposalNotFoundError ''PROPOSAL_NOT_FOUND'')
      | (Some proposal, None, _) \<Rightarrow> Inl (ProposalNotFoundError ''PROPOSAL_VERSION_NOT_FOUND'')
      | (Some proposal, Some version, _) \<Rightarrow>
          record_narrative_review_event sha repo event_id proposal version payload
            idempotency_key occurred_at s)"

section \<open>The package of a reviewed narrative\<close>

definition list_of_dicts :: "json \<Rightarrow> json_dict list" where
  "list_of_dicts value =
     (case value of
        JArr xs \<Rightarrow> concat (map (\<lambda>x. case x of JObj d \<Rightarrow> [d] | _ \<Rightarrow> []) xs)
      | _ \<Rightarrow> [])"

definition required_mapping :: "json \<Rightarrow> string \<Rightarrow> proposal_error + json_dict" where
  "required_mapping value missing_code =
     (case value of JObj d \<Rightarrow> Inr d | _ \<Rightarrow> Inl (ProposalValidationError missing_code))"

definition required_text :: "json \<Rightarrow> string \<Rightarrow> proposal_error + string" where
  "required_text value missing_code =
     (let text = text_or_empty value in
      if text = [] then Inl (ProposalValidationError missing_code) else Inr text)"

definition approved_review_state :: "json_dict \<Rightarrow> proposal_error + string" where
  "approved_review_state review =
     (let st = text_or_empty (obj_get review ''review_state'') in
      if st \<noteq> ''APPROVED_FOR_ADVISOR_USE''
      then Inl (ProposalValidationError ''PROPOSAL_REPORT_NARRATIVE_REVIEW_NOT_APPROVED'')
      else Inr st)"

definition validated_review_hash ::
  "(string \<Rightarrow> string) \<Rightarrow> json_dict \<Rightarrow> json_dict \<Rightarrow> proposal_error + string" where
  "validated_review_hash sha narrative review =
     (let reviewed_hash = text_or_empty (obj_get review ''source_narrative_hash'') in
      if reviewed_hash \<noteq> hash_canonical_payload sha (JObj narrative)
      then Inl (ProposalValidationError ''PROPOSAL_REPORT_NARRATIVE_REVIEW_HASH_MISMATCH'')
      else Inr reviewed_hash)"

definition normalized_text :: "json \<Rightarrow> string" where
  "normalized_text value = py_strip (text_or_empty value)"

definition first_text :: "string \<Rightarrow> string \<Rightarrow> string" where
  "first_text a b = (if a \<noteq> [] then a else b)"

definition section_id_of :: "json_dict \<Rightarrow> string" where
  "section_id_of item = first_text (normalized_text (obj_get item ''section_id''))
     (normalized_text (obj_get item ''section_key''))"

definition section_body_of :: "json_dict \<Rightarrow> string" where
  "section_body_of item = first_text (normalized_text (obj_get item ''body''))
     (normalized_text (obj_get item ''text''))"

definition dict_pop :: "string \<Rightarrow> json_dict \<Rightarrow> json_dict" where
  "dict_pop key d = filter (\<lambda>(k, v). k \<noteq> key) d"

definition narrative_section_for_report :: "json_dict \<Rightarrow> json_dict option" where
  "narrative_section_for_report item =
     (let section_id = section_id_of item;
          title = normalized_text (obj_get item ''title'');
          body = section_body_of item in
      if section_id = [] \<or> title = [] \<or> body = [] then None
      else Some (dict_pop ''text'' (dict_pop ''section_key''
             (dict_set ''body'' (JStr body) (dict_set ''title'' (JStr title)
               (dict_set ''section_id'' (JStr section_id) item))))))"

definition narrative_sections_for_report :: "json \<Rightarrow> json_dict list" where
  "narrative_sections_for_report value =
     List.map_filter narrative_section_for_report (list_of_dicts value)"

definition report_execution_boundary :: "json_dict \<Rightarrow> json" where
  "report_execution_boundary replay_evidence =
     (case obj_get replay_evidence ''delivery'' of
        JObj d \<Rightarrow> obj_get d ''execution'' | _ \<Rightarrow> JNull)"

definition build_reviewed_narrative_report_package ::
  "(string \<Rightarrow> string) \<Rightarrow> string \<Rightarrow> int \<Rightarrow> json_dict \<Rightarrow> proposal_error + json_dict" where
  "build_reviewed_narrative_report_package sha proposal_id version_no replay_evidence =
     rbind (required_mapping (obj_get replay_evidence ''proposal_narrative'')
              ''PROPOSAL_REPORT_NARRATIVE_NOT_FOUND'') (\<lambda>narrative.
     rbind (required_mapping (obj_get replay_evidence ''proposal_narrative_review'')
              ''PROPOSAL_REPORT_NARRATIVE_REVIEW_REQUIRED'') (\<lambda>review.
     rbind (approved_review_state review) (\<lambda>st.
     rbind (required_text (obj_get narrative ''narrative_id'')
              ''PROPOSAL_REPORT_NARRATIVE_REVIEW_INCOMPLETE'') (\<lambda>narrative_id.
     rbind (required_text (obj_get review ''review_id'')
              ''PROPOSAL_REPORT_NARRATIVE_REVIEW_INCOMPLETE'') (\<lambda>review_id.
     rbind (validated_review_hash sha narrative review) (\<lambda>reviewed_hash.
       Inr [(''package_status'', JStr ''INCLUDED_REVIEWED_NARRATIVE''),
            (''usage'', JStr ''ADVISOR_REVIEW_AND_REPORT_CONTEXT''),
            (''proposal_id'', JStr proposal_id),
            (''proposal_version_no'', JInt version_no),
            (''narrative_id'', JStr narrative_id),
            (''narrative_status'', JStr (text_or_empty (obj_get narrative ''status''))),
            (''generation_mode'', obj_get narrative ''generation_mode''),
            (''audience'', obj_get narrative ''audience''),
            (''policy_version'', obj_get narrative ''policy_version''),
            (''review'', JObj
               [(''review_id'', JStr review_id), (''review_state'', JStr st),
                (''client_ready_status'', obj_get review ''client_ready_status''),
                (''reviewed_by'', obj_get review ''reviewed_by''),
                (''reviewed_at'', obj_get review ''reviewed_at''),
                (''source_narrative_hash'', JStr reviewed_hash)]),
            (''source_lineage'', JObj
               [(''source_narrative_hash'', JStr reviewed_hash),
                (''request_hash'', obj_get replay_evidence ''request_hash''),
                (''artifact_hash'', obj_get replay_evidence ''artifact_hash''),
                (''simulation_hash'', obj_get replay_evidence ''simulation_hash'')]),
            (''sections'', JArr (map JObj
               (narrative_sections_for_report (obj_get narrative ''sections'')))),
            (''disclosures'', JArr (map JObj (list_of_dicts (obj_get narrative ''disclosures'')))),
            (''guardrail_results'',
             JArr (map JObj (list_of_dicts (obj_get narrative ''guardrail_results'')))),
            (''limitations'', JArr (map JObj (list_of_dicts (obj_get narrative ''limitations'')))),
            (''ai_lineage'', obj_get narrative ''ai_lineage''),
            (''execution_boundary'', report_execution_boundary replay_evidence)]))))))"

definition summarize_narrative_report_package :: "json_dict option \<Rightarrow> json_dict option" where
  "summarize_narrative_report_package package =
     (case package of
        None \<Rightarrow> None
      | Some p \<Rightarrow>
          (let review = (case obj_get p ''review'' of JObj d \<Rightarrow> d | _ \<Rightarrow> []) in
           Some [(''package_status'', obj_get p ''package_status''),
                 (''usage'', obj_get p ''usage''),
                 (''proposal_version_no'', obj_get p ''proposal_version_no''),
                 (''narrative_id'', obj_get p ''narrative_id''),
                 (''review_id'', obj_get review ''review_id''),
                 (''review_state'', obj_get review ''review_state''),
                 (''client_ready_status'', obj_get review ''client_ready_status''),
                 (''source_narrative_hash'', obj_get review ''source_narrative_hash'')]))"

section \<open>Report requests\<close>

record report_response =
  rq_report_request_id :: string
  rq_report_type :: string
  rq_report_service :: string
  rq_status :: string
  rq_generated_at :: string
  rq_report_reference_id :: string
  rq_artifact_url :: "string option"

definition build_report_requested_event ::
  "string \<Rightarrow> proposal_record \<Rightarrow> report_response \<Rightarrow> timestamp \<Rightarrow> string \<Rightarrow> int \<Rightarrow> bool \<Rightarrow> bool \<Rightarrow>
   json_dict option \<Rightarrow> workflow_event_record" where
  "build_report_requested_event event_id proposal report occurred_at requested_by
       related_version_no include_execution_summary include_reviewed_narrative package =
     (let reason_json =
            [(''report_request_id'', JStr (rq_report_request_id report)),
             (''report_type'', JStr (rq_report_type report)),
             (''report_service'', JStr (rq_report_service report)),
             (''status'', JStr (rq_status report)),
             (''report_reference_id'', JStr (rq_report_reference_id report)),
             (''artifact_url'', opt_str (rq_artifact_url report)),
             (''related_version_no'', JInt related_version_no),
             (''include_execution_summary'', JBool include_execution_summary)] @
            (if include_reviewed_narrative
             then [(''include_reviewed_narrative'', JBool True)] else []) @
            (case package of None \<Rightarrow> [] | Some p \<Rightarrow> [(''proposal_narrative_package'', JObj p)])
      in \<lparr>we_event_id = event_id, we_proposal_id = pr_proposal_id proposal,
          we_event_type = REPORT_REQUESTED,
          we_from_state = Some (pr_current_state proposal),
          we_to_state = pr_current_state proposal,
          we_actor_id = requested_by, we_occurred_at = occurred_at,
          we_reason_json = reason_json, we_related_version_no = Some related_version_no\<rparr>)"

definition apply_report_request_state ::
  "proposal_record \<Rightarrow> workflow_event_record \<Rightarrow> proposal_record" where
  "apply_report_request_state proposal event =
     proposal\<lparr>pr_last_event_at := max (pr_last_event_at proposal) (we_occurred_at event)\<rparr>"

text \<open>
  \<open>datetime.fromisoformat\<close> reads the time stamp of the report service; \<open>max\<close> of a naive and an
  aware one is a \<open>TypeError\<close>.
\<close>

definition report_occurred_at :: "(string \<Rightarrow> iso_result) \<Rightarrow> report_response \<Rightarrow> proposal_error + timestamp"
  where
  "report_occurred_at parse_iso report =
     (case parse_iso (rq_generated_at report) of
        IsoInvalid \<Rightarrow> Inl (PyValueError ''Invalid isoformat string'')
      | IsoNaive t \<Rightarrow> Inl (PyTypeError ''can't compare offset-naive and offset-aware datetimes'')
      | IsoAware t \<Rightarrow> Inr t)"

definition record_proposal_report_request ::
  "(string \<Rightarrow> iso_result) \<Rightarrow> 's proposal_repository \<Rightarrow> string \<Rightarrow> report_response \<Rightarrow> string \<Rightarrow>
   int \<Rightarrow> bool \<Rightarrow> bool \<Rightarrow> json_dict option \<Rightarrow> string \<Rightarrow> 's \<Rightarrow>
   proposal_error + (workflow_event_record \<times> 's)" where
  "record_proposal_report_request parse_iso repo proposal_id report requested_by
       related_version_no include_execution_summary include_reviewed_narrative package event_id s =
     (case rp_get_proposal repo s proposal_id of
        None \<Rightarrow> Inl (ProposalNotFoundError ''PROPOSAL_NOT_FOUND'')
      | Some proposal \<Rightarrow>
          rbind (report_occurred_at parse_iso report) (\<lambda>occurred_at.
            let event = build_report_requested_event event_id proposal report occurred_at
                  requested_by related_version_no include_execution_summary
                  include_reviewed_narrative package in
            rbind (persist_proposal_transition repo (apply_report_request_state proposal event)
                     event s)
              (\<lambda>(result, s'). Inr (event, s'))))"

section \<open>What they keep and show\<close>

lemma review_request_hash_ok:
  "require_reviewable_narrative v = Inr n \<Longrightarrow>
     \<exists>h. build_narrative_review_request_hash sha v q = Inr h \<and> narrative_of v = Inr n \<and>
         json_truthy (obj_get n ''narrative_id'')"
  by (auto simp: require_reviewable_narrative_def build_narrative_review_request_hash_def
      narrative_id_of_def rbind_eq_Inr Let_def split: if_splits)

context lifecycle_repository
begin

lemma review_command_cases:
  assumes cmd: "record_narrative_review sha repo pid n payload raw eid at s = Inr (resp, s')"
  obtains (replay) p e where "s' = s" and "rp_get_proposal repo s pid = Some p"
      and "resp = build_review_response p e True"
    | (fresh) p v narrative h e where "rp_get_proposal repo s pid = Some p"
      and "rp_get_version repo s pid n = Some v"
      and "require_reviewable_narrative v = Inr narrative"
      and "e = build_review_event sha eid p v narrative payload
             (normalize_optional_idempotency_key raw) h at"
      and "resp = build_review_response (p\<lparr>pr_last_event_at := at\<rparr>) e False"
      and "rp_transition_proposal repo (p\<lparr>pr_last_event_at := at\<rparr>) e None
             (Some (pr_current_state p)) (Some (pr_current_version_no p)) s
           = Inr (\<lparr>tr_proposal = p\<lparr>pr_last_event_at := at\<rparr>, tr_event = e, tr_approval = None\<rparr>, s')"
proof -
  let ?k = "normalize_optional_idempotency_key raw"
  obtain p v where p: "rp_get_proposal repo s pid = Some p" "rp_get_version repo s pid n = Some v"
    and cmd': "record_narrative_review_event sha repo eid p v payload raw at s = Inr (resp, s')"
    using cmd by (auto simp: record_narrative_review_def load_proposal_version_replay_referents_def
        split: option.splits)
  obtain narrative where na: "require_reviewable_narrative v = Inr narrative"
    using cmd' by (auto simp: record_narrative_review_event_def Let_def rbind_eq_Inr)
  obtain h where h: "build_narrative_review_request_hash sha v payload = Inr h"
    using review_request_hash_ok [OF na] by blast
  obtain re where re: "find_replayed_review_event repo s (pr_proposal_id p) ?k h = Inr re"
    using cmd' na h by (auto simp: record_narrative_review_event_def Let_def rbind_eq_Inr)
  let ?e = "build_review_event sha eid p v narrative payload ?k h at"
  have from_st: "we_from_state ?e = Some (pr_current_state p)"
    by (simp add: build_review_event_def Let_def)
  show thesis
  proof (cases re)
    case (Some e)
    have "s' = s" "resp = build_review_response p e True"
      using cmd' na h re Some by (simp_all add: record_narrative_review_event_def Let_def)
    then show ?thesis using replay p(1) by blast
  next
    case None
    obtain r where tr: "rp_transition_proposal repo (p\<lparr>pr_last_event_at := at\<rparr>) ?e None
          (Some (pr_current_state p)) (Some (pr_current_version_no p)) s = Inr (r, s')"
      and resp: "resp = build_review_response (tr_proposal r) (tr_event r) False"
      using cmd' na h re None
      by (auto simp: record_narrative_review_event_def Let_def rbind_eq_Inr from_st)
    show ?thesis
      by (rule fresh [OF p na refl])
        (use resp tr transition_result [OF tr] in simp_all)
  qed
qed

lemma review_command_inv:
  assumes inv: "lifecycle_inv repo s"
    and cmd: "record_narrative_review sha repo pid n payload raw eid at s = Inr (resp, s')"
  shows "lifecycle_inv repo s'"
  using cmd
proof (cases rule: review_command_cases)
  case (replay p e)
  with inv show ?thesis by simp
next
  case (fresh p v narrative h e)
  have "legal_step (pr_current_state p) NARRATIVE_REVIEWED (pr_current_state p)"
    by (rule legal_step.annotation) simp
  with fresh(4) lifecycle_inv_id [OF inv fresh(1)] show ?thesis
    by (intro transition_keeps_inv [OF inv fresh(1) fresh(6)])
      (simp_all add: build_review_event_def Let_def)
qed

lemma report_command_cases:
  assumes cmd: "record_proposal_report_request parse repo pid rep actor n ie ir pk eid s = Inr (e, s')"
  obtains p at r where "rp_get_proposal repo s pid = Some p"
    and "e = build_report_requested_event eid p rep at actor n ie ir pk"
    and "rp_transition_proposal repo (apply_report_request_state p e) e None
      (Some (pr_current_state p)) (Some (pr_current_version_no p)) s = Inr (r, s')"
proof -
  obtain p where p: "rp_get_proposal repo s pid = Some p"
    using cmd by (auto simp: record_proposal_report_request_def split: option.splits)
  obtain at r where tr: "persist_proposal_transition repo (apply_report_request_state p e) e s =
      Inr (r, s')" and e: "e = build_report_requested_event eid p rep at actor n ie ir pk"
    using cmd p by (auto simp: record_proposal_report_request_def Let_def rbind_eq_Inr)
  have "rp_transition_proposal repo (apply_report_request_state p e) e None
      (Some (pr_current_state p)) (Some (pr_current_version_no p)) s = Inr (r, s')"
    using tr e by (simp add: persist_proposal_transition_def build_report_requested_event_def
        apply_report_request_state_def Let_def)
  then show thesis by (rule that [OF p e])
qed

lemma report_command_inv:
  assumes inv: "lifecycle_inv repo s"
    and cmd: "record_proposal_report_request parse repo pid rep actor n ie ir pk eid s = Inr (e, s')"
  shows "lifecycle_inv repo s'"
  using cmd
proof (cases rule: report_command_cases)
  case (1 p at r)
  have "legal_step (pr_current_state p) REPORT_REQUESTED (pr_current_state p)"
    by (rule legal_step.annotation) simp
  with 1(2) lifecycle_inv_id [OF inv 1(1)] show ?thesis
    by (intro transition_keeps_inv [OF inv 1(1) 1(3)])
      (simp_all add: build_report_requested_event_def apply_report_request_state_def Let_def)
qed

text \<open>
  A recorded review is the one the read model reports for that version, when the narrative
  identifier is a text; the lifecycle state is untouched.
\<close>

lemma review_is_latest:
  assumes inv: "lifecycle_inv repo s"
    and cmd: "record_narrative_review sha repo pid n payload raw eid at s = Inr (resp, s')"
    and new: "\<not> nr_replayed (nw_narrative_review resp)"
    and v: "rp_get_version repo s pid n = Some v" "pv_version_no v = n"
    and nar: "narrative_of v = Inr d" "obj_get d ''narrative_id'' = JStr nid"
  shows "latest_narrative_review_record (rp_list_events repo s' pid) v =
      Some (nw_narrative_review resp) \<and>
    nr_review_state (nw_narrative_review resp) = JStr (review_state (nq_action payload)) \<and>
    nr_client_ready_status (nw_narrative_review resp) = JStr (client_ready_status payload) \<and>
    map_option pr_current_state (rp_get_proposal repo s' pid) =
      map_option pr_current_state (rp_get_proposal repo s pid)"
  using cmd
proof (cases rule: review_command_cases)
  case (replay p e)
  then show ?thesis using new by (simp add: build_review_response_def review_record_from_event_def Let_def)
next
  case (fresh p v' narrative h e)
  have v': "v' = v" "narrative = d"
    using fresh(2,3) v nar review_request_hash_ok [OF fresh(3)] by auto
  have pid: "pr_proposal_id p = pid" by (rule lifecycle_inv_id [OF inv fresh(1)])
  note get = transition_get [OF fresh(6)] and evs = transition_events [OF fresh(6)]
  have reason: "obj_get (we_reason_json e) ''narrative_id'' = JStr nid"
    "obj_get (we_reason_json e) ''review_state'' = JStr (review_state (nq_action payload))"
    "obj_get (we_reason_json e) ''client_ready_status'' = JStr (client_ready_status payload)"
    using fresh(4) nar
    by (simp_all add: build_review_event_def Let_def v' with_idempotency_def split: option.splits)
  have e: "we_event_type e = NARRATIVE_REVIEWED" "we_related_version_no e = Some n"
    "we_proposal_id e = pid"
    using fresh(4) v pid by (simp_all add: build_review_event_def Let_def v')
  have "narrative_id_of v = Inr nid" using nar by (simp add: narrative_id_of_def Let_def)
  then show ?thesis
    using fresh(1,5) e reason v(2) pid
    by (simp add: latest_narrative_review_record_def evs get build_review_response_def
        review_record_from_event_def Let_def)
qed

end

text \<open>No review releases a narrative to the client.\<close>

lemma client_ready_never_released:
  "client_ready_status payload \<in> {''NOT_REQUESTED'', ''BLOCKED_REVIEW_REQUIRED'',
     ''BLOCKED_POLICY_OR_GUARDRAIL''} \<and>
   (client_ready_status payload = ''NOT_REQUESTED'') = (\<not> nq_client_ready_release_requested payload)"
  by (simp add: client_ready_status_def)

text \<open>A package exists exactly for an approved review of the narrative with that hash.\<close>

lemma report_package_iff:
  "(\<exists>pk. build_reviewed_narrative_report_package sha pid n ev = Inr pk) \<longleftrightarrow>
     (\<exists>narrative review.
        obj_get ev ''proposal_narrative'' = JObj narrative \<and>
        obj_get ev ''proposal_narrative_review'' = JObj review \<and>
        text_or_empty (obj_get review ''review_state'') = ''APPROVED_FOR_ADVISOR_USE'' \<and>
        text_or_empty (obj_get narrative ''narrative_id'') \<noteq> [] \<and>
        text_or_empty (obj_get review ''review_id'') \<noteq> [] \<and>
        text_or_empty (obj_get review ''source_narrative_hash'') =
          hash_canonical_payload sha (JObj narrative))"
  by (auto simp: build_reviewed_narrative_report_package_def rbind_eq_Inr required_mapping_def
      approved_review_state_def required_text_def validated_review_hash_def Let_def
      split: json.splits if_splits)

lemma report_sections_complete:
  assumes "sec \<in> set (narrative_sections_for_report value)"
  shows "\<exists>i t b. obj_get sec ''section_id'' = JStr i \<and> obj_get sec ''title'' = JStr t \<and>
    obj_get sec ''body'' = JStr b \<and> i \<noteq> [] \<and> t \<noteq> [] \<and> b \<noteq> [] \<and>
    obj_get sec ''text'' = JNull \<and> obj_get sec ''section_key'' = JNull"
proof -
  have pop: "obj_get (dict_pop k d) j = (if j = k then JNull else obj_get d j)" for k j d
    by (induction d) (auto simp: dict_pop_def)
  show ?thesis
    using assms
    by (auto simp: narrative_sections_for_report_def List.map_filter_def
        narrative_section_for_report_def Let_def pop split: if_splits)
qed

end
