(* ===== verification/Lifecycle_System.thy ===== *)
theory Lifecycle_System
  imports Lifecycle_Views Narrative_Review
begin

text \<open>
  The proposal workflow service as one system (src/core/proposals/service_command_operations.py,
  service_delivery_operations.py, service_narrative_operations.py): the commands that change the
  repository, as one step function over any repository that obeys the laws, and what holds of
  every run of it. A step either leaves proposals and logs as they are, creates one proposal, or
  appends one authorised event to one log (\<open>log_effect\<close>); from that follow that logs only grow,
  that a closed proposal stays closed, and that nothing is executed without a recorded consent.
\<close>

section \<open>Commands and steps\<close>

record service_env =
  se_sha :: "string \<Rightarrow> string"
  se_parse_iso :: "string \<Rightarrow> iso_result"
  se_engine :: advisory_engine
  se_resolver :: stateful_resolver
  se_settings :: version_settings
  se_require_expected_state :: bool

datatype lifecycle_command =
    CreateProposal create_request "string option" "string option" lifecycle_origin "string option"
      "json_dict option" "json_dict option" string timestamp fresh_ids
  | CreateVersion string version_request "string option" "json_dict option" "json_dict option"
      string timestamp fresh_ids
  | TransitionState string state_transition_request "string option" timestamp string
  | RecordApproval string approval_request "string option" timestamp string string
  | RequestHandoff string execution_handoff_request "string option" timestamp string string
  | RecordExecutionUpdate string execution_update_request timestamp string
  | ReviewNarrative string int narrative_review_request "string option" string timestamp
  | RequestReport string report_response string int bool bool "json_dict option" string

definition commit :: "'s \<Rightarrow> proposal_error + ('a \<times> 's) \<Rightarrow> 's \<times> proposal_error option" where
  "commit s r = (case r of Inl err \<Rightarrow> (s, Some err) | Inr (x, s') \<Rightarrow> (s', None))"

fun run_command ::
  "service_env \<Rightarrow> 's proposal_repository \<Rightarrow> 's \<Rightarrow> lifecycle_command \<Rightarrow>
   's \<times> proposal_error option" where
  "run_command env repo s (CreateProposal q key corr orig src lineage override today now ids) =
     commit s (create_proposal_command (se_sha env) (se_engine env) (se_resolver env) today
       (se_settings env) repo q key corr orig src lineage override now ids s)"
| "run_command env repo s (CreateVersion pid q corr lineage override today now ids) =
     (case create_proposal_version (se_sha env) (se_engine env) (se_resolver env) today
             (se_settings env) repo pid q corr lineage override now ids s of
        (s', Inl err) \<Rightarrow> (s', Some err)
      | (s', Inr _) \<Rightarrow> (s', None))"
| "run_command env repo s (TransitionState pid q key now eid) =
     commit s (transition_proposal_state (se_sha env) repo pid q key
       (se_require_expected_state env) now eid s)"
| "run_command env repo s (RecordApproval pid q key now aid eid) =
     commit s (record_proposal_approval (se_sha env) repo pid q key
       (se_require_expected_state env) now aid eid s)"
| "run_command env repo s (RequestHandoff pid q key now rid eid) =
     commit s (request_proposal_execution_handoff (se_sha env) repo pid q key
       (se_require_expected_state env) now rid eid s)"
| "run_command env repo s (RecordExecutionUpdate pid q now eid) =
     commit s (record_proposal_execution_update (se_sha env) (se_parse_iso env) repo pid q
       TERMINAL_STATES now eid s)"
| "run_command env repo s (ReviewNarrative pid n q key eid now) =
     commit s (record_narrative_review (se_sha env) repo pid n q key eid now s)"
| "run_command env repo s (RequestReport pid r actor n ie ir package eid) =
     commit s (record_proposal_report_request (se_parse_iso env) repo pid r actor n ie ir package
       eid s)"

text \<open>The environment promises that a new proposal gets an identifier no proposal has.\<close>

fun command_ok :: "'s proposal_repository \<Rightarrow> 's \<Rightarrow> lifecycle_command \<Rightarrow> bool" where
  "command_ok repo s (CreateProposal q key corr orig src lineage override today now ids) =
     (rp_get_proposal repo s (fi_proposal_id ids) = None)"
| "command_ok repo s _ = True"

section \<open>What one step does to the logs\<close>

text \<open>
  The steps as the service authorises them: an execution update needs a handoff in the log, an
  approval needs the edge of its type.
\<close>

inductive authorised_step ::
  "workflow_event_record list \<Rightarrow> workflow_state \<Rightarrow> workflow_event_type \<Rightarrow> workflow_state \<Rightarrow> bool"
  where
  edge: "lifecycle_edge s e t \<Longrightarrow> authorised_step log s e t"
| new_version: "s \<notin> set TERMINAL_STATES \<Longrightarrow> authorised_step log s NEW_VERSION_CREATED DRAFT"
| annotation: "e \<in> {NARRATIVE_REVIEWED, REPORT_REQUESTED} \<Longrightarrow> authorised_step log s e s"
| update: "s \<notin> set TERMINAL_STATES \<Longrightarrow> resolve_execution_update_event u = Inr (e, t) \<Longrightarrow>
    h \<in> set log \<Longrightarrow> we_event_type h = EXECUTION_REQUESTED \<Longrightarrow> authorised_step log s e t"

lemma authorised_legal: "authorised_step log s e t \<Longrightarrow> legal_step s e t"
  by (erule authorised_step.cases) (auto intro: legal_step.intros)

inductive log_effect :: "'s proposal_repository \<Rightarrow> 's \<Rightarrow> 's \<Rightarrow> bool" for repo s s' where
  none: "\<forall>k. rp_get_proposal repo s' k = rp_get_proposal repo s k \<Longrightarrow>
    \<forall>k. rp_list_events repo s' k = rp_list_events repo s k \<Longrightarrow> log_effect repo s s'"
| created: "rp_get_proposal repo s pid = None \<Longrightarrow> pr_proposal_id p = pid \<Longrightarrow>
    pr_current_state p = DRAFT \<Longrightarrow> we_from_state e = None \<Longrightarrow> we_event_type e = CREATED \<Longrightarrow>
    we_to_state e = DRAFT \<Longrightarrow> we_proposal_id e = pid \<Longrightarrow>
    \<forall>k. rp_get_proposal repo s' k = (if k = pid then Some p else rp_get_proposal repo s k) \<Longrightarrow>
    \<forall>k. rp_list_events repo s' k = rp_list_events repo s k @ (if k = pid then [e] else []) \<Longrightarrow>
    log_effect repo s s'"
| moved: "rp_get_proposal repo s pid = Some p \<Longrightarrow> pr_proposal_id p' = pid \<Longrightarrow>
    we_proposal_id e = pid \<Longrightarrow> we_from_state e = Some (pr_current_state p) \<Longrightarrow>
    we_to_state e = pr_current_state p' \<Longrightarrow>
    authorised_step (rp_list_events repo s pid) (pr_current_state p) (we_event_type e)
      (pr_current_state p') \<Longrightarrow>
    \<forall>k. rp_get_proposal repo s' k = (if k = pid then Some p' else rp_get_proposal repo s k) \<Longrightarrow>
    \<forall>k. rp_list_events repo s' k = rp_list_events repo s k @ (if k = pid then [e] else []) \<Longrightarrow>
    log_effect repo s s'"

lemma log_effect_refl: "log_effect repo s s"
  by (rule log_effect.none) simp_all

context version_repository
begin

lemma transition_moves:
  assumes inv: "lifecycle_inv repo s"
    and p: "rp_get_proposal repo s pid = Some p"
    and tr: "rp_transition_proposal repo p' e a (Some (pr_current_state p)) (Some n) s = Inr (r, s')"
    and p': "pr_proposal_id p' = pid" and e: "we_proposal_id e = pid"
    and from_st: "we_from_state e = Some (pr_current_state p)"
    and to_st: "we_to_state e = pr_current_state p'"
    and step: "authorised_step (rp_list_events repo s pid) (pr_current_state p) (we_event_type e)
      (pr_current_state p')"
  shows "log_effect repo s s'"
  by (rule log_effect.moved [OF p p' e from_st to_st step])
    (simp_all add: transition_get [OF tr] transition_events [OF tr] p' e)

lemma create_effect:
  assumes fresh: "rp_get_proposal repo s (fi_proposal_id ids) = None"
    and cmd: "create_proposal_command sha eng res today st repo q raw c orig src l ov now ids s =
      Inr (resp, s')"
  shows "log_effect repo s s'"
  using cmd
proof (cases rule: create_command_cases)
  case (replay k existing)
  then show ?thesis by (simp add: log_effect_refl)
next
  case (created k cs v)
  note fields = prepare_created_fields [OF created(3)]
  have new: "pr_proposal_id (cs_proposal cs) = fi_proposal_id ids"
    "pr_current_state (cs_proposal cs) = DRAFT"
    using fields(1) by (metis build_proposal_record_def proposal_record.simps(1,8))+
  show ?thesis
    by (rule log_effect.created [OF fresh new])
      (simp_all add: fields(2) build_proposal_created_event_def new
        create_get [OF created(4)] create_events [OF created(4)])
qed

lemma version_effect:
  assumes inv: "lifecycle_inv repo s"
    and cmd: "create_proposal_version sha eng res today st repo pid q c l ov now ids s = (s', out)"
  shows "log_effect repo s s'"
  using cmd
proof (cases rule: version_command_cases)
  case (unchanged err)
  then show ?thesis by (simp add: log_effect_refl)
next
  case (orphan p v err)
  then show ?thesis using create_version_frame by (intro log_effect.none) simp_all
next
  case (created p v s1 e p' r)
  note fields = prepare_version_fields [OF created(2)]
  have frame: "rp_get_proposal repo s1 = rp_get_proposal repo s"
    "rp_list_events repo s1 = rp_list_events repo s"
    using create_version_frame [OF created(3)] by simp_all
  have p1: "rp_get_proposal repo s1 pid = Some p" using created(1) frame by simp
  have inv1: "lifecycle_inv repo s1" by (rule create_version_log [OF inv created(3)])
  have step: "authorised_step (rp_list_events repo s1 pid) (pr_current_state p)
      NEW_VERSION_CREATED DRAFT"
    by (rule authorised_step.new_version [OF fields(3)])
  have e: "pr_proposal_id p' = pid" "we_proposal_id e = pid"
    "we_from_state e = Some (pr_current_state p)" "we_to_state e = DRAFT"
    "we_event_type e = NEW_VERSION_CREATED" "pr_current_state p' = DRAFT"
    using created(4,5) lifecycle_inv_id [OF inv created(1)]
    by (simp_all add: build_new_version_created_event_def apply_new_version_lifecycle_state_def)
  show ?thesis
    by (rule log_effect.moved [OF created(1) e(1,2,3)])
      (use step in \<open>simp_all add: e transition_get [OF created(6)] transition_events [OF created(6)]
        frame\<close>)
qed

lemma transition_effect:
  assumes inv: "lifecycle_inv repo s"
    and cmd: "transition_proposal_state sha repo pid payload raw req at eid s = Inr (resp, s')"
  shows "log_effect repo s s'"
  using cmd
proof (cases rule: transition_command_cases)
  case (replay ev)
  then show ?thesis by (simp add: log_effect_refl)
next
  case (fresh p t)
  then show ?thesis
    using lifecycle_inv_id [OF inv fresh(1)]
    by (intro transition_moves [OF inv fresh(1) fresh(5)])
      (simp_all add: apply_lifecycle_transition_state_def build_state_transition_event_def
        authorised_step.edge)
qed

lemma approval_effect:
  assumes inv: "lifecycle_inv repo s"
    and cmd: "record_proposal_approval sha repo pid payload raw req at aid eid s = Inr (resp, s')"
  shows "log_effect repo s s'"
  using cmd
proof (cases rule: approval_command_cases)
  case (replay ap ev)
  then show ?thesis by (simp add: log_effect_refl)
next
  case (fresh p ety t cs p')
  have "authorised_step (rp_list_events repo s pid) (pr_current_state p) ety t"
    by (rule authorised_step.edge [OF resolve_approval_edge [OF fresh(2)]])
  then show ?thesis
    using lifecycle_inv_id [OF inv fresh(1)] fresh(3)
    by (intro transition_moves [OF inv fresh(1) fresh(5)])
      (auto simp: build_approval_command_state_and_apply_transition_def Let_def
        build_approval_transition_event_def apply_lifecycle_transition_state_def)
qed

lemma handoff_effect:
  assumes inv: "lifecycle_inv repo s"
    and cmd: "request_proposal_execution_handoff sha repo pid payload raw req at rid eid s =
      Inr (resp, s')"
  shows "log_effect repo s s'"
  using cmd
proof (cases rule: handoff_command_cases)
  case (replay p ev)
  then show ?thesis by (simp add: log_effect_refl)
next
  case (fresh p request_id e)
  have "authorised_step (rp_list_events repo s pid) EXECUTION_READY EXECUTION_REQUESTED
      EXECUTION_READY"
    by (rule authorised_step.edge) (simp add: lifecycle_edge.simps)
  with fresh(2,3) lifecycle_inv_id [OF inv fresh(1)] show ?thesis
    by (intro transition_moves [OF inv fresh(1) fresh(6)])
      (simp_all add: apply_execution_handoff_state_def Let_def
        build_execution_handoff_requested_event_def)
qed

lemma update_effect:
  assumes inv: "lifecycle_inv repo s"
    and cmd: "record_proposal_execution_update sha parse repo pid payload TERMINAL_STATES now eid s =
      Inr (resp, s')"
  shows "log_effect repo s s'"
  using cmd
proof (cases rule: update_command_cases)
  case (replay p response)
  then show ?thesis by (simp add: log_effect_refl)
next
  case (fresh p h ety t at e)
  have "authorised_step (rp_list_events repo s pid) (pr_current_state p) ety t"
    using latest_requested_in [OF fresh(3)]
    by (auto intro: authorised_step.update [OF fresh(6) fresh(5)])
  with fresh(8) lifecycle_inv_id [OF inv fresh(2)] show ?thesis
    by (intro transition_moves [OF inv fresh(2) fresh(9)])
      (simp_all add: apply_execution_update_state_def Let_def build_execution_update_event_def)
qed

lemma review_effect:
  assumes inv: "lifecycle_inv repo s"
    and cmd: "record_narrative_review sha repo pid n payload raw eid at s = Inr (resp, s')"
  shows "log_effect repo s s'"
  using cmd
proof (cases rule: review_command_cases)
  case (replay p e)
  then show ?thesis by (simp add: log_effect_refl)
next
  case (fresh p v narrative h e)
  with lifecycle_inv_id [OF inv fresh(1)] show ?thesis
    by (intro transition_moves [OF inv fresh(1) fresh(6)])
      (simp_all add: build_review_event_def Let_def authorised_step.annotation)
qed

lemma report_effect:
  assumes inv: "lifecycle_inv repo s"
    and cmd: "record_proposal_report_request parse repo pid rep actor n ie ir pk eid s = Inr (e, s')"
  shows "log_effect repo s s'"
  using cmd
proof (cases rule: report_command_cases)
  case (1 p at r)
  with lifecycle_inv_id [OF inv 1(1)] show ?thesis
    by (intro transition_moves [OF inv 1(1) 1(3)])
      (simp_all add: build_report_requested_event_def apply_report_request_state_def Let_def
        authorised_step.annotation)
qed

lemma command_effect:
  assumes inv: "lifecycle_inv repo s" and ok: "command_ok repo s c"
  shows "log_effect repo s (fst (run_command env repo s c))"
  using ok
  by (cases c)
    (auto simp: commit_def log_effect_refl inv
      intro: create_effect version_effect [OF inv] transition_effect [OF inv]
        approval_effect [OF inv] handoff_effect [OF inv] update_effect [OF inv]
        review_effect [OF inv] report_effect [OF inv]
      split: sum.splits prod.splits)

section \<open>What every step keeps\<close>

lemma approval_version_kept:
  "snd (build_approval_command_state_and_apply_transition aid eid p q ety t at k h) =
     apply_lifecycle_transition_state p t
       (as_event (fst (build_approval_command_state_and_apply_transition aid eid p q ety t at k h)))"
  by (simp add: build_approval_command_state_and_apply_transition_def Let_def)

lemma command_versions:
  assumes logs: "lifecycle_inv repo s" and vers: "versions_inv repo s"
    and ok: "command_ok repo s c"
  shows "versions_inv repo (fst (run_command env repo s c))"
proof -
  note keep = transition_keeps_versions [OF vers]
  have id: "rp_get_proposal repo s pid = Some p \<Longrightarrow> pr_proposal_id p = pid" for pid p
    by (rule lifecycle_inv_id [OF logs])
  have tr: "versions_inv repo s'"
    if "transition_proposal_state sha repo pid q key req now eid s = Inr (x, s')"
    for sha pid q key req now eid x s'
    using that
  proof (cases rule: transition_command_cases)
    case (fresh p t)
    then show ?thesis
      by (intro keep [OF fresh(1) fresh(5)]) (simp_all add: id apply_lifecycle_transition_state_def)
  qed (simp add: vers)
  have ap: "versions_inv repo s'"
    if "record_proposal_approval sha repo pid q key req now aid eid s = Inr (x, s')"
    for sha pid q key req now aid eid x s'
    using that
  proof (cases rule: approval_command_cases)
    case (fresh p ety t cs p')
    then have "p' = apply_lifecycle_transition_state p t (as_event cs)"
      by (metis approval_version_kept fst_conv snd_conv)
    then show ?thesis
      by (intro keep [OF fresh(1) fresh(5)])
        (simp_all add: id [OF fresh(1)] apply_lifecycle_transition_state_def)
  qed (simp add: vers)
  have ho: "versions_inv repo s'"
    if "request_proposal_execution_handoff sha repo pid q key req now rid eid s = Inr (x, s')"
    for sha pid q key req now rid eid x s'
    using that
  proof (cases rule: handoff_command_cases)
    case (fresh p request_id e)
    then show ?thesis
      by (intro keep [OF fresh(1) fresh(6)]) (simp_all add: id apply_execution_handoff_state_def)
  qed (simp add: vers)
  have up: "versions_inv repo s'"
    if "record_proposal_execution_update sha parse repo pid q TERMINAL_STATES now eid s = Inr (x, s')"
    for sha parse pid q now eid x s'
    using that
  proof (cases rule: update_command_cases)
    case (fresh p h ety t at e)
    then show ?thesis
      by (intro keep [OF fresh(2) fresh(9)]) (simp_all add: id apply_execution_update_state_def)
  qed (simp add: vers)
  have rv: "versions_inv repo s'"
    if "record_narrative_review sha repo pid n q key eid now s = Inr (x, s')"
    for sha pid n q key eid now x s'
    using that
  proof (cases rule: review_command_cases)
    case (fresh p v narrative h e)
    then show ?thesis by (intro keep [OF fresh(1) fresh(6)]) (simp_all add: id)
  qed (simp add: vers)
  have rp: "versions_inv repo s'"
    if "record_proposal_report_request parse repo pid r actor n ie ir pk eid s = Inr (e, s')"
    for parse pid r actor n ie ir pk eid e s'
    using that
  proof (cases rule: report_command_cases)
    case (1 p at res)
    then show ?thesis
      by (intro keep [OF 1(1) 1(3)]) (simp_all add: id apply_report_request_state_def)
  qed
  show ?thesis
    using ok
    by (cases c)
      (auto simp: commit_def vers intro: tr ap ho up rv rp
        dest: create_command_inv [OF logs vers] version_command_inv [OF logs vers]
        split: sum.splits prod.splits)
qed

end

section \<open>Invariants of the logs\<close>

definition needs_consent :: "workflow_event_record \<Rightarrow> bool" where
  "needs_consent e =
     (we_to_state e \<in> {EXECUTION_READY, EXECUTED, EXPIRED} \<or> we_event_type e = EXECUTION_REQUESTED)"

definition consented :: "workflow_event_record list \<Rightarrow> bool" where
  "consented es = (list_ex needs_consent es \<longrightarrow>
     list_ex (\<lambda>c. we_event_type c = CLIENT_CONSENT_RECORDED) es)"

definition consent_inv :: "'s proposal_repository \<Rightarrow> 's \<Rightarrow> bool" where
  "consent_inv repo s \<longleftrightarrow> (\<forall>pid n. consented (take n (rp_list_events repo s pid)))"

lemma chain_reaches:
  "chain_from st es (Some t) \<Longrightarrow> st \<noteq> Some t \<Longrightarrow> \<exists>e \<in> set es. we_to_state e = t"
proof (induction es arbitrary: st)
  case Nil
  then show ?case by simp
next
  case (Cons e es)
  then show ?case by (cases "we_to_state e = t") auto
qed

lemma edge_needs_consent:
  "lifecycle_edge s e t \<Longrightarrow> t \<in> {EXECUTION_READY, EXECUTED, EXPIRED} \<or> e = EXECUTION_REQUESTED \<Longrightarrow>
     e = CLIENT_CONSENT_RECORDED \<or> s = EXECUTION_READY"
  by (erule lifecycle_edgeE) simp_all

lemma authorised_consent:
  assumes step: "authorised_step log s (we_event_type e) (we_to_state e)" and need: "needs_consent e"
  shows "we_event_type e = CLIENT_CONSENT_RECORDED \<or> s \<in> {EXECUTION_READY, EXECUTED, EXPIRED} \<or>
    (\<exists>h \<in> set log. needs_consent h)"
  using step
proof cases
  case edge
  then show ?thesis using edge_needs_consent need by (auto simp: needs_consent_def)
next
  case (update u h)
  then show ?thesis by (auto simp: needs_consent_def)
qed (use need in \<open>auto simp: needs_consent_def\<close>)

lemma effect_consent:
  assumes logs: "lifecycle_inv repo s" and inv: "consent_inv repo s"
    and eff: "log_effect repo s s'"
  shows "consent_inv repo s'"
  using eff
proof cases
  case none
  with inv show ?thesis by (simp add: consent_inv_def)
next
  case (created pid p e)
  have "rp_list_events repo s pid = []"
    using spec [OF iffD1 [OF lifecycle_inv_def logs], of pid] created(1) by (simp add: log_ok_def)
  moreover have "consented (take n [e])" for n
    using created by (cases n) (auto simp: consented_def needs_consent_def)
  ultimately show ?thesis
    using inv created(9) by (auto simp: consent_inv_def)
next
  case (moved pid p p' e)
  have olds: "consented (take n (rp_list_events repo s k))" for k n
    using inv by (simp add: consent_inv_def)
  have old: "consented (rp_list_events repo s k)" for k
    using olds [of "length (rp_list_events repo s k)" k] by simp
  have "consented (rp_list_events repo s pid @ [e])"
  proof (cases "needs_consent e \<and> we_event_type e \<noteq> CLIENT_CONSENT_RECORDED")
    case True
    have "\<exists>x \<in> set (rp_list_events repo s pid). we_to_state x = pr_current_state p"
      using lifecycle_invD [OF logs moved(1)] by (auto intro: chain_reaches)
    moreover have "pr_current_state p \<in> {EXECUTION_READY, EXECUTED, EXPIRED} \<or>
        (\<exists>h \<in> set (rp_list_events repo s pid). needs_consent h)"
      using authorised_consent [of "rp_list_events repo s pid" "pr_current_state p" e]
        moved(5,6) True by auto
    ultimately have "\<exists>h \<in> set (rp_list_events repo s pid). needs_consent h"
      by (auto simp: needs_consent_def)
    with old [of pid] show ?thesis by (auto simp: consented_def list_ex_iff)
  next
    case False
    with old [of pid] show ?thesis by (auto simp: consented_def list_ex_iff)
  qed
  then have "consented (take n (rp_list_events repo s pid @ [e]))" for n
    using olds [of n pid] by (cases "n \<le> length (rp_list_events repo s pid)") simp_all
  with olds moved(8) show ?thesis by (auto simp: consent_inv_def)
qed

text \<open>Logs only grow, proposals are never lost, and a closed proposal keeps its state.\<close>

definition logs_extend :: "'s proposal_repository \<Rightarrow> 's \<Rightarrow> 's \<Rightarrow> bool" where
  "logs_extend repo s s' \<longleftrightarrow>
     (\<forall>k. take (length (rp_list_events repo s k)) (rp_list_events repo s' k) =
            rp_list_events repo s k) \<and>
     (\<forall>k p. rp_get_proposal repo s k = Some p \<longrightarrow>
        (\<exists>p'. rp_get_proposal repo s' k = Some p' \<and>
           (pr_current_state p \<in> set TERMINAL_STATES \<longrightarrow>
              pr_current_state p' = pr_current_state p)))"

lemma logs_extend_refl: "logs_extend repo s s"
  by (simp add: logs_extend_def)

lemma logs_extend_trans:
  assumes "logs_extend repo s t" and "logs_extend repo t u"
  shows "logs_extend repo s u"
proof -
  have "take (length (rp_list_events repo s k)) (rp_list_events repo u k) = rp_list_events repo s k"
    for k
  proof -
    let ?n = "length (rp_list_events repo s k)" and ?m = "length (rp_list_events repo t k)"
    have st: "take ?n (rp_list_events repo t k) = rp_list_events repo s k"
      and tu: "take ?m (rp_list_events repo u k) = rp_list_events repo t k"
      using assms by (simp_all add: logs_extend_def)
    have "?n \<le> ?m" using arg_cong [OF st, of length] by simp
    then have "take ?n (rp_list_events repo u k) = take ?n (take ?m (rp_list_events repo u k))"
      by simp
    with st tu show ?thesis by simp
  qed
  moreover have "\<exists>p'. rp_get_proposal repo u k = Some p' \<and>
      (pr_current_state p \<in> set TERMINAL_STATES \<longrightarrow> pr_current_state p' = pr_current_state p)"
    if got: "rp_get_proposal repo s k = Some p" for k p
  proof -
    obtain q where q: "rp_get_proposal repo t k = Some q"
      "pr_current_state p \<in> set TERMINAL_STATES \<longrightarrow> pr_current_state q = pr_current_state p"
      using assms(1) got unfolding logs_extend_def by blast
    then obtain r where "rp_get_proposal repo u k = Some r"
      "pr_current_state q \<in> set TERMINAL_STATES \<longrightarrow> pr_current_state r = pr_current_state q"
      using assms(2) unfolding logs_extend_def by blast
    with q show ?thesis by auto
  qed
  ultimately show ?thesis by (simp add: logs_extend_def)
qed

lemma effect_extends:
  assumes "log_effect repo s s'"
  shows "logs_extend repo s s'"
  using assms
proof cases
  case none
  then show ?thesis by (simp add: logs_extend_def)
next
  case (created pid p e)
  then show ?thesis by (auto simp: logs_extend_def)
next
  case (moved pid p p' e)
  have "pr_current_state p' = pr_current_state p" if "pr_current_state p \<in> set TERMINAL_STATES"
    using legal_step_terminal [OF authorised_legal [OF moved(6)] that] .
  with moved(1,7,8) show ?thesis by (auto simp: logs_extend_def)
qed

section \<open>Runs\<close>

definition system_inv :: "'s proposal_repository \<Rightarrow> 's \<Rightarrow> bool" where
  "system_inv repo s \<longleftrightarrow> lifecycle_inv repo s \<and> versions_inv repo s \<and> consent_inv repo s"

lemma effect_lifecycle_inv:
  assumes inv: "lifecycle_inv repo s" and eff: "log_effect repo s s'"
  shows "lifecycle_inv repo s'"
  unfolding lifecycle_inv_def
proof
  fix k
  note old = spec [OF iffD1 [OF lifecycle_inv_def inv], of k]
  show "log_ok repo s' k"
    using eff
  proof cases
    case none
    with old show ?thesis by (simp add: log_ok_def split: option.splits)
  next
    case (created pid p e)
    then show ?thesis
      using old by (cases "k = pid") (simp_all add: log_ok_def legal_event_def [of e]
          split: option.splits)
  next
    case (moved pid p p' e)
    show ?thesis
    proof (cases "k = pid")
      case True
      then show ?thesis
        using lifecycle_invD [OF inv moved(1)] moved authorised_legal [OF moved(6)]
        by (simp add: log_ok_def legal_event_def)
    next
      case False
      with old moved show ?thesis by (simp add: log_ok_def split: option.splits)
    qed
  qed
qed

context version_repository
begin

lemma system_step:
  assumes "system_inv repo s" and "command_ok repo s c"
  shows "system_inv repo (fst (run_command env repo s c))"
  using assms command_effect [of s c env] command_versions [of s c env]
    effect_lifecycle_inv effect_consent
  unfolding system_inv_def by metis

lemma system_later:
  assumes "system_inv repo s" and "command_ok repo s c"
  shows "logs_extend repo s (fst (run_command env repo s c))"
  using assms command_effect [of s c env] effect_extends unfolding system_inv_def by metis

end

interpretation lifecycle: guarded_steps
  "run_command env in_memory_repository" "command_ok in_memory_repository"
  "system_inv in_memory_repository" "logs_extend in_memory_repository"
  by unfold_locales
    (auto intro: memv.system_step memv.system_later logs_extend_refl logs_extend_trans)

lemma system_inv_empty: "system_inv in_memory_repository empty_store"
  by (simp add: system_inv_def lifecycle_inv_def log_ok_def versions_inv_def consent_inv_def
      consented_def empty_store_def mem_get_proposal_def mem_list_events_def mem_get_version_def
      dict_list_def)

text \<open>The states the service reaches from an empty store.\<close>

definition reachable :: "service_env \<Rightarrow> proposal_store \<Rightarrow> bool" where
  "reachable env s \<longleftrightarrow> (\<exists>cs. run_ok (command_ok in_memory_repository)
     (run_command env in_memory_repository) empty_store cs \<and>
     s = run_steps (run_command env in_memory_repository) empty_store cs)"

lemma reachable_system_inv: "reachable env s \<Longrightarrow> system_inv in_memory_repository s"
  by (auto simp: reachable_def intro: lifecycle.run_inv system_inv_empty)

lemma reachable_run:
  "reachable env s \<Longrightarrow>
   run_ok (command_ok in_memory_repository) (run_command env in_memory_repository) s cs \<Longrightarrow>
     reachable env (run_steps (run_command env in_memory_repository) s cs)"
  unfolding reachable_def by (metis run_ok_append run_steps_append)

lemma reachable_chain:
  assumes "reachable env s" and "mem_get_proposal s pid = Some p"
  shows "chain_from None (mem_list_events s pid) (Some (pr_current_state p)) \<and>
    (\<forall>e \<in> set (mem_list_events s pid). legal_event e \<and> we_proposal_id e = pid)"
  using lifecycle_invD [of in_memory_repository s pid p] reachable_system_inv [OF assms(1)] assms(2)
  by (simp add: system_inv_def)

lemma chain_from_unique: "chain_from st es a \<Longrightarrow> chain_from st es b \<Longrightarrow> a = b"
  by (induction es arbitrary: st) auto

lemma chain_terminal_annotations:
  "chain_from (Some s) es final \<Longrightarrow> \<forall>e \<in> set es. legal_event e \<Longrightarrow> s \<in> set TERMINAL_STATES \<Longrightarrow>
     \<forall>e \<in> set es. we_event_type e \<in> {NARRATIVE_REVIEWED, REPORT_REQUESTED}"
proof (induction es)
  case Nil
  then show ?case by simp
next
  case (Cons e es)
  then have step: "legal_step s (we_event_type e) (we_to_state e)"
    by (auto dest: legal_event_someD)
  with Cons show ?case
    using legal_step_terminal [OF step] legal_step_terminal_event [OF step] by simp
qed

text \<open>A run extends each log; what it adds is a chain of its own.\<close>

lemma run_extends_log:
  assumes reach: "reachable env s"
    and run: "run_ok (command_ok in_memory_repository) (run_command env in_memory_repository) s cs"
    and p: "mem_get_proposal s pid = Some p"
  defines "t \<equiv> run_steps (run_command env in_memory_repository) s cs"
  obtains es p' where "mem_list_events t pid = mem_list_events s pid @ es"
    and "mem_get_proposal t pid = Some p'"
    and "chain_from (Some (pr_current_state p)) es (Some (pr_current_state p'))"
    and "\<forall>e \<in> set es. legal_event e"
    and "pr_current_state p \<in> set TERMINAL_STATES \<Longrightarrow> pr_current_state p' = pr_current_state p"
proof -
  have later: "logs_extend in_memory_repository s t"
    unfolding t_def by (rule lifecycle.run_later [OF reachable_system_inv [OF reach] run])
  have "\<exists>p'. mem_get_proposal t pid = Some p' \<and>
      (pr_current_state p \<in> set TERMINAL_STATES \<longrightarrow> pr_current_state p' = pr_current_state p)"
    using later p by (simp add: logs_extend_def)
  then obtain p' where p': "mem_get_proposal t pid = Some p'"
    and closed: "pr_current_state p \<in> set TERMINAL_STATES \<longrightarrow> pr_current_state p' = pr_current_state p"
    by blast
  let ?es = "drop (length (mem_list_events s pid)) (mem_list_events t pid)"
  have "take (length (mem_list_events s pid)) (mem_list_events t pid) = mem_list_events s pid"
    using later by (simp add: logs_extend_def)
  then have log: "mem_list_events t pid = mem_list_events s pid @ ?es"
    by (metis append_take_drop_id)
  have new: "reachable env t" unfolding t_def by (rule reachable_run [OF reach run])
  have "chain_from None (mem_list_events s pid @ ?es) (Some (pr_current_state p'))"
    using reachable_chain [OF new p'] log by simp
  then have "chain_from (Some (pr_current_state p)) ?es (Some (pr_current_state p'))"
    using reachable_chain [OF reach p] chain_from_unique by (metis chain_from_append)
  moreover have "\<forall>e \<in> set ?es. legal_event e"
    using reachable_chain [OF new p'] by (auto dest: in_set_dropD)
  ultimately show thesis using that [OF log p'] closed by blast
qed

end
