(* ===== verification/Example_Run.thy ===== *)
theory Example_Run
  imports Lifecycle_System
begin

text \<open>
  One proposal taken through its life on the in-memory repository: created, submitted to risk,
  approved, consented to, handed off, given a new version, and updated by the execution provider.
  The states are computed from the service's commands; they are the concrete inputs of the
  witnesses, and the last step is the run in which an execution update for an old handoff closes
  a proposal whose new version was never reviewed.
\<close>

section \<open>The environment\<close>

text \<open>The hash is a constant: nothing in the run depends on its values.\<close>

definition demo_engine :: advisory_engine where
  "demo_engine =
     \<lparr>en_evaluate = \<lambda>_ _ _ _ _ _ _. Inr \<lparr>rs_status = READY, rs_json = [], rs_gate_decision = None\<rparr>,
      en_artifact = \<lambda>_ _ _. [(''proposal_narrative'', JObj [(''narrative_id'', JStr ''n1'')])],
      en_artifact_evidence = \<lambda>_ _ _. [], en_artifact_hash = \<lambda>_. ''a'',
      en_risk_lens = \<lambda>_. JNull, en_memo_source_readiness = \<lambda>_. JNull,
      en_policy_source_readiness = \<lambda>_. JNull\<rparr>"

definition demo_settings :: version_settings where
  "demo_settings = \<lparr>vs_store_evidence_bundle = False, vs_require_simulation_flag = True,
     vs_allow_portfolio_id_change = False\<rparr>"

definition demo_sha :: "string \<Rightarrow> string" where
  "demo_sha text = ''h''"

definition demo_parse :: "string \<Rightarrow> iso_result" where
  "demo_parse text = (if text = [] then IsoInvalid else IsoAware 900)"

definition demo_env :: service_env where
  "demo_env = \<lparr>se_sha = demo_sha, se_parse_iso = demo_parse, se_engine = demo_engine,
     se_resolver = None, se_settings = demo_settings, se_require_expected_state = True\<rparr>"

definition demo_simulate :: simulate_request where
  "demo_simulate =
     \<lparr>sr_portfolio_snapshot = [(''portfolio_id'', JStr ''PF'')], sr_market_data_snapshot = [],
      sr_shelf_entries = [], sr_options = [(''enable_proposal_simulation'', JBool True)],
      sr_proposed_cash_flows = [], sr_proposed_trades = [], sr_reference_model = None,
      sr_alternatives_request = None, sr_narrative_request = None\<rparr>"

definition demo_create :: create_request where
  "demo_create = \<lparr>cq_created_by = ''adv'', cq_input_mode = None,
     cq_simulate_request = Some demo_simulate, cq_stateless_input = None,
     cq_stateful_input = None, cq_metadata = empty_metadata\<rparr>"

definition demo_version :: version_request where
  "demo_version = \<lparr>vq_created_by = ''adv'', vq_expected_current_version_no = Some 1,
     vq_input_mode = None, vq_simulate_request = Some demo_simulate, vq_stateless_input = None,
     vq_stateful_input = None\<rparr>"

definition demo_ids :: "string \<Rightarrow> fresh_ids" where
  "demo_ids e = \<lparr>fi_proposal_id = ''P'', fi_version_id = ''V'', fi_event_id = e,
     fi_correlation_hex = ''c''\<rparr>"

lemma demo_hash [simp]: "hash_canonical_payload demo_sha x = ''sha256:h''"
  by (simp add: hash_canonical_payload_def demo_sha_def)

lemma demo_keys [simp]:
  "normalize_optional_idempotency_key (Some ''k0'') = Some ''k0''"
  "normalize_optional_idempotency_key (Some ''k1'') = Some ''k1''"
  "normalize_optional_idempotency_key None = None"
  by code_simp+

lemma demo_env_simps [simp]:
  "se_sha demo_env = demo_sha" "se_parse_iso demo_env = demo_parse"
  "se_engine demo_env = demo_engine" "se_resolver demo_env = None"
  "se_settings demo_env = demo_settings" "se_require_expected_state demo_env = True"
  by (simp_all add: demo_env_def)

section \<open>The commands\<close>

definition cmd_create :: lifecycle_command where
  "cmd_create = CreateProposal demo_create (Some ''k0'') None DIRECT_CREATE None None None
     ''2026-01-01'' 100 (demo_ids ''E0'')"

definition submit_request :: state_transition_request where
  "submit_request = \<lparr>tq_event_type = SUBMITTED_FOR_RISK_REVIEW, tq_actor_id = ''adv'',
     tq_related_version_no = Some 1, tq_reason = [], tq_expected_state = Some DRAFT\<rparr>"

definition cmd_submit :: lifecycle_command where
  "cmd_submit = TransitionState ''P'' submit_request (Some ''k1'') 200 ''E1''"

definition demo_approval :: "approval_type \<Rightarrow> workflow_state \<Rightarrow> approval_request" where
  "demo_approval t st = \<lparr>aq_approval_type = t, aq_approved = True, aq_actor_id = ''risk'',
     aq_related_version_no = Some 1, aq_details = [], aq_expected_state = Some st\<rparr>"

definition cmd_risk :: lifecycle_command where
  "cmd_risk = RecordApproval ''P'' (demo_approval RISK RISK_REVIEW) None 300 ''A2'' ''E2''"

definition cmd_consent :: lifecycle_command where
  "cmd_consent = RecordApproval ''P'' (demo_approval CLIENT_CONSENT AWAITING_CLIENT_CONSENT) None
     400 ''A3'' ''E3''"

definition demo_handoff :: execution_handoff_request where
  "demo_handoff = \<lparr>hq_actor_id = ''adv'', hq_execution_provider = ''oms'',
     hq_related_version_no = Some 1, hq_expected_state = Some EXECUTION_READY,
     hq_correlation_id = None, hq_external_request_id = None, hq_notes = []\<rparr>"

definition cmd_handoff :: lifecycle_command where
  "cmd_handoff = RequestHandoff ''P'' demo_handoff None 500 ''X4'' ''E4''"

definition cmd_version :: lifecycle_command where
  "cmd_version = CreateVersion ''P'' demo_version None None None ''2026-01-02'' 600
     (demo_ids ''E5'')"

definition demo_update :: execution_update_request where
  "demo_update = \<lparr>uq_update_id = ''u1'', uq_actor_id = ''oms'', uq_execution_request_id = ''X4'',
     uq_execution_provider = ''oms'', uq_update_status = EXECUTED_us,
     uq_related_version_no = Some 1, uq_external_execution_id = None, uq_occurred_at = None,
     uq_details = []\<rparr>"

definition cmd_update :: lifecycle_command where
  "cmd_update = RecordExecutionUpdate ''P'' demo_update 700 ''E6''"

definition demo_review :: narrative_review_request where
  "demo_review = \<lparr>nq_action = APPROVE, nq_reviewed_by = ''rev'', nq_reason = ''ok'',
     nq_client_ready_release_requested = True, nq_replacement_narrative_id = None\<rparr>"

section \<open>The states\<close>

definition demo_proposal :: "workflow_state \<Rightarrow> timestamp \<Rightarrow> int \<Rightarrow> proposal_record" where
  "demo_proposal st t n =
     \<lparr>pr_proposal_id = ''P'', pr_portfolio_id = ''PF'', pr_mandate_id = None,
      pr_jurisdiction = None, pr_created_by = ''adv'', pr_created_at = 100, pr_last_event_at = t,
      pr_current_state = st, pr_current_version_no = n, pr_title = None,
      pr_advisor_notes = None, pr_lifecycle_origin = DIRECT_CREATE,
      pr_source_workspace_id = None\<rparr>"

definition demo_stored_version :: "int \<Rightarrow> timestamp \<Rightarrow> proposal_version_record" where
  "demo_stored_version n t =
     \<lparr>pv_proposal_version_id = ''V'', pv_proposal_id = ''P'', pv_version_no = n,
      pv_created_at = t, pv_request_hash = ''sha256:h'', pv_artifact_hash = ''a'',
      pv_simulation_hash = ''sha256:h'', pv_status_at_creation = READY,
      pv_proposal_result_json = [],
      pv_artifact_json = [(''proposal_narrative'', JObj [(''narrative_id'', JStr ''n1'')])],
      pv_evidence_bundle_json = [], pv_gate_decision_json = None\<rparr>"

definition demo_store ::
  "proposal_record \<Rightarrow> (int \<times> timestamp) list \<Rightarrow> workflow_event_record list \<Rightarrow>
   approval_record list \<Rightarrow> proposal_store" where
  "demo_store p vs es aps = empty_store
     \<lparr>ps_proposals := [(''P'', p)],
      ps_versions := map (\<lambda>(n, t). ((''P'', n), demo_stored_version n t)) vs,
      ps_events := [(''P'', es)],
      ps_approvals := (if aps = [] then [] else [(''P'', aps)]),
      ps_idempotency := [(''k0'', build_proposal_idempotency_record ''k0'' ''sha256:h'' ''P'' 1 100)]\<rparr>"

definition ev0 :: workflow_event_record where
  "ev0 = build_proposal_created_event ''E0'' ''P'' ''adv'' 100 1 None"

definition ev1 :: workflow_event_record where
  "ev1 = build_state_transition_event ''E1'' (demo_proposal DRAFT 100 1) submit_request RISK_REVIEW
     200 (Some ''k1'') ''sha256:h''"

definition ap2 :: approval_record where
  "ap2 = build_approval_record ''A2'' ''P'' (demo_approval RISK RISK_REVIEW) 300 None ''sha256:h''"

definition ev2 :: workflow_event_record where
  "ev2 = build_approval_transition_event ''E2'' (demo_proposal RISK_REVIEW 200 1)
     (demo_approval RISK RISK_REVIEW) RISK_APPROVED AWAITING_CLIENT_CONSENT 300 None ''sha256:h''"

definition ap3 :: approval_record where
  "ap3 = build_approval_record ''A3'' ''P''
     (demo_approval CLIENT_CONSENT AWAITING_CLIENT_CONSENT) 400 None ''sha256:h''"

definition ev3 :: workflow_event_record where
  "ev3 = build_approval_transition_event ''E3'' (demo_proposal AWAITING_CLIENT_CONSENT 300 1)
     (demo_approval CLIENT_CONSENT AWAITING_CLIENT_CONSENT) CLIENT_CONSENT_RECORDED EXECUTION_READY
     400 None ''sha256:h''"

definition ev4 :: workflow_event_record where
  "ev4 = build_execution_handoff_requested_event ''E4'' (demo_proposal EXECUTION_READY 400 1)
     demo_handoff 500 ''X4'' None ''sha256:h''"

definition ev5 :: workflow_event_record where
  "ev5 = build_new_version_created_event ''E5'' (demo_proposal EXECUTION_READY 500 1) ''adv'' 600 2
     None"

definition ev6 :: workflow_event_record where
  "ev6 = build_execution_update_event ''E6'' ''P'' DRAFT demo_update EXECUTED_ev EXECUTED 700
     ''sha256:h'' (Some 1)"

definition store0 :: proposal_store where
  "store0 = demo_store (demo_proposal DRAFT 100 1) [(1, 100)] [ev0] []"

definition store1 :: proposal_store where
  "store1 = demo_store (demo_proposal RISK_REVIEW 200 1) [(1, 100)] [ev0, ev1] []"

definition store2 :: proposal_store where
  "store2 = demo_store (demo_proposal AWAITING_CLIENT_CONSENT 300 1) [(1, 100)] [ev0, ev1, ev2]
     [ap2]"

definition store3 :: proposal_store where
  "store3 = demo_store (demo_proposal EXECUTION_READY 400 1) [(1, 100)] [ev0, ev1, ev2, ev3]
     [ap2, ap3]"

definition store4 :: proposal_store where
  "store4 = demo_store (demo_proposal EXECUTION_READY 500 1) [(1, 100)] [ev0, ev1, ev2, ev3, ev4]
     [ap2, ap3]"

definition store5 :: proposal_store where
  "store5 = demo_store (demo_proposal DRAFT 600 2) [(1, 100), (2, 600)]
     [ev0, ev1, ev2, ev3, ev4, ev5] [ap2, ap3]"

definition store6 :: proposal_store where
  "store6 = demo_store (demo_proposal EXECUTED 700 2) [(1, 100), (2, 600)]
     [ev0, ev1, ev2, ev3, ev4, ev5, ev6] [ap2, ap3]"

lemmas event_builders = build_proposal_created_event_def build_state_transition_event_def
  build_approval_transition_event_def build_execution_handoff_requested_event_def
  build_new_version_created_event_def build_execution_update_event_def

lemmas demo_events = ev0_def ev1_def ev2_def ev3_def ev4_def ev5_def ev6_def

lemma demo_store_get [simp]:
  "mem_get_proposal (demo_store p vs es aps) k = (if k = ''P'' then Some p else None)"
  "mem_list_events (demo_store p vs es aps) k = (if k = ''P'' then es else [])"
  "mem_list_approvals (demo_store p vs es aps) k = (if k = ''P'' then aps else [])"
  "mem_get_version (demo_store p vs es aps) k n =
     (if k = ''P'' then map_option (demo_stored_version n) (map_of vs n) else None)"
  "mem_get_idempotency (demo_store p vs es aps) j =
     (if j = ''k0'' then Some (build_proposal_idempotency_record ''k0'' ''sha256:h'' ''P'' 1 100)
      else None)"
proof -
  have "dict_get (map (\<lambda>(n, t). ((''P'', n), demo_stored_version n t)) vs) (k, n) =
      (if k = ''P'' then map_option (demo_stored_version n) (map_of vs n) else None)"
    by (induction vs) auto
  then show "mem_get_version (demo_store p vs es aps) k n =
     (if k = ''P'' then map_option (demo_stored_version n) (map_of vs n) else None)"
    by (simp add: mem_get_version_def demo_store_def)
qed (simp_all add: demo_store_def mem_get_proposal_def mem_list_events_def mem_list_approvals_def
    mem_get_idempotency_def dict_list_def)

lemma demo_store_transition:
  assumes "pr_proposal_id p' = ''P''" and "we_proposal_id e = ''P''"
    and "case a of None \<Rightarrow> True | Some x \<Rightarrow> ap_proposal_id x = ''P''"
  shows "mem_transition_proposal p' e a (Some (pr_current_state p)) (Some (pr_current_version_no p))
      (demo_store p vs es aps) =
    Inr (\<lparr>tr_proposal = p', tr_event = e, tr_approval = a\<rparr>,
         demo_store p' vs (es @ [e]) (aps @ (case a of None \<Rightarrow> [] | Some x \<Rightarrow> [x])))"
  using assms
  by (auto simp: mem_transition_proposal_def demo_store_def Let_def dict_push_def dict_list_def
      dict_set_def split: option.splits)

section \<open>The steps\<close>

lemma step_create: "run_command demo_env in_memory_repository empty_store cmd_create = (store0, None)"
proof -
  have "resolve_create_request None ''2026-01-01'' demo_create =
      Inr (direct_proposal_context ''2026-01-01'' demo_simulate empty_metadata True)"
    by (simp add: resolve_create_request_def demo_create_def require_legacy_simulate_request_def)
  moreover have "mem_get_idempotency empty_store ''k0'' = None"
    by (simp add: mem_get_idempotency_def empty_store_def)
  ultimately show ?thesis
    by (simp add: cmd_create_def commit_def create_proposal_command_def Let_def
        require_proposal_idempotency_key_def normalize_required_idempotency_key_def
        rmap_error_def validate_proposal_lifecycle_origin_def validate_lifecycle_origin_def
        build_create_command_idempotency_hash_def prepare_created_proposal_def
        build_create_request_hash_def validate_proposal_simulation_flag_def
        validate_proposal_simulation_enabled_def direct_proposal_context_def demo_simulate_def
        run_advisory_proposal_simulation_def demo_engine_def persist_created_proposal_def
        build_proposal_create_command_state_def build_proposal_record_def demo_ids_def
        mem_create_proposal_with_version_event_idempotency_def store0_def demo_store_def
        demo_proposal_def demo_stored_version_def ev0_def empty_store_def empty_metadata_def
        build_proposal_version_record_def demo_settings_def dict_push_def dict_list_def
        dict_set_def build_proposal_version_materialization_def build_proposal_created_event_def
        build_proposal_idempotency_record_def demo_create_def)
qed

lemma demo_replays_none:
  "load_replayed_event in_memory_repository s k None h = Inr None"
  "load_replayed_approval in_memory_repository s k None h = Inr None"
  by (simp_all add: load_replayed_event_def find_replayed_event_def load_replayed_approval_def
      find_replayed_approval_def rmap_error_def)

lemma demo_proposal_simps [simp]:
  "pr_proposal_id (demo_proposal st t n) = ''P''"
  "pr_current_state (demo_proposal st t n) = st"
  "pr_current_version_no (demo_proposal st t n) = n"
  "pr_portfolio_id (demo_proposal st t n) = ''PF''"
  "(demo_proposal st t n)\<lparr>pr_last_event_at := u\<rparr> = demo_proposal st u n"
  "(demo_proposal st t n)\<lparr>pr_current_state := st', pr_last_event_at := u\<rparr> = demo_proposal st' u n"
  "(demo_proposal st t n)\<lparr>pr_current_version_no := m, pr_current_state := st',
     pr_last_event_at := u\<rparr> = demo_proposal st' u m"
  by (simp_all add: demo_proposal_def)

lemma demo_transition:
  assumes "pr_proposal_id p' = ''P''" and "we_proposal_id e = ''P''"
    and "case a of None \<Rightarrow> True | Some x \<Rightarrow> ap_proposal_id x = ''P''"
  shows "mem_transition_proposal p' e a (Some st) (Some n)
      (demo_store (demo_proposal st t n) vs es aps) =
    Inr (\<lparr>tr_proposal = p', tr_event = e, tr_approval = a\<rparr>,
         demo_store p' vs (es @ [e]) (aps @ (case a of None \<Rightarrow> [] | Some x \<Rightarrow> [x])))"
  using demo_store_transition [OF assms, of "demo_proposal st t n"] by simp

lemma step_submit: "run_command demo_env in_memory_repository store0 cmd_submit = (store1, None)"
proof -
  have "load_replayed_event in_memory_repository store0 ''P'' (Some ''k1'') h = Inr None" for h
    by (simp add: load_replayed_event_def find_replayed_event_def store0_def rmap_error_def
        find_replayed_record_def metadata_matches_replay_def ev0_def
        build_proposal_created_event_def correlation_reason_def)
  then show ?thesis
    by (simp add: cmd_submit_def commit_def transition_proposal_state_def store0_def store1_def
        Let_def build_state_transition_request_hash_def validate_proposal_expected_state_def
        validate_expected_state_def submit_request_def rmap_error_def
        resolve_proposal_transition_state_def resolve_transition_state_def rule_tables
        build_state_transition_event_and_apply_state_def persist_proposal_transition_def
        apply_lifecycle_transition_state_def build_state_transition_event_def
        demo_transition ev1_def)
qed

lemmas approval_step = commit_def record_proposal_approval_def Let_def
  build_approval_request_hash_def validate_proposal_expected_state_def
  validate_expected_state_def demo_approval_def rmap_error_def demo_replays_none
  resolve_proposal_approval_transition_def resolve_approval_transition_def rule_tables
  build_approval_command_state_and_apply_transition_def persist_proposal_approval_transition_def
  apply_lifecycle_transition_state_def build_approval_transition_event_def
  build_approval_record_def demo_transition

lemma step_risk: "run_command demo_env in_memory_repository store1 cmd_risk = (store2, None)"
  by (simp add: cmd_risk_def store1_def store2_def approval_step ev2_def ap2_def)

lemma step_consent: "run_command demo_env in_memory_repository store2 cmd_consent = (store3, None)"
  by (simp add: cmd_consent_def store2_def store3_def approval_step ev3_def ap3_def)

lemma step_handoff: "run_command demo_env in_memory_repository store3 cmd_handoff = (store4, None)"
  by (simp add: cmd_handoff_def store3_def store4_def commit_def Let_def
      request_proposal_execution_handoff_def demo_replays_none
      build_execution_handoff_request_hash_def validate_proposal_expected_state_def
      validate_expected_state_def demo_handoff_def rmap_error_def
      validate_execution_handoff_ready_def build_execution_handoff_event_and_apply_state_def
      persist_proposal_transition_def build_execution_handoff_requested_event_def
      apply_execution_handoff_state_def demo_transition ev4_def)

lemma demo_create_version:
  "mem_create_version (demo_stored_version 2 600) (demo_store p [(1, 100)] es aps) =
     demo_store p [(1, 100), (2, 600)] es aps"
  by (simp add: mem_create_version_def demo_store_def demo_stored_version_def dict_set_def)

lemma demo_prepare_version:
  "prepare_proposal_version demo_sha demo_engine None ''2026-01-02'' demo_settings
     (demo_proposal EXECUTION_READY 500 1) demo_version None None None 600 (demo_ids ''E5'') =
   Inr (demo_stored_version 2 600)"
  by (simp add: prepare_proposal_version_def validate_create_version_state_def demo_version_def
      rule_tables rmap_error_def resolve_version_request_def require_legacy_simulate_request_def
      direct_proposal_context_def validate_proposal_simulation_flag_def Let_def demo_settings_def
      validate_proposal_simulation_enabled_def demo_simulate_def build_version_request_hash_def
      validate_create_version_portfolio_context_def run_advisory_proposal_simulation_def
      demo_engine_def build_proposal_version_record_def demo_stored_version_def demo_ids_def
      build_proposal_version_materialization_def)

lemma demo_version_simps [simp]:
  "fi_event_id (demo_ids e) = e" "vq_created_by demo_version = ''adv''"
  "pv_version_no (demo_stored_version n t) = n"
  by (simp_all add: demo_ids_def demo_version_def demo_stored_version_def)

lemma step_version: "run_command demo_env in_memory_repository store4 cmd_version = (store5, None)"
  by (simp add: cmd_version_def store4_def store5_def create_proposal_version_def Let_def
      demo_prepare_version build_new_version_created_event_and_apply_state_def
      persist_created_proposal_version_def demo_create_version
      build_new_version_created_event_def apply_new_version_lifecycle_state_def demo_transition
      ev5_def)

text \<open>What the provider's update finds in the store: the handoff of the old version.\<close>

lemma demo_update_facts:
  "latest_execution_requested_event [ev0, ev1, ev2, ev3, ev4, ev5] = Some ev4"
  "find_replayed_execution_update_event [ev0, ev1, ev2, ev3, ev4, ev5] demo_update h = Inr None"
  "validate_execution_update_handoff_identity ev4 demo_update = Inr ()"
  "we_occurred_at ev4 = 500" "we_related_version_no ev4 = Some 1"
proof -
  show "latest_execution_requested_event [ev0, ev1, ev2, ev3, ev4, ev5] = Some ev4"
    by (simp add: latest_execution_requested_event_def demo_events event_builders Let_def)
  show "find_replayed_execution_update_event [ev0, ev1, ev2, ev3, ev4, ev5] demo_update h = Inr None"
    by (simp add: find_replayed_execution_update_event_def find_replayed_event_def
        find_replayed_record_def metadata_matches_replay_def demo_events event_builders
        build_execution_update_idempotency_key_def correlation_reason_def demo_update_def
        with_idempotency_def submit_request_def demo_approval_def drop_nulls_def Let_def
        demo_handoff_def)
  show "validate_execution_update_handoff_identity ev4 demo_update = Inr ()"
    by (simp add: validate_execution_update_handoff_identity_def ev4_def demo_update_def Let_def
        build_execution_handoff_requested_event_def demo_handoff_def drop_nulls_def)
  show "we_occurred_at ev4 = 500" "we_related_version_no ev4 = Some 1"
    by (simp_all add: ev4_def build_execution_handoff_requested_event_def Let_def demo_handoff_def
        int_or_def)
qed

lemma step_update: "run_command demo_env in_memory_repository store5 cmd_update = (store6, None)"
  using demo_update_facts
  by (simp add: cmd_update_def store5_def store6_def commit_def Let_def
        record_proposal_execution_update_def required_execution_requested_event_def
        rmap_error_def build_execution_update_request_hash_def resolve_execution_update_event_def
        rule_tables validate_execution_update_state_def demo_update_def
        resolve_valid_execution_update_timestamp_def resolve_execution_update_occurred_at_def
        validate_execution_update_occurred_after_handoff_def
        build_execution_update_event_and_apply_state_def persist_proposal_transition_def
        build_execution_update_event_def apply_execution_update_state_def demo_transition ev6_def)

text \<open>The run reaches each of the states.\<close>

lemma demo_reachable:
  "reachable demo_env store0" "reachable demo_env store1" "reachable demo_env store2"
  "reachable demo_env store3" "reachable demo_env store4" "reachable demo_env store5"
  "reachable demo_env store6"
proof -
  let ?run = "run_steps (run_command demo_env in_memory_repository)"
  let ?ok = "run_ok (command_ok in_memory_repository) (run_command demo_env in_memory_repository)"
  have next_state: "reachable demo_env t"
    if "reachable demo_env s" "run_command demo_env in_memory_repository s c = (t, None)"
      "command_ok in_memory_repository s c" for s t c
    using reachable_run [OF that(1), of "[c]"] that(2,3) by simp
  have "reachable demo_env empty_store"
    unfolding reachable_def by (rule exI [of _ "[]"]) simp
  then show 0: "reachable demo_env store0"
    by (rule next_state [OF _ step_create])
      (simp add: cmd_create_def mem_get_proposal_def empty_store_def)
  show 1: "reachable demo_env store1"
    by (rule next_state [OF 0 step_submit]) (simp add: cmd_submit_def)
  show 2: "reachable demo_env store2"
    by (rule next_state [OF 1 step_risk]) (simp add: cmd_risk_def)
  show 3: "reachable demo_env store3"
    by (rule next_state [OF 2 step_consent]) (simp add: cmd_consent_def)
  show 4: "reachable demo_env store4"
    by (rule next_state [OF 3 step_handoff]) (simp add: cmd_handoff_def)
  show 5: "reachable demo_env store5"
    by (rule next_state [OF 4 step_version]) (simp add: cmd_version_def)
  show "reachable demo_env store6"
    by (rule next_state [OF 5 step_update]) (simp add: cmd_update_def)
qed

section \<open>Rows for the repository queries\<close>

definition demo_rows :: "proposal_record list" where
  "demo_rows = map (\<lambda>(i, t). (demo_proposal DRAFT t 1)\<lparr>pr_proposal_id := i, pr_created_at := t\<rparr>)
     [(''A'', 1), (''B'', 3), (''C'', 2)]"

definition demo_operation :: "async_operation_status \<Rightarrow> async_operation_record" where
  "demo_operation st = \<lparr>ao_operation_id = ''o'', ao_operation_type = CREATE_PROPOSAL,
     ao_status = st, ao_correlation_id = ''c'', ao_idempotency_key = None, ao_proposal_id = None,
     ao_created_by = ''a'', ao_created_at = 1, ao_payload_json = [], ao_attempt_count = 0,
     ao_max_attempts = 3, ao_started_at = None, ao_lease_expires_at = None,
     ao_finished_at = None, ao_result_json = None, ao_error_json = None\<rparr>"

end
