(* ===== verification/Async_Operations.thy ===== *)
theory Async_Operations
  imports Version_Commands
begin

text \<open>
  Queued create and version commands: how an operation is accepted once, claimed, attempted,
  retried and finished (src/core/proposals/async_operations.py, async_operation_submission.py,
  async_submission_commands.py, async_payloads.py, async_payload_resolution.py,
  async_operation_persistence.py, async_operation_runner.py, async_operation_execution.py,
  async_operation_recovery.py).

  The retry loop is a partial function: \<open>None\<close> would be a run that never ends, and the laws of
  the repository are used to show that it ends after at most \<open>max_attempts\<close> attempts in a
  finished operation. A turn of the loop carries the two readings of the clock and the executor of
  the command, so that attempts may differ. \<open>model_validate\<close> on a stored payload is a parameter.
\<close>

section \<open>JSON forms\<close>

definition version_request_json :: "version_request \<Rightarrow> json_dict" where
  "version_request_json q =
     [(''created_by'', JStr (vq_created_by q)),
      (''expected_current_version_no'', opt_int (vq_expected_current_version_no q)),
      (''input_mode'', json_of_option (\<lambda>m. JStr (input_mode_name m)) (vq_input_mode q)),
      (''simulate_request'', json_of_option simulate_request_json (vq_simulate_request q)),
      (''stateless_input'', json_of_option stateless_input_json (vq_stateless_input q)),
      (''stateful_input'', json_of_option stateful_input_json (vq_stateful_input q))]"

fun lifecycle_origin_name :: "lifecycle_origin \<Rightarrow> string" where
  "lifecycle_origin_name DIRECT_CREATE = ''DIRECT_CREATE''"
| "lifecycle_origin_name WORKSPACE_HANDOFF = ''WORKSPACE_HANDOFF''"

definition proposal_summary_json :: "proposal_summary \<Rightarrow> json" where
  "proposal_summary_json p = JObj
     [(''proposal_id'', JStr (sm_proposal_id p)), (''portfolio_id'', JStr (sm_portfolio_id p)),
      (''mandate_id'', opt_str (sm_mandate_id p)), (''jurisdiction'', opt_str (sm_jurisdiction p)),
      (''created_by'', JStr (sm_created_by p)), (''created_at'', JStr (sm_created_at p)),
      (''last_event_at'', JStr (sm_last_event_at p)),
      (''current_state'', JStr (state_name (sm_current_state p))),
      (''current_version_no'', JInt (sm_current_version_no p)), (''title'', opt_str (sm_title p)),
      (''lifecycle_origin'', JStr (lifecycle_origin_name (sm_lifecycle_origin p))),
      (''source_workspace_id'', opt_str (sm_source_workspace_id p))]"

definition version_detail_json :: "version_detail \<Rightarrow> json" where
  "version_detail_json v = JObj
     [(''proposal_version_id'', JStr (vd_proposal_version_id v)),
      (''proposal_id'', JStr (vd_proposal_id v)), (''version_no'', JInt (vd_version_no v)),
      (''created_at'', JStr (vd_created_at v)), (''request_hash'', JStr (vd_request_hash v)),
      (''artifact_hash'', JStr (vd_artifact_hash v)),
      (''simulation_hash'', JStr (vd_simulation_hash v)),
      (''status_at_creation'', JStr (creation_status_name (vd_status_at_creation v))),
      (''proposal_result'', JObj (vd_proposal_result v)), (''artifact'', JObj (vd_artifact v)),
      (''evidence_bundle'', JObj (vd_evidence_bundle v)),
      (''gate_decision'', opt_obj (vd_gate_decision v))]"

definition workflow_event_json :: "workflow_event \<Rightarrow> json" where
  "workflow_event_json e = JObj
     [(''event_id'', JStr (wv_event_id e)), (''proposal_id'', JStr (wv_proposal_id e)),
      (''event_type'', JStr (event_type_name (wv_event_type e))),
      (''from_state'', json_of_option (\<lambda>s. JStr (state_name s)) (wv_from_state e)),
      (''to_state'', JStr (state_name (wv_to_state e))), (''actor_id'', JStr (wv_actor_id e)),
      (''occurred_at'', JStr (wv_occurred_at e)), (''reason'', JObj (wv_reason e)),
      (''related_version_no'', opt_int (wv_related_version_no e))]"

definition create_response_json :: "create_response \<Rightarrow> json_dict" where
  "create_response_json r =
     [(''proposal'', proposal_summary_json (cr_proposal r)),
      (''version'', version_detail_json (cr_version r)),
      (''latest_workflow_event'', workflow_event_json (cr_latest_workflow_event r))]"

text \<open>\<open>type(exc).__name__\<close> and \<open>str(exc)\<close> of an exception a command raises.\<close>

fun error_class_name :: "proposal_error \<Rightarrow> string" where
  "error_class_name (ProposalLifecycleError m) = ''ProposalLifecycleError''"
| "error_class_name (ProposalNotFoundError m) = ''ProposalNotFoundError''"
| "error_class_name (ProposalValidationError m) = ''ProposalValidationError''"
| "error_class_name (ProposalIdempotencyConflictError m) = ''ProposalIdempotencyConflictError''"
| "error_class_name (ProposalStateConflictError m) = ''ProposalStateConflictError''"
| "error_class_name (ProposalTransitionError m) = ''ProposalTransitionError''"
| "error_class_name (PyValueError m) = ''ValueError''"
| "error_class_name (PyTypeError m) = ''TypeError''"
| "error_class_name (PyException c m) = c"

fun error_message :: "proposal_error \<Rightarrow> string" where
  "error_message (ProposalLifecycleError m) = m"
| "error_message (ProposalNotFoundError m) = m"
| "error_message (ProposalValidationError m) = m"
| "error_message (ProposalIdempotencyConflictError m) = m"
| "error_message (ProposalStateConflictError m) = m"
| "error_message (ProposalTransitionError m) = m"
| "error_message (PyValueError m) = m"
| "error_message (PyTypeError m) = m"
| "error_message (PyException c m) = m"

fun is_lifecycle_error :: "proposal_error \<Rightarrow> bool" where
  "is_lifecycle_error (PyValueError m) = False"
| "is_lifecycle_error (PyTypeError m) = False"
| "is_lifecycle_error (PyException c m) = False"
| "is_lifecycle_error e = True"

section \<open>The life of an operation\<close>

definition ASYNC_TERMINAL_STATUSES :: "async_operation_status list" where
  "ASYNC_TERMINAL_STATUSES = [SUCCEEDED, FAILED]"

record submission_stats =
  st_accepted_new :: int
  st_accepted_replayed :: int
  st_conflicts :: int

definition record_acceptance :: "bool \<Rightarrow> submission_stats \<Rightarrow> submission_stats" where
  "record_acceptance is_new st =
     (if is_new then st\<lparr>st_accepted_new := st_accepted_new st + 1\<rparr>
      else st\<lparr>st_accepted_replayed := st_accepted_replayed st + 1\<rparr>)"

definition record_conflict :: "submission_stats \<Rightarrow> submission_stats" where
  "record_conflict st = st\<lparr>st_conflicts := st_conflicts st + 1\<rparr>"

definition build_create_proposal_async_operation ::
  "string \<Rightarrow> string \<Rightarrow> string \<Rightarrow> create_request \<Rightarrow> string \<Rightarrow> timestamp \<Rightarrow> int \<Rightarrow>
   async_operation_record" where
  "build_create_proposal_async_operation operation_id correlation_id idempotency_key payload
       submission_hash created_at max_attempts =
     \<lparr>ao_operation_id = operation_id, ao_operation_type = CREATE_PROPOSAL, ao_status = PENDING,
      ao_correlation_id = correlation_id, ao_idempotency_key = Some idempotency_key,
      ao_proposal_id = None, ao_created_by = cq_created_by payload, ao_created_at = created_at,
      ao_payload_json =
        [(''payload'', canonicalize_create_command_payload payload),
         (''idempotency_key'', JStr idempotency_key),
         (''submission_hash'', JStr submission_hash)],
      ao_attempt_count = 0, ao_max_attempts = max_attempts, ao_started_at = None,
      ao_lease_expires_at = None, ao_finished_at = None, ao_result_json = None,
      ao_error_json = None\<rparr>"

definition build_create_version_async_operation ::
  "string \<Rightarrow> string \<Rightarrow> string \<Rightarrow> version_request \<Rightarrow> string \<Rightarrow> timestamp \<Rightarrow> int \<Rightarrow>
   async_operation_record" where
  "build_create_version_async_operation operation_id proposal_id correlation_id payload
       submission_hash created_at max_attempts =
     \<lparr>ao_operation_id = operation_id, ao_operation_type = CREATE_PROPOSAL_VERSION,
      ao_status = PENDING, ao_correlation_id = correlation_id, ao_idempotency_key = None,
      ao_proposal_id = Some proposal_id, ao_created_by = vq_created_by payload,
      ao_created_at = created_at,
      ao_payload_json =
        [(''proposal_id'', JStr proposal_id), (''payload'', JObj (version_request_json payload)),
         (''submission_hash'', JStr submission_hash)],
      ao_attempt_count = 0, ao_max_attempts = max_attempts, ao_started_at = None,
      ao_lease_expires_at = None, ao_finished_at = None, ao_result_json = None,
      ao_error_json = None\<rparr>"

text \<open>The hash of a submission is never \<open>None\<close> where the code compares it.\<close>

definition is_matching_create_proposal_async_submission ::
  "async_operation_record \<Rightarrow> string \<Rightarrow> string option \<Rightarrow> bool" where
  "is_matching_create_proposal_async_submission operation idempotency_key submission_hash =
     (ao_operation_type operation = CREATE_PROPOSAL \<and>
      ao_idempotency_key operation = Some idempotency_key \<and> submission_hash \<noteq> None \<and>
      obj_get (ao_payload_json operation) ''submission_hash'' = opt_str submission_hash)"

definition is_matching_create_version_async_submission ::
  "async_operation_record \<Rightarrow> string \<Rightarrow> string option \<Rightarrow> bool" where
  "is_matching_create_version_async_submission operation proposal_id submission_hash =
     (ao_operation_type operation = CREATE_PROPOSAL_VERSION \<and>
      ao_proposal_id operation = Some proposal_id \<and> submission_hash \<noteq> None \<and>
      obj_get (ao_payload_json operation) ''submission_hash'' = opt_str submission_hash)"

fun resolve_recoverable_async_operation_kind ::
  "async_operation_type \<Rightarrow> async_operation_type option" where
  "resolve_recoverable_async_operation_kind CREATE_PROPOSAL = Some CREATE_PROPOSAL"
| "resolve_recoverable_async_operation_kind CREATE_PROPOSAL_VERSION = Some CREATE_PROPOSAL_VERSION"

definition should_skip_async_operation_run :: "async_operation_record option \<Rightarrow> bool" where
  "should_skip_async_operation_run operation =
     (case operation of None \<Rightarrow> True | Some op \<Rightarrow> ao_status op \<in> set ASYNC_TERMINAL_STATUSES)"

definition has_exhausted_async_attempts :: "async_operation_record \<Rightarrow> bool" where
  "has_exhausted_async_attempts operation =
     (ao_max_attempts operation \<le> ao_attempt_count operation)"

text \<open>A timestamp counts microseconds.\<close>

definition begin_async_attempt ::
  "async_operation_record \<Rightarrow> timestamp \<Rightarrow> int \<Rightarrow> async_operation_record" where
  "begin_async_attempt operation attempt_started_at lease_seconds =
     operation\<lparr>ao_status := RUNNING, ao_attempt_count := ao_attempt_count operation + 1,
       ao_started_at := Some attempt_started_at,
       ao_lease_expires_at := Some (attempt_started_at + lease_seconds * 1000000),
       ao_finished_at := None, ao_result_json := None, ao_error_json := None\<rparr>"

definition mark_operation_succeeded ::
  "async_operation_record \<Rightarrow> create_response \<Rightarrow> timestamp \<Rightarrow> async_operation_record" where
  "mark_operation_succeeded operation response finished_at =
     operation\<lparr>ao_status := SUCCEEDED,
       ao_proposal_id := Some (sm_proposal_id (cr_proposal response)),
       ao_result_json := Some (create_response_json response), ao_error_json := None,
       ao_lease_expires_at := None, ao_finished_at := Some finished_at\<rparr>"

definition mark_operation_failed ::
  "async_operation_record \<Rightarrow> string \<Rightarrow> string \<Rightarrow> timestamp \<Rightarrow> async_operation_record" where
  "mark_operation_failed operation code message finished_at =
     operation\<lparr>ao_status := FAILED, ao_result_json := None,
       ao_error_json := Some [(''code'', JStr code), (''message'', JStr message)],
       ao_lease_expires_at := None, ao_finished_at := Some finished_at\<rparr>"

definition apply_runtime_exception_outcome ::
  "async_operation_record \<Rightarrow> proposal_error \<Rightarrow> timestamp \<Rightarrow> async_operation_record \<times> bool" where
  "apply_runtime_exception_outcome operation exc finished_at =
     (let message = (if error_message exc = [] then error_class_name exc else error_message exc);
          op = operation\<lparr>ao_result_json := None, ao_lease_expires_at := None,
                 ao_error_json := Some [(''code'', JStr (error_class_name exc)),
                                        (''message'', JStr message)]\<rparr>
      in if ao_attempt_count operation < ao_max_attempts operation
         then (op\<lparr>ao_status := PENDING, ao_finished_at := None\<rparr>, True)
         else (op\<lparr>ao_status := FAILED, ao_finished_at := Some finished_at\<rparr>, False))"

fun async_operation_type_name :: "async_operation_type \<Rightarrow> string" where
  "async_operation_type_name CREATE_PROPOSAL = ''CREATE_PROPOSAL''"
| "async_operation_type_name CREATE_PROPOSAL_VERSION = ''CREATE_PROPOSAL_VERSION''"

definition build_async_replay_lineage :: "async_operation_record \<Rightarrow> json_dict" where
  "build_async_replay_lineage operation =
     [(''async_operation_id'', JStr (ao_operation_id operation)),
      (''async_operation_type'', JStr (async_operation_type_name (ao_operation_type operation))),
      (''correlation_id'', JStr (ao_correlation_id operation)),
      (''idempotency_key'', opt_str (ao_idempotency_key operation))]"

text \<open>\<open>isinstance(x, int)\<close> is true of a boolean as well, which reads as 0 or 1.\<close>

definition extract_async_result_version_no :: "async_operation_record \<Rightarrow> int option" where
  "extract_async_result_version_no operation =
     (case ao_result_json operation of
        None \<Rightarrow> None
      | Some result \<Rightarrow>
          (case obj_get result ''version'' of
             JObj version \<Rightarrow>
               (case obj_get version ''version_no'' of
                  JInt n \<Rightarrow> Some n | JBool b \<Rightarrow> Some (if b then 1 else 0) | _ \<Rightarrow> None)
           | _ \<Rightarrow> None))"

section \<open>Payloads\<close>

text \<open>
  \<open>exclude_none=True\<close>: the fields of the model and of its nested models that are \<open>None\<close> are left
  out. The only nested part of a stateful request that is kept as JSON, the narrative request, has
  no field of a dictionary type.
\<close>

fun exclude_none :: "json \<Rightarrow> json" where
  "exclude_none (JObj d) = JObj (drop_nulls (map (\<lambda>(k, v). (k, exclude_none v)) d))"
| "exclude_none (JArr xs) = JArr (map exclude_none xs)"
| "exclude_none v = v"

fun json_items :: "json \<Rightarrow> json_dict" where
  "json_items (JObj d) = d"
| "json_items v = []"

text \<open>\<open>str.strip\<close> of the first string that is not blank.\<close>

fun first_non_blank_string :: "json list \<Rightarrow> string option" where
  "first_non_blank_string [] = None"
| "first_non_blank_string (JStr s # vs) =
     (if py_strip s \<noteq> [] then Some (py_strip s) else first_non_blank_string vs)"
| "first_non_blank_string (v # vs) = first_non_blank_string vs"

definition extract_async_submission_hash ::
  "(string \<Rightarrow> string) \<Rightarrow> async_operation_record \<Rightarrow> string option" where
  "extract_async_submission_hash sha operation =
     (let fallback =
            (case obj_get (ao_payload_json operation) ''payload'' of
               JObj payload \<Rightarrow> Some (hash_canonical_payload sha (JObj payload))
             | _ \<Rightarrow> None)
      in case obj_get (ao_payload_json operation) ''submission_hash'' of
           JStr h \<Rightarrow> if h \<noteq> [] then Some h else fallback
         | _ \<Rightarrow> fallback)"

text \<open>A resolution error escapes as it is: the submission command does not catch it.\<close>

definition hash_async_create_submission ::
  "(string \<Rightarrow> string) \<Rightarrow> stateful_resolver \<Rightarrow> string \<Rightarrow> create_request \<Rightarrow> string + string" where
  "hash_async_create_submission sha resolver today payload =
     (if cq_input_mode payload = Some Stateful
      then Inr (hash_canonical_payload sha
             (exclude_none (canonicalize_create_command_payload payload)))
      else rbind (resolve_create_request resolver today payload)
             (\<lambda>resolved. Inr (hash_canonical_payload sha
                (canonicalize_create_request_payload payload resolved))))"

definition hash_async_version_submission ::
  "(string \<Rightarrow> string) \<Rightarrow> stateful_resolver \<Rightarrow> string \<Rightarrow> string \<Rightarrow> version_request \<Rightarrow>
   string + string" where
  "hash_async_version_submission sha resolver today proposal_id payload =
     (if vq_input_mode payload = Some Stateful
      then Inr (hash_canonical_payload sha (JObj ((''proposal_id'', JStr proposal_id) #
             json_items (exclude_none (JObj (version_request_json payload))))))
      else rbind (resolve_version_request resolver today payload)
             (\<lambda>resolved. Inr (hash_canonical_payload sha (JObj ((''proposal_id'', JStr proposal_id) #
                json_items (canonicalize_version_request_payload payload resolved))))))"

text \<open>An unresolvable payload is \<open>Inl\<close> with the message of the failure.\<close>

definition resolve_async_create_payload ::
  "(json_dict \<Rightarrow> create_request option) \<Rightarrow> async_operation_record \<Rightarrow> create_request option \<Rightarrow>
   string option \<Rightarrow> string + (create_request \<times> string)" where
  "resolve_async_create_payload model_validate operation fallback_payload fallback_key =
     rbind (case obj_get (ao_payload_json operation) ''payload'' of
              JObj d \<Rightarrow> (case model_validate d of
                  None \<Rightarrow> Inl ''PROPOSAL_ASYNC_PAYLOAD_INVALID'' | Some q \<Rightarrow> Inr q)
            | _ \<Rightarrow> (case fallback_payload of
                  None \<Rightarrow> Inl ''PROPOSAL_ASYNC_PAYLOAD_INVALID'' | Some q \<Rightarrow> Inr q))
       (\<lambda>payload.
          case first_non_blank_string
                 [obj_get (ao_payload_json operation) ''idempotency_key'',
                  opt_str (ao_idempotency_key operation), opt_str fallback_key] of
            None \<Rightarrow> Inl ''PROPOSAL_ASYNC_IDEMPOTENCY_KEY_REQUIRED''
          | Some key \<Rightarrow> Inr (payload, key))"

definition resolve_async_version_payload ::
  "(json_dict \<Rightarrow> version_request option) \<Rightarrow> async_operation_record \<Rightarrow> string option \<Rightarrow>
   version_request option \<Rightarrow> string + (string \<times> version_request)" where
  "resolve_async_version_payload model_validate operation fallback_proposal_id fallback_payload =
     rbind (case obj_get (ao_payload_json operation) ''payload'' of
              JObj d \<Rightarrow> (case model_validate d of
                  None \<Rightarrow> Inl ''PROPOSAL_ASYNC_PAYLOAD_INVALID'' | Some q \<Rightarrow> Inr q)
            | _ \<Rightarrow> (case fallback_payload of
                  None \<Rightarrow> Inl ''PROPOSAL_ASYNC_PAYLOAD_INVALID'' | Some q \<Rightarrow> Inr q))
       (\<lambda>payload.
          case first_non_blank_string
                 [obj_get (ao_payload_json operation) ''proposal_id'',
                  opt_str (ao_proposal_id operation), opt_str fallback_proposal_id] of
            None \<Rightarrow> Inl ''PROPOSAL_ASYNC_PROPOSAL_ID_REQUIRED''
          | Some i \<Rightarrow> Inr (i, payload))"

section \<open>Submission\<close>

record async_accepted_response =
  ac_operation_id :: string
  ac_operation_type :: async_operation_type
  ac_status :: async_operation_status
  ac_correlation_id :: string
  ac_created_at :: string
  ac_attempt_count :: int
  ac_max_attempts :: int
  ac_status_url :: string

definition to_async_accepted_response :: "async_operation_record \<Rightarrow> async_accepted_response" where
  "to_async_accepted_response operation =
     \<lparr>ac_operation_id = ao_operation_id operation, ac_operation_type = ao_operation_type operation,
      ac_status = ao_status operation, ac_correlation_id = ao_correlation_id operation,
      ac_created_at = isoformat (ao_created_at operation),
      ac_attempt_count = ao_attempt_count operation, ac_max_attempts = ao_max_attempts operation,
      ac_status_url = ''/advisory/proposals/operations/'' @ ao_operation_id operation\<rparr>"

record submission_result =
  sr_operation :: async_operation_record
  sr_is_new :: bool
  sr_conflict_message :: "string option"

definition persist_create_proposal_async_submission ::
  "'s proposal_repository \<Rightarrow> async_operation_record \<Rightarrow> string \<Rightarrow> string \<Rightarrow> 's \<Rightarrow>
   submission_result \<times> 's" where
  "persist_create_proposal_async_submission repo operation idempotency_key submission_hash s =
     (case rp_create_operation_if_absent_by_idempotency repo operation s of
        ((stored, is_new), s') \<Rightarrow>
          (if \<not> is_new \<and> \<not> is_matching_create_proposal_async_submission stored idempotency_key
                 (Some submission_hash)
           then \<lparr>sr_operation = stored, sr_is_new = False, sr_conflict_message =
                  Some ''IDEMPOTENCY_KEY_CONFLICT: async submission hash mismatch''\<rparr>
           else \<lparr>sr_operation = stored, sr_is_new = is_new, sr_conflict_message = None\<rparr>, s'))"

definition persist_create_version_async_submission ::
  "'s proposal_repository \<Rightarrow> async_operation_record option \<Rightarrow> async_operation_record \<Rightarrow> string \<Rightarrow>
   string \<Rightarrow> 's \<Rightarrow> submission_result \<times> 's" where
  "persist_create_version_async_submission repo existing operation proposal_id submission_hash s =
     (case existing of
        Some e \<Rightarrow>
          (if \<not> is_matching_create_version_async_submission e proposal_id (Some submission_hash)
           then \<lparr>sr_operation = e, sr_is_new = False, sr_conflict_message =
                  Some ''CORRELATION_ID_CONFLICT: async version submission mismatch''\<rparr>
           else \<lparr>sr_operation = e, sr_is_new = False, sr_conflict_message = None\<rparr>, s)
      | None \<Rightarrow> (\<lparr>sr_operation = operation, sr_is_new = True, sr_conflict_message = None\<rparr>,
                 rp_create_operation repo operation s))"

text \<open>
  The command for a queued create; the counters are the second part of the state. A resolution
  error of the hash is passed on as the exception it is.
\<close>

definition accept_create_proposal_async_submission_command ::
  "(string \<Rightarrow> string) \<Rightarrow> stateful_resolver \<Rightarrow> string \<Rightarrow> 's proposal_repository \<Rightarrow> create_request \<Rightarrow>
   string option \<Rightarrow> string option \<Rightarrow> int \<Rightarrow> timestamp \<Rightarrow> string \<Rightarrow> string \<Rightarrow> 's \<times> submission_stats \<Rightarrow>
   ('s \<times> submission_stats) \<times> (proposal_error + (async_accepted_response \<times> bool))" where
  "accept_create_proposal_async_submission_command sha resolver today repo payload raw_key
       correlation_id max_attempts now operation_id correlation_hex st =
     (case rbind (require_proposal_idempotency_key raw_key) (\<lambda>key.
             rbind (rmap_error (PyException ''ProposalContextResolutionError'') (hash_async_create_submission sha resolver today payload))
               (\<lambda>h. Inr (key, h))) of
        Inl err \<Rightarrow> (st, Inl err)
      | Inr (key, submission_hash) \<Rightarrow>
          let operation = build_create_proposal_async_operation operation_id
                (resolve_correlation_id correlation_id correlation_hex) key payload
                submission_hash now max_attempts in
          (case persist_create_proposal_async_submission repo operation key submission_hash
                  (fst st) of
             (r, s') \<Rightarrow>
               (case sr_conflict_message r of
                  Some m \<Rightarrow> ((s', record_conflict (snd st)),
                            Inl (ProposalIdempotencyConflictError m))
                | None \<Rightarrow> ((s', record_acceptance (sr_is_new r) (snd st)),
                           Inr (to_async_accepted_response (sr_operation r), sr_is_new r)))))"

definition accept_create_version_async_submission_command ::
  "(string \<Rightarrow> string) \<Rightarrow> stateful_resolver \<Rightarrow> string \<Rightarrow> 's proposal_repository \<Rightarrow> string \<Rightarrow>
   version_request \<Rightarrow> string option \<Rightarrow> int \<Rightarrow> timestamp \<Rightarrow> string \<Rightarrow> string \<Rightarrow> 's \<Rightarrow>
   's \<times> (proposal_error + (async_accepted_response \<times> bool))" where
  "accept_create_version_async_submission_command sha resolver today repo proposal_id payload
       correlation_id max_attempts now operation_id correlation_hex s =
     (let resolved_correlation_id = resolve_correlation_id correlation_id correlation_hex in
      case rmap_error (PyException ''ProposalContextResolutionError'')
             (hash_async_version_submission sha resolver today proposal_id payload) of
        Inl err \<Rightarrow> (s, Inl err)
      | Inr submission_hash \<Rightarrow>
          let existing = rp_get_operation_by_correlation repo s resolved_correlation_id;
              operation = build_create_version_async_operation operation_id proposal_id
                resolved_correlation_id payload submission_hash now max_attempts in
          (case persist_create_version_async_submission repo existing operation proposal_id
                  submission_hash s of
             (r, s') \<Rightarrow>
               (case sr_conflict_message r of
                  Some m \<Rightarrow> (s', Inl (ProposalIdempotencyConflictError m))
                | None \<Rightarrow>
                    (s', Inr (to_async_accepted_response (sr_operation r), sr_is_new r)))))"

section \<open>Attempts\<close>

definition ASYNC_OPERATION_LEASE_SECONDS :: int where
  "ASYNC_OPERATION_LEASE_SECONDS = 60"

definition persist_async_attempt_started ::
  "'s proposal_repository \<Rightarrow> async_operation_record \<Rightarrow> timestamp \<Rightarrow> int \<Rightarrow> 's \<Rightarrow>
   async_operation_record \<times> 's" where
  "persist_async_attempt_started repo operation attempt_started_at lease_seconds s =
     (let op = begin_async_attempt operation attempt_started_at lease_seconds
      in (op, rp_update_operation repo op s))"

definition persist_async_operation_succeeded ::
  "'s proposal_repository \<Rightarrow> async_operation_record \<Rightarrow> create_response \<Rightarrow> timestamp \<Rightarrow> 's \<Rightarrow> 's" where
  "persist_async_operation_succeeded repo operation response finished_at s =
     rp_update_operation repo (mark_operation_succeeded operation response finished_at) s"

definition persist_async_operation_failed ::
  "'s proposal_repository \<Rightarrow> async_operation_record \<Rightarrow> string \<Rightarrow> string \<Rightarrow> timestamp \<Rightarrow> 's \<Rightarrow> 's"
  where
  "persist_async_operation_failed repo operation code message finished_at s =
     rp_update_operation repo (mark_operation_failed operation code message finished_at) s"

definition persist_async_runtime_exception_outcome ::
  "'s proposal_repository \<Rightarrow> async_operation_record \<Rightarrow> proposal_error \<Rightarrow> timestamp \<Rightarrow> 's \<Rightarrow>
   bool \<times> 's" where
  "persist_async_runtime_exception_outcome repo operation exc finished_at s =
     (case apply_runtime_exception_outcome operation exc finished_at of
        (op, should_requeue) \<Rightarrow> (should_requeue, rp_update_operation repo op s))"

text \<open>
  One turn of the loop: the time at which it starts, the time at which the attempt is over, and
  what the executor does.
\<close>

record 'x async_turn =
  tn_started :: timestamp
  tn_finished :: timestamp
  tn_execute :: 'x

type_synonym 's executor = "'s \<Rightarrow> 's \<times> (proposal_error + create_response)"

definition should_stop_before_attempt ::
  "'s proposal_repository \<Rightarrow> async_operation_record option \<Rightarrow> timestamp \<Rightarrow> 's \<Rightarrow> bool \<times> 's" where
  "should_stop_before_attempt repo operation now s =
     (case operation of
        None \<Rightarrow> (True, s)
      | Some op \<Rightarrow>
          if should_skip_async_operation_run operation then (True, s)
          else if \<not> has_exhausted_async_attempts op then (False, s)
          else (True, persist_async_operation_failed repo op ''ProposalLifecycleError''
                  ''PROPOSAL_ASYNC_ATTEMPTS_EXHAUSTED'' now s))"

text \<open>The result is \<open>True\<close> for the outcome \<open>RETRY\<close>.\<close>

definition run_async_operation_attempt ::
  "'s proposal_repository \<Rightarrow> async_operation_record \<Rightarrow> 's executor async_turn \<Rightarrow> 's \<Rightarrow> bool \<times> 's"
  where
  "run_async_operation_attempt repo operation turn s =
     (case tn_execute turn s of
        (s', Inr response) \<Rightarrow>
          (False, persist_async_operation_succeeded repo operation response (tn_finished turn) s')
      | (s', Inl exc) \<Rightarrow>
          if is_lifecycle_error exc
          then (False, persist_async_operation_failed repo operation (error_class_name exc)
                  (error_message exc) (tn_finished turn) s')
          else persist_async_runtime_exception_outcome repo operation exc (tn_finished turn) s')"

text \<open>One turn of \<open>while True\<close>: whether the loop goes on, and the state.\<close>

definition run_async_turn ::
  "'s proposal_repository \<Rightarrow> string \<Rightarrow> 's executor async_turn \<Rightarrow> 's \<Rightarrow> bool \<times> 's" where
  "run_async_turn repo operation_id turn s =
     (let operation = rp_get_operation repo s operation_id in
      case should_stop_before_attempt repo operation (tn_started turn) s of
        (True, s') \<Rightarrow> (False, s')
      | (False, s') \<Rightarrow>
          (case operation of
             None \<Rightarrow> (False, s')
           | Some op \<Rightarrow>
               (case persist_async_attempt_started repo op (tn_started turn)
                       ASYNC_OPERATION_LEASE_SECONDS s' of
                  (op', s'') \<Rightarrow> run_async_operation_attempt repo op' turn s'')))"

partial_function (option) run_async_operation_until_terminal ::
  "'s proposal_repository \<Rightarrow> string \<Rightarrow> (nat \<Rightarrow> 's executor async_turn) \<Rightarrow> nat \<Rightarrow> 's \<Rightarrow> 's option" where
  "run_async_operation_until_terminal repo operation_id turns i s =
     (let r = run_async_turn repo operation_id (turns i) s in
      if fst r then run_async_operation_until_terminal repo operation_id turns (Suc i) (snd r)
      else Some (snd r))"

section \<open>Execution and recovery\<close>

type_synonym 's create_executor =
  "create_request \<Rightarrow> string \<Rightarrow> string option \<Rightarrow> json_dict option \<Rightarrow> 's executor"

type_synonym 's version_executor =
  "string \<Rightarrow> version_request \<Rightarrow> string option \<Rightarrow> json_dict option \<Rightarrow> 's executor"

definition resolve_create_async_payload_or_fail ::
  "'s proposal_repository \<Rightarrow> (json_dict \<Rightarrow> create_request option) \<Rightarrow> async_operation_record \<Rightarrow>
   create_request option \<Rightarrow> string option \<Rightarrow> timestamp \<Rightarrow> 's \<Rightarrow>
   (create_request \<times> string) option \<times> 's" where
  "resolve_create_async_payload_or_fail repo model_validate operation fallback_payload fallback_key
       failed_at s =
     (case resolve_async_create_payload model_validate operation fallback_payload fallback_key of
        Inl message \<Rightarrow> (None, persist_async_operation_failed repo operation
                        ''ProposalLifecycleError'' message failed_at s)
      | Inr r \<Rightarrow> (Some r, s))"

definition resolve_version_async_payload_or_fail ::
  "'s proposal_repository \<Rightarrow> (json_dict \<Rightarrow> version_request option) \<Rightarrow> async_operation_record \<Rightarrow>
   string option \<Rightarrow> version_request option \<Rightarrow> timestamp \<Rightarrow> 's \<Rightarrow>
   (string \<times> version_request) option \<times> 's" where
  "resolve_version_async_payload_or_fail repo model_validate operation fallback_proposal_id
       fallback_payload failed_at s =
     (case resolve_async_version_payload model_validate operation fallback_proposal_id
             fallback_payload of
        Inl message \<Rightarrow> (None, persist_async_operation_failed repo operation
                        ''ProposalLifecycleError'' message failed_at s)
      | Inr r \<Rightarrow> (Some r, s))"

text \<open>\<open>fallback_correlation_id or operation.correlation_id\<close>.\<close>

definition attempt_correlation_id :: "string option \<Rightarrow> async_operation_record \<Rightarrow> string option" where
  "attempt_correlation_id fallback operation =
     (case fallback of
        None \<Rightarrow> Some (ao_correlation_id operation)
      | Some c \<Rightarrow> if c = [] then Some (ao_correlation_id operation) else Some c)"

definition execute_create_proposal_async_operation ::
  "'s proposal_repository \<Rightarrow> (json_dict \<Rightarrow> create_request option) \<Rightarrow> string \<Rightarrow>
   create_request option \<Rightarrow> string option \<Rightarrow> string option \<Rightarrow> timestamp \<Rightarrow>
   (nat \<Rightarrow> 's create_executor async_turn) \<Rightarrow> 's \<Rightarrow> 's option" where
  "execute_create_proposal_async_operation repo model_validate operation_id fallback_payload
       fallback_key fallback_correlation_id now turns s =
     (case rp_get_operation repo s operation_id of
        None \<Rightarrow> Some s
      | Some operation \<Rightarrow>
          (case resolve_create_async_payload_or_fail repo model_validate operation
                  fallback_payload fallback_key now s of
             (None, s') \<Rightarrow> Some s'
           | (Some (request_payload, key), s') \<Rightarrow>
               run_async_operation_until_terminal repo operation_id
                 (\<lambda>i. \<lparr>tn_started = tn_started (turns i), tn_finished = tn_finished (turns i),
                        tn_execute = tn_execute (turns i) request_payload key
                          (attempt_correlation_id fallback_correlation_id operation)
                          (Some (build_async_replay_lineage operation))\<rparr>) 0 s'))"

definition execute_create_version_async_operation ::
  "'s proposal_repository \<Rightarrow> (json_dict \<Rightarrow> version_request option) \<Rightarrow> string \<Rightarrow> string option \<Rightarrow>
   version_request option \<Rightarrow> string option \<Rightarrow> timestamp \<Rightarrow>
   (nat \<Rightarrow> 's version_executor async_turn) \<Rightarrow> 's \<Rightarrow> 's option" where
  "execute_create_version_async_operation repo model_validate operation_id fallback_proposal_id
       fallback_payload fallback_correlation_id now turns s =
     (case rp_get_operation repo s operation_id of
        None \<Rightarrow> Some s
      | Some operation \<Rightarrow>
          (case resolve_version_async_payload_or_fail repo model_validate operation
                  fallback_proposal_id fallback_payload now s of
             (None, s') \<Rightarrow> Some s'
           | (Some (proposal_id, request_payload), s') \<Rightarrow>
               run_async_operation_until_terminal repo operation_id
                 (\<lambda>i. \<lparr>tn_started = tn_started (turns i), tn_finished = tn_finished (turns i),
                        tn_execute = tn_execute (turns i) proposal_id request_payload
                          (attempt_correlation_id fallback_correlation_id operation)
                          (Some (build_async_replay_lineage operation))\<rparr>) 0 s'))"

definition ASYNC_RECOVERY_BATCH_SIZE :: int where
  "ASYNC_RECOVERY_BATCH_SIZE = 50"

definition load_recoverable_async_operation_read_models ::
  "'s proposal_repository \<Rightarrow> 's \<Rightarrow> timestamp \<Rightarrow> int option \<Rightarrow>
   (async_operation_record \<times> async_operation_type option) list" where
  "load_recoverable_async_operation_read_models repo s as_of limit =
     map (\<lambda>operation. (operation, resolve_recoverable_async_operation_kind
                                   (ao_operation_type operation)))
       (rp_list_recoverable_operations repo s as_of limit)"

text \<open>
  The loop over the recovered operations; \<open>run_create\<close> and \<open>run_version\<close> are the two executions,
  by the position in the batch and the identifier of the operation.
\<close>

fun recover_operations ::
  "'s proposal_repository \<Rightarrow> timestamp \<Rightarrow> (nat \<Rightarrow> string \<Rightarrow> 's \<Rightarrow> 's option) \<Rightarrow>
   (nat \<Rightarrow> string \<Rightarrow> 's \<Rightarrow> 's option) \<Rightarrow>
   (async_operation_record \<times> async_operation_type option) list \<Rightarrow> nat \<Rightarrow> 's \<Rightarrow> ('s \<times> int) option" where
  "recover_operations repo now run_create run_version [] i s = Some (s, 0)"
| "recover_operations repo now run_create run_version ((operation, kind) # rest) i s =
     (case kind of
        Some CREATE_PROPOSAL \<Rightarrow>
          Option.bind (run_create i (ao_operation_id operation) s) (\<lambda>s'.
            map_option (\<lambda>(s'', n). (s'', n + 1))
              (recover_operations repo now run_create run_version rest (Suc i) s'))
      | Some CREATE_PROPOSAL_VERSION \<Rightarrow>
          Option.bind (run_version i (ao_operation_id operation) s) (\<lambda>s'.
            map_option (\<lambda>(s'', n). (s'', n + 1))
              (recover_operations repo now run_create run_version rest (Suc i) s'))
      | None \<Rightarrow>
          recover_operations repo now run_create run_version rest (Suc i)
            (persist_async_operation_failed repo operation ''ProposalLifecycleError''
               ''PROPOSAL_ASYNC_OPERATION_TYPE_UNSUPPORTED'' now s))"

definition recover_async_operation_batch ::
  "'s proposal_repository \<Rightarrow> int \<Rightarrow> timestamp \<Rightarrow> (nat \<Rightarrow> string \<Rightarrow> 's \<Rightarrow> 's option) \<Rightarrow>
   (nat \<Rightarrow> string \<Rightarrow> 's \<Rightarrow> 's option) \<Rightarrow> 's \<Rightarrow> ('s \<times> int) option" where
  "recover_async_operation_batch repo max_operations now run_create run_version s =
     recover_operations repo now run_create run_version
       (load_recoverable_async_operation_read_models repo s now (Some max_operations)) 0 s"

end
