(* ===== verification/Async_Invariant.thy ===== *)
theory Async_Invariant
  imports Async_Operations
begin

text \<open>
  What the queue promises: the retry loop ends, it ends in a finished operation, and it spends at
  most the attempts the operation was given. The laws of the operation store are a locale that the
  in-memory repository interprets.
\<close>

section \<open>The laws of the operation store\<close>

locale operation_repository = version_repository repo for repo :: "'s proposal_repository" +
  assumes update_get: "rp_get_operation repo (rp_update_operation repo op s) k =
      (if k = ao_operation_id op then Some op else rp_get_operation repo s k)"
    and update_frame:
    "rp_get_proposal repo (rp_update_operation repo op s) = rp_get_proposal repo s \<and>
     rp_list_events repo (rp_update_operation repo op s) = rp_list_events repo s \<and>
     rp_get_version repo (rp_update_operation repo op s) = rp_get_version repo s \<and>
     rp_get_idempotency repo (rp_update_operation repo op s) = rp_get_idempotency repo s"
    and create_operation_get: "rp_get_operation repo (rp_create_operation repo op s) k =
      (if k = ao_operation_id op then Some op else rp_get_operation repo s k)"
    and create_operation_frame:
    "rp_get_proposal repo (rp_create_operation repo op s) = rp_get_proposal repo s \<and>
     rp_list_events repo (rp_create_operation repo op s) = rp_list_events repo s \<and>
     rp_get_version repo (rp_create_operation repo op s) = rp_get_version repo s \<and>
     rp_get_idempotency repo (rp_create_operation repo op s) = rp_get_idempotency repo s"
    and absent_existing: "ao_idempotency_key op = Some key \<Longrightarrow> key \<noteq> [] \<Longrightarrow>
      rp_get_operation_by_idempotency repo s key = Some stored \<Longrightarrow>
      rp_create_operation_if_absent_by_idempotency repo op s = ((stored, False), s)"
    and absent_fresh: "ao_idempotency_key op = Some key \<Longrightarrow> key \<noteq> [] \<Longrightarrow>
      rp_get_operation_by_idempotency repo s key = None \<Longrightarrow>
      \<exists>s'. rp_create_operation_if_absent_by_idempotency repo op s = ((op, True), s') \<and>
        s' = rp_create_operation repo op s \<and>
        rp_get_operation_by_idempotency repo s' key = Some op"
    and commands_keep_operations:
    "rp_create_version repo v s = Inr s' \<Longrightarrow> rp_get_operation repo s' = rp_get_operation repo s"
    "rp_create_proposal_with_version_event_idempotency repo p v e i s = Inr s' \<Longrightarrow>
       rp_get_operation repo s' = rp_get_operation repo s"
    "rp_transition_proposal repo p e a st n s = Inr (r, s') \<Longrightarrow>
       rp_get_operation repo s' = rp_get_operation repo s"

interpretation memo: operation_repository in_memory_repository
proof unfold_locales
  fix op s k
  show "rp_get_operation in_memory_repository (rp_update_operation in_memory_repository op s) k =
      (if k = ao_operation_id op then Some op else rp_get_operation in_memory_repository s k)"
    by (simp add: mem_get_operation_def mem_update_operation_def store_operation_def)
next
  fix op s k
  show "rp_get_operation in_memory_repository (rp_create_operation in_memory_repository op s) k =
      (if k = ao_operation_id op then Some op else rp_get_operation in_memory_repository s k)"
    by (simp add: mem_get_operation_def mem_create_operation_def store_operation_def)
next
  fix op :: async_operation_record and key and s stored
  assume "ao_idempotency_key op = Some key" "key \<noteq> []"
    "rp_get_operation_by_idempotency in_memory_repository s key = Some stored"
  then show "rp_create_operation_if_absent_by_idempotency in_memory_repository op s =
      ((stored, False), s)"
    by (auto simp: mem_create_operation_if_absent_by_idempotency_def existing_operation_by_key_def
        mem_get_operation_by_idempotency_def split: option.splits)
next
  fix op :: async_operation_record and key and s
  assume key: "ao_idempotency_key op = Some key" "key \<noteq> []"
    and none: "rp_get_operation_by_idempotency in_memory_repository s key = None"
  then have "existing_operation_by_key s (ao_idempotency_key op) = None"
    by (auto simp: existing_operation_by_key_def mem_get_operation_by_idempotency_def
        split: option.splits)
  with key show "\<exists>s'. rp_create_operation_if_absent_by_idempotency in_memory_repository op s =
        ((op, True), s') \<and> s' = rp_create_operation in_memory_repository op s \<and>
      rp_get_operation_by_idempotency in_memory_repository s' key = Some op"
    by (simp add: mem_create_operation_if_absent_by_idempotency_def mem_create_operation_def
        mem_get_operation_by_idempotency_def store_operation_def)
qed (auto simp: mem_get_operation_def mem_update_operation_def mem_create_operation_def
    store_operation_def mem_get_proposal_def mem_list_events_def mem_get_version_def
    mem_get_idempotency_def mem_create_version_def fun_eq_iff mem_transition_proposal_def
    mem_create_proposal_with_version_event_idempotency_def Let_def split: if_splits option.splits)

section \<open>Operations are filed under their identifiers\<close>

definition operations_filed :: "'s proposal_repository \<Rightarrow> 's \<Rightarrow> bool" where
  "operations_filed repo s \<longleftrightarrow>
     (\<forall>k op. rp_get_operation repo s k = Some op \<longrightarrow> ao_operation_id op = k)"

lemma operations_filedD:
  "operations_filed repo s \<Longrightarrow> rp_get_operation repo s k = Some op \<Longrightarrow> ao_operation_id op = k"
  by (simp add: operations_filed_def)

text \<open>An executor works on proposals and leaves the queue alone.\<close>

definition keeps_operations :: "'s proposal_repository \<Rightarrow> 's executor \<Rightarrow> bool" where
  "keeps_operations repo exec \<longleftrightarrow>
     (\<forall>s. rp_get_operation repo (fst (exec s)) = rp_get_operation repo s)"

definition finished :: "async_operation_record \<Rightarrow> bool" where
  "finished op \<longleftrightarrow> ao_status op \<in> set ASYNC_TERMINAL_STATUSES \<and>
     ao_lease_expires_at op = None \<and> ao_finished_at op \<noteq> None"

lemma finished_marks [simp]:
  "finished (mark_operation_succeeded op r t)" "finished (mark_operation_failed op c m t)"
  by (simp_all add: finished_def mark_operation_succeeded_def mark_operation_failed_def
      ASYNC_TERMINAL_STATUSES_def)

lemma mark_fields [simp]:
  "ao_operation_id (mark_operation_succeeded op r t) = ao_operation_id op"
  "ao_operation_id (mark_operation_failed op c m t) = ao_operation_id op"
  "ao_operation_id (begin_async_attempt op t l) = ao_operation_id op"
  "ao_operation_id (fst (apply_runtime_exception_outcome op e t)) = ao_operation_id op"
  "ao_attempt_count (mark_operation_succeeded op r t) = ao_attempt_count op"
  "ao_attempt_count (mark_operation_failed op c m t) = ao_attempt_count op"
  "ao_attempt_count (begin_async_attempt op t l) = ao_attempt_count op + 1"
  "ao_attempt_count (fst (apply_runtime_exception_outcome op e t)) = ao_attempt_count op"
  "ao_max_attempts (mark_operation_succeeded op r t) = ao_max_attempts op"
  "ao_max_attempts (mark_operation_failed op c m t) = ao_max_attempts op"
  "ao_max_attempts (begin_async_attempt op t l) = ao_max_attempts op"
  "ao_max_attempts (fst (apply_runtime_exception_outcome op e t)) = ao_max_attempts op"
  by (simp_all add: mark_operation_succeeded_def mark_operation_failed_def
      begin_async_attempt_def apply_runtime_exception_outcome_def Let_def)

lemma runtime_outcome:
  "snd (apply_runtime_exception_outcome op e t) = (ao_attempt_count op < ao_max_attempts op)"
  "\<not> snd (apply_runtime_exception_outcome op e t) \<Longrightarrow>
     finished (fst (apply_runtime_exception_outcome op e t))"
  "snd (apply_runtime_exception_outcome op e t) \<Longrightarrow>
     ao_status (fst (apply_runtime_exception_outcome op e t)) = PENDING"
  by (auto simp: apply_runtime_exception_outcome_def Let_def finished_def
      ASYNC_TERMINAL_STATUSES_def split: if_splits)

section \<open>One turn of the loop\<close>

context operation_repository
begin

lemma turn_absent:
  "rp_get_operation repo s i = None \<Longrightarrow> run_async_turn repo i turn s = (False, s)"
  by (simp add: run_async_turn_def should_stop_before_attempt_def)

lemma turn_skipped:
  "rp_get_operation repo s i = Some op \<Longrightarrow> ao_status op \<in> set ASYNC_TERMINAL_STATUSES \<Longrightarrow>
     run_async_turn repo i turn s = (False, s)"
  by (simp add: run_async_turn_def should_stop_before_attempt_def
      should_skip_async_operation_run_def)

lemma turn_exhausted:
  "rp_get_operation repo s i = Some op \<Longrightarrow> ao_status op \<notin> set ASYNC_TERMINAL_STATUSES \<Longrightarrow>
     ao_max_attempts op \<le> ao_attempt_count op \<Longrightarrow>
     run_async_turn repo i turn s = (False, rp_update_operation repo
       (mark_operation_failed op ''ProposalLifecycleError'' ''PROPOSAL_ASYNC_ATTEMPTS_EXHAUSTED''
          (tn_started turn)) s)"
  by (simp add: run_async_turn_def should_stop_before_attempt_def
      should_skip_async_operation_run_def has_exhausted_async_attempts_def
      persist_async_operation_failed_def)

text \<open>An attempt counts itself first; then the executor runs and its outcome is written.\<close>

lemma turn_attempt:
  fixes turn :: "'s executor async_turn"
  assumes "rp_get_operation repo s i = Some op"
    and "ao_status op \<notin> set ASYNC_TERMINAL_STATUSES"
    and "ao_attempt_count op < ao_max_attempts op"
  defines "b \<equiv> begin_async_attempt op (tn_started turn) ASYNC_OPERATION_LEASE_SECONDS"
  obtains op' where
    "run_async_turn repo i turn s =
       (\<not> finished op',
        rp_update_operation repo op' (fst (tn_execute turn (rp_update_operation repo b s))))"
    and "ao_operation_id op' = ao_operation_id op"
    and "ao_attempt_count op' = ao_attempt_count op + 1"
    and "ao_max_attempts op' = ao_max_attempts op"
    and "\<not> finished op' \<Longrightarrow> ao_status op' = PENDING \<and> ao_attempt_count op' < ao_max_attempts op'"
    and "snd (tn_execute turn (rp_update_operation repo b s)) = Inr resp \<Longrightarrow>
       op' = mark_operation_succeeded b resp (tn_finished turn)"
proof -
  obtain s1 out where x: "tn_execute turn (rp_update_operation repo b s) = (s1, out)"
    by (cases "tn_execute turn (rp_update_operation repo b s)")
  have run: "run_async_turn repo i turn s =
      run_async_operation_attempt repo b turn (rp_update_operation repo b s)"
    using assms(1-3)
    by (simp add: run_async_turn_def should_stop_before_attempt_def b_def
        should_skip_async_operation_run_def has_exhausted_async_attempts_def
        persist_async_attempt_started_def Let_def)
  have b: "ao_operation_id b = ao_operation_id op" "ao_attempt_count b = ao_attempt_count op + 1"
    "ao_max_attempts b = ao_max_attempts op" by (simp_all add: b_def)
  show thesis
  proof (cases out)
    case (Inr r)
    show thesis
      by (rule that [of "mark_operation_succeeded b r (tn_finished turn)"])
        (use run x Inr b in \<open>simp_all add: run_async_operation_attempt_def
           persist_async_operation_succeeded_def\<close>)
  next
    case (Inl e)
    show thesis
    proof (cases "is_lifecycle_error e")
      case True
      show thesis
        by (rule that [of "mark_operation_failed b (error_class_name e) (error_message e)
              (tn_finished turn)"])
          (use run x Inl True b in \<open>simp_all add: run_async_operation_attempt_def
             persist_async_operation_failed_def\<close>)
    next
      case False
      let ?o = "apply_runtime_exception_outcome b e (tn_finished turn)"
      have fin: "finished (fst ?o) = (\<not> snd ?o)"
        using runtime_outcome [of b e "tn_finished turn"]
        by (auto simp: finished_def ASYNC_TERMINAL_STATUSES_def)
      show thesis
        by (rule that [of "fst ?o"])
          (use run x Inl False b fin runtime_outcome [of b e "tn_finished turn"] in
            \<open>auto simp: run_async_operation_attempt_def case_prod_beta
               persist_async_runtime_exception_outcome_def\<close>)
    qed
  qed
qed

section \<open>The loop ends\<close>

text \<open>
  The variant is the number of attempts that are left. The loop ends in a finished operation that
  was attempted at most as often as allowed, and touches no other operation.
\<close>

lemma run_finishes:
  assumes "\<And>j. keeps_operations repo (tn_execute (turns j))"
    and "operations_filed repo s" and "rp_get_operation repo s i = Some op"
    and "ao_status op \<in> set ASYNC_TERMINAL_STATUSES \<Longrightarrow> finished op"
  shows "\<exists>s' op'. run_async_operation_until_terminal repo i turns n s = Some s' \<and>
    rp_get_operation repo s' i = Some op' \<and> finished op' \<and>
    ao_attempt_count op \<le> ao_attempt_count op' \<and>
    ao_attempt_count op' \<le> max (ao_attempt_count op) (ao_max_attempts op) \<and>
    ao_max_attempts op' = ao_max_attempts op \<and> ao_operation_id op' = i \<and>
    (\<forall>k. k \<noteq> i \<longrightarrow> rp_get_operation repo s' k = rp_get_operation repo s k)"
  using assms(2-)
proof (induction "nat (ao_max_attempts op - ao_attempt_count op)" arbitrary: n s op rule: less_induct)
  case less
  have id: "ao_operation_id op = i" by (rule operations_filedD [OF less.prems(1,2)])
  note unf = run_async_operation_until_terminal.simps [of repo i turns n s] Let_def
  show ?case
  proof (cases "ao_status op \<in> set ASYNC_TERMINAL_STATUSES")
    case True
    with turn_skipped [OF less.prems(2) True] less.prems(2,3) id show ?thesis by (simp add: unf)
  next
    case running: False
    show ?thesis
    proof (cases "ao_max_attempts op \<le> ao_attempt_count op")
      case True
      show ?thesis
        using turn_exhausted [OF less.prems(2) running True] id update_get
        by (auto simp: unf)
    next
      case False
      then have more: "ao_attempt_count op < ao_max_attempts op" by simp
      let ?b = "begin_async_attempt op (tn_started (turns n)) ASYNC_OPERATION_LEASE_SECONDS"
      let ?s1 = "fst (tn_execute (turns n) (rp_update_operation repo ?b s))"
      obtain op' where run: "run_async_turn repo i (turns n) s =
          (\<not> finished op', rp_update_operation repo op' ?s1)"
        and op': "ao_operation_id op' = ao_operation_id op"
          "ao_attempt_count op' = ao_attempt_count op + 1"
          "ao_max_attempts op' = ao_max_attempts op"
        and pend: "\<not> finished op' \<Longrightarrow> ao_status op' = PENDING"
        using turn_attempt [OF less.prems(2) running more, where turn = "turns n"] by metis
      let ?s2 = "rp_update_operation repo op' ?s1"
      have ex: "rp_get_operation repo ?s1 k =
          (if k = i then Some ?b else rp_get_operation repo s k)" for k
        using assms(1) [of n] update_get [of ?b s k] id by (auto simp: keeps_operations_def)
      have get: "rp_get_operation repo ?s2 k =
          (if k = i then Some op' else rp_get_operation repo s k)" for k
        using ex [of k] update_get [of op' ?s1 k] op'(1) id by auto
      show ?thesis
      proof (cases "finished op'")
        case True
        with run get op' more id show ?thesis by (auto simp: unf)
      next
        case False
        have filed: "operations_filed repo ?s2"
          using get less.prems(1) op'(1) id by (auto simp: operations_filed_def)
        have dec: "nat (ao_max_attempts op' - ao_attempt_count op') <
            nat (ao_max_attempts op - ao_attempt_count op)"
          using op' more by simp
        have "ao_status op' \<notin> set ASYNC_TERMINAL_STATUSES"
          using pend [OF False] by (simp add: ASYNC_TERMINAL_STATUSES_def)
        then obtain s' op'' where
          "run_async_operation_until_terminal repo i turns (Suc n) ?s2 = Some s'"
          "rp_get_operation repo s' i = Some op''" "finished op''"
          "ao_attempt_count op' \<le> ao_attempt_count op''"
          "ao_attempt_count op'' \<le> max (ao_attempt_count op') (ao_max_attempts op')"
          "ao_max_attempts op'' = ao_max_attempts op'" "ao_operation_id op'' = i"
          "\<forall>k. k \<noteq> i \<longrightarrow> rp_get_operation repo s' k = rp_get_operation repo ?s2 k"
          using less.hyps [OF dec filed, of "Suc n"] get by auto
        with run False op' more get show ?thesis by (auto simp: unf)
      qed
    qed
  qed
qed

lemma run_absent:
  "rp_get_operation repo s i = None \<Longrightarrow>
     run_async_operation_until_terminal repo i turns n s = Some s"
  by (simp add: run_async_operation_until_terminal.simps turn_absent)

text \<open>What the executor and the operation writes keep, the whole run keeps.\<close>

lemma turn_keeps:
  assumes "\<And>s. P s \<Longrightarrow> P (fst (tn_execute turn s))" and "\<And>op s. P s \<Longrightarrow> P (rp_update_operation repo op s)"
    and "P s"
  shows "P (snd (run_async_turn repo i turn s))"
proof -
  have att: "P (snd (run_async_operation_attempt repo op turn s))" if "P s" for op s
    using assms(1) [OF that] assms(2)
    by (cases "tn_execute turn s")
      (auto simp: run_async_operation_attempt_def persist_async_operation_succeeded_def
        persist_async_operation_failed_def persist_async_runtime_exception_outcome_def
        case_prod_beta split: sum.splits)
  show ?thesis
    using assms(2,3) att
    by (auto simp: run_async_turn_def should_stop_before_attempt_def Let_def
        persist_async_operation_failed_def persist_async_attempt_started_def split: option.splits)
qed

lemma run_keeps:
  assumes "\<And>j s. P s \<Longrightarrow> P (fst (tn_execute (turns j) s))"
    and "\<And>op s. P s \<Longrightarrow> P (rp_update_operation repo op s)"
    and "run_async_operation_until_terminal repo i turns n s = Some s'" and "P s"
  shows "P s'"
proof -
  have tk: "P (snd (run_async_turn repo j (turns m) t))" if "P t" for j m t
    by (rule turn_keeps [where P = P, OF assms(1,2) that])
  have "repo' = repo \<longrightarrow> turns' = turns \<longrightarrow> P t \<longrightarrow> P t'"
    if "run_async_operation_until_terminal repo' i' turns' m t = Some t'" for repo' i' turns' m t t'
    by (rule run_async_operation_until_terminal.raw_induct
        [where P = "\<lambda>r _ u _ t t'. r = repo \<longrightarrow> u = turns \<longrightarrow> P t \<longrightarrow> P t'", OF _ that])
      (use tk in \<open>auto simp: Let_def split: if_splits\<close>)
  with assms(3,4) show ?thesis by blast
qed

end

end
