(* ===== verification/Async_Control.thy ===== *)
theory Async_Control
  imports Async_Invariant
begin

text \<open>
  The control plane of the queue and its read views
  (src/core/proposals/async_operation_control_plane.py, async_operation_views.py,
  async_replay.py, and the control methods of service_async_operations.py): how an operation is
  classified for operators, which action an operator may take on it, what quarantining does, and
  what the status view shows.
\<close>

section \<open>Vocabulary\<close>

datatype control_action = DRY_RUN | RETRY | QUARANTINE | PAUSE_DRAIN

datatype control_status =
    CtlPending | CtlLeased | CtlRecoverableStuck | CtlRetryExhausted | CtlQuarantined
  | CtlTerminalFailed | CtlTerminalSucceeded

fun control_action_name :: "control_action \<Rightarrow> string" where
  "control_action_name DRY_RUN = ''DRY_RUN''"
| "control_action_name RETRY = ''RETRY''"
| "control_action_name QUARANTINE = ''QUARANTINE''"
| "control_action_name PAUSE_DRAIN = ''PAUSE_DRAIN''"

fun control_status_name :: "control_status \<Rightarrow> string" where
  "control_status_name CtlPending = ''PENDING''"
| "control_status_name CtlLeased = ''LEASED''"
| "control_status_name CtlRecoverableStuck = ''RECOVERABLE_STUCK''"
| "control_status_name CtlRetryExhausted = ''RETRY_EXHAUSTED''"
| "control_status_name CtlQuarantined = ''QUARANTINED''"
| "control_status_name CtlTerminalFailed = ''TERMINAL_FAILED''"
| "control_status_name CtlTerminalSucceeded = ''TERMINAL_SUCCEEDED''"

fun async_status_name :: "async_operation_status \<Rightarrow> string" where
  "async_status_name PENDING = ''PENDING''"
| "async_status_name RUNNING = ''RUNNING''"
| "async_status_name SUCCEEDED = ''SUCCEEDED''"
| "async_status_name FAILED = ''FAILED''"

record control_principal =
  cp_actor_id :: string
  cp_role :: string
  cp_tenant_id :: string
  cp_legal_entity_code :: string
  cp_service_identity :: string
  cp_capabilities :: "string list"
  cp_active :: bool

record control_filters =
  cf_control_statuses :: "control_status list"
  cf_operation_types :: "async_operation_type list"
  cf_limit :: int

record control_list_item =
  ci_operation_id :: string
  ci_operation_type :: async_operation_type
  ci_status :: async_operation_status
  ci_control_status :: control_status
  ci_correlation_id :: string
  ci_proposal_id :: "string option"
  ci_created_at :: timestamp
  ci_started_at :: "timestamp option"
  ci_lease_expires_at :: "timestamp option"
  ci_finished_at :: "timestamp option"
  ci_attempt_count :: int
  ci_max_attempts :: int

record control_decision =
  cd_allowed :: bool
  cd_action :: control_action
  cd_reason_code :: string
  cd_control_status :: control_status
  cd_target_status :: "async_operation_status option"
  cd_schedule_execution :: bool
  cd_payload_mutation_allowed :: bool
  cd_audit_event :: json_dict
  cd_idempotent_noop :: bool

definition ASYNC_OPERATION_CONTROL_CAPABILITY :: string where
  "ASYNC_OPERATION_CONTROL_CAPABILITY = ''advisory.proposals.async_operations.control''"

definition ASYNC_OPERATION_CONTROL_MAX_LIST_LIMIT :: int where
  "ASYNC_OPERATION_CONTROL_MAX_LIST_LIMIT = 50"

definition ASYNC_OPERATION_QUARANTINED_CODE :: string where
  "ASYNC_OPERATION_QUARANTINED_CODE = ''PROPOSAL_ASYNC_OPERATION_QUARANTINED''"

section \<open>Classification\<close>

definition is_quarantined :: "async_operation_record \<Rightarrow> bool" where
  "is_quarantined operation =
     (ao_status operation = FAILED \<and>
      (case ao_error_json operation of
         None \<Rightarrow> False
       | Some error \<Rightarrow> obj_get error ''code'' = JStr ASYNC_OPERATION_QUARANTINED_CODE))"

definition control_lease_has_expired :: "async_operation_record \<Rightarrow> timestamp \<Rightarrow> bool" where
  "control_lease_has_expired operation as_of =
     (ao_status operation = RUNNING \<and> ao_finished_at operation = None \<and>
      (case ao_lease_expires_at operation of None \<Rightarrow> False | Some t \<Rightarrow> t \<le> as_of))"

definition classify_async_operation_for_control ::
  "async_operation_record \<Rightarrow> timestamp \<Rightarrow> control_status" where
  "classify_async_operation_for_control operation as_of =
     (if is_quarantined operation then CtlQuarantined
      else if ao_status operation = SUCCEEDED then CtlTerminalSucceeded
      else if ao_status operation = FAILED
      then (if ao_max_attempts operation \<le> ao_attempt_count operation then CtlRetryExhausted
            else CtlTerminalFailed)
      else if ao_status operation = PENDING
      then (if ao_max_attempts operation \<le> ao_attempt_count operation then CtlRetryExhausted
            else CtlPending)
      else if control_lease_has_expired operation as_of
      then (if ao_max_attempts operation \<le> ao_attempt_count operation then CtlRetryExhausted
            else CtlRecoverableStuck)
      else CtlLeased)"

section \<open>Listing\<close>

text \<open>\<open>tuple(dict.fromkeys(xs))\<close>: the first occurrence of each value.\<close>

definition from_keys :: "'a list \<Rightarrow> 'a list" where
  "from_keys xs = rev (remdups (rev xs))"

definition normalize_async_operation_control_filters :: "control_filters \<Rightarrow> control_filters" where
  "normalize_async_operation_control_filters filters =
     \<lparr>cf_control_statuses = from_keys (cf_control_statuses filters),
      cf_operation_types = from_keys (cf_operation_types filters),
      cf_limit = max 0 (min (cf_limit filters) ASYNC_OPERATION_CONTROL_MAX_LIST_LIMIT)\<rparr>"

definition to_control_list_item :: "async_operation_record \<Rightarrow> timestamp \<Rightarrow> control_list_item" where
  "to_control_list_item operation as_of =
     \<lparr>ci_operation_id = ao_operation_id operation, ci_operation_type = ao_operation_type operation,
      ci_status = ao_status operation,
      ci_control_status = classify_async_operation_for_control operation as_of,
      ci_correlation_id = ao_correlation_id operation, ci_proposal_id = ao_proposal_id operation,
      ci_created_at = ao_created_at operation, ci_started_at = ao_started_at operation,
      ci_lease_expires_at = ao_lease_expires_at operation,
      ci_finished_at = ao_finished_at operation, ci_attempt_count = ao_attempt_count operation,
      ci_max_attempts = ao_max_attempts operation\<rparr>"

definition list_async_operations_for_control ::
  "async_operation_record list \<Rightarrow> control_filters \<Rightarrow> timestamp \<Rightarrow> control_list_item list" where
  "list_async_operations_for_control operations filters as_of =
     (let normalized = normalize_async_operation_control_filters filters in
      if cf_limit normalized \<le> 0 then []
      else let items = map (\<lambda>op. to_control_list_item op as_of)
                 (filter (\<lambda>op. ao_operation_type op \<in> set (cf_operation_types normalized)) operations);
               selected = filter (\<lambda>i. ci_control_status i \<in> set (cf_control_statuses normalized)) items
           in take (nat (cf_limit normalized))
                (sort_key (\<lambda>i. (ci_created_at i, ci_operation_id i)) selected))"

section \<open>Decisions\<close>

text \<open>
  \<open>role.upper()\<close> is compared with ASCII words only, so the ASCII letters decide.
\<close>

definition principal_is_authorized :: "control_principal \<Rightarrow> bool" where
  "principal_is_authorized caller =
     (cp_active caller \<and>
      ASYNC_OPERATION_CONTROL_CAPABILITY \<in> set (cp_capabilities caller) \<and>
      map upper_char (cp_role caller) \<in>
        set [''OPERATIONS'', ''PLATFORM_OPERATOR'', ''SUPPORT_LEAD''])"

fun retry_reason_code :: "control_status \<Rightarrow> string" where
  "retry_reason_code CtlPending = ''ASYNC_CONTROL_RETRY_ALLOWED''"
| "retry_reason_code CtlRecoverableStuck = ''ASYNC_CONTROL_RETRY_ALLOWED''"
| "retry_reason_code CtlLeased = ''ASYNC_CONTROL_RETRY_BLOCKED_BY_ACTIVE_LEASE''"
| "retry_reason_code CtlRetryExhausted = ''ASYNC_CONTROL_RETRY_BLOCKED_BY_EXHAUSTED_ATTEMPTS''"
| "retry_reason_code _ = ''ASYNC_CONTROL_RETRY_BLOCKED_BY_TERMINAL_STATE''"

fun quarantine_reason_code :: "control_status \<Rightarrow> string" where
  "quarantine_reason_code CtlQuarantined = ''ASYNC_CONTROL_ALREADY_QUARANTINED''"
| "quarantine_reason_code CtlPending = ''ASYNC_CONTROL_QUARANTINE_ALLOWED''"
| "quarantine_reason_code CtlRecoverableStuck = ''ASYNC_CONTROL_QUARANTINE_ALLOWED''"
| "quarantine_reason_code CtlRetryExhausted = ''ASYNC_CONTROL_QUARANTINE_ALLOWED''"
| "quarantine_reason_code CtlLeased = ''ASYNC_CONTROL_QUARANTINE_BLOCKED_BY_ACTIVE_LEASE''"
| "quarantine_reason_code _ = ''ASYNC_CONTROL_QUARANTINE_BLOCKED_BY_TERMINAL_STATE''"

definition control_reason_code ::
  "control_action \<Rightarrow> control_status \<Rightarrow> control_principal \<Rightarrow> string" where
  "control_reason_code action status caller =
     (if \<not> principal_is_authorized caller then ''ASYNC_CONTROL_NOT_AUTHORIZED''
      else case action of
             DRY_RUN \<Rightarrow> ''ASYNC_CONTROL_DRY_RUN_ALLOWED''
           | PAUSE_DRAIN \<Rightarrow> ''ASYNC_CONTROL_PAUSE_DRAIN_ALLOWED''
           | RETRY \<Rightarrow> retry_reason_code status
           | QUARANTINE \<Rightarrow> quarantine_reason_code status)"

definition hash_ref :: "(string \<Rightarrow> string) \<Rightarrow> string \<Rightarrow> string \<Rightarrow> string" where
  "hash_ref sha kind value =
     hash_canonical_payload sha (JObj [(''kind'', JStr kind), (''value'', JStr value)])"

definition build_control_audit_event ::
  "(string \<Rightarrow> string) \<Rightarrow> async_operation_record \<Rightarrow> control_action \<Rightarrow> control_principal \<Rightarrow>
   timestamp \<Rightarrow> string \<Rightarrow> string \<Rightarrow> control_status \<Rightarrow> string \<Rightarrow> json_dict" where
  "build_control_audit_event sha operation action caller as_of idempotency_key reason status
       decision =
     [(''event_type'', JStr ''PROPOSAL_ASYNC_OPERATION_CONTROL_DECISION''),
      (''operation_ref_hash'', JStr (hash_ref sha ''operation'' (ao_operation_id operation))),
      (''correlation_ref_hash'', JStr (hash_ref sha ''correlation'' (ao_correlation_id operation))),
      (''proposal_ref_hash'',
         (case ao_proposal_id operation of
            None \<Rightarrow> JNull
          | Some p \<Rightarrow> if p = [] then JNull else JStr (hash_ref sha ''proposal'' p))),
      (''actor_ref_hash'', JStr (hash_ref sha ''actor'' (cp_actor_id caller))),
      (''service_identity_hash'',
         JStr (hash_ref sha ''service_identity'' (cp_service_identity caller))),
      (''idempotency_key_hash'', JStr (hash_ref sha ''idempotency_key'' idempotency_key)),
      (''reason_hash'', JStr (hash_ref sha ''reason'' reason)),
      (''action'', JStr (control_action_name action)), (''decision'', JStr decision),
      (''operation_type'', JStr (async_operation_type_name (ao_operation_type operation))),
      (''operation_status'', JStr (async_status_name (ao_status operation))),
      (''control_status'', JStr (control_status_name status)),
      (''attempt_count'', JInt (ao_attempt_count operation)),
      (''max_attempts'', JInt (ao_max_attempts operation)),
      (''occurred_at'', JStr (isoformat as_of)), (''payload_mutation_allowed'', JBool False),
      (''audit_payload_version'', JStr ''proposal_async_operation_control_decision.v1'')]"

definition evaluate_async_operation_control ::
  "(string \<Rightarrow> string) \<Rightarrow> async_operation_record \<Rightarrow> control_action \<Rightarrow> control_principal \<Rightarrow>
   timestamp \<Rightarrow> string \<Rightarrow> string \<Rightarrow> control_decision" where
  "evaluate_async_operation_control sha operation action caller as_of idempotency_key reason =
     (let status = classify_async_operation_for_control operation as_of;
          reason_code = control_reason_code action status caller;
          allowed = reason_code \<in>
            set [''ASYNC_CONTROL_DRY_RUN_ALLOWED'', ''ASYNC_CONTROL_RETRY_ALLOWED'',
                 ''ASYNC_CONTROL_QUARANTINE_ALLOWED'', ''ASYNC_CONTROL_ALREADY_QUARANTINED'',
                 ''ASYNC_CONTROL_PAUSE_DRAIN_ALLOWED'']
      in \<lparr>cd_allowed = allowed, cd_action = action, cd_reason_code = reason_code,
          cd_control_status = status,
          cd_target_status = (if allowed \<and> action = QUARANTINE then Some FAILED else None),
          cd_schedule_execution = (allowed \<and> action = RETRY),
          cd_payload_mutation_allowed = False,
          cd_audit_event = build_control_audit_event sha operation action caller as_of
            idempotency_key reason status reason_code,
          cd_idempotent_noop = (reason_code = ''ASYNC_CONTROL_ALREADY_QUARANTINED'')\<rparr>)"

definition build_quarantined_async_operation ::
  "async_operation_record \<Rightarrow> control_decision \<Rightarrow> timestamp \<Rightarrow> string + async_operation_record" where
  "build_quarantined_async_operation operation decision finished_at =
     (if \<not> cd_allowed decision \<or> cd_action decision \<noteq> QUARANTINE
      then Inl ''ASYNC_CONTROL_QUARANTINE_DECISION_REQUIRED''
      else if cd_idempotent_noop decision then Inr operation
      else Inr (operation\<lparr>ao_status := FAILED, ao_lease_expires_at := None,
             ao_finished_at := Some finished_at, ao_result_json := None,
             ao_error_json := Some
               [(''code'', JStr ASYNC_OPERATION_QUARANTINED_CODE),
                (''message'', JStr ASYNC_OPERATION_QUARANTINED_CODE),
                (''audit_event'', JObj (cd_audit_event decision))]\<rparr>))"

section \<open>The control methods of the service\<close>

definition list_for_control ::
  "'s proposal_repository \<Rightarrow> control_filters \<Rightarrow> timestamp \<Rightarrow> 's \<Rightarrow> control_list_item list" where
  "list_for_control repo filters as_of s =
     list_async_operations_for_control
       (rp_list_operations_for_control repo s as_of (Some ASYNC_OPERATION_CONTROL_MAX_LIST_LIMIT))
       filters as_of"

definition evaluate_control ::
  "(string \<Rightarrow> string) \<Rightarrow> 's proposal_repository \<Rightarrow> string \<Rightarrow> control_action \<Rightarrow> control_principal \<Rightarrow>
   string \<Rightarrow> string \<Rightarrow> timestamp \<Rightarrow> 's \<Rightarrow> proposal_error + control_decision" where
  "evaluate_control sha repo operation_id action caller idempotency_key reason now s =
     (case rp_get_operation repo s operation_id of
        None \<Rightarrow> Inl (ProposalNotFoundError ''ASYNC_OPERATION_NOT_FOUND'')
      | Some operation \<Rightarrow> Inr (evaluate_async_operation_control sha operation action caller now
                            idempotency_key reason))"

text \<open>The clock is read for the decision and again for the end of the operation.\<close>

definition quarantine_controlled_operation ::
  "(string \<Rightarrow> string) \<Rightarrow> 's proposal_repository \<Rightarrow> string \<Rightarrow> control_principal \<Rightarrow> string \<Rightarrow> string \<Rightarrow>
   timestamp \<Rightarrow> timestamp \<Rightarrow> 's \<Rightarrow> proposal_error + (control_decision \<times> 's)" where
  "quarantine_controlled_operation sha repo operation_id caller idempotency_key reason now
       finished_at s =
     (case rp_get_operation repo s operation_id of
        None \<Rightarrow> Inl (ProposalNotFoundError ''ASYNC_OPERATION_NOT_FOUND'')
      | Some operation \<Rightarrow>
          let decision = evaluate_async_operation_control sha operation QUARANTINE caller now
                           idempotency_key reason in
          if cd_allowed decision \<and> \<not> cd_idempotent_noop decision
          then rbind (rmap_error PyValueError
                   (build_quarantined_async_operation operation decision finished_at))
                 (\<lambda>op. Inr (decision, rp_update_operation repo op s))
          else Inr (decision, s))"

section \<open>Read views\<close>

record async_status_response =
  sv_operation_id :: string
  sv_operation_type :: async_operation_type
  sv_status :: async_operation_status
  sv_correlation_id :: string
  sv_idempotency_key :: "string option"
  sv_proposal_id :: "string option"
  sv_created_by :: string
  sv_created_at :: string
  sv_started_at :: "string option"
  sv_finished_at :: "string option"
  sv_attempt_count :: int
  sv_max_attempts :: int
  sv_lease_expires_at :: "string option"
  sv_result :: "json_dict option"
  sv_error :: "json_dict option"

text \<open>The stored result is the dump of a create response; it is shown in its JSON form.\<close>

definition to_async_status_response :: "async_operation_record \<Rightarrow> async_status_response" where
  "to_async_status_response operation =
     \<lparr>sv_operation_id = ao_operation_id operation, sv_operation_type = ao_operation_type operation,
      sv_status = ao_status operation, sv_correlation_id = ao_correlation_id operation,
      sv_idempotency_key = ao_idempotency_key operation,
      sv_proposal_id = ao_proposal_id operation, sv_created_by = ao_created_by operation,
      sv_created_at = isoformat (ao_created_at operation),
      sv_started_at = map_option isoformat (ao_started_at operation),
      sv_finished_at = map_option isoformat (ao_finished_at operation),
      sv_attempt_count = ao_attempt_count operation, sv_max_attempts = ao_max_attempts operation,
      sv_lease_expires_at = map_option isoformat (ao_lease_expires_at operation),
      sv_result = ao_result_json operation, sv_error = ao_error_json operation\<rparr>"

definition build_async_operation_status_view ::
  "'s proposal_repository \<Rightarrow> 's \<Rightarrow> string \<Rightarrow> proposal_error + async_status_response" where
  "build_async_operation_status_view repo s operation_id =
     (case rp_get_operation repo s operation_id of
        None \<Rightarrow> Inl (ProposalNotFoundError ''PROPOSAL_ASYNC_OPERATION_NOT_FOUND'')
      | Some operation \<Rightarrow> Inr (to_async_status_response operation))"

definition build_async_operation_correlation_view ::
  "'s proposal_repository \<Rightarrow> 's \<Rightarrow> string \<Rightarrow> proposal_error + async_status_response" where
  "build_async_operation_correlation_view repo s correlation_id =
     (case rp_get_operation_by_correlation repo s correlation_id of
        None \<Rightarrow> Inl (ProposalNotFoundError ''PROPOSAL_ASYNC_OPERATION_NOT_FOUND'')
      | Some operation \<Rightarrow> Inr (to_async_status_response operation))"

record async_replay_referents =
  ar_proposal :: "proposal_record option"
  ar_version :: "proposal_version_record option"
  ar_events :: "workflow_event_record list option"

definition load_result_version ::
  "'s proposal_repository \<Rightarrow> 's \<Rightarrow> async_operation_record \<Rightarrow> string \<Rightarrow>
   proposal_version_record option" where
  "load_result_version repo s operation proposal_id =
     (case extract_async_result_version_no operation of
        None \<Rightarrow> None
      | Some version_no \<Rightarrow> rp_get_version repo s proposal_id version_no)"

definition load_succeeded_version ::
  "'s proposal_repository \<Rightarrow> 's \<Rightarrow> async_operation_record \<Rightarrow> string \<Rightarrow> proposal_record option \<Rightarrow>
   proposal_version_record option" where
  "load_succeeded_version repo s operation proposal_id proposal =
     (if proposal = None \<or> ao_status operation \<noteq> SUCCEEDED then None
      else case load_result_version repo s operation proposal_id of
             Some v \<Rightarrow> Some v
           | None \<Rightarrow> rp_get_current_version repo s proposal_id)"

definition load_async_operation_replay_referents ::
  "'s proposal_repository \<Rightarrow> 's \<Rightarrow> async_operation_record \<Rightarrow> async_replay_referents" where
  "load_async_operation_replay_referents repo s operation =
     (case ao_proposal_id operation of
        None \<Rightarrow> \<lparr>ar_proposal = None, ar_version = None, ar_events = None\<rparr>
      | Some proposal_id \<Rightarrow>
          let proposal = rp_get_proposal repo s proposal_id
          in \<lparr>ar_proposal = proposal,
              ar_version = load_succeeded_version repo s operation proposal_id proposal,
              ar_events = (if proposal = None then None
                           else Some (rp_list_events repo s proposal_id))\<rparr>)"

section \<open>What the control plane guarantees\<close>

lemma control_lease_expired:
  "control_lease_has_expired op t = running_operation_lease_has_expired op t"
  by (simp add: control_lease_has_expired_def running_operation_lease_has_expired_def)

text \<open>The classification agrees with recovery: retriable means recoverable with attempts left.\<close>

lemma retriable_iff:
  "classify_async_operation_for_control op t \<in> {CtlPending, CtlRecoverableStuck} \<longleftrightarrow>
     operation_is_recoverable op t \<and> \<not> has_exhausted_async_attempts op"
  by (cases "ao_status op")
    (auto simp: classify_async_operation_for_control_def is_quarantined_def
      operation_is_recoverable_def operation_is_pending_def has_exhausted_async_attempts_def
      control_lease_expired running_operation_lease_has_expired_def)

lemma retry_code_allowed:
  "(retry_reason_code st = ''ASYNC_CONTROL_RETRY_ALLOWED'') = (st \<in> {CtlPending, CtlRecoverableStuck})"
  by (cases st) simp_all

lemma control_codes:
  "retry_reason_code st \<notin> {''ASYNC_CONTROL_DRY_RUN_ALLOWED'', ''ASYNC_CONTROL_QUARANTINE_ALLOWED'',
     ''ASYNC_CONTROL_ALREADY_QUARANTINED'', ''ASYNC_CONTROL_PAUSE_DRAIN_ALLOWED''}"
  "quarantine_reason_code st \<notin> {''ASYNC_CONTROL_DRY_RUN_ALLOWED'', ''ASYNC_CONTROL_RETRY_ALLOWED'',
     ''ASYNC_CONTROL_PAUSE_DRAIN_ALLOWED''}"
  by (cases st; simp)+

lemma retry_scheduled_iff:
  "cd_schedule_execution (evaluate_async_operation_control sha op action caller t key reason) \<longleftrightarrow>
     action = RETRY \<and> principal_is_authorized caller \<and> operation_is_recoverable op t \<and>
     \<not> has_exhausted_async_attempts op"
  using retriable_iff [of op t] control_codes(1) [of "classify_async_operation_for_control op t"]
    retry_code_allowed [of "classify_async_operation_for_control op t"]
  by (auto simp: evaluate_async_operation_control_def control_reason_code_def Let_def
      split: control_action.splits)

text \<open>A quarantined operation is finished, and no finished operation is recovered.\<close>

lemma quarantined_operation:
  assumes "cd_allowed d" and "cd_action d = QUARANTINE" and "\<not> cd_idempotent_noop d"
  shows "\<exists>op'. build_quarantined_async_operation op d t = Inr op' \<and> is_quarantined op' \<and>
    finished op' \<and> ao_operation_id op' = ao_operation_id op \<and>
    ao_payload_json op' = ao_payload_json op \<and> ao_attempt_count op' = ao_attempt_count op \<and>
    \<not> operation_is_recoverable op' u"
  using assms
  by (simp add: build_quarantined_async_operation_def is_quarantined_def finished_def
      ASYNC_TERMINAL_STATUSES_def operation_is_recoverable_def operation_is_pending_def
      running_operation_lease_has_expired_def)

context operation_repository
begin

lemma quarantine_stops_operation:
  assumes "operations_filed repo s"
    and "quarantine_controlled_operation sha repo i caller key reason now fin s = Inr (d, s')"
    and "cd_allowed d"
  shows "\<exists>op. rp_get_operation repo s' i = Some op \<and> is_quarantined op \<and>
    run_async_operation_until_terminal repo i turns n s' = Some s'"
proof -
  obtain op where op: "rp_get_operation repo s i = Some op"
    using assms(2) by (auto simp: quarantine_controlled_operation_def split: option.splits)
  let ?d = "evaluate_async_operation_control sha op QUARANTINE caller now key reason"
  have d: "d = ?d"
    using assms(2) op
    by (auto simp: quarantine_controlled_operation_def Let_def rbind_eq_Inr split: if_splits)
  have stop: "run_async_operation_until_terminal repo i turns n s' = Some s'"
    if "rp_get_operation repo s' i = Some o1" "is_quarantined o1" for o1
    using turn_skipped [OF that(1)] that(2)
    by (simp add: run_async_operation_until_terminal.simps is_quarantined_def
        ASYNC_TERMINAL_STATUSES_def)
  show ?thesis
  proof (cases "cd_idempotent_noop ?d")
    case True
    then have "s' = s" using assms(2) op
      by (simp add: quarantine_controlled_operation_def Let_def)
    moreover have "is_quarantined op"
      using True
      by (cases "classify_async_operation_for_control op now")
        (auto simp: evaluate_async_operation_control_def control_reason_code_def Let_def
          classify_async_operation_for_control_def split: if_splits)
    ultimately show ?thesis using op stop by blast
  next
    case False
    have "cd_action ?d = QUARANTINE" by (simp add: evaluate_async_operation_control_def Let_def)
    with False d assms(3) obtain o1 where o1: "build_quarantined_async_operation op ?d fin = Inr o1"
      "is_quarantined o1" "ao_operation_id o1 = ao_operation_id op"
      using quarantined_operation [of ?d op fin] by auto
    then have "s' = rp_update_operation repo o1 s"
      using assms(2,3) op d False by (simp add: quarantine_controlled_operation_def Let_def)
    with o1 operations_filedD [OF assms(1) op] update_get show ?thesis using stop by auto
  qed
qed

end

end
