(* ===== verification/Async_System.thy ===== *)
theory Async_System
  imports Lifecycle_System Async_Control
begin

text \<open>
  The queue and the commands together (src/core/proposals/service_async_operations.py,
  service.py): the executor of an operation is the create or version command of the service, so a
  worker is one more client of the lifecycle. It keeps every invariant of the lifecycle, its loop
  always ends, and an operation that is run again after a crash does not create a second proposal.
\<close>

section \<open>The executors\<close>

text \<open>What one attempt draws: the clock, the date and the identifiers.\<close>

record attempt_env =
  te_started :: timestamp
  te_now :: timestamp
  te_finished :: timestamp
  te_today :: string
  te_ids :: fresh_ids

definition create_executor ::
  "service_env \<Rightarrow> 's proposal_repository \<Rightarrow> attempt_env \<Rightarrow> 's create_executor" where
  "create_executor env repo t payload key correlation_id lineage s =
     (case create_proposal_command (se_sha env) (se_engine env) (se_resolver env) (te_today t)
             (se_settings env) repo payload (Some key) correlation_id DIRECT_CREATE None lineage None
             (te_now t) (te_ids t) s of
        Inl err \<Rightarrow> (s, Inl err)
      | Inr (response, s') \<Rightarrow> (s', Inr response))"

definition version_executor ::
  "service_env \<Rightarrow> 's proposal_repository \<Rightarrow> attempt_env \<Rightarrow> 's version_executor" where
  "version_executor env repo t proposal_id payload correlation_id lineage s =
     create_proposal_version (se_sha env) (se_engine env) (se_resolver env) (te_today t)
       (se_settings env) repo proposal_id payload correlation_id lineage None (te_now t) (te_ids t) s"

definition attempt_turn :: "attempt_env \<Rightarrow> 'x \<Rightarrow> 'x async_turn" where
  "attempt_turn t x = \<lparr>tn_started = te_started t, tn_finished = te_finished t, tn_execute = x\<rparr>"

lemma attempt_turn_simps [simp]:
  "tn_started (attempt_turn t x) = te_started t" "tn_finished (attempt_turn t x) = te_finished t"
  "tn_execute (attempt_turn t x) = x"
  by (simp_all add: attempt_turn_def)

text \<open>The two execution methods of the service.\<close>

definition execute_create_proposal ::
  "service_env \<Rightarrow> (json_dict \<Rightarrow> create_request option) \<Rightarrow> 's proposal_repository \<Rightarrow> string \<Rightarrow>
   create_request option \<Rightarrow> string option \<Rightarrow> string option \<Rightarrow> timestamp \<Rightarrow>
   (nat \<Rightarrow> attempt_env) \<Rightarrow> 's \<Rightarrow> 's option" where
  "execute_create_proposal env model_validate repo operation_id payload key correlation_id now ts s =
     execute_create_proposal_async_operation repo model_validate operation_id payload key
       correlation_id now (\<lambda>i. attempt_turn (ts i) (create_executor env repo (ts i))) s"

definition execute_create_version ::
  "service_env \<Rightarrow> (json_dict \<Rightarrow> version_request option) \<Rightarrow> 's proposal_repository \<Rightarrow> string \<Rightarrow>
   string option \<Rightarrow> version_request option \<Rightarrow> string option \<Rightarrow> timestamp \<Rightarrow>
   (nat \<Rightarrow> attempt_env) \<Rightarrow> 's \<Rightarrow> 's option" where
  "execute_create_version env model_validate repo operation_id proposal_id payload correlation_id
       now ts s =
     execute_create_version_async_operation repo model_validate operation_id proposal_id payload
       correlation_id now (\<lambda>i. attempt_turn (ts i) (version_executor env repo (ts i))) s"

definition recover_pending ::
  "service_env \<Rightarrow> (json_dict \<Rightarrow> create_request option) \<Rightarrow> (json_dict \<Rightarrow> version_request option) \<Rightarrow>
   's proposal_repository \<Rightarrow> int \<Rightarrow> timestamp \<Rightarrow> (nat \<Rightarrow> nat \<Rightarrow> attempt_env) \<Rightarrow> 's \<Rightarrow>
   ('s \<times> int) option" where
  "recover_pending env validate_create validate_version repo max_operations now ts s =
     recover_async_operation_batch repo max_operations now
       (\<lambda>n operation_id. execute_create_proposal env validate_create repo operation_id None None None
          now (ts n))
       (\<lambda>n operation_id. execute_create_version env validate_version repo operation_id None None None
          now (ts n)) s"

section \<open>The commands leave the queue alone\<close>

context operation_repository
begin

lemma create_executor_keeps:
  "keeps_operations repo (create_executor env repo t payload key corr lineage)"
  unfolding keeps_operations_def
proof
  fix s
  show "rp_get_operation repo (fst (create_executor env repo t payload key corr lineage s)) =
      rp_get_operation repo s"
  proof (cases "create_proposal_command (se_sha env) (se_engine env) (se_resolver env) (te_today t)
             (se_settings env) repo payload (Some key) corr DIRECT_CREATE None lineage None
             (te_now t) (te_ids t) s")
    case (Inr x)
    obtain r s' where cmd: "create_proposal_command (se_sha env) (se_engine env) (se_resolver env)
        (te_today t) (se_settings env) repo payload (Some key) corr DIRECT_CREATE None lineage None
        (te_now t) (te_ids t) s = Inr (r, s')"
      using Inr by (cases x) simp
    from cmd have "rp_get_operation repo s' = rp_get_operation repo s"
      by (cases rule: create_command_cases) (auto dest: commands_keep_operations)
    then show ?thesis by (simp add: create_executor_def cmd)
  qed (simp add: create_executor_def)
qed

lemma version_executor_keeps:
  "keeps_operations repo (version_executor env repo t pid payload corr lineage)"
  unfolding keeps_operations_def
proof
  fix s
  obtain s' out where cmd: "create_proposal_version (se_sha env) (se_engine env) (se_resolver env)
      (te_today t) (se_settings env) repo pid payload corr lineage None (te_now t) (te_ids t) s =
      (s', out)" by (cases "create_proposal_version (se_sha env) (se_engine env) (se_resolver env)
      (te_today t) (se_settings env) repo pid payload corr lineage None (te_now t) (te_ids t) s")
  from cmd have "rp_get_operation repo s' = rp_get_operation repo s"
  proof (cases rule: version_command_cases)
    case (created p v s1 e p' r)
    with commands_keep_operations(1) [OF created(3)] commands_keep_operations(3) [OF created(6)]
    show ?thesis by simp
  qed (auto dest: commands_keep_operations)
  then show "rp_get_operation repo (fst (version_executor env repo t pid payload corr lineage s)) =
      rp_get_operation repo s"
    by (simp add: version_executor_def cmd)
qed

end

section \<open>Every execution ends\<close>

text \<open>
  What the queue keeps: an operation is filed under its identifier, is never attempted more often
  than allowed, and a terminal status comes with an end time and without a lease.
\<close>

definition queue_inv :: "'s proposal_repository \<Rightarrow> 's \<Rightarrow> bool" where
  "queue_inv repo s \<longleftrightarrow> (\<forall>k op. rp_get_operation repo s k = Some op \<longrightarrow>
     ao_operation_id op = k \<and> ao_attempt_count op \<le> ao_max_attempts op \<and>
     (ao_status op \<in> set ASYNC_TERMINAL_STATUSES \<longrightarrow> finished op))"

lemma queue_invD:
  "queue_inv repo s \<Longrightarrow> rp_get_operation repo s k = Some op \<Longrightarrow>
     ao_operation_id op = k \<and> ao_attempt_count op \<le> ao_max_attempts op \<and>
     (ao_status op \<in> set ASYNC_TERMINAL_STATUSES \<longrightarrow> finished op)"
  by (simp add: queue_inv_def)

lemma queue_inv_filed: "queue_inv repo s \<Longrightarrow> operations_filed repo s"
  by (simp add: queue_inv_def operations_filed_def)

context operation_repository
begin

lemma queue_inv_update:
  assumes "queue_inv repo s" and "finished op" and "ao_attempt_count op \<le> ao_max_attempts op"
  shows "queue_inv repo (rp_update_operation repo op s)"
  using assms by (simp add: queue_inv_def update_get)

lemma queue_inv_create:
  assumes "queue_inv repo s" and "ao_status op = PENDING"
    and "ao_attempt_count op \<le> ao_max_attempts op"
  shows "queue_inv repo (rp_create_operation repo op s)"
  using assms by (simp add: queue_inv_def create_operation_get ASYNC_TERMINAL_STATUSES_def)

text \<open>A run ends, finishes its operation and keeps the queue.\<close>

lemma run_ends:
  assumes "\<And>j. keeps_operations repo (tn_execute (turns j))" and "queue_inv repo s"
  shows "\<exists>s'. run_async_operation_until_terminal repo i turns n s = Some s' \<and> queue_inv repo s' \<and>
    (\<forall>op. rp_get_operation repo s i = Some op \<longrightarrow>
       (\<exists>op'. rp_get_operation repo s' i = Some op' \<and> finished op' \<and>
          ao_attempt_count op \<le> ao_attempt_count op' \<and> ao_max_attempts op' = ao_max_attempts op)) \<and>
    (\<forall>k. k \<noteq> i \<longrightarrow> rp_get_operation repo s' k = rp_get_operation repo s k)"
proof (cases "rp_get_operation repo s i")
  case None
  with run_absent [OF None] assms(2) show ?thesis by auto
next
  case (Some op)
  note op = queue_invD [OF assms(2) Some]
  then have fin: "ao_status op \<in> set ASYNC_TERMINAL_STATUSES \<Longrightarrow> finished op" by simp
  obtain s' op' where run: "run_async_operation_until_terminal repo i turns n s = Some s'"
    "rp_get_operation repo s' i = Some op'" "finished op'"
    "ao_attempt_count op \<le> ao_attempt_count op'"
    "ao_attempt_count op' \<le> max (ao_attempt_count op) (ao_max_attempts op)"
    "ao_max_attempts op' = ao_max_attempts op" "ao_operation_id op' = i"
    "\<forall>k. k \<noteq> i \<longrightarrow> rp_get_operation repo s' k = rp_get_operation repo s k"
    using run_finishes [where n = n and turns = turns, OF assms(1) queue_inv_filed [OF assms(2)] Some fin] by blast
  have "queue_inv repo s'"
    unfolding queue_inv_def
  proof (intro allI impI)
    fix k o1
    assume o1: "rp_get_operation repo s' k = Some o1"
    show "ao_operation_id o1 = k \<and> ao_attempt_count o1 \<le> ao_max_attempts o1 \<and>
        (ao_status o1 \<in> set ASYNC_TERMINAL_STATUSES \<longrightarrow> finished o1)"
    proof (cases "k = i")
      case True
      with o1 run(2,3,5,6,7) op show ?thesis by simp
    next
      case False
      with o1 run(8) show ?thesis using queue_invD [OF assms(2), of k o1] by simp
    qed
  qed
  with run Some show ?thesis by auto
qed

end

section \<open>Operations are executed to their end\<close>

text \<open>What holds of the queue after the operation \<open>i\<close> was executed.\<close>

definition executed_to_end :: "'s proposal_repository \<Rightarrow> string \<Rightarrow> 's \<Rightarrow> 's \<Rightarrow> bool" where
  "executed_to_end repo i s s' \<longleftrightarrow> queue_inv repo s' \<and>
    (\<forall>op. rp_get_operation repo s i = Some op \<longrightarrow>
       (\<exists>op'. rp_get_operation repo s' i = Some op' \<and> finished op' \<and>
          ao_attempt_count op \<le> ao_attempt_count op' \<and> ao_max_attempts op' = ao_max_attempts op)) \<and>
    (\<forall>k. k \<noteq> i \<longrightarrow> rp_get_operation repo s' k = rp_get_operation repo s k)"

context operation_repository
begin

lemma failed_to_end:
  assumes inv: "queue_inv repo s" and op: "rp_get_operation repo s i = Some op"
  shows "executed_to_end repo i s (persist_async_operation_failed repo op c m t s)"
proof -
  note o = queue_invD [OF inv op]
  have "queue_inv repo (persist_async_operation_failed repo op c m t s)"
    using queue_inv_update [OF inv] o by (simp add: persist_async_operation_failed_def)
  with op o show ?thesis
    by (simp add: executed_to_end_def persist_async_operation_failed_def update_get)
qed

lemma execute_create_ends:
  assumes inv: "queue_inv repo s"
  shows "\<exists>s'. execute_create_proposal env mv repo i q key corr now ts s = Some s' \<and>
    executed_to_end repo i s s'"
proof (cases "rp_get_operation repo s i")
  case None
  with inv show ?thesis
    by (simp add: execute_create_proposal_def execute_create_proposal_async_operation_def
        executed_to_end_def)
next
  case (Some op)
  show ?thesis
  proof (cases "resolve_async_create_payload mv op q key")
    case (Inl m)
    with Some failed_to_end [OF inv Some] show ?thesis
      by (simp add: execute_create_proposal_def execute_create_proposal_async_operation_def
          resolve_create_async_payload_or_fail_def)
  next
    case (Inr r)
    have ex: "execute_create_proposal env mv repo i q key corr now ts s =
        run_async_operation_until_terminal repo i
          (\<lambda>j. \<lparr>tn_started = te_started (ts j), tn_finished = te_finished (ts j),
             tn_execute = create_executor env repo (ts j) (fst r) (snd r)
               (attempt_correlation_id corr op) (Some (build_async_replay_lineage op))\<rparr>) 0 s"
      using Some Inr
      by (cases r) (simp add: execute_create_proposal_def
          execute_create_proposal_async_operation_def resolve_create_async_payload_or_fail_def)
    show ?thesis
      unfolding ex executed_to_end_def by (rule run_ends) (simp_all add: create_executor_keeps inv)
  qed
qed

lemma execute_version_ends:
  assumes inv: "queue_inv repo s"
  shows "\<exists>s'. execute_create_version env mv repo i pid q corr now ts s = Some s' \<and>
    executed_to_end repo i s s'"
proof (cases "rp_get_operation repo s i")
  case None
  with inv show ?thesis
    by (simp add: execute_create_version_def execute_create_version_async_operation_def
        executed_to_end_def)
next
  case (Some op)
  show ?thesis
  proof (cases "resolve_async_version_payload mv op pid q")
    case (Inl m)
    with Some failed_to_end [OF inv Some] show ?thesis
      by (simp add: execute_create_version_def execute_create_version_async_operation_def
          resolve_version_async_payload_or_fail_def)
  next
    case (Inr r)
    have ex: "execute_create_version env mv repo i pid q corr now ts s =
        run_async_operation_until_terminal repo i
          (\<lambda>j. \<lparr>tn_started = te_started (ts j), tn_finished = te_finished (ts j),
             tn_execute = version_executor env repo (ts j) (fst r) (snd r)
               (attempt_correlation_id corr op) (Some (build_async_replay_lineage op))\<rparr>) 0 s"
      using Some Inr
      by (cases r) (simp add: execute_create_version_def
          execute_create_version_async_operation_def resolve_version_async_payload_or_fail_def)
    show ?thesis
      unfolding ex executed_to_end_def by (rule run_ends) (simp_all add: version_executor_keeps inv)
  qed
qed

text \<open>A recovery batch ends as well, with every operation of the batch finished.\<close>

lemma executed_to_end_finished:
  assumes "executed_to_end repo i s s'" and "rp_get_operation repo s k = Some op" and "finished op"
  shows "\<exists>op'. rp_get_operation repo s' k = Some op' \<and> finished op'"
  using assms by (cases "k = i") (auto simp: executed_to_end_def)

lemma executed_to_end_same:
  assumes "executed_to_end repo i s s'" and "k \<noteq> i"
  shows "rp_get_operation repo s' k = rp_get_operation repo s k"
  using assms by (simp add: executed_to_end_def)

lemma recover_operations_end:
  assumes create: "\<And>n i s. queue_inv repo s \<Longrightarrow>
      \<exists>s'. run_create n i s = Some s' \<and> executed_to_end repo i s s'"
    and version: "\<And>n i s. queue_inv repo s \<Longrightarrow>
      \<exists>s'. run_version n i s = Some s' \<and> executed_to_end repo i s s'"
    and "queue_inv repo s" and "distinct (map (ao_operation_id \<circ> fst) ops)"
    and "\<forall>(op, kind) \<in> set ops. rp_get_operation repo s (ao_operation_id op) = Some op \<and> kind \<noteq> None"
  shows "\<exists>s'. recover_operations repo now run_create run_version ops n s = Some (s', int (length ops)) \<and>
    queue_inv repo s' \<and>
    (\<forall>(op, kind) \<in> set ops. \<exists>op'. rp_get_operation repo s' (ao_operation_id op) = Some op' \<and>
       finished op') \<and>
    (\<forall>k. k \<notin> (ao_operation_id \<circ> fst) ` set ops \<longrightarrow>
       rp_get_operation repo s' k = rp_get_operation repo s k)"
  using assms(3-)
proof (induction ops arbitrary: n s)
  case Nil
  then show ?case by simp
next
  case (Cons x ops)
  obtain op kind where x: "x = (op, kind)" by (cases x)
  then have op: "rp_get_operation repo s (ao_operation_id op) = Some op" and kind: "kind \<noteq> None"
    using Cons.prems(3) by auto
  have "\<exists>t. executed_to_end repo (ao_operation_id op) s t \<and>
      recover_operations repo now run_create run_version (x # ops) n s =
        map_option (\<lambda>(s', c). (s', c + 1))
          (recover_operations repo now run_create run_version ops (Suc n) t)"
  proof (cases "kind = Some CREATE_PROPOSAL")
    case True
    with create [OF Cons.prems(1), of n "ao_operation_id op"] show ?thesis by (auto simp: x)
  next
    case False
    with kind have "kind = Some CREATE_PROPOSAL_VERSION"
      by (metis async_operation_type.exhaust not_None_eq)
    with version [OF Cons.prems(1), of n "ao_operation_id op"] show ?thesis by (auto simp: x)
  qed
  then obtain t where ended: "executed_to_end repo (ao_operation_id op) s t"
    and step: "recover_operations repo now run_create run_version (x # ops) n s =
        map_option (\<lambda>(s', c). (s', c + 1))
          (recover_operations repo now run_create run_version ops (Suc n) t)" by blast
  have inv: "queue_inv repo t" using ended by (simp add: executed_to_end_def)
  have d: "distinct (map (ao_operation_id \<circ> fst) ops)"
    and new: "ao_operation_id op \<notin> (ao_operation_id \<circ> fst) ` set ops"
    using Cons.prems(2) by (simp_all add: x comp_def)
  have rest: "\<forall>(o1, kd) \<in> set ops. rp_get_operation repo t (ao_operation_id o1) = Some o1 \<and> kd \<noteq> None"
  proof (clarify, intro conjI)
    fix o1 kd
    assume o1: "(o1, kd) \<in> set ops"
    then have "ao_operation_id o1 \<noteq> ao_operation_id op" using new by force
    with o1 Cons.prems(3) show "rp_get_operation repo t (ao_operation_id o1) = Some o1"
      using executed_to_end_same [OF ended, of "ao_operation_id o1"] by auto
    from o1 Cons.prems(3) show "kd \<noteq> None" by auto
  qed
  obtain s' where s': "recover_operations repo now run_create run_version ops (Suc n) t =
      Some (s', int (length ops))" "queue_inv repo s'"
    "\<forall>(o1, kd) \<in> set ops. \<exists>op'. rp_get_operation repo s' (ao_operation_id o1) = Some op' \<and> finished op'"
    "\<forall>k. k \<notin> (ao_operation_id \<circ> fst) ` set ops \<longrightarrow>
       rp_get_operation repo s' k = rp_get_operation repo t k"
    using Cons.IH [OF inv d rest, of "Suc n"] by blast
  have first: "\<exists>op'. rp_get_operation repo s' (ao_operation_id op) = Some op' \<and> finished op'"
    using s'(4) new ended op by (auto simp: executed_to_end_def)
  have frame: "rp_get_operation repo s' k = rp_get_operation repo s k"
    if "k \<notin> (ao_operation_id \<circ> fst) ` set (x # ops)" for k
    using that s'(4) executed_to_end_same [OF ended, of k] by (simp add: x)
  show ?case
    using s'(1-3) first frame step by (simp add: x)
qed

end

section \<open>A worker is one more client\<close>

text \<open>
  The queue records are no part of the lifecycle: a write to the queue keeps the invariants of the
  proposals, and what an execution does to the proposals is what its commands do.
\<close>

definition same_proposals :: "'s proposal_repository \<Rightarrow> 's \<Rightarrow> 's \<Rightarrow> bool" where
  "same_proposals repo s t \<longleftrightarrow> rp_get_proposal repo t = rp_get_proposal repo s \<and>
     rp_list_events repo t = rp_list_events repo s \<and>
     rp_get_version repo t = rp_get_version repo s \<and>
     rp_get_idempotency repo t = rp_get_idempotency repo s"

lemma system_inv_same: "same_proposals repo s t \<Longrightarrow> system_inv repo t = system_inv repo s"
  by (simp add: same_proposals_def system_inv_def lifecycle_inv_def log_ok_def versions_inv_def
      consent_inv_def split: option.split)

lemma logs_extend_same: "same_proposals repo s t \<Longrightarrow> logs_extend repo r t = logs_extend repo r s"
  by (simp add: same_proposals_def logs_extend_def)

lemma same_proposals_refl [simp]: "same_proposals repo s s"
  by (simp add: same_proposals_def)

text \<open>
  What a create run may do: nothing to the proposals, or one proposal under the identifier that one
  of its attempts drew, with the idempotency key recorded.
\<close>

definition created_at_most_one ::
  "'s proposal_repository \<Rightarrow> string set \<Rightarrow> string option \<Rightarrow> 's \<Rightarrow> 's \<Rightarrow> bool" where
  "created_at_most_one repo ids key s t \<longleftrightarrow>
     rp_get_proposal repo t = rp_get_proposal repo s \<and>
     rp_get_idempotency repo t = rp_get_idempotency repo s \<or>
     (\<exists>k. key = Some k \<and> rp_get_idempotency repo s k = None \<and> rp_get_idempotency repo t k \<noteq> None \<and>
       (\<exists>pid \<in> ids. \<forall>j. j \<noteq> pid \<longrightarrow> rp_get_proposal repo t j = rp_get_proposal repo s j))"

context operation_repository
begin

lemma queue_write_same: "same_proposals repo s (rp_update_operation repo op s)"
  using update_frame by (simp add: same_proposals_def)

lemma queue_create_same: "same_proposals repo s (rp_create_operation repo op s)"
  using create_operation_frame by (simp add: same_proposals_def)

lemma create_executor_effect:
  fixes env t payload key corr lineage
  assumes inv: "system_inv repo s"
    and fresh: "rp_get_proposal repo s (fi_proposal_id (te_ids t)) = None"
  defines "s' \<equiv> fst (create_executor env repo t payload key corr lineage s)"
  shows "system_inv repo s' \<and> logs_extend repo s s' \<and>
    created_at_most_one repo {fi_proposal_id (te_ids t)}
      (normalize_optional_idempotency_key (Some key)) s s'"
proof (cases "create_proposal_command (se_sha env) (se_engine env) (se_resolver env) (te_today t)
             (se_settings env) repo payload (Some key) corr DIRECT_CREATE None lineage None
             (te_now t) (te_ids t) s")
  case (Inl err)
  then have "s' = s" by (simp add: s'_def create_executor_def)
  with inv show ?thesis by (simp add: logs_extend_refl created_at_most_one_def)
next
  case (Inr x)
  obtain r u where cmd: "create_proposal_command (se_sha env) (se_engine env) (se_resolver env)
      (te_today t) (se_settings env) repo payload (Some key) corr DIRECT_CREATE None lineage None
      (te_now t) (te_ids t) s = Inr (r, u)"
    using Inr by (cases x) simp
  then have u: "s' = u" by (simp add: s'_def create_executor_def)
  let ?c = "CreateProposal payload (Some key) corr DIRECT_CREATE None lineage None (te_today t)
    (te_now t) (te_ids t)"
  have "command_ok repo s ?c" "fst (run_command env repo s ?c) = u"
    using fresh cmd by (simp_all add: commit_def)
  then have "system_inv repo u" "logs_extend repo s u"
    using system_step [OF inv, of ?c env] system_later [OF inv, of ?c env] by simp_all
  moreover have "created_at_most_one repo {fi_proposal_id (te_ids t)}
      (normalize_optional_idempotency_key (Some key)) s u"
    using cmd
  proof (cases rule: create_command_cases)
    case (replay k existing)
    then show ?thesis by (simp add: created_at_most_one_def)
  next
    case (created k cs v)
    have "pr_proposal_id (cs_proposal cs) = fi_proposal_id (te_ids t)"
      using prepare_created_fields(1) [OF created(3)]
      by (metis build_proposal_record_def proposal_record.simps(1))
    then show ?thesis
      using created(1,2) create_get [OF created(4)] create_key_stored [OF cmd created(1,2)]
      by (auto simp: created_at_most_one_def)
  qed
  ultimately show ?thesis by (simp add: u)
qed

text \<open>With the key on record the executor changes nothing.\<close>

lemma create_executor_replays:
  assumes "normalize_optional_idempotency_key (Some key) = Some k"
    and "rp_get_idempotency repo s k \<noteq> None"
  shows "fst (create_executor env repo t payload key corr lineage s) = s"
proof (cases "create_proposal_command (se_sha env) (se_engine env) (se_resolver env) (te_today t)
             (se_settings env) repo payload (Some key) corr DIRECT_CREATE None lineage None
             (te_now t) (te_ids t) s")
  case (Inl err)
  then show ?thesis by (simp add: create_executor_def)
next
  case (Inr x)
  obtain r u where cmd: "create_proposal_command (se_sha env) (se_engine env) (se_resolver env)
      (te_today t) (se_settings env) repo payload (Some key) corr DIRECT_CREATE None lineage None
      (te_now t) (te_ids t) s = Inr (r, u)"
    using Inr by (cases x) simp
  from cmd have "u = s"
    by (cases rule: create_command_cases) (use assms in auto)
  with cmd show ?thesis by (simp add: create_executor_def)
qed

lemma version_executor_effect:
  fixes env t pid payload corr lineage
  assumes inv: "system_inv repo s"
  defines "s' \<equiv> fst (version_executor env repo t pid payload corr lineage s)"
  shows "system_inv repo s' \<and> logs_extend repo s s'"
proof -
  let ?c = "CreateVersion pid payload corr lineage None (te_today t) (te_now t) (te_ids t)"
  have "fst (run_command env repo s ?c) = s'"
    by (simp add: s'_def version_executor_def split: prod.splits sum.splits)
  moreover have "command_ok repo s ?c" by simp
  ultimately show ?thesis
    using system_step [OF inv, of ?c env] system_later [OF inv, of ?c env] by simp
qed

end

section \<open>What an execution does to the proposals\<close>

definition fresh_attempts :: "'s proposal_repository \<Rightarrow> 's \<Rightarrow> (nat \<Rightarrow> attempt_env) \<Rightarrow> bool" where
  "fresh_attempts repo s ts \<longleftrightarrow>
     (\<forall>i. rp_get_proposal repo s (fi_proposal_id (te_ids (ts i))) = None)"

definition attempt_ids :: "(nat \<Rightarrow> attempt_env) \<Rightarrow> string set" where
  "attempt_ids ts = range (\<lambda>i. fi_proposal_id (te_ids (ts i)))"

definition kept_and_created ::
  "'s proposal_repository \<Rightarrow> string set \<Rightarrow> string option \<Rightarrow> 's \<Rightarrow> 's \<Rightarrow> bool" where
  "kept_and_created repo ids key s t \<longleftrightarrow>
     system_inv repo t \<and> logs_extend repo s t \<and> created_at_most_one repo ids key s t"

lemma kept_and_created_same:
  "same_proposals repo t u \<Longrightarrow> kept_and_created repo ids key s t \<Longrightarrow> kept_and_created repo ids key s u"
  using system_inv_same [of repo t u] logs_extend_same [of repo t u s]
  by (simp add: kept_and_created_def created_at_most_one_def same_proposals_def)

context operation_repository
begin

lemma create_attempt_effect:
  assumes fresh: "fresh_attempts repo s ts"
    and t: "kept_and_created repo (attempt_ids ts) (normalize_optional_idempotency_key (Some key)) s t"
  shows "kept_and_created repo (attempt_ids ts) (normalize_optional_idempotency_key (Some key)) s
    (fst (create_executor env repo (ts j) payload key corr lineage t))"
    (is "kept_and_created repo ?ids ?key s ?u")
proof (cases "rp_get_proposal repo t = rp_get_proposal repo s \<and>
    rp_get_idempotency repo t = rp_get_idempotency repo s")
  case True
  let ?pid = "fi_proposal_id (te_ids (ts j))"
  have inv: "system_inv repo t" and st: "logs_extend repo s t"
    using t by (simp_all add: kept_and_created_def)
  have "rp_get_proposal repo t ?pid = None"
    using True fresh by (simp add: fresh_attempts_def)
  then have eff: "system_inv repo ?u \<and> logs_extend repo t ?u \<and>
      created_at_most_one repo {?pid} ?key t ?u"
    by (rule create_executor_effect [OF inv])
  then have "created_at_most_one repo {?pid} ?key s ?u"
    using True by (simp add: created_at_most_one_def)
  then have "created_at_most_one repo ?ids ?key s ?u"
    by (auto simp: created_at_most_one_def attempt_ids_def)
  with eff logs_extend_trans [OF st, of ?u] show ?thesis by (simp add: kept_and_created_def)
next
  case False
  then obtain k where "?key = Some k" "rp_get_idempotency repo t k \<noteq> None"
    using t by (auto simp: kept_and_created_def created_at_most_one_def)
  with t show ?thesis using create_executor_replays [of key k t env "ts j"] by simp
qed

text \<open>All attempts of a create run together store at most one proposal.\<close>

lemma execute_create_effect:
  assumes inv: "system_inv repo s" and fresh: "fresh_attempts repo s ts"
    and run: "execute_create_proposal env mv repo i q key corr now ts s = Some s'"
  shows "\<exists>k. kept_and_created repo (attempt_ids ts) k s s'"
proof -
  have start: "kept_and_created repo (attempt_ids ts) k s s" for k
    using inv by (simp add: kept_and_created_def logs_extend_refl created_at_most_one_def)
  show ?thesis
  proof (cases "rp_get_operation repo s i")
    case None
    with run start show ?thesis
      by (auto simp: execute_create_proposal_def execute_create_proposal_async_operation_def)
  next
    case (Some op)
    show ?thesis
    proof (cases "resolve_async_create_payload mv op q key")
      case (Inl m)
      with run Some start kept_and_created_same [OF queue_write_same] show ?thesis
        by (auto simp: execute_create_proposal_def execute_create_proposal_async_operation_def
            resolve_create_async_payload_or_fail_def persist_async_operation_failed_def)
    next
      case (Inr r)
      let ?turns = "\<lambda>j. \<lparr>tn_started = te_started (ts j), tn_finished = te_finished (ts j),
        tn_execute = create_executor env repo (ts j) (fst r) (snd r)
          (attempt_correlation_id corr op) (Some (build_async_replay_lineage op))\<rparr>"
      have "run_async_operation_until_terminal repo i ?turns 0 s = Some s'"
        using run Some Inr
        by (cases r) (simp add: execute_create_proposal_def
            execute_create_proposal_async_operation_def resolve_create_async_payload_or_fail_def)
      then have "kept_and_created repo (attempt_ids ts)
          (normalize_optional_idempotency_key (Some (snd r))) s s'"
        by (rule run_keeps [rotated 2])
          (use start create_attempt_effect [OF fresh] kept_and_created_same [OF queue_write_same]
            in auto)
      then show ?thesis by blast
    qed
  qed
qed

text \<open>An operation whose key is on record creates nothing when it is run again.\<close>

lemma execute_create_again:
  assumes op: "rp_get_operation repo s i = Some op"
    and payload: "resolve_async_create_payload mv op q key = Inr (request, raw)"
    and k: "normalize_optional_idempotency_key (Some raw) = Some k"
    and stored: "rp_get_idempotency repo s k \<noteq> None"
    and run: "execute_create_proposal env mv repo i q key corr now ts s = Some s'"
  shows "same_proposals repo s s'"
proof -
  let ?turns = "\<lambda>j. \<lparr>tn_started = te_started (ts j), tn_finished = te_finished (ts j),
    tn_execute = create_executor env repo (ts j) request raw
      (attempt_correlation_id corr op) (Some (build_async_replay_lineage op))\<rparr>"
  have loop: "run_async_operation_until_terminal repo i ?turns 0 s = Some s'"
    using run op payload
    by (simp add: execute_create_proposal_def execute_create_proposal_async_operation_def
        resolve_create_async_payload_or_fail_def)
  have ex: "same_proposals repo s (fst (tn_execute (?turns j) t))"
    if "same_proposals repo s t" for j t
  proof -
    have "rp_get_idempotency repo t k \<noteq> None" using that stored by (simp add: same_proposals_def)
    with that show ?thesis using create_executor_replays [OF k] by simp
  qed
  have up: "same_proposals repo s (rp_update_operation repo o1 t)"
    if "same_proposals repo s t" for o1 t
    using that queue_write_same [of t o1] by (simp add: same_proposals_def)
  show ?thesis
    by (rule run_keeps [where P = "same_proposals repo s", OF ex up loop]) simp_all
qed

lemma execute_version_effect:
  assumes inv: "system_inv repo s"
    and run: "execute_create_version env mv repo i pid q corr now ts s = Some s'"
  shows "system_inv repo s' \<and> logs_extend repo s s'"
proof -
  have start: "system_inv repo s \<and> logs_extend repo s s" using inv by (simp add: logs_extend_refl)
  have upd: "system_inv repo (rp_update_operation repo o1 t) \<and>
      logs_extend repo s (rp_update_operation repo o1 t)"
    if "system_inv repo t \<and> logs_extend repo s t" for o1 t
    using that system_inv_same [OF queue_write_same [of t o1]]
      logs_extend_same [OF queue_write_same [of t o1], of s] by simp
  show ?thesis
  proof (cases "rp_get_operation repo s i")
    case None
    with run start show ?thesis
      by (simp add: execute_create_version_def execute_create_version_async_operation_def)
  next
    case (Some op)
    show ?thesis
    proof (cases "resolve_async_version_payload mv op pid q")
      case (Inl m)
      with run Some start upd show ?thesis
        by (auto simp: execute_create_version_def execute_create_version_async_operation_def
            resolve_version_async_payload_or_fail_def persist_async_operation_failed_def)
    next
      case (Inr r)
      let ?turns = "\<lambda>j. \<lparr>tn_started = te_started (ts j), tn_finished = te_finished (ts j),
        tn_execute = version_executor env repo (ts j) (fst r) (snd r)
          (attempt_correlation_id corr op) (Some (build_async_replay_lineage op))\<rparr>"
      have loop: "run_async_operation_until_terminal repo i ?turns 0 s = Some s'"
        using run Some Inr
        by (cases r) (simp add: execute_create_version_def
            execute_create_version_async_operation_def resolve_version_async_payload_or_fail_def)
      have ex: "system_inv repo (fst (tn_execute (?turns j) t)) \<and>
          logs_extend repo s (fst (tn_execute (?turns j) t))"
        if "system_inv repo t \<and> logs_extend repo s t" for j t
        using that version_executor_effect [of t env "ts j" "fst r" "snd r"]
        by (auto intro: logs_extend_trans)
      show ?thesis
        by (rule run_keeps [where P = "\<lambda>t. system_inv repo t \<and> logs_extend repo s t",
              OF ex upd loop start])
    qed
  qed
qed

end

section \<open>Recovery on the in-memory repository\<close>

lemma distinct_operation_ids:
  assumes wf: "dict_wf d" and filed: "\<And>k op. dict_get d k = Some op \<Longrightarrow> ao_operation_id op = k"
  shows "distinct (map ao_operation_id (dict_values d))"
proof -
  have "map ao_operation_id (dict_values d) = map fst d"
    using wf filed by (auto simp: dict_values_def dict_get_def dict_wf_def)
  with wf show ?thesis by (simp add: dict_wf_def)
qed

lemma distinct_recoverable:
  assumes "distinct (map f ops)"
  shows "distinct (map f (recoverable_operations ops t limit))"
proof -
  let ?rs = "sort_key operation_sort_key (recoverable_operation_rows ops t)"
  have "distinct (map f (recoverable_operation_rows ops t))"
    using assms by (auto simp: recoverable_operation_rows_def distinct_map intro: inj_on_subset)
  then have "distinct (map f ?rs)" by (simp add: distinct_map)
  then have "distinct (map f (limited_records ?rs limit))"
    by (auto simp: limited_records_def py_take_def take_map [symmetric] split: option.split)
  then show ?thesis by (simp add: recoverable_operations_def)
qed

lemma recover_pending_ends:
  fixes now m
  assumes inv: "queue_inv in_memory_repository s" and wf: "dict_wf (ps_operations s)"
  defines "batch \<equiv> mem_list_recoverable_operations s now (Some m)"
  shows "\<exists>s'. recover_pending env vc vv in_memory_repository m now ts s =
      Some (s', int (length batch)) \<and> queue_inv in_memory_repository s' \<and>
    list_all (\<lambda>op. \<exists>op'. mem_get_operation s' (ao_operation_id op) = Some op' \<and> finished op') batch \<and>
    (\<forall>k. k \<notin> ao_operation_id ` set batch \<longrightarrow> mem_get_operation s' k = mem_get_operation s k)"
proof -
  let ?ops = "load_recoverable_async_operation_read_models in_memory_repository s now (Some m)"
  have filed: "dict_get (ps_operations s) k = Some op \<Longrightarrow> ao_operation_id op = k" for k op
    using queue_invD [OF inv, of k op] by (simp add: mem_get_operation_def)
  have ids: "map (ao_operation_id \<circ> fst) ?ops = map ao_operation_id batch" "length ?ops = length batch"
    by (simp_all add: load_recoverable_async_operation_read_models_def batch_def comp_def)
  have d: "distinct (map (ao_operation_id \<circ> fst) ?ops)"
    unfolding ids batch_def mem_list_recoverable_operations_def
    using distinct_recoverable distinct_operation_ids [OF wf filed] by blast
  have known: "\<forall>(op, kind) \<in> set ?ops.
      rp_get_operation in_memory_repository s (ao_operation_id op) = Some op \<and> kind \<noteq> None"
  proof (clarify, intro conjI)
    fix op kind
    assume in_ops: "(op, kind) \<in> set ?ops"
    then have "op \<in> set (recoverable_operations (dict_values (ps_operations s)) now (Some m))"
      by (auto simp: load_recoverable_async_operation_read_models_def
          mem_list_recoverable_operations_def)
    then obtain k where "dict_get (ps_operations s) k = Some op"
      using dict_values_get [OF wf] recoverable_operations_sound by blast
    then show "rp_get_operation in_memory_repository s (ao_operation_id op) = Some op"
      using filed by (simp add: mem_get_operation_def)
    show "kind \<noteq> None"
      using in_ops by (cases "ao_operation_type op")
        (auto simp: load_recoverable_async_operation_read_models_def)
  qed
  note ended = memo.recover_operations_end [where s = s and ops = ?ops and n = 0 and now = now and
    run_create = "\<lambda>n i. execute_create_proposal env vc in_memory_repository i None None None now (ts n)" and
    run_version = "\<lambda>n i. execute_create_version env vv in_memory_repository i None None None now (ts n)",
    OF memo.execute_create_ends memo.execute_version_ends inv d known]
  from ended obtain s' where s': "recover_operations in_memory_repository now
      (\<lambda>n i. execute_create_proposal env vc in_memory_repository i None None None now (ts n))
      (\<lambda>n i. execute_create_version env vv in_memory_repository i None None None now (ts n)) ?ops 0 s =
      Some (s', int (length ?ops))" "queue_inv in_memory_repository s'"
    "\<forall>(op, kind) \<in> set ?ops. \<exists>op'. rp_get_operation in_memory_repository s' (ao_operation_id op) =
       Some op' \<and> finished op'"
    "\<forall>k. k \<notin> (ao_operation_id \<circ> fst) ` set ?ops \<longrightarrow>
       rp_get_operation in_memory_repository s' k = rp_get_operation in_memory_repository s k"
    by blast
  have set_ids: "(ao_operation_id \<circ> fst) ` set ?ops = ao_operation_id ` set batch"
    using arg_cong [OF ids(1), of set] by simp
  have "list_all (\<lambda>op. \<exists>op'. mem_get_operation s' (ao_operation_id op) = Some op' \<and> finished op') batch"
    using s'(3) by (auto simp: list_all_iff batch_def load_recoverable_async_operation_read_models_def)
  then show ?thesis
    using s'(1,2,4) set_ids ids(2) by (simp add: recover_pending_def recover_async_operation_batch_def)
qed

end
