(* ===== verification/Canonical_Injective.thy ===== *)
theory Canonical_Injective
  imports Canonical_Json
begin

text \<open>
  The canonical text determines the value (src/core/common/canonical.py). The text of a value is
  self-delimiting: read in front of a comma, a closing bracket or the end, it can be cut off in
  one way only. So two values with the same canonical text are equal up to the order of the keys
  of their objects, and the request hashes identify the requests.
\<close>

section \<open>Values that json.dumps writes\<close>

text \<open>
  The text of a float is what \<open>float.__repr__\<close> (or \<open>NaN\<close>, \<open>Infinity\<close>) gives: it starts like a
  number and has a character that no integer has.
\<close>

definition digit_chars :: string where
  "digit_chars = ''0123456789''"

definition int_chars :: string where
  "int_chars = CHR ''-'' # digit_chars"

definition stop_chars :: string where
  "stop_chars = '',]}''"

definition float_text :: "string \<Rightarrow> bool" where
  "float_text t \<longleftrightarrow> t \<noteq> [] \<and> hd t \<in> set (''NI'' @ int_chars) \<and>
     list_all (\<lambda>c. c \<notin> set stop_chars) t \<and> list_ex (\<lambda>c. c \<notin> set int_chars) t"

fun json_ok :: "json \<Rightarrow> bool" where
  "json_ok (JFloat t) = float_text t"
| "json_ok (JArr xs) = list_all json_ok xs"
| "json_ok (JObj d) = list_all (\<lambda>(k, v). json_ok v) d"
| "json_ok v = True"

section \<open>Characters and strings\<close>

lemma hex_char_inj: "m < 16 \<Longrightarrow> n < 16 \<Longrightarrow> hex_char m = hex_char n \<Longrightarrow> m = n"
proof -
  assume "m < 16" "n < 16" "hex_char m = hex_char n"
  then have "(of_char (hex_char m) :: nat) = of_char (hex_char n)" by simp
  with \<open>m < 16\<close> \<open>n < 16\<close> show "m = n" by (simp add: hex_char_def split: if_splits)
qed

lemma u_escape_inj: "u_escape c @ x = u_escape d @ y \<Longrightarrow> c = d \<and> x = y"
proof -
  assume eq: "u_escape c @ x = u_escape d @ y"
  have "(of_char c :: nat) < 16 * 16" "(of_char d :: nat) < 16 * 16"
    using nat_of_char_less_256 [of c] nat_of_char_less_256 [of d] by simp_all
  then have "(of_char c :: nat) div 16 < 16" "(of_char d :: nat) div 16 < 16"
    by (simp_all add: less_mult_imp_div_less)
  with eq have "(of_char c :: nat) div 16 = of_char d div 16" "(of_char c :: nat) mod 16 = of_char d mod 16"
    using hex_char_inj [of "of_char c mod 16" "of_char d mod 16"]
    by (auto simp: u_escape_def dest: hex_char_inj)
  then have "(of_char c :: nat) = of_char d" by (metis div_mult_mod_eq)
  with eq show ?thesis by (simp add: u_escape_def)
qed

lemma json_escape_inj: "json_escape c @ x = json_escape d @ y \<Longrightarrow> c = d \<and> x = y"
proof -
  assume eq: "json_escape c @ x = json_escape d @ y"
  show ?thesis
  proof (cases "json_escape c = u_escape c \<and> json_escape d = u_escape d")
    case True
    with eq show ?thesis by (metis u_escape_inj)
  next
    case False
    with eq show ?thesis
      unfolding json_escape_def u_escape_def by (auto split: if_splits)
  qed
qed

lemma json_escape_not_quote: "\<exists>a as. json_escape c = a # as \<and> a \<noteq> CHR 0x22"
  by (auto simp: json_escape_def u_escape_def)

lemma json_quote_body_inj:
  "concat (map json_escape s) @ CHR 0x22 # x = concat (map json_escape t) @ CHR 0x22 # y \<Longrightarrow>
     s = t \<and> x = y"
proof (induction s arbitrary: t)
  case Nil
  then show ?case
    using json_escape_not_quote by (cases t) (auto, metis append_Cons list.inject)
next
  case (Cons c s)
  show ?case
  proof (cases t)
    case Nil
    with Cons.prems json_escape_not_quote [of c] show ?thesis by auto
  next
    case t: (Cons d t')
    with Cons.prems have "json_escape c @ (concat (map json_escape s) @ CHR 0x22 # x) =
        json_escape d @ (concat (map json_escape t') @ CHR 0x22 # y)" by simp
    from json_escape_inj [OF this] Cons.IH t show ?thesis by blast
  qed
qed

lemma json_quote_inj: "json_quote s @ x = json_quote t @ y \<Longrightarrow> s = t \<and> x = y"
  by (auto simp: json_quote_def dest!: json_quote_body_inj)

section \<open>Numbers\<close>

lemma list_all_upt: "list_all P [0..<n] \<Longrightarrow> k < n \<Longrightarrow> P k"
  by (simp add: list_all_iff)

lemma digit_char_in: "digit_char n \<in> set digit_chars"
proof -
  have "list_all (\<lambda>k :: nat. char_of (48 + k) \<in> set digit_chars) [0..<10]" by code_simp
  from list_all_upt [OF this, of "n mod 10"] show ?thesis by (simp add: digit_char_def)
qed

lemma digit_char_inj: "digit_char m = digit_char n \<Longrightarrow> m mod 10 = n mod 10"
proof -
  assume "digit_char m = digit_char n"
  then have "(of_char (digit_char m) :: nat) = of_char (digit_char n)" by simp
  then show ?thesis by (simp add: digit_char_def)
qed

lemma nat_digits_chars: "set (nat_digits n) \<subseteq> set digit_chars \<and> nat_digits n \<noteq> []"
proof (induction n rule: nat_digits.induct)
  case (1 n)
  have "set [digit_char n] \<subseteq> set digit_chars"
    using digit_char_in [of n] by simp
  with 1 show ?case by (simp add: nat_digits.simps [of n])
qed

lemma nat_digits_inj: "nat_digits m = nat_digits n \<Longrightarrow> m = n"
proof (induction m arbitrary: n rule: nat_digits.induct)
  case (1 m)
  note unf = nat_digits.simps [of m] nat_digits.simps [of n]
  have ne: "nat_digits k \<noteq> []" for k using nat_digits_chars by blast
  show ?case
  proof (cases "m < 10"; cases "n < 10")
    assume "m < 10" "n < 10"
    with "1.prems" unf show ?thesis by (auto dest: digit_char_inj)
  next
    assume "\<not> m < 10" "\<not> n < 10"
    with "1.prems" unf have "nat_digits (m div 10) = nat_digits (n div 10)"
      and "digit_char m = digit_char n" by simp_all
    with "1.IH" \<open>\<not> m < 10\<close> have "m div 10 = n div 10" "m mod 10 = n mod 10"
      by (auto dest: digit_char_inj)
    then show ?thesis by (metis div_mult_mod_eq)
  qed (use "1.prems" unf ne in \<open>auto simp: append_eq_Cons_conv Cons_eq_append_conv\<close>)
qed

lemma int_str_chars: "set (int_str n) \<subseteq> set int_chars \<and> int_str n \<noteq> []"
  using nat_digits_chars [of "nat n"] nat_digits_chars [of "nat (- n)"]
  by (auto simp: int_str_def int_chars_def)

lemma int_str_inj: "int_str m = int_str n \<Longrightarrow> m = n"
proof -
  have minus: "nat_digits k \<noteq> CHR ''-'' # x" for k x
  proof
    assume "nat_digits k = CHR ''-'' # x"
    then have "CHR ''-'' \<in> set (nat_digits k)" by simp
    with nat_digits_chars [of k] show False by (auto simp: digit_chars_def)
  qed
  assume eq: "int_str m = int_str n"
  show "m = n"
  proof (cases "m < 0"; cases "n < 0")
    assume "m < 0" "n < 0"
    with eq have "nat (- m) = nat (- n)" by (auto simp: int_str_def dest: nat_digits_inj)
    with \<open>m < 0\<close> \<open>n < 0\<close> show ?thesis by simp
  next
    assume "\<not> m < 0" "\<not> n < 0"
    with eq have "nat m = nat n" by (auto simp: int_str_def dest: nat_digits_inj)
    with \<open>\<not> m < 0\<close> \<open>\<not> n < 0\<close> show ?thesis by simp
  qed (use eq minus minus [symmetric] in \<open>simp_all add: int_str_def\<close>)
qed

section \<open>Texts in front of a delimiter\<close>

definition stops :: "string \<Rightarrow> bool" where
  "stops r \<longleftrightarrow> (case r of [] \<Rightarrow> True | c # _ \<Rightarrow> c \<in> set stop_chars)"

lemma stops_simps [simp]:
  "stops []" "stops (CHR '','' # r)" "stops (CHR '']'' # r)" "stops (CHR ''}'' # r)"
  by (simp_all add: stops_def stop_chars_def)

text \<open>A text without stop characters ends where the rest starts.\<close>

lemma token_cut:
  assumes "list_all (\<lambda>c. c \<notin> set stop_chars) t" and "list_all (\<lambda>c. c \<notin> set stop_chars) u"
    and "stops r" and "stops r'" and "t @ r = u @ r'"
  shows "t = u \<and> r = r'"
  using assms
proof (induction t arbitrary: u)
  case Nil
  then show ?case by (cases u) (auto simp: stops_def)
next
  case (Cons c t)
  show ?case
  proof (cases u)
    case Nil
    have "stops (c # t @ r)" using Cons.prems(4,5) Nil by simp
    with Cons.prems(1) show ?thesis by (simp add: stops_def)
  next
    case u: (Cons d u')
    with Cons.prems Cons.IH [of u'] show ?thesis by simp
  qed
qed

lemma join_with_concat:
  "join_with sep (x # xs) = x @ concat (map (\<lambda>y. sep @ y) xs)"
  by (induction xs arbitrary: x) auto

lemma tail_inj:
  assumes "\<And>x y r r'. x \<in> set xs \<Longrightarrow> y \<in> set ys \<Longrightarrow> stops r \<Longrightarrow> stops r' \<Longrightarrow> f x @ r = f y @ r' \<Longrightarrow>
      g x = g y \<and> r = r'"
    and "c = CHR '']'' \<or> c = CHR ''}''"
    and "concat (map (\<lambda>x. CHR '','' # f x) xs) @ c # r = concat (map (\<lambda>x. CHR '','' # f x) ys) @ c # r'"
  shows "map g xs = map g ys \<and> r = r'"
  using assms
proof (induction xs arbitrary: ys)
  case Nil
  then show ?case by (cases ys) auto
next
  case (Cons x xs)
  obtain y ys' where ys: "ys = y # ys'" using Cons.prems(2,3) by (cases ys) auto
  let ?t = "\<lambda>zs r. concat (map (\<lambda>x. CHR '','' # f x) zs) @ c # r"
  have st: "stops (?t zs r)" for zs r using Cons.prems(2) by (cases zs) auto
  have "f x @ ?t xs r = f y @ ?t ys' r'" using Cons.prems(3) ys by simp
  from Cons.prems(1) [OF _ _ st st this] ys have "g x = g y" and "?t xs r = ?t ys' r'" by auto
  with Cons.IH [of ys'] Cons.prems(1,2) ys show ?case by auto
qed

lemma join_inj:
  assumes inj: "\<And>x y r r'. x \<in> set xs \<Longrightarrow> y \<in> set ys \<Longrightarrow> stops r \<Longrightarrow> stops r' \<Longrightarrow> f x @ r = f y @ r' \<Longrightarrow>
      g x = g y \<and> r = r'"
    and ne: "\<And>x. x \<in> set xs \<union> set ys \<Longrightarrow> \<exists>a as. f x = a # as \<and> a \<noteq> c"
    and c: "c = CHR '']'' \<or> c = CHR ''}''"
    and eq: "join_with '','' (map f xs) @ c # r = join_with '','' (map f ys) @ c # r'"
  shows "map g xs = map g ys \<and> r = r'"
proof (cases xs)
  case Nil
  show ?thesis
  proof (cases ys)
    case (Cons y zs)
    then obtain a as where "f y = a # as" "a \<noteq> c" using ne [of y] by auto
    with eq Nil Cons show ?thesis by (simp add: join_with_concat)
  qed (use Nil eq in simp)
next
  case xs: (Cons x xs')
  show ?thesis
  proof (cases ys)
    case Nil
    obtain a as where "f x = a # as" "a \<noteq> c" using ne [of x] xs by auto
    with eq Nil xs show ?thesis by (simp add: join_with_concat)
  next
    case ys: (Cons y ys')
    let ?t = "\<lambda>zs r. concat (map (\<lambda>x. CHR '','' # f x) zs) @ c # r"
    have st: "stops (?t zs r)" for zs r using c by (cases zs) auto
    have "f x @ ?t xs' r = f y @ ?t ys' r'"
      using eq xs ys by (simp add: join_with_concat o_def)
    from inj [OF _ _ st st this] xs ys have "g x = g y" and tl: "?t xs' r = ?t ys' r'" by auto
    moreover have "map g xs' = map g ys' \<and> r = r'"
      by (rule tail_inj [OF inj c tl]) (use xs ys in auto)
    ultimately show ?thesis using xs ys by simp
  qed
qed

section \<open>Sorted members\<close>

lemma insort_key_map_value:
  "insort_key fst (k, f v) (map (\<lambda>(k, v). (k, f v)) d) =
     map (\<lambda>(k, v). (k, f v)) (insort_key fst (k, v) d)"
  by (induction d) auto

lemma sort_key_map_value:
  "sort_key fst (map (\<lambda>(k, v). (k, f v)) d) = map (\<lambda>(k, v). (k, f v)) (sort_key fst d)"
  by (induction d) (auto simp: insort_key_map_value)

lemma canonical_object:
  "canonical_json (JObj d) = CHR ''{'' #
     join_with '','' (map (\<lambda>(k, v). json_quote k @ CHR '':'' # canonical_json v) (sort_key fst d)) @
     CHR ''}'' # []"
proof -
  have "json_member \<circ> (\<lambda>(k, v). (k, canonical_json v)) =
      (\<lambda>(k, v). json_quote k @ CHR '':'' # canonical_json v)"
    by (auto simp: json_member_def fun_eq_iff)
  then show ?thesis by (simp only: canonical_json.simps sort_key_map_value list.map_comp) simp
qed

lemma norm_object: "json_norm (JObj d) = JObj (map (\<lambda>(k, v). (k, json_norm v)) (sort_key fst d))"
  by (simp add: sort_key_map_value)

section \<open>The first character of a text\<close>

definition first_class :: "char \<Rightarrow> nat" where
  "first_class c =
     (if c = CHR ''n'' then 0 else if c = CHR ''t'' then 1 else if c = CHR ''f'' then 2
      else if c = CHR 0x22 then 3 else if c = CHR ''['' then 4 else if c = CHR ''{'' then 5 else 6)"

fun json_class :: "json \<Rightarrow> nat" where
  "json_class JNull = 0"
| "json_class (JBool b) = (if b then 1 else 2)"
| "json_class (JStr s) = 3"
| "json_class (JArr xs) = 4"
| "json_class (JObj d) = 5"
| "json_class (JInt n) = 6"
| "json_class (JFloat t) = 6"

lemma number_class:
  "c \<in> set (''NI'' @ int_chars) \<Longrightarrow> first_class c = 6 \<and> c \<notin> set stop_chars"
  by (auto simp: first_class_def int_chars_def digit_chars_def stop_chars_def)

lemma canonical_first:
  assumes "json_ok x"
  shows "\<exists>c cs. canonical_json x = c # cs \<and> first_class c = json_class x \<and> c \<notin> set stop_chars"
proof (cases x)
  case (JInt n)
  obtain c cs where "int_str n = c # cs" using int_str_chars [of n] by (cases "int_str n") auto
  with int_str_chars [of n] JInt number_class [of c] show ?thesis by auto
next
  case (JFloat t)
  with assms obtain c cs where "t = c # cs" by (cases t) (auto simp: float_text_def)
  with assms JFloat number_class [of c] show ?thesis by (auto simp: float_text_def)
qed (auto simp: json_quote_def first_class_def stop_chars_def)

lemma float_not_int: "float_text t \<Longrightarrow> t \<noteq> int_str n"
  using int_str_chars [of n] by (auto simp: float_text_def list_ex_iff)

lemma int_str_stop: "list_all (\<lambda>c. c \<notin> set stop_chars) (int_str n)"
  using int_str_chars [of n] number_class by (auto simp: list_all_iff)

section \<open>The text determines the value\<close>

lemma canonical_cut:
  "json_ok x \<Longrightarrow> json_ok y \<Longrightarrow> stops r \<Longrightarrow> stops r' \<Longrightarrow>
     canonical_json x @ r = canonical_json y @ r' \<Longrightarrow> json_norm x = json_norm y \<and> r = r'"
proof (induction x arbitrary: y r r' rule: canonical_json.induct)
  case (6 xs)
  obtain ys where y: "y = JArr ys"
    using canonical_first [OF 6(2)] canonical_first [OF 6(3)] 6(6) by (cases y) (auto split: if_splits)
  have "map json_norm xs = map json_norm ys \<and> r = r'"
  proof (rule join_inj [where f = canonical_json and c = "CHR '']''"])
    show "json_norm u = json_norm v \<and> q = q'"
      if "u \<in> set xs" "v \<in> set ys" "stops q" "stops q'" "canonical_json u @ q = canonical_json v @ q'"
      for u v q q'
      using 6(1) [OF that(1) _ _ that(3,4,5)] 6(2,3) that(1,2) y by (simp add: list_all_iff)
    show "\<exists>a as. canonical_json u = a # as \<and> a \<noteq> CHR '']''" if "u \<in> set xs \<union> set ys" for u
      using canonical_first [of u] 6(2,3) that y by (auto simp: list_all_iff stop_chars_def)
  qed (use 6(6) y in auto)
  with y show ?case by simp
next
  case (7 d)
  obtain e where y: "y = JObj e"
    using canonical_first [OF 7(2)] canonical_first [OF 7(3)] 7(6) by (cases y) (auto split: if_splits)
  let ?f = "\<lambda>(k, v). json_quote k @ CHR '':'' # canonical_json v"
  let ?g = "\<lambda>(k, v). (k, json_norm v)"
  have "map ?g (sort_key fst d) = map ?g (sort_key fst e) \<and> r = r'"
  proof (rule join_inj [where f = ?f and c = "CHR ''}''"])
    show "?g u = ?g v \<and> q = q'"
      if "u \<in> set (sort_key fst d)" "v \<in> set (sort_key fst e)" "stops q" "stops q'" "?f u @ q = ?f v @ q'"
      for u v q q'
    proof -
      obtain k1 v1 k2 v2 where uv: "u = (k1, v1)" "v = (k2, v2)" by (cases u; cases v)
      have "k1 = k2" "canonical_json v1 @ q = canonical_json v2 @ q'"
        using that(5) uv json_quote_inj [of k1 "CHR '':'' # canonical_json v1 @ q" k2] by auto
      moreover have "json_norm v1 = json_norm v2 \<and> q = q'"
        by (rule 7(1) [of "(k1, v1)" k1 v1])
          (use that(1-4) uv 7(2,3) y \<open>canonical_json v1 @ q = canonical_json v2 @ q'\<close> in
            \<open>auto simp: list_all_iff\<close>)
      ultimately show ?thesis using uv by simp
    qed
    show "\<exists>a as. ?f u = a # as \<and> a \<noteq> CHR ''}''" for u by (cases u) (simp add: json_quote_def)
  qed (use 7(6) y in \<open>auto simp: canonical_object simp del: canonical_json.simps\<close>)
  with y show ?case by (simp add: norm_object del: json_norm.simps)
next
  case (3 n)
  show ?case
  proof (cases y)
    case (JInt m)
    with 3 token_cut [OF int_str_stop int_str_stop 3(3,4)] show ?thesis
      by (auto dest: int_str_inj)
  next
    case (JFloat t)
    with 3 token_cut [OF int_str_stop _ 3(3,4), of t] float_not_int show ?thesis
      by (auto simp: float_text_def)
  qed (use 3 canonical_first [OF 3(1)] canonical_first [OF 3(2)] in \<open>auto split: if_splits\<close>)
next
  case (4 t)
  show ?case
  proof (cases y)
    case (JInt m)
    with 4 token_cut [OF _ int_str_stop 4(3,4), of t] float_not_int show ?thesis
      by (auto simp: float_text_def)
  next
    case (JFloat u)
    with 4 token_cut [OF _ _ 4(3,4), of t u] show ?thesis by (auto simp: float_text_def)
  qed (use 4 canonical_first [OF 4(1)] canonical_first [OF 4(2)] in \<open>auto split: if_splits\<close>)
next
  case (5 s)
  obtain t where "y = JStr t"
    using canonical_first [OF 5(1)] canonical_first [OF 5(2)] 5(5) by (cases y) (auto split: if_splits)
  with 5 show ?case by (auto dest: json_quote_inj)
next
  case 1
  then have "y = JNull"
    using canonical_first [OF 1(1)] canonical_first [OF 1(2)] by (cases y) (auto split: if_splits)
  with 1 show ?case by simp
next
  case (2 b)
  have "json_class y = json_class (JBool b)"
    using canonical_first [OF 2(1)] canonical_first [OF 2(2)] 2(5) by (cases b) auto
  then have "y = JBool b" by (cases b; cases y) (auto split: if_splits)
  with 2(5) show ?case by simp
qed

text \<open>The other direction: the order of keys does not matter.\<close>

lemma canonical_norm: "canonical_json (json_norm x) = canonical_json x"
proof (induction x rule: json_norm.induct)
  case (1 d)
  let ?n = "\<lambda>(k, v). (k, json_norm v)"
  let ?q = "\<lambda>(k, v). json_quote k @ CHR '':'' # canonical_json v"
  have "sort_key fst (sort_key fst d) = sort_key fst d"
    by (rule sort_key_id_if_sorted) simp
  then have s: "sort_key fst (map ?n (sort_key fst d)) = map ?n (sort_key fst d)"
    by (simp only: sort_key_map_value)
  have "map ?q (map ?n (sort_key fst d)) = map ?q (sort_key fst d)"
    using 1 by (auto intro!: map_cong)
  then show ?case by (simp only: norm_object canonical_object s)
next
  case (2 xs)
  then have "map canonical_json (map json_norm xs) = map canonical_json xs" by simp
  then show ?case by (simp only: canonical_json.simps json_norm.simps)
qed simp_all

theorem canonical_json_injective:
  assumes "json_ok x" and "json_ok y"
  shows "(canonical_json x = canonical_json y) = json_eq x y"
proof
  assume "canonical_json x = canonical_json y"
  then show "json_eq x y"
    using canonical_cut [OF assms, of "[]" "[]"] by (simp add: json_eq_def)
next
  assume "json_eq x y"
  then show "canonical_json x = canonical_json y"
    using canonical_norm [of x] canonical_norm [of y] by (simp add: json_eq_def)
qed

text \<open>Equal objects have equal fields.\<close>

lemma map_of_sort_keys: "distinct (map fst d) \<Longrightarrow> map_of (sort_key fst d) = map_of d"
  by (simp add: map_of_inject_set distinct_map)

lemma map_of_map_value: "map_of (map (\<lambda>(k, v). (k, f v)) d) k = map_option f (map_of d k)"
  by (induction d) auto

lemma json_eq_field:
  assumes "json_eq (JObj d) (JObj e)" and "distinct (map fst d)" and "distinct (map fst e)"
  shows "json_eq (obj_get d k) (obj_get e k)"
proof -
  have "map (\<lambda>(k, v). (k, json_norm v)) (sort_key fst d) = map (\<lambda>(k, v). (k, json_norm v)) (sort_key fst e)"
    using assms(1) unfolding json_eq_def norm_object by simp
  from arg_cong [OF this, of "\<lambda>x. map_of x k"]
  have "map_option json_norm (map_of d k) = map_option json_norm (map_of e k)"
    using assms(2,3) by (simp add: map_of_map_value map_of_sort_keys)
  then show ?thesis
    by (auto simp: json_eq_def obj_get_def dict_get_def split: option.splits)
qed

end
