(* ===== verification/Queue_Properties.thy ===== *)
theory Queue_Properties
  imports Async_System Canonical_Injective Example_Run
begin

text \<open>
  What the queue of asynchronous operations promises, stated on the in-memory repository, and the
  identity of the request hashes that both the queue and the commands compare.
\<close>

section \<open>A queued create\<close>

definition queued_create :: async_operation_record where
  "queued_create = \<lparr>ao_operation_id = ''O'', ao_operation_type = CREATE_PROPOSAL,
     ao_status = PENDING, ao_correlation_id = ''c'', ao_idempotency_key = Some ''k0'',
     ao_proposal_id = None, ao_created_by = ''adv'', ao_created_at = 50,
     ao_payload_json = [(''payload'', JObj [])], ao_attempt_count = 0, ao_max_attempts = 3,
     ao_started_at = None, ao_lease_expires_at = None, ao_finished_at = None,
     ao_result_json = None, ao_error_json = None\<rparr>"

definition queued :: "proposal_store \<Rightarrow> proposal_store" where
  "queued s = rp_create_operation in_memory_repository queued_create s"

definition demo_attempt :: attempt_env where
  "demo_attempt = \<lparr>te_started = 60, te_now = 60, te_finished = 61, te_today = ''2026-01-01'',
     te_ids = demo_ids ''E0''\<rparr>"

lemma queued_get [simp]: "mem_get_operation (queued s) k =
    (if k = ''O'' then Some queued_create else mem_get_operation s k)"
  using memo.create_operation_get [of queued_create s k] by (simp add: queued_def queued_create_def)

lemma queued_same: "same_proposals in_memory_repository s (queued s)"
  unfolding queued_def by (rule memo.queue_create_same)

lemma queued_inv: "mem_get_operation s = (\<lambda>_. None) \<Longrightarrow> queue_inv in_memory_repository (queued s)"
  by (simp add: queue_inv_def queued_create_def ASYNC_TERMINAL_STATUSES_def)

lemma queued_payload: "resolve_async_create_payload (\<lambda>_. Some demo_create) queued_create None None =
    Inr (demo_create, ''k0'')"
proof -
  have "py_strip ''k0'' = ''k0''" by code_simp
  then show ?thesis by (simp add: resolve_async_create_payload_def queued_create_def)
qed

lemma finished_status: "finished op \<Longrightarrow> ao_status op \<in> {SUCCEEDED, FAILED}"
  by (simp add: finished_def ASYNC_TERMINAL_STATUSES_def)





lemma json_ok_opt_str [simp]: "json_ok (opt_str x)"
  by (cases x) simp_all

section \<open>Properties\<close>

text \<open>
  C30: A worker always finishes an operation. The retry loop of an execution ends; afterwards the
  operation is succeeded or failed, has an end time and no lease, was attempted at most as often as
  it may be, and no other operation was touched.
\<close>

theorem async_execution_ends:
  assumes "queue_inv in_memory_repository s" and "mem_get_operation s i = Some op"
  shows "\<exists>s' op'. execute_create_proposal env validate in_memory_repository i q key corr now ts s =
      Some s' \<and> mem_get_operation s' i = Some op' \<and>
    ao_status op' \<in> {SUCCEEDED, FAILED} \<and> ao_lease_expires_at op' = None \<and>
    ao_finished_at op' \<noteq> None \<and> ao_attempt_count op \<le> ao_attempt_count op' \<and>
    ao_attempt_count op' \<le> ao_max_attempts op \<and>
    (\<forall>k. k \<noteq> i \<longrightarrow> mem_get_operation s' k = mem_get_operation s k)"
proof -
  obtain s' where run: "execute_create_proposal env validate in_memory_repository i q key corr now ts s =
      Some s'" and ended: "executed_to_end in_memory_repository i s s'"
    using memo.execute_create_ends [OF assms(1)] by blast
  obtain op' where "mem_get_operation s' i = Some op'" "finished op'"
    "ao_attempt_count op \<le> ao_attempt_count op'" "ao_max_attempts op' = ao_max_attempts op"
    using ended assms(2) by (auto simp: executed_to_end_def)
  moreover from this have "ao_attempt_count op' \<le> ao_max_attempts op"
    using queue_invD [of in_memory_repository s' i op'] ended by (simp add: executed_to_end_def)
  moreover have "\<forall>k. k \<noteq> i \<longrightarrow> mem_get_operation s' k = mem_get_operation s k"
    using ended by (simp add: executed_to_end_def)
  ultimately show ?thesis using run by (simp add: finished_def ASYNC_TERMINAL_STATUSES_def)
qed

theorem async_execution_ends_witness:
  "\<exists>s' op'. execute_create_proposal demo_env (\<lambda>_. Some demo_create) in_memory_repository ''O'' None None
      None 60 (\<lambda>_. demo_attempt) (queued empty_store) = Some s' \<and>
    mem_get_operation s' ''O'' = Some op' \<and> ao_status op' \<in> {SUCCEEDED, FAILED} \<and>
    ao_attempt_count op' \<le> 3"
proof -
  have "queue_inv in_memory_repository (queued empty_store)"
    by (rule queued_inv) (simp add: mem_get_operation_def empty_store_def fun_eq_iff)
  from async_execution_ends [OF this, of "''O''" queued_create demo_env "\<lambda>_. Some demo_create"
      None None None 60 "\<lambda>_. demo_attempt"]
  show ?thesis by (auto simp: queued_create_def)
qed

text \<open>
  C31: A recovery batch terminates and leaves nothing half done: every operation the recovery
  listed, pending or with an expired lease, is finished after it, the number it reports is their
  number, and the operations it did not list are as they were.
\<close>

theorem recovery_batch_finishes:
  assumes "queue_inv in_memory_repository s" and "dict_wf (ps_operations s)"
  shows "\<exists>s'. recover_pending env validate_create validate_version in_memory_repository m now ts s =
      Some (s', int (length (mem_list_recoverable_operations s now (Some m)))) \<and>
    queue_inv in_memory_repository s' \<and>
    list_all (\<lambda>op. \<exists>op'. mem_get_operation s' (ao_operation_id op) = Some op' \<and>
        ao_status op' \<in> {SUCCEEDED, FAILED})
      (mem_list_recoverable_operations s now (Some m)) \<and>
    (\<forall>k. k \<notin> ao_operation_id ` set (mem_list_recoverable_operations s now (Some m)) \<longrightarrow>
       mem_get_operation s' k = mem_get_operation s k)"
proof -
  let ?batch = "mem_list_recoverable_operations s now (Some m)"
  obtain s' where s': "recover_pending env validate_create validate_version in_memory_repository m now
      ts s = Some (s', int (length ?batch))" "queue_inv in_memory_repository s'"
    "list_all (\<lambda>op. \<exists>op'. mem_get_operation s' (ao_operation_id op) = Some op' \<and> finished op') ?batch"
    "\<forall>k. k \<notin> ao_operation_id ` set ?batch \<longrightarrow> mem_get_operation s' k = mem_get_operation s k"
    using recover_pending_ends [OF assms, of env validate_create validate_version m now ts] by blast
  have "list_all (\<lambda>op. \<exists>op'. mem_get_operation s' (ao_operation_id op) = Some op' \<and>
      ao_status op' \<in> {SUCCEEDED, FAILED}) ?batch"
    using s'(3) by (rule list.pred_mono_strong) (use finished_status in blast)
  with s' show ?thesis by blast
qed

theorem recovery_batch_finishes_witness:
  "\<exists>s' op'. recover_pending demo_env (\<lambda>_. Some demo_create) (\<lambda>_. None) in_memory_repository 50 60
      (\<lambda>_ _. demo_attempt) (queued empty_store) = Some (s', 1) \<and>
    mem_get_operation s' ''O'' = Some op' \<and> ao_status op' \<in> {SUCCEEDED, FAILED}"
proof -
  have inv: "queue_inv in_memory_repository (queued empty_store)"
    by (rule queued_inv) (simp add: mem_get_operation_def empty_store_def fun_eq_iff)
  have ops: "ps_operations (queued empty_store) = [(''O'', queued_create)]"
    by (simp add: queued_def mem_create_operation_def store_operation_def empty_store_def
        queued_create_def)
  then have "mem_list_recoverable_operations (queued empty_store) 60 (Some 50) = [queued_create]"
    by (simp add: mem_list_recoverable_operations_def recoverable_operations_def
        non_positive_limit_def limited_records_def recoverable_operation_rows_def dict_values_def
        operation_is_recoverable_def operation_is_pending_def queued_create_def py_take_def)
  with recovery_batch_finishes [OF inv, of demo_env "\<lambda>_. Some demo_create" "\<lambda>_. None" 50 60
      "\<lambda>_ _. demo_attempt"] ops
  show ?thesis by (auto simp: dict_wf_def queued_create_def)
qed

text \<open>
  C32: However often its attempts are repeated, a queued create stores at most one proposal, and a
  worker is a client like any other: the invariants of the service hold after its run, and every
  log only grew.
\<close>

theorem create_run_creates_once:
  assumes "system_inv in_memory_repository s" and "fresh_attempts in_memory_repository s ts"
    and "execute_create_proposal env validate in_memory_repository i q key corr now ts s = Some s'"
  shows "system_inv in_memory_repository s' \<and> logs_extend in_memory_repository s s' \<and>
    (\<exists>pid. \<forall>k. k \<noteq> pid \<longrightarrow> mem_get_proposal s' k = mem_get_proposal s k)"
  using memo.execute_create_effect [OF assms]
  by (auto simp: kept_and_created_def created_at_most_one_def)

theorem create_run_creates_once_witness:
  "\<exists>s'. execute_create_proposal demo_env (\<lambda>_. Some demo_create) in_memory_repository ''O'' None None
      None 60 (\<lambda>_. demo_attempt) (queued empty_store) = Some s' \<and> system_inv in_memory_repository s'"
proof -
  have inv: "queue_inv in_memory_repository (queued empty_store)"
    by (rule queued_inv) (simp add: mem_get_operation_def empty_store_def fun_eq_iff)
  obtain s' where run: "execute_create_proposal demo_env (\<lambda>_. Some demo_create) in_memory_repository ''O''
      None None None 60 (\<lambda>_. demo_attempt) (queued empty_store) = Some s'"
    using memo.execute_create_ends [OF inv] by blast
  have "system_inv in_memory_repository (queued empty_store)"
    using system_inv_same [OF queued_same] system_inv_empty by simp
  moreover have "fresh_attempts in_memory_repository (queued empty_store) (\<lambda>_. demo_attempt)"
    using queued_same [of empty_store]
    by (simp add: fresh_attempts_def same_proposals_def mem_get_proposal_def empty_store_def)
  ultimately show ?thesis using create_run_creates_once [OF _ _ run] run by blast
qed

text \<open>
  A create that is recovered after a crash does not repeat its effect. When the idempotency key
  of the operation is already on record, because an earlier attempt stored the proposal but did not
  come to report it, running the operation again leaves proposals, logs, versions and keys as they
  are.
\<close>

theorem recovered_create_replays:
  assumes "mem_get_operation s i = Some op"
    and "resolve_async_create_payload validate op q key = Inr (request, raw)"
    and "normalize_optional_idempotency_key (Some raw) = Some k" and "mem_get_idempotency s k \<noteq> None"
    and "execute_create_proposal env validate in_memory_repository i q key corr now ts s = Some s'"
  shows "mem_get_proposal s' = mem_get_proposal s \<and> mem_list_events s' = mem_list_events s \<and>
    mem_get_version s' = mem_get_version s \<and> mem_get_idempotency s' = mem_get_idempotency s"
  using memo.execute_create_again [of s i op validate q key request raw k] assms
  by (simp add: same_proposals_def)

theorem recovered_create_replays_witness:
  "\<exists>s'. execute_create_proposal demo_env (\<lambda>_. Some demo_create) in_memory_repository ''O'' None None
      None 60 (\<lambda>_. demo_attempt) (queued store0) = Some s' \<and>
    mem_list_events s' ''P'' = [ev0] \<and> (\<exists>op. mem_get_operation s' ''O'' = Some op \<and> finished op)"
proof -
  have inv: "queue_inv in_memory_repository (queued store0)"
    by (rule queued_inv) (simp add: mem_get_operation_def store0_def demo_store_def empty_store_def
        fun_eq_iff)
  obtain s' where run: "execute_create_proposal demo_env (\<lambda>_. Some demo_create) in_memory_repository ''O''
      None None None 60 (\<lambda>_. demo_attempt) (queued store0) = Some s'"
    and ended: "executed_to_end in_memory_repository ''O'' (queued store0) s'"
    using memo.execute_create_ends [OF inv] by blast
  have "mem_get_operation (queued store0) ''O'' = Some queued_create" by simp
  moreover have "mem_get_idempotency (queued store0) ''k0'' \<noteq> None"
    and evs: "mem_list_events (queued store0) ''P'' = [ev0]"
    using queued_same [of store0] by (simp_all add: same_proposals_def store0_def)
  ultimately have "mem_list_events s' = mem_list_events (queued store0)"
    using recovered_create_replays [OF _ queued_payload demo_keys(1) _ run] by simp
  with run evs ended show ?thesis by (auto simp: executed_to_end_def)
qed

text \<open>
  A version that is recovered after a crash is created twice. Running a create-version request
  again, as recovery does when the worker stored the version but did not come to report it, stores
  another version of the same content unless the request names the version it expects.
\<close>

theorem rerun_version_adds_another:
  assumes "reachable env s"
    and "version_executor env in_memory_repository t pid q corr lineage s = (s1, Inr r1)"
    and "version_executor env in_memory_repository t' pid q corr lineage s1 = (s2, Inr r2)"
  shows "\<exists>p p2. mem_get_proposal s pid = Some p \<and> mem_get_proposal s2 pid = Some p2 \<and>
    pr_current_version_no p2 = pr_current_version_no p + 2 \<and>
    (\<exists>v w. mem_get_version s2 pid (pr_current_version_no p + 1) = Some v \<and>
       mem_get_version s2 pid (pr_current_version_no p + 2) = Some w)"
proof -
  have inv: "system_inv in_memory_repository s" by (rule reachable_system_inv [OF assms(1)])
  have inv1: "system_inv in_memory_repository s1"
    using memo.version_executor_effect [OF inv, of env t pid q corr lineage] assms(2) by simp
  have inv2: "system_inv in_memory_repository s2"
    using memo.version_executor_effect [OF inv1, of env t' pid q corr lineage] assms(3) by simp
  obtain p p1 where p: "mem_get_proposal s pid = Some p" "mem_get_proposal s1 pid = Some p1"
    "pr_current_version_no p1 = pr_current_version_no p + 1"
    using memv.version_command_result [of s] inv assms(2)
    unfolding version_executor_def system_inv_def in_memory_simps by blast
  obtain q1 p2 where p2: "mem_get_proposal s1 pid = Some q1" "mem_get_proposal s2 pid = Some p2"
    "pr_current_version_no p2 = pr_current_version_no q1 + 1"
    using memv.version_command_result [of s1] inv1 assms(3)
    unfolding version_executor_def system_inv_def in_memory_simps by blast
  have "1 \<le> pr_current_version_no p"
    using versions_invD [of in_memory_repository s pid p] inv p(1) by (simp add: system_inv_def)
  moreover have "\<exists>v. mem_get_version s2 pid n = Some v" if "1 \<le> n" "n \<le> pr_current_version_no p2" for n
    using versions_invD [of in_memory_repository s2 pid p2] inv2 p2(2) that
    by (auto simp: system_inv_def)
  ultimately show ?thesis using p p2 by auto
qed

text \<open>The run of the witness: version 2 and version 3 from the same request.\<close>

definition unconditional_version :: version_request where
  "unconditional_version = demo_version\<lparr>vq_expected_current_version_no := None\<rparr>"

lemma unconditional_prepare:
  "prepare_proposal_version demo_sha demo_engine None ''2026-01-01'' demo_settings
     (demo_proposal DRAFT t n) unconditional_version None None None now (demo_ids e) =
   Inr (demo_stored_version (n + 1) now)"
  by (simp add: prepare_proposal_version_def validate_create_version_state_def demo_version_def
      unconditional_version_def
      rule_tables rmap_error_def resolve_version_request_def require_legacy_simulate_request_def
      direct_proposal_context_def validate_proposal_simulation_flag_def Let_def demo_settings_def
      validate_proposal_simulation_enabled_def demo_simulate_def build_version_request_hash_def
      validate_create_version_portfolio_context_def run_advisory_proposal_simulation_def
      demo_engine_def build_proposal_version_record_def demo_stored_version_def demo_ids_def
      build_proposal_version_materialization_def)

lemma unconditional_store:
  "(n, t) \<notin> set vs \<Longrightarrow> n \<notin> fst ` set vs \<Longrightarrow>
   mem_create_version (demo_stored_version n t) (demo_store p vs es aps) =
     demo_store p (vs @ [(n, t)]) es aps"
proof -
  assume "n \<notin> fst ` set vs"
  then have "dict_set (''P'', n) v (map (\<lambda>(n, t). ((''P'', n), demo_stored_version n t)) vs) =
      map (\<lambda>(n, t). ((''P'', n), demo_stored_version n t)) vs @ [((''P'', n), v)]" for v
    by (induction vs) auto
  then show ?thesis by (simp add: mem_create_version_def demo_store_def demo_stored_version_def)
qed

lemma unconditional_run:
  assumes "n + 1 \<notin> fst ` set vs"
  shows "\<exists>r. version_executor demo_env in_memory_repository demo_attempt ''P'' unconditional_version None
      None (demo_store (demo_proposal DRAFT t n) vs es aps) =
    (demo_store (demo_proposal DRAFT 60 (n + 1)) (vs @ [(n + 1, 60)])
       (es @ [build_new_version_created_event ''E0'' (demo_proposal DRAFT t n) ''adv'' 60 (n + 1) None])
       aps, Inr r)"
proof -
  have "(n + 1, 60) \<notin> set vs" using assms by force
  then show ?thesis
    using assms unconditional_store [of "n + 1" 60 vs]
    by (simp add: version_executor_def create_proposal_version_def Let_def demo_attempt_def
        unconditional_prepare build_new_version_created_event_and_apply_state_def
        persist_created_proposal_version_def
        build_new_version_created_event_def apply_new_version_lifecycle_state_def demo_transition)
      (simp add: unconditional_version_def)
qed

theorem rerun_version_adds_another_witness:
  "\<exists>s1 s2 r1 r2 p2. version_executor demo_env in_memory_repository demo_attempt ''P'' unconditional_version
      None None store0 = (s1, Inr r1) \<and>
    version_executor demo_env in_memory_repository demo_attempt ''P'' unconditional_version None None s1 =
      (s2, Inr r2) \<and> mem_get_proposal s2 ''P'' = Some p2 \<and> pr_current_version_no p2 = 3"
proof -
  obtain s1 r1 where 1: "version_executor demo_env in_memory_repository demo_attempt ''P''
      unconditional_version None None store0 = (s1, Inr r1)"
    and s1: "s1 = demo_store (demo_proposal DRAFT 60 2) [(1, 100), (2, 60)]
      ([ev0] @ [build_new_version_created_event ''E0'' (demo_proposal DRAFT 100 1) ''adv'' 60 2 None]) []"
    using unconditional_run [of 1 "[(1, 100)]" 100 "[ev0]" "[]"] by (auto simp: store0_def)
  obtain s2 r2 where 2: "version_executor demo_env in_memory_repository demo_attempt ''P''
      unconditional_version None None s1 = (s2, Inr r2)"
    using unconditional_run [of 2 "[(1, 100), (2, 60)]" 60] unfolding s1 by fastforce
  have "mem_get_proposal store0 ''P'' = Some (demo_proposal DRAFT 100 1)" by (simp add: store0_def)
  with rerun_version_adds_another [OF demo_reachable(1) 1 2] 1 2 show ?thesis by fastforce
qed

text \<open>
  The control plane and recovery agree. A retry schedules the operation exactly when the caller
  is an active operator with the capability, recovery would take the operation up as well, and an
  attempt is left.
\<close>

theorem retry_agrees_with_recovery:
  "cd_schedule_execution (evaluate_async_operation_control sha op action caller t key reason) \<longleftrightarrow>
     action = RETRY \<and> cp_active caller \<and>
     ASYNC_OPERATION_CONTROL_CAPABILITY \<in> set (cp_capabilities caller) \<and>
     map upper_char (cp_role caller) \<in> {''OPERATIONS'', ''PLATFORM_OPERATOR'', ''SUPPORT_LEAD''} \<and>
     operation_is_recoverable op t \<and> ao_attempt_count op < ao_max_attempts op"
  by (auto simp: retry_scheduled_iff principal_is_authorized_def has_exhausted_async_attempts_def)



text \<open>
  C34: The request hash identifies the request. Two create requests, however they are resolved, have
  the same hash exactly when their canonical payloads are equal up to the order of keys, provided the
  digest does not collide on the two texts.
\<close>

theorem request_hash_identifies:
  assumes "json_ok (canonicalize_create_command_payload q)"
    and "json_ok (canonicalize_create_command_payload q')"
    and "sha (canonical_json (canonicalize_create_command_payload q)) =
        sha (canonical_json (canonicalize_create_command_payload q')) \<Longrightarrow>
      canonical_json (canonicalize_create_command_payload q) =
        canonical_json (canonicalize_create_command_payload q')"
  shows "build_create_command_idempotency_hash sha q = build_create_command_idempotency_hash sha q' \<longleftrightarrow>
    json_eq (canonicalize_create_command_payload q) (canonicalize_create_command_payload q')"
  using canonical_json_injective [OF assms(1,2)] assms(3)
  by (auto simp: build_create_command_idempotency_hash_def hash_canonical_payload_def)

theorem request_hash_identifies_witness:
  "build_create_command_idempotency_hash (\<lambda>text. text) demo_create \<noteq>
   build_create_command_idempotency_hash (\<lambda>text. text) (demo_create\<lparr>cq_created_by := ''bob''\<rparr>)"
proof -
  let ?x = "canonicalize_create_command_payload demo_create"
  let ?y = "canonicalize_create_command_payload (demo_create\<lparr>cq_created_by := ''bob''\<rparr>)"
  have ok: "json_ok ?x" "json_ok ?y"
    by (simp_all add: canonicalize_create_command_payload_def demo_create_def simulate_request_json_def
        demo_simulate_def create_metadata_json_def empty_metadata_def)
  have "\<not> json_eq ?x ?y"
  proof
    assume "json_eq ?x ?y"
    then have "json_eq (JStr ''adv'') (JStr ''bob'')"
      using json_eq_field [of _ _ "''created_by''"]
      by (fastforce simp: canonicalize_create_command_payload_def demo_create_def)
    then show False by (simp add: json_eq_def)
  qed
  with request_hash_identifies [OF ok, of "\<lambda>text. text"] show ?thesis by simp
qed

text \<open>
  The hash of an asynchronous submission depends on the day. For a create request that carries
  its simulation request itself, without a reference model, the hash contains the date of the
  submission: the same request sent again the next day has another hash, while the command's own
  hash, which the synchronous path compares, does not contain the day. The digest is assumed not to
  collide on the two texts.
\<close>

theorem submission_hash_depends_on_day:
  assumes "cq_input_mode q = None" and "cq_simulate_request q = Some r" and "sr_reference_model r = None"
    and "hash_async_create_submission sha resolver day q = Inr h"
    and "hash_async_create_submission sha resolver day' q = Inr h'" and "day \<noteq> day'"
    and "json_ok (simulate_request_json r)"
    and "sha (canonical_json (canonicalize_create_request_payload q
          (direct_proposal_context day r (cq_metadata q) True))) =
        sha (canonical_json (canonicalize_create_request_payload q
          (direct_proposal_context day' r (cq_metadata q) True))) \<Longrightarrow>
      canonical_json (canonicalize_create_request_payload q
          (direct_proposal_context day r (cq_metadata q) True)) =
        canonical_json (canonicalize_create_request_payload q
          (direct_proposal_context day' r (cq_metadata q) True))"
  shows "h \<noteq> h'"
proof
  assume same: "h = h'"
  let ?c = "\<lambda>d. canonicalize_create_request_payload q
    (direct_proposal_context d r (cq_metadata q) True)"
  have hash: "hash_async_create_submission sha resolver d q = Inr (hash_canonical_payload sha (?c d))" for d
    using assms(1,2)
    by (simp add: hash_async_create_submission_def resolve_create_request_def
        require_legacy_simulate_request_def)
  have ok: "json_ok (?c d)" for d
    using assms(7)
    by (simp add: canonicalize_create_request_payload_def create_metadata_json_def
        advisory_context_json_def resolved_context_json_def direct_proposal_context_def
        build_resolved_context_from_simulate_request_def split: option.splits)
  have "sha (canonical_json (?c day)) = sha (canonical_json (?c day'))"
    using same hash [of day] hash [of day'] assms(4,5) by (simp add: hash_canonical_payload_def)
  then have "canonical_json (?c day) = canonical_json (?c day')" by (rule assms(8))
  then have "json_eq (?c day) (?c day')" using canonical_json_injective [OF ok ok] by blast
  then have "json_eq (obj_get (json_items (?c day)) ''advisory_context'')
      (obj_get (json_items (?c day')) ''advisory_context'')"
    unfolding canonicalize_create_request_payload_def json_items.simps
    by (rule json_eq_field) simp_all
  then have "json_eq (obj_get (json_items (advisory_context_json Stateless ''DIRECT_REQUEST''
        (build_resolved_context_from_simulate_request day r) r)) ''resolved_context'')
      (obj_get (json_items (advisory_context_json Stateless ''DIRECT_REQUEST''
        (build_resolved_context_from_simulate_request day' r) r)) ''resolved_context'')"
    unfolding canonicalize_create_request_payload_def advisory_context_json_def json_items.simps
    by (intro json_eq_field) (simp_all add: direct_proposal_context_def)
  then have "json_eq (obj_get (json_items (resolved_context_json
        (build_resolved_context_from_simulate_request day r))) ''as_of'')
      (obj_get (json_items (resolved_context_json
        (build_resolved_context_from_simulate_request day' r))) ''as_of'')"
    unfolding advisory_context_json_def resolved_context_json_def json_items.simps
    by (intro json_eq_field) simp_all
  then show False
    using assms(3,6)
    by (simp add: resolved_context_json_def build_resolved_context_from_simulate_request_def json_eq_def)
qed

theorem submission_hash_depends_on_day_witness:
  "\<exists>h h'. hash_async_create_submission (\<lambda>text. text) None ''2026-01-01'' demo_create = Inr h \<and>
    hash_async_create_submission (\<lambda>text. text) None ''2026-01-02'' demo_create = Inr h' \<and> h \<noteq> h'"
proof -
  have mode: "cq_input_mode demo_create = None" "cq_simulate_request demo_create = Some demo_simulate"
    "sr_reference_model demo_simulate = None"
    by (simp_all add: demo_create_def demo_simulate_def)
  have hash: "\<exists>h. hash_async_create_submission (\<lambda>text. text) None d demo_create = Inr h" for d
    by (simp add: hash_async_create_submission_def resolve_create_request_def mode
        require_legacy_simulate_request_def)
  obtain h where h: "hash_async_create_submission (\<lambda>text. text) None ''2026-01-01'' demo_create = Inr h"
    using hash by blast
  obtain h' where h': "hash_async_create_submission (\<lambda>text. text) None ''2026-01-02'' demo_create = Inr h'"
    using hash by blast
  have "json_ok (simulate_request_json demo_simulate)"
    by (simp add: simulate_request_json_def demo_simulate_def)
  with submission_hash_depends_on_day [OF mode h h'] h h' show ?thesis by simp
qed

end
