(* ===== verification/Py_Decimal.thy ===== *)
theory Py_Decimal
  imports Complex_Main Canonical_Json
begin

text \<open>
  The part of Python's \<open>decimal\<close> module the code uses: finite numbers with sign, coefficient and
  exponent, the default context (28 digits, ROUND_HALF_EVEN), addition, subtraction,
  multiplication, comparison, rescaling, \<open>str\<close> and the percent format. Overflow of the exponent
  beyond the context's limits of a million is left out.
\<close>

section \<open>Numbers\<close>

record decimal =
  dc_neg :: bool
  dc_coef :: nat
  dc_exp :: int

definition dec :: "nat \<Rightarrow> int \<Rightarrow> decimal" where
  "dec c e = \<lparr>dc_neg = False, dc_coef = c, dc_exp = e\<rparr>"

definition DEC_PREC :: nat where
  "DEC_PREC = 28"

text \<open>The value, as a rational number.\<close>

definition pow10 :: "int \<Rightarrow> rat" where
  "pow10 e = (if 0 \<le> e then 10 ^ nat e else 1 / 10 ^ nat (- e))"

definition dec_signed :: "decimal \<Rightarrow> int" where
  "dec_signed x = (if dc_neg x then - int (dc_coef x) else int (dc_coef x))"

definition dec_val :: "decimal \<Rightarrow> rat" where
  "dec_val x = of_int (dec_signed x) * pow10 (dc_exp x)"

text \<open>The coefficient when the number is written with the exponent \<open>e\<close>, which is not larger.\<close>

definition dec_scaled :: "int \<Rightarrow> decimal \<Rightarrow> int" where
  "dec_scaled e x = dec_signed x * 10 ^ nat (dc_exp x - e)"

definition dec_less :: "decimal \<Rightarrow> decimal \<Rightarrow> bool" where
  "dec_less x y =
     (let e = min (dc_exp x) (dc_exp y) in dec_scaled e x < dec_scaled e y)"

definition dec_le :: "decimal \<Rightarrow> decimal \<Rightarrow> bool" where
  "dec_le x y = (\<not> dec_less y x)"

section \<open>Rounding\<close>

fun dec_digits :: "nat \<Rightarrow> nat" where
  "dec_digits n = (if n < 10 then 1 else Suc (dec_digits (n div 10)))"

declare dec_digits.simps [simp del]

text \<open>\<open>c / 10 ^ k\<close>, rounded half to even.\<close>

definition drop_digits :: "nat \<Rightarrow> nat \<Rightarrow> nat" where
  "drop_digits k c =
     (let q = c div 10 ^ k; r = c mod 10 ^ k in
      if 10 ^ k < 2 * r \<or> 2 * r = 10 ^ k \<and> odd q then q + 1 else q)"

text \<open>\<open>_fix\<close>: at most 28 digits; a carry into the 29th digit shifts once more.\<close>

definition dec_fix :: "decimal \<Rightarrow> decimal" where
  "dec_fix x =
     (let d = dec_digits (dc_coef x) in
      if d \<le> DEC_PREC then x
      else let k = d - DEC_PREC; c = drop_digits k (dc_coef x) in
           if DEC_PREC < dec_digits c
           then x\<lparr>dc_coef := c div 10, dc_exp := dc_exp x + int k + 1\<rparr>
           else x\<lparr>dc_coef := c, dc_exp := dc_exp x + int k\<rparr>)"

definition dec_rescale :: "int \<Rightarrow> decimal \<Rightarrow> decimal" where
  "dec_rescale e x =
     (if e \<le> dc_exp x then x\<lparr>dc_coef := dc_coef x * 10 ^ nat (dc_exp x - e), dc_exp := e\<rparr>
      else x\<lparr>dc_coef := drop_digits (nat (e - dc_exp x)) (dc_coef x), dc_exp := e\<rparr>)"

section \<open>Arithmetic\<close>

definition dec_add :: "decimal \<Rightarrow> decimal \<Rightarrow> decimal" where
  "dec_add x y =
     (let e = min (dc_exp x) (dc_exp y); s = dec_scaled e x + dec_scaled e y in
      dec_fix \<lparr>dc_neg = (if s = 0 then dc_neg x \<and> dc_neg y else s < 0),
               dc_coef = nat \<bar>s\<bar>, dc_exp = e\<rparr>)"

definition dec_minus :: "decimal \<Rightarrow> decimal" where
  "dec_minus x = x\<lparr>dc_neg := \<not> dc_neg x\<rparr>"

definition dec_sub :: "decimal \<Rightarrow> decimal \<Rightarrow> decimal" where
  "dec_sub x y = dec_add x (dec_minus y)"

definition dec_mul :: "decimal \<Rightarrow> decimal \<Rightarrow> decimal" where
  "dec_mul x y = dec_fix \<lparr>dc_neg = (dc_neg x \<noteq> dc_neg y), dc_coef = dc_coef x * dc_coef y,
     dc_exp = dc_exp x + dc_exp y\<rparr>"

section \<open>Text\<close>

definition dec_sign_text :: "decimal \<Rightarrow> string" where
  "dec_sign_text x = (if dc_neg x then ''-'' else [])"

text \<open>The digits with the point after the first \<open>p\<close> of them.\<close>

definition point_digits :: "int \<Rightarrow> string \<Rightarrow> string \<times> string" where
  "point_digits p ds =
     (if p \<le> 0 then (''0'', replicate (nat (- p)) (CHR ''0'') @ ds)
      else if int (length ds) \<le> p then (ds @ replicate (nat p - length ds) (CHR ''0''), [])
      else (take (nat p) ds, drop (nat p) ds))"

definition dec_str :: "decimal \<Rightarrow> string" where
  "dec_str x =
     (let ds = nat_digits (dc_coef x);
          leftdigits = dc_exp x + int (length ds);
          dotplace = (if dc_exp x \<le> 0 \<and> - 6 < leftdigits then leftdigits else 1);
          (intpart, fracpart) = point_digits dotplace ds;
          e = leftdigits - dotplace
      in dec_sign_text x @ intpart @ (if fracpart = [] then [] else CHR ''.'' # fracpart) @
         (if e = 0 then [] else CHR ''E'' # (if e < 0 then [] else ''+'') @ int_str e))"

text \<open>\<open>f"{x:.2%}"\<close>.\<close>

definition dec_percent :: "decimal \<Rightarrow> string" where
  "dec_percent x =
     (let y = dec_rescale (- 2) (x\<lparr>dc_exp := dc_exp x + 2\<rparr>);
          ds = nat_digits (dc_coef y);
          (intpart, fracpart) = point_digits (int (length ds) - 2) ds
      in dec_sign_text y @ intpart @ CHR ''.'' # fracpart @ ''%'')"

section \<open>Laws\<close>

lemma pow10_pos [simp]: "0 < pow10 e"
  by (simp add: pow10_def)

lemma abs_pow10 [simp]: "\<bar>pow10 e\<bar> = pow10 e"
  by (simp add: less_imp_le)

lemma pow10_add: "pow10 (a + b) = pow10 a * pow10 b"
proof (cases "0 \<le> a"; cases "0 \<le> b")
  assume "0 \<le> a" "0 \<le> b"
  then show ?thesis by (simp add: pow10_def nat_add_distrib power_add)
next
  assume ab: "0 \<le> a" "\<not> 0 \<le> b"
  show ?thesis
  proof (cases "0 \<le> a + b")
    case True
    then have "nat a = nat (a + b) + nat (- b)" using ab by simp
    then have "(10 :: rat) ^ nat a = 10 ^ nat (a + b) * 10 ^ nat (- b)" by (metis power_add)
    with True ab show ?thesis by (simp add: pow10_def)
  next
    case False
    then have "nat (- b) = nat a + nat (- (a + b))" using ab by simp
    then have "(10 :: rat) ^ nat (- b) = 10 ^ nat a * 10 ^ nat (- (a + b))" by (metis power_add)
    with False ab show ?thesis by (simp add: pow10_def)
  qed
next
  assume ab: "\<not> 0 \<le> a" "0 \<le> b"
  show ?thesis
  proof (cases "0 \<le> a + b")
    case True
    then have "nat b = nat (a + b) + nat (- a)" using ab by simp
    then have "(10 :: rat) ^ nat b = 10 ^ nat (a + b) * 10 ^ nat (- a)" by (metis power_add)
    with True ab show ?thesis by (simp add: pow10_def)
  next
    case False
    then have "nat (- a) = nat b + nat (- (a + b))" using ab by simp
    then have "(10 :: rat) ^ nat (- a) = 10 ^ nat b * 10 ^ nat (- (a + b))" by (metis power_add)
    with False ab show ?thesis by (simp add: pow10_def)
  qed
next
  assume ab: "\<not> 0 \<le> a" "\<not> 0 \<le> b"
  then have "nat (- (a + b)) = nat (- a) + nat (- b)" by simp
  with ab show ?thesis by (simp add: pow10_def power_add)
qed

lemma pow10_nat: "pow10 (int n) = 10 ^ n"
  by (simp add: pow10_def)

lemma dec_val_scaled:
  assumes "e \<le> dc_exp x"
  shows "dec_val x = of_int (dec_scaled e x) * pow10 e"
proof -
  have "pow10 (dc_exp x) = pow10 (int (nat (dc_exp x - e)) + e)" using assms by simp
  also have "\<dots> = 10 ^ nat (dc_exp x - e) * pow10 e" by (simp only: pow10_add pow10_nat)
  finally show ?thesis by (simp add: dec_val_def dec_scaled_def)
qed

text \<open>Comparison is comparison of the values.\<close>

lemma dec_less_val: "dec_less x y = (dec_val x < dec_val y)"
  using dec_val_scaled [of "min (dc_exp x) (dc_exp y)" x]
    dec_val_scaled [of "min (dc_exp x) (dc_exp y)" y]
  by (simp add: dec_less_def Let_def)

lemma dec_le_val: "dec_le x y = (dec_val x \<le> dec_val y)"
  by (auto simp: dec_le_def dec_less_val)

section \<open>The rounding error\<close>

lemma dec_digits_bounds: "n < 10 ^ dec_digits n \<and> (0 < n \<longrightarrow> 10 ^ (dec_digits n - 1) \<le> n)"
proof (induction n rule: dec_digits.induct)
  case (1 n)
  show ?case
  proof (cases "n < 10")
    case True
    then show ?thesis by (simp add: dec_digits.simps [of n])
  next
    case False
    with 1 have up: "n div 10 < 10 ^ dec_digits (n div 10)"
      and low: "10 ^ (dec_digits (n div 10) - 1) \<le> n div 10" by auto
    have pos: "0 < dec_digits (n div 10)" by (subst dec_digits.simps) simp
    have "n < 10 * 10 ^ dec_digits (n div 10)" using up by linarith
    moreover have "10 * 10 ^ (dec_digits (n div 10) - 1) \<le> n" using low by linarith
    then have "10 ^ dec_digits (n div 10) \<le> n"
      using pos by (metis One_nat_def Suc_pred power_Suc)
    ultimately show ?thesis using False by (simp add: dec_digits.simps [of n])
  qed
qed

lemma dec_digits_le: "dec_digits n \<le> k \<Longrightarrow> n < 10 ^ k"
  using dec_digits_bounds [of n] power_increasing [of "dec_digits n" k "10 :: nat"]
  by (meson less_le_trans one_le_numeral)

lemma dec_digits_less: "k < dec_digits n \<Longrightarrow> 0 < k \<Longrightarrow> 10 ^ k \<le> n"
proof -
  assume k: "k < dec_digits n" "0 < k"
  then have "0 < n" by (cases "n = 0") (auto simp: dec_digits.simps [of 0])
  moreover have "(10 :: nat) ^ k \<le> 10 ^ (dec_digits n - 1)"
    using k by (intro power_increasing) simp_all
  ultimately show ?thesis using dec_digits_bounds [of n] by (meson le_trans)
qed

lemma drop_digits_error: "2 * \<bar>int (drop_digits k c * 10 ^ k) - int c\<bar> \<le> 10 ^ k"
proof -
  define p :: nat where "p = 10 ^ k"
  have p: "0 < p" by (simp add: p_def)
  have c: "int c = int (c div p) * int p + int (c mod p)"
    using div_mult_mod_eq [of c p] by (metis of_nat_add of_nat_mult)
  have r: "c mod p < p" using p by simp
  have "2 * \<bar>int (drop_digits k c) * int p - int c\<bar> \<le> int p"
    unfolding drop_digits_def Let_def p_def [symmetric]
    using c r by (auto simp: algebra_simps abs_le_iff)
  then show ?thesis by (simp add: p_def)
qed

lemma drop_digits_le: "c < 10 ^ (k + m) \<Longrightarrow> drop_digits k c \<le> 10 ^ m"
proof -
  assume "c < 10 ^ (k + m)"
  then have "c div 10 ^ k < 10 ^ m" by (simp add: less_mult_imp_div_less power_add mult.commute)
  then show ?thesis by (auto simp: drop_digits_def Let_def)
qed

lemma dec_val_coef: "dec_val x = (if dc_neg x then - 1 else 1) * of_nat (dc_coef x) * pow10 (dc_exp x)"
  by (simp add: dec_val_def dec_signed_def)

text \<open>A rounded result is off by at most half a unit in the 28th digit.\<close>

lemma dec_fix_error: "\<bar>dec_val (dec_fix x) - dec_val x\<bar> * (2 * 10 ^ 27) \<le> \<bar>dec_val x\<bar>"
proof (cases "dec_digits (dc_coef x) \<le> DEC_PREC")
  case True
  then show ?thesis by (simp add: dec_fix_def Let_def)
next
  case False
  define c where "c = dc_coef x"
  define k where "k = dec_digits c - DEC_PREC"
  define d where "d = drop_digits k c"
  have k: "dec_digits c = k + 28" using False by (simp add: k_def c_def DEC_PREC_def)
  have val: "\<bar>dec_val (dec_fix x) - dec_val x\<bar> =
      \<bar>of_nat (d * 10 ^ k) - of_nat c\<bar> * pow10 (dc_exp x)"
  proof (cases "DEC_PREC < dec_digits d")
    case True
    have "d \<le> 10 ^ 28" unfolding d_def using dec_digits_bounds [of c] k by (intro drop_digits_le) simp
    moreover have "10 ^ 28 \<le> d" using True dec_digits_less [of 28 d] by (simp add: DEC_PREC_def)
    ultimately have d: "d = 10 ^ 28" by simp
    then have "d = d div 10 * 10" by simp
    then have "of_nat (d div 10) * pow10 (dc_exp x + int k + 1) = of_nat (d * 10 ^ k) * pow10 (dc_exp x)"
      using d by (simp add: pow10_add pow10_nat pow10_def [of 1])
    then show ?thesis
      using False True
      by (simp add: dec_fix_def Let_def dec_val_coef c_def [symmetric] k_def [symmetric] d_def [symmetric]
          abs_mult left_diff_distrib [symmetric] abs_minus_commute)
  next
    case small: False
    have "pow10 (dc_exp x + int k) = 10 ^ k * pow10 (dc_exp x)"
      by (simp add: pow10_add pow10_nat)
    then show ?thesis
      using False small
      by (simp add: dec_fix_def Let_def dec_val_coef c_def [symmetric] k_def [symmetric] d_def [symmetric]
          abs_mult left_diff_distrib [symmetric] abs_minus_commute mult.assoc [symmetric])
  qed
  have err: "2 * \<bar>of_nat (d * 10 ^ k) - of_nat c\<bar> \<le> (10 ^ k :: rat)"
  proof -
    have "of_int (2 * \<bar>int (d * 10 ^ k) - int c\<bar>) \<le> (of_int (10 ^ k) :: rat)"
      using drop_digits_error [of k c] unfolding d_def by (rule of_int_le_iff [THEN iffD2])
    then show ?thesis by simp
  qed
  have "(10 ^ (k + 27) :: rat) \<le> of_nat c"
  proof -
    have "10 ^ (k + 27) \<le> c" using dec_digits_less [of "k + 27" c] k by simp
    then have "of_nat (10 ^ (k + 27)) \<le> (of_nat c :: rat)" by (rule of_nat_mono)
    then show ?thesis by simp
  qed
  with err have "\<bar>of_nat (d * 10 ^ k) - of_nat c\<bar> * (2 * 10 ^ 27) \<le> (of_nat c :: rat)"
    by (simp add: power_add)
  then have "\<bar>of_nat (d * 10 ^ k) - of_nat c\<bar> * (2 * 10 ^ 27) * pow10 (dc_exp x) \<le>
      of_nat c * pow10 (dc_exp x)"
    using less_imp_le [OF pow10_pos [of "dc_exp x"]] by (rule mult_right_mono)
  moreover have "\<bar>dec_val x\<bar> = of_nat c * pow10 (dc_exp x)"
    using less_imp_le [OF pow10_pos [of "dc_exp x"]] by (simp add: dec_val_coef c_def abs_mult)
  ultimately show ?thesis unfolding val by (simp add: mult.commute mult.left_commute)
qed

text \<open>The exact sum, and the error of the rounded one.\<close>

lemma dec_add_error:
  "\<bar>dec_val (dec_add x y) - (dec_val x + dec_val y)\<bar> * (2 * 10 ^ 27) \<le> \<bar>dec_val x + dec_val y\<bar>"
proof -
  define e where "e = min (dc_exp x) (dc_exp y)"
  define s where "s = dec_scaled e x + dec_scaled e y"
  define z where "z = \<lparr>dc_neg = (if s = 0 then dc_neg x \<and> dc_neg y else s < 0), dc_coef = nat \<bar>s\<bar>,
    dc_exp = e\<rparr>"
  have "dec_signed z = s" by (auto simp: z_def dec_signed_def)
  then have "dec_val z = of_int s * pow10 e" by (simp add: dec_val_def) (simp add: z_def)
  also have "\<dots> = dec_val x + dec_val y"
    using dec_val_scaled [of e x] dec_val_scaled [of e y]
    by (simp add: s_def e_def distrib_right)
  finally have z: "dec_val z = dec_val x + dec_val y" .
  have "dec_add x y = dec_fix z" by (simp add: dec_add_def z_def s_def e_def Let_def)
  then show ?thesis using dec_fix_error [of z] z by simp
qed

end
