(* ===== verification/Suitability_Models.thy ===== *)
theory Suitability_Models
  imports Py_Decimal Proposal_Context
begin

text \<open>
  The data of the suitability scanner and of the workflow gate (src/core/portfolio_models.py,
  simulation_state_models.py, engine_options_models.py, engine_option_suitability_models.py,
  suitability_models.py, diagnostics_models.py, gate_models.py, common/suitability_policy.py). Of the
  engine options and of the simulated state only the fields that the two components read are here.
\<close>

section \<open>Portfolio data\<close>

record money =
  mn_amount :: decimal
  mn_currency :: string

datatype shelf_status = ShelfApproved | ShelfRestricted | ShelfBanned | ShelfSuspended | ShelfSellOnly

fun shelf_status_name :: "shelf_status \<Rightarrow> string" where
  "shelf_status_name ShelfApproved = ''APPROVED''"
| "shelf_status_name ShelfRestricted = ''RESTRICTED''"
| "shelf_status_name ShelfBanned = ''BANNED''"
| "shelf_status_name ShelfSuspended = ''SUSPENDED''"
| "shelf_status_name ShelfSellOnly = ''SELL_ONLY''"

record shelf_entry =
  sh_instrument_id :: string
  sh_status :: shelf_status
  sh_asset_class :: string
  sh_issuer_id :: "string option"
  sh_liquidity_tier :: "string option"
  sh_settlement_days :: int
  sh_min_notional :: "money option"
  sh_attributes :: "(string, string) dict"

record allocation_metric =
  am_key :: string
  am_weight :: decimal
  am_value :: money

record simulated_state =
  ss_total_value :: money
  ss_allocation_by_asset_class :: "allocation_metric list"
  ss_allocation_by_instrument :: "allocation_metric list"

section \<open>Options\<close>

datatype severity = SevHigh | SevMedium | SevLow

record suitability_thresholds =
  tc_single_position_max_weight :: decimal
  tc_issuer_max_weight :: decimal
  tc_max_weight_by_liquidity_tier :: "(string, decimal) dict"
  tc_cash_band_min_weight :: decimal
  tc_cash_band_max_weight :: decimal
  tc_data_quality_issue_severity :: severity

text \<open>The model's validation: bounds of one, the known tiers, and a band that is not empty.\<close>

definition validate_suitability_thresholds :: "suitability_thresholds \<Rightarrow> string + unit" where
  "validate_suitability_thresholds t =
     (let unit_weight = (\<lambda>w. dec_le (dec 0 0) w \<and> dec_le w (dec 1 0)) in
      if \<not> list_all unit_weight [tc_single_position_max_weight t, tc_issuer_max_weight t,
             tc_cash_band_min_weight t, tc_cash_band_max_weight t]
      then Inl ''weight out of bounds''
      else if \<not> list_all (\<lambda>(tier, w). tier \<in> set [''L1'', ''L2'', ''L3'', ''L4'', ''L5''])
             (tc_max_weight_by_liquidity_tier t)
      then Inl ''liquidity tier keys must be one of L1, L2, L3, L4, L5''
      else if \<not> list_all (\<lambda>(tier, w). unit_weight w) (tc_max_weight_by_liquidity_tier t)
      then Inl ''liquidity-tier max weights must be between 0 and 1 inclusive''
      else if dec_less (tc_cash_band_max_weight t) (tc_cash_band_min_weight t)
      then Inl ''suitability cash band min cannot exceed max''
      else Inr ())"

record engine_options =
  eo_allow_restricted :: bool
  eo_workflow_requires_client_consent :: bool
  eo_client_consent_already_obtained :: bool
  eo_suitability_thresholds :: suitability_thresholds

section \<open>Suitability issues\<close>

datatype status_change = ScNew | ScPersistent | ScResolved

fun status_change_name :: "status_change \<Rightarrow> string" where
  "status_change_name ScNew = ''NEW''"
| "status_change_name ScPersistent = ''PERSISTENT''"
| "status_change_name ScResolved = ''RESOLVED''"

fun STATUS_SORT :: "status_change \<Rightarrow> nat" where
  "STATUS_SORT ScNew = 0"
| "STATUS_SORT ScPersistent = 1"
| "STATUS_SORT ScResolved = 2"

fun SEVERITY_SORT :: "severity \<Rightarrow> nat" where
  "SEVERITY_SORT SevHigh = 0"
| "SEVERITY_SORT SevMedium = 1"
| "SEVERITY_SORT SevLow = 2"

record issue_candidate =
  ic_issue_key :: string
  ic_issue_id :: string
  ic_dimension :: string
  ic_severity :: severity
  ic_summary :: string
  ic_details :: "(string, string) dict"
  ic_classification :: string
  ic_remediation :: "string option"
  ic_approval_implication :: "string option"

type_synonym issue_map = "(string, issue_candidate) dict"

record suitability_evidence =
  sx_as_of :: string
  sx_portfolio_snapshot_id :: string
  sx_market_data_snapshot_id :: string

record suitability_issue =
  su_issue_id :: string
  su_issue_key :: string
  su_dimension :: string
  su_severity :: severity
  su_status_change :: status_change
  su_classification :: string
  su_summary :: string
  su_remediation :: "string option"
  su_approval_implication :: "string option"
  su_details :: "(string, string) dict"
  su_evidence :: suitability_evidence
  su_policy_pack_id :: string
  su_policy_version :: string

record suitability_summary =
  sy_new_count :: nat
  sy_resolved_count :: nat
  sy_persistent_count :: nat
  sy_highest_severity_new :: "severity option"

record suitability_result =
  sf_summary :: suitability_summary
  sf_issues :: "suitability_issue list"
  sf_policy_pack_id :: string
  sf_policy_version :: string
  sf_recommended_gate :: string

section \<open>Rule results and gate decisions\<close>

datatype rule_severity = RuleHard | RuleSoft | RuleInfo

datatype rule_status = RulePass | RuleFail

record rule_result =
  rr_rule_id :: string
  rr_severity :: rule_severity
  rr_status :: rule_status
  rr_measured :: decimal
  rr_threshold :: "(string, decimal) dict"
  rr_reason_code :: string
  rr_remediation_hint :: "string option"

record gate_reason =
  gr_reason_code :: string
  gr_severity :: severity
  gr_source :: string
  gr_details :: "(string, string) dict"

datatype gate =
    GateBlocked | GateRiskReview | GateComplianceReview | GateClientConsent | GateExecutionReady
  | GateNone

datatype next_step =
    FixInput | StepRiskReview | StepComplianceReview | RequestClientConsent | StepExecute | StepNone

record gate_decision_summary =
  gs_hard_fail_count :: nat
  gs_soft_fail_count :: nat
  gs_new_high_suitability_count :: nat
  gs_new_medium_suitability_count :: nat

record gate_decision =
  gd_gate :: gate
  gd_recommended_next_step :: next_step
  gd_reasons :: "gate_reason list"
  gd_summary :: gate_decision_summary

end
