(* ===== verification/Suitability.thy ===== *)
theory Suitability
  imports Suitability_Models
begin

text \<open>
  The suitability scanner (src/core/common/suitability.py, suitability_policy.py,
  suitability_state_issues.py, suitability_post_trade_issues.py, suitability_projection.py): the
  issues of a portfolio state, the issues the proposed trades raise, and their classification into
  new, persistent and resolved ones. The evaluators write into one map of issue candidates; here
  each takes the map and returns it.
\<close>

section \<open>Policy helpers\<close>

definition EPSILON :: decimal where
  "EPSILON = dec 1 (- 7)"

definition dec_zero :: decimal where
  "dec_zero = dec 0 0"

definition weight_of :: "(string, decimal) dict \<Rightarrow> string \<Rightarrow> decimal" where
  "weight_of d k = (case dict_get d k of None \<Rightarrow> dec_zero | Some w \<Rightarrow> w)"

definition to_instrument_weight_map :: "simulated_state \<Rightarrow> (string, decimal) dict" where
  "to_instrument_weight_map state =
     fold (\<lambda>metric d. if dec_less dec_zero (am_weight metric)
                      then dict_set (am_key metric) (am_weight metric) d else d)
       (ss_allocation_by_instrument state) []"

definition to_cash_weight :: "simulated_state \<Rightarrow> decimal" where
  "to_cash_weight state =
     (case find (\<lambda>metric. am_key metric = ''CASH'') (ss_allocation_by_asset_class state) of
        None \<Rightarrow> dec_zero
      | Some metric \<Rightarrow> am_weight metric)"

definition severity_for_concentration :: "decimal \<Rightarrow> decimal \<Rightarrow> severity" where
  "severity_for_concentration measured limit =
     (if dec_less (dec_mul limit (dec 125 (- 2))) measured then SevHigh else SevMedium)"

definition issue_data_quality ::
  "string \<Rightarrow> string \<Rightarrow> (string, string) dict \<Rightarrow> severity \<Rightarrow> issue_candidate" where
  "issue_data_quality issue_key summary details sev =
     \<lparr>ic_issue_key = issue_key, ic_issue_id = ''SUIT_DATA_QUALITY'',
      ic_dimension = ''DATA_QUALITY'', ic_severity = sev, ic_summary = summary,
      ic_details = details, ic_classification = ''UNKNOWN_DUE_TO_MISSING_EVIDENCE'',
      ic_remediation =
        Some ''Refresh the missing upstream enrichment before progressing the proposal.'',
      ic_approval_implication = Some ''DATA_REMEDIATION''\<rparr>"

text \<open>\<open>weight > cap + EPSILON\<close>.\<close>

definition exceeds :: "decimal \<Rightarrow> decimal \<Rightarrow> bool" where
  "exceeds weight cap = dec_less (dec_add cap EPSILON) weight"

definition put_issue :: "issue_candidate \<Rightarrow> issue_map \<Rightarrow> issue_map" where
  "put_issue c m = dict_set (ic_issue_key c) c m"

definition review_implication :: "severity \<Rightarrow> string" where
  "review_implication sev = (if sev = SevHigh then ''COMPLIANCE_REVIEW'' else ''RISK_REVIEW'')"

section \<open>Issues of a state\<close>

definition single_position_issue :: "string \<Rightarrow> decimal \<Rightarrow> decimal \<Rightarrow> issue_candidate" where
  "single_position_issue instrument_id weight cap =
     (let sev = severity_for_concentration weight cap in
      \<lparr>ic_issue_key = ''SINGLE_POSITION_MAX|'' @ instrument_id,
       ic_issue_id = ''SUIT_SINGLE_POSITION_MAX'', ic_dimension = ''CONCENTRATION'',
       ic_severity = sev,
       ic_summary = ''Single position '' @ instrument_id @ '' exceeds '' @ dec_percent cap @ '' cap.'',
       ic_details = [(''instrument_id'', instrument_id), (''threshold'', dec_str cap),
                     (''measured'', dec_str weight)],
       ic_classification = ''NEW'',
       ic_remediation =
         Some ''Reduce the position weight or rebalance through offsetting trades.'',
       ic_approval_implication = Some (review_implication sev)\<rparr>)"

definition evaluate_single_position_issues ::
  "simulated_state \<Rightarrow> engine_options \<Rightarrow> issue_map \<Rightarrow> issue_map" where
  "evaluate_single_position_issues target_state options issues =
     (let cap = tc_single_position_max_weight (eo_suitability_thresholds options) in
      fold (\<lambda>(instrument_id, weight) m.
              if exceeds weight cap then put_issue (single_position_issue instrument_id weight cap) m
              else m)
        (to_instrument_weight_map target_state) issues)"

definition add_missing_shelf_issue :: "string \<Rightarrow> severity \<Rightarrow> issue_map \<Rightarrow> issue_map" where
  "add_missing_shelf_issue instrument_id sev issues =
     put_issue (issue_data_quality (''DQ|MISSING_SHELF|'' @ instrument_id)
       (''Shelf enrichment missing for '' @ instrument_id @ ''.'')
       [(''instrument_id'', instrument_id), (''missing_fields'', ''shelf_entry'')] sev) issues"

definition add_missing_enrichment_issue ::
  "string \<Rightarrow> string \<Rightarrow> string \<Rightarrow> string \<Rightarrow> severity \<Rightarrow> issue_map \<Rightarrow> issue_map" where
  "add_missing_enrichment_issue instrument_id missing_detail label key_prefix sev issues =
     put_issue (issue_data_quality (key_prefix @ ''|'' @ instrument_id)
       (label @ '' missing for '' @ instrument_id @ ''.'')
       [(''instrument_id'', instrument_id), (''missing_fields'', missing_detail)] sev) issues"

text \<open>\<open>getattr(shelf_entry, bucket)\<close> is an argument.\<close>

definition aggregate_enriched_weights ::
  "(string, decimal) dict \<Rightarrow> (string, shelf_entry) dict \<Rightarrow> (shelf_entry \<Rightarrow> string option) \<Rightarrow> bool \<Rightarrow>
   string \<Rightarrow> string \<Rightarrow> string \<Rightarrow> severity \<Rightarrow> issue_map \<Rightarrow> (string, decimal) dict \<times> issue_map" where
  "aggregate_enriched_weights target_weights shelf bucket missing_shelf missing_detail label key_prefix
       sev issues =
     fold (\<lambda>(instrument_id, weight) (weights, m).
        case dict_get shelf instrument_id of
          None \<Rightarrow>
            (weights, if missing_shelf then add_missing_shelf_issue instrument_id sev m else m)
        | Some entry \<Rightarrow>
            (case bucket entry of
               None \<Rightarrow>
                 (weights, add_missing_enrichment_issue instrument_id missing_detail label key_prefix sev m)
             | Some b \<Rightarrow>
                 if b = []
                 then (weights,
                       add_missing_enrichment_issue instrument_id missing_detail label key_prefix sev m)
                 else (dict_set b (dec_add (weight_of weights b) weight) weights, m)))
       target_weights ([], issues)"

definition issuer_exposure_issue :: "string \<Rightarrow> decimal \<Rightarrow> decimal \<Rightarrow> issue_candidate" where
  "issuer_exposure_issue issuer_id weight cap =
     (let sev = severity_for_concentration weight cap in
      \<lparr>ic_issue_key = ''ISSUER_MAX|'' @ issuer_id, ic_issue_id = ''SUIT_ISSUER_MAX'',
       ic_dimension = ''ISSUER'', ic_severity = sev,
       ic_summary = ''Issuer '' @ issuer_id @ '' exceeds '' @ dec_percent cap @ '' exposure cap.'',
       ic_details = [(''issuer_id'', issuer_id), (''threshold'', dec_str cap),
                     (''measured'', dec_str weight)],
       ic_classification = ''NEW'',
       ic_remediation =
         Some ''Reduce issuer concentration or add diversified replacement exposure.'',
       ic_approval_implication = Some (review_implication sev)\<rparr>)"

definition evaluate_issuer_issues ::
  "simulated_state \<Rightarrow> (string, shelf_entry) dict \<Rightarrow> engine_options \<Rightarrow> issue_map \<Rightarrow> issue_map" where
  "evaluate_issuer_issues target_state shelf options issues =
     (let t = eo_suitability_thresholds options;
          (weights, m) = aggregate_enriched_weights (to_instrument_weight_map target_state) shelf
             sh_issuer_id True ''issuer_id'' ''Issuer enrichment'' ''DQ|MISSING_ISSUER''
             (tc_data_quality_issue_severity t) issues
      in fold (\<lambda>(issuer_id, weight) m.
                 if exceeds weight (tc_issuer_max_weight t)
                 then put_issue (issuer_exposure_issue issuer_id weight (tc_issuer_max_weight t)) m
                 else m)
           weights m)"

definition liquidity_exposure_issue :: "string \<Rightarrow> decimal \<Rightarrow> decimal \<Rightarrow> issue_candidate" where
  "liquidity_exposure_issue tier measured cap =
     \<lparr>ic_issue_key = ''LIQUIDITY_MAX|'' @ tier, ic_issue_id = ''SUIT_LIQUIDITY_MAX'',
      ic_dimension = ''LIQUIDITY'', ic_severity = severity_for_concentration measured cap,
      ic_summary = ''Liquidity tier '' @ tier @ '' exceeds '' @ dec_percent cap @ '' exposure cap.'',
      ic_details = [(''liquidity_tier'', tier), (''threshold'', dec_str cap),
                    (''measured'', dec_str measured)],
      ic_classification = ''NEW'',
      ic_remediation = Some ''Reduce illiquid exposure or increase liquid funding assets.'',
      ic_approval_implication = Some ''RISK_REVIEW''\<rparr>"

definition evaluate_liquidity_issues ::
  "simulated_state \<Rightarrow> (string, shelf_entry) dict \<Rightarrow> engine_options \<Rightarrow> issue_map \<Rightarrow> issue_map" where
  "evaluate_liquidity_issues target_state shelf options issues =
     (let t = eo_suitability_thresholds options;
          (weights, m) = aggregate_enriched_weights (to_instrument_weight_map target_state) shelf
             sh_liquidity_tier False ''liquidity_tier'' ''Liquidity tier enrichment''
             ''DQ|MISSING_LIQUIDITY_TIER'' (tc_data_quality_issue_severity t) issues
      in fold (\<lambda>(tier, cap) m.
                 if exceeds (weight_of weights tier) cap
                 then put_issue (liquidity_exposure_issue tier (weight_of weights tier) cap) m
                 else m)
           (tc_max_weight_by_liquidity_tier t) m)"

section \<open>Governance of holdings\<close>

definition holding_increased :: "decimal \<Rightarrow> decimal \<Rightarrow> bool" where
  "holding_increased before_weight after_weight = exceeds after_weight before_weight"

definition governance_issue_key :: "string \<Rightarrow> shelf_status \<Rightarrow> string" where
  "governance_issue_key instrument_id status =
     ''GOVERNANCE|'' @ instrument_id @ ''|'' @ shelf_status_name status"

text \<open>Only for banned and suspended instruments.\<close>

definition presence_governance_issue ::
  "string \<Rightarrow> shelf_status \<Rightarrow> decimal \<Rightarrow> issue_candidate" where
  "presence_governance_issue instrument_id status after_weight =
     \<lparr>ic_issue_key = governance_issue_key instrument_id status,
      ic_issue_id = (if status = ShelfBanned then ''SUIT_GOVERNANCE_BANNED''
                     else ''SUIT_GOVERNANCE_SUSPENDED''),
      ic_dimension = ''GOVERNANCE'', ic_severity = SevHigh,
      ic_summary = shelf_status_name status @ '' instrument '' @ instrument_id @
        '' is present in the portfolio.'',
      ic_details = [(''instrument_id'', instrument_id), (''shelf_status'', shelf_status_name status),
                    (''measured'', dec_str after_weight)],
      ic_classification = ''NEW'',
      ic_remediation = Some (if status = ShelfBanned
        then ''Remove the banned instrument from the proposal before proceeding.''
        else ''Hold execution until the suspended instrument is removed or cleared.''),
      ic_approval_implication = Some ''COMPLIANCE_REVIEW''\<rparr>"

definition presence_governance_issue_if_applicable ::
  "string \<Rightarrow> shelf_status \<Rightarrow> decimal \<Rightarrow> issue_candidate option" where
  "presence_governance_issue_if_applicable instrument_id status after_weight =
     (if status \<notin> {ShelfBanned, ShelfSuspended} \<or> dec_le after_weight EPSILON then None
      else Some (presence_governance_issue instrument_id status after_weight))"

definition governance_increase_details ::
  "string \<Rightarrow> shelf_status \<Rightarrow> decimal \<Rightarrow> decimal \<Rightarrow> (string, string) dict" where
  "governance_increase_details instrument_id status before_weight after_weight =
     [(''instrument_id'', instrument_id), (''shelf_status'', shelf_status_name status),
      (''measured_before'', dec_str before_weight), (''measured_after'', dec_str after_weight)]"

definition sell_only_increase_issue :: "string \<Rightarrow> decimal \<Rightarrow> decimal \<Rightarrow> issue_candidate" where
  "sell_only_increase_issue instrument_id before_weight after_weight =
     \<lparr>ic_issue_key = governance_issue_key instrument_id ShelfSellOnly,
      ic_issue_id = ''SUIT_GOVERNANCE_SELL_ONLY_INCREASE'', ic_dimension = ''GOVERNANCE'',
      ic_severity = SevHigh,
      ic_summary = ''SELL_ONLY instrument '' @ instrument_id @ '' increased in proposed state.'',
      ic_details = governance_increase_details instrument_id ShelfSellOnly before_weight
        after_weight,
      ic_classification = ''NEW'',
      ic_remediation =
        Some ''Remove the increase or obtain explicit product-control approval.'',
      ic_approval_implication = Some ''COMPLIANCE_REVIEW''\<rparr>"

definition bool_text :: "bool \<Rightarrow> string" where
  "bool_text b = (if b then ''true'' else ''false'')"

definition restricted_increase_summary :: "string \<Rightarrow> bool \<Rightarrow> string" where
  "restricted_increase_summary instrument_id allow_restricted =
     ''RESTRICTED instrument '' @ instrument_id @
     (if allow_restricted then '' increased under allow_restricted''
      else '' increased in proposed state'')"

definition restricted_increase_issue ::
  "string \<Rightarrow> decimal \<Rightarrow> decimal \<Rightarrow> bool \<Rightarrow> issue_candidate" where
  "restricted_increase_issue instrument_id before_weight after_weight allow_restricted =
     (let sev = (if allow_restricted then SevMedium else SevHigh) in
      \<lparr>ic_issue_key = governance_issue_key instrument_id ShelfRestricted,
       ic_issue_id = ''SUIT_GOVERNANCE_RESTRICTED_INCREASE'', ic_dimension = ''GOVERNANCE'',
       ic_severity = sev,
       ic_summary = restricted_increase_summary instrument_id allow_restricted,
       ic_details = governance_increase_details instrument_id ShelfRestricted before_weight
         after_weight @ [(''allow_restricted'', bool_text allow_restricted)],
       ic_classification = ''NEW'',
       ic_remediation = Some ''Confirm the restricted-product rationale before progressing.'',
       ic_approval_implication = Some (review_implication sev)\<rparr>)"

definition increase_governance_issue_if_applicable ::
  "string \<Rightarrow> shelf_status \<Rightarrow> decimal \<Rightarrow> decimal \<Rightarrow> bool \<Rightarrow> issue_candidate option" where
  "increase_governance_issue_if_applicable instrument_id status before_weight after_weight
       allow_restricted =
     (if \<not> holding_increased before_weight after_weight then None
      else if status = ShelfSellOnly
      then Some (sell_only_increase_issue instrument_id before_weight after_weight)
      else if status = ShelfRestricted
      then Some (restricted_increase_issue instrument_id before_weight after_weight
             allow_restricted)
      else None)"

definition governance_holding_issue ::
  "string \<Rightarrow> shelf_status \<Rightarrow> decimal \<Rightarrow> decimal \<Rightarrow> bool \<Rightarrow> issue_candidate option" where
  "governance_holding_issue instrument_id status before_weight after_weight allow_restricted =
     (case presence_governance_issue_if_applicable instrument_id status after_weight of
        Some issue \<Rightarrow> Some issue
      | None \<Rightarrow> increase_governance_issue_if_applicable instrument_id status before_weight
                  after_weight allow_restricted)"

text \<open>\<open>sorted(set(a) | set(b))\<close>.\<close>

definition sorted_union :: "string list \<Rightarrow> string list \<Rightarrow> string list" where
  "sorted_union a b = sort (remdups (a @ b))"

definition put_optional :: "issue_candidate option \<Rightarrow> issue_map \<Rightarrow> issue_map" where
  "put_optional issue m = (case issue of None \<Rightarrow> m | Some c \<Rightarrow> put_issue c m)"

definition evaluate_governance_holdings_issues ::
  "simulated_state \<Rightarrow> simulated_state \<Rightarrow> (string, shelf_entry) dict \<Rightarrow> engine_options \<Rightarrow>
   issue_map \<Rightarrow> issue_map" where
  "evaluate_governance_holdings_issues target_state before_state shelf options issues =
     (let before_weights = to_instrument_weight_map before_state;
          target_weights = to_instrument_weight_map target_state
      in fold (\<lambda>instrument_id m.
             case dict_get shelf instrument_id of
               None \<Rightarrow> m
             | Some entry \<Rightarrow> put_optional (governance_holding_issue instrument_id (sh_status entry)
                   (weight_of before_weights instrument_id) (weight_of target_weights instrument_id)
                   (eo_allow_restricted options)) m)
           (sorted_union (dict_keys before_weights) (dict_keys target_weights)) issues)"

definition evaluate_cash_band_issue ::
  "simulated_state \<Rightarrow> engine_options \<Rightarrow> issue_map \<Rightarrow> issue_map" where
  "evaluate_cash_band_issue target_state options issues =
     (let t = eo_suitability_thresholds options; cash_weight = to_cash_weight target_state in
      if dec_less cash_weight (dec_sub (tc_cash_band_min_weight t) EPSILON) \<or>
         exceeds cash_weight (tc_cash_band_max_weight t)
      then put_issue
        \<lparr>ic_issue_key = ''CASH_BAND'', ic_issue_id = ''SUIT_CASH_BAND'', ic_dimension = ''CASH'',
         ic_severity = SevMedium,
         ic_summary = ''Cash weight is outside advisory suitability band.'',
         ic_details = [(''threshold_min'', dec_str (tc_cash_band_min_weight t)),
                       (''threshold_max'', dec_str (tc_cash_band_max_weight t)),
                       (''measured'', dec_str cash_weight)],
         ic_classification = ''NEW'',
         ic_remediation =
           Some ''Adjust cash funding so the proposal stays within the cash suitability band.'',
         ic_approval_implication = Some ''RISK_REVIEW''\<rparr> issues
      else issues)"

definition scan_state_issues ::
  "simulated_state \<Rightarrow> simulated_state \<Rightarrow> (string, shelf_entry) dict \<Rightarrow> engine_options \<Rightarrow> issue_map" where
  "scan_state_issues target_state before_state shelf options =
     evaluate_cash_band_issue target_state options
       (evaluate_governance_holdings_issues target_state before_state shelf options
         (evaluate_liquidity_issues target_state shelf options
           (evaluate_issuer_issues target_state shelf options
             (evaluate_single_position_issues target_state options []))))"

end
