(* ===== verification/Suitability_Result.thy ===== *)
theory Suitability_Result
  imports Suitability
begin

text \<open>
  The second half of the suitability scanner: the issues that the proposed trades raise
  (src/core/common/suitability_post_trade_issues.py), the classification of the issues before and
  after (suitability_projection.py), and the whole computation (suitability.py).
\<close>

section \<open>Policy context\<close>

definition context_status_available :: "json_dict option \<Rightarrow> string \<Rightarrow> bool" where
  "context_status_available policy_context status_key =
     (case policy_context of
        None \<Rightarrow> False
      | Some d \<Rightarrow> obj_get d status_key = JStr ''AVAILABLE'')"

definition client_context_available :: "json_dict option \<Rightarrow> bool" where
  "client_context_available c = context_status_available c ''client_context_status''"

definition mandate_context_available :: "json_dict option \<Rightarrow> bool" where
  "mandate_context_available c = context_status_available c ''mandate_context_status''"

definition jurisdiction_context_available :: "json_dict option \<Rightarrow> bool" where
  "jurisdiction_context_available c = context_status_available c ''jurisdiction_context_status''"

section \<open>Issues of the proposed trades\<close>

text \<open>
  A trade is a dictionary, or an object with the same fields; a missing field reads as \<open>None\<close>.
\<close>

definition trade_field :: "json_dict \<Rightarrow> string \<Rightarrow> json" where
  "trade_field trade field = obj_get trade field"

definition buy_instrument_ids :: "json_dict list \<Rightarrow> string list" where
  "buy_instrument_ids proposed_trades =
     map (\<lambda>trade. py_str (trade_field trade ''instrument_id''))
       (filter (\<lambda>trade. trade_field trade ''side'' = JStr ''BUY'' \<and>
                        json_truthy (trade_field trade ''instrument_id'')) proposed_trades)"

definition governance_weight_details ::
  "string \<Rightarrow> shelf_entry \<Rightarrow> (string, decimal) dict \<Rightarrow> (string, decimal) dict \<Rightarrow>
   (string, string) dict" where
  "governance_weight_details instrument_id entry before_weights after_weights =
     [(''instrument_id'', instrument_id), (''shelf_status'', shelf_status_name (sh_status entry)),
      (''measured_before'', dec_str (weight_of before_weights instrument_id)),
      (''measured_after'', dec_str (weight_of after_weights instrument_id))]"

definition sell_only_buy_attempt_issue ::
  "string \<Rightarrow> shelf_entry \<Rightarrow> (string, decimal) dict \<Rightarrow> (string, decimal) dict \<Rightarrow> issue_candidate" where
  "sell_only_buy_attempt_issue instrument_id entry before_weights after_weights =
     \<lparr>ic_issue_key = governance_issue_key instrument_id (sh_status entry),
      ic_issue_id = ''SUIT_GOVERNANCE_SELL_ONLY_INCREASE'', ic_dimension = ''GOVERNANCE'',
      ic_severity = SevHigh,
      ic_summary =
        ''Proposal BUY attempts to increase SELL_ONLY instrument '' @ instrument_id @ ''.'',
      ic_details = governance_weight_details instrument_id entry before_weights after_weights,
      ic_classification = ''NEW'',
      ic_remediation =
        Some ''Remove the SELL_ONLY buy or obtain explicit product-control approval.'',
      ic_approval_implication = Some ''COMPLIANCE_REVIEW''\<rparr>"

definition restricted_buy_attempt_issue ::
  "string \<Rightarrow> shelf_entry \<Rightarrow> (string, decimal) dict \<Rightarrow> (string, decimal) dict \<Rightarrow> engine_options \<Rightarrow>
   issue_candidate" where
  "restricted_buy_attempt_issue instrument_id entry before_weights after_weights options =
     (let sev = (if eo_allow_restricted options then SevMedium else SevHigh) in
      \<lparr>ic_issue_key = governance_issue_key instrument_id (sh_status entry),
       ic_issue_id = ''SUIT_GOVERNANCE_RESTRICTED_INCREASE'', ic_dimension = ''GOVERNANCE'',
       ic_severity = sev,
       ic_summary =
         ''Proposal BUY attempts to increase RESTRICTED instrument '' @ instrument_id @ ''.'',
       ic_details = governance_weight_details instrument_id entry before_weights after_weights @
         [(''allow_restricted'', bool_text (eo_allow_restricted options))],
       ic_classification = ''NEW'',
       ic_remediation = Some ''Document the restricted-product rationale before progressing.'',
       ic_approval_implication = Some (review_implication sev)\<rparr>)"

definition governance_trade_attempt_issue ::
  "string \<Rightarrow> shelf_entry \<Rightarrow> (string, decimal) dict \<Rightarrow> (string, decimal) dict \<Rightarrow> engine_options \<Rightarrow>
   issue_candidate option" where
  "governance_trade_attempt_issue instrument_id entry before_weights after_weights options =
     (if sh_status entry = ShelfSellOnly
      then Some (sell_only_buy_attempt_issue instrument_id entry before_weights after_weights)
      else if sh_status entry = ShelfRestricted
      then Some (restricted_buy_attempt_issue instrument_id entry before_weights after_weights
             options)
      else None)"

definition append_governance_trade_attempt_issues ::
  "simulated_state \<Rightarrow> simulated_state \<Rightarrow> (string, shelf_entry) dict \<Rightarrow> json_dict list \<Rightarrow>
   engine_options \<Rightarrow> issue_map \<Rightarrow> issue_map" where
  "append_governance_trade_attempt_issues before after shelf proposed_trades options after_issues =
     (let before_weights = to_instrument_weight_map before;
          after_weights = to_instrument_weight_map after
      in fold (\<lambda>instrument_id m.
             case dict_get shelf instrument_id of
               None \<Rightarrow> m
             | Some entry \<Rightarrow> put_optional (governance_trade_attempt_issue instrument_id entry
                   before_weights after_weights options) m)
           (buy_instrument_ids proposed_trades) after_issues)"

text \<open>
  \<open>upper()\<close> of a text matters only where it is one of two ASCII words.
\<close>

definition product_complexity :: "shelf_entry \<Rightarrow> string" where
  "product_complexity entry =
     map upper_char (case dict_get (sh_attributes entry) ''product_complexity'' of
                       None \<Rightarrow> [] | Some v \<Rightarrow> v)"

definition requires_product_complexity_evidence :: "shelf_entry \<Rightarrow> json_dict option \<Rightarrow> bool" where
  "requires_product_complexity_evidence entry policy_context =
     (product_complexity entry \<in> set [''HIGH'', ''COMPLEX''] \<and>
      \<not> client_context_available policy_context)"

definition is_product_complexity_exposure_increase ::
  "string \<Rightarrow> string list \<Rightarrow> decimal \<Rightarrow> decimal \<Rightarrow> bool" where
  "is_product_complexity_exposure_increase instrument_id buy_attempts before_weight after_weight =
     (instrument_id \<in> set buy_attempts \<or> exceeds after_weight before_weight)"

definition product_complexity_issue ::
  "string \<Rightarrow> string \<Rightarrow> decimal \<Rightarrow> decimal \<Rightarrow> issue_candidate" where
  "product_complexity_issue instrument_id complexity before_weight after_weight =
     \<lparr>ic_issue_key = ''PRODUCT_COMPLEXITY|'' @ instrument_id,
      ic_issue_id = ''MISSING_CLIENT_PRODUCT_COMPLEXITY_EVIDENCE'', ic_dimension = ''PRODUCT'',
      ic_severity = SevHigh,
      ic_summary = ''Complex product '' @ instrument_id @
        '' requires client knowledge and experience evidence before recommendation.'',
      ic_details = [(''instrument_id'', instrument_id), (''product_complexity'', complexity),
                    (''measured_before'', dec_str before_weight),
                    (''measured_after'', dec_str after_weight)],
      ic_classification = ''UNKNOWN_DUE_TO_MISSING_EVIDENCE'',
      ic_remediation = Some ''Capture client product-complexity evidence before progressing.'',
      ic_approval_implication = Some ''CLIENT_CONTEXT_REQUIRED''\<rparr>"

definition append_product_complexity_issues ::
  "simulated_state \<Rightarrow> simulated_state \<Rightarrow> (string, shelf_entry) dict \<Rightarrow> json_dict list \<Rightarrow>
   json_dict option \<Rightarrow> issue_map \<Rightarrow> issue_map" where
  "append_product_complexity_issues before after shelf proposed_trades policy_context after_issues =
     (let before_weights = to_instrument_weight_map before;
          after_weights = to_instrument_weight_map after;
          buy_attempts = buy_instrument_ids proposed_trades
      in fold (\<lambda>instrument_id m.
             case dict_get shelf instrument_id of
               None \<Rightarrow> m
             | Some entry \<Rightarrow>
                 (let b = weight_of before_weights instrument_id;
                      a = weight_of after_weights instrument_id in
                  if requires_product_complexity_evidence entry policy_context \<and>
                     is_product_complexity_exposure_increase instrument_id buy_attempts b a
                  then put_issue (product_complexity_issue instrument_id (product_complexity entry)
                         b a) m
                  else m))
           (sorted_union (dict_keys after_weights) buy_attempts) after_issues)"

definition restricted_product_mandate_context_issue :: "string \<Rightarrow> shelf_entry \<Rightarrow> issue_candidate" where
  "restricted_product_mandate_context_issue instrument_id entry =
     \<lparr>ic_issue_key = ''MANDATE_CONTEXT|'' @ instrument_id,
      ic_issue_id = ''MISSING_MANDATE_RESTRICTED_PRODUCT_EVIDENCE'', ic_dimension = ''PRODUCT'',
      ic_severity = SevHigh,
      ic_summary = ''Restricted product '' @ instrument_id @
        '' requires mandate context before recommendation.'',
      ic_details = [(''instrument_id'', instrument_id),
                    (''shelf_status'', shelf_status_name (sh_status entry))],
      ic_classification = ''UNKNOWN_DUE_TO_MISSING_EVIDENCE'',
      ic_remediation = Some ''Capture mandate context for the restricted-product recommendation.'',
      ic_approval_implication = Some ''MANDATE_EXCEPTION_APPROVAL''\<rparr>"

definition requires_restricted_product_mandate_context :: "json_dict option \<Rightarrow> bool" where
  "requires_restricted_product_mandate_context policy_context =
     (policy_context \<noteq> None \<and> \<not> mandate_context_available policy_context)"

definition restricted_product_mandate_context_issue_for_instrument ::
  "string \<Rightarrow> (string, shelf_entry) dict \<Rightarrow> issue_candidate option" where
  "restricted_product_mandate_context_issue_for_instrument instrument_id shelf =
     (case dict_get shelf instrument_id of
        None \<Rightarrow> None
      | Some entry \<Rightarrow>
          if sh_status entry \<noteq> ShelfRestricted then None
          else Some (restricted_product_mandate_context_issue instrument_id entry))"

definition append_restricted_product_mandate_context_issues ::
  "(string, shelf_entry) dict \<Rightarrow> json_dict list \<Rightarrow> json_dict option \<Rightarrow> issue_map \<Rightarrow> issue_map" where
  "append_restricted_product_mandate_context_issues shelf proposed_trades policy_context
       after_issues =
     (if \<not> requires_restricted_product_mandate_context policy_context then after_issues
      else fold (\<lambda>instrument_id m. put_optional
               (restricted_product_mandate_context_issue_for_instrument instrument_id shelf) m)
             (buy_instrument_ids proposed_trades) after_issues)"

section \<open>Classification\<close>

definition POLICY_PACK_ID :: string where
  "POLICY_PACK_ID = ''global-private-banking-baseline''"

definition POLICY_PACK_VERSION :: string where
  "POLICY_PACK_VERSION = ''enterprise-suitability-policy.2026-04''"

definition build_suitability_issue ::
  "status_change \<Rightarrow> issue_candidate \<Rightarrow> suitability_evidence \<Rightarrow> suitability_issue" where
  "build_suitability_issue status c evidence =
     \<lparr>su_issue_id = ic_issue_id c, su_issue_key = ic_issue_key c, su_dimension = ic_dimension c,
      su_severity = ic_severity c, su_status_change = status,
      su_classification = (if ic_classification c = ''UNKNOWN_DUE_TO_MISSING_EVIDENCE''
        then ic_classification c else status_change_name status),
      su_summary = ic_summary c, su_remediation = ic_remediation c,
      su_approval_implication = ic_approval_implication c, su_details = ic_details c,
      su_evidence = evidence, su_policy_pack_id = POLICY_PACK_ID,
      su_policy_version = POLICY_PACK_VERSION\<rparr>"

definition issue_status_change :: "bool \<Rightarrow> bool \<Rightarrow> status_change option" where
  "issue_status_change in_before in_after =
     (if in_after then Some (if in_before then ScPersistent else ScNew)
      else if in_before then Some ScResolved else None)"

text \<open>A lookup that would raise a \<open>KeyError\<close> is \<open>None\<close>; the status rules it out.\<close>

definition issue_candidate_of ::
  "string \<Rightarrow> status_change \<Rightarrow> issue_map \<Rightarrow> issue_map \<Rightarrow> issue_candidate option" where
  "issue_candidate_of issue_key status before_issues after_issues =
     (if status = ScResolved then dict_get before_issues issue_key
      else dict_get after_issues issue_key)"

definition classified_issue ::
  "string \<Rightarrow> issue_map \<Rightarrow> issue_map \<Rightarrow> suitability_evidence \<Rightarrow> suitability_issue option" where
  "classified_issue issue_key before_issues after_issues evidence =
     (case issue_status_change (issue_key \<in> set (dict_keys before_issues))
             (issue_key \<in> set (dict_keys after_issues)) of
        None \<Rightarrow> None
      | Some status \<Rightarrow>
          map_option (\<lambda>c. build_suitability_issue status c evidence)
            (issue_candidate_of issue_key status before_issues after_issues))"

definition issue_sort_key :: "suitability_issue \<Rightarrow> nat \<times> nat \<times> string \<times> string" where
  "issue_sort_key issue =
     (STATUS_SORT (su_status_change issue), SEVERITY_SORT (su_severity issue),
      su_dimension issue, su_issue_key issue)"

text \<open>
  The code iterates over a set of keys, in an order Python does not fix; \<open>keys\<close> is that order.
\<close>

definition classify_issues_in ::
  "string list \<Rightarrow> issue_map \<Rightarrow> issue_map \<Rightarrow> suitability_evidence \<Rightarrow> suitability_issue list" where
  "classify_issues_in keys before_issues after_issues evidence =
     sort_key issue_sort_key
       (List.map_filter (\<lambda>k. classified_issue k before_issues after_issues evidence) keys)"

definition classify_issues ::
  "issue_map \<Rightarrow> issue_map \<Rightarrow> suitability_evidence \<Rightarrow> suitability_issue list" where
  "classify_issues before_issues after_issues evidence =
     classify_issues_in (remdups (dict_keys before_issues @ dict_keys after_issues))
       before_issues after_issues evidence"

definition issues_with_status :: "suitability_issue list \<Rightarrow> status_change \<Rightarrow> suitability_issue list" where
  "issues_with_status issues status = filter (\<lambda>issue. su_status_change issue = status) issues"

definition highest_new_issue_severity :: "suitability_issue list \<Rightarrow> severity option" where
  "highest_new_issue_severity new_issues =
     find (\<lambda>sev. sev \<in> set (map su_severity new_issues)) [SevHigh, SevMedium, SevLow]"

fun GATE_BY_NEW_SEVERITY :: "severity \<Rightarrow> string" where
  "GATE_BY_NEW_SEVERITY SevHigh = ''COMPLIANCE_REVIEW''"
| "GATE_BY_NEW_SEVERITY SevMedium = ''RISK_REVIEW''"
| "GATE_BY_NEW_SEVERITY SevLow = ''NONE''"

definition recommended_gate :: "suitability_issue list \<Rightarrow> string" where
  "recommended_gate issues =
     (case highest_new_issue_severity (issues_with_status issues ScNew) of
        None \<Rightarrow> ''NONE'' | Some sev \<Rightarrow> GATE_BY_NEW_SEVERITY sev)"

section \<open>The computation\<close>

definition shelf_index :: "shelf_entry list \<Rightarrow> (string, shelf_entry) dict" where
  "shelf_index shelf = fold (\<lambda>entry d. dict_set (sh_instrument_id entry) entry d) shelf []"

definition scan_before_after_issues ::
  "simulated_state \<Rightarrow> simulated_state \<Rightarrow> (string, shelf_entry) dict \<Rightarrow> engine_options \<Rightarrow>
   issue_map \<times> issue_map" where
  "scan_before_after_issues before after shelf options =
     (scan_state_issues before before shelf options, scan_state_issues after before shelf options)"

definition append_post_trade_issues ::
  "simulated_state \<Rightarrow> simulated_state \<Rightarrow> (string, shelf_entry) dict \<Rightarrow> json_dict list \<Rightarrow>
   engine_options \<Rightarrow> json_dict option \<Rightarrow> issue_map \<Rightarrow> issue_map" where
  "append_post_trade_issues before after shelf proposed_trades options policy_context
       after_issues =
     append_restricted_product_mandate_context_issues shelf proposed_trades policy_context
       (append_product_complexity_issues before after shelf proposed_trades policy_context
         (append_governance_trade_attempt_issues before after shelf proposed_trades options
           after_issues))"

definition suitability_evidence_of :: "string option \<Rightarrow> string \<Rightarrow> string \<Rightarrow> suitability_evidence" where
  "suitability_evidence_of evidence_as_of portfolio_snapshot_id market_data_snapshot_id =
     \<lparr>sx_as_of = (case evidence_as_of of
         None \<Rightarrow> market_data_snapshot_id
       | Some t \<Rightarrow> if t = [] then market_data_snapshot_id else t),
      sx_portfolio_snapshot_id = portfolio_snapshot_id,
      sx_market_data_snapshot_id = market_data_snapshot_id\<rparr>"

definition suitability_summary_of :: "suitability_issue list \<Rightarrow> suitability_summary" where
  "suitability_summary_of issues =
     (let new_issues = issues_with_status issues ScNew in
      \<lparr>sy_new_count = length new_issues,
       sy_resolved_count = length (issues_with_status issues ScResolved),
       sy_persistent_count = length (issues_with_status issues ScPersistent),
       sy_highest_severity_new = highest_new_issue_severity new_issues\<rparr>)"

definition compute_suitability_result ::
  "simulated_state \<Rightarrow> simulated_state \<Rightarrow> shelf_entry list \<Rightarrow> engine_options \<Rightarrow> string \<Rightarrow> string \<Rightarrow>
   string option \<Rightarrow> json_dict list \<Rightarrow> json_dict option \<Rightarrow> suitability_result" where
  "compute_suitability_result before after shelf options portfolio_snapshot_id
       market_data_snapshot_id evidence_as_of proposed_trades policy_context =
     (let shelf_by_instrument = shelf_index shelf;
          (before_issues, scanned) = scan_before_after_issues before after shelf_by_instrument options;
          after_issues = append_post_trade_issues before after shelf_by_instrument proposed_trades
            options policy_context scanned;
          issues = classify_issues before_issues after_issues
            (suitability_evidence_of evidence_as_of portfolio_snapshot_id market_data_snapshot_id)
      in \<lparr>sf_summary = suitability_summary_of issues, sf_issues = issues,
          sf_policy_pack_id = POLICY_PACK_ID, sf_policy_version = POLICY_PACK_VERSION,
          sf_recommended_gate = recommended_gate issues\<rparr>)"

end
