(* ===== verification/Workflow_Gates.thy ===== *)
theory Workflow_Gates
  imports Suitability_Result
begin

text \<open>
  The workflow gate (src/core/common/workflow_gates.py): the reasons it collects from the rule
  engine, the suitability scan and the data-quality diagnostics, and the ordered rules that pick the
  outcome.
\<close>

section \<open>Reasons\<close>

record gate_reason_bundle =
  gb_reasons :: "gate_reason list"
  gb_hard_fail_count :: nat
  gb_soft_fail_count :: nat
  gb_new_high_suitability_count :: nat
  gb_new_medium_suitability_count :: nat

text \<open>
  The data-quality buckets of the diagnostics; without diagnostics there are none.
\<close>

definition dq_reasons :: "(string, string list) dict option \<Rightarrow> gate_reason list" where
  "dq_reasons diagnostics =
     (let dq = (case diagnostics of
                  None \<Rightarrow> [(''price_missing'', []), (''fx_missing'', [])] | Some d \<Rightarrow> d);
          reason = (\<lambda>code bucket. if dict_list dq bucket = [] then []
            else [\<lparr>gr_reason_code = code, gr_severity = SevHigh, gr_source = ''DATA_QUALITY'',
                   gr_details = [(''count'', nat_digits (length (dict_list dq bucket)))]\<rparr>])
      in reason ''DATA_QUALITY_MISSING_PRICE'' ''price_missing'' @
         reason ''DATA_QUALITY_MISSING_FX'' ''fx_missing'')"

definition rule_reason :: "rule_result \<Rightarrow> gate_reason option" where
  "rule_reason r =
     (if rr_status r \<noteq> RuleFail then None
      else case rr_severity r of
             RuleHard \<Rightarrow> Some \<lparr>gr_reason_code = ''HARD_RULE_FAIL:'' @ rr_rule_id r,
               gr_severity = SevHigh, gr_source = ''RULE_ENGINE'',
               gr_details = [(''reason_code'', rr_reason_code r)]\<rparr>
           | RuleSoft \<Rightarrow> Some \<lparr>gr_reason_code = ''SOFT_RULE_FAIL:'' @ rr_rule_id r,
               gr_severity = SevMedium, gr_source = ''RULE_ENGINE'',
               gr_details = [(''reason_code'', rr_reason_code r)]\<rparr>
           | RuleInfo \<Rightarrow> None)"

definition failed_rules :: "rule_severity \<Rightarrow> rule_result list \<Rightarrow> rule_result list" where
  "failed_rules sev rs = filter (\<lambda>r. rr_status r = RuleFail \<and> rr_severity r = sev) rs"

definition rule_reasons :: "rule_result list \<Rightarrow> gate_reason list \<times> nat \<times> nat" where
  "rule_reasons rs =
     (List.map_filter rule_reason rs, length (failed_rules RuleHard rs),
      length (failed_rules RuleSoft rs))"

definition new_suitability_gate_reason :: "suitability_issue \<Rightarrow> gate_reason option" where
  "new_suitability_gate_reason issue =
     (if su_status_change issue \<noteq> ScNew then None
      else let reason = (\<lambda>code. Some \<lparr>gr_reason_code = code, gr_severity = su_severity issue,
                 gr_source = ''SUITABILITY'',
                 gr_details = [(''issue_id'', su_issue_id issue),
                               (''issue_key'', su_issue_key issue)]\<rparr>)
           in case su_severity issue of
                SevHigh \<Rightarrow> reason ''NEW_HIGH_SUITABILITY_ISSUE''
              | SevMedium \<Rightarrow> reason ''NEW_MEDIUM_SUITABILITY_ISSUE''
              | SevLow \<Rightarrow> None)"

definition count_reasons :: "string \<Rightarrow> gate_reason list \<Rightarrow> nat" where
  "count_reasons code reasons = length (filter (\<lambda>r. gr_reason_code r = code) reasons)"

definition suitability_gate_reason_counts :: "gate_reason list \<Rightarrow> nat \<times> nat" where
  "suitability_gate_reason_counts reasons =
     (count_reasons ''NEW_HIGH_SUITABILITY_ISSUE'' reasons,
      count_reasons ''NEW_MEDIUM_SUITABILITY_ISSUE'' reasons)"

definition suitability_reasons :: "suitability_result option \<Rightarrow> gate_reason list \<times> nat \<times> nat" where
  "suitability_reasons suitability =
     (case suitability of
        None \<Rightarrow> ([], 0, 0)
      | Some result \<Rightarrow>
          let reasons = List.map_filter new_suitability_gate_reason (sf_issues result)
          in (reasons, suitability_gate_reason_counts reasons))"

definition collect_gate_reason_bundle ::
  "rule_result list \<Rightarrow> suitability_result option \<Rightarrow> (string, string list) dict option \<Rightarrow>
   gate_reason_bundle" where
  "collect_gate_reason_bundle rs suitability diagnostics =
     (let (reasons, hard_fail_count, soft_fail_count) = rule_reasons rs;
          (suit_reasons, new_high, new_medium) = suitability_reasons suitability
      in \<lparr>gb_reasons = reasons @ suit_reasons @ dq_reasons diagnostics,
          gb_hard_fail_count = hard_fail_count, gb_soft_fail_count = soft_fail_count,
          gb_new_high_suitability_count = new_high,
          gb_new_medium_suitability_count = new_medium\<rparr>)"

definition gate_reason_sort_key :: "gate_reason \<Rightarrow> nat \<times> string \<times> string \<times> string" where
  "gate_reason_sort_key reason =
     (SEVERITY_SORT (gr_severity reason), gr_source reason, gr_reason_code reason,
      (case dict_get (gr_details reason) ''issue_key'' of
         Some k \<Rightarrow> k
       | None \<Rightarrow> (case dict_get (gr_details reason) ''reason_code'' of
                    Some k \<Rightarrow> k | None \<Rightarrow> [])))"

definition sorted_gate_reasons :: "gate_reason list \<Rightarrow> gate_reason list" where
  "sorted_gate_reasons reasons = sort_key gate_reason_sort_key reasons"

section \<open>The outcome\<close>

record gate_decision_context =
  gx_status :: creation_status
  gx_reason_bundle :: gate_reason_bundle
  gx_options :: engine_options
  gx_default_requires_client_consent :: bool

definition has_blocking_input :: "gate_decision_context \<Rightarrow> bool" where
  "has_blocking_input context =
     (gx_status context = BLOCKED \<or> 0 < gb_hard_fail_count (gx_reason_bundle context))"

definition requires_compliance_review :: "gate_decision_context \<Rightarrow> bool" where
  "requires_compliance_review context =
     (0 < gb_new_high_suitability_count (gx_reason_bundle context))"

definition requires_risk_review :: "gate_decision_context \<Rightarrow> bool" where
  "requires_risk_review context =
     (0 < gb_soft_fail_count (gx_reason_bundle context) \<or>
      0 < gb_new_medium_suitability_count (gx_reason_bundle context))"

definition has_client_consent :: "gate_decision_context \<Rightarrow> bool" where
  "has_client_consent context = eo_client_consent_already_obtained (gx_options context)"

definition requires_client_consent :: "engine_options \<Rightarrow> bool \<Rightarrow> bool" where
  "requires_client_consent options default_requires_client_consent =
     (eo_workflow_requires_client_consent options \<or> default_requires_client_consent)"

definition still_requires_client_consent :: "gate_decision_context \<Rightarrow> bool" where
  "still_requires_client_consent context =
     requires_client_consent (gx_options context) (gx_default_requires_client_consent context)"

definition GATE_OUTCOME_RULES :: "((gate_decision_context \<Rightarrow> bool) \<times> gate \<times> next_step) list" where
  "GATE_OUTCOME_RULES =
     [(has_blocking_input, GateBlocked, FixInput),
      (requires_compliance_review, GateComplianceReview, StepComplianceReview),
      (requires_risk_review, GateRiskReview, StepRiskReview),
      (has_client_consent, GateExecutionReady, StepExecute),
      (still_requires_client_consent, GateClientConsent, RequestClientConsent)]"

definition resolve_gate_outcome :: "gate_decision_context \<Rightarrow> gate \<times> next_step" where
  "resolve_gate_outcome context =
     (case find (\<lambda>(applies, outcome). applies context) GATE_OUTCOME_RULES of
        Some (applies, outcome) \<Rightarrow> outcome
      | None \<Rightarrow> (GateExecutionReady, StepExecute))"

definition evaluate_gate_decision ::
  "creation_status \<Rightarrow> rule_result list \<Rightarrow> suitability_result option \<Rightarrow>
   (string, string list) dict option \<Rightarrow> engine_options \<Rightarrow> bool \<Rightarrow> gate_decision" where
  "evaluate_gate_decision status rs suitability diagnostics options
       default_requires_client_consent =
     (let reason_bundle = collect_gate_reason_bundle rs suitability diagnostics;
          (g, step) = resolve_gate_outcome
            \<lparr>gx_status = status, gx_reason_bundle = reason_bundle, gx_options = options,
             gx_default_requires_client_consent = default_requires_client_consent\<rparr>
      in \<lparr>gd_gate = g, gd_recommended_next_step = step,
          gd_reasons = sorted_gate_reasons (gb_reasons reason_bundle),
          gd_summary =
            \<lparr>gs_hard_fail_count = gb_hard_fail_count reason_bundle,
             gs_soft_fail_count = gb_soft_fail_count reason_bundle,
             gs_new_high_suitability_count = gb_new_high_suitability_count reason_bundle,
             gs_new_medium_suitability_count = gb_new_medium_suitability_count reason_bundle\<rparr>\<rparr>)"

end
