(* ===== verification/Suitability_Laws.thy ===== *)
theory Suitability_Laws
  imports Workflow_Gates "HOL-Library.Multiset"
begin

text \<open>
  What the scan reports and what the gate makes of it: the issue maps are filed under their keys,
  each evaluator writes only its own keys, classification compares the two maps key by key whatever
  the order of the keys, and the gate is decided by the rule failures and the new issues.
\<close>

section \<open>Issue maps\<close>

definition issues_filed :: "issue_map \<Rightarrow> bool" where
  "issues_filed m \<longleftrightarrow> dict_wf m \<and> (\<forall>k c. dict_get m k = Some c \<longrightarrow> ic_issue_key c = k)"

lemma issues_filed_empty [simp]: "issues_filed []"
  by (simp add: issues_filed_def)

lemma issues_filed_put [simp]: "issues_filed m \<Longrightarrow> issues_filed (put_issue c m)"
  by (simp add: issues_filed_def put_issue_def)

lemma issues_filed_optional [simp]: "issues_filed m \<Longrightarrow> issues_filed (put_optional c m)"
  by (cases c) (simp_all add: put_optional_def)

lemma fold_keeps: "P m \<Longrightarrow> (\<And>x m. x \<in> set xs \<Longrightarrow> P m \<Longrightarrow> P (f x m)) \<Longrightarrow> P (fold f xs m)"
  by (induction xs arbitrary: m) auto

lemma fold_filed:
  "issues_filed m \<Longrightarrow> (\<And>x m. issues_filed m \<Longrightarrow> issues_filed (f x m)) \<Longrightarrow> issues_filed (fold f xs m)"
  by (induction xs arbitrary: m) auto

lemma fold_snd_keeps:
  "P (snd s) \<Longrightarrow> (\<And>x s. P (snd s) \<Longrightarrow> P (snd (f x s))) \<Longrightarrow> P (snd (fold f xs s))"
  by (induction xs arbitrary: s) auto

lemma get_put_issue [simp]:
  "dict_get (put_issue c m) k = (if k = ic_issue_key c then Some c else dict_get m k)"
  by (simp add: put_issue_def)

lemma get_put_optional: "dict_get (put_optional c m) k =
    (case c of Some i \<Rightarrow> if k = ic_issue_key i then Some i else dict_get m k | None \<Rightarrow> dict_get m k)"
  by (simp add: put_optional_def split: option.split)

lemma keys_get: "k \<in> set (dict_keys d) \<longleftrightarrow> dict_get d k \<noteq> None"
  by (auto simp: dict_keys_def dict_get_def map_of_eq_None_iff)

lemma aggregate_keeps:
  assumes "P m" and "\<And>i m. P m \<Longrightarrow> P (add_missing_shelf_issue i sev m)"
    and "\<And>i m. P m \<Longrightarrow> P (add_missing_enrichment_issue i detail label key_prefix sev m)"
  shows "P (snd (aggregate_enriched_weights ws shelf bucket missing detail label key_prefix sev m))"
  unfolding aggregate_enriched_weights_def
  by (rule fold_snd_keeps) (use assms in \<open>auto split: option.split\<close>)

lemma scan_filed: "issues_filed (scan_state_issues target before shelf options)"
proof -
  have agg: "issues_filed (snd (aggregate_enriched_weights ws shelf bucket missing detail label key_prefix sev m))"
    if "issues_filed m" for ws shelf bucket missing detail label key_prefix sev m
    by (rule aggregate_keeps [where P = issues_filed, OF that])
      (simp_all add: add_missing_shelf_issue_def add_missing_enrichment_issue_def)
  have single: "issues_filed (evaluate_single_position_issues target options m)" if "issues_filed m" for m
    unfolding evaluate_single_position_issues_def Let_def
    by (rule fold_filed [OF that]) (auto split: prod.split)
  have issuer: "issues_filed (evaluate_issuer_issues target shelf options m)" if "issues_filed m" for m
    unfolding evaluate_issuer_issues_def Let_def case_prod_beta
    by (rule fold_filed [OF agg [OF that]]) auto
  have liquidity: "issues_filed (evaluate_liquidity_issues target shelf options m)" if "issues_filed m" for m
    unfolding evaluate_liquidity_issues_def Let_def case_prod_beta
    by (rule fold_filed [OF agg [OF that]]) auto
  have governance: "issues_filed (evaluate_governance_holdings_issues target before shelf options m)"
    if "issues_filed m" for m
    unfolding evaluate_governance_holdings_issues_def Let_def
    by (rule fold_filed [OF that]) (auto split: option.split)
  have cash: "issues_filed (evaluate_cash_band_issue target options m)" if "issues_filed m" for m
    using that by (simp add: evaluate_cash_band_issue_def Let_def)
  show ?thesis
    by (simp add: scan_state_issues_def cash governance liquidity issuer single)
qed

lemma post_trade_filed:
  assumes "issues_filed m"
  shows "issues_filed (append_post_trade_issues before after shelf trades options ctx m)"
proof -
  have gov: "issues_filed (append_governance_trade_attempt_issues before after shelf trades options m)"
    if "issues_filed m" for m
    unfolding append_governance_trade_attempt_issues_def Let_def
    by (rule fold_filed [OF that]) (auto split: option.split)
  have prod: "issues_filed (append_product_complexity_issues before after shelf trades ctx m)"
    if "issues_filed m" for m
    unfolding append_product_complexity_issues_def Let_def
    by (rule fold_filed [OF that]) (auto split: option.split)
  have mandate: "issues_filed (append_restricted_product_mandate_context_issues shelf trades ctx m)"
    if "issues_filed m" for m
    unfolding append_restricted_product_mandate_context_issues_def
    using that by (auto intro: fold_filed)
  show ?thesis by (simp add: append_post_trade_issues_def gov prod mandate assms)
qed

section \<open>Each evaluator writes its own keys\<close>

text \<open>The first letter of a key tells the evaluator; governance keys start with a G.\<close>

lemma fold_other_key:
  "(\<And>x m. x \<in> set xs \<Longrightarrow> dict_get (f x m) k = dict_get m k) \<Longrightarrow> dict_get (fold f xs m) k = dict_get m k"
  by (rule fold_keeps [where P = "\<lambda>m'. dict_get m' k = dict_get m k"]) simp_all

lemma aggregate_other_key:
  assumes "hd k \<noteq> CHR ''D''" and "k \<noteq> []" and "\<exists>r. key_prefix = CHR ''D'' # r"
  shows "dict_get (snd (aggregate_enriched_weights ws shelf bucket missing detail label key_prefix sev m)) k =
    dict_get m k"
  using assms
  by (intro aggregate_keeps [where P = "\<lambda>m'. dict_get m' k = dict_get m k"])
    (auto simp: add_missing_shelf_issue_def add_missing_enrichment_issue_def issue_data_quality_def)

lemma before_governance_other:
  assumes "hd k = CHR ''G''" and "k \<noteq> []"
  shows "dict_get (evaluate_liquidity_issues target shelf options
      (evaluate_issuer_issues target shelf options
        (evaluate_single_position_issues target options m))) k = dict_get m k"
proof -
  have agg: "dict_get (snd (aggregate_enriched_weights ws shelf bucket missing detail label (CHR ''D'' # r)
      sev m)) k = dict_get m k" for ws bucket missing detail label r sev m
    using assms by (intro aggregate_other_key) auto
  have single: "dict_get (evaluate_single_position_issues target options m) k = dict_get m k" for m
    unfolding evaluate_single_position_issues_def Let_def
    using assms by (intro fold_other_key) (auto simp: single_position_issue_def Let_def)
  have issuer: "dict_get (evaluate_issuer_issues target shelf options m) k = dict_get m k" for m
    unfolding evaluate_issuer_issues_def Let_def case_prod_beta
    using assms by (subst fold_other_key) (auto simp: issuer_exposure_issue_def Let_def agg)
  have liquidity: "dict_get (evaluate_liquidity_issues target shelf options m) k = dict_get m k" for m
    unfolding evaluate_liquidity_issues_def Let_def case_prod_beta
    using assms by (subst fold_other_key) (auto simp: liquidity_exposure_issue_def agg)
  show ?thesis by (simp add: liquidity issuer single)
qed

lemma cash_band_other:
  "hd k = CHR ''G'' \<Longrightarrow> dict_get (evaluate_cash_band_issue target options m) k = dict_get m k"
  by (auto simp: evaluate_cash_band_issue_def Let_def)

lemma complexity_other:
  "hd k = CHR ''G'' \<Longrightarrow>
     dict_get (append_product_complexity_issues before after shelf trades ctx m) k = dict_get m k"
  unfolding append_product_complexity_issues_def Let_def
  by (rule fold_other_key) (auto simp: product_complexity_issue_def split: option.split)

lemma mandate_other:
  "hd k = CHR ''G'' \<Longrightarrow>
     dict_get (append_restricted_product_mandate_context_issues shelf trades ctx m) k = dict_get m k"
  unfolding append_restricted_product_mandate_context_issues_def
  by (auto intro!: fold_other_key simp: get_put_optional
      restricted_product_mandate_context_issue_for_instrument_def
      restricted_product_mandate_context_issue_def split: option.split)

text \<open>A governance key determines its instrument and its status: the names differ at the end.\<close>

lemma governance_key_inj:
  "governance_issue_key i s = governance_issue_key j t \<longleftrightarrow> i = j \<and> s = t"
proof -
  have "s = t" if "governance_issue_key i s = governance_issue_key j t"
    using arg_cong [OF that, of rev] by (cases s; cases t) (simp_all add: governance_issue_key_def)
  then show ?thesis by (auto simp: governance_issue_key_def)
qed

lemma governance_key_hd [simp]:
  "hd (governance_issue_key i s) = CHR ''G''" "governance_issue_key i s \<noteq> []"
  by (simp_all add: governance_issue_key_def)

lemma governance_issue_keys:
  "governance_holding_issue i s b a allow = Some c \<Longrightarrow> ic_issue_key c = governance_issue_key i s"
  "governance_trade_attempt_issue i e bw aw o1 = Some c \<Longrightarrow>
     ic_issue_key c = governance_issue_key i (sh_status e)"
  by (auto simp: governance_holding_issue_def presence_governance_issue_if_applicable_def
      presence_governance_issue_def increase_governance_issue_if_applicable_def
      sell_only_increase_issue_def restricted_increase_issue_def Let_def
      governance_trade_attempt_issue_def sell_only_buy_attempt_issue_def
      restricted_buy_attempt_issue_def split: option.splits if_splits)

text \<open>What a state scan files under a governance key.\<close>

lemma fold_one_key:
  assumes "\<And>y m. y \<in> set xs \<Longrightarrow> y \<noteq> x \<Longrightarrow> dict_get (f y m) k = dict_get m k"
    and "\<And>m. dict_get (f x m) k = (case v of Some c \<Rightarrow> Some c | None \<Rightarrow> dict_get m k)"
  shows "dict_get (fold f xs m) k =
    (if x \<in> set xs then (case v of Some c \<Rightarrow> Some c | None \<Rightarrow> dict_get m k) else dict_get m k)"
  using assms(1)
proof (induction xs arbitrary: m)
  case Nil
  then show ?case by simp
next
  case (Cons y ys)
  then show ?case using assms(2) by (cases "y = x") (auto split: option.split)
qed

lemma scan_governance:
  "dict_get (scan_state_issues target before shelf options) (governance_issue_key i s) =
     (case dict_get shelf i of
        None \<Rightarrow> None
      | Some e \<Rightarrow>
          if sh_status e = s \<and>
             i \<in> set (sorted_union (dict_keys (to_instrument_weight_map before))
               (dict_keys (to_instrument_weight_map target)))
          then governance_holding_issue i s (weight_of (to_instrument_weight_map before) i)
                 (weight_of (to_instrument_weight_map target) i) (eo_allow_restricted options)
          else None)"
proof -
  let ?k = "governance_issue_key i s"
  let ?bw = "to_instrument_weight_map before" and ?tw = "to_instrument_weight_map target"
  let ?g = "\<lambda>j e. governance_holding_issue j (sh_status e) (weight_of ?bw j) (weight_of ?tw j)
    (eo_allow_restricted options)"
  define f where "f = (\<lambda>j m. case dict_get shelf j of None \<Rightarrow> m | Some e \<Rightarrow> put_optional (?g j e) m)"
  let ?v = "case dict_get shelf i of None \<Rightarrow> None | Some e \<Rightarrow> if sh_status e = s then ?g i e else None"
  have other: "dict_get (f j m) ?k = dict_get m ?k" if "j \<noteq> i" for j m
    using that by (auto simp: f_def get_put_optional governance_key_inj dest: governance_issue_keys
        split: option.split)
  have own: "dict_get (f i m) ?k = (case ?v of Some c \<Rightarrow> Some c | None \<Rightarrow> dict_get m ?k)" for m
    by (auto simp: f_def get_put_optional governance_key_inj dest: governance_issue_keys
        split: option.split)
  have fold: "dict_get (fold f xs m) ?k =
      (if i \<in> set xs then (case ?v of Some c \<Rightarrow> Some c | None \<Rightarrow> dict_get m ?k) else dict_get m ?k)"
    for xs m using other own by (intro fold_one_key) auto
  have "dict_get (scan_state_issues target before shelf options) ?k =
      (if i \<in> set (sorted_union (dict_keys ?bw) (dict_keys ?tw))
       then (case ?v of Some c \<Rightarrow> Some c | None \<Rightarrow> None) else None)"
    unfolding scan_state_issues_def
    by (simp add: cash_band_other evaluate_governance_holdings_issues_def Let_def fold
        f_def [symmetric] before_governance_other
        split: option.split)
  then show ?thesis by (auto split: option.split)
qed

section \<open>Classification\<close>

lemma sorted_union_set [simp]: "set (sorted_union a b) = set a \<union> set b"
  by (simp add: sorted_union_def)

text \<open>Key by key: what the classification says of a key depends on the two maps only.\<close>

lemma classified_issue_key:
  assumes "issues_filed b" and "issues_filed a" and "classified_issue k b a ev = Some i"
  shows "su_issue_key i = k"
  using assms
  by (auto simp: classified_issue_def issue_candidate_of_def build_suitability_issue_def
      issues_filed_def split: option.splits if_splits)

lemma classified_issue_some:
  "classified_issue k b a ev \<noteq> None \<longleftrightarrow> dict_get b k \<noteq> None \<or> dict_get a k \<noteq> None"
  by (auto simp: classified_issue_def issue_status_change_def issue_candidate_of_def keys_get
      split: option.splits)

lemma classified_new:
  "dict_get b k = None \<Longrightarrow> dict_get a k = Some c \<Longrightarrow>
     classified_issue k b a ev = Some (build_suitability_issue ScNew c ev)"
  by (simp add: classified_issue_def issue_status_change_def issue_candidate_of_def keys_get)

lemma set_map_filter: "set (List.map_filter f xs) = {y. \<exists>x \<in> set xs. f x = Some y}"
  by (induction xs) (auto simp: map_filter_simps split: option.splits)

lemma set_classify:
  "set (classify_issues b a ev) = {i. \<exists>k. classified_issue k b a ev = Some i}"
proof -
  have "k \<in> set (dict_keys b) \<union> set (dict_keys a)" if "classified_issue k b a ev = Some i" for k i
    using classified_issue_some [of k b a ev] that by (auto simp: keys_get)
  then show ?thesis
    unfolding classify_issues_def classify_issues_in_def by (fastforce simp: set_map_filter)
qed

lemma map_filter_distinct:
  assumes "distinct ks" and "\<And>k x. f k = Some x \<Longrightarrow> key x = k"
  shows "distinct (map key (List.map_filter f ks))"
  using assms(1)
proof (induction ks)
  case Nil
  then show ?case by (simp add: map_filter_simps)
next
  case (Cons k ks)
  have "k \<notin> key ` set (List.map_filter f ks)"
    using Cons.prems assms(2) by (auto simp: set_map_filter)
  with Cons show ?case
    using assms(2) [of k] by (auto simp: map_filter_simps split: option.split)
qed

text \<open>Sorting by a key that tells the elements apart forgets the order it starts from.\<close>

lemma sort_key_order_free:
  assumes "mset xs = mset ys" and "inj_on f (set xs)"
  shows "sort_key f xs = sort_key f ys"
proof (rule properties_for_sort_key)
  show "mset (sort_key f ys) = mset xs" using assms(1) by simp
  show "filter (\<lambda>x. f k = f x) (sort_key f ys) = filter (\<lambda>x. f k = f x) xs" if "k \<in> set (sort_key f ys)" for k
  proof -
    have "set xs = set ys" using assms(1) by (metis set_mset_mset)
    then have k: "x = k" if "f k = f x" "x \<in> set xs" for x
      using assms(2) that \<open>k \<in> set (sort_key f ys)\<close> by (auto dest: inj_onD)
    have "filter (\<lambda>x. f k = f x) zs = replicate (count (mset zs) k) k" if "set zs \<subseteq> set xs" for zs
      using that k by (induction zs) auto
    then show ?thesis using assms(1) \<open>set xs = set ys\<close> by simp
  qed
qed simp

lemma classify_order_free:
  assumes "issues_filed b" and "issues_filed a"
    and "distinct keys" and "set keys = set (dict_keys b) \<union> set (dict_keys a)"
  shows "classify_issues_in keys b a ev = classify_issues b a ev"
  unfolding classify_issues_def classify_issues_in_def
proof (rule sort_key_order_free)
  let ?all = "remdups (dict_keys b @ dict_keys a)"
  let ?f = "\<lambda>k. classified_issue k b a ev"
  note key = classified_issue_key [OF assms(1,2)]
  have d: "distinct (map su_issue_key (List.map_filter ?f ks))" if "distinct ks" for ks
    by (rule map_filter_distinct [OF that]) (rule key)
  have "set (List.map_filter ?f keys) = set (List.map_filter ?f ?all)"
    using assms(4) by (simp add: set_map_filter)
  then show "mset (List.map_filter ?f keys) = mset (List.map_filter ?f ?all)"
    using d [OF assms(3)] d [of ?all] by (simp add: set_eq_iff_mset_eq_distinct distinct_map)
  have "inj_on su_issue_key (set (List.map_filter ?f keys))"
    using d [OF assms(3)] by (simp add: distinct_map)
  then show "inj_on issue_sort_key (set (List.map_filter ?f keys))"
    by (auto simp: inj_on_def issue_sort_key_def)
qed

section \<open>The gate\<close>

definition new_issue_of :: "severity \<Rightarrow> suitability_result option \<Rightarrow> bool" where
  "new_issue_of sev suitability =
     (case suitability of
        None \<Rightarrow> False
      | Some r \<Rightarrow> list_ex (\<lambda>i. su_status_change i = ScNew \<and> su_severity i = sev) (sf_issues r))"

definition failed_rule :: "rule_severity \<Rightarrow> rule_result list \<Rightarrow> bool" where
  "failed_rule sev rs = list_ex (\<lambda>r. rr_status r = RuleFail \<and> rr_severity r = sev) rs"

lemma failed_rules_pos: "failed_rules sev rs \<noteq> [] \<longleftrightarrow> failed_rule sev rs"
  by (auto simp: failed_rules_def failed_rule_def list_ex_iff filter_empty_conv)

lemma count_new_reasons:
  "0 < fst (snd (suitability_reasons s)) \<longleftrightarrow> new_issue_of SevHigh s"
  "0 < snd (snd (suitability_reasons s)) \<longleftrightarrow> new_issue_of SevMedium s"
proof -
  have "0 < count_reasons ''NEW_HIGH_SUITABILITY_ISSUE'' (List.map_filter new_suitability_gate_reason is) \<longleftrightarrow>
      list_ex (\<lambda>i. su_status_change i = ScNew \<and> su_severity i = SevHigh) is"
    "0 < count_reasons ''NEW_MEDIUM_SUITABILITY_ISSUE'' (List.map_filter new_suitability_gate_reason is) \<longleftrightarrow>
      list_ex (\<lambda>i. su_status_change i = ScNew \<and> su_severity i = SevMedium) is" for "is"
    by (induction "is")
      (auto simp: map_filter_simps count_reasons_def new_suitability_gate_reason_def Let_def
        split: severity.split)
  then show "0 < fst (snd (suitability_reasons s)) \<longleftrightarrow> new_issue_of SevHigh s"
    "0 < snd (snd (suitability_reasons s)) \<longleftrightarrow> new_issue_of SevMedium s"
    by (auto simp: suitability_reasons_def new_issue_of_def suitability_gate_reason_counts_def Let_def
        split: option.split)
qed

lemma gate_decided:
  "gd_gate (evaluate_gate_decision status rs suitability diagnostics options default_consent) =
    (if status = BLOCKED \<or> failed_rule RuleHard rs then GateBlocked
     else if new_issue_of SevHigh suitability then GateComplianceReview
     else if failed_rule RuleSoft rs \<or> new_issue_of SevMedium suitability then GateRiskReview
     else if \<not> eo_client_consent_already_obtained options \<and>
             (eo_workflow_requires_client_consent options \<or> default_consent) then GateClientConsent
     else GateExecutionReady)"
  by (simp add: evaluate_gate_decision_def collect_gate_reason_bundle_def rule_reasons_def Let_def
      resolve_gate_outcome_def GATE_OUTCOME_RULES_def has_blocking_input_def
      requires_compliance_review_def requires_risk_review_def has_client_consent_def
      still_requires_client_consent_def requires_client_consent_def failed_rules_pos
      case_prod_beta count_new_reasons)

lemma recommended_gate_cases:
  "recommended_gate issues =
     (if list_ex (\<lambda>i. su_status_change i = ScNew \<and> su_severity i = SevHigh) issues then ''COMPLIANCE_REVIEW''
      else if list_ex (\<lambda>i. su_status_change i = ScNew \<and> su_severity i = SevMedium) issues
      then ''RISK_REVIEW'' else ''NONE'')"
  by (auto simp: recommended_gate_def highest_new_issue_severity_def issues_with_status_def
      list_ex_iff image_iff)

end
