(* ===== verification/Gate_Properties.thy ===== *)
theory Gate_Properties
  imports Suitability_Laws
begin

text \<open>
  What the suitability scan and the workflow gate promise together: the order of the gate rules,
  that a forbidden product never gets past compliance, that the classification depends on the two
  states alone, and how exactly the concentration cap is met in decimal arithmetic.
\<close>

section \<open>Governance keys after the proposed trades\<close>

lemma post_trade_governance:
  "dict_get (append_post_trade_issues before after shelf trades options ctx m) (governance_issue_key i s) =
     (case dict_get shelf i of
        None \<Rightarrow> dict_get m (governance_issue_key i s)
      | Some e \<Rightarrow>
          if sh_status e = s \<and> i \<in> set (buy_instrument_ids trades)
          then (case governance_trade_attempt_issue i e (to_instrument_weight_map before)
                       (to_instrument_weight_map after) options of
                  Some c \<Rightarrow> Some c | None \<Rightarrow> dict_get m (governance_issue_key i s))
          else dict_get m (governance_issue_key i s))"
proof -
  let ?k = "governance_issue_key i s"
  let ?g = "\<lambda>j e. governance_trade_attempt_issue j e (to_instrument_weight_map before)
    (to_instrument_weight_map after) options"
  define f where "f = (\<lambda>j m. case dict_get shelf j of None \<Rightarrow> m | Some e \<Rightarrow> put_optional (?g j e) m)"
  let ?v = "case dict_get shelf i of None \<Rightarrow> None | Some e \<Rightarrow> if sh_status e = s then ?g i e else None"
  have other: "dict_get (f j m) ?k = dict_get m ?k" if "j \<noteq> i" for j m
    using that by (auto simp: f_def get_put_optional governance_key_inj dest: governance_issue_keys
        split: option.split)
  have own: "dict_get (f i m) ?k = (case ?v of Some c \<Rightarrow> Some c | None \<Rightarrow> dict_get m ?k)" for m
    by (auto simp: f_def get_put_optional governance_key_inj dest: governance_issue_keys
        split: option.split)
  have fold: "dict_get (fold f xs m) ?k =
      (if i \<in> set xs then (case ?v of Some c \<Rightarrow> Some c | None \<Rightarrow> dict_get m ?k) else dict_get m ?k)"
    for xs m using other own by (intro fold_one_key) auto
  show ?thesis
    by (auto simp: append_post_trade_issues_def mandate_other complexity_other
        append_governance_trade_attempt_issues_def Let_def f_def [symmetric] fold split: option.split)
qed


text \<open>A weight does not exceed itself, whatever the rounding.\<close>

lemma not_exceeds_self:
  assumes "0 \<le> dec_val w" and "dec_val w \<le> 1"
  shows "\<not> exceeds w w"
proof -
  have eps: "dec_val EPSILON = 1 / 10 ^ 7"
    by (simp add: EPSILON_def dec_def dec_val_def dec_signed_def pow10_def)
  define t where "t = \<bar>dec_val (dec_add w EPSILON) - (dec_val w + 1 / 10000000)\<bar>"
  have "t * 2000000000000000000000000000 \<le> dec_val w + 1 / 10000000"
    using dec_add_error [of w EPSILON] assms(1) by (simp add: eps t_def)
  moreover have "dec_val w + 1 / 10000000 - dec_val (dec_add w EPSILON) \<le> t" by (simp add: t_def)
  ultimately have "dec_val w \<le> dec_val (dec_add w EPSILON)" using assms(2) by linarith
  then show ?thesis by (simp add: exceeds_def dec_less_val)
qed


section \<open>The single-position cap\<close>

lemma weight_map_wf: "dict_wf (to_instrument_weight_map s)"
  unfolding to_instrument_weight_map_def
  by (rule fold_keeps) auto

lemma scan_single_position:
  fixes options
  assumes "dict_get (to_instrument_weight_map target) i = Some w"
  defines "cap \<equiv> tc_single_position_max_weight (eo_suitability_thresholds options)"
  shows "dict_get (scan_state_issues target before shelf options) (''SINGLE_POSITION_MAX|'' @ i) =
    (if exceeds w cap then Some (single_position_issue i w cap) else None)"
proof -
  define k where "k = ''SINGLE_POSITION_MAX|'' @ i"
  have hd_k: "hd k = CHR ''S''" "k \<noteq> []" by (simp_all add: k_def)
  let ?ws = "to_instrument_weight_map target"
  define f where "f = (\<lambda>(j, v) m. if exceeds v cap then put_issue (single_position_issue j v cap) m else m)"
  have key: "ic_issue_key (single_position_issue j v c) = ''SINGLE_POSITION_MAX|'' @ j" for j v c
    by (simp add: single_position_issue_def Let_def)
  have key_k: "k = ic_issue_key (single_position_issue j v c) \<longleftrightarrow> j = i" for j v c
    by (auto simp: key k_def)
  have in_ws: "(i, w) \<in> set ?ws" by (rule dict_get_SomeD [OF assms(1)])
  have other: "dict_get (f y m) k = dict_get m k" if "y \<in> set ?ws" "y \<noteq> (i, w)" for y m
  proof -
    obtain j v where y: "y = (j, v)" by (cases y)
    have "j \<noteq> i"
    proof
      assume "j = i"
      then have "dict_get ?ws i = Some v"
        using that(1) y weight_map_wf by (auto simp: dict_get_def dict_wf_def)
      with assms(1) that(2) y \<open>j = i\<close> show False by simp
    qed
    then show ?thesis by (simp add: f_def y key_k)
  qed
  have own: "dict_get (f (i, w) m) k = (case (if exceeds w cap then Some (single_position_issue i w cap)
      else None) of Some c \<Rightarrow> Some c | None \<Rightarrow> dict_get m k)" for m
    by (simp add: f_def key_k)
  have single: "dict_get (evaluate_single_position_issues target options []) k =
      (if exceeds w cap then Some (single_position_issue i w cap) else None)"
    using fold_one_key [of ?ws "(i, w)" f k, OF other own] in_ws
    by (simp add: evaluate_single_position_issues_def Let_def cap_def [symmetric] f_def [symmetric])
  have agg: "dict_get (snd (aggregate_enriched_weights ws shelf bucket missing detail label (CHR ''D'' # r)
      sev m)) k = dict_get m k" for ws bucket missing detail label r sev m
    using hd_k by (intro aggregate_other_key) auto
  have issuer: "dict_get (evaluate_issuer_issues target shelf options m) k = dict_get m k" for m
    unfolding evaluate_issuer_issues_def Let_def case_prod_beta
    using hd_k by (subst fold_other_key) (auto simp: issuer_exposure_issue_def Let_def agg)
  have liquidity: "dict_get (evaluate_liquidity_issues target shelf options m) k = dict_get m k" for m
    unfolding evaluate_liquidity_issues_def Let_def case_prod_beta
    using hd_k by (subst fold_other_key) (auto simp: liquidity_exposure_issue_def agg)
  have hd_key: "k \<noteq> governance_issue_key j s" for j s
    using hd_k governance_key_hd(1) [of j s] by auto
  have governance: "dict_get (evaluate_governance_holdings_issues target before shelf options m) k =
      dict_get m k" for m
    unfolding evaluate_governance_holdings_issues_def Let_def
    using hd_key by (intro fold_other_key)
      (fastforce simp: get_put_optional dest: governance_issue_keys split: option.split)
  have cash: "dict_get (evaluate_cash_band_issue target options m) k = dict_get m k" for m
    using hd_k by (auto simp: evaluate_cash_band_issue_def Let_def)
  show ?thesis
    by (simp add: scan_state_issues_def cash governance liquidity issuer single k_def [symmetric]
        del: append_Cons append.simps)
qed

lemma exceeds_bounds:
  assumes "0 \<le> dec_val cap" and "dec_val cap \<le> 1"
  shows "dec_val cap + 2 / 10000000 \<le> dec_val w \<Longrightarrow> exceeds w cap"
    and "dec_val w \<le> dec_val cap \<Longrightarrow> \<not> exceeds w cap"
proof -
  have eps: "dec_val EPSILON = 1 / 10 ^ 7"
    by (simp add: EPSILON_def dec_def dec_val_def dec_signed_def pow10_def)
  define t where "t = \<bar>dec_val (dec_add cap EPSILON) - (dec_val cap + 1 / 10000000)\<bar>"
  have t: "t * 2000000000000000000000000000 \<le> dec_val cap + 1 / 10000000"
    using dec_add_error [of cap EPSILON] assms(1) by (simp add: eps t_def)
  have up: "dec_val (dec_add cap EPSILON) \<le> dec_val cap + 1 / 10000000 + t" by (simp add: t_def)
  from up t assms(2) show "exceeds w cap" if "dec_val cap + 2 / 10000000 \<le> dec_val w"
    using that by (simp add: exceeds_def dec_less_val)
  have "\<not> exceeds cap cap" by (rule not_exceeds_self [OF assms])
  then show "\<not> exceeds w cap" if "dec_val w \<le> dec_val cap"
    using that by (simp add: exceeds_def dec_less_val)
qed

section \<open>Properties\<close>

text \<open>
  C35: The gate follows the strict order of its policy: blocked for a blocked status or a failed hard
  rule, then compliance review for a new high suitability issue, then risk review for a failed soft
  rule or a new medium issue, then client consent where it is required and not yet obtained, and
  execution only when nothing of this applies. The data-quality reasons never change the outcome.
\<close>

theorem gate_follows_policy_order:
  "gd_gate (evaluate_gate_decision status rs suitability diagnostics options default_consent) =
    (if status = BLOCKED \<or> list_ex (\<lambda>r. rr_status r = RuleFail \<and> rr_severity r = RuleHard) rs
     then GateBlocked
     else if new_issue_of SevHigh suitability then GateComplianceReview
     else if list_ex (\<lambda>r. rr_status r = RuleFail \<and> rr_severity r = RuleSoft) rs \<or>
             new_issue_of SevMedium suitability then GateRiskReview
     else if (eo_workflow_requires_client_consent options \<or> default_consent) \<and>
             eo_client_consent_already_obtained options = False then GateClientConsent
     else GateExecutionReady)"
  by (simp add: gate_decided failed_rule_def)


text \<open>A small proposal: it adds an instrument the shelf has banned.\<close>

definition demo_thresholds :: suitability_thresholds where
  "demo_thresholds = \<lparr>tc_single_position_max_weight = dec 10 (- 2), tc_issuer_max_weight = dec 20 (- 2),
     tc_max_weight_by_liquidity_tier = [(''L5'', dec 5 (- 2))],
     tc_cash_band_min_weight = dec 1 (- 2), tc_cash_band_max_weight = dec 5 (- 2),
     tc_data_quality_issue_severity = SevMedium\<rparr>"

definition demo_options :: engine_options where
  "demo_options = \<lparr>eo_allow_restricted = False, eo_workflow_requires_client_consent = True,
     eo_client_consent_already_obtained = True, eo_suitability_thresholds = demo_thresholds\<rparr>"

definition demo_state :: "(string \<times> decimal) list \<Rightarrow> simulated_state" where
  "demo_state ws = \<lparr>ss_total_value = \<lparr>mn_amount = dec 100 0, mn_currency = ''USD''\<rparr>,
     ss_allocation_by_asset_class = [],
     ss_allocation_by_instrument = map (\<lambda>(i, w). \<lparr>am_key = i, am_weight = w,
       am_value = \<lparr>mn_amount = w, mn_currency = ''USD''\<rparr>\<rparr>) ws\<rparr>"

definition demo_entry :: "string \<Rightarrow> shelf_status \<Rightarrow> shelf_entry" where
  "demo_entry i st = \<lparr>sh_instrument_id = i, sh_status = st, sh_asset_class = ''EQUITY'',
     sh_issuer_id = Some ''I'', sh_liquidity_tier = Some ''L1'', sh_settlement_days = 2,
     sh_min_notional = None, sh_attributes = []\<rparr>"


text \<open>
  C37: The classification depends on the two sets of issues alone. The code walks over a set of keys in
  no fixed order, and whatever order it is, the result is the same list; every key is listed once; an
  issue is new, persistent or resolved exactly as its key is in the issues after, in both, or in the
  issues before; and the summary counts them all.
\<close>

theorem classification_compares_states:
  fixes before after shelf trades options ctx pid mid as_of keys
  defines "b \<equiv> scan_state_issues before before (shelf_index shelf) options"
    and "a \<equiv> append_post_trade_issues before after (shelf_index shelf) trades options ctx
      (scan_state_issues after before (shelf_index shelf) options)"
    and "r \<equiv> compute_suitability_result before after shelf options pid mid as_of trades ctx"
  assumes "distinct keys" and "set keys = set (dict_keys b) \<union> set (dict_keys a)"
  shows "classify_issues_in keys b a (suitability_evidence_of as_of pid mid) = sf_issues r \<and>
    distinct (map su_issue_key (sf_issues r)) \<and>
    (list_ex (\<lambda>i. su_issue_key i = k \<and> su_status_change i = ScNew) (sf_issues r) \<longleftrightarrow>
       dict_get b k = None \<and> dict_get a k \<noteq> None) \<and>
    (list_ex (\<lambda>i. su_issue_key i = k \<and> su_status_change i = ScPersistent) (sf_issues r) \<longleftrightarrow>
       dict_get b k \<noteq> None \<and> dict_get a k \<noteq> None) \<and>
    (list_ex (\<lambda>i. su_issue_key i = k \<and> su_status_change i = ScResolved) (sf_issues r) \<longleftrightarrow>
       dict_get b k \<noteq> None \<and> dict_get a k = None) \<and>
    sy_new_count (sf_summary r) + sy_persistent_count (sf_summary r) +
      sy_resolved_count (sf_summary r) = length (sf_issues r)"
proof -
  let ?ev = "suitability_evidence_of as_of pid mid"
  have filed: "issues_filed b" "issues_filed a"
    by (simp_all add: b_def a_def scan_filed post_trade_filed)
  have r: "sf_issues r = classify_issues b a ?ev" "sf_summary r = suitability_summary_of (sf_issues r)"
    by (simp_all add: r_def compute_suitability_result_def scan_before_after_issues_def Let_def b_def a_def)
  have order: "classify_issues_in keys b a ?ev = sf_issues r"
    unfolding r by (rule classify_order_free [OF filed assms(4,5)])
  have dist: "distinct (map su_issue_key (sf_issues r))"
  proof -
    have "distinct (map su_issue_key (List.map_filter (\<lambda>k. classified_issue k b a ?ev) keys))"
      by (rule map_filter_distinct [OF assms(4)]) (rule classified_issue_key [OF filed])
    then show ?thesis
      unfolding order [symmetric] classify_issues_in_def by (simp add: distinct_map)
  qed
  have "list_ex (\<lambda>i. su_issue_key i = k \<and> su_status_change i = st) (sf_issues r) \<longleftrightarrow>
      (\<exists>i. classified_issue k b a ?ev = Some i \<and> su_status_change i = st)" for st
    using classified_issue_key [OF filed] unfolding r(1) by (auto simp: list_ex_iff set_classify)
  moreover have "(\<exists>i. classified_issue k b a ?ev = Some i \<and> su_status_change i = st) \<longleftrightarrow>
      issue_status_change (dict_get b k \<noteq> None) (dict_get a k \<noteq> None) = Some st" for st
    by (cases "dict_get b k"; cases "dict_get a k")
      (auto simp: classified_issue_def keys_get issue_status_change_def issue_candidate_of_def
        build_suitability_issue_def)
  ultimately have status: "list_ex (\<lambda>i. su_issue_key i = k \<and> su_status_change i = st) (sf_issues r) \<longleftrightarrow>
      issue_status_change (dict_get b k \<noteq> None) (dict_get a k \<noteq> None) = Some st" for st by blast
  have "length (filter (\<lambda>i. su_status_change i = ScNew) is) + length (filter (\<lambda>i. su_status_change i = ScPersistent) is) +
      length (filter (\<lambda>i. su_status_change i = ScResolved) is) = length is" for "is" :: "suitability_issue list"
  proof (induction "is")
    case (Cons i "is")
    then show ?case by (cases "su_status_change i") auto
  qed simp
  then show ?thesis
    using order dist status
    by (auto simp: r(2) suitability_summary_of_def issues_with_status_def Let_def issue_status_change_def)
qed

theorem classification_compares_states_witness:
  "list_ex (\<lambda>i. su_issue_key i = ''GOVERNANCE|X|BANNED'' \<and> su_status_change i = ScNew)
    (sf_issues (compute_suitability_result (demo_state []) (demo_state [(''X'', dec 4 (- 2))])
      [demo_entry ''X'' ShelfBanned] demo_options ''p'' ''m'' None [] None))"
proof -
  let ?b = "scan_state_issues (demo_state []) (demo_state []) (shelf_index [demo_entry ''X'' ShelfBanned])
    demo_options"
  let ?a = "append_post_trade_issues (demo_state []) (demo_state [(''X'', dec 4 (- 2))])
    (shelf_index [demo_entry ''X'' ShelfBanned]) [] demo_options None
    (scan_state_issues (demo_state [(''X'', dec 4 (- 2))]) (demo_state [])
      (shelf_index [demo_entry ''X'' ShelfBanned]) demo_options)"
  let ?keys = "remdups (dict_keys ?b @ dict_keys ?a)"
  have ws: "to_instrument_weight_map (demo_state [(''X'', dec 4 (- 2))]) = [(''X'', dec 4 (- 2))]"
    "to_instrument_weight_map (demo_state []) = []"
    by (simp_all add: to_instrument_weight_map_def demo_state_def dec_less_def dec_def dec_zero_def
        dec_scaled_def dec_signed_def)
  have shelf: "dict_get (shelf_index [demo_entry ''X'' ShelfBanned]) ''X'' =
      Some (demo_entry ''X'' ShelfBanned)" "sh_status (demo_entry ''X'' ShelfBanned) = ShelfBanned"
    by (simp_all add: shelf_index_def demo_entry_def)
  have "\<not> dec_le (dec 4 (- 2)) EPSILON"
    by (simp add: dec_le_def dec_less_def dec_def EPSILON_def dec_scaled_def dec_signed_def)
  then have "dict_get ?b (governance_issue_key ''X'' ShelfBanned) = None"
    "dict_get ?a (governance_issue_key ''X'' ShelfBanned) \<noteq> None"
    by (simp_all add: scan_governance post_trade_governance shelf ws dict_keys_def
        governance_trade_attempt_issue_def governance_holding_issue_def
        presence_governance_issue_if_applicable_def weight_of_def)
  moreover have "governance_issue_key ''X'' ShelfBanned = ''GOVERNANCE|X|BANNED''"
    by (simp add: governance_issue_key_def)
  ultimately show ?thesis
    using classification_compares_states [of ?keys "demo_state []" "[demo_entry ''X'' ShelfBanned]"
        demo_options "demo_state [(''X'', dec 4 (- 2))]" "[]" None None "''p''" "''m''"
        "''GOVERNANCE|X|BANNED''"] by simp
qed

text \<open>
  C38: The concentration cap is met to within two ten-millionths. For thresholds the model accepts, a
  position that is above the cap by at least 0.0000002 is reported by the scan, as high exactly when it
  is above one and a quarter of the cap, and a position within the cap is never reported, although the
  comparison is made in rounded decimal arithmetic.
\<close>

theorem single_position_cap:
  assumes "dict_get (to_instrument_weight_map target) i = Some w"
    and "validate_suitability_thresholds (eo_suitability_thresholds options) = Inr ()"
    and "cap = tc_single_position_max_weight (eo_suitability_thresholds options)"
  shows "(dec_val cap + 2 / 10000000 \<le> dec_val w \<longrightarrow>
      (\<exists>c. dict_get (scan_state_issues target before shelf options) (''SINGLE_POSITION_MAX|'' @ i) = Some c \<and>
         (ic_severity c = SevHigh \<longleftrightarrow> dec_val (dec_mul cap (dec 125 (- 2))) < dec_val w))) \<and>
    (dec_val w \<le> dec_val cap \<longrightarrow>
      dict_get (scan_state_issues target before shelf options) (''SINGLE_POSITION_MAX|'' @ i) = None)"
proof -
  have one: "dec_val (dec (Suc 0) 0) = 1" "dec_val (dec 0 0) = 0"
    by (simp_all add: dec_def dec_val_def dec_signed_def pow10_def)
  have cap: "0 \<le> dec_val cap" "dec_val cap \<le> 1"
    using assms(2,3)
    by (auto simp: validate_suitability_thresholds_def Let_def dec_le_val one split: if_splits)
  have "ic_severity (single_position_issue i w cap) = SevHigh \<longleftrightarrow>
      dec_val (dec_mul cap (dec 125 (- 2))) < dec_val w"
    by (simp add: single_position_issue_def severity_for_concentration_def Let_def dec_less_val)
  then show ?thesis
    using scan_single_position [OF assms(1), of before shelf options] exceeds_bounds [OF cap, of w]
      assms(3) by auto
qed

theorem single_position_cap_witness:
  "\<exists>c. dict_get (scan_state_issues (demo_state [(''X'', dec 12 (- 2))]) (demo_state []) [] demo_options)
      ''SINGLE_POSITION_MAX|X'' = Some c"
proof -
  have ws: "to_instrument_weight_map (demo_state [(''X'', dec 12 (- 2))]) = [(''X'', dec 12 (- 2))]"
    by (simp add: to_instrument_weight_map_def demo_state_def dec_less_def dec_def dec_zero_def
        dec_scaled_def dec_signed_def)
  have "validate_suitability_thresholds (eo_suitability_thresholds demo_options) = Inr ()"
    by (simp add: validate_suitability_thresholds_def demo_options_def demo_thresholds_def dec_le_def
        dec_less_def dec_def dec_scaled_def dec_signed_def)
  moreover have "dec 10 (- 2) = tc_single_position_max_weight (eo_suitability_thresholds demo_options)"
    by (simp add: demo_options_def demo_thresholds_def)
  moreover have "dec_val (dec 10 (- 2)) + 2 / 10000000 \<le> dec_val (dec 12 (- 2))"
    by (simp add: dec_def dec_val_def dec_signed_def pow10_def)
  ultimately show ?thesis
    using single_position_cap [of "demo_state [(''X'', dec 12 (- 2))]" "''X''" "dec 12 (- 2)" demo_options
        "dec 10 (- 2)" "demo_state []" "[]"] by (auto simp: ws)
qed

end
