(* ===== verification/Policy_Readiness.thy ===== *)
theory Policy_Readiness
  imports Proposal_Records "HOL-Library.List_Lexorder" "HOL-Library.Char_ord"
begin

text \<open>
  The readiness of the source evidence a policy is evaluated on
  (src/core/proposals/policy_source_readiness.py with its core, product and risk parts, over
  source_readiness_common.py). An evidence bundle is a JSON object of the caller; a part of it that
  is missing or has another type reads as empty, so the projection is total.
\<close>

section \<open>Reading an evidence bundle\<close>

definition dict_at :: "json_dict \<Rightarrow> string \<Rightarrow> json_dict" where
  "dict_at payload key = (case obj_get payload key of JObj d \<Rightarrow> d | _ \<Rightarrow> [])"

definition list_at :: "json_dict \<Rightarrow> string \<Rightarrow> json list" where
  "list_at payload key = (case obj_get payload key of JArr xs \<Rightarrow> xs | _ \<Rightarrow> [])"

text \<open>\<open>a or b\<close> and \<open>d.get(a) or d.get(b) or ... or ""\<close> on JSON values.\<close>

definition json_or :: "json \<Rightarrow> json \<Rightarrow> json" where
  "json_or a b = (if json_truthy a then a else b)"

definition upper_str :: "string \<Rightarrow> string" where
  "upper_str s = map upper_char s"

text \<open>The dictionaries among the items of a list.\<close>

definition dict_items :: "json list \<Rightarrow> json_dict list" where
  "dict_items xs = List.map_filter (\<lambda>x. case x of JObj d \<Rightarrow> Some d | _ \<Rightarrow> None) xs"

text \<open>\<open>{str(item) for item in xs}\<close>, as the list of the members.\<close>

definition str_items :: "json list \<Rightarrow> string list" where
  "str_items xs = map py_str xs"

text \<open>\<open>sorted(set(xs))\<close>.\<close>

definition sorted_set :: "string list \<Rightarrow> string list" where
  "sorted_set xs = sort (remdups xs)"

lemma set_sorted_set [simp]: "set (sorted_set xs) = set xs"
  by (simp add: sorted_set_def)

lemma sorted_set_eq_Nil [simp]: "sorted_set xs = [] \<longleftrightarrow> xs = []"
  by (metis set_sorted_set set_empty)

section \<open>Sections\<close>

definition source_readiness_section ::
  "string \<Rightarrow> string \<Rightarrow> string \<Rightarrow> string list \<Rightarrow> string list \<Rightarrow> string list \<Rightarrow> json_dict" where
  "source_readiness_section key owner_service status evidence_refs missing_evidence reason_codes =
     [(''key'', JStr key), (''owner_service'', JStr owner_service), (''status'', JStr status),
      (''evidence_refs'', JArr (map JStr evidence_refs)),
      (''missing_evidence'', JArr (map JStr missing_evidence)),
      (''reason_codes'', JArr (map JStr reason_codes))]"

definition overall_posture :: "json_dict list \<Rightarrow> string" where
  "overall_posture sections =
     (let statuses = set (map (\<lambda>s. obj_get s ''status'') sections)
      in if JStr ''BLOCKED'' \<in> statuses then ''BLOCKED''
         else if JStr ''PENDING_REVIEW'' \<in> statuses then ''PENDING_REVIEW''
         else if JStr ''READY'' \<in> statuses then ''READY''
         else ''NOT_AVAILABLE'')"

text \<open>For each owner, the keys of its sections and of those that are ready.\<close>

definition add_section_authority ::
  "json_dict \<Rightarrow> (string, string list \<times> string list) dict \<Rightarrow>
   (string, string list \<times> string list) dict" where
  "add_section_authority section authority =
     (let owner = py_str (obj_get section ''owner_service'');
          key = py_str (obj_get section ''key'');
          authority1 = dict_setdefault owner ([], []) authority;
          entry = the (dict_get authority1 owner)
      in dict_set owner
           (fst entry @ [key],
            if obj_get section ''status'' = JStr ''READY'' then snd entry @ [key] else snd entry)
           authority1)"

definition source_authority :: "json_dict list \<Rightarrow> json_dict" where
  "source_authority sections =
     map (\<lambda>(owner, keys, ready).
            (owner, JObj [(''section_keys'', JArr (map JStr keys)),
                          (''ready_section_keys'', JArr (map JStr ready))]))
       (fold add_section_authority sections [])"

section \<open>Evidence of the core service\<close>

definition CLIENT_PROFILE_KEYS :: "string list" where
  "CLIENT_PROFILE_KEYS =
     [''household_id'', ''jurisdiction'', ''client_classification'', ''booking_center_code'',
      ''account_id'', ''time_horizon'', ''liquidity_need'']"

definition client_profile_missing :: "json_dict \<Rightarrow> string list" where
  "client_profile_missing policy_context =
     filter (\<lambda>key. \<not> json_truthy (obj_get policy_context key)) CLIENT_PROFILE_KEYS"

definition client_profile_status :: "json_dict \<Rightarrow> string" where
  "client_profile_status policy_context =
     (let missing = client_profile_missing policy_context
      in if missing = [] then ''READY''
         else if {''household_id'', ''jurisdiction''} \<subseteq> set missing then ''BLOCKED''
         else ''PENDING_REVIEW'')"

definition not_provided_reasons :: "string list \<Rightarrow> string list" where
  "not_provided_reasons missing = map (\<lambda>key. ''CORE_'' @ upper_str key @ ''_NOT_PROVIDED'') missing"

definition client_profile_reasons :: "json_dict \<Rightarrow> string list" where
  "client_profile_reasons policy_context =
     not_provided_reasons (client_profile_missing policy_context)"

definition mandate_missing :: "json_dict \<Rightarrow> string list" where
  "mandate_missing policy_context =
     filter (\<lambda>key. \<not> json_truthy (obj_get policy_context key))
       [''mandate_id'', ''objectives'', ''restrictions'']"

definition mandate_status :: "json_dict \<Rightarrow> string" where
  "mandate_status policy_context =
     (let missing = mandate_missing policy_context
      in if missing = [] then ''READY''
         else if ''mandate_id'' \<in> set missing then ''BLOCKED'' else ''PENDING_REVIEW'')"

definition mandate_reasons :: "json_dict \<Rightarrow> string list" where
  "mandate_reasons policy_context = not_provided_reasons (mandate_missing policy_context)"

definition holdings_market_missing ::
  "string \<Rightarrow> json_dict \<Rightarrow> json list \<Rightarrow> json list \<Rightarrow> string list" where
  "holdings_market_missing resolution_source portfolio_snapshot prices fx_rates =
     (if resolution_source \<noteq> ''LOTUS_CORE''
      then [''lotus-core authoritative context resolution''] else []) @
     (if list_at portfolio_snapshot ''positions'' = [] then [''positions''] else []) @
     (if list_at portfolio_snapshot ''cash_balances'' = [] then [''cash_balances''] else []) @
     (if prices = [] then [''price rows''] else []) @
     (if fx_rates = [] then [''FX rate rows''] else [])"

definition holdings_market_status ::
  "string \<Rightarrow> json_dict \<Rightarrow> json list \<Rightarrow> json list \<Rightarrow> string" where
  "holdings_market_status resolution_source portfolio_snapshot prices fx_rates =
     (let missing = holdings_market_missing resolution_source portfolio_snapshot prices fx_rates
      in if {''positions'', ''price rows''} \<inter> set missing \<noteq> {} then ''BLOCKED''
         else if missing = [] then ''READY'' else ''PENDING_REVIEW'')"

definition holdings_market_reasons ::
  "string \<Rightarrow> json_dict \<Rightarrow> json list \<Rightarrow> json list \<Rightarrow> string list" where
  "holdings_market_reasons resolution_source portfolio_snapshot prices fx_rates =
     (if resolution_source \<noteq> ''LOTUS_CORE'' then [''DIRECT_REQUEST_NOT_SOURCE_OWNER''] else []) @
     (if list_at portfolio_snapshot ''positions'' = [] then [''CORE_POSITIONS_NOT_PROVIDED'']
      else []) @
     (if list_at portfolio_snapshot ''cash_balances'' = [] then [''CORE_CASH_NOT_PROVIDED'']
      else []) @
     (if prices = [] then [''CORE_PRICE_NOT_PROVIDED''] else []) @
     (if fx_rates = [] then [''CORE_FX_RATE_NOT_PROVIDED''] else [])"

definition build_core_policy_source_sections ::
  "json_dict \<Rightarrow> string \<Rightarrow> json_dict \<Rightarrow> json list \<Rightarrow> json list \<Rightarrow> json_dict list" where
  "build_core_policy_source_sections advisory_policy_context resolution_source portfolio_snapshot
     prices fx_rates =
     [source_readiness_section ''core_client_profile_classification'' ''lotus-core''
        (client_profile_status advisory_policy_context)
        [''context_resolution.advisory_policy_context.household_id'',
         ''context_resolution.advisory_policy_context.jurisdiction'',
         ''context_resolution.resolved_context'']
        (client_profile_missing advisory_policy_context)
        (client_profile_reasons advisory_policy_context),
      source_readiness_section ''core_mandate_objectives_restrictions'' ''lotus-core''
        (mandate_status advisory_policy_context)
        [''context_resolution.advisory_policy_context.mandate_id'',
         ''context_resolution.resolved_context'']
        (mandate_missing advisory_policy_context)
        (mandate_reasons advisory_policy_context),
      source_readiness_section ''core_holdings_cash_market_data'' ''lotus-core''
        (holdings_market_status resolution_source portfolio_snapshot prices fx_rates)
        [''inputs.portfolio_snapshot.positions'', ''inputs.portfolio_snapshot.cash_balances'',
         ''inputs.market_data_snapshot.prices'', ''inputs.market_data_snapshot.fx_rates'']
        (holdings_market_missing resolution_source portfolio_snapshot prices fx_rates)
        (holdings_market_reasons resolution_source portfolio_snapshot prices fx_rates)]"

section \<open>Evidence on the products\<close>

definition has_policy_value :: "json_dict \<Rightarrow> json_dict \<Rightarrow> string \<Rightarrow> bool" where
  "has_policy_value row attributes key =
     json_truthy (json_or (obj_get row key) (obj_get attributes key))"

definition has_any_policy_value :: "json_dict \<Rightarrow> json_dict \<Rightarrow> string list \<Rightarrow> bool" where
  "has_any_policy_value row attributes keys = list_ex (has_policy_value row attributes) keys"

definition has_any_policy_key :: "json_dict \<Rightarrow> json_dict \<Rightarrow> string list \<Rightarrow> bool" where
  "has_any_policy_key row attributes keys =
     list_ex (\<lambda>key. dict_get row key \<noteq> None \<or> dict_get attributes key \<noteq> None) keys"

definition product_has_policy_evidence :: "json \<Rightarrow> bool" where
  "product_has_policy_evidence row =
     (case row of
        JObj d \<Rightarrow>
          (let attributes = dict_at d ''attributes''
           in has_policy_value d attributes ''eligibility'' \<and>
              has_policy_value d attributes ''target_market'' \<and>
              has_any_policy_value d attributes [''complexity'', ''product_complexity''] \<and>
              has_any_policy_key d attributes
                [''private_asset'', ''private_asset_flag'', ''structured_product'',
                 ''structured_product_flag''])
      | _ \<Rightarrow> False)"

definition all_products_have_policy_evidence :: "json list \<Rightarrow> bool" where
  "all_products_have_policy_evidence rows = list_all product_has_policy_evidence rows"

definition product_policy_status :: "json list \<Rightarrow> json list \<Rightarrow> string" where
  "product_policy_status proposed_trades shelf_entries =
     (if proposed_trades = [] then ''NOT_AVAILABLE''
      else if shelf_entries = [] then ''BLOCKED''
      else if all_products_have_policy_evidence shelf_entries then ''READY''
      else ''PENDING_REVIEW'')"

definition product_policy_missing :: "json list \<Rightarrow> json list \<Rightarrow> string list" where
  "product_policy_missing proposed_trades shelf_entries =
     (if proposed_trades = [] then []
      else if shelf_entries = [] then [''shelf_entries'']
      else if all_products_have_policy_evidence shelf_entries then []
      else [''product_eligibility'', ''target_market'', ''product_complexity'',
            ''private_asset_or_structured_product_flag''])"

definition product_policy_reasons :: "json list \<Rightarrow> json list \<Rightarrow> string list" where
  "product_policy_reasons proposed_trades shelf_entries =
     (if proposed_trades = [] then []
      else if shelf_entries = [] then [''CORE_PRODUCT_SHELF_NOT_PROVIDED'']
      else if all_products_have_policy_evidence shelf_entries then []
      else [''CORE_PRODUCT_POLICY_EVIDENCE_INCOMPLETE''])"

definition build_product_policy_source_section :: "json list \<Rightarrow> json list \<Rightarrow> json_dict" where
  "build_product_policy_source_section proposed_trades shelf_entries =
     source_readiness_section ''core_product_eligibility_target_market_complexity'' ''lotus-core''
       (product_policy_status proposed_trades shelf_entries)
       [''inputs.proposed_trades'', ''inputs.shelf_entries'']
       (product_policy_missing proposed_trades shelf_entries)
       (product_policy_reasons proposed_trades shelf_entries)"

section \<open>Evidence of the risk service\<close>

definition RISK_POLICY_KEYS :: "string list" where
  "RISK_POLICY_KEYS =
     [''single_position_concentration'', ''issuer_concentration'', ''drawdown'', ''var'', ''stress'',
      ''liquidity_risk'', ''private_asset_risk'', ''climate_geopolitical_risk'']"

definition risk_policy_degraded :: "json_dict \<Rightarrow> bool" where
  "risk_policy_degraded risk_lens =
     (let supportability = dict_at risk_lens ''supportability'';
          state = upper_str (py_str
            (json_or (obj_get risk_lens ''supportability_state'')
              (json_or (obj_get risk_lens ''state'')
                (json_or (obj_get supportability ''state'')
                  (json_or (obj_get supportability ''status'') (JStr []))))))
      in state \<in> {''DEGRADED'', ''STALE'', ''PARTIAL''})"

definition is_obj :: "json \<Rightarrow> bool" where
  "is_obj v = (case v of JObj _ \<Rightarrow> True | _ \<Rightarrow> False)"

definition risk_policy_missing :: "json_dict \<Rightarrow> string list" where
  "risk_policy_missing risk_lens =
     (if obj_get risk_lens ''source_service'' \<noteq> JStr ''lotus-risk''
      then [''lotus-risk source_service''] else []) @
     (if risk_policy_degraded risk_lens then [''lotus-risk degraded policy metrics''] else []) @
     filter (\<lambda>key. \<not> is_obj (obj_get risk_lens key)) RISK_POLICY_KEYS"

definition risk_policy_status :: "json_dict \<Rightarrow> string" where
  "risk_policy_status risk_lens =
     (if obj_get risk_lens ''source_service'' \<noteq> JStr ''lotus-risk'' then ''BLOCKED''
      else if risk_policy_degraded risk_lens then ''PENDING_REVIEW''
      else if risk_policy_missing risk_lens = [] then ''READY'' else ''PENDING_REVIEW'')"

definition risk_policy_reasons :: "json_dict \<Rightarrow> string list" where
  "risk_policy_reasons risk_lens =
     (let missing = risk_policy_missing risk_lens
      in if missing = [] then []
         else if ''lotus-risk source_service'' \<in> set missing
         then [''RISK_OWNER_POLICY_EVIDENCE_NOT_AVAILABLE'']
         else if ''lotus-risk degraded policy metrics'' \<in> set missing
         then [''RISK_OWNER_POLICY_EVIDENCE_DEGRADED'']
         else [''RISK_OWNER_POLICY_EVIDENCE_INCOMPLETE''])"

definition build_risk_policy_source_section :: "json_dict \<Rightarrow> json_dict" where
  "build_risk_policy_source_section risk_lens =
     source_readiness_section ''risk_policy_metrics'' ''lotus-risk'' (risk_policy_status risk_lens)
       [''risk_lens.single_position_concentration'', ''risk_lens.issuer_concentration'',
        ''risk_lens.drawdown'', ''risk_lens.var'', ''risk_lens.stress'',
        ''risk_lens.liquidity_risk'', ''risk_lens.private_asset_risk'',
        ''risk_lens.climate_geopolitical_risk'']
       (risk_policy_missing risk_lens) (risk_policy_reasons risk_lens)"

section \<open>The readiness of a bundle\<close>

definition policy_source_sections :: "json_dict \<Rightarrow> json_dict list" where
  "policy_source_sections evidence_bundle =
     (let context_resolution = dict_at evidence_bundle ''context_resolution'';
          inputs = dict_at evidence_bundle ''inputs'';
          risk_lens = dict_at evidence_bundle ''risk_lens'';
          advisory_policy_context = dict_at context_resolution ''advisory_policy_context'';
          resolution_source =
            py_str (json_or (obj_get context_resolution ''resolution_source'') (JStr []));
          market_data_snapshot = dict_at inputs ''market_data_snapshot''
      in build_core_policy_source_sections advisory_policy_context resolution_source
           (dict_at inputs ''portfolio_snapshot'') (list_at market_data_snapshot ''prices'')
           (list_at market_data_snapshot ''fx_rates'') @
         [build_product_policy_source_section (list_at inputs ''proposed_trades'')
            (list_at inputs ''shelf_entries''),
          build_risk_policy_source_section risk_lens,
          source_readiness_section ''advise_policy_evaluation_runtime'' ''lotus-advise'' ''READY''
            [''evidence_bundle.policy_source_readiness'',
             ''contracts.domain-data-products.AdvisoryPolicyEvaluationRecord'']
            [] [''RFC0025_INTERNAL_POLICY_EVALUATION_ENGINE_AVAILABLE'']])"

definition build_policy_source_readiness :: "json_dict \<Rightarrow> json_dict" where
  "build_policy_source_readiness evidence_bundle =
     (let sections = policy_source_sections evidence_bundle in
      [(''contract_version'', JStr ''rfc0025.policy-source-readiness.v1''),
       (''capability_posture'', JStr ''SOURCE_READINESS_WITH_INTERNAL_POLICY_EVALUATION_ENGINE''),
       (''overall_posture'', JStr (overall_posture sections)),
       (''source_authority'', JObj (source_authority sections)),
       (''sections'', JArr (map JObj sections)),
       (''claim_policy'',
        JObj [(''policy_evaluation'', JStr ''INTERNAL_ENGINE_ONLY_NO_PERSISTED_API''),
              (''client_ready_publication'', JStr ''BLOCKED''),
              (''unsupported_fact_handling'',
               JStr (''Do not claim policy suitability, best-interest, eligibility, disclosure, '' @
                     ''consent, or approval facts without READY source-owner evidence; carry '' @
                     ''PENDING_REVIEW or BLOCKED posture instead.''))])])"

end
