(* ===== verification/Policy_Rules.thy ===== *)
theory Policy_Rules
  imports Policy_Readiness Proposal_Context
begin

text \<open>
  The rules of a policy pack (src/core/policy_packs/evaluation_rules.py and the rule modules behind
  it: evaluation_source_rules.py, evaluation_product_rules.py, evaluation_product_helpers.py,
  evaluation_review_rules.py, evaluation_conflict_disclosure.py, evaluation_result_builders.py, over
  evaluation_models.py). A rule is a JSON object of the catalog; a result is a record.

  A rule without a \<open>rule_id\<close> is a \<open>KeyError\<close>, an unhashable status of a section a \<open>TypeError\<close>, and a
  reference list with an item that is no string fails the validation of the result model.
\<close>

section \<open>Results\<close>

datatype policy_status = PolicyReady | PolicyPending | PolicyBlocked | PolicyNotApplicable

fun policy_status_name :: "policy_status \<Rightarrow> string" where
  "policy_status_name PolicyReady = ''READY''"
| "policy_status_name PolicyPending = ''PENDING_REVIEW''"
| "policy_status_name PolicyBlocked = ''BLOCKED''"
| "policy_status_name PolicyNotApplicable = ''NOT_APPLICABLE''"

record policy_rule_result =
  prr_rule_id :: string
  prr_status :: policy_status
  prr_severity :: string
  prr_outcome :: string
  prr_evidence_refs :: "string list"
  prr_source_authority_refs :: "string list"
  prr_missing_evidence :: "string list"
  prr_reason_codes :: "string list"
  prr_required_actions :: "string list"

text \<open>The keys of \<open>dict.fromkeys(xs)\<close>: each item once, where it first occurs.\<close>

fun unique_first :: "'a list \<Rightarrow> 'a list" where
  "unique_first [] = []"
| "unique_first (x # xs) = x # filter (\<lambda>y. y \<noteq> x) (unique_first xs)"

lemma set_unique_first [simp]: "set (unique_first xs) = set xs"
  by (induction xs) auto

lemma distinct_unique_first [simp]: "distinct (unique_first xs)"
  by (induction xs) auto

lemma unique_first_eq_Nil [simp]: "unique_first xs = [] \<longleftrightarrow> xs = []"
  by (cases xs) auto

definition unique_strings :: "string list \<Rightarrow> string list" where
  "unique_strings values = unique_first (filter (\<lambda>v. v \<noteq> []) values)"

lemma set_unique_strings [simp]: "set (unique_strings xs) = set xs - {[]}"
  by (auto simp: unique_strings_def)

definition is_str :: "json \<Rightarrow> bool" where
  "is_str v = (case v of JStr _ \<Rightarrow> True | _ \<Rightarrow> False)"

text \<open>A value for a field of type \<open>list[str]\<close>.\<close>

definition str_list :: "json list \<Rightarrow> proposal_error + string list" where
  "str_list xs =
     (if list_all is_str xs then Inr (str_items xs)
      else Inl (PyException ''ValidationError'' ''Input should be a valid string''))"

definition source_ref_for_field :: "string \<Rightarrow> string" where
  "source_ref_for_field field_key =
     (if has_prefix ''policy_source_readiness.'' field_key
      then ''lotus-advise:policy_source_readiness''
      else if list_ex (\<lambda>p. has_prefix p field_key) [''fee_'', ''conflict_'', ''product_document_'']
      then ''lotus-advise:proposal_artifact_policy_evidence''
      else if has_prefix ''risk_'' field_key then ''lotus-risk:'' @ field_key
      else ''lotus-core:'' @ field_key)"

definition source_refs_for_rule :: "json_dict \<Rightarrow> string list" where
  "source_refs_for_rule rule =
     unique_strings
       (map source_ref_for_field (str_items (list_at rule ''required_evidence_fields'')))"

definition policy_rule_severity :: "json_dict \<Rightarrow> string \<Rightarrow> string" where
  "policy_rule_severity rule fallback = py_str (json_or (obj_get rule ''severity'') (JStr fallback))"

definition rule_ready ::
  "json_dict \<Rightarrow> string \<Rightarrow> json list \<Rightarrow> string list \<Rightarrow> proposal_error + policy_rule_result" where
  "rule_ready rule outcome evidence_refs source_authority_refs =
     rbind (str_list (if evidence_refs = [] then list_at rule ''required_evidence_fields''
                      else evidence_refs)) (\<lambda>refs.
       Inr \<lparr>prr_rule_id = py_str (obj_get rule ''rule_id''), prr_status = PolicyReady,
            prr_severity = policy_rule_severity rule ''REVIEW_REQUIRED'', prr_outcome = outcome,
            prr_evidence_refs = refs,
            prr_source_authority_refs =
              (if source_authority_refs = [] then source_refs_for_rule rule
               else source_authority_refs),
            prr_missing_evidence = [],
            prr_reason_codes = [py_str (obj_get rule ''rule_id'') @ ''_READY''],
            prr_required_actions = []\<rparr>)"

definition rule_pending ::
  "json_dict \<Rightarrow> string \<Rightarrow> string list \<Rightarrow> string list \<Rightarrow> string list \<Rightarrow> json list \<Rightarrow> string list \<Rightarrow>
   proposal_error + policy_rule_result" where
  "rule_pending rule outcome missing_evidence reason_codes required_actions evidence_refs
     source_authority_refs =
     rbind (str_list (if evidence_refs = [] then list_at rule ''required_evidence_fields''
                      else evidence_refs)) (\<lambda>refs.
       Inr \<lparr>prr_rule_id = py_str (obj_get rule ''rule_id''), prr_status = PolicyPending,
            prr_severity = policy_rule_severity rule ''REVIEW_REQUIRED'', prr_outcome = outcome,
            prr_evidence_refs = refs,
            prr_source_authority_refs =
              (if source_authority_refs = [] then source_refs_for_rule rule
               else source_authority_refs),
            prr_missing_evidence = unique_strings missing_evidence,
            prr_reason_codes = unique_strings reason_codes,
            prr_required_actions = unique_strings required_actions\<rparr>)"

definition rule_blocked ::
  "json_dict \<Rightarrow> string \<Rightarrow> string list \<Rightarrow> string list \<Rightarrow> string list \<Rightarrow>
   proposal_error + policy_rule_result" where
  "rule_blocked rule outcome missing_evidence reason_codes required_actions =
     rbind (str_list (list_at rule ''required_evidence_fields'')) (\<lambda>refs.
       Inr \<lparr>prr_rule_id = py_str (obj_get rule ''rule_id''), prr_status = PolicyBlocked,
            prr_severity = policy_rule_severity rule ''BLOCKING'', prr_outcome = outcome,
            prr_evidence_refs = refs, prr_source_authority_refs = source_refs_for_rule rule,
            prr_missing_evidence = unique_strings missing_evidence,
            prr_reason_codes = unique_strings reason_codes,
            prr_required_actions = unique_strings required_actions\<rparr>)"

section \<open>Products\<close>

definition COMPLEX_PRODUCT_CLASSIFICATIONS :: "string list" where
  "COMPLEX_PRODUCT_CLASSIFICATIONS = [''COMPLEX'', ''STRUCTURED'', ''PRIVATE_ASSET'']"

definition COMPLEX_PRODUCT_FLAGS :: "string list" where
  "COMPLEX_PRODUCT_FLAGS = [''structured_product'', ''private_asset'']"

definition with_instrument_id :: "json list \<Rightarrow> json_dict list" where
  "with_instrument_id rows =
     filter (\<lambda>row. json_truthy (obj_get row ''instrument_id'')) (dict_items rows)"

definition shelf_rows_by_instrument :: "json_dict \<Rightarrow> (string, json_dict) dict" where
  "shelf_rows_by_instrument inputs =
     fold (\<lambda>row. dict_set (py_str (obj_get row ''instrument_id'')) row)
       (with_instrument_id (list_at inputs ''shelf_entries'')) []"

definition proposed_instrument_ids :: "json_dict \<Rightarrow> string list" where
  "proposed_instrument_ids inputs =
     map (\<lambda>row. py_str (obj_get row ''instrument_id''))
       (with_instrument_id (list_at inputs ''proposed_trades''))"

definition proposed_shelf_rows :: "json_dict \<Rightarrow> (string, json_dict option) dict" where
  "proposed_shelf_rows evidence_bundle =
     (let inputs = dict_at evidence_bundle ''inputs'';
          shelf_by_instrument = shelf_rows_by_instrument inputs
      in map (\<lambda>instrument_id. (instrument_id, dict_get shelf_by_instrument instrument_id))
           (unique_first (proposed_instrument_ids inputs)))"

definition merged_product_policy :: "json_dict \<Rightarrow> string \<Rightarrow> json_dict" where
  "merged_product_policy shelf key =
     (let direct = dict_at shelf key;
          nested = dict_at (dict_at shelf ''attributes'') key
      in if direct \<noteq> [] then direct else nested)"

definition jurisdiction_allowed :: "json_dict \<Rightarrow> string \<Rightarrow> bool" where
  "jurisdiction_allowed shelf jurisdiction =
     (let jurisdictions =
        set (str_items (list_at (merged_product_policy shelf ''eligibility'') ''jurisdictions''))
      in jurisdictions = {} \<or> ''GLOBAL'' \<in> jurisdictions \<or> jurisdiction \<in> jurisdictions)"

definition client_segment_allowed :: "json_dict \<Rightarrow> string \<Rightarrow> bool" where
  "client_segment_allowed shelf client_segment =
     (let segments =
        set (str_items (list_at (merged_product_policy shelf ''target_market'') ''client_segments''))
      in segments = {} \<or> client_segment \<in> segments \<or> ''PRIVATE_BANKING'' \<in> segments)"

definition complexity_classification :: "json_dict \<Rightarrow> json_dict \<Rightarrow> string" where
  "complexity_classification shelf attributes =
     upper_str (py_str
       (json_or (obj_get shelf ''complexity'')
         (json_or (obj_get shelf ''product_complexity'')
           (json_or (obj_get attributes ''complexity'')
             (json_or (obj_get attributes ''product_complexity'') (JStr []))))))"

definition truthy_product_flag :: "json_dict \<Rightarrow> json_dict \<Rightarrow> string \<Rightarrow> bool" where
  "truthy_product_flag shelf attributes flag =
     json_truthy (json_or (obj_get shelf flag) (obj_get attributes flag))"

definition is_complex_or_private_product :: "json_dict \<Rightarrow> bool" where
  "is_complex_or_private_product shelf =
     (let attributes = dict_at shelf ''attributes''
      in complexity_classification shelf attributes \<in> set COMPLEX_PRODUCT_CLASSIFICATIONS \<or>
         list_ex (truthy_product_flag shelf attributes) COMPLEX_PRODUCT_FLAGS)"

fun normalized_scope_values :: "json \<Rightarrow> string list" where
  "normalized_scope_values (JArr xs) =
     map (\<lambda>item. upper_str (py_strip item)) (filter (\<lambda>item. py_strip item \<noteq> []) (str_items xs))"
| "normalized_scope_values (JStr value) =
     (if py_strip value \<noteq> [] then [upper_str (py_strip value)] else [])"
| "normalized_scope_values value = []"

definition explicit_product_scopes :: "json_dict \<Rightarrow> json_dict \<Rightarrow> string list" where
  "explicit_product_scopes shelf attributes =
     normalized_scope_values (obj_get shelf ''product_scope'') @
     normalized_scope_values (obj_get attributes ''product_scope'')"

definition policy_product_scopes :: "json_dict \<Rightarrow> string list" where
  "policy_product_scopes shelf =
     (let attributes = dict_at shelf ''attributes'';
          explicit_scopes = explicit_product_scopes shelf attributes;
          complexity = complexity_classification shelf attributes
      in if explicit_scopes \<noteq> [] then sorted_set explicit_scopes
         else sorted_set
           ([''MULTI_ASSET''] @
            (if complexity = ''PRIVATE_ASSET'' \<or> truthy_product_flag shelf attributes ''private_asset''
             then [''PRIVATE_ASSET''] else []) @
            (if complexity \<in> {''COMPLEX'', ''STRUCTURED''} \<or>
                truthy_product_flag shelf attributes ''structured_product''
             then [''STRUCTURED_PRODUCT''] else [])))"

section \<open>Source evidence a rule requires\<close>

record source_collection =
  sc_missing :: "string list"
  sc_reasons :: "string list"
  sc_pending :: bool

definition extend_from_section :: "json_dict \<Rightarrow> source_collection \<Rightarrow> source_collection" where
  "extend_from_section source_section collection =
     collection\<lparr>sc_missing :=
                  sc_missing collection @ str_items (list_at source_section ''missing_evidence''),
                sc_reasons :=
                  sc_reasons collection @ str_items (list_at source_section ''reason_codes'')\<rparr>"

definition sections_by_key :: "json_dict \<Rightarrow> (string, json_dict) dict" where
  "sections_by_key source_posture =
     fold (\<lambda>s. dict_set (py_str (obj_get s ''key'')) s)
       (dict_items (list_at source_posture ''sections'')) []"

definition sections_with_status :: "json_dict \<Rightarrow> string \<Rightarrow> json_dict list" where
  "sections_with_status source_posture status =
     filter (\<lambda>s. obj_get s ''status'' = JStr status)
       (dict_items (list_at source_posture ''sections''))"

definition posture_section :: "json_dict \<Rightarrow> string \<Rightarrow> json_dict" where
  "posture_section source_posture key =
     (case find (\<lambda>s. obj_get s ''key'' = JStr key)
             (dict_items (list_at source_posture ''sections'')) of
        Some s \<Rightarrow> s
      | None \<Rightarrow> [])"

definition is_advisory_review_only_field :: "string \<Rightarrow> bool" where
  "is_advisory_review_only_field field_key =
     list_ex (\<lambda>p. has_prefix p field_key) [''fee_'', ''conflict_'', ''product_document_'']"

definition FIELD_TO_SOURCE_SECTION :: "(string, string) dict" where
  "FIELD_TO_SOURCE_SECTION =
     [(''private_asset_or_structured_product_flag'',
       ''core_product_eligibility_target_market_complexity'')]"

definition source_evidence_fields :: "json_dict \<Rightarrow> string list" where
  "source_evidence_fields rule =
     map (\<lambda>field_key. case dict_get FIELD_TO_SOURCE_SECTION field_key of
                         None \<Rightarrow> field_key | Some section_key \<Rightarrow> section_key)
       (filter (\<lambda>field_key. \<not> is_advisory_review_only_field field_key)
         (str_items (list_at rule ''required_evidence_fields'')))"

definition collect_policy_source_readiness_evidence ::
  "json_dict \<Rightarrow> source_collection \<Rightarrow> source_collection" where
  "collect_policy_source_readiness_evidence source_posture collection =
     (if obj_get source_posture ''overall_posture'' = JStr ''BLOCKED''
      then fold extend_from_section (sections_with_status source_posture ''BLOCKED'') collection
      else if obj_get source_posture ''overall_posture'' = JStr ''PENDING_REVIEW''
      then fold extend_from_section (sections_with_status source_posture ''PENDING_REVIEW'')
             (collection\<lparr>sc_pending := True\<rparr>)
      else collection)"

definition is_hashable :: "json \<Rightarrow> bool" where
  "is_hashable v = (case v of JArr _ \<Rightarrow> False | JObj _ \<Rightarrow> False | _ \<Rightarrow> True)"

definition collect_section_source_evidence ::
  "string \<Rightarrow> (string, json_dict) dict \<Rightarrow> source_collection \<Rightarrow>
   proposal_error + source_collection" where
  "collect_section_source_evidence field_key sections collection =
     (case dict_get sections field_key of
        None \<Rightarrow>
          Inr (collection\<lparr>sc_missing := sc_missing collection @ [field_key],
                          sc_reasons := sc_reasons collection @ [''POLICY_SOURCE_SECTION_MISSING'']\<rparr>)
      | Some source_section \<Rightarrow>
          (let status = obj_get source_section ''status'' in
           if status = JStr ''BLOCKED'' then Inr (extend_from_section source_section collection)
           else if \<not> is_hashable status then Inl (PyTypeError ''unhashable type'')
           else if status \<in> {JStr ''PENDING_REVIEW'', JStr ''NOT_AVAILABLE''}
           then Inr (extend_from_section source_section (collection\<lparr>sc_pending := True\<rparr>))
           else Inr collection))"

fun collect_source_evidence ::
  "json_dict \<Rightarrow> string list \<Rightarrow> source_collection \<Rightarrow> proposal_error + source_collection" where
  "collect_source_evidence source_posture [] collection = Inr collection"
| "collect_source_evidence source_posture (field_key # field_keys) collection =
     rbind (if has_prefix ''policy_source_readiness.'' field_key
            then Inr (collect_policy_source_readiness_evidence source_posture collection)
            else collect_section_source_evidence field_key (sections_by_key source_posture)
                   collection)
       (collect_source_evidence source_posture field_keys)"

definition source_evidence_result ::
  "json_dict \<Rightarrow> source_collection \<Rightarrow> (proposal_error + policy_rule_result) option" where
  "source_evidence_result rule collection =
     (if sc_missing collection \<noteq> [] \<and> \<not> sc_pending collection
      then Some (rule_blocked rule ''SOURCE_EVIDENCE_BLOCKED'' (unique_strings (sc_missing collection))
             (unique_strings (sc_reasons collection)) [''RESTORE_SOURCE_OWNER_EVIDENCE''])
      else if sc_missing collection \<noteq> [] \<or> sc_pending collection
      then Some (rule_pending rule ''SOURCE_EVIDENCE_REVIEW_REQUIRED''
             (unique_strings (sc_missing collection)) (unique_strings (sc_reasons collection))
             [''REVIEW_SOURCE_OWNER_EVIDENCE''] [] [])
      else None)"

definition required_source_result ::
  "json_dict \<Rightarrow> json_dict \<Rightarrow> proposal_error + policy_rule_result option" where
  "required_source_result rule source_posture =
     rbind (collect_source_evidence source_posture (source_evidence_fields rule)
              \<lparr>sc_missing = [], sc_reasons = [], sc_pending = False\<rparr>) (\<lambda>collection.
       case source_evidence_result rule collection of
         None \<Rightarrow> Inr None
       | Some result \<Rightarrow> rbind result (\<lambda>r. Inr (Some r)))"

definition evaluate_mandate_rule ::
  "json_dict \<Rightarrow> json_dict \<Rightarrow> proposal_error + policy_rule_result" where
  "evaluate_mandate_rule rule source_posture =
     rule_ready rule ''MANDATE_OBJECTIVES_AND_RESTRICTIONS_READY_FOR_ADVISOR_REVIEW''
       (list_at (posture_section source_posture ''core_mandate_objectives_restrictions'')
          ''evidence_refs'')
       [''lotus-core:core_mandate_objectives_restrictions'']"

end
