(* ===== verification/Policy_Catalog.thy ===== *)
theory Policy_Catalog
  imports Policy_Readiness Proposal_Context Version_Commands
begin

text \<open>
  The catalog of policy packs (src/core/policy_packs/catalog.py, catalog_commands.py,
  catalog_events.py, catalog_definitions.py, catalog_definition_validation.py,
  catalog_projection.py, catalog_reference_packs.py, supportability.py, and
  \<open>idempotency_stable_reason\<close> of receipt_identity.py). The state of the store is the record
  \<open>policy_catalog\<close>; a definition is the JSON object the code keeps. The fields the code reads by
  subscript are there in every definition of the catalog (\<open>catalog_wf\<close>), so no \<open>KeyError\<close> arises.

  The lemmas show that every run of catalog commands keeps at most one version of a pack active,
  never changes the content of a version, and activates only what was validated, by another actor
  where the pack asks for it.
\<close>

section \<open>Supportability\<close>

definition POLICY_CATALOG_CONTRACT_VERSION :: string where
  "POLICY_CATALOG_CONTRACT_VERSION = ''rfc0025.policy-pack-catalog.v1''"

definition POLICY_EVALUATION_ENGINE_CONTRACT_VERSION :: string where
  "POLICY_EVALUATION_ENGINE_CONTRACT_VERSION = ''rfc0025.policy-evaluation-engine.v1''"

definition POLICY_EVALUATION_PERSISTENCE_CONTRACT_VERSION :: string where
  "POLICY_EVALUATION_PERSISTENCE_CONTRACT_VERSION = ''rfc0025.policy-evaluation-persistence.v1''"

definition POLICY_WORKFLOW_CONTRACT_VERSION :: string where
  "POLICY_WORKFLOW_CONTRACT_VERSION = ''rfc0025.policy-sign-off-workflow.v1''"

definition POLICY_REPORTING_CONTRACT_VERSION :: string where
  "POLICY_REPORTING_CONTRACT_VERSION = ''rfc0025.policy-report-package-realization.v1''"

definition REFERENCE_POLICY_PACK_POSTURE :: string where
  "REFERENCE_POLICY_PACK_POSTURE = ''REFERENCE_EXAMPLE_NOT_LEGAL_ADVICE''"

definition CLIENT_READY_PUBLICATION_POSTURE :: string where
  "CLIENT_READY_PUBLICATION_POSTURE = ''BLOCKED''"

definition policy_runtime_supportability :: json_dict where
  "policy_runtime_supportability =
     [(''catalog_contract_version'', JStr POLICY_CATALOG_CONTRACT_VERSION),
      (''reference_posture'', JStr REFERENCE_POLICY_PACK_POSTURE),
      (''policy_catalog'', JStr ''SUPPORTED_BY_RFC0025_SLICE5''),
      (''policy_activation'', JStr ''SUPPORTED_BY_RFC0025_SLICE5''),
      (''policy_evaluation'', JStr ''SUPPORTED_BY_RFC0025_SLICE8_ADVISE_API''),
      (''policy_evaluation_engine'', JStr ''SUPPORTED_BY_RFC0025_SLICE6''),
      (''policy_evaluation_persistence'', JStr ''SUPPORTED_BY_RFC0025_SLICE7_INTERNAL''),
      (''policy_evaluation_api'', JStr ''SUPPORTED_BY_RFC0025_SLICE8_ADVISE_API''),
      (''review_queue_api'', JStr ''SUPPORTED_BY_RFC0025_SLICE8_ADVISE_API''),
      (''sign_off_package_api'', JStr ''SUPPORTED_BY_RFC0025_SLICE8_ADVISE_API''),
      (''sign_off_decision_recording'', JStr ''SUPPORTED_BY_RFC0025_SLICE9_ADVISE_API''),
      (''report_package_realization'', JStr ''SUPPORTED_BY_RFC0025_SLICE10_SIGNED_OFF_PACKAGE''),
      (''ai_policy_evidence'', JStr ''SUPPORTED_BY_RFC0025_SLICE11_BOUNDED_NON_AUTHORITATIVE''),
      (''gateway_supported'', JBool True),
      (''gateway_support'', JStr ''SUPPORTED_BY_RFC0025_SLICE12_GATEWAY_BFF''),
      (''workbench_supported'', JBool True),
      (''workbench_support'', JStr ''SUPPORTED_BY_RFC0025_SLICE12_GATEWAY_ONLY_UI''),
      (''live_runtime_proof'', JStr ''SUPPORTED_BY_RFC0025_SLICE14_LIVE_SUITE''),
      (''active_data_product_promotion'', JStr ''SUPPORTED_BY_RFC0025_SLICE16_FINAL_CLOSURE''),
      (''mesh_certification'', JStr ''SUPPORTED_BY_RFC0025_SLICE16_FINAL_CLOSURE''),
      (''completed_compliance_authority'', JStr ''BLOCKED''),
      (''client_ready_publication'', JStr CLIENT_READY_PUBLICATION_POSTURE)]"

definition policy_sign_off_package_posture :: json_dict where
  "policy_sign_off_package_posture =
     policy_runtime_supportability @
     [(''sign_off_source_package'', JStr ''SUPPORTED_BY_RFC0025_SLICE8_ADVISE_API''),
      (''report_render_archive_realization'',
       JStr ''SUPPORTED_BY_RFC0025_SLICE10_SIGNED_OFF_PACKAGE_HANDOFF'')]"

section \<open>Definitions and their validation\<close>

record policy_pack_summary =
  ps_policy_pack_id :: string
  ps_policy_version :: string
  ps_policy_family :: string
  ps_display_name :: string
  ps_activation_state :: string
  ps_reference_posture :: string
  ps_maker_checker_required :: bool
  ps_content_hash :: string

definition definition_key :: "json_dict \<Rightarrow> string \<times> string" where
  "definition_key defn =
     (py_str (obj_get defn ''policy_pack_id''), py_str (obj_get defn ''policy_version''))"

definition prepare_definition :: "(string \<Rightarrow> string) \<Rightarrow> json_dict \<Rightarrow> json_dict" where
  "prepare_definition sha defn =
     (let prepared = dict_set ''reference_posture'' (JStr REFERENCE_POLICY_PACK_POSTURE) defn
      in dict_set ''content_hash''
           (JStr (hash_canonical_payload sha
              (JObj (filter (\<lambda>(key, value). key \<notin> {''activation_state'', ''content_hash''}) prepared))))
           prepared)"

definition summary_from_definition :: "json_dict \<Rightarrow> policy_pack_summary" where
  "summary_from_definition defn =
     \<lparr>ps_policy_pack_id = py_str (obj_get defn ''policy_pack_id''),
      ps_policy_version = py_str (obj_get defn ''policy_version''),
      ps_policy_family = py_str (obj_get defn ''policy_family''),
      ps_display_name = py_str (obj_get defn ''display_name''),
      ps_activation_state = py_str (obj_get defn ''activation_state''),
      ps_reference_posture = py_str (obj_get defn ''reference_posture''),
      ps_maker_checker_required = json_truthy (obj_get defn ''maker_checker_required''),
      ps_content_hash = py_str (obj_get defn ''content_hash'')\<rparr>"

definition REQUIRED_DEFINITION_FIELDS :: "string list" where
  "REQUIRED_DEFINITION_FIELDS =
     [''policy_pack_id'', ''policy_version'', ''policy_family'', ''applicability'',
      ''source_requirements'', ''rules'', ''sample_fixture_refs'', ''schema_version'']"

definition required_field_diagnostics :: "json_dict \<Rightarrow> string list" where
  "required_field_diagnostics defn =
     map (\<lambda>key. upper_str key @ ''_REQUIRED'')
       (filter (\<lambda>key. \<not> json_truthy (obj_get defn key)) REQUIRED_DEFINITION_FIELDS)"

definition reference_posture_diagnostics :: "json_dict \<Rightarrow> string list" where
  "reference_posture_diagnostics defn =
     (if obj_get defn ''reference_posture'' = JStr REFERENCE_POLICY_PACK_POSTURE then []
      else [''REFERENCE_POSTURE_NOT_DECLARED''])"

definition rule_identifier :: "json_dict \<Rightarrow> string" where
  "rule_identifier rule = py_str (json_or (obj_get rule ''rule_id'') (JStr []))"

definition rule_identifier_diagnostics :: "string \<Rightarrow> string list" where
  "rule_identifier_diagnostics rule_id =
     (if rule_id \<noteq> [] \<and> upper_str rule_id = rule_id \<and> CHR ''-'' \<notin> set rule_id then []
      else [''RULE_ID_NOT_UPPER_SNAKE_CASE''])"

definition rule_label :: "string \<Rightarrow> string" where
  "rule_label rule_id = (if rule_id = [] then ''RULE'' else rule_id)"

definition required_evidence_field_diagnostics :: "json_dict \<Rightarrow> string \<Rightarrow> string list" where
  "required_evidence_field_diagnostics rule rule_id =
     (if json_truthy (obj_get rule ''required_evidence_fields'') then []
      else [rule_label rule_id @ ''_REQUIRED_EVIDENCE_FIELDS_REQUIRED''])"

definition missing_evidence_wording_diagnostics :: "json_dict \<Rightarrow> string \<Rightarrow> string list" where
  "missing_evidence_wording_diagnostics rule rule_id =
     (if dict_get rule ''positive_wording_when_missing_evidence'' = None then []
      else [rule_label rule_id @ ''_FORBIDDEN_POSITIVE_MISSING_EVIDENCE_WORDING''])"

definition rule_diagnostics :: "json \<Rightarrow> string list" where
  "rule_diagnostics rule =
     (case rule of
        JObj r \<Rightarrow>
          rule_identifier_diagnostics (rule_identifier r) @
          required_evidence_field_diagnostics r (rule_identifier r) @
          missing_evidence_wording_diagnostics r (rule_identifier r)
      | _ \<Rightarrow> [''RULE_MUST_BE_OBJECT''])"

definition rule_collection_diagnostics :: "json_dict \<Rightarrow> string list" where
  "rule_collection_diagnostics defn =
     (case obj_get defn ''rules'' of
        JArr rules \<Rightarrow> concat (map rule_diagnostics rules)
      | _ \<Rightarrow> [''RULES_MUST_BE_LIST''])"

definition validate_catalog_definition :: "json_dict \<Rightarrow> string list" where
  "validate_catalog_definition defn =
     required_field_diagnostics defn @ reference_posture_diagnostics defn @
     rule_collection_diagnostics defn"

section \<open>Audit events\<close>

datatype pack_event_type = PackValidated | PackActivated

fun pack_event_type_name :: "pack_event_type \<Rightarrow> string" where
  "pack_event_type_name PackValidated = ''POLICY_PACK_VALIDATED''"
| "pack_event_type_name PackActivated = ''POLICY_PACK_ACTIVATED''"

record policy_pack_event =
  pe_event_id :: string
  pe_event_type :: pack_event_type
  pe_policy_pack_id :: string
  pe_policy_version :: string
  pe_actor_id :: string
  pe_occurred_at :: string
  pe_content_hash :: string
  pe_idempotency_key :: "string option"
  pe_reason :: json_dict

record policy_catalog =
  pc_definitions :: "(string \<times> string, json_dict) dict"
  pc_events :: "(string \<times> string, policy_pack_event list) dict"
  pc_idempotency :: "(string, string \<times> policy_pack_event) dict"

text \<open>\<open>f"{n:06d}"\<close>.\<close>

definition six_digits :: "nat \<Rightarrow> string" where
  "six_digits n = replicate (6 - length (nat_digits n)) CHR ''0'' @ nat_digits n"

text \<open>
  \<open>_strip_volatile_trusted_principal_fields\<close>: every \<open>trusted_principal\<close> object, at any depth, loses
  its correlation and trace identifiers.
\<close>

fun strip_volatile_trusted_principal_fields :: "json \<Rightarrow> json" where
  "strip_volatile_trusted_principal_fields (JObj d) =
     JObj (map (\<lambda>(key, value).
       (key, case strip_volatile_trusted_principal_fields value of
               JObj t \<Rightarrow>
                 JObj (if key = ''trusted_principal''
                       then filter (\<lambda>(k, v). k \<notin> {''correlation_id'', ''trace_id''}) t else t)
             | stripped \<Rightarrow> stripped)) d)"
| "strip_volatile_trusted_principal_fields (JArr xs) =
     JArr (map strip_volatile_trusted_principal_fields xs)"
| "strip_volatile_trusted_principal_fields v = v"

definition idempotency_stable_reason :: "json_dict \<Rightarrow> json" where
  "idempotency_stable_reason reason = strip_volatile_trusted_principal_fields (JObj reason)"

definition pack_validation_request_hash ::
  "(string \<Rightarrow> string) \<Rightarrow> string \<Rightarrow> string \<Rightarrow> string \<Rightarrow> json \<Rightarrow> json_dict \<Rightarrow> string" where
  "pack_validation_request_hash sha policy_pack_id policy_version requested_by content_hash reason =
     hash_canonical_payload sha
       (JObj [(''operation'', JStr ''POLICY_PACK_VALIDATED''),
              (''policy_pack_id'', JStr policy_pack_id), (''policy_version'', JStr policy_version),
              (''requested_by'', JStr requested_by), (''content_hash'', content_hash),
              (''reason'', idempotency_stable_reason reason)])"

definition activation_request_hash ::
  "(string \<Rightarrow> string) \<Rightarrow> string \<Rightarrow> string \<Rightarrow> string \<Rightarrow> string \<Rightarrow> json_dict \<Rightarrow> string" where
  "activation_request_hash sha policy_pack_id policy_version activated_by source_content_hash
     reason =
     hash_canonical_payload sha
       (JObj [(''operation'', JStr ''POLICY_PACK_ACTIVATED''),
              (''policy_pack_id'', JStr policy_pack_id), (''policy_version'', JStr policy_version),
              (''activated_by'', JStr activated_by),
              (''source_content_hash'', JStr source_content_hash),
              (''reason'', idempotency_stable_reason reason)])"

definition legacy_stable_event_hash :: "(string \<Rightarrow> string) \<Rightarrow> policy_pack_event \<Rightarrow> string" where
  "legacy_stable_event_hash sha event =
     (let reason = dict_at (pe_reason event) ''reason'' in
      if pe_event_type event = PackValidated
      then pack_validation_request_hash sha (pe_policy_pack_id event) (pe_policy_version event)
             (pe_actor_id event) (JStr (pe_content_hash event)) reason
      else activation_request_hash sha (pe_policy_pack_id event) (pe_policy_version event)
             (pe_actor_id event) (pe_content_hash event) reason)"

definition append_policy_pack_catalog_event ::
  "pack_event_type \<Rightarrow> string \<Rightarrow> string \<Rightarrow> string \<Rightarrow> string \<Rightarrow> string \<Rightarrow> string \<Rightarrow> json_dict \<Rightarrow>
   timestamp \<Rightarrow> policy_catalog \<Rightarrow> policy_catalog \<times> policy_pack_event" where
  "append_policy_pack_catalog_event event_type policy_pack_id policy_version actor_id content_hash
     idempotency_key request_hash reason now c =
     (let key = (policy_pack_id, policy_version);
          event =
            \<lparr>pe_event_id = ''ppev_'' @ six_digits (length (dict_list (pc_events c) key) + 1),
             pe_event_type = event_type, pe_policy_pack_id = policy_pack_id,
             pe_policy_version = policy_version, pe_actor_id = actor_id,
             pe_occurred_at = isoformat now, pe_content_hash = content_hash,
             pe_idempotency_key = Some idempotency_key,
             pe_reason =
               dict_set ''catalog_contract_version'' (JStr POLICY_CATALOG_CONTRACT_VERSION)
                 (dict_set ''idempotency_request_hash'' (JStr request_hash) reason)\<rparr>
      in (c\<lparr>pc_events := dict_push key event (pc_events c),
            pc_idempotency := dict_set idempotency_key (request_hash, event) (pc_idempotency c)\<rparr>,
          event))"

definition find_replayed_policy_pack_catalog_event ::
  "(string \<Rightarrow> string) \<Rightarrow> string \<Rightarrow> string \<Rightarrow> policy_catalog \<Rightarrow>
   proposal_error + policy_pack_event option" where
  "find_replayed_policy_pack_catalog_event sha idempotency_key request_hash c =
     (case dict_get (pc_idempotency c) idempotency_key of
        None \<Rightarrow> Inr None
      | Some (stored_hash, event) \<Rightarrow>
          if stored_hash \<noteq> request_hash \<and> legacy_stable_event_hash sha event \<noteq> request_hash
          then Inl (ProposalIdempotencyConflictError ''POLICY_PACK_IDEMPOTENCY_KEY_CONFLICT'')
          else Inr (Some event))"

definition latest_policy_pack_validation_event ::
  "string \<Rightarrow> string \<Rightarrow> policy_catalog \<Rightarrow> policy_pack_event option" where
  "latest_policy_pack_validation_event policy_pack_id policy_version c =
     find (\<lambda>event. pe_event_type event = PackValidated)
       (rev (dict_list (pc_events c) (policy_pack_id, policy_version)))"

section \<open>Validation and activation\<close>

record validation_response =
  vr_policy_pack :: policy_pack_summary
  vr_validation_status :: string
  vr_diagnostics :: "json list"
  vr_validation_event :: policy_pack_event
  vr_replayed :: bool

record activation_response =
  ar_policy_pack :: policy_pack_summary
  ar_activation_event :: policy_pack_event
  ar_replayed :: bool

definition validate_policy_pack_catalog_definition ::
  "(string \<Rightarrow> string) \<Rightarrow> json_dict \<Rightarrow> string \<Rightarrow> string \<Rightarrow> string \<Rightarrow> string \<Rightarrow> json_dict \<Rightarrow>
   timestamp \<Rightarrow> policy_catalog \<Rightarrow> proposal_error + policy_catalog \<times> validation_response" where
  "validate_policy_pack_catalog_definition sha defn policy_pack_id policy_version requested_by
     idempotency_key reason now c =
     (let request_hash = pack_validation_request_hash sha policy_pack_id policy_version requested_by
            (obj_get defn ''content_hash'') reason in
      rbind (find_replayed_policy_pack_catalog_event sha idempotency_key request_hash c)
        (\<lambda>replayed. case replayed of
           Some event \<Rightarrow>
             Inr (c, \<lparr>vr_policy_pack = summary_from_definition defn,
                      vr_validation_status = ''READY'',
                      vr_diagnostics = list_at (pe_reason event) ''diagnostics'',
                      vr_validation_event = event, vr_replayed = True\<rparr>)
         | None \<Rightarrow>
             (let diagnostics = validate_catalog_definition defn in
              if diagnostics \<noteq> []
              then Inl (ProposalValidationError (join_with '';'' diagnostics))
              else
                (let (c1, event) =
                   append_policy_pack_catalog_event PackValidated policy_pack_id policy_version
                     requested_by (py_str (obj_get defn ''content_hash'')) idempotency_key
                     request_hash
                     [(''validation_status'', JStr ''READY''), (''diagnostics'', JArr []),
                      (''dry_run_status'', JStr ''REFERENCE_FIXTURES_VALIDATED''),
                      (''sample_fixture_refs'', JArr (list_at defn ''sample_fixture_refs'')),
                      (''reason'', JObj reason),
                      (''reference_posture'', JStr REFERENCE_POLICY_PACK_POSTURE)] now c
                 in Inr (c1, \<lparr>vr_policy_pack = summary_from_definition defn,
                              vr_validation_status = ''READY'', vr_diagnostics = [],
                              vr_validation_event = event, vr_replayed = False\<rparr>)))))"

definition validate_activation_definition :: "json_dict \<Rightarrow> string \<Rightarrow> proposal_error + unit" where
  "validate_activation_definition defn source_content_hash =
     (if JStr source_content_hash \<noteq> obj_get defn ''content_hash''
      then Inl (ProposalValidationError ''POLICY_PACK_CONTENT_HASH_MISMATCH'')
      else if obj_get defn ''activation_state'' = JStr ''ACTIVE''
      then Inl (ProposalValidationError ''POLICY_PACK_VERSION_ALREADY_ACTIVE_IMMUTABLE'')
      else if validate_catalog_definition defn \<noteq> []
      then Inl (ProposalValidationError (join_with '';'' (validate_catalog_definition defn)))
      else Inr ())"

definition validated_activation_event ::
  "json_dict \<Rightarrow> string \<Rightarrow> string \<Rightarrow> string \<Rightarrow> string \<Rightarrow> policy_catalog \<Rightarrow>
   proposal_error + policy_pack_event" where
  "validated_activation_event defn policy_pack_id policy_version activated_by source_content_hash
     c =
     rbind (validate_activation_definition defn source_content_hash) (\<lambda>_.
       case latest_policy_pack_validation_event policy_pack_id policy_version c of
         None \<Rightarrow> Inl (ProposalValidationError ''POLICY_PACK_VALIDATION_REQUIRED_BEFORE_ACTIVATION'')
       | Some event \<Rightarrow>
           if json_truthy (obj_get defn ''maker_checker_required'') \<and>
              pe_actor_id event = activated_by
           then Inl (ProposalValidationError ''POLICY_PACK_MAKER_CHECKER_REQUIRES_DIFFERENT_ACTOR'')
           else Inr event)"

definition activation_event_reason ::
  "json_dict \<Rightarrow> policy_pack_event \<Rightarrow> json_dict \<Rightarrow> string option \<Rightarrow> json_dict" where
  "activation_event_reason defn validation_event reason previous_active_policy_version =
     [(''activation_state'', JStr ''ACTIVE''),
      (''previous_active_policy_version'', opt_str previous_active_policy_version),
      (''resulting_active_policy_version'', obj_get defn ''policy_version''),
      (''superseded_policy_version'', opt_str previous_active_policy_version),
      (''supersession_contract'', JStr ''ONE_ACTIVE_VERSION_PER_POLICY_PACK''),
      (''maker_checker_required'', obj_get defn ''maker_checker_required''),
      (''validated_by'', JStr (pe_actor_id validation_event)),
      (''validation_event_id'', JStr (pe_event_id validation_event)),
      (''reason'', JObj reason),
      (''reference_posture'', JStr REFERENCE_POLICY_PACK_POSTURE)]"

text \<open>The code writes the new state into the definition that the store holds under the key.\<close>

definition set_activation_state ::
  "string \<times> string \<Rightarrow> string \<Rightarrow> policy_catalog \<Rightarrow> policy_catalog" where
  "set_activation_state key state c =
     (case dict_get (pc_definitions c) key of
        None \<Rightarrow> c
      | Some defn \<Rightarrow>
          c\<lparr>pc_definitions :=
              dict_set key (dict_set ''activation_state'' (JStr state) defn) (pc_definitions c)\<rparr>)"

definition activate_policy_pack_catalog_definition ::
  "(string \<Rightarrow> string) \<Rightarrow> json_dict \<Rightarrow> string \<Rightarrow> string \<Rightarrow> string \<Rightarrow> string \<Rightarrow> string \<Rightarrow> json_dict \<Rightarrow>
   string option \<Rightarrow> timestamp \<Rightarrow> policy_catalog \<Rightarrow>
   proposal_error + policy_catalog \<times> activation_response" where
  "activate_policy_pack_catalog_definition sha defn policy_pack_id policy_version activated_by
     source_content_hash idempotency_key reason previous_active_policy_version now c =
     (let request_hash = activation_request_hash sha policy_pack_id policy_version activated_by
            source_content_hash reason in
      rbind (find_replayed_policy_pack_catalog_event sha idempotency_key request_hash c)
        (\<lambda>replayed. case replayed of
           Some event \<Rightarrow>
             Inr (c, \<lparr>ar_policy_pack = summary_from_definition defn, ar_activation_event = event,
                      ar_replayed = True\<rparr>)
         | None \<Rightarrow>
             rbind (validated_activation_event defn policy_pack_id policy_version activated_by
                      source_content_hash c)
               (\<lambda>validation_event.
                  let c1 = set_activation_state (policy_pack_id, policy_version) ''ACTIVE'' c;
                      active = dict_set ''activation_state'' (JStr ''ACTIVE'') defn;
                      (c2, event) =
                        append_policy_pack_catalog_event PackActivated policy_pack_id
                          policy_version activated_by (py_str (obj_get defn ''content_hash''))
                          idempotency_key request_hash
                          (activation_event_reason active validation_event reason
                             previous_active_policy_version) now c1
                  in Inr (c2, \<lparr>ar_policy_pack = summary_from_definition active,
                               ar_activation_event = event, ar_replayed = False\<rparr>))))"

section \<open>The store\<close>

definition load_definition ::
  "string \<Rightarrow> string \<Rightarrow> policy_catalog \<Rightarrow> proposal_error + json_dict" where
  "load_definition policy_pack_id policy_version c =
     (case dict_get (pc_definitions c) (policy_pack_id, policy_version) of
        None \<Rightarrow> Inl (ProposalNotFoundError ''POLICY_PACK_VERSION_NOT_FOUND'')
      | Some defn \<Rightarrow> Inr defn)"

definition active_entries ::
  "string \<Rightarrow> policy_catalog \<Rightarrow> ((string \<times> string) \<times> json_dict) list" where
  "active_entries policy_pack_id c =
     filter (\<lambda>(key, defn). fst key = policy_pack_id \<and>
               obj_get defn ''activation_state'' = JStr ''ACTIVE'') (pc_definitions c)"

definition single_active_definition ::
  "string \<Rightarrow> policy_catalog \<Rightarrow> proposal_error + ((string \<times> string) \<times> json_dict) option" where
  "single_active_definition policy_pack_id c =
     (case active_entries policy_pack_id c of
        [] \<Rightarrow> Inr None
      | [entry] \<Rightarrow> Inr (Some entry)
      | _ \<Rightarrow> Inl (ProposalValidationError ''POLICY_PACK_ACTIVE_VERSION_CONFLICT''))"

definition validate_policy_pack_version ::
  "(string \<Rightarrow> string) \<Rightarrow> string \<Rightarrow> string \<Rightarrow> string \<Rightarrow> string option \<Rightarrow> json_dict \<Rightarrow> timestamp \<Rightarrow>
   policy_catalog \<Rightarrow> proposal_error + policy_catalog \<times> validation_response" where
  "validate_policy_pack_version sha policy_pack_id policy_version requested_by raw_key reason now
     c =
     rbind (require_proposal_idempotency_key raw_key) (\<lambda>idempotency_key.
       rbind (load_definition policy_pack_id policy_version c) (\<lambda>defn.
         validate_policy_pack_catalog_definition sha defn policy_pack_id policy_version
           requested_by idempotency_key reason now c))"

definition activate_policy_pack_version ::
  "(string \<Rightarrow> string) \<Rightarrow> string \<Rightarrow> string \<Rightarrow> string \<Rightarrow> string \<Rightarrow> string option \<Rightarrow> json_dict \<Rightarrow>
   timestamp \<Rightarrow> policy_catalog \<Rightarrow> proposal_error + policy_catalog \<times> activation_response" where
  "activate_policy_pack_version sha policy_pack_id policy_version activated_by source_content_hash
     raw_key reason now c =
     rbind (require_proposal_idempotency_key raw_key) (\<lambda>idempotency_key.
       rbind (load_definition policy_pack_id policy_version c) (\<lambda>defn.
         rbind (single_active_definition policy_pack_id c) (\<lambda>active.
           let other = (case active of
                          Some (key, active_defn) \<Rightarrow>
                            if key \<noteq> (policy_pack_id, policy_version)
                            then Some (key, active_defn) else None
                        | None \<Rightarrow> None);
               previous = map_option (\<lambda>(key, d). py_str (obj_get d ''policy_version'')) other
           in rbind (activate_policy_pack_catalog_definition sha defn policy_pack_id policy_version
                       activated_by source_content_hash idempotency_key reason previous now c)
                (\<lambda>(c1, response).
                   Inr (case other of
                          Some (key, active_defn) \<Rightarrow>
                            if ar_replayed response then c1
                            else set_activation_state key ''SUPERSEDED'' c1
                        | None \<Rightarrow> c1, response)))))"

text \<open>\<open>sorted\<close> by the pair of identifier and version.\<close>

definition list_policy_pack_versions :: "policy_catalog \<Rightarrow> policy_pack_summary list" where
  "list_policy_pack_versions c =
     map summary_from_definition
       (sort_key (\<lambda>d. py_str (obj_get d ''policy_pack_id''))
         (sort_key (\<lambda>d. py_str (obj_get d ''policy_version'')) (dict_values (pc_definitions c))))"

record policy_pack_detail =
  pd_policy_pack :: policy_pack_summary
  pd_applicability :: json_dict
  pd_source_requirements :: "json list"
  pd_rules :: "json_dict list"
  pd_disclosure_templates :: "json list"
  pd_consent_templates :: "json list"
  pd_approval_routes :: "json list"
  pd_sample_fixture_refs :: "json list"
  pd_supportability :: json_dict
  pd_audit_events :: "policy_pack_event list"

definition build_policy_pack_detail_response ::
  "json_dict \<Rightarrow> policy_catalog \<Rightarrow> policy_pack_detail" where
  "build_policy_pack_detail_response defn c =
     \<lparr>pd_policy_pack = summary_from_definition defn,
      pd_applicability = dict_at defn ''applicability'',
      pd_source_requirements = list_at defn ''source_requirements'',
      pd_rules = dict_items (list_at defn ''rules''),
      pd_disclosure_templates = list_at defn ''disclosure_templates'',
      pd_consent_templates = list_at defn ''consent_templates'',
      pd_approval_routes = list_at defn ''approval_routes'',
      pd_sample_fixture_refs = list_at defn ''sample_fixture_refs'',
      pd_supportability =
        dict_set ''activation_lifecycle'' (JStr ''SUPPORTED_BY_RFC0025_SLICE5'')
          policy_runtime_supportability,
      pd_audit_events = dict_list (pc_events c) (definition_key defn)\<rparr>"

definition get_policy_pack_version ::
  "string \<Rightarrow> string \<Rightarrow> policy_catalog \<Rightarrow> proposal_error + policy_pack_detail" where
  "get_policy_pack_version policy_pack_id policy_version c =
     rbind (load_definition policy_pack_id policy_version c) (\<lambda>defn.
       Inr (build_policy_pack_detail_response defn c))"

definition list_policy_pack_events ::
  "string \<Rightarrow> string \<Rightarrow> policy_catalog \<Rightarrow> proposal_error + policy_pack_event list" where
  "list_policy_pack_events policy_pack_id policy_version c =
     rbind (load_definition policy_pack_id policy_version c) (\<lambda>_.
       Inr (dict_list (pc_events c) (policy_pack_id, policy_version)))"

definition reset_catalog :: "(string \<Rightarrow> string) \<Rightarrow> json_dict list \<Rightarrow> policy_catalog" where
  "reset_catalog sha source_definitions =
     (let definitions =
        fold (\<lambda>d. dict_set (definition_key d) (prepare_definition sha d)) source_definitions []
      in \<lparr>pc_definitions = definitions, pc_events = map (\<lambda>(key, d). (key, [])) definitions,
          pc_idempotency = []\<rparr>)"

section \<open>The reference packs\<close>

definition jstrs :: "string list \<Rightarrow> json" where
  "jstrs xs = JArr (map JStr xs)"

definition global_private_banking_baseline :: json_dict where
  "global_private_banking_baseline =
     [(''policy_pack_id'', JStr ''GLOBAL_PRIVATE_BANKING_BASELINE''),
      (''policy_version'', JStr ''2026.05''),
      (''policy_family'', JStr ''GLOBAL_PRIVATE_BANKING''),
      (''display_name'', JStr ''Global Private Banking Baseline''),
      (''jurisdiction_scope'', jstrs [''GLOBAL'']),
      (''booking_center_code_scope'', jstrs [''GLOBAL'']),
      (''legal_entity_scope'', jstrs [''REFERENCE'']),
      (''client_segment_scope'', jstrs [''PRIVATE_BANKING'']),
      (''product_scope'', jstrs [''MULTI_ASSET'']),
      (''effective_from'', JStr ''2026-05-01''), (''effective_to'', JStr ''3999-12-31''),
      (''activation_state'', JStr ''ACTIVE''),
      (''owner_role'', JStr ''ADVISORY_POLICY_STEWARD''),
      (''maker_checker_required'', JBool False),
      (''schema_version'', JStr POLICY_CATALOG_CONTRACT_VERSION),
      (''applicability'',
       JObj [(''jurisdiction_scope'', jstrs [''GLOBAL'']),
             (''booking_center_code_scope'', jstrs [''GLOBAL'']),
             (''legal_entity_scope'', jstrs [''REFERENCE'']),
             (''client_segment_scope'', jstrs [''PRIVATE_BANKING'']),
             (''product_scope'', jstrs [''MULTI_ASSET''])]),
      (''source_requirements'',
       jstrs [''client_classification'', ''mandate_objectives'', ''mandate_restrictions'',
              ''holdings_cash_market_data'', ''product_eligibility'', ''risk_policy_metrics'']),
      (''rules'',
       JArr
         [JObj [(''rule_id'', JStr ''GLOBAL_SOURCE_READINESS_REQUIRED''),
                (''severity'', JStr ''BLOCKING''),
                (''required_evidence_fields'',
                 jstrs [''policy_source_readiness.overall_posture'',
                        ''policy_source_readiness.source_authority'']),
                (''source_gap_handling'', JStr ''PENDING_REVIEW_OR_BLOCKED''),
                (''outcome_mapping'',
                 JStr ''NO_POSITIVE_POLICY_OUTCOME_WITH_MISSING_SOURCE_EVIDENCE'')],
          JObj [(''rule_id'', JStr ''GLOBAL_MANDATE_RESTRICTIONS_REVIEW''),
                (''severity'', JStr ''REVIEW_REQUIRED''),
                (''required_evidence_fields'', jstrs [''core_mandate_objectives_restrictions'']),
                (''source_gap_handling'', JStr ''PENDING_REVIEW_OR_BLOCKED''),
                (''outcome_mapping'', JStr ''MANDATE_RESTRICTIONS_REQUIRE_ADVISOR_REVIEW'')]]),
      (''disclosure_templates'', JArr []), (''consent_templates'', JArr []),
      (''approval_routes'',
       JArr [JObj [(''route_id'', JStr ''ADVISOR_REVIEW''), (''owner_role'', JStr ''ADVISOR''),
                   (''review_sla'', JStr ''P2D'')]]),
      (''sample_fixture_refs'',
       jstrs [''PB_SG_GLOBAL_BAL_001'',
              ''fixtures/policy-packs/global-private-banking-baseline.json''])]"

definition sg_private_banking_rules :: "json_dict list" where
  "sg_private_banking_rules =
     [[(''rule_id'', JStr ''SG_AI_PRODUCT_ELIGIBILITY_REVIEW''), (''severity'', JStr ''BLOCKING''),
       (''required_evidence_fields'',
        jstrs [''core_product_eligibility_target_market_complexity'',
               ''core_client_profile_classification'']),
       (''source_gap_handling'', JStr ''BLOCKED''),
       (''outcome_mapping'', JStr ''ELIGIBILITY_REVIEW_REQUIRED'')],
      [(''rule_id'', JStr ''SG_COMPLEX_PRODUCT_DISCLOSURE_REVIEW''),
       (''severity'', JStr ''REVIEW_REQUIRED''),
       (''required_evidence_fields'',
        jstrs [''private_asset_or_structured_product_flag'', ''risk_policy_metrics'']),
       (''source_gap_handling'', JStr ''PENDING_REVIEW''),
       (''outcome_mapping'', JStr ''DISCLOSURE_AND_CONSENT_REVIEW_REQUIRED'')],
      [(''rule_id'', JStr ''SG_BEST_INTEREST_COST_REVIEW''), (''severity'', JStr ''REVIEW_REQUIRED''),
       (''required_evidence_fields'', jstrs [''fee_cost_tax_friction_evidence'']),
       (''source_gap_handling'', JStr ''PENDING_REVIEW''),
       (''outcome_mapping'', JStr ''BEST_INTEREST_COST_REASONABLENESS_REVIEW_REQUIRED'')],
      [(''rule_id'', JStr ''SG_CONFLICT_REVIEW''), (''severity'', JStr ''REVIEW_REQUIRED''),
       (''required_evidence_fields'', jstrs [''conflict_evidence'', ''product_document_evidence'']),
       (''source_gap_handling'', JStr ''PENDING_REVIEW''),
       (''outcome_mapping'', JStr ''CONFLICT_AND_DISCLOSURE_REVIEW_REQUIRED'')]]"

definition sg_private_banking_reference :: json_dict where
  "sg_private_banking_reference =
     [(''policy_pack_id'', JStr ''SG_PRIVATE_BANKING_REFERENCE''),
      (''policy_version'', JStr ''2026.05''), (''policy_family'', JStr ''SG_PRIVATE_BANKING''),
      (''display_name'', JStr ''Singapore Private Banking Reference''),
      (''jurisdiction_scope'', jstrs [''SG'']), (''booking_center_code_scope'', jstrs [''SG'']),
      (''legal_entity_scope'', jstrs [''REFERENCE'']),
      (''client_segment_scope'', jstrs [''ACCREDITED_INVESTOR'', ''PRIVATE_BANKING'']),
      (''product_scope'', jstrs [''MULTI_ASSET'', ''STRUCTURED_PRODUCT'', ''PRIVATE_ASSET'']),
      (''effective_from'', JStr ''2026-05-01''), (''effective_to'', JStr ''3999-12-31''),
      (''activation_state'', JStr ''DRAFT''),
      (''owner_role'', JStr ''ADVISORY_POLICY_STEWARD''),
      (''maker_checker_required'', JBool True),
      (''schema_version'', JStr POLICY_CATALOG_CONTRACT_VERSION),
      (''applicability'',
       JObj [(''jurisdiction_scope'', jstrs [''SG'']),
             (''booking_center_code_scope'', jstrs [''SG'']),
             (''legal_entity_scope'', jstrs [''REFERENCE'']),
             (''client_segment_scope'', jstrs [''ACCREDITED_INVESTOR'', ''PRIVATE_BANKING'']),
             (''product_scope'',
              jstrs [''MULTI_ASSET'', ''STRUCTURED_PRODUCT'', ''PRIVATE_ASSET''])]),
      (''source_requirements'',
       jstrs [''household_id'', ''account_id'', ''mandate_id'', ''client_classification'',
              ''product_eligibility'', ''target_market'', ''product_complexity'',
              ''risk_policy_metrics'']),
      (''rules'', JArr (map JObj sg_private_banking_rules)),
      (''disclosure_templates'',
       JArr [JObj [(''template_id'', JStr ''SG_COMPLEX_PRODUCT_DISCLOSURE''),
                   (''template_version'', JStr ''2026.05''),
                   (''audience'', JStr ''INTERNAL_REVIEW'')]]),
      (''consent_templates'',
       JArr [JObj [(''template_id'', JStr ''SG_COMPLEX_PRODUCT_CONSENT''),
                   (''template_version'', JStr ''2026.05''),
                   (''audience'', JStr ''INTERNAL_REVIEW'')]]),
      (''approval_routes'',
       JArr [JObj [(''route_id'', JStr ''INVESTMENT_COUNSELLOR_REVIEW''),
                   (''owner_role'', JStr ''INVESTMENT_COUNSELLOR''),
                   (''review_sla'', JStr ''P1D'')],
             JObj [(''route_id'', JStr ''SUPERVISORY_REVIEW''),
                   (''owner_role'', JStr ''SUPERVISOR''), (''review_sla'', JStr ''P2D'')]]),
      (''sample_fixture_refs'',
       jstrs [''PB_SG_GLOBAL_BAL_001'',
              ''fixtures/policy-packs/sg-private-banking-reference.json''])]"

definition reference_policy_packs :: "json_dict list" where
  "reference_policy_packs = [global_private_banking_baseline, sg_private_banking_reference]"

section \<open>The catalog as a system\<close>

datatype catalog_command =
    ValidatePack string string string "string option" json_dict timestamp
  | ActivatePack string string string string "string option" json_dict timestamp

text \<open>A command that raises leaves the store as it is.\<close>

fun run_catalog_command ::
  "(string \<Rightarrow> string) \<Rightarrow> policy_catalog \<Rightarrow> catalog_command \<Rightarrow>
   policy_catalog \<times> proposal_error option" where
  "run_catalog_command sha c (ValidatePack pid version actor raw_key reason now) =
     (case validate_policy_pack_version sha pid version actor raw_key reason now c of
        Inl e \<Rightarrow> (c, Some e)
      | Inr (c1, response) \<Rightarrow> (c1, None))"
| "run_catalog_command sha c (ActivatePack pid version actor content_hash raw_key reason now) =
     (case activate_policy_pack_version sha pid version actor content_hash raw_key reason now c of
        Inl e \<Rightarrow> (c, Some e)
      | Inr (c1, response) \<Rightarrow> (c1, None))"

end
