(* ===== verification/Policy_Evaluation.thy ===== *)
theory Policy_Evaluation
  imports Policy_Rules Policy_Catalog
begin

text \<open>
  The evaluation of a policy pack against an evidence bundle
  (src/core/policy_packs/evaluation.py, evaluation_rules.py, evaluation_applicability.py,
  evaluation_product_rules.py, evaluation_review_rules.py, evaluation_conflict_disclosure.py).
\<close>

section \<open>Product rules\<close>

definition product_eligibility_issue ::
  "string \<Rightarrow> string \<Rightarrow> string \<times> json_dict option \<Rightarrow>
   string list \<times> string list \<times> string list \<Rightarrow> string list \<times> string list \<times> string list" where
  "product_eligibility_issue jurisdiction client_segment row issues =
     (let (instrument_id, shelf) = row; (missing, reasons, blocked) = issues in
      case shelf of
        None \<Rightarrow>
          (missing @ [''shelf_entry:'' @ instrument_id],
           reasons @ [''PRODUCT_SHELF_ENTRY_MISSING_FOR_PROPOSED_TRADE''],
           blocked @ [instrument_id])
      | Some entry \<Rightarrow>
          (let r1 = (if jurisdiction_allowed entry jurisdiction then []
                     else [''PRODUCT_NOT_ELIGIBLE_FOR_JURISDICTION'']);
               r2 = (if client_segment_allowed entry client_segment then []
                     else [''PRODUCT_NOT_IN_TARGET_MARKET_FOR_CLIENT_SEGMENT''])
           in (missing, reasons @ r1 @ r2,
               blocked @ map (\<lambda>_. instrument_id) (r1 @ r2))))"

definition product_eligibility_issues ::
  "json_dict \<Rightarrow> string \<Rightarrow> string \<Rightarrow> string list \<times> string list \<times> string list" where
  "product_eligibility_issues evidence_bundle jurisdiction client_segment =
     fold (product_eligibility_issue jurisdiction client_segment)
       (proposed_shelf_rows evidence_bundle) ([], [], [])"

definition product_eligibility_required_actions :: "string list \<Rightarrow> string list" where
  "product_eligibility_required_actions blocked_instruments =
     map (\<lambda>instrument_id. ''REVIEW_PRODUCT_ELIGIBILITY:'' @ instrument_id)
       (unique_strings blocked_instruments)"

definition PRODUCT_COMPLEXITY_SOURCE_REF :: string where
  "PRODUCT_COMPLEXITY_SOURCE_REF = ''lotus-core:core_product_eligibility_target_market_complexity''"

definition PRODUCT_SHELF_EVIDENCE_REF :: json where
  "PRODUCT_SHELF_EVIDENCE_REF = JStr ''evidence_bundle.inputs.shelf_entries''"

definition PROPOSED_TRADES_EVIDENCE_REF :: json where
  "PROPOSED_TRADES_EVIDENCE_REF = JStr ''evidence_bundle.inputs.proposed_trades''"

definition evaluate_sg_product_eligibility ::
  "json_dict \<Rightarrow> json_dict \<Rightarrow> string \<Rightarrow> string \<Rightarrow> proposal_error + policy_rule_result" where
  "evaluate_sg_product_eligibility rule evidence_bundle jurisdiction client_segment =
     (let (missing, reasons, blocked_instruments) =
        product_eligibility_issues evidence_bundle jurisdiction client_segment
      in if blocked_instruments \<noteq> []
         then rule_blocked rule ''ELIGIBILITY_REVIEW_REQUIRED'' (unique_strings missing)
                (unique_strings reasons) (product_eligibility_required_actions blocked_instruments)
         else rule_ready rule ''PRODUCT_ELIGIBILITY_AND_TARGET_MARKET_EVIDENCE_READY''
                [PRODUCT_SHELF_EVIDENCE_REF, PROPOSED_TRADES_EVIDENCE_REF]
                [PRODUCT_COMPLEXITY_SOURCE_REF])"

definition complex_disclosure_instrument_ids :: "json_dict \<Rightarrow> string list" where
  "complex_disclosure_instrument_ids evidence_bundle =
     map fst (filter (\<lambda>(instrument_id, shelf). case shelf of
                          None \<Rightarrow> False | Some entry \<Rightarrow> is_complex_or_private_product entry)
                (proposed_shelf_rows evidence_bundle))"

definition complex_disclosure_missing_evidence :: "string list \<Rightarrow> string list" where
  "complex_disclosure_missing_evidence instrument_ids =
     map (\<lambda>i. ''advisor_reviewed_disclosure:'' @ i) instrument_ids @
     map (\<lambda>i. ''client_consent:'' @ i) instrument_ids"

definition complex_disclosure_required_actions :: "string list \<Rightarrow> string list" where
  "complex_disclosure_required_actions instrument_ids =
     map (\<lambda>i. ''REVIEW_DISCLOSURE:'' @ i) instrument_ids @
     map (\<lambda>i. ''CAPTURE_CLIENT_CONSENT:'' @ i) instrument_ids"

definition evaluate_sg_complex_product_disclosure ::
  "json_dict \<Rightarrow> json_dict \<Rightarrow> proposal_error + policy_rule_result" where
  "evaluate_sg_complex_product_disclosure rule evidence_bundle =
     (let complex_instruments = complex_disclosure_instrument_ids evidence_bundle in
      if complex_instruments = []
      then rule_ready rule ''NO_COMPLEX_PRODUCT_DISCLOSURE_TRIGGER'' [PRODUCT_SHELF_EVIDENCE_REF]
             [PRODUCT_COMPLEXITY_SOURCE_REF]
      else rule_pending rule ''DISCLOSURE_AND_CONSENT_REVIEW_REQUIRED''
             (complex_disclosure_missing_evidence complex_instruments)
             [''COMPLEX_PRODUCT_DISCLOSURE_AND_CONSENT_REQUIRED'']
             (complex_disclosure_required_actions complex_instruments)
             [PRODUCT_SHELF_EVIDENCE_REF] [PRODUCT_COMPLEXITY_SOURCE_REF])"

section \<open>Costs, conflicts and documents\<close>

text \<open>A section of the artifact, or of the bundle when it carries no artifact.\<close>

definition artifact_section :: "json_dict \<Rightarrow> string \<Rightarrow> json_dict" where
  "artifact_section evidence_bundle section_key =
     (let artifact = dict_at evidence_bundle ''artifact''
      in if artifact \<noteq> [] then dict_at artifact section_key else dict_at evidence_bundle section_key)"

definition evaluate_best_interest_cost ::
  "json_dict \<Rightarrow> json_dict \<Rightarrow> proposal_error + policy_rule_result" where
  "evaluate_best_interest_cost rule evidence_bundle =
     (let assumptions = artifact_section evidence_bundle ''assumptions_and_limits'';
          included = (\<lambda>key. json_truthy (obj_get (dict_at assumptions key) ''included''));
          missing =
            (if included ''costs_and_fees'' then [] else [''fee_evidence'', ''cost_evidence'']) @
            (if included ''tax'' then [] else [''tax_evidence'']) @
            (if included ''execution'' then [] else [''execution_friction_evidence''])
      in if missing \<noteq> []
         then rule_pending rule ''BEST_INTEREST_COST_REASONABLENESS_REVIEW_REQUIRED''
                (unique_strings missing) [''BEST_INTEREST_COST_TAX_FRICTION_EVIDENCE_NOT_MODELED'']
                [''REVIEW_COST_TAX_AND_EXECUTION_FRICTION''] [] []
         else rule_ready rule ''BEST_INTEREST_COST_TAX_AND_FRICTION_EVIDENCE_READY_FOR_REVIEW''
                [JStr ''artifact.assumptions_and_limits'']
                [''lotus-advise:proposal_artifact_assumptions''])"

definition missing_product_documents :: "json_dict \<Rightarrow> string list" where
  "missing_product_documents evidence_bundle =
     (let disclosures = artifact_section evidence_bundle ''disclosures'';
          documented = map (\<lambda>row. py_str (obj_get row ''instrument_id''))
            (with_instrument_id (list_at disclosures ''product_docs''))
      in sorted_set (filter (\<lambda>i. i \<notin> set documented)
           (dict_keys (proposed_shelf_rows evidence_bundle))))"

definition material_conflict_present :: "json_dict \<Rightarrow> bool" where
  "material_conflict_present conflict_evidence \<longleftrightarrow>
     obj_get conflict_evidence ''material_conflict'' = JBool True"

definition conflict_disclosure_findings ::
  "json_dict \<Rightarrow> string list \<Rightarrow> string list \<times> string list \<times> string list" where
  "conflict_disclosure_findings conflict_evidence missing_docs =
     ((if conflict_evidence = [] then [''conflict_evidence''] else []) @
      map (\<lambda>i. ''product_document:'' @ i) missing_docs,
      (if conflict_evidence = [] then [''CONFLICT_EVIDENCE_NOT_PROVIDED''] else []) @
      (if material_conflict_present conflict_evidence
       then [''MATERIAL_CONFLICT_REQUIRES_SUPERVISORY_REVIEW''] else []) @
      (if missing_docs = [] then []
       else [''PRODUCT_DOCUMENTATION_INCOMPLETE_FOR_PROPOSED_TRADES'']),
      (if conflict_evidence = [] then [''REVIEW_CONFLICT_OF_INTEREST''] else []) @
      (if material_conflict_present conflict_evidence then [''SUPERVISORY_CONFLICT_REVIEW'']
       else []) @
      map (\<lambda>i. ''REVIEW_PRODUCT_DOCUMENT:'' @ i) missing_docs)"

definition evaluate_conflict_disclosure_review ::
  "json_dict \<Rightarrow> json_dict \<Rightarrow> proposal_error + policy_rule_result" where
  "evaluate_conflict_disclosure_review rule evidence_bundle =
     (let conflict_evidence = dict_at evidence_bundle ''conflict_evidence'';
          (missing, reasons, required_actions) =
            conflict_disclosure_findings conflict_evidence (missing_product_documents evidence_bundle)
      in if material_conflict_present conflict_evidence
         then rule_blocked rule ''CONFLICT_AND_DISCLOSURE_REVIEW_REQUIRED'' (unique_strings missing)
                (unique_strings reasons) (unique_strings required_actions)
         else if missing \<noteq> []
         then rule_pending rule ''CONFLICT_AND_DISCLOSURE_REVIEW_REQUIRED'' (unique_strings missing)
                (unique_strings reasons) (unique_strings required_actions)
                [JStr ''artifact.disclosures.product_docs'']
                [''lotus-advise:proposal_artifact_disclosures'']
         else rule_ready rule ''CONFLICT_AND_PRODUCT_DOCUMENT_EVIDENCE_READY_FOR_REVIEW''
                [JStr ''artifact.disclosures.product_docs'', JStr ''evidence_bundle.conflict_evidence'']
                [''lotus-advise:proposal_artifact_disclosures'',
                 ''lotus-advise:conflict_evidence''])"

section \<open>The rule table\<close>

type_synonym rule_evaluator =
  "json_dict \<Rightarrow> json_dict \<Rightarrow> json_dict \<Rightarrow> string \<Rightarrow> string \<Rightarrow> proposal_error + policy_rule_result"

definition SPECIALIZED_RULE_EVALUATORS :: "(string, rule_evaluator) dict" where
  "SPECIALIZED_RULE_EVALUATORS =
     [(''GLOBAL_SOURCE_READINESS_REQUIRED'',
       \<lambda>rule bundle posture jurisdiction segment.
         rule_ready rule ''SOURCE_EVIDENCE_READY_FOR_POLICY_REVIEW'' [] []),
      (''GLOBAL_MANDATE_RESTRICTIONS_REVIEW'',
       \<lambda>rule bundle posture jurisdiction segment. evaluate_mandate_rule rule posture),
      (''SG_AI_PRODUCT_ELIGIBILITY_REVIEW'',
       \<lambda>rule bundle posture jurisdiction segment.
         evaluate_sg_product_eligibility rule bundle jurisdiction segment),
      (''SG_COMPLEX_PRODUCT_DISCLOSURE_REVIEW'',
       \<lambda>rule bundle posture jurisdiction segment.
         evaluate_sg_complex_product_disclosure rule bundle),
      (''SG_BEST_INTEREST_COST_REVIEW'',
       \<lambda>rule bundle posture jurisdiction segment. evaluate_best_interest_cost rule bundle),
      (''SG_CONFLICT_REVIEW'',
       \<lambda>rule bundle posture jurisdiction segment.
         evaluate_conflict_disclosure_review rule bundle)]"

definition evaluate_policy_rule ::
  "json_dict \<Rightarrow> json_dict \<Rightarrow> json_dict \<Rightarrow> string \<Rightarrow> string \<Rightarrow>
   proposal_error + policy_rule_result" where
  "evaluate_policy_rule rule evidence_bundle source_posture jurisdiction client_segment =
     (case dict_get rule ''rule_id'' of
        None \<Rightarrow> Inl (PyException ''KeyError'' ''rule_id'')
      | Some rule_id \<Rightarrow>
          rbind (required_source_result rule source_posture) (\<lambda>required.
            case required of
              Some result \<Rightarrow> Inr result
            | None \<Rightarrow>
                (case dict_get SPECIALIZED_RULE_EVALUATORS (py_str rule_id) of
                   Some evaluator \<Rightarrow>
                     evaluator rule evidence_bundle source_posture jurisdiction client_segment
                 | None \<Rightarrow>
                     rule_pending rule
                       (py_str (json_or (obj_get rule ''outcome_mapping'')
                          (JStr ''POLICY_RULE_REVIEW_REQUIRED'')))
                       [] [''POLICY_RULE_EVALUATOR_NOT_SPECIALIZED''] [''POLICY_STEWARD_REVIEW'']
                       [] [])))"

section \<open>Applicability\<close>

datatype applicability_status = Applicable | NotApplicable | ApplicabilityBlocked

record applicability_result =
  pa_status :: applicability_status
  pa_matched_selectors :: "(string, string) dict"
  pa_missing_evidence :: "string list"
  pa_reason_codes :: "string list"

record applicability_context =
  ac_jurisdiction :: string
  ac_booking_location_code :: string
  ac_legal_entity_code :: string
  ac_client_segment :: string
  ac_product_scopes :: "string list"

definition matched_selectors :: "applicability_context \<Rightarrow> (string, string) dict" where
  "matched_selectors context =
     [(''jurisdiction'', ac_jurisdiction context), (''client_segment'', ac_client_segment context)] @
     (if ac_booking_location_code context = [] then []
      else [(''booking_center_code'', ac_booking_location_code context)]) @
     (if ac_legal_entity_code context = [] then []
      else [(''legal_entity_code'', ac_legal_entity_code context)]) @
     (if ac_product_scopes context = [] then []
      else [(''product_scope'', join_with ''|'' (ac_product_scopes context))])"

definition normalized_selector :: "json \<Rightarrow> string" where
  "normalized_selector value =
     (if value \<noteq> JNull \<and> py_strip (py_str value) \<noteq> [] then upper_str (py_strip (py_str value))
      else [])"

definition bundle_product_scopes :: "json_dict \<Rightarrow> string list" where
  "bundle_product_scopes evidence_bundle =
     sorted_set (concat (map (\<lambda>(instrument_id, shelf). case shelf of
         None \<Rightarrow> [] | Some entry \<Rightarrow> policy_product_scopes entry)
       (proposed_shelf_rows evidence_bundle)))"

definition applicability_context_of :: "json_dict \<Rightarrow> applicability_context" where
  "applicability_context_of evidence_bundle =
     (let context =
        dict_at (dict_at evidence_bundle ''context_resolution'') ''advisory_policy_context''
      in \<lparr>ac_jurisdiction = normalized_selector (obj_get context ''jurisdiction''),
          ac_booking_location_code = normalized_selector (obj_get context ''booking_center_code''),
          ac_legal_entity_code = normalized_selector (obj_get context ''legal_entity_code''),
          ac_client_segment = normalized_selector (obj_get context ''client_classification''),
          ac_product_scopes = bundle_product_scopes evidence_bundle\<rparr>)"

definition requires_selector :: "json_dict \<Rightarrow> string \<Rightarrow> bool" where
  "requires_selector applicability scope_key =
     (let scope = str_items (list_at applicability scope_key)
      in scope \<noteq> [] \<and> ''GLOBAL'' \<notin> set scope)"

text \<open>The scope key, the evidence key, and whether the context has a value for it.\<close>

definition selector_requirements :: "applicability_context \<Rightarrow> (string \<times> string \<times> bool) list" where
  "selector_requirements context =
     [(''jurisdiction_scope'', ''jurisdiction'', ac_jurisdiction context \<noteq> []),
      (''booking_center_code_scope'', ''booking_center_code'',
       ac_booking_location_code context \<noteq> []),
      (''legal_entity_scope'', ''legal_entity_code'', ac_legal_entity_code context \<noteq> []),
      (''client_segment_scope'', ''client_classification'', ac_client_segment context \<noteq> []),
      (''product_scope'', ''product_scope'', ac_product_scopes context \<noteq> [])]"

definition missing_applicability_evidence ::
  "applicability_context \<Rightarrow> json_dict \<Rightarrow> string list" where
  "missing_applicability_evidence context applicability =
     map (\<lambda>(scope_key, evidence_key, present). evidence_key)
       (filter (\<lambda>(scope_key, evidence_key, present).
          requires_selector applicability scope_key \<and> \<not> present) (selector_requirements context))"

definition MISSING_REASON_CODES :: "(string, string) dict" where
  "MISSING_REASON_CODES =
     [(''jurisdiction'', ''POLICY_APPLICABILITY_JURISDICTION_SOURCE_MISSING''),
      (''booking_center_code'', ''POLICY_APPLICABILITY_BOOKING_LOCATION_SOURCE_MISSING''),
      (''legal_entity_code'', ''POLICY_APPLICABILITY_LEGAL_ENTITY_SOURCE_MISSING''),
      (''client_classification'', ''POLICY_APPLICABILITY_CLIENT_SEGMENT_SOURCE_MISSING''),
      (''product_scope'', ''POLICY_APPLICABILITY_PRODUCT_SCOPE_SOURCE_MISSING'')]"

definition missing_reason_codes :: "string list \<Rightarrow> string list" where
  "missing_reason_codes missing =
     [''POLICY_APPLICABILITY_SOURCE_EVIDENCE_MISSING''] @
     List.map_filter (dict_get MISSING_REASON_CODES) missing"

definition not_applicable_result :: "(string, string) dict \<Rightarrow> string \<Rightarrow> applicability_result" where
  "not_applicable_result selectors reason_code =
     \<lparr>pa_status = NotApplicable,
      pa_matched_selectors = filter (\<lambda>(key, value). value \<noteq> []) selectors,
      pa_missing_evidence = [], pa_reason_codes = [reason_code]\<rparr>"

definition matches_scope :: "string \<Rightarrow> json list \<Rightarrow> bool" where
  "matches_scope value scope \<longleftrightarrow>
     ''GLOBAL'' \<in> set (str_items scope) \<or> value \<in> set (str_items scope)"

definition client_segment_matches_scope :: "string \<Rightarrow> json list \<Rightarrow> bool" where
  "client_segment_matches_scope value scope \<longleftrightarrow>
     ''GLOBAL'' \<in> set (str_items scope) \<or> value \<in> set (str_items scope) \<or>
     (''PRIVATE_BANKING'' \<in> set (str_items scope) \<and>
      value \<in> {''ACCREDITED_INVESTOR'', ''PRIVATE_BANKING''})"

definition product_scope_matches_scope :: "string list \<Rightarrow> json list \<Rightarrow> bool" where
  "product_scope_matches_scope product_scopes scope \<longleftrightarrow>
     ''GLOBAL'' \<in> set (str_items scope) \<or> set product_scopes \<inter> set (str_items scope) \<noteq> {}"

definition evaluate_policy_pack_applicability ::
  "json_dict \<Rightarrow> json_dict \<Rightarrow> applicability_result" where
  "evaluate_policy_pack_applicability evidence_bundle applicability =
     (let context = applicability_context_of evidence_bundle;
          missing = missing_applicability_evidence context applicability
      in if missing \<noteq> []
         then \<lparr>pa_status = ApplicabilityBlocked, pa_matched_selectors = [],
               pa_missing_evidence = missing, pa_reason_codes = missing_reason_codes missing\<rparr>
         else if \<not> matches_scope (ac_jurisdiction context)
                    (list_at applicability ''jurisdiction_scope'')
         then not_applicable_result [(''jurisdiction'', ac_jurisdiction context)]
                ''POLICY_PACK_JURISDICTION_NOT_APPLICABLE''
         else if ac_booking_location_code context \<noteq> [] \<and>
                 \<not> matches_scope (ac_booking_location_code context)
                     (list_at applicability ''booking_center_code_scope'')
         then not_applicable_result (matched_selectors context)
                ''POLICY_PACK_BOOKING_LOCATION_NOT_APPLICABLE''
         else if ac_legal_entity_code context \<noteq> [] \<and>
                 \<not> matches_scope (ac_legal_entity_code context)
                     (list_at applicability ''legal_entity_scope'')
         then not_applicable_result (matched_selectors context)
                ''POLICY_PACK_LEGAL_ENTITY_NOT_APPLICABLE''
         else if \<not> client_segment_matches_scope (ac_client_segment context)
                    (list_at applicability ''client_segment_scope'')
         then not_applicable_result (matched_selectors context)
                ''POLICY_PACK_CLIENT_SEGMENT_NOT_APPLICABLE''
         else if \<not> product_scope_matches_scope (ac_product_scopes context)
                    (list_at applicability ''product_scope'')
         then not_applicable_result (matched_selectors context)
                ''POLICY_PACK_PRODUCT_SCOPE_NOT_APPLICABLE''
         else \<lparr>pa_status = Applicable, pa_matched_selectors = matched_selectors context,
               pa_missing_evidence = [],
               pa_reason_codes = [''POLICY_PACK_APPLIES_TO_PROPOSAL_CONTEXT'']\<rparr>)"

section \<open>The evaluation\<close>

record policy_evaluation =
  pev_contract_version :: string
  pev_policy_pack :: policy_pack_summary
  pev_evaluation_status :: policy_status
  pev_applicability :: applicability_result
  pev_source_posture :: json_dict
  pev_rule_results :: "policy_rule_result list"
  pev_supportability :: json_dict

text \<open>A status that is none of the declared ones fails the validation of the response model.\<close>

definition policy_status_of :: "string \<Rightarrow> proposal_error + policy_status" where
  "policy_status_of name =
     (case find (\<lambda>s. policy_status_name s = name)
             [PolicyReady, PolicyPending, PolicyBlocked, PolicyNotApplicable] of
        Some s \<Rightarrow> Inr s
      | None \<Rightarrow> Inl (PyException ''ValidationError'' ''Input should be READY, PENDING_REVIEW, BLOCKED or NOT_APPLICABLE''))"

definition aggregate_status :: "policy_rule_result list \<Rightarrow> string" where
  "aggregate_status results =
     overall_posture (map (\<lambda>r. [(''status'', JStr (policy_status_name (prr_status r)))]) results)"

definition source_posture_of :: "json_dict \<Rightarrow> json_dict" where
  "source_posture_of evidence_bundle =
     (let posture = dict_at evidence_bundle ''policy_source_readiness''
      in if posture \<noteq> [] then posture else build_policy_source_readiness evidence_bundle)"

definition selector_at :: "(string, string) dict \<Rightarrow> string \<Rightarrow> string" where
  "selector_at selectors key = (case dict_get selectors key of None \<Rightarrow> [] | Some v \<Rightarrow> v)"

fun evaluate_policy_rules ::
  "json_dict \<Rightarrow> json_dict \<Rightarrow> string \<Rightarrow> string \<Rightarrow> json_dict list \<Rightarrow>
   proposal_error + policy_rule_result list" where
  "evaluate_policy_rules bundle posture jurisdiction segment [] = Inr []"
| "evaluate_policy_rules bundle posture jurisdiction segment (rule # rules) =
     rbind (evaluate_policy_rule rule bundle posture jurisdiction segment) (\<lambda>result.
       rbind (evaluate_policy_rules bundle posture jurisdiction segment rules) (\<lambda>results.
         Inr (result # results)))"

definition evaluate_policy_pack_detail ::
  "json_dict \<Rightarrow> policy_pack_detail \<Rightarrow> proposal_error + policy_evaluation" where
  "evaluate_policy_pack_detail evidence_bundle detail =
     (let source_posture = source_posture_of evidence_bundle;
          applicability =
            evaluate_policy_pack_applicability evidence_bundle (pd_applicability detail);
          response = (\<lambda>status results.
            \<lparr>pev_contract_version = POLICY_EVALUATION_ENGINE_CONTRACT_VERSION,
             pev_policy_pack = pd_policy_pack detail, pev_evaluation_status = status,
             pev_applicability = applicability, pev_source_posture = source_posture,
             pev_rule_results = results, pev_supportability = policy_runtime_supportability\<rparr>)
      in if pa_status applicability \<noteq> Applicable
         then Inr (response (if pa_status applicability = NotApplicable then PolicyNotApplicable
                             else PolicyBlocked) [])
         else rbind (evaluate_policy_rules evidence_bundle source_posture
                  (selector_at (pa_matched_selectors applicability) ''jurisdiction'')
                  (selector_at (pa_matched_selectors applicability) ''client_segment'')
                  (pd_rules detail)) (\<lambda>results.
                rbind (policy_status_of (aggregate_status results)) (\<lambda>status.
                  Inr (response status results))))"

definition evaluate_policy_pack_version ::
  "json_dict \<Rightarrow> string \<Rightarrow> string \<Rightarrow> policy_catalog \<Rightarrow> proposal_error + policy_evaluation" where
  "evaluate_policy_pack_version evidence_bundle policy_pack_id policy_version catalog =
     rbind (get_policy_pack_version policy_pack_id policy_version catalog) (\<lambda>detail.
       if ps_activation_state (pd_policy_pack detail) \<noteq> ''ACTIVE''
       then Inl (ProposalValidationError ''POLICY_PACK_VERSION_NOT_ACTIVE_FOR_EVALUATION'')
       else evaluate_policy_pack_detail evidence_bundle detail)"

definition evaluate_policy_pack_version_for_replay ::
  "json_dict \<Rightarrow> string \<Rightarrow> string \<Rightarrow> policy_catalog \<Rightarrow> proposal_error + policy_evaluation" where
  "evaluate_policy_pack_version_for_replay evidence_bundle policy_pack_id policy_version catalog =
     rbind (get_policy_pack_version policy_pack_id policy_version catalog) (\<lambda>detail.
       if ps_activation_state (pd_policy_pack detail) \<notin> {''ACTIVE'', ''SUPERSEDED'', ''DISABLED''}
       then Inl (ProposalValidationError ''POLICY_PACK_VERSION_NOT_REPLAY_ELIGIBLE'')
       else evaluate_policy_pack_detail evidence_bundle detail)"

end
