(* ===== verification/Policy_Records.thy ===== *)
theory Policy_Records
  imports Policy_Evaluation
begin

text \<open>
  The finalized record of a policy evaluation (src/core/policy_packs/persistence_models.py,
  persistence_record_builder.py), the identity of its receipt (receipt_identity.py) and the
  authority its audit events need (event_authority.py).

  The calendar is a parameter, the record \<open>calendar\<close>: \<open>date.fromisoformat\<close>,
  \<open>datetime.fromisoformat\<close> (as the date with whether it has an offset, and as the instant, a naive
  text read as UTC) and the date of an instant in a time zone. A date is its ISO text.
\<close>

section \<open>JSON of an evaluation\<close>

definition policy_pack_summary_json :: "policy_pack_summary \<Rightarrow> json" where
  "policy_pack_summary_json s =
     JObj [(''policy_pack_id'', JStr (ps_policy_pack_id s)),
           (''policy_version'', JStr (ps_policy_version s)),
           (''policy_family'', JStr (ps_policy_family s)),
           (''display_name'', JStr (ps_display_name s)),
           (''activation_state'', JStr (ps_activation_state s)),
           (''reference_posture'', JStr (ps_reference_posture s)),
           (''maker_checker_required'', JBool (ps_maker_checker_required s)),
           (''content_hash'', JStr (ps_content_hash s))]"

fun applicability_status_name :: "applicability_status \<Rightarrow> string" where
  "applicability_status_name Applicable = ''APPLICABLE''"
| "applicability_status_name NotApplicable = ''NOT_APPLICABLE''"
| "applicability_status_name ApplicabilityBlocked = ''BLOCKED''"

definition applicability_json :: "applicability_result \<Rightarrow> json" where
  "applicability_json a =
     JObj [(''status'', JStr (applicability_status_name (pa_status a))),
           (''matched_selectors'',
            JObj (map (\<lambda>(k, v). (k, JStr v)) (pa_matched_selectors a))),
           (''missing_evidence'', jstrs (pa_missing_evidence a)),
           (''reason_codes'', jstrs (pa_reason_codes a))]"

definition policy_rule_result_json :: "policy_rule_result \<Rightarrow> json" where
  "policy_rule_result_json r =
     JObj [(''rule_id'', JStr (prr_rule_id r)), (''status'', JStr (policy_status_name (prr_status r))),
           (''severity'', JStr (prr_severity r)), (''outcome'', JStr (prr_outcome r)),
           (''evidence_refs'', jstrs (prr_evidence_refs r)),
           (''source_authority_refs'', jstrs (prr_source_authority_refs r)),
           (''missing_evidence'', jstrs (prr_missing_evidence r)),
           (''reason_codes'', jstrs (prr_reason_codes r)),
           (''required_actions'', jstrs (prr_required_actions r))]"

definition policy_evaluation_json :: "policy_evaluation \<Rightarrow> json_dict" where
  "policy_evaluation_json e =
     [(''contract_version'', JStr (pev_contract_version e)),
      (''policy_pack'', policy_pack_summary_json (pev_policy_pack e)),
      (''evaluation_status'', JStr (policy_status_name (pev_evaluation_status e))),
      (''applicability'', applicability_json (pev_applicability e)),
      (''source_posture'', JObj (pev_source_posture e)),
      (''rule_results'', JArr (map policy_rule_result_json (pev_rule_results e))),
      (''supportability'', JObj (pev_supportability e))]"

section \<open>The identity of a receipt\<close>

record calendar =
  cal_date :: "string \<Rightarrow> string option"
  cal_datetime :: "string \<Rightarrow> (string \<times> bool) option"
  cal_utc_date :: "timestamp \<Rightarrow> string"
  cal_zone_date :: "string \<Rightarrow> timestamp \<Rightarrow> string option"
  cal_instant :: "string \<Rightarrow> timestamp option"

record receipt_scope =
  rs_tenant_scope_hash :: string
  rs_legal_entity_code :: string
  rs_booking_center_code :: "string option"
  rs_service_identity_hash :: string
  rs_proposal_id :: string
  rs_proposal_version_id :: string
  rs_portfolio_id :: string

record receipt_identity =
  ri_as_of_date :: string
  ri_scope_identity :: receipt_scope
  ri_observed_correlation_id_hash :: string
  ri_observed_trace_id_hash :: string
  ri_trace_identity_source :: string

definition RECEIPT_IDENTITY_CONTRACT_VERSION :: string where
  "RECEIPT_IDENTITY_CONTRACT_VERSION = ''rfc0002.policy-evaluation-receipt-identity.v1''"

definition TRUSTED_PRINCIPAL_SOURCE :: string where
  "TRUSTED_PRINCIPAL_SOURCE = ''trusted_policy_control_principal''"

fun nested_value :: "json \<Rightarrow> string list \<Rightarrow> json" where
  "nested_value current [] = current"
| "nested_value (JObj d) (item # path) = nested_value (obj_get d item) path"
| "nested_value current (item # path) = JNull"

definition has_value :: "json \<Rightarrow> bool" where
  "has_value value \<longleftrightarrow>
     \<not> (value = JNull \<or> (case value of JStr s \<Rightarrow> py_strip s = [] | _ \<Rightarrow> False))"

definition required_identity_value :: "json \<Rightarrow> string \<Rightarrow> proposal_error + string" where
  "required_identity_value value error_code =
     (case value of
        JStr s \<Rightarrow> if py_strip s = [] then Inl (ProposalValidationError error_code)
                  else Inr (py_strip s)
      | _ \<Rightarrow> Inl (ProposalValidationError error_code))"

definition safe_hash :: "(string \<Rightarrow> string) \<Rightarrow> string \<Rightarrow> string \<Rightarrow> string" where
  "safe_hash sha field value =
     hash_canonical_payload sha
       (JObj [(''contract_version'', JStr RECEIPT_IDENTITY_CONTRACT_VERSION),
              (''field'', JStr field), (''value'', JStr value)])"

definition ends_with :: "char \<Rightarrow> string \<Rightarrow> bool" where
  "ends_with c s \<longleftrightarrow> s \<noteq> [] \<and> last s = c"

definition zulu_offset :: "string \<Rightarrow> string" where
  "zulu_offset value = (if ends_with CHR ''Z'' value then butlast value @ ''+00:00'' else value)"

definition normalize_source_date :: "calendar \<Rightarrow> json \<Rightarrow> proposal_error + string" where
  "normalize_source_date cal value =
     (case value of
        JStr s \<Rightarrow>
          (let candidate = py_strip s in
           if candidate = []
           then Inl (ProposalValidationError ''POLICY_EVALUATION_SOURCE_AS_OF_DATE_REQUIRED'')
           else if CHR ''T'' \<notin> set candidate
           then (case cal_date cal candidate of
                   None \<Rightarrow> Inl (ProposalValidationError ''POLICY_EVALUATION_SOURCE_AS_OF_DATE_INVALID'')
                 | Some d \<Rightarrow> Inr d)
           else (case cal_datetime cal (zulu_offset candidate) of
                   None \<Rightarrow> Inl (ProposalValidationError ''POLICY_EVALUATION_SOURCE_AS_OF_DATE_INVALID'')
                 | Some (d, aware) \<Rightarrow>
                     if aware then Inr d
                     else Inl (ProposalValidationError
                            ''POLICY_EVALUATION_SOURCE_AS_OF_DATE_TIMEZONE_REQUIRED'')))
      | _ \<Rightarrow> Inl (ProposalValidationError ''POLICY_EVALUATION_SOURCE_AS_OF_DATE_INVALID''))"

definition booking_center_code_of :: "json_dict \<Rightarrow> string option" where
  "booking_center_code_of evidence_bundle =
     (case nested_value (JObj evidence_bundle)
             [''context_resolution'', ''advisory_policy_context'', ''booking_center_code''] of
        JStr s \<Rightarrow> if py_strip s = [] then None else Some (upper_str (py_strip s))
      | _ \<Rightarrow> None)"

definition BOOKING_TIMEZONES :: "(string, string) dict" where
  "BOOKING_TIMEZONES =
     [(''SG'', ''Asia/Singapore''), (''HK'', ''Asia/Hong_Kong''), (''CH'', ''Europe/Zurich''),
      (''UK'', ''Europe/London''), (''US'', ''America/New_York'')]"

definition observed_business_date :: "calendar \<Rightarrow> json_dict \<Rightarrow> timestamp \<Rightarrow> string" where
  "observed_business_date cal evidence_bundle observed_at =
     (case Option.bind (booking_center_code_of evidence_bundle) (dict_get BOOKING_TIMEZONES) of
        None \<Rightarrow> cal_utc_date cal observed_at
      | Some zone \<Rightarrow>
          (case cal_zone_date cal zone observed_at of
             None \<Rightarrow> cal_utc_date cal observed_at
           | Some d \<Rightarrow> d))"

definition AS_OF_DATE_PATHS :: "string list list" where
  "AS_OF_DATE_PATHS =
     [[''context_resolution'', ''as_of_date''], [''context_resolution'', ''as_of''],
      [''context_resolution'', ''resolved_context'', ''as_of_date''],
      [''context_resolution'', ''resolved_context'', ''as_of''],
      [''inputs'', ''portfolio_snapshot'', ''as_of_date''],
      [''inputs'', ''portfolio_snapshot'', ''as_of''],
      [''inputs'', ''portfolio_snapshot'', ''snapshot_date''],
      [''inputs'', ''portfolio_snapshot'', ''valuation_date''],
      [''inputs'', ''market_data_snapshot'', ''as_of_date''],
      [''inputs'', ''market_data_snapshot'', ''as_of''],
      [''inputs'', ''market_data_snapshot'', ''snapshot_date''],
      [''inputs'', ''market_data_snapshot'', ''valuation_date'']]"

fun collect_results :: "('e + 'a) list \<Rightarrow> 'e + 'a list" where
  "collect_results [] = Inr []"
| "collect_results (r # rs) = rbind r (\<lambda>x. rbind (collect_results rs) (\<lambda>xs. Inr (x # xs)))"

text \<open>ISO dates of four-digit years compare as their texts.\<close>

definition source_owned_as_of_date ::
  "calendar \<Rightarrow> json_dict \<Rightarrow> timestamp \<Rightarrow> proposal_error + string" where
  "source_owned_as_of_date cal evidence_bundle observed_at =
     (let candidates = map (nested_value (JObj evidence_bundle)) AS_OF_DATE_PATHS in
      rbind (collect_results (map (normalize_source_date cal) (filter has_value candidates)))
        (\<lambda>normalized.
           case unique_first normalized of
             [] \<Rightarrow> Inl (ProposalValidationError ''POLICY_EVALUATION_SOURCE_AS_OF_DATE_REQUIRED'')
           | [d] \<Rightarrow>
               if observed_business_date cal evidence_bundle observed_at < d
               then Inl (ProposalValidationError ''POLICY_EVALUATION_SOURCE_AS_OF_DATE_IN_FUTURE'')
               else Inr d
           | _ \<Rightarrow> Inl (ProposalValidationError ''POLICY_EVALUATION_SOURCE_AS_OF_DATE_MISMATCH'')))"

definition trace_identity ::
  "string option \<Rightarrow> json_dict \<Rightarrow> proposal_error + string \<times> string" where
  "trace_identity observed_trace_id trusted_principal =
     (case observed_trace_id of
        Some s \<Rightarrow>
          if py_strip s \<noteq> [] then Inr (py_strip s, ''advise_observability_context'')
          else rbind (required_identity_value (obj_get trusted_principal ''trace_id'')
                 ''POLICY_EVALUATION_OBSERVED_TRACE_ID_REQUIRED'') (\<lambda>t. Inr (t, TRUSTED_PRINCIPAL_SOURCE))
      | None \<Rightarrow>
          rbind (required_identity_value (obj_get trusted_principal ''trace_id'')
            ''POLICY_EVALUATION_OBSERVED_TRACE_ID_REQUIRED'') (\<lambda>t. Inr (t, TRUSTED_PRINCIPAL_SOURCE)))"

definition trusted_principal_of :: "json_dict \<Rightarrow> proposal_error + json_dict" where
  "trusted_principal_of reason =
     (case obj_get reason ''trusted_principal'' of
        JObj d \<Rightarrow> Inr d
      | _ \<Rightarrow> Inl (ProposalValidationError ''POLICY_EVALUATION_TRUSTED_PRINCIPAL_REQUIRED''))"

definition build_policy_evaluation_receipt_identity ::
  "(string \<Rightarrow> string) \<Rightarrow> calendar \<Rightarrow> json_dict \<Rightarrow> string \<Rightarrow> string \<Rightarrow> string \<Rightarrow> json_dict \<Rightarrow>
   string option \<Rightarrow> timestamp \<Rightarrow> proposal_error + receipt_identity" where
  "build_policy_evaluation_receipt_identity sha cal evidence_bundle proposal_id
     proposal_version_id portfolio_id reason observed_trace_id observed_at =
     rbind (trusted_principal_of reason) (\<lambda>p.
     rbind (source_owned_as_of_date cal evidence_bundle observed_at) (\<lambda>as_of_date.
     rbind (trace_identity observed_trace_id p) (\<lambda>(trace_id, trace_identity_source).
     rbind (required_identity_value (obj_get p ''tenant_id'')
       ''POLICY_EVALUATION_TRUSTED_TENANT_REQUIRED'') (\<lambda>tenant_id.
     rbind (required_identity_value (obj_get p ''legal_entity_code'')
       ''POLICY_EVALUATION_TRUSTED_LEGAL_ENTITY_REQUIRED'') (\<lambda>legal_entity.
     rbind (required_identity_value (obj_get p ''correlation_id'')
       ''POLICY_EVALUATION_OBSERVED_CORRELATION_ID_REQUIRED'') (\<lambda>correlation_id.
     rbind (required_identity_value (obj_get p ''service_identity'')
       ''POLICY_EVALUATION_TRUSTED_SERVICE_IDENTITY_REQUIRED'') (\<lambda>service_identity.
       Inr \<lparr>ri_as_of_date = as_of_date,
            ri_scope_identity =
              \<lparr>rs_tenant_scope_hash = safe_hash sha ''tenant_scope'' tenant_id,
               rs_legal_entity_code = upper_str legal_entity,
               rs_booking_center_code = booking_center_code_of evidence_bundle,
               rs_service_identity_hash = safe_hash sha ''service_identity'' service_identity,
               rs_proposal_id = proposal_id, rs_proposal_version_id = proposal_version_id,
               rs_portfolio_id = portfolio_id\<rparr>,
            ri_observed_correlation_id_hash = safe_hash sha ''correlation_id'' correlation_id,
            ri_observed_trace_id_hash = safe_hash sha ''trace_id'' trace_id,
            ri_trace_identity_source = trace_identity_source\<rparr>)))))))"

definition receipt_scope_json :: "receipt_scope \<Rightarrow> json" where
  "receipt_scope_json s =
     JObj [(''identity_contract_version'', JStr RECEIPT_IDENTITY_CONTRACT_VERSION),
           (''authority_source'', JStr TRUSTED_PRINCIPAL_SOURCE),
           (''tenant_scope_hash'', JStr (rs_tenant_scope_hash s)),
           (''legal_entity_code'', JStr (rs_legal_entity_code s)),
           (''booking_center_code'', opt_str (rs_booking_center_code s)),
           (''service_identity_hash'', JStr (rs_service_identity_hash s)),
           (''proposal_id'', JStr (rs_proposal_id s)),
           (''proposal_version_id'', JStr (rs_proposal_version_id s)),
           (''portfolio_id'', JStr (rs_portfolio_id s))]"

definition receipt_identity_json :: "receipt_identity \<Rightarrow> json" where
  "receipt_identity_json i =
     JObj [(''receipt_contract_version'', JStr RECEIPT_IDENTITY_CONTRACT_VERSION),
           (''as_of_date'', JStr (ri_as_of_date i)),
           (''scope_identity'', receipt_scope_json (ri_scope_identity i)),
           (''observed_correlation_id_hash'', JStr (ri_observed_correlation_id_hash i)),
           (''observed_trace_id_hash'', JStr (ri_observed_trace_id_hash i)),
           (''correlation_identity_source'', JStr TRUSTED_PRINCIPAL_SOURCE),
           (''trace_identity_source'', JStr (ri_trace_identity_source i))]"

definition replay_safe_reason :: "json_dict \<Rightarrow> json_dict" where
  "replay_safe_reason reason =
     (let safe = filter (\<lambda>(k, v). k \<noteq> ''system_repair_intent'') reason in
      case obj_get safe ''trusted_principal'' of
        JObj p \<Rightarrow>
          dict_set ''trusted_principal''
            (JObj ((''authority_source'', JStr TRUSTED_PRINCIPAL_SOURCE) #
              filter (\<lambda>(k, v). k \<in> {''role'', ''capability'', ''legal_entity_code''}) p)) safe
      | _ \<Rightarrow> safe)"

section \<open>Records and events\<close>

datatype policy_event_type =
    PolicyFinalized | PolicyReviewRecorded | PolicySignOffRecorded | PolicyReportArchiveRecorded
  | PolicyAiEvidenceRecorded

fun policy_event_type_name :: "policy_event_type \<Rightarrow> string" where
  "policy_event_type_name PolicyFinalized = ''POLICY_EVALUATION_FINALIZED''"
| "policy_event_type_name PolicyReviewRecorded = ''POLICY_EVALUATION_REVIEW_RECORDED''"
| "policy_event_type_name PolicySignOffRecorded = ''POLICY_EVALUATION_SIGN_OFF_RECORDED''"
| "policy_event_type_name PolicyReportArchiveRecorded = ''POLICY_EVALUATION_REPORT_ARCHIVE_RECORDED''"
| "policy_event_type_name PolicyAiEvidenceRecorded = ''POLICY_EVALUATION_AI_EVIDENCE_RECORDED''"

record policy_event =
  pu_event_id :: string
  pu_evaluation_id :: string
  pu_event_proposal_id :: string
  pu_event_proposal_version_id :: string
  pu_event_type :: policy_event_type
  pu_actor_id :: string
  pu_occurred_at :: string
  pu_content_hash :: string
  pu_idempotency_key :: "string option"
  pu_reason_json :: json_dict

definition policy_event_json :: "policy_event \<Rightarrow> json" where
  "policy_event_json e =
     JObj [(''event_id'', JStr (pu_event_id e)), (''evaluation_id'', JStr (pu_evaluation_id e)),
           (''proposal_id'', JStr (pu_event_proposal_id e)),
           (''proposal_version_id'', JStr (pu_event_proposal_version_id e)),
           (''event_type'', JStr (policy_event_type_name (pu_event_type e))),
           (''actor_id'', JStr (pu_actor_id e)), (''occurred_at'', JStr (pu_occurred_at e)),
           (''content_hash'', JStr (pu_content_hash e)),
           (''idempotency_key'', opt_str (pu_idempotency_key e)),
           (''reason_json'', JObj (pu_reason_json e))]"

record policy_record =
  po_evaluation_id :: string
  po_proposal_id :: string
  po_proposal_version_id :: string
  po_portfolio_id :: string
  po_policy_pack_id :: string
  po_policy_version :: string
  po_generated_at :: string
  po_created_by :: string
  po_evaluation_status :: policy_status
  po_policy_content_hash :: string
  po_source_evidence_hash :: string
  po_evaluation_hash :: string
  po_rule_result_hashes :: "(string, string) dict"
  po_evaluation_json :: json_dict
  po_source_refs :: "string list"
  po_source_gaps :: "string list"
  po_approval_dependencies :: "string list"
  po_disclosure_requirements :: "string list"
  po_consent_requirements :: "string list"
  po_review_events_json :: "json list"
  po_sign_off_events_json :: "json list"
  po_report_archive_refs_json :: "json list"
  po_replay_metadata_json :: json_dict

definition policy_evaluation_hash ::
  "(string \<Rightarrow> string) \<Rightarrow> policy_evaluation \<Rightarrow> string \<Rightarrow> string \<Rightarrow> string" where
  "policy_evaluation_hash sha evaluation source_evidence_hash policy_content_hash =
     hash_canonical_payload sha
       (JObj [(''contract_version'', JStr POLICY_EVALUATION_PERSISTENCE_CONTRACT_VERSION),
              (''policy_evaluation'', JObj (policy_evaluation_json evaluation)),
              (''policy_content_hash'', JStr policy_content_hash),
              (''source_evidence_hash'', JStr source_evidence_hash)])"

text \<open>
  \<open>evidence_bundle.get("inputs", {}).get("portfolio_snapshot", {})\<close>: an \<open>inputs\<close> that is present
  and no dictionary is an \<open>AttributeError\<close>.
\<close>

definition portfolio_snapshot_of :: "json_dict \<Rightarrow> proposal_error + json" where
  "portfolio_snapshot_of evidence_bundle =
     (case dict_get evidence_bundle ''inputs'' of
        None \<Rightarrow> Inr (JObj [])
      | Some (JObj inputs) \<Rightarrow>
          Inr (case dict_get inputs ''portfolio_snapshot'' of None \<Rightarrow> JObj [] | Some v \<Rightarrow> v)
      | Some v \<Rightarrow> Inl (PyException ''AttributeError'' ''get''))"

definition portfolio_id_from_evidence :: "json_dict \<Rightarrow> proposal_error + string option" where
  "portfolio_id_from_evidence evidence_bundle =
     rbind (portfolio_snapshot_of evidence_bundle) (\<lambda>portfolio.
       Inr (case portfolio of
              JObj d \<Rightarrow>
                (case obj_get d ''portfolio_id'' of
                   JStr s \<Rightarrow> if py_strip s = [] then None else Some (py_strip s)
                 | _ \<Rightarrow> None)
            | _ \<Rightarrow> None))"

definition portfolio_id_of :: "json_dict \<Rightarrow> proposal_error + string" where
  "portfolio_id_of evidence_bundle =
     rbind (portfolio_id_from_evidence evidence_bundle) (\<lambda>portfolio_id.
       case portfolio_id of
         None \<Rightarrow> Inl (ProposalValidationError ''POLICY_EVALUATION_PORTFOLIO_ID_REQUIRED'')
       | Some s \<Rightarrow> Inr s)"

definition policy_source_refs :: "policy_evaluation \<Rightarrow> string list" where
  "policy_source_refs evaluation =
     unique_strings (concat (map (\<lambda>r. prr_source_authority_refs r @ prr_evidence_refs r)
       (pev_rule_results evaluation)))"

definition policy_source_gaps :: "policy_evaluation \<Rightarrow> string list" where
  "policy_source_gaps evaluation =
     unique_strings (pa_missing_evidence (pev_applicability evaluation) @
       concat (map prr_missing_evidence (pev_rule_results evaluation)))"

definition policy_required_actions :: "policy_evaluation \<Rightarrow> string list" where
  "policy_required_actions evaluation =
     unique_strings (concat (map prr_required_actions (pev_rule_results evaluation)))"

definition policy_approval_dependencies :: "policy_evaluation \<Rightarrow> string list" where
  "policy_approval_dependencies evaluation =
     unique_strings (filter (\<lambda>action.
       list_ex (\<lambda>p. has_prefix p action) [''REVIEW_'', ''SUPERVISORY_'', ''POLICY_STEWARD_''])
       (policy_required_actions evaluation))"

definition policy_disclosure_requirements :: "policy_evaluation \<Rightarrow> string list" where
  "policy_disclosure_requirements evaluation =
     unique_strings
       (filter (has_prefix ''advisor_reviewed_disclosure'')
          (concat (map prr_missing_evidence (pev_rule_results evaluation))) @
        filter (contains_text ''DISCLOSURE'') (policy_required_actions evaluation))"

definition policy_consent_requirements :: "policy_evaluation \<Rightarrow> string list" where
  "policy_consent_requirements evaluation =
     unique_strings
       (filter (has_prefix ''client_consent'')
          (concat (map prr_missing_evidence (pev_rule_results evaluation))) @
        filter (contains_text ''CONSENT'') (policy_required_actions evaluation))"

definition rule_result_hashes_of ::
  "(string \<Rightarrow> string) \<Rightarrow> policy_rule_result list \<Rightarrow> (string, string) dict" where
  "rule_result_hashes_of sha results =
     fold (\<lambda>r. dict_set (prr_rule_id r) (hash_canonical_payload sha (policy_rule_result_json r)))
       results []"

text \<open>The digest without its \<open>sha256:\<close> prefix.\<close>

definition evaluation_id_of ::
  "(string \<Rightarrow> string) \<Rightarrow> string \<Rightarrow> string \<Rightarrow> string \<Rightarrow> string \<Rightarrow> string \<Rightarrow> string" where
  "evaluation_id_of sha proposal_id proposal_version_id policy_pack_id policy_version
     source_evidence_hash =
     ''pev_'' @ take 20 (drop (length ''sha256:'') (hash_canonical_payload sha
       (JObj [(''proposal_id'', JStr proposal_id),
              (''proposal_version_id'', JStr proposal_version_id),
              (''policy_pack_id'', JStr policy_pack_id), (''policy_version'', JStr policy_version),
              (''source_evidence_hash'', JStr source_evidence_hash)])))"

definition build_policy_evaluation_record ::
  "(string \<Rightarrow> string) \<Rightarrow> calendar \<Rightarrow> policy_evaluation \<Rightarrow> json_dict \<Rightarrow> string \<Rightarrow> string \<Rightarrow> string \<Rightarrow>
   string \<Rightarrow> string \<Rightarrow> string \<Rightarrow> json_dict \<Rightarrow> string option \<Rightarrow> timestamp \<Rightarrow>
   proposal_error + policy_record" where
  "build_policy_evaluation_record sha cal evaluation evidence_bundle proposal_id
     proposal_version_id created_by source_evidence_hash policy_content_hash idempotency_key reason
     observed_trace_id generated_at =
     rbind (portfolio_id_of evidence_bundle) (\<lambda>portfolio_id.
     let evaluation_hash =
           policy_evaluation_hash sha evaluation source_evidence_hash policy_content_hash;
         pack = pev_policy_pack evaluation;
         source_refs = policy_source_refs evaluation;
         source_gaps = policy_source_gaps evaluation
     in rbind (build_policy_evaluation_receipt_identity sha cal evidence_bundle proposal_id
          proposal_version_id portfolio_id reason observed_trace_id generated_at) (\<lambda>receipt.
     Inr \<lparr>po_evaluation_id = evaluation_id_of sha proposal_id proposal_version_id
            (ps_policy_pack_id pack) (ps_policy_version pack) source_evidence_hash,
          po_proposal_id = proposal_id, po_proposal_version_id = proposal_version_id,
          po_portfolio_id = portfolio_id, po_policy_pack_id = ps_policy_pack_id pack,
          po_policy_version = ps_policy_version pack, po_generated_at = isoformat generated_at,
          po_created_by = created_by, po_evaluation_status = pev_evaluation_status evaluation,
          po_policy_content_hash = policy_content_hash,
          po_source_evidence_hash = source_evidence_hash, po_evaluation_hash = evaluation_hash,
          po_rule_result_hashes = rule_result_hashes_of sha (pev_rule_results evaluation),
          po_evaluation_json = policy_evaluation_json evaluation,
          po_source_refs = source_refs, po_source_gaps = source_gaps,
          po_approval_dependencies = policy_approval_dependencies evaluation,
          po_disclosure_requirements = policy_disclosure_requirements evaluation,
          po_consent_requirements = policy_consent_requirements evaluation,
          po_review_events_json = [], po_sign_off_events_json = [],
          po_report_archive_refs_json = [],
          po_replay_metadata_json =
            [(''persistence_contract_version'',
              JStr POLICY_EVALUATION_PERSISTENCE_CONTRACT_VERSION),
             (''policy_evaluation_contract_version'', JStr (pev_contract_version evaluation)),
             (''policy_pack_id'', JStr (ps_policy_pack_id pack)),
             (''policy_version'', JStr (ps_policy_version pack)),
             (''policy_content_hash'', JStr policy_content_hash),
             (''source_evidence_hash'', JStr source_evidence_hash),
             (''evaluation_hash'', JStr evaluation_hash),
             (''source_refs'', jstrs source_refs), (''source_gaps'', jstrs source_gaps),
             (''receipt_identity'', receipt_identity_json receipt),
             (''as_of_date'', JStr (ri_as_of_date receipt)),
             (''idempotency_key'', JStr idempotency_key),
             (''creation_reason'', JObj (replay_safe_reason reason)),
             (''replay_policy'', JStr ''PIN_POLICY_VERSION_AND_COMPARE_SOURCE_HASHES'')]\<rparr>))"

section \<open>The authority of an event\<close>

record event_authority =
  ea_event_type :: policy_event_type
  ea_command :: string
  ea_contract_field :: string
  ea_required_reason_fields :: "string list"

definition POLICY_SIGN_OFF_EVENT_AUTHORITY :: event_authority where
  "POLICY_SIGN_OFF_EVENT_AUTHORITY =
     \<lparr>ea_event_type = PolicySignOffRecorded, ea_command = ''policy_evaluation.sign_off_decision'',
      ea_contract_field = ''workflow_contract_version'',
      ea_required_reason_fields =
        [''workflow_contract_version'', ''decision'', ''source_evaluation_hash'',
         ''client_ready_publication'']\<rparr>"

definition POLICY_REPORT_PACKAGE_EVENT_AUTHORITY :: event_authority where
  "POLICY_REPORT_PACKAGE_EVENT_AUTHORITY =
     \<lparr>ea_event_type = PolicyReportArchiveRecorded,
      ea_command = ''policy_evaluation.report_package'',
      ea_contract_field = ''policy_report_package_contract_version'',
      ea_required_reason_fields =
        [''policy_report_package_contract_version'', ''policy_report_package_request_hash'',
         ''report_package_status'', ''source_evaluation_hash'', ''report_request_id'',
         ''policy_sign_off_package'', ''client_ready_publication'']\<rparr>"

definition POLICY_AI_EVIDENCE_EVENT_AUTHORITY :: event_authority where
  "POLICY_AI_EVIDENCE_EVENT_AUTHORITY =
     \<lparr>ea_event_type = PolicyAiEvidenceRecorded, ea_command = ''policy_evaluation.ai_evidence'',
      ea_contract_field = ''policy_ai_contract_version'',
      ea_required_reason_fields =
        [''policy_ai_contract_version'', ''policy_ai_request_hash'', ''ai_status'',
         ''source_evaluation_hash'', ''requested_actions'', ''human_review_required'',
         ''authoritative_for_policy_status'', ''client_ready_publication'', ''lineage'']\<rparr>"

definition validate_authority_reason ::
  "json_dict \<Rightarrow> string \<Rightarrow> event_authority \<Rightarrow> proposal_error + unit" where
  "validate_authority_reason reason evaluation_hash authority =
     (if \<not> list_all (\<lambda>field. dict_get reason field \<noteq> None) (ea_required_reason_fields authority)
      then Inl (ProposalValidationError ''POLICY_EVALUATION_PRIVILEGED_EVENT_REASON_INCOMPLETE'')
      else if obj_get reason ''source_evaluation_hash'' \<noteq> JStr evaluation_hash
      then Inl (ProposalValidationError ''POLICY_EVALUATION_PRIVILEGED_EVENT_HASH_MISMATCH'')
      else if dict_get reason (ea_contract_field authority) = None
      then Inl (ProposalValidationError ''POLICY_EVALUATION_PRIVILEGED_EVENT_CONTRACT_MISSING'')
      else Inr ())"

text \<open>The event types are closed here, so the code's check for an unsupported one never applies.\<close>

definition validate_policy_evaluation_event_authority ::
  "policy_event_type \<Rightarrow> json_dict \<Rightarrow> string \<Rightarrow> event_authority option \<Rightarrow>
   proposal_error + unit" where
  "validate_policy_evaluation_event_authority event_type reason evaluation_hash authority =
     (if event_type = PolicyReviewRecorded then Inr ()
      else if event_type = PolicyFinalized
      then Inl (ProposalValidationError
             ''POLICY_EVALUATION_FINALIZED_EVENT_REQUIRES_FINALIZE_COMMAND'')
      else (case authority of
              None \<Rightarrow> Inl (ProposalValidationError
                        ''POLICY_EVALUATION_PRIVILEGED_EVENT_REQUIRES_COMMAND'')
            | Some a \<Rightarrow>
                if ea_event_type a \<noteq> event_type
                then Inl (ProposalValidationError
                       ''POLICY_EVALUATION_PRIVILEGED_EVENT_REQUIRES_COMMAND'')
                else validate_authority_reason reason evaluation_hash a))"

end
