(* ===== verification/Policy_Store.thy ===== *)
theory Policy_Store
  imports Policy_Records
begin

text \<open>
  The store of policy evaluations (src/core/policy_packs/persistence_store.py, persistence.py,
  persistence_projection.py, persistence_replay.py, and the reading half of receipt_identity.py).
  Its state is the record \<open>policy_store\<close>, one dictionary per attribute of the class; a method that
  raises leaves the store as it is. The readings of the clock are arguments.
\<close>

section \<open>Reading a receipt identity back\<close>

definition json_text :: "json \<Rightarrow> proposal_error + string" where
  "json_text v = (case v of JStr s \<Rightarrow> Inr s
     | _ \<Rightarrow> Inl (PyException ''ValidationError'' ''Input should be a valid string''))"

definition json_opt_text :: "json \<Rightarrow> proposal_error + string option" where
  "json_opt_text v = (case v of JNull \<Rightarrow> Inr None | JStr s \<Rightarrow> Inr (Some s)
     | _ \<Rightarrow> Inl (PyException ''ValidationError'' ''Input should be a valid string''))"

definition json_literal :: "string list \<Rightarrow> json \<Rightarrow> proposal_error + string" where
  "json_literal options v =
     rbind (json_text v) (\<lambda>s. if s \<in> set options then Inr s
       else Inl (PyException ''ValidationError'' ''Input should be one of the literals''))"

definition no_extra :: "string list \<Rightarrow> json_dict \<Rightarrow> proposal_error + unit" where
  "no_extra allowed d =
     (if list_all (\<lambda>(k, v). k \<in> set allowed) d then Inr ()
      else Inl (PyException ''ValidationError'' ''Extra inputs are not permitted''))"

definition receipt_scope_of_json :: "json \<Rightarrow> proposal_error + receipt_scope" where
  "receipt_scope_of_json v =
     (case v of
        JObj d \<Rightarrow>
          rbind (no_extra [''identity_contract_version'', ''authority_source'', ''tenant_scope_hash'',
            ''legal_entity_code'', ''booking_center_code'', ''service_identity_hash'', ''proposal_id'',
            ''proposal_version_id'', ''portfolio_id''] d) (\<lambda>_.
          rbind (json_literal [RECEIPT_IDENTITY_CONTRACT_VERSION]
            (obj_get d ''identity_contract_version'')) (\<lambda>_.
          rbind (json_literal [TRUSTED_PRINCIPAL_SOURCE] (obj_get d ''authority_source'')) (\<lambda>_.
          rbind (json_text (obj_get d ''tenant_scope_hash'')) (\<lambda>tenant.
          rbind (json_text (obj_get d ''legal_entity_code'')) (\<lambda>legal.
          rbind (json_opt_text (obj_get d ''booking_center_code'')) (\<lambda>booking.
          rbind (json_text (obj_get d ''service_identity_hash'')) (\<lambda>service.
          rbind (json_text (obj_get d ''proposal_id'')) (\<lambda>pid.
          rbind (json_text (obj_get d ''proposal_version_id'')) (\<lambda>vid.
          rbind (json_text (obj_get d ''portfolio_id'')) (\<lambda>portfolio.
            Inr \<lparr>rs_tenant_scope_hash = tenant, rs_legal_entity_code = legal,
                 rs_booking_center_code = booking, rs_service_identity_hash = service,
                 rs_proposal_id = pid, rs_proposal_version_id = vid,
                 rs_portfolio_id = portfolio\<rparr>))))))))))
      | _ \<Rightarrow> Inl (PyException ''ValidationError'' ''Input should be a valid dictionary''))"

definition receipt_identity_of_json :: "json_dict \<Rightarrow> proposal_error + receipt_identity" where
  "receipt_identity_of_json d =
     rbind (no_extra [''receipt_contract_version'', ''as_of_date'', ''scope_identity'',
       ''observed_correlation_id_hash'', ''observed_trace_id_hash'', ''correlation_identity_source'',
       ''trace_identity_source''] d) (\<lambda>_.
     rbind (json_literal [RECEIPT_IDENTITY_CONTRACT_VERSION]
       (obj_get d ''receipt_contract_version'')) (\<lambda>_.
     rbind (json_text (obj_get d ''as_of_date'')) (\<lambda>as_of_date.
     rbind (receipt_scope_of_json (obj_get d ''scope_identity'')) (\<lambda>scope.
     rbind (json_text (obj_get d ''observed_correlation_id_hash'')) (\<lambda>correlation.
     rbind (json_text (obj_get d ''observed_trace_id_hash'')) (\<lambda>trace.
     rbind (json_literal [TRUSTED_PRINCIPAL_SOURCE] (obj_get d ''correlation_identity_source'')) (\<lambda>_.
     rbind (json_literal [''advise_observability_context'', TRUSTED_PRINCIPAL_SOURCE]
       (obj_get d ''trace_identity_source'')) (\<lambda>trace_source.
       Inr \<lparr>ri_as_of_date = as_of_date, ri_scope_identity = scope,
            ri_observed_correlation_id_hash = correlation, ri_observed_trace_id_hash = trace,
            ri_trace_identity_source = trace_source\<rparr>))))))))"

lemma receipt_identity_round_trip:
  assumes "ri_trace_identity_source i \<in> {''advise_observability_context'', TRUSTED_PRINCIPAL_SOURCE}"
    and "receipt_identity_json i = JObj d"
  shows "receipt_identity_of_json d = Inr i"
  using assms
  by (cases "rs_booking_center_code (ri_scope_identity i)")
    (auto simp: receipt_identity_of_json_def receipt_identity_json_def receipt_scope_of_json_def
      receipt_scope_json_def no_extra_def json_literal_def json_text_def json_opt_text_def
      obj_get_def)

definition legacy_as_of_date :: "calendar \<Rightarrow> policy_record \<Rightarrow> proposal_error + string" where
  "legacy_as_of_date cal r =
     (case obj_get (po_replay_metadata_json r) ''as_of_date'' of
        JStr s \<Rightarrow>
          if py_strip s \<noteq> [] then normalize_source_date cal (JStr s)
          else if py_strip (po_generated_at r) \<noteq> []
          then normalize_source_date cal (JStr (po_generated_at r))
          else Inl (ProposalValidationError ''POLICY_EVALUATION_RECEIPT_IDENTITY_REQUIRED'')
      | _ \<Rightarrow>
          if py_strip (po_generated_at r) \<noteq> []
          then normalize_source_date cal (JStr (po_generated_at r))
          else Inl (ProposalValidationError ''POLICY_EVALUATION_RECEIPT_IDENTITY_REQUIRED''))"

definition legacy_receipt_identity_from_record ::
  "(string \<Rightarrow> string) \<Rightarrow> calendar \<Rightarrow> policy_record \<Rightarrow> proposal_error + receipt_identity" where
  "legacy_receipt_identity_from_record sha cal r =
     rbind (legacy_as_of_date cal r) (\<lambda>as_of_date.
       Inr \<lparr>ri_as_of_date = as_of_date,
            ri_scope_identity =
              \<lparr>rs_tenant_scope_hash = safe_hash sha ''legacy_tenant_scope'' (po_evaluation_id r),
               rs_legal_entity_code = ''LEGACY_UNAVAILABLE'', rs_booking_center_code = None,
               rs_service_identity_hash = safe_hash sha ''legacy_service_identity'' ''legacy_record'',
               rs_proposal_id = po_proposal_id r,
               rs_proposal_version_id = po_proposal_version_id r,
               rs_portfolio_id = po_portfolio_id r\<rparr>,
            ri_observed_correlation_id_hash =
              safe_hash sha ''legacy_correlation_id'' (po_evaluation_id r),
            ri_observed_trace_id_hash = safe_hash sha ''legacy_trace_id'' (po_evaluation_id r),
            ri_trace_identity_source = TRUSTED_PRINCIPAL_SOURCE\<rparr>)"

definition receipt_identity_from_record ::
  "(string \<Rightarrow> string) \<Rightarrow> calendar \<Rightarrow> policy_record \<Rightarrow> proposal_error + receipt_identity" where
  "receipt_identity_from_record sha cal r =
     (case obj_get (po_replay_metadata_json r) ''receipt_identity'' of
        JObj d \<Rightarrow> receipt_identity_of_json d
      | _ \<Rightarrow> legacy_receipt_identity_from_record sha cal r)"

section \<open>The state of the store\<close>

type_synonym evaluation_identity = "string \<times> string \<times> string \<times> string \<times> string"

record policy_store =
  st_records :: "(string, policy_record) dict"
  st_events :: "(string, policy_event list) dict"
  st_idempotency :: "(string, string \<times> string \<times> string) dict"
  st_identity_index :: "(evaluation_identity, string) dict"

definition empty_policy_store :: policy_store where
  "empty_policy_store =
     \<lparr>st_records = [], st_events = [], st_idempotency = [], st_identity_index = []\<rparr>"

definition load_policy_record :: "policy_store \<Rightarrow> string \<Rightarrow> proposal_error + policy_record" where
  "load_policy_record s evaluation_id =
     (case dict_get (st_records s) evaluation_id of
        None \<Rightarrow> Inl (ProposalNotFoundError ''POLICY_EVALUATION_RECORD_NOT_FOUND'')
      | Some r \<Rightarrow> Inr r)"

definition policy_store_event ::
  "policy_store \<Rightarrow> policy_record \<Rightarrow> policy_event_type \<Rightarrow> string \<Rightarrow> string option \<Rightarrow> string \<Rightarrow>
   json_dict \<Rightarrow> timestamp \<Rightarrow> policy_event" where
  "policy_store_event s r event_type actor_id idempotency_key request_hash reason now =
     \<lparr>pu_event_id =
        ''peev_'' @ six_digits (length (dict_list (st_events s) (po_evaluation_id r)) + 1),
      pu_evaluation_id = po_evaluation_id r, pu_event_proposal_id = po_proposal_id r,
      pu_event_proposal_version_id = po_proposal_version_id r, pu_event_type = event_type,
      pu_actor_id = actor_id, pu_occurred_at = isoformat now,
      pu_content_hash = po_evaluation_hash r, pu_idempotency_key = idempotency_key,
      pu_reason_json =
        dict_set ''persistence_contract_version''
          (JStr POLICY_EVALUATION_PERSISTENCE_CONTRACT_VERSION)
          (dict_set ''idempotency_request_hash'' (JStr request_hash) reason)\<rparr>"

definition load_replayed_policy_event ::
  "policy_store \<Rightarrow> string \<Rightarrow> string \<Rightarrow> proposal_error + policy_record \<times> policy_event" where
  "load_replayed_policy_event s evaluation_id event_id =
     rbind (load_policy_record s evaluation_id) (\<lambda>r.
       case find (\<lambda>e. pu_event_id e = event_id) (dict_list (st_events s) evaluation_id) of
         None \<Rightarrow> Inl (PyException ''StopIteration'' [])
       | Some e \<Rightarrow> Inr (r, e))"

text \<open>What a caller knows of the request it looks a replay up for.\<close>

record replay_query =
  rq_event_type :: "policy_event_type option"
  rq_actor_id :: "string option"
  rq_evaluation_id :: "string option"
  rq_evaluation_hash :: "string option"
  rq_proposal_id :: "string option"
  rq_proposal_version_id :: "string option"
  rq_policy_pack_id :: "string option"
  rq_policy_version :: "string option"
  rq_portfolio_id :: "string option"
  rq_source_evidence_hash :: "string option"
  rq_evidence_bundle :: "json_dict option"
  rq_reason :: "json_dict option"

definition matches_record_scope :: "policy_record \<Rightarrow> replay_query \<Rightarrow> bool" where
  "matches_record_scope r q \<longleftrightarrow>
     rq_proposal_id q = Some (po_proposal_id r) \<and>
     rq_proposal_version_id q = Some (po_proposal_version_id r) \<and>
     rq_policy_pack_id q = Some (po_policy_pack_id r) \<and>
     rq_policy_version q = Some (po_policy_version r) \<and>
     rq_portfolio_id q = Some (po_portfolio_id r)"

section \<open>Requests recorded with an older hash\<close>

definition finalize_request_hash ::
  "(string \<Rightarrow> string) \<Rightarrow> string \<Rightarrow> string \<Rightarrow> string \<Rightarrow> string \<Rightarrow> string \<Rightarrow> json \<Rightarrow> string" where
  "finalize_request_hash sha proposal_id proposal_version_id policy_pack_id policy_version
     source_evidence_hash reason =
     hash_canonical_payload sha
       (JObj [(''operation'', JStr ''POLICY_EVALUATION_FINALIZED''),
              (''proposal_id'', JStr proposal_id),
              (''proposal_version_id'', JStr proposal_version_id),
              (''policy_pack_id'', JStr policy_pack_id), (''policy_version'', JStr policy_version),
              (''source_evidence_hash'', JStr source_evidence_hash), (''reason'', reason)])"

definition legacy_correlation_sensitive_reason :: "json_dict \<Rightarrow> json_dict" where
  "legacy_correlation_sensitive_reason reason =
     (case obj_get reason ''trusted_principal'' of
        JObj p \<Rightarrow>
          dict_set ''trusted_principal'' (JObj (filter (\<lambda>(k, v). k \<noteq> ''trace_id'') p)) reason
      | _ \<Rightarrow> reason)"

definition matches_legacy_correlation_sensitive_replay ::
  "(string \<Rightarrow> string) \<Rightarrow> policy_record \<Rightarrow> policy_event \<Rightarrow> string \<Rightarrow> string \<Rightarrow> json_dict \<Rightarrow> bool" where
  "matches_legacy_correlation_sensitive_replay sha r event stored_hash source_evidence_hash reason =
     (case obj_get (pu_reason_json event) ''finalization_reason'' of
        JObj finalization_reason \<Rightarrow>
          po_source_evidence_hash r = source_evidence_hash \<and>
          json_eq (idempotency_stable_reason finalization_reason)
            (idempotency_stable_reason reason) \<and>
          stored_hash = finalize_request_hash sha (po_proposal_id r) (po_proposal_version_id r)
            (po_policy_pack_id r) (po_policy_version r) (po_source_evidence_hash r)
            (JObj (legacy_correlation_sensitive_reason finalization_reason))
      | _ \<Rightarrow> False)"

definition event_business_reason :: "policy_event \<Rightarrow> json_dict" where
  "event_business_reason event =
     filter (\<lambda>(k, v). k \<notin> {''idempotency_request_hash'', ''persistence_contract_version''})
       (pu_reason_json event)"

definition matches_legacy_event_stable_replay ::
  "policy_record \<Rightarrow> policy_event \<Rightarrow> string \<Rightarrow> policy_event_type \<Rightarrow> string \<Rightarrow> string \<Rightarrow> string \<Rightarrow>
   json_dict \<Rightarrow> bool" where
  "matches_legacy_event_stable_replay r event stored_hash event_type actor_id evaluation_id
     evaluation_hash reason \<longleftrightarrow>
     po_evaluation_id r = evaluation_id \<and> pu_evaluation_id event = evaluation_id \<and>
     pu_event_type event = event_type \<and> pu_actor_id event = actor_id \<and>
     pu_content_hash event = evaluation_hash \<and>
     obj_get (pu_reason_json event) ''idempotency_request_hash'' = JStr stored_hash \<and>
     json_eq (idempotency_stable_reason (event_business_reason event))
       (idempotency_stable_reason reason)"

definition matching_legacy_replay ::
  "(string \<Rightarrow> string) \<Rightarrow> policy_record \<Rightarrow> policy_event \<Rightarrow> string \<Rightarrow> replay_query \<Rightarrow> bool" where
  "matching_legacy_replay sha r event stored_hash q =
     (case rq_reason q of
        None \<Rightarrow> False
      | Some reason \<Rightarrow>
          (case rq_source_evidence_hash q of
             None \<Rightarrow> False
           | Some source_hash \<Rightarrow>
               matches_record_scope r q \<and>
               matches_legacy_correlation_sensitive_replay sha r event stored_hash source_hash
                 reason) \<or>
          (case (rq_event_type q, rq_actor_id q, rq_evaluation_id q, rq_evaluation_hash q) of
             (Some event_type, Some actor_id, Some evaluation_id, Some evaluation_hash) \<Rightarrow>
               matches_legacy_event_stable_replay r event stored_hash event_type actor_id
                 evaluation_id evaluation_hash reason
           | _ \<Rightarrow> False))"

section \<open>Repair of a missing legal entity\<close>

definition has_legal_entity_repair_intent :: "json_dict \<Rightarrow> bool" where
  "has_legal_entity_repair_intent reason =
     (case obj_get reason ''system_repair_intent'' of
        JObj intent \<Rightarrow>
          obj_get intent ''repair_code'' =
            JStr ''POLICY_EVALUATION_TRUSTED_LEGAL_ENTITY_BINDING_REPAIR'' \<and>
          obj_get intent ''source_gap'' = JStr ''legal_entity_code'' \<and>
          obj_get intent ''authority_source'' = JStr TRUSTED_PRINCIPAL_SOURCE
      | _ \<Rightarrow> False)"

definition is_legal_entity_gap_blocked_record :: "policy_record \<Rightarrow> bool" where
  "is_legal_entity_gap_blocked_record r \<longleftrightarrow>
     po_evaluation_status r = PolicyBlocked \<and> ''legal_entity_code'' \<in> set (po_source_gaps r) \<and>
     JStr ''POLICY_APPLICABILITY_LEGAL_ENTITY_SOURCE_MISSING'' \<in>
       set (list_at (dict_at (po_evaluation_json r) ''applicability'') ''reason_codes'')"

definition normalized_non_empty :: "json \<Rightarrow> string option" where
  "normalized_non_empty value =
     (case value of
        JStr s \<Rightarrow> if py_strip s = [] then None else Some (upper_str (py_strip s))
      | _ \<Rightarrow> None)"

definition repair_trusted_principal_matches_record ::
  "(string \<Rightarrow> string) \<Rightarrow> calendar \<Rightarrow> policy_record \<Rightarrow> json_dict \<Rightarrow> json_dict \<Rightarrow> bool" where
  "repair_trusted_principal_matches_record sha cal r evidence_bundle reason =
     (case obj_get reason ''trusted_principal'' of
        JObj p \<Rightarrow>
          (let subject = normalized_non_empty (obj_get p ''subject'') in
           subject \<noteq> None \<and> subject = normalized_non_empty (JStr (po_created_by r)) \<and>
           (case cal_instant cal (zulu_offset (py_strip (po_generated_at r))) of
              None \<Rightarrow> False
            | Some generated_at \<Rightarrow>
                (case (build_policy_evaluation_receipt_identity sha cal evidence_bundle
                         (po_proposal_id r) (po_proposal_version_id r) (po_portfolio_id r) reason
                         None generated_at, receipt_identity_from_record sha cal r) of
                   (Inr incoming, Inr existing) \<Rightarrow>
                     ri_as_of_date incoming = ri_as_of_date existing \<and>
                     ri_scope_identity incoming = ri_scope_identity existing
                 | _ \<Rightarrow> False)))
      | _ \<Rightarrow> False)"

definition evidence_legal_entity_matches_trusted_principal ::
  "json_dict \<Rightarrow> json_dict \<Rightarrow> bool" where
  "evidence_legal_entity_matches_trusted_principal evidence_bundle reason =
     (case obj_get reason ''trusted_principal'' of
        JObj p \<Rightarrow>
          (let expected = normalized_non_empty (obj_get p ''legal_entity_code'');
               actual = normalized_non_empty
                 (obj_get (dict_at (dict_at evidence_bundle ''context_resolution'')
                    ''advisory_policy_context'') ''legal_entity_code'')
           in expected \<noteq> None \<and> actual = expected)
      | _ \<Rightarrow> False)"

text \<open>The bundle without the legal entity of its policy context.\<close>

definition without_legal_entity :: "json_dict \<Rightarrow> json_dict" where
  "without_legal_entity evidence_bundle =
     (case obj_get evidence_bundle ''context_resolution'' of
        JObj resolution \<Rightarrow>
          (case obj_get resolution ''advisory_policy_context'' of
             JObj context \<Rightarrow>
               dict_set ''context_resolution''
                 (JObj (dict_set ''advisory_policy_context''
                    (JObj (filter (\<lambda>(k, v). k \<noteq> ''legal_entity_code'') context)) resolution))
                 evidence_bundle
           | _ \<Rightarrow> evidence_bundle)
      | _ \<Rightarrow> evidence_bundle)"

definition repair_changes_only_missing_legal_entity ::
  "(string \<Rightarrow> string) \<Rightarrow> policy_record \<Rightarrow> json_dict \<Rightarrow> string \<Rightarrow> bool" where
  "repair_changes_only_missing_legal_entity sha r evidence_bundle source_evidence_hash \<longleftrightarrow>
     source_evidence_hash \<noteq> po_source_evidence_hash r \<and>
     hash_canonical_payload sha (JObj (without_legal_entity evidence_bundle)) =
       po_source_evidence_hash r"

definition can_skip_conflict_for_legal_entity_repair ::
  "(string \<Rightarrow> string) \<Rightarrow> calendar \<Rightarrow> policy_record \<Rightarrow> replay_query \<Rightarrow> bool" where
  "can_skip_conflict_for_legal_entity_repair sha cal r q =
     (case (rq_source_evidence_hash q, rq_evidence_bundle q, rq_reason q) of
        (Some source_hash, Some evidence_bundle, Some reason) \<Rightarrow>
          has_legal_entity_repair_intent reason \<and> is_legal_entity_gap_blocked_record r \<and>
          matches_record_scope r q \<and>
          json_eq (obj_get (po_replay_metadata_json r) ''creation_reason'')
            (JObj (replay_safe_reason reason)) \<and>
          repair_trusted_principal_matches_record sha cal r evidence_bundle reason \<and>
          repair_changes_only_missing_legal_entity sha r evidence_bundle source_hash \<and>
          evidence_legal_entity_matches_trusted_principal evidence_bundle reason
      | _ \<Rightarrow> False)"

definition find_replayed_policy_event ::
  "(string \<Rightarrow> string) \<Rightarrow> calendar \<Rightarrow> policy_store \<Rightarrow> string \<Rightarrow> string \<Rightarrow> replay_query \<Rightarrow>
   proposal_error + (policy_event \<times> policy_record) option" where
  "find_replayed_policy_event sha cal s idempotency_key request_hash q =
     (case dict_get (st_idempotency s) idempotency_key of
        None \<Rightarrow> Inr None
      | Some (stored_hash, stored_evaluation_id, event_id) \<Rightarrow>
          rbind (load_replayed_policy_event s stored_evaluation_id event_id) (\<lambda>(r, event).
            if stored_hash = request_hash then Inr (Some (event, r))
            else if matching_legacy_replay sha r event stored_hash q then Inr (Some (event, r))
            else if can_skip_conflict_for_legal_entity_repair sha cal r q then Inr None
            else Inl (ProposalIdempotencyConflictError
                   ''POLICY_EVALUATION_IDEMPOTENCY_KEY_CONFLICT'')))"

end
