(* ===== verification/Policy_Persistence.thy ===== *)
theory Policy_Persistence
  imports Policy_Store
begin

text \<open>
  The methods of the policy evaluation store (src/core/policy_packs/persistence_store.py,
  persistence.py, persistence_projection.py, persistence_replay.py): finalizing an evaluation,
  appending an audit event, the views, and the replay comparison.
\<close>

section \<open>Finalizing an evaluation\<close>

record persistence_result =
  px_record :: policy_record
  px_created :: bool
  px_replayed :: bool
  px_audit_event :: "policy_event option"

definition trusted_principal_from_reason :: "json_dict \<Rightarrow> json_dict" where
  "trusted_principal_from_reason reason =
     (case obj_get reason ''trusted_principal'' of
        JObj p \<Rightarrow> [(''trusted_principal'', JObj p)]
      | _ \<Rightarrow> [])"

definition finalize_policy_evaluation_record ::
  "(string \<Rightarrow> string) \<Rightarrow> calendar \<Rightarrow> policy_catalog \<Rightarrow> json_dict \<Rightarrow> string \<Rightarrow> string \<Rightarrow> string \<Rightarrow>
   string \<Rightarrow> string \<Rightarrow> string option \<Rightarrow> json_dict \<Rightarrow> string option \<Rightarrow> timestamp \<Rightarrow> timestamp \<Rightarrow>
   policy_store \<Rightarrow> proposal_error + policy_store \<times> persistence_result" where
  "finalize_policy_evaluation_record sha cal catalog evidence_bundle policy_pack_id policy_version
     proposal_id proposal_version_id created_by raw_key reason observed_trace_id generated_at
     event_at s =
     rbind (require_proposal_idempotency_key raw_key) (\<lambda>idempotency_key.
     let source_evidence_hash = hash_canonical_payload sha (JObj evidence_bundle);
         request_hash = finalize_request_hash sha proposal_id proposal_version_id policy_pack_id
           policy_version source_evidence_hash (idempotency_stable_reason reason);
         identity = (proposal_id, proposal_version_id, policy_pack_id, policy_version,
           source_evidence_hash)
     in rbind (portfolio_id_from_evidence evidence_bundle) (\<lambda>portfolio_id.
     rbind (find_replayed_policy_event sha cal s idempotency_key request_hash
       \<lparr>rq_event_type = None, rq_actor_id = None, rq_evaluation_id = None,
        rq_evaluation_hash = None, rq_proposal_id = Some proposal_id,
        rq_proposal_version_id = Some proposal_version_id,
        rq_policy_pack_id = Some policy_pack_id, rq_policy_version = Some policy_version,
        rq_portfolio_id = portfolio_id, rq_source_evidence_hash = Some source_evidence_hash,
        rq_evidence_bundle = Some evidence_bundle, rq_reason = Some reason\<rparr>) (\<lambda>replayed.
     case replayed of
       Some (event, r) \<Rightarrow>
         Inr (s, \<lparr>px_record = r, px_created = False, px_replayed = True,
                  px_audit_event = Some event\<rparr>)
     | None \<Rightarrow>
         (case dict_get (st_identity_index s) identity of
            Some existing_id \<Rightarrow>
              rbind (load_policy_record s existing_id) (\<lambda>r.
                case dict_list (st_events s) existing_id of
                  [] \<Rightarrow> Inl (PyException ''IndexError'' ''list index out of range'')
                | event # later \<Rightarrow>
                    Inr (s\<lparr>st_idempotency := dict_set idempotency_key
                             (request_hash, existing_id, pu_event_id event) (st_idempotency s)\<rparr>,
                         \<lparr>px_record = r, px_created = False, px_replayed = False,
                          px_audit_event = Some event\<rparr>))
          | None \<Rightarrow>
              rbind (evaluate_policy_pack_version evidence_bundle policy_pack_id policy_version
                catalog) (\<lambda>evaluation.
              rbind (get_policy_pack_version policy_pack_id policy_version catalog) (\<lambda>detail.
              rbind (build_policy_evaluation_record sha cal evaluation evidence_bundle proposal_id
                proposal_version_id created_by source_evidence_hash
                (ps_content_hash (pd_policy_pack detail)) idempotency_key reason observed_trace_id
                generated_at) (\<lambda>r.
              let event = policy_store_event s r PolicyFinalized created_by (Some idempotency_key)
                    request_hash
                    ([(''evaluation_status'', JStr (policy_status_name (po_evaluation_status r))),
                      (''policy_content_hash'', JStr (po_policy_content_hash r)),
                      (''source_evidence_hash'', JStr (po_source_evidence_hash r)),
                      (''evaluation_hash'', JStr (po_evaluation_hash r)),
                      (''finalization_reason'', JObj reason)] @
                     trusted_principal_from_reason reason) event_at
              in Inr (s\<lparr>st_records := dict_set (po_evaluation_id r) r (st_records s),
                        st_events := dict_set (po_evaluation_id r) [event] (st_events s),
                        st_identity_index :=
                          dict_set identity (po_evaluation_id r) (st_identity_index s),
                        st_idempotency := dict_set idempotency_key
                          (request_hash, po_evaluation_id r, pu_event_id event)
                          (st_idempotency s)\<rparr>,
                      \<lparr>px_record = r, px_created = True, px_replayed = False,
                       px_audit_event = Some event\<rparr>))))))))"

section \<open>Audit events\<close>

definition attach_policy_evaluation_event :: "policy_event \<Rightarrow> policy_record \<Rightarrow> policy_record" where
  "attach_policy_evaluation_event event r =
     (let payload = policy_event_json event in
      case pu_event_type event of
        PolicyReviewRecorded \<Rightarrow> r\<lparr>po_review_events_json := po_review_events_json r @ [payload]\<rparr>
      | PolicySignOffRecorded \<Rightarrow>
          r\<lparr>po_sign_off_events_json := po_sign_off_events_json r @ [payload]\<rparr>
      | PolicyReportArchiveRecorded \<Rightarrow>
          r\<lparr>po_report_archive_refs_json := po_report_archive_refs_json r @ [payload]\<rparr>
      | _ \<Rightarrow> r)"

definition append_policy_evaluation_event ::
  "(string \<Rightarrow> string) \<Rightarrow> calendar \<Rightarrow> string \<Rightarrow> policy_event_type \<Rightarrow> string \<Rightarrow> json_dict \<Rightarrow>
   string option \<Rightarrow> event_authority option \<Rightarrow> timestamp \<Rightarrow> policy_store \<Rightarrow>
   proposal_error + policy_store \<times> policy_event" where
  "append_policy_evaluation_event sha cal evaluation_id event_type actor_id reason raw_key authority
     now s =
     (let idempotency_key = normalize_optional_idempotency_key raw_key in
      rbind (load_policy_record s evaluation_id) (\<lambda>r.
      rbind (validate_policy_evaluation_event_authority event_type reason (po_evaluation_hash r)
        authority) (\<lambda>_.
      let request_hash = hash_canonical_payload sha
            (JObj [(''operation'', JStr (policy_event_type_name event_type)),
                   (''evaluation_id'', JStr evaluation_id), (''actor_id'', JStr actor_id),
                   (''reason'', idempotency_stable_reason reason),
                   (''evaluation_hash'', JStr (po_evaluation_hash r))])
      in rbind (case idempotency_key of
                  None \<Rightarrow> Inr None
                | Some key \<Rightarrow>
                    find_replayed_policy_event sha cal s key request_hash
                      \<lparr>rq_event_type = Some event_type, rq_actor_id = Some actor_id,
                       rq_evaluation_id = Some evaluation_id,
                       rq_evaluation_hash = Some (po_evaluation_hash r), rq_proposal_id = None,
                       rq_proposal_version_id = None, rq_policy_pack_id = None,
                       rq_policy_version = None, rq_portfolio_id = None,
                       rq_source_evidence_hash = None, rq_evidence_bundle = None,
                       rq_reason = Some reason\<rparr>) (\<lambda>replayed.
      case replayed of
        Some (event, r') \<Rightarrow> Inr (s, event)
      | None \<Rightarrow>
          (let event = policy_store_event s r event_type actor_id idempotency_key request_hash
                 reason now;
               s1 = s\<lparr>st_events := dict_push evaluation_id event (st_events s),
                      st_records := dict_set evaluation_id
                        (attach_policy_evaluation_event event r) (st_records s)\<rparr>
           in Inr (case idempotency_key of
                     None \<Rightarrow> s1
                   | Some key \<Rightarrow>
                       s1\<lparr>st_idempotency := dict_set key
                            (request_hash, evaluation_id, pu_event_id event) (st_idempotency s1)\<rparr>,
                   event))))))"

section \<open>Views\<close>

definition list_policy_evaluation_events ::
  "string \<Rightarrow> policy_store \<Rightarrow> proposal_error + policy_event list" where
  "list_policy_evaluation_events evaluation_id s =
     rbind (load_policy_record s evaluation_id) (\<lambda>_. Inr (dict_list (st_events s) evaluation_id))"

definition policy_record_matches :: "string option \<Rightarrow> string option \<Rightarrow> policy_record \<Rightarrow> bool" where
  "policy_record_matches evaluation_status portfolio_id r \<longleftrightarrow>
     (truthy evaluation_status \<longrightarrow>
        policy_status_name (po_evaluation_status r) = the evaluation_status) \<and>
     (truthy portfolio_id \<longrightarrow> po_portfolio_id r = the portfolio_id)"

definition list_policy_evaluation_records ::
  "string option \<Rightarrow> string option \<Rightarrow> policy_store \<Rightarrow> policy_record list" where
  "list_policy_evaluation_records evaluation_status portfolio_id s =
     sort_key po_generated_at
       (filter (policy_record_matches evaluation_status portfolio_id) (dict_values (st_records s)))"

definition get_policy_evaluation_review_queue ::
  "string option \<Rightarrow> string option \<Rightarrow> policy_store \<Rightarrow> policy_record list \<times> json_dict" where
  "get_policy_evaluation_review_queue evaluation_status portfolio_id s =
     (list_policy_evaluation_records evaluation_status portfolio_id s,
      policy_runtime_supportability)"

record policy_lineage =
  pl_evaluation_id :: string
  pl_proposal_id :: string
  pl_proposal_version_id :: string
  pl_policy_pack_id :: string
  pl_policy_version :: string
  pl_policy_content_hash :: string
  pl_source_evidence_hash :: string
  pl_evaluation_hash :: string
  pl_rule_result_hashes :: "(string, string) dict"
  pl_source_refs :: "string list"
  pl_source_gaps :: "string list"
  pl_audit_events :: "policy_event list"
  pl_lineage_posture :: json_dict

definition build_policy_evaluation_lineage_response ::
  "policy_record \<Rightarrow> policy_event list \<Rightarrow> policy_lineage" where
  "build_policy_evaluation_lineage_response r audit_events =
     \<lparr>pl_evaluation_id = po_evaluation_id r, pl_proposal_id = po_proposal_id r,
      pl_proposal_version_id = po_proposal_version_id r,
      pl_policy_pack_id = po_policy_pack_id r, pl_policy_version = po_policy_version r,
      pl_policy_content_hash = po_policy_content_hash r,
      pl_source_evidence_hash = po_source_evidence_hash r,
      pl_evaluation_hash = po_evaluation_hash r,
      pl_rule_result_hashes = po_rule_result_hashes r, pl_source_refs = po_source_refs r,
      pl_source_gaps = po_source_gaps r, pl_audit_events = audit_events,
      pl_lineage_posture = policy_runtime_supportability\<rparr>"

definition get_policy_evaluation_lineage ::
  "string \<Rightarrow> policy_store \<Rightarrow> proposal_error + policy_lineage" where
  "get_policy_evaluation_lineage evaluation_id s =
     rbind (load_policy_record s evaluation_id) (\<lambda>r.
       Inr (build_policy_evaluation_lineage_response r (dict_list (st_events s) evaluation_id)))"

record sign_off_package =
  sp_evaluation :: policy_record
  sp_lineage :: policy_lineage
  sp_package_posture :: json_dict

definition get_policy_evaluation_sign_off_package ::
  "string \<Rightarrow> policy_store \<Rightarrow> proposal_error + sign_off_package" where
  "get_policy_evaluation_sign_off_package evaluation_id s =
     rbind (load_policy_record s evaluation_id) (\<lambda>r.
       Inr \<lparr>sp_evaluation = r,
            sp_lineage = build_policy_evaluation_lineage_response r
              (dict_list (st_events s) evaluation_id),
            sp_package_posture = policy_sign_off_package_posture\<rparr>)"

section \<open>Replay\<close>

text \<open>The stored half of the comparison.\<close>

definition stored_comparison :: "policy_record \<Rightarrow> policy_pack_detail option \<Rightarrow> json_dict" where
  "stored_comparison r detail =
     (let field = (\<lambda>f. case detail of None \<Rightarrow> JNull | Some d \<Rightarrow> JStr (f (pd_policy_pack d)));
          same = (\<lambda>f v. JBool (case detail of None \<Rightarrow> False | Some d \<Rightarrow> f (pd_policy_pack d) = v))
      in [(''stored_policy_version'', JStr (po_policy_version r)),
          (''current_policy_version'', field ps_policy_version),
          (''policy_version_matches'', same ps_policy_version (po_policy_version r)),
          (''stored_policy_content_hash'', JStr (po_policy_content_hash r)),
          (''current_policy_content_hash'', field ps_content_hash),
          (''policy_content_hash_matches'', same ps_content_hash (po_policy_content_hash r)),
          (''policy_activation_state'',
           case detail of None \<Rightarrow> JStr ''UNAVAILABLE''
           | Some d \<Rightarrow> JStr (ps_activation_state (pd_policy_pack d))),
          (''stored_source_evidence_hash'', JStr (po_source_evidence_hash r)),
          (''replayed_source_evidence_hash'', JStr (po_source_evidence_hash r)),
          (''source_evidence_hash_matches'', JBool True),
          (''stored_evaluation_hash'', JStr (po_evaluation_hash r)),
          (''replayed_evaluation_hash'', JStr (po_evaluation_hash r)),
          (''evaluation_hash_matches'', JBool True),
          (''replay_reason_code'', JStr ''POLICY_REPLAY_STORED_ONLY'')])"

definition replay_reason_code :: "policy_record \<Rightarrow> policy_pack_detail option \<Rightarrow> string" where
  "replay_reason_code r detail =
     (case detail of
        None \<Rightarrow> ''POLICY_DEFINITION_UNAVAILABLE_FOR_REPLAY''
      | Some d \<Rightarrow>
          if ps_content_hash (pd_policy_pack d) \<noteq> po_policy_content_hash r
          then ''POLICY_CONTENT_HASH_DRIFT_REPLAY_BLOCKED''
          else if ps_activation_state (pd_policy_pack d) \<notin> {''ACTIVE'', ''SUPERSEDED'', ''DISABLED''}
          then ''POLICY_VERSION_NOT_REPLAY_ELIGIBLE''
          else ''POLICY_REPLAY_ELIGIBLE'')"

text \<open>The replayed evaluation, with the activation state the record was made under.\<close>

definition evaluation_payload_for_hash ::
  "policy_record \<Rightarrow> policy_evaluation \<Rightarrow> policy_evaluation" where
  "evaluation_payload_for_hash r replayed =
     (case obj_get (dict_at (po_evaluation_json r) ''policy_pack'') ''activation_state'' of
        JStr state \<Rightarrow>
          replayed\<lparr>pev_policy_pack := (pev_policy_pack replayed)\<lparr>ps_activation_state := state\<rparr>\<rparr>
      | _ \<Rightarrow> replayed)"

record replay_response =
  rp_evaluation_id :: string
  rp_replay_contract_version :: string
  rp_policy_pack_id :: string
  rp_policy_version :: string
  rp_source_refs :: "string list"
  rp_source_gaps :: "string list"
  rp_hash_comparison :: json_dict
  rp_replay_metadata :: json_dict

definition replay_comparison ::
  "(string \<Rightarrow> string) \<Rightarrow> policy_catalog \<Rightarrow> policy_record \<Rightarrow> policy_pack_detail option \<Rightarrow> json_dict \<Rightarrow>
   proposal_error + json_dict" where
  "replay_comparison sha catalog r detail evidence_bundle =
     (let replayed_source_hash = hash_canonical_payload sha (JObj evidence_bundle);
          reason_code = replay_reason_code r detail
      in rbind (if reason_code = ''POLICY_REPLAY_ELIGIBLE''
                then rbind (evaluate_policy_pack_version_for_replay evidence_bundle
                       (po_policy_pack_id r) (po_policy_version r) catalog) (\<lambda>evaluation.
                     let replayed_hash = policy_evaluation_hash sha
                           (evaluation_payload_for_hash r evaluation) replayed_source_hash
                           (po_policy_content_hash r)
                     in Inr (JStr replayed_hash,
                             if replayed_source_hash = po_source_evidence_hash r \<and>
                                replayed_hash = po_evaluation_hash r
                             then ''POLICY_REPLAY_EXACT_MATCH'' else ''POLICY_REPLAY_HASH_DRIFT''))
                else Inr (JNull, reason_code)) (\<lambda>(replayed_hash, code).
           Inr (dict_set ''replay_reason_code'' (JStr code)
                 (dict_set ''evaluation_hash_matches''
                    (JBool (replayed_hash = JStr (po_evaluation_hash r)))
                   (dict_set ''replayed_evaluation_hash'' replayed_hash
                     (dict_set ''source_evidence_hash_matches''
                        (JBool (replayed_source_hash = po_source_evidence_hash r))
                       (dict_set ''replayed_source_evidence_hash'' (JStr replayed_source_hash)
                         (stored_comparison r detail))))))))"

definition build_policy_evaluation_replay_response ::
  "(string \<Rightarrow> string) \<Rightarrow> policy_catalog \<Rightarrow> policy_record \<Rightarrow> json_dict option \<Rightarrow>
   proposal_error + replay_response" where
  "build_policy_evaluation_replay_response sha catalog r evidence_bundle =
     (let detail = (case get_policy_pack_version (po_policy_pack_id r) (po_policy_version r) catalog
                    of Inl e \<Rightarrow> None | Inr d \<Rightarrow> Some d)
      in rbind (case evidence_bundle of
                  None \<Rightarrow> Inr (stored_comparison r detail)
                | Some bundle \<Rightarrow> replay_comparison sha catalog r detail bundle) (\<lambda>comparison.
           Inr \<lparr>rp_evaluation_id = po_evaluation_id r,
                rp_replay_contract_version = POLICY_EVALUATION_PERSISTENCE_CONTRACT_VERSION,
                rp_policy_pack_id = po_policy_pack_id r,
                rp_policy_version = po_policy_version r, rp_source_refs = po_source_refs r,
                rp_source_gaps = po_source_gaps r, rp_hash_comparison = comparison,
                rp_replay_metadata = po_replay_metadata_json r\<rparr>))"

definition replay_policy_evaluation_record ::
  "(string \<Rightarrow> string) \<Rightarrow> policy_catalog \<Rightarrow> string \<Rightarrow> json_dict option \<Rightarrow> policy_store \<Rightarrow>
   proposal_error + replay_response" where
  "replay_policy_evaluation_record sha catalog evaluation_id evidence_bundle s =
     rbind (load_policy_record s evaluation_id) (\<lambda>r.
       build_policy_evaluation_replay_response sha catalog r evidence_bundle)"

end
