(* ===== verification/Policy_Signoff.thy ===== *)
theory Policy_Signoff
  imports Policy_Persistence
begin

text \<open>
  The sign-off of a policy evaluation (src/core/policy_packs/workflow.py, workflow_decision.py,
  workflow_projection.py, workflow_conflict_projection.py, workflow_models.py): the requirements an
  evaluation leaves open, the conflict posture, the blockers, and the decision command.
\<close>

section \<open>Conflict posture\<close>

record conflict_posture =
  cp_status :: string
  cp_reason_codes :: "string list"
  cp_blockers :: "string list"
  cp_review_outcome :: "string option"

definition conflict_rule_results :: "policy_record \<Rightarrow> json_dict list" where
  "conflict_rule_results r =
     filter (\<lambda>result. contains_text ''CONFLICT''
               (case dict_get result ''rule_id'' of None \<Rightarrow> [] | Some v \<Rightarrow> py_str v))
       (dict_items (list_at (po_evaluation_json r) ''rule_results''))"

definition conflict_evidence_from_record :: "policy_record \<Rightarrow> string list \<times> string list" where
  "conflict_evidence_from_record r =
     (concat (map (\<lambda>result. str_items (list_at result ''reason_codes'')) (conflict_rule_results r)),
      concat (map (\<lambda>result. str_items (list_at result ''required_actions''))
        (conflict_rule_results r)))"

definition conflict_review_outcomes :: "policy_event list \<Rightarrow> string list" where
  "conflict_review_outcomes events =
     map py_str (filter json_truthy
       (map (\<lambda>e. obj_get (pu_reason_json e) ''conflict_review_outcome'') events))"

definition material_conflict_blocks_workflow :: "string list \<Rightarrow> string list \<Rightarrow> bool" where
  "material_conflict_blocks_workflow reason_codes blockers \<longleftrightarrow>
     list_ex (contains_text ''MATERIAL_CONFLICT'') reason_codes \<or>
     list_ex (\<lambda>b. b \<in> {''SUPERVISORY_CONFLICT_REVIEW'', ''REVIEW_CONFLICT_OF_INTEREST''}) blockers"

definition conflict_posture_for_workflow ::
  "policy_record \<Rightarrow> policy_event list \<Rightarrow> conflict_posture" where
  "conflict_posture_for_workflow r events =
     (let (reason_codes, blockers) = conflict_evidence_from_record r;
          outcomes = conflict_review_outcomes events;
          blocked = material_conflict_blocks_workflow reason_codes blockers
      in if ''NO_MATERIAL_CONFLICT_REMAINING'' \<in> set outcomes
         then \<lparr>cp_status = ''SATISFIED'', cp_reason_codes = unique_strings reason_codes,
               cp_blockers = [], cp_review_outcome = Some ''NO_MATERIAL_CONFLICT_REMAINING''\<rparr>
         else \<lparr>cp_status = (if blocked then ''BLOCKED'' else ''SATISFIED''),
               cp_reason_codes = unique_strings reason_codes,
               cp_blockers = (if blocked then unique_strings blockers else []),
               cp_review_outcome = (if outcomes = [] then None else Some (last outcomes))\<rparr>)"

section \<open>Requirements\<close>

record requirement_projection =
  req_requirement_id :: string
  req_requirement_type :: string
  req_status :: string
  req_owner_role :: string
  req_review_sla :: "string option"
  req_due_at :: "string option"
  req_reason_codes :: "string list"

definition owner_role_of :: "string \<Rightarrow> string" where
  "owner_role_of requirement_id =
     (if has_prefix ''SUPERVISORY_'' requirement_id then ''SUPERVISOR''
      else if has_prefix ''POLICY_STEWARD_'' requirement_id then ''POLICY_STEWARD''
      else if contains_text ''DISCLOSURE'' requirement_id then ''INVESTMENT_COUNSELLOR''
      else if contains_text ''CONFLICT'' requirement_id then ''SUPERVISOR''
      else ''ADVISOR'')"

definition review_sla_for_requirement :: "string \<Rightarrow> string \<Rightarrow> string" where
  "review_sla_for_requirement requirement_id role =
     (if role = ''SUPERVISOR'' \<or> contains_text ''CONFLICT'' requirement_id then ''P2D'' else ''P1D'')"

definition parse_datetime :: "calendar \<Rightarrow> string \<Rightarrow> proposal_error + timestamp" where
  "parse_datetime cal value =
     (case cal_instant cal value of
        None \<Rightarrow> Inl (PyValueError ''Invalid isoformat string'')
      | Some t \<Rightarrow> Inr t)"

definition MICROSECONDS_PER_DAY :: int where
  "MICROSECONDS_PER_DAY = 86400000000"

definition due_at_for_requirement ::
  "calendar \<Rightarrow> string \<Rightarrow> string \<Rightarrow> proposal_error + string option" where
  "due_at_for_requirement cal generated_at review_sla =
     rbind (parse_datetime cal generated_at) (\<lambda>generated.
       Inr (if review_sla = ''P2D'' then Some (isoformat (generated + 2 * MICROSECONDS_PER_DAY))
            else if review_sla = ''P1D'' then Some (isoformat (generated + MICROSECONDS_PER_DAY))
            else None))"

definition is_overdue :: "calendar \<Rightarrow> string option \<Rightarrow> timestamp \<Rightarrow> proposal_error + bool" where
  "is_overdue cal due_at now =
     (case due_at of
        None \<Rightarrow> Inr False
      | Some text \<Rightarrow> rbind (parse_datetime cal text) (\<lambda>t. Inr (t < now)))"

definition requirement_projection_of ::
  "calendar \<Rightarrow> string \<Rightarrow> timestamp \<Rightarrow> string \<Rightarrow> string \<Rightarrow> bool \<Rightarrow> string \<Rightarrow>
   proposal_error + requirement_projection" where
  "requirement_projection_of cal generated_at now requirement_type role satisfied requirement_id =
     (let review_sla = review_sla_for_requirement requirement_id role in
      rbind (due_at_for_requirement cal generated_at review_sla) (\<lambda>due_at.
      rbind (is_overdue cal due_at now) (\<lambda>overdue.
        Inr \<lparr>req_requirement_id = requirement_id, req_requirement_type = requirement_type,
             req_status = (if satisfied then ''SATISFIED'' else ''OPEN''), req_owner_role = role,
             req_review_sla = Some review_sla, req_due_at = due_at,
             req_reason_codes =
               [if satisfied then ''POLICY_REQUIREMENT_SATISFIED''
                else if overdue then ''POLICY_REQUIREMENT_OVERDUE''
                else ''POLICY_REQUIREMENT_OPEN'']\<rparr>)))"

definition is_approved_sign_off_event :: "policy_event \<Rightarrow> bool" where
  "is_approved_sign_off_event event \<longleftrightarrow>
     pu_event_type event = PolicySignOffRecorded \<and>
     obj_get (pu_reason_json event) ''decision'' = JStr ''APPROVE_FOR_POLICY_SIGN_OFF''"

definition latest_sign_off_event :: "policy_event list \<Rightarrow> policy_event option" where
  "latest_sign_off_event events =
     find (\<lambda>e. pu_event_type e = PolicySignOffRecorded) (rev events)"

definition approved_sign_off_values :: "policy_event list \<Rightarrow> string \<Rightarrow> string set" where
  "approved_sign_off_values events key =
     set (concat (map (\<lambda>e. str_items (list_at (pu_reason_json e) key))
       (filter is_approved_sign_off_event events)))"

definition approval_requirement_projections ::
  "calendar \<Rightarrow> policy_record \<Rightarrow> timestamp \<Rightarrow> string set \<Rightarrow>
   proposal_error + requirement_projection list" where
  "approval_requirement_projections cal r now satisfied_values =
     collect_results (map (\<lambda>item.
       requirement_projection_of cal (po_generated_at r) now ''approval'' (owner_role_of item)
         (item \<in> satisfied_values) item) (po_approval_dependencies r))"

definition fixed_owner_requirement_projections ::
  "calendar \<Rightarrow> string list \<Rightarrow> string \<Rightarrow> string \<Rightarrow> string \<Rightarrow> timestamp \<Rightarrow> string set \<Rightarrow>
   proposal_error + requirement_projection list" where
  "fixed_owner_requirement_projections cal requirement_ids requirement_type role generated_at now
     satisfied_values =
     collect_results (map (\<lambda>item.
       requirement_projection_of cal generated_at now requirement_type role
         (item \<in> satisfied_values) item) requirement_ids)"

section \<open>Blockers and status\<close>

definition open_requirement_blockers :: "requirement_projection list \<Rightarrow> string list" where
  "open_requirement_blockers requirements =
     map (\<lambda>q. upper_str (req_requirement_type q) @ ''_REQUIREMENT_OPEN:'' @ req_requirement_id q)
       (filter (\<lambda>q. req_status q \<noteq> ''SATISFIED'') requirements)"

definition conflict_posture_blockers :: "conflict_posture \<Rightarrow> string list" where
  "conflict_posture_blockers posture =
     (if cp_status posture \<noteq> ''BLOCKED'' then [] else cp_blockers posture)"

definition evaluation_status_blockers :: "policy_status \<Rightarrow> string list" where
  "evaluation_status_blockers status =
     (if status \<noteq> PolicyBlocked then [] else [''BLOCKED_POLICY_EVALUATION_CANNOT_BE_SIGNED_OFF''])"

definition workflow_blockers ::
  "policy_record \<Rightarrow> requirement_projection list \<Rightarrow> conflict_posture \<Rightarrow> string list" where
  "workflow_blockers r requirements posture =
     unique_strings (open_requirement_blockers requirements @ conflict_posture_blockers posture @
       evaluation_status_blockers (po_evaluation_status r))"

definition sign_off_has_blocking_conflict :: "string list \<Rightarrow> policy_status \<Rightarrow> bool" where
  "sign_off_has_blocking_conflict blockers status \<longleftrightarrow>
     status = PolicyBlocked \<or> list_ex (contains_text ''CONFLICT'') blockers"

definition sign_off_status_of ::
  "string list \<Rightarrow> policy_event option \<Rightarrow> policy_status \<Rightarrow> string" where
  "sign_off_status_of blockers latest_sign_off status =
     (if (case latest_sign_off of None \<Rightarrow> False | Some e \<Rightarrow> is_approved_sign_off_event e)
      then ''SIGNED_OFF''
      else if sign_off_has_blocking_conflict blockers status then ''BLOCKED''
      else if blockers \<noteq> [] then ''PENDING_REVIEW''
      else ''READY_FOR_SIGN_OFF'')"

record sla_posture =
  sl_status :: string
  sl_open_requirement_count :: nat
  sl_overdue_requirement_ids :: "string list"
  sl_as_of :: string

definition sla_posture_of ::
  "calendar \<Rightarrow> requirement_projection list \<Rightarrow> timestamp \<Rightarrow> proposal_error + sla_posture" where
  "sla_posture_of cal requirements now =
     (let open_requirements = filter (\<lambda>q. req_status q \<noteq> ''SATISFIED'') requirements in
      rbind (collect_results (map (\<lambda>q. rbind (is_overdue cal (req_due_at q) now) (\<lambda>late.
               Inr (req_requirement_id q, late))) open_requirements)) (\<lambda>marks.
        let overdue = map fst (filter snd marks) in
        Inr \<lparr>sl_status = (if overdue \<noteq> [] then ''OVERDUE'' else ''WITHIN_SLA''),
             sl_open_requirement_count = length open_requirements,
             sl_overdue_requirement_ids = overdue, sl_as_of = isoformat now\<rparr>))"

section \<open>The workflow response\<close>

record workflow_metadata =
  wm_product_id :: string
  wm_product_version :: string
  wm_source_system :: string
  wm_evaluation_id :: string
  wm_proposal_id :: string
  wm_proposal_version_id :: string
  wm_portfolio_id :: string
  wm_policy_pack_id :: string
  wm_policy_version :: string
  wm_as_of_date :: string
  wm_generated_at :: string
  wm_content_hash :: string
  wm_evaluation_hash :: string
  wm_source_evidence_hash :: string
  wm_policy_content_hash :: string
  wm_freshness_state :: string
  wm_data_quality_status :: string
  wm_source_gap_count :: nat
  wm_source_gaps :: "string list"
  wm_client_ready_publication :: string
  wm_scope_identity :: receipt_scope
  wm_observed_correlation_id_hash :: string
  wm_observed_trace_id_hash :: string

record workflow_replay_metadata =
  wr_receipt_contract_version :: string
  wr_evaluation_id :: string
  wr_proposal_id :: string
  wr_proposal_version_id :: string
  wr_portfolio_id :: string
  wr_as_of_date :: string
  wr_policy_pack_id :: string
  wr_policy_version :: string
  wr_source_refs :: "string list"
  wr_source_gaps :: "string list"
  wr_source_evidence_hash :: string
  wr_evaluation_hash :: string
  wr_policy_content_hash :: string
  wr_replay_policy :: string
  wr_scope_identity :: receipt_scope
  wr_observed_correlation_id_hash :: string
  wr_observed_trace_id_hash :: string

record policy_workflow =
  wf_evaluation_id :: string
  wf_proposal_id :: string
  wf_proposal_version_id :: string
  wf_evaluation_status :: policy_status
  wf_approval_dependencies :: "requirement_projection list"
  wf_disclosure_requirements :: "requirement_projection list"
  wf_consent_requirements :: "requirement_projection list"
  wf_conflict_posture :: conflict_posture
  wf_sla_posture :: sla_posture
  wf_sign_off_status :: string
  wf_sign_off_blockers :: "string list"
  wf_maker_checker_required :: bool
  wf_latest_sign_off_event :: "policy_event option"
  wf_client_ready_publication :: string
  wf_metadata :: workflow_metadata
  wf_replay_metadata :: workflow_replay_metadata

definition workflow_lineage_metadata ::
  "(string \<Rightarrow> string) \<Rightarrow> calendar \<Rightarrow> policy_record \<Rightarrow> proposal_error + workflow_metadata" where
  "workflow_lineage_metadata sha cal r =
     rbind (receipt_identity_from_record sha cal r) (\<lambda>receipt.
       Inr \<lparr>wm_product_id = ''lotus-advise:AdvisoryPolicyEvaluationRecord:v1'',
            wm_product_version = ''v1'', wm_source_system = ''LOTUS_ADVISE'',
            wm_evaluation_id = po_evaluation_id r, wm_proposal_id = po_proposal_id r,
            wm_proposal_version_id = po_proposal_version_id r,
            wm_portfolio_id = po_portfolio_id r, wm_policy_pack_id = po_policy_pack_id r,
            wm_policy_version = po_policy_version r, wm_as_of_date = ri_as_of_date receipt,
            wm_generated_at = po_generated_at r, wm_content_hash = po_evaluation_hash r,
            wm_evaluation_hash = po_evaluation_hash r,
            wm_source_evidence_hash = po_source_evidence_hash r,
            wm_policy_content_hash = po_policy_content_hash r, wm_freshness_state = ''current'',
            wm_data_quality_status = (if po_source_gaps r \<noteq> [] then ''incomplete'' else ''complete''),
            wm_source_gap_count = length (po_source_gaps r), wm_source_gaps = po_source_gaps r,
            wm_client_ready_publication = CLIENT_READY_PUBLICATION_POSTURE,
            wm_scope_identity = ri_scope_identity receipt,
            wm_observed_correlation_id_hash = ri_observed_correlation_id_hash receipt,
            wm_observed_trace_id_hash = ri_observed_trace_id_hash receipt\<rparr>)"

definition workflow_replay_metadata_of ::
  "(string \<Rightarrow> string) \<Rightarrow> calendar \<Rightarrow> policy_record \<Rightarrow> proposal_error + workflow_replay_metadata"
where
  "workflow_replay_metadata_of sha cal r =
     rbind (receipt_identity_from_record sha cal r) (\<lambda>receipt.
     rbind (case dict_get (po_replay_metadata_json r) ''replay_policy'' of
              None \<Rightarrow> Inr ''EXACT_SOURCE_HASH_MATCH'' | Some v \<Rightarrow> json_text v) (\<lambda>replay_policy.
       Inr \<lparr>wr_receipt_contract_version = RECEIPT_IDENTITY_CONTRACT_VERSION,
            wr_evaluation_id = po_evaluation_id r, wr_proposal_id = po_proposal_id r,
            wr_proposal_version_id = po_proposal_version_id r,
            wr_portfolio_id = po_portfolio_id r, wr_as_of_date = ri_as_of_date receipt,
            wr_policy_pack_id = po_policy_pack_id r, wr_policy_version = po_policy_version r,
            wr_source_refs = po_source_refs r, wr_source_gaps = po_source_gaps r,
            wr_source_evidence_hash = po_source_evidence_hash r,
            wr_evaluation_hash = po_evaluation_hash r,
            wr_policy_content_hash = po_policy_content_hash r, wr_replay_policy = replay_policy,
            wr_scope_identity = ri_scope_identity receipt,
            wr_observed_correlation_id_hash = ri_observed_correlation_id_hash receipt,
            wr_observed_trace_id_hash = ri_observed_trace_id_hash receipt\<rparr>))"

definition build_policy_evaluation_workflow_projection ::
  "(string \<Rightarrow> string) \<Rightarrow> calendar \<Rightarrow> policy_record \<Rightarrow> policy_event list \<Rightarrow> timestamp \<Rightarrow>
   proposal_error + policy_workflow" where
  "build_policy_evaluation_workflow_projection sha cal r events now =
     (let latest_sign_off = latest_sign_off_event events;
          posture = conflict_posture_for_workflow r events in
      rbind (approval_requirement_projections cal r now
        (approved_sign_off_values events ''resolved_approval_dependencies'')) (\<lambda>approvals.
      rbind (fixed_owner_requirement_projections cal (po_disclosure_requirements r) ''disclosure''
        ''INVESTMENT_COUNSELLOR'' (po_generated_at r) now
        (approved_sign_off_values events ''satisfied_disclosure_requirements'')) (\<lambda>disclosures.
      rbind (fixed_owner_requirement_projections cal (po_consent_requirements r) ''consent''
        ''ADVISOR'' (po_generated_at r) now
        (approved_sign_off_values events ''satisfied_consent_requirements'')) (\<lambda>consents.
      let requirements = approvals @ disclosures @ consents;
          blockers = workflow_blockers r requirements posture
      in rbind (sla_posture_of cal requirements now) (\<lambda>sla.
         rbind (workflow_lineage_metadata sha cal r) (\<lambda>metadata.
         rbind (workflow_replay_metadata_of sha cal r) (\<lambda>replay_metadata.
           Inr \<lparr>wf_evaluation_id = po_evaluation_id r, wf_proposal_id = po_proposal_id r,
                wf_proposal_version_id = po_proposal_version_id r,
                wf_evaluation_status = po_evaluation_status r,
                wf_approval_dependencies = approvals, wf_disclosure_requirements = disclosures,
                wf_consent_requirements = consents, wf_conflict_posture = posture,
                wf_sla_posture = sla,
                wf_sign_off_status =
                  sign_off_status_of blockers latest_sign_off (po_evaluation_status r),
                wf_sign_off_blockers = blockers, wf_maker_checker_required = True,
                wf_latest_sign_off_event = latest_sign_off,
                wf_client_ready_publication = CLIENT_READY_PUBLICATION_POSTURE,
                wf_metadata = metadata, wf_replay_metadata = replay_metadata\<rparr>)))))))"

definition get_policy_evaluation_workflow ::
  "(string \<Rightarrow> string) \<Rightarrow> calendar \<Rightarrow> string \<Rightarrow> timestamp \<Rightarrow> policy_store \<Rightarrow>
   proposal_error + policy_workflow" where
  "get_policy_evaluation_workflow sha cal evaluation_id now s =
     rbind (load_policy_record s evaluation_id) (\<lambda>r.
     rbind (list_policy_evaluation_events evaluation_id s) (\<lambda>events.
       build_policy_evaluation_workflow_projection sha cal r events now))"

section \<open>The decision\<close>

datatype sign_off_decision =
    ApproveForPolicySignOff | RequestMoreEvidence | RejectPolicySignOff

fun sign_off_decision_name :: "sign_off_decision \<Rightarrow> string" where
  "sign_off_decision_name ApproveForPolicySignOff = ''APPROVE_FOR_POLICY_SIGN_OFF''"
| "sign_off_decision_name RequestMoreEvidence = ''REQUEST_MORE_EVIDENCE''"
| "sign_off_decision_name RejectPolicySignOff = ''REJECT_POLICY_SIGN_OFF''"

record sign_off_request =
  so_actor_id :: string
  so_decision :: sign_off_decision
  so_source_evaluation_hash :: string
  so_resolved_approval_dependencies :: "string list"
  so_satisfied_disclosure_requirements :: "string list"
  so_satisfied_consent_requirements :: "string list"
  so_conflict_review_outcome :: "string option"
  so_reason :: json_dict

definition missing_requirement_blockers ::
  "string list \<Rightarrow> string list \<Rightarrow> string \<Rightarrow> string list" where
  "missing_requirement_blockers record_values payload_values blocker_prefix =
     map (\<lambda>item. blocker_prefix @ '':'' @ item)
       (sorted_set (filter (\<lambda>v. v \<notin> set payload_values) record_values))"

definition approval_blockers :: "policy_record \<Rightarrow> sign_off_request \<Rightarrow> string list" where
  "approval_blockers r payload =
     missing_requirement_blockers (po_approval_dependencies r)
       (so_resolved_approval_dependencies payload) ''APPROVAL_DEPENDENCY_OPEN'' @
     missing_requirement_blockers (po_disclosure_requirements r)
       (so_satisfied_disclosure_requirements payload) ''DISCLOSURE_REQUIREMENT_OPEN'' @
     missing_requirement_blockers (po_consent_requirements r)
       (so_satisfied_consent_requirements payload) ''CONSENT_REQUIREMENT_OPEN''"

definition workflow_posture_blockers ::
  "policy_record \<Rightarrow> policy_workflow \<Rightarrow> sign_off_request \<Rightarrow> string list" where
  "workflow_posture_blockers r workflow payload =
     (if cp_status (wf_conflict_posture workflow) = ''BLOCKED'' \<and>
         so_conflict_review_outcome payload \<noteq> Some ''NO_MATERIAL_CONFLICT_REMAINING''
      then [''CONFLICT_REVIEW_OUTCOME_REQUIRED''] else []) @
     (if po_evaluation_status r = PolicyBlocked
      then [''BLOCKED_POLICY_EVALUATION_CANNOT_BE_SIGNED_OFF''] else [])"

definition validate_policy_sign_off_decision ::
  "policy_record \<Rightarrow> policy_workflow \<Rightarrow> sign_off_request \<Rightarrow> proposal_error + unit" where
  "validate_policy_sign_off_decision r workflow payload =
     (if so_actor_id payload = po_created_by r \<and> so_decision payload = ApproveForPolicySignOff
      then Inl (ProposalValidationError ''POLICY_EVALUATION_SIGN_OFF_REQUIRES_MAKER_CHECKER'')
      else if so_decision payload \<noteq> ApproveForPolicySignOff then Inr ()
      else if approval_blockers r payload @ workflow_posture_blockers r workflow payload \<noteq> []
      then Inl (ProposalValidationError ''POLICY_EVALUATION_SIGN_OFF_REQUIREMENTS_OPEN'')
      else Inr ())"

definition sign_off_event_type :: "sign_off_request \<Rightarrow> policy_event_type" where
  "sign_off_event_type payload =
     (if so_decision payload = ApproveForPolicySignOff then PolicySignOffRecorded
      else PolicyReviewRecorded)"

definition sign_off_event_reason :: "sign_off_request \<Rightarrow> json_dict" where
  "sign_off_event_reason payload =
     [(''workflow_contract_version'', JStr POLICY_WORKFLOW_CONTRACT_VERSION),
      (''decision'', JStr (sign_off_decision_name (so_decision payload))),
      (''source_evaluation_hash'', JStr (so_source_evaluation_hash payload)),
      (''resolved_approval_dependencies'', jstrs (so_resolved_approval_dependencies payload)),
      (''satisfied_disclosure_requirements'',
       jstrs (so_satisfied_disclosure_requirements payload)),
      (''satisfied_consent_requirements'', jstrs (so_satisfied_consent_requirements payload)),
      (''conflict_review_outcome'', opt_str (so_conflict_review_outcome payload)),
      (''client_ready_publication'', JStr CLIENT_READY_PUBLICATION_POSTURE),
      (''reason'', JObj (so_reason payload))]"

record sign_off_response =
  sr_workflow :: policy_workflow
  sr_sign_off_event :: policy_event
  sr_replay_metadata :: json_dict

text \<open>
  The command returns the store beside its result: the event stays when the projection of the
  response fails after it was stored.
\<close>

definition record_policy_evaluation_sign_off_decision ::
  "(string \<Rightarrow> string) \<Rightarrow> calendar \<Rightarrow> string \<Rightarrow> sign_off_request \<Rightarrow> string option \<Rightarrow> timestamp \<Rightarrow>
   timestamp \<Rightarrow> policy_store \<Rightarrow> policy_store \<times> (proposal_error + sign_off_response)" where
  "record_policy_evaluation_sign_off_decision sha cal evaluation_id payload raw_key decision_time
     event_at s =
     (case rbind (load_policy_record s evaluation_id) (\<lambda>r.
             if so_source_evaluation_hash payload \<noteq> po_evaluation_hash r
             then Inl (ProposalValidationError ''POLICY_EVALUATION_SIGN_OFF_HASH_MISMATCH'')
             else rbind (list_policy_evaluation_events evaluation_id s) (\<lambda>existing_events.
               rbind (build_policy_evaluation_workflow_projection sha cal r existing_events
                 decision_time) (\<lambda>workflow_before.
               rbind (validate_policy_sign_off_decision r workflow_before payload) (\<lambda>_.
               rbind (append_policy_evaluation_event sha cal evaluation_id
                 (sign_off_event_type payload) (so_actor_id payload) (sign_off_event_reason payload)
                 (normalize_optional_idempotency_key raw_key)
                 (if sign_off_event_type payload = PolicySignOffRecorded
                  then Some POLICY_SIGN_OFF_EVENT_AUTHORITY else None) event_at s)
                 (\<lambda>(s1, event). Inr (r, existing_events, s1, event)))))) of
        Inl e \<Rightarrow> (s, Inl e)
      | Inr (r, existing_events, s1, event) \<Rightarrow>
          (s1, rbind (build_policy_evaluation_workflow_projection sha cal r
                 (existing_events @ [event]) decision_time) (\<lambda>workflow.
               Inr \<lparr>sr_workflow = workflow, sr_sign_off_event = event,
                    sr_replay_metadata =
                      [(''workflow_contract_version'', JStr POLICY_WORKFLOW_CONTRACT_VERSION),
                       (''evaluation_hash'', JStr (po_evaluation_hash r)),
                       (''policy_pack_id'', JStr (po_policy_pack_id r)),
                       (''policy_version'', JStr (po_policy_version r)),
                       (''client_ready_publication'', JStr CLIENT_READY_PUBLICATION_POSTURE),
                       (''report_render_archive_realization'',
                        obj_get policy_sign_off_package_posture
                          ''report_render_archive_realization'')]\<rparr>)))"

section \<open>The system\<close>

text \<open>
  What clients can ask of the policy evaluations. The review event is the one event the API lets a
  client append by itself (\<open>PolicyEvaluationEventRequest\<close>); the report and AI commands append theirs
  with their own authority and a reason of their own.
\<close>

datatype policy_command =
    FinalizeEvaluation json_dict string string string string string "string option" json_dict
      "string option" timestamp timestamp
  | RecordReview string string json_dict "string option" timestamp
  | DecideSignOff string sign_off_request "string option" timestamp timestamp
  | AppendWithAuthority string string json_dict "string option" event_authority timestamp

fun run_policy_command ::
  "(string \<Rightarrow> string) \<Rightarrow> calendar \<Rightarrow> policy_catalog \<Rightarrow> policy_store \<Rightarrow> policy_command \<Rightarrow>
   policy_store \<times> proposal_error option" where
  "run_policy_command sha cal catalog s
     (FinalizeEvaluation bundle pack version pid vid actor key reason trace at1 at2) =
     (case finalize_policy_evaluation_record sha cal catalog bundle pack version pid vid actor key
             reason trace at1 at2 s of
        Inl e \<Rightarrow> (s, Some e) | Inr (s1, result) \<Rightarrow> (s1, None))"
| "run_policy_command sha cal catalog s (RecordReview evaluation_id actor reason key now) =
     (case append_policy_evaluation_event sha cal evaluation_id PolicyReviewRecorded actor reason
             key None now s of
        Inl e \<Rightarrow> (s, Some e) | Inr (s1, event) \<Rightarrow> (s1, None))"
| "run_policy_command sha cal catalog s (DecideSignOff evaluation_id payload key at1 at2) =
     (let (s1, result) = record_policy_evaluation_sign_off_decision sha cal evaluation_id payload
            key at1 at2 s
      in (s1, case result of Inl e \<Rightarrow> Some e | Inr response \<Rightarrow> None))"
| "run_policy_command sha cal catalog s
     (AppendWithAuthority evaluation_id actor reason key authority now) =
     (case append_policy_evaluation_event sha cal evaluation_id (ea_event_type authority) actor
             reason key (Some authority) now s of
        Inl e \<Rightarrow> (s, Some e) | Inr (s1, event) \<Rightarrow> (s1, None))"

end
