(* ===== verification/Policy_Laws.thy ===== *)
theory Policy_Laws
  imports Policy_Signoff
begin

text \<open>
  The invariant of the policy evaluation store and its preservation by every command: an event log
  belongs to its record, starts with the finalization and only grows, an evaluation is never
  rewritten, and a recorded sign-off was decided by another actor than the maker, on an evaluation
  that is not blocked, naming every open requirement.
\<close>

section \<open>What the commands keep\<close>

definition names_all :: "string list \<Rightarrow> policy_event \<Rightarrow> string \<Rightarrow> bool" where
  "names_all requirements e key \<longleftrightarrow>
     set requirements \<subseteq> set (str_items (list_at (pu_reason_json e) key))"

definition sign_off_justified :: "policy_record \<Rightarrow> policy_event \<Rightarrow> bool" where
  "sign_off_justified r e \<longleftrightarrow>
     pu_actor_id e \<noteq> po_created_by r \<and> po_evaluation_status r \<noteq> PolicyBlocked \<and>
     is_approved_sign_off_event e \<and>
     obj_get (pu_reason_json e) ''source_evaluation_hash'' = JStr (po_evaluation_hash r) \<and>
     names_all (po_approval_dependencies r) e ''resolved_approval_dependencies'' \<and>
     names_all (po_disclosure_requirements r) e ''satisfied_disclosure_requirements'' \<and>
     names_all (po_consent_requirements r) e ''satisfied_consent_requirements''"

definition event_of_record :: "policy_record \<Rightarrow> policy_event \<Rightarrow> bool" where
  "event_of_record r e \<longleftrightarrow>
     pu_evaluation_id e = po_evaluation_id r \<and> pu_content_hash e = po_evaluation_hash r \<and>
     (pu_event_type e = PolicySignOffRecorded \<longrightarrow> sign_off_justified r e)"

text \<open>The evaluation of a record: all of it but the three lists of attached events.\<close>

definition evaluation_part :: "policy_record \<Rightarrow> policy_record" where
  "evaluation_part r =
     r\<lparr>po_review_events_json := [], po_sign_off_events_json := [],
       po_report_archive_refs_json := []\<rparr>"

definition log_of_record :: "policy_record \<Rightarrow> policy_event list \<Rightarrow> bool" where
  "log_of_record r es \<longleftrightarrow>
     es \<noteq> [] \<and> pu_event_type (hd es) = PolicyFinalized \<and>
     (\<forall>e \<in> set (tl es). pu_event_type e \<noteq> PolicyFinalized) \<and>
     (\<forall>e \<in> set es. event_of_record r e)"

definition policy_inv :: "policy_store \<Rightarrow> bool" where
  "policy_inv s \<longleftrightarrow>
     (\<forall>i. case dict_get (st_records s) i of
            None \<Rightarrow> dict_list (st_events s) i = []
          | Some r \<Rightarrow> po_evaluation_id r = i \<and> log_of_record r (dict_list (st_events s) i))"

definition policy_later :: "policy_store \<Rightarrow> policy_store \<Rightarrow> bool" where
  "policy_later s s' \<longleftrightarrow>
     (\<forall>i r. dict_get (st_records s) i = Some r \<longrightarrow>
        (\<exists>r'. dict_get (st_records s') i = Some r' \<and> evaluation_part r' = evaluation_part r)) \<and>
     (\<forall>i. \<exists>es. dict_list (st_events s') i = dict_list (st_events s) i @ es)"

lemma policy_invD:
  assumes "policy_inv s" and "dict_get (st_records s) i = Some r"
  shows "po_evaluation_id r = i" and "log_of_record r (dict_list (st_events s) i)"
  using assms by (auto simp: policy_inv_def dest!: spec [of _ i])

lemma policy_inv_none:
  "policy_inv s \<Longrightarrow> dict_get (st_records s) i = None \<Longrightarrow> dict_list (st_events s) i = []"
  by (auto simp: policy_inv_def dest!: spec [of _ i])

lemma policy_invI:
  assumes "\<And>i. dict_get (st_records s) i = None \<Longrightarrow> dict_list (st_events s) i = []"
    and "\<And>i r. dict_get (st_records s) i = Some r \<Longrightarrow>
           po_evaluation_id r = i \<and> log_of_record r (dict_list (st_events s) i)"
  shows "policy_inv s"
  unfolding policy_inv_def using assms by (simp split: option.split)

lemma policy_inv_empty: "policy_inv empty_policy_store"
  by (simp add: policy_inv_def empty_policy_store_def)

lemma policy_later_refl [simp]: "policy_later s s"
  by (simp add: policy_later_def)

lemma policy_later_trans:
  assumes "policy_later s t" and "policy_later t u"
  shows "policy_later s u"
proof -
  have "\<exists>r'. dict_get (st_records u) i = Some r' \<and> evaluation_part r' = evaluation_part r"
    if "dict_get (st_records s) i = Some r" for i r
    using assms that unfolding policy_later_def by metis
  moreover have "\<exists>es. dict_list (st_events u) i = dict_list (st_events s) i @ es" for i
    using assms unfolding policy_later_def by (metis append.assoc)
  ultimately show ?thesis by (auto simp: policy_later_def)
qed

text \<open>The idempotency and identity tables play no part in either.\<close>

lemma policy_inv_cong:
  "st_records s' = st_records s \<Longrightarrow> st_events s' = st_events s \<Longrightarrow> policy_inv s' = policy_inv s"
  by (auto simp: policy_inv_def split: option.splits)

lemma policy_later_cong:
  "st_records s' = st_records s \<Longrightarrow> st_events s' = st_events s \<Longrightarrow> policy_later s s'"
  by (simp add: policy_later_def)

text \<open>Attaching an event leaves the evaluation alone.\<close>

lemma evaluation_part_attach [simp]:
  "evaluation_part (attach_policy_evaluation_event e r) = evaluation_part r"
  by (simp add: attach_policy_evaluation_event_def evaluation_part_def Let_def
      split: policy_event_type.splits)

lemma evaluation_part_simps [simp]:
  "po_evaluation_id (evaluation_part r) = po_evaluation_id r"
  "po_evaluation_hash (evaluation_part r) = po_evaluation_hash r"
  "po_created_by (evaluation_part r) = po_created_by r"
  "po_evaluation_status (evaluation_part r) = po_evaluation_status r"
  "po_approval_dependencies (evaluation_part r) = po_approval_dependencies r"
  "po_disclosure_requirements (evaluation_part r) = po_disclosure_requirements r"
  "po_consent_requirements (evaluation_part r) = po_consent_requirements r"
  by (simp_all add: evaluation_part_def)

lemma evaluation_part_fields:
  assumes "evaluation_part r' = evaluation_part r"
  shows "po_evaluation_id r' = po_evaluation_id r"
    "po_evaluation_hash r' = po_evaluation_hash r"
    "po_created_by r' = po_created_by r"
    "po_evaluation_status r' = po_evaluation_status r"
    "po_approval_dependencies r' = po_approval_dependencies r"
    "po_disclosure_requirements r' = po_disclosure_requirements r"
    "po_consent_requirements r' = po_consent_requirements r"
  using arg_cong [OF assms, of po_evaluation_id]
    arg_cong [OF assms, of po_evaluation_hash]
    arg_cong [OF assms, of po_created_by]
    arg_cong [OF assms, of po_evaluation_status]
    arg_cong [OF assms, of po_approval_dependencies]
    arg_cong [OF assms, of po_disclosure_requirements]
    arg_cong [OF assms, of po_consent_requirements]
  by simp_all

lemma event_of_record_part:
  assumes "evaluation_part r' = evaluation_part r"
  shows "event_of_record r' e = event_of_record r e"
  by (simp add: event_of_record_def sign_off_justified_def evaluation_part_fields [OF assms])

lemma log_of_record_part:
  assumes "evaluation_part r' = evaluation_part r"
  shows "log_of_record r' es = log_of_record r es"
  by (simp add: log_of_record_def event_of_record_part [OF assms])

lemma log_of_record_snoc:
  assumes "log_of_record r es" and "event_of_record r e" and "pu_event_type e \<noteq> PolicyFinalized"
  shows "log_of_record r (es @ [e])"
  using assms by (auto simp: log_of_record_def)

section \<open>Each operation\<close>

text \<open>One event at the end of one log, its record changed in the attached events only.\<close>

lemma push_keeps:
  assumes inv: "policy_inv s" and r: "dict_get (st_records s) i = Some r"
    and part: "evaluation_part r' = evaluation_part r"
    and e: "event_of_record r e" "pu_event_type e \<noteq> PolicyFinalized"
    and s': "st_records s' = dict_set i r' (st_records s)"
      "st_events s' = dict_push i e (st_events s)"
  shows "policy_inv s'" and "policy_later s s'"
proof -
  have "po_evaluation_id r' = i \<and> log_of_record r' (dict_list (st_events s) i @ [e])"
    using policy_invD [OF inv r] log_of_record_snoc [OF _ e] evaluation_part_fields(1) [OF part]
      log_of_record_part [OF part] by blast
  then show "policy_inv s'"
    using policy_inv_none [OF inv] policy_invD [OF inv]
    by (intro policy_invI) (auto simp: s' split: if_splits)
  show "policy_later s s'"
    using part r by (auto simp: policy_later_def s')
qed

text \<open>A new record with its first event.\<close>

lemma create_keeps:
  assumes inv: "policy_inv s" and new: "dict_get (st_records s) (po_evaluation_id r) = None"
    and e: "event_of_record r e" "pu_event_type e = PolicyFinalized"
    and s': "st_records s' = dict_set (po_evaluation_id r) r (st_records s)"
      "st_events s' = dict_set (po_evaluation_id r) [e] (st_events s)"
  shows "policy_inv s'" and "policy_later s s'"
proof -
  have list: "dict_list (st_events s') j =
      (if j = po_evaluation_id r then [e] else dict_list (st_events s) j)" for j
    by (simp add: dict_list_def s')
  have "log_of_record r [e]" using e by (simp add: log_of_record_def)
  then show "policy_inv s'"
    using policy_inv_none [OF inv] policy_invD [OF inv]
    by (intro policy_invI) (auto simp: s'(1) list split: if_splits)
  have "dict_list (st_events s) (po_evaluation_id r) = []"
    using policy_inv_none [OF inv new] .
  then show "policy_later s s'"
    using new by (auto simp: policy_later_def s'(1) list)
qed

lemma load_policy_recordD:
  "load_policy_record s i = Inr r \<Longrightarrow> dict_get (st_records s) i = Some r"
  by (simp add: load_policy_record_def split: option.splits)

text \<open>What appending does: nothing, on a replay, or one event of the request.\<close>

lemma append_event_effect:
  assumes "append_policy_evaluation_event sha cal i ty actor reason key auth now s = Inr (s', e)"
  obtains "s' = s"
  | r where "dict_get (st_records s) i = Some r"
      "validate_policy_evaluation_event_authority ty reason (po_evaluation_hash r) auth = Inr ()"
      "pu_evaluation_id e = po_evaluation_id r" "pu_content_hash e = po_evaluation_hash r"
      "pu_event_type e = ty" "pu_actor_id e = actor"
      "\<And>k. k \<noteq> ''persistence_contract_version'' \<Longrightarrow> k \<noteq> ''idempotency_request_hash'' \<Longrightarrow>
         obj_get (pu_reason_json e) k = obj_get reason k"
      "st_records s' = dict_set i (attach_policy_evaluation_event e r) (st_records s)"
      "st_events s' = dict_push i e (st_events s)"
  using assms
  by (fastforce simp: append_policy_evaluation_event_def rbind_eq_Inr Let_def policy_store_event_def
      obj_get_set dest!: load_policy_recordD split: option.splits if_splits prod.splits)

lemma str_items_jstrs [simp]: "str_items (map JStr xs) = xs"
  by (induction xs) (auto simp: str_items_def)

lemma no_missing_blockers:
  "missing_requirement_blockers required named p = [] \<longleftrightarrow> set required \<subseteq> set named"
  by (auto simp: missing_requirement_blockers_def filter_empty_conv)

text \<open>A sign-off request that passes the checks writes an event that justifies itself.\<close>

lemma decision_justified:
  assumes valid: "validate_policy_sign_off_decision r w payload = Inr ()"
    and ty: "sign_off_event_type payload = PolicySignOffRecorded"
    and hash: "so_source_evaluation_hash payload = po_evaluation_hash r"
    and e: "pu_event_type e = PolicySignOffRecorded" "pu_actor_id e = so_actor_id payload"
      "\<And>k. k \<noteq> ''persistence_contract_version'' \<Longrightarrow> k \<noteq> ''idempotency_request_hash'' \<Longrightarrow>
         obj_get (pu_reason_json e) k = obj_get (sign_off_event_reason payload) k"
  shows "sign_off_justified r e"
proof -
  have d: "so_decision payload = ApproveForPolicySignOff"
    using ty by (simp add: sign_off_event_type_def split: if_splits)
  have "obj_get (pu_reason_json e) ''decision'' = JStr ''APPROVE_FOR_POLICY_SIGN_OFF''"
    "obj_get (pu_reason_json e) ''source_evaluation_hash'' = JStr (po_evaluation_hash r)"
    "list_at (pu_reason_json e) ''resolved_approval_dependencies'' =
       map JStr (so_resolved_approval_dependencies payload)"
    "list_at (pu_reason_json e) ''satisfied_disclosure_requirements'' =
       map JStr (so_satisfied_disclosure_requirements payload)"
    "list_at (pu_reason_json e) ''satisfied_consent_requirements'' =
       map JStr (so_satisfied_consent_requirements payload)"
    by (simp_all add: e sign_off_event_reason_def obj_get_Cons d hash list_at_def jstrs_def)
  moreover have "so_actor_id payload \<noteq> po_created_by r"
    "approval_blockers r payload = []" "workflow_posture_blockers r w payload = []"
    using valid d by (auto simp: validate_policy_sign_off_decision_def split: if_splits)
  ultimately show ?thesis
    by (auto simp: sign_off_justified_def names_all_def is_approved_sign_off_event_def e
        approval_blockers_def no_missing_blockers workflow_posture_blockers_def split: if_splits)
qed

lemma append_keeps:
  assumes inv: "policy_inv s"
    and append: "append_policy_evaluation_event sha cal i ty actor reason key auth now s = Inr (s', e)"
    and sign: "\<And>r. dict_get (st_records s) i = Some r \<Longrightarrow> ty = PolicySignOffRecorded \<Longrightarrow>
         pu_event_type e = ty \<Longrightarrow> pu_actor_id e = actor \<Longrightarrow>
         (\<And>k. k \<noteq> ''persistence_contract_version'' \<Longrightarrow> k \<noteq> ''idempotency_request_hash'' \<Longrightarrow>
            obj_get (pu_reason_json e) k = obj_get reason k) \<Longrightarrow> sign_off_justified r e"
  shows "policy_inv s' \<and> policy_later s s'"
  using append
proof (cases rule: append_event_effect)
  case 1
  with inv show ?thesis by simp
next
  case (2 r)
  have "event_of_record r e"
    using 2 sign [OF 2(1)] by (auto simp: event_of_record_def)
  moreover have "pu_event_type e \<noteq> PolicyFinalized"
    using 2(2,5) by (auto simp: validate_policy_evaluation_event_authority_def split: if_splits)
  ultimately show ?thesis
    using push_keeps [OF inv 2(1) evaluation_part_attach _ _ 2(8,9)] by blast
qed

lemma append_other_keeps:
  assumes "policy_inv s" and "ty \<noteq> PolicySignOffRecorded"
    and "append_policy_evaluation_event sha cal i ty actor reason key auth now s = Inr (s', e)"
  shows "policy_inv s' \<and> policy_later s s'"
  using append_keeps [OF assms(1,3)] assms(2) by blast

lemma decide_keeps:
  assumes inv: "policy_inv s"
  shows "policy_inv (fst (record_policy_evaluation_sign_off_decision sha cal i payload key t1 t2 s)) \<and>
     policy_later s (fst (record_policy_evaluation_sign_off_decision sha cal i payload key t1 t2 s))"
proof -
  have "policy_inv s1 \<and> policy_later s s1"
    if r: "load_policy_record s i = Inr r"
      and hash: "so_source_evaluation_hash payload = po_evaluation_hash r"
      and valid: "validate_policy_sign_off_decision r w payload = Inr ()"
      and append: "append_policy_evaluation_event sha cal i (sign_off_event_type payload)
        (so_actor_id payload) (sign_off_event_reason payload) k auth t2 s = Inr (s1, e)"
    for r w s1 e k auth
    using inv append
  proof (rule append_keeps)
    fix r' assume "dict_get (st_records s) i = Some r'" "sign_off_event_type payload = PolicySignOffRecorded"
      "pu_event_type e = sign_off_event_type payload" "pu_actor_id e = so_actor_id payload"
      "\<And>k. k \<noteq> ''persistence_contract_version'' \<Longrightarrow> k \<noteq> ''idempotency_request_hash'' \<Longrightarrow>
         obj_get (pu_reason_json e) k = obj_get (sign_off_event_reason payload) k"
    moreover from this(1) have "r' = r" using r by (simp add: load_policy_record_def)
    ultimately show "sign_off_justified r' e"
      using decision_justified [OF valid _ hash] by simp
  qed
  then show ?thesis
    using inv by (auto simp: record_policy_evaluation_sign_off_decision_def rbind_eq_Inr
        split: sum.split if_splits prod.splits)
qed

lemma rbind_InrE:
  assumes "rbind r f = Inr y"
  obtains x where "r = Inr x" and "f x = Inr y"
  using assms by (auto simp: rbind_eq_Inr)

text \<open>Finalizing: a replay, a further key for a known evaluation, or a new record.\<close>

lemma finalize_effect:
  assumes "finalize_policy_evaluation_record sha cal catalog bundle pack version pid vid actor key
    reason trace t1 t2 s = Inr (s', res)"
  obtains "\<not> px_created res" "st_records s' = st_records s" "st_events s' = st_events s"
  | e where "px_created res" "pu_event_type e = PolicyFinalized"
      "event_of_record (px_record res) e" "po_created_by (px_record res) = actor"
      "st_records s' = dict_set (po_evaluation_id (px_record res)) (px_record res) (st_records s)"
      "st_events s' = dict_set (po_evaluation_id (px_record res)) [e] (st_events s)"
proof -
  define mk where "mk r k h body = policy_store_event s r PolicyFinalized actor (Some k) h body t2"
    for r k h body
  have mk: "pu_event_type (mk r k h body) = PolicyFinalized" "event_of_record r (mk r k h body)"
    for r k h body
    by (simp_all add: mk_def policy_store_event_def event_of_record_def)
  have created: "po_created_by r = actor"
    if "build_policy_evaluation_record sha cal ev bundle pid vid actor h1 h2 k reason trace t1 = Inr r"
    for ev h1 h2 k r
    using that by (auto simp: build_policy_evaluation_record_def rbind_eq_Inr Let_def)
  let ?r = "px_record res" and ?e = "the (px_audit_event res)"
  have "(\<not> px_created res \<and> st_records s' = st_records s \<and> st_events s' = st_events s) \<or>
    (px_created res \<and> pu_event_type ?e = PolicyFinalized \<and> event_of_record ?r ?e \<and>
       po_created_by ?r = actor \<and>
       st_records s' = dict_set (po_evaluation_id ?r) ?r (st_records s) \<and>
       st_events s' = dict_set (po_evaluation_id ?r) [?e] (st_events s))"
    using assms unfolding finalize_policy_evaluation_record_def Let_def mk_def [symmetric]
    by (auto simp: mk created elim!: rbind_InrE split: option.split_asm list.split_asm prod.split_asm)
  then show ?thesis using that by blast
qed

lemma finalize_keeps:
  assumes inv: "policy_inv s"
    and run: "finalize_policy_evaluation_record sha cal catalog bundle pack version pid vid actor key
      reason trace t1 t2 s = Inr (s', res)"
    and new: "px_created res \<Longrightarrow> dict_get (st_records s) (po_evaluation_id (px_record res)) = None"
  shows "policy_inv s' \<and> policy_later s s'"
  using run
proof (cases rule: finalize_effect)
  case 1
  with inv show ?thesis using policy_inv_cong policy_later_cong by blast
next
  case (2 e)
  then show ?thesis using create_keeps [OF inv new [OF 2(1)] 2(3,2,5,6)] by blast
qed

section \<open>Runs\<close>

text \<open>
  A command meets whatever catalogue is current. A new evaluation gets the first 20 digits of a
  digest for its id; the runs below are those where no two evaluations share it. The authority of
  a privileged event is one of the two the other commands hold.
\<close>

definition policy_step ::
  "(string \<Rightarrow> string) \<Rightarrow> calendar \<Rightarrow> policy_store \<Rightarrow> policy_catalog \<times> policy_command \<Rightarrow>
   policy_store \<times> proposal_error option" where
  "policy_step sha cal s cmd = run_policy_command sha cal (fst cmd) s (snd cmd)"

fun policy_command_ok ::
  "(string \<Rightarrow> string) \<Rightarrow> calendar \<Rightarrow> policy_store \<Rightarrow> policy_catalog \<times> policy_command \<Rightarrow> bool" where
  "policy_command_ok sha cal s
     (catalog, FinalizeEvaluation bundle pack version pid vid actor key reason trace t1 t2) =
     (case finalize_policy_evaluation_record sha cal catalog bundle pack version pid vid actor key
             reason trace t1 t2 s of
        Inl err \<Rightarrow> True
      | Inr (s1, res) \<Rightarrow>
          px_created res \<longrightarrow> dict_get (st_records s) (po_evaluation_id (px_record res)) = None)"
| "policy_command_ok sha cal s (catalog, AppendWithAuthority i actor reason key authority now) =
     (authority = POLICY_REPORT_PACKAGE_EVENT_AUTHORITY \<or>
      authority = POLICY_AI_EVIDENCE_EVENT_AUTHORITY)"
| "policy_command_ok sha cal s (catalog, cmd) = True"

lemma policy_step_keeps:
  assumes inv: "policy_inv s" and ok: "policy_command_ok sha cal s cmd"
  shows "policy_inv (fst (policy_step sha cal s cmd)) \<and>
     policy_later s (fst (policy_step sha cal s cmd))"
proof (cases cmd)
  case (Pair catalog c)
  show ?thesis
  proof (cases c)
    case (FinalizeEvaluation evidence pack version pid vid actor key reason trace t1 t2)
    then show ?thesis
      using inv ok finalize_keeps [OF inv]
      by (auto simp: Pair policy_step_def split: sum.splits prod.splits)
  next
    case (RecordReview i actor reason key now)
    then show ?thesis
      using inv append_other_keeps [OF inv, of PolicyReviewRecorded]
      by (auto simp: Pair policy_step_def split: sum.splits prod.splits)
  next
    case (DecideSignOff i payload key t1 t2)
    then show ?thesis
      using decide_keeps [OF inv, of sha cal i payload key t1 t2]
      by (auto simp: Pair policy_step_def Let_def split: prod.splits)
  next
    case (AppendWithAuthority i actor reason key authority now)
    then show ?thesis
      using inv ok append_other_keeps [OF inv, of PolicyReportArchiveRecorded]
        append_other_keeps [OF inv, of PolicyAiEvidenceRecorded]
      by (auto simp: Pair policy_step_def POLICY_REPORT_PACKAGE_EVENT_AUTHORITY_def
          POLICY_AI_EVIDENCE_EVENT_AUTHORITY_def split: sum.splits prod.splits)
  qed
qed

interpretation policy_runs: guarded_steps
  "policy_step sha cal" "policy_command_ok sha cal" policy_inv policy_later
  using policy_step_keeps policy_later_trans by unfold_locales auto

end
