(* ===== verification/Policy_Demo.thy ===== *)
theory Policy_Demo
  imports Policy_Laws
begin

text \<open>
  A concrete run of the policy evaluations, for the witnesses: a pack of one rule, a bundle whose
  mandate section still needs a review, an evaluation finalized by one actor and signed off by
  another. The digest is constant, the calendar reads every text as the epoch.
\<close>

definition demo_digest :: "string \<Rightarrow> string" where
  "demo_digest x = ''0123456789abcdef0123''"

definition H0 :: string where
  "H0 = ''sha256:0123456789abcdef0123''"

lemma demo_hash_payload [simp]: "hash_canonical_payload demo_digest x = H0"
  by (simp add: hash_canonical_payload_def demo_digest_def H0_def)

definition demo_calendar :: calendar where
  "demo_calendar =
     \<lparr>cal_date = Some, cal_datetime = (\<lambda>s. Some (s, True)), cal_utc_date = (\<lambda>t. ''2026-06-01''),
      cal_zone_date = (\<lambda>zone t. Some ''2026-06-01''), cal_instant = (\<lambda>s. Some 0)\<rparr>"

definition demo_pack :: json_dict where
  "demo_pack =
     [(''policy_pack_id'', JStr ''DEMO''), (''policy_version'', JStr ''1''),
      (''activation_state'', JStr ''ACTIVE''),
      (''applicability'',
       JObj [(''jurisdiction_scope'', jstrs [''SG'']), (''client_segment_scope'', jstrs [''GLOBAL'']),
             (''product_scope'', jstrs [''GLOBAL''])]),
      (''rules'',
       JArr [JObj [(''rule_id'', JStr ''MANDATE_REVIEW''),
                   (''required_evidence_fields'', jstrs [''mandate''])]])]"

definition demo_catalog :: policy_catalog where
  "demo_catalog = reset_catalog demo_digest [demo_pack]"

definition demo_posture :: json_dict where
  "demo_posture =
     [(''sections'',
       JArr [JObj [(''key'', JStr ''mandate''), (''status'', JStr ''PENDING_REVIEW'')]])]"

definition demo_bundle :: json_dict where
  "demo_bundle =
     [(''inputs'',
       JObj [(''portfolio_snapshot'',
              JObj [(''portfolio_id'', JStr ''PB1''), (''as_of_date'', JStr ''2026-05-29'')])]),
      (''context_resolution'',
       JObj [(''advisory_policy_context'', JObj [(''jurisdiction'', JStr ''SG'')])]),
      (''policy_source_readiness'', JObj demo_posture)]"

definition demo_reason :: json_dict where
  "demo_reason =
     [(''trusted_principal'',
       JObj [(''tenant_id'', JStr ''T''), (''legal_entity_code'', JStr ''REFERENCE''),
             (''correlation_id'', JStr ''C''), (''trace_id'', JStr ''TR''),
             (''service_identity'', JStr ''S'')])]"

definition demo_id :: string where
  "demo_id = ''pev_0123456789abcdef0123''"

definition demo_decision :: sign_off_request where
  "demo_decision =
     \<lparr>so_actor_id = ''checker'', so_decision = ApproveForPolicySignOff,
      so_source_evaluation_hash = H0,
      so_resolved_approval_dependencies = [''REVIEW_SOURCE_OWNER_EVIDENCE''],
      so_satisfied_disclosure_requirements = [], so_satisfied_consent_requirements = [],
      so_conflict_review_outcome = None, so_reason = []\<rparr>"

definition demo_finalize :: policy_command where
  "demo_finalize =
     FinalizeEvaluation demo_bundle ''DEMO'' ''1'' ''PP'' ''V1'' ''maker'' (Some ''k'') demo_reason
       None 0 0"

section \<open>The evaluation\<close>

definition demo_evaluation :: policy_evaluation where
  "demo_evaluation = projr (evaluate_policy_pack_version demo_bundle ''DEMO'' ''1'' demo_catalog)"

definition demo_detail :: policy_pack_detail where
  "demo_detail = projr (get_policy_pack_version ''DEMO'' ''1'' demo_catalog)"

definition demo_receipt :: receipt_identity where
  "demo_receipt = projr (build_policy_evaluation_receipt_identity demo_digest demo_calendar
     demo_bundle ''PP'' ''V1'' ''PB1'' demo_reason None 0)"

definition demo_record :: policy_record where
  "demo_record = projr (build_policy_evaluation_record demo_digest demo_calendar demo_evaluation
     demo_bundle ''PP'' ''V1'' ''maker'' H0 H0 ''k'' demo_reason None 0)"

lemma demo_evaluated:
  "evaluate_policy_pack_version demo_bundle ''DEMO'' ''1'' demo_catalog = Inr demo_evaluation"
  by code_simp

lemma demo_evaluation_fields [simp]:
  "pev_evaluation_status demo_evaluation = PolicyPending"
  "policy_approval_dependencies demo_evaluation = [''REVIEW_SOURCE_OWNER_EVIDENCE'']"
  "policy_disclosure_requirements demo_evaluation = []"
  "policy_consent_requirements demo_evaluation = []"
  "ps_policy_pack_id (pev_policy_pack demo_evaluation) = ''DEMO''"
  "ps_policy_version (pev_policy_pack demo_evaluation) = ''1''"
  by code_simp+

lemma demo_detailed:
  "get_policy_pack_version ''DEMO'' ''1'' demo_catalog = Inr demo_detail"
  by code_simp

lemma demo_detail_hash [simp]: "ps_content_hash (pd_policy_pack demo_detail) = H0"
  by code_simp

lemma demo_received:
  "build_policy_evaluation_receipt_identity demo_digest demo_calendar demo_bundle ''PP'' ''V1'' ''PB1''
     demo_reason None 0 = Inr demo_receipt"
  by code_simp

lemma demo_receipt_source: "ri_trace_identity_source demo_receipt = TRUSTED_PRINCIPAL_SOURCE"
  by code_simp

lemma demo_portfolio:
  "portfolio_id_of demo_bundle = Inr ''PB1''" "portfolio_id_from_evidence demo_bundle = Inr (Some ''PB1'')"
  by code_simp+

lemma demo_recorded:
  "build_policy_evaluation_record demo_digest demo_calendar demo_evaluation demo_bundle ''PP'' ''V1''
     ''maker'' H0 H0 ''k'' demo_reason None 0 = Inr demo_record"
  by (simp add: demo_record_def build_policy_evaluation_record_def demo_portfolio demo_received Let_def)

lemma demo_evaluation_id: "evaluation_id_of demo_digest a b c d e = demo_id"
  by (simp add: evaluation_id_of_def H0_def demo_id_def)

lemma demo_record_fields [simp]:
  "po_evaluation_id demo_record = demo_id" "po_created_by demo_record = ''maker''"
  "po_evaluation_hash demo_record = H0" "po_evaluation_status demo_record = PolicyPending"
  "po_approval_dependencies demo_record = [''REVIEW_SOURCE_OWNER_EVIDENCE'']"
  "po_disclosure_requirements demo_record = []" "po_consent_requirements demo_record = []"
  "obj_get (po_replay_metadata_json demo_record) ''receipt_identity'' = receipt_identity_json demo_receipt"
  "dict_get (po_replay_metadata_json demo_record) ''replay_policy'' =
     Some (JStr ''PIN_POLICY_VERSION_AND_COMPARE_SOURCE_HASHES'')"
  "po_evaluation_json demo_record = policy_evaluation_json demo_evaluation"
  by (simp_all add: demo_record_def build_policy_evaluation_record_def demo_portfolio demo_received
      Let_def demo_evaluation_id policy_evaluation_hash_def)

section \<open>The run\<close>

definition demo_store_created :: policy_store where
  "demo_store_created = fst (policy_step demo_digest demo_calendar empty_policy_store
     (demo_catalog, demo_finalize))"

lemma demo_key [simp]: "require_proposal_idempotency_key (Some ''k'') = Inr ''k''"
  by code_simp

lemma demo_principal [simp]:
  "obj_get (trusted_principal_from_reason demo_reason) ''conflict_review_outcome'' = JNull"
  by code_simp

lemma demo_finalized:
  "finalize_policy_evaluation_record demo_digest demo_calendar demo_catalog demo_bundle ''DEMO'' ''1''
     ''PP'' ''V1'' ''maker'' (Some ''k'') demo_reason None 0 0 empty_policy_store =
   Inr (demo_store_created, \<lparr>px_record = demo_record, px_created = True, px_replayed = False,
     px_audit_event = Some (hd (dict_list (st_events demo_store_created) demo_id))\<rparr>)"
  and demo_created: "st_records demo_store_created = [(demo_id, demo_record)]"
    "\<exists>e. dict_list (st_events demo_store_created) demo_id = [e] \<and> pu_event_type e = PolicyFinalized \<and>
       obj_get (pu_reason_json e) ''conflict_review_outcome'' = JNull"
  by (simp_all add: demo_store_created_def policy_step_def demo_finalize_def
      finalize_policy_evaluation_record_def Let_def demo_portfolio find_replayed_policy_event_def
      empty_policy_store_def demo_evaluated demo_detailed demo_recorded policy_store_event_def
      dict_list_def obj_get_Cons)

lemma demo_no_conflict: "conflict_rule_results demo_record = []"
proof -
  have "filter (\<lambda>result. contains_text ''CONFLICT''
      (case dict_get result ''rule_id'' of None \<Rightarrow> [] | Some v \<Rightarrow> py_str v))
    (dict_items (list_at (policy_evaluation_json demo_evaluation) ''rule_results'')) = []"
    by code_simp
  then show ?thesis by (simp add: conflict_rule_results_def)
qed

lemma demo_receipt_read:
  "receipt_identity_from_record demo_digest demo_calendar demo_record = Inr demo_receipt"
proof -
  obtain d where d: "receipt_identity_json demo_receipt = JObj d"
    by (simp add: receipt_identity_json_def)
  show ?thesis
    using receipt_identity_round_trip [OF _ d] demo_receipt_source
    by (simp add: receipt_identity_from_record_def d)
qed

lemma demo_requirement [simp]:
  "\<exists>q. requirement_projection_of demo_calendar g 0 ty role ok item = Inr q"
  by (simp add: requirement_projection_of_def due_at_for_requirement_def parse_datetime_def
      is_overdue_def demo_calendar_def Let_def split: option.split)

lemma demo_workflow:
  assumes "list_all (\<lambda>e. obj_get (pu_reason_json e) ''conflict_review_outcome'' = JNull) es"
  shows "\<exists>w. build_policy_evaluation_workflow_projection demo_digest demo_calendar demo_record es 0 = Inr w \<and>
     cp_status (wf_conflict_posture w) = ''SATISFIED''"
proof -
  have "conflict_review_outcomes es = []"
    using assms by (induction es) (simp_all add: conflict_review_outcomes_def)
  then have posture: "cp_status (conflict_posture_for_workflow demo_record es) = ''SATISFIED''"
    by (simp add: conflict_posture_for_workflow_def conflict_evidence_from_record_def
        demo_no_conflict material_conflict_blocks_workflow_def)
  obtain q where q: "requirement_projection_of demo_calendar (po_generated_at demo_record) 0 ''approval''
      (owner_role_of ''REVIEW_SOURCE_OWNER_EVIDENCE'')
      (''REVIEW_SOURCE_OWNER_EVIDENCE'' \<in> approved_sign_off_values es ''resolved_approval_dependencies'')
      ''REVIEW_SOURCE_OWNER_EVIDENCE'' = Inr q"
    using demo_requirement by blast
  have "\<exists>sla. sla_posture_of demo_calendar [q] 0 = Inr sla"
    by (simp add: sla_posture_of_def is_overdue_def parse_datetime_def demo_calendar_def Let_def
        split: option.split)
  then show ?thesis
    using q posture
    by (auto simp: build_policy_evaluation_workflow_projection_def approval_requirement_projections_def
        fixed_owner_requirement_projections_def workflow_lineage_metadata_def
        workflow_replay_metadata_of_def demo_receipt_read json_text_def Let_def)
qed

definition demo_run :: "(policy_catalog \<times> policy_command) list" where
  "demo_run = [(demo_catalog, demo_finalize), (demo_catalog, DecideSignOff demo_id demo_decision None 0 0)]"

definition demo_store_signed :: policy_store where
  "demo_store_signed = fst (policy_step demo_digest demo_calendar demo_store_created
     (demo_catalog, DecideSignOff demo_id demo_decision None 0 0))"

lemma demo_finalize_ok:
  "policy_command_ok demo_digest demo_calendar empty_policy_store (demo_catalog, demo_finalize)"
  using demo_finalized by (simp add: demo_finalize_def empty_policy_store_def)

lemma demo_signed:
  "\<exists>e f. dict_list (st_events demo_store_signed) demo_id = [e, f] \<and>
     pu_event_type f = PolicySignOffRecorded"
  and demo_signed_record:
    "\<exists>r. dict_get (st_records demo_store_signed) demo_id = Some r \<and> po_created_by r = ''maker''"
proof -
  obtain e where e: "dict_list (st_events demo_store_created) demo_id = [e]"
    "obj_get (pu_reason_json e) ''conflict_review_outcome'' = JNull"
    using demo_created by auto
  obtain w where w: "build_policy_evaluation_workflow_projection demo_digest demo_calendar
      demo_record [e] 0 = Inr w" "cp_status (wf_conflict_posture w) = ''SATISFIED''"
    using demo_workflow [of "[e]"] e by auto
  have r: "load_policy_record demo_store_created demo_id = Inr demo_record"
    by (simp add: load_policy_record_def demo_created)
  have "validate_policy_sign_off_decision demo_record w demo_decision = Inr ()"
    using w by (simp add: validate_policy_sign_off_decision_def demo_decision_def
        approval_blockers_def no_missing_blockers workflow_posture_blockers_def
        missing_requirement_blockers_def sorted_set_def)
  note parts = this [unfolded demo_decision_def] e w r list_policy_evaluation_events_def append_policy_evaluation_event_def
    normalize_optional_idempotency_key_def validate_policy_evaluation_event_authority_def
    validate_authority_reason_def POLICY_SIGN_OFF_EVENT_AUTHORITY_def sign_off_event_type_def
    sign_off_event_reason_def demo_decision_def obj_get_Cons
  show "\<exists>e f. dict_list (st_events demo_store_signed) demo_id = [e, f] \<and>
      pu_event_type f = PolicySignOffRecorded"
    by (simp add: demo_store_signed_def policy_step_def Let_def parts
        record_policy_evaluation_sign_off_decision_def policy_store_event_def
        split: sum.split prod.split)
  have "policy_inv demo_store_created"
    using policy_step_keeps [OF policy_inv_empty demo_finalize_ok] by (simp add: demo_store_created_def)
  then have "policy_later demo_store_created demo_store_signed"
    using policy_step_keeps [of demo_store_created demo_digest demo_calendar
      "(demo_catalog, DecideSignOff demo_id demo_decision None 0 0)"]
    by (simp add: demo_store_signed_def)
  then obtain r' where r': "dict_get (st_records demo_store_signed) demo_id = Some r'"
    "evaluation_part r' = evaluation_part demo_record"
    using demo_created(1) unfolding policy_later_def by (metis dict_get_Cons)
  then show "\<exists>r. dict_get (st_records demo_store_signed) demo_id = Some r \<and> po_created_by r = ''maker''"
    using evaluation_part_fields(3) [OF r'(2)] by simp
qed

lemma demo_run_ok:
  "run_ok (policy_command_ok demo_digest demo_calendar) (policy_step demo_digest demo_calendar)
     empty_policy_store demo_run"
  using demo_finalize_ok by (simp add: demo_run_def)

lemma demo_run_result:
  "run_steps (policy_step demo_digest demo_calendar) empty_policy_store demo_run = demo_store_signed"
  by (simp add: demo_run_def demo_store_created_def demo_store_signed_def)

end
