(* ===== verification/Policy_Catalog_Laws.thy ===== *)
theory Policy_Catalog_Laws
  imports Policy_Catalog
begin

text \<open>
  What every run of catalog commands keeps: at most one version of a pack is active, the content of
  a version never changes, the event logs only grow, and an activation follows a validation by
  another actor where the pack asks for a checker.
\<close>

definition pack_is_active :: "json_dict \<Rightarrow> bool" where
  "pack_is_active defn \<longleftrightarrow> obj_get defn ''activation_state'' = JStr ''ACTIVE''"

definition needs_checker :: "json_dict \<Rightarrow> bool" where
  "needs_checker defn \<longleftrightarrow> json_truthy (obj_get defn ''maker_checker_required'')"

definition same_content :: "json_dict \<Rightarrow> json_dict \<Rightarrow> bool" where
  "same_content d d' \<longleftrightarrow> (\<forall>field. field \<noteq> ''activation_state'' \<longrightarrow> obj_get d' field = obj_get d field)"

text \<open>Each activation in a log has a validation before it, by another actor if one is needed.\<close>

definition activations_checked :: "bool \<Rightarrow> policy_pack_event list \<Rightarrow> bool" where
  "activations_checked checker es \<longleftrightarrow>
     (\<forall>n < length es. pe_event_type (es ! n) = PackActivated \<longrightarrow>
        (\<exists>m < n. pe_event_type (es ! m) = PackValidated \<and>
           (checker \<longrightarrow> pe_actor_id (es ! m) \<noteq> pe_actor_id (es ! n))))"

definition one_active :: "policy_catalog \<Rightarrow> bool" where
  "one_active c \<longleftrightarrow>
     (\<forall>k d k' d'. dict_get (pc_definitions c) k = Some d \<longrightarrow> pack_is_active d \<longrightarrow>
        dict_get (pc_definitions c) k' = Some d' \<longrightarrow> pack_is_active d' \<longrightarrow> fst k = fst k' \<longrightarrow> k = k')"

definition catalog_inv :: "policy_catalog \<Rightarrow> bool" where
  "catalog_inv c \<longleftrightarrow>
     dict_wf (pc_definitions c) \<and> one_active c \<and>
     (\<forall>k d. dict_get (pc_definitions c) k = Some d \<longrightarrow>
        activations_checked (needs_checker d) (dict_list (pc_events c) k))"

definition catalog_later :: "policy_catalog \<Rightarrow> policy_catalog \<Rightarrow> bool" where
  "catalog_later c c' \<longleftrightarrow>
     (\<forall>k. (dict_get (pc_definitions c) k = None \<longleftrightarrow> dict_get (pc_definitions c') k = None)) \<and>
     (\<forall>k d d'. dict_get (pc_definitions c) k = Some d \<longrightarrow>
        dict_get (pc_definitions c') k = Some d' \<longrightarrow> same_content d d') \<and>
     (\<forall>k. \<exists>es. dict_list (pc_events c') k = dict_list (pc_events c) k @ es)"

lemma same_content_refl [simp]: "same_content d d"
  by (simp add: same_content_def)

lemma same_content_set [simp]: "same_content d (dict_set ''activation_state'' v d)"
  by (simp add: same_content_def)

lemma same_content_checker: "same_content d d' \<Longrightarrow> needs_checker d' = needs_checker d"
  by (simp add: same_content_def needs_checker_def)

lemma same_content_trans: "same_content a b \<Longrightarrow> same_content b c \<Longrightarrow> same_content a c"
  by (simp add: same_content_def)

lemma activations_checked_snoc:
  assumes "activations_checked checker es"
    and "pe_event_type e = PackActivated \<Longrightarrow>
      \<exists>v \<in> set es. pe_event_type v = PackValidated \<and> (checker \<longrightarrow> pe_actor_id v \<noteq> pe_actor_id e)"
  shows "activations_checked checker (es @ [e])"
  unfolding activations_checked_def
proof (intro allI impI)
  fix n assume n: "n < length (es @ [e])" and act: "pe_event_type ((es @ [e]) ! n) = PackActivated"
  show "\<exists>m < n. pe_event_type ((es @ [e]) ! m) = PackValidated \<and>
      (checker \<longrightarrow> pe_actor_id ((es @ [e]) ! m) \<noteq> pe_actor_id ((es @ [e]) ! n))"
  proof (cases "n < length es")
    case True
    with act assms(1) obtain m where "m < n" "pe_event_type (es ! m) = PackValidated"
      "checker \<longrightarrow> pe_actor_id (es ! m) \<noteq> pe_actor_id (es ! n)"
      by (auto simp: activations_checked_def nth_append)
    with True show ?thesis by (intro exI [of _ m]) (auto simp: nth_append)
  next
    case False
    with n have "n = length es" by simp
    moreover from this act assms(2) obtain v where "v \<in> set es"
      "pe_event_type v = PackValidated" "checker \<longrightarrow> pe_actor_id v \<noteq> pe_actor_id e"
      by auto
    ultimately show ?thesis by (auto simp: nth_append in_set_conv_nth)
  qed
qed

lemma dict_get_set_state [simp]:
  "dict_get (pc_definitions (set_activation_state key state c)) k =
     (if k = key
      then map_option (dict_set ''activation_state'' (JStr state)) (dict_get (pc_definitions c) k)
      else dict_get (pc_definitions c) k)"
  by (auto simp: set_activation_state_def split: option.splits)

lemma set_activation_state_parts [simp]:
  "pc_events (set_activation_state key state c) = pc_events c"
  "pc_idempotency (set_activation_state key state c) = pc_idempotency c"
  "dict_wf (pc_definitions c) \<Longrightarrow> dict_wf (pc_definitions (set_activation_state key state c))"
  by (simp_all add: set_activation_state_def split: option.splits)

lemma pack_is_active_set [simp]:
  "pack_is_active (dict_set ''activation_state'' (JStr state) d) \<longleftrightarrow> state = ''ACTIVE''"
  by (simp add: pack_is_active_def)

lemma active_entries_iff:
  "dict_wf (pc_definitions c) \<Longrightarrow>
   (k, d) \<in> set (active_entries pid c) \<longleftrightarrow>
     dict_get (pc_definitions c) k = Some d \<and> fst k = pid \<and> pack_is_active d"
  by (auto simp: active_entries_def pack_is_active_def dict_get_def dict_wf_def)

lemma one_active_length:
  assumes "dict_wf (pc_definitions c)" and "one_active c"
  shows "length (active_entries pid c) \<le> 1"
proof (rule ccontr)
  assume "\<not> ?thesis"
  then obtain a b r where r: "active_entries pid c = a # b # r"
    by (metis One_nat_def Suc_le_eq le0 length_0_conv length_Cons list.exhaust not_less not_less_eq_eq)
  have "distinct (map fst (active_entries pid c))"
    using assms(1) by (simp add: active_entries_def dict_wf_def distinct_map_filter)
  then have ne: "fst a \<noteq> fst b" by (simp add: r)
  have "(fst a, snd a) \<in> set (active_entries pid c)" "(fst b, snd b) \<in> set (active_entries pid c)"
    by (simp_all add: r)
  then show False
    using ne assms(2) unfolding active_entries_iff [OF assms(1)] one_active_def by metis
qed

text \<open>What the two commands do to the store.\<close>

lemma append_event_parts [simp]:
  assumes "append_policy_pack_catalog_event ty pid v actor h key rh reason now c = (c1, e)"
  shows "pc_definitions c1 = pc_definitions c"
    and "dict_list (pc_events c1) k = dict_list (pc_events c) k @ (if k = (pid, v) then [e] else [])"
    and "pe_event_type e = ty" and "pe_actor_id e = actor"
  using assms by (auto simp: append_policy_pack_catalog_event_def Let_def)

lemma validate_effect:
  assumes "validate_policy_pack_version sha pid v actor raw reason now c = Inr (c1, r)"
  shows "c1 = c \<or> (\<exists>e. pe_event_type e = PackValidated \<and> pc_definitions c1 = pc_definitions c \<and>
    (\<forall>k. dict_list (pc_events c1) k =
       dict_list (pc_events c) k @ (if k = (pid, v) then [e] else [])))"
  using assms
  by (auto simp: validate_policy_pack_version_def validate_policy_pack_catalog_definition_def
      rbind_eq_Inr Let_def split: option.splits if_splits prod.splits)

text \<open>What an activation leaves of the definition under another key.\<close>

definition superseded :: "string \<Rightarrow> string \<times> string \<Rightarrow> json_dict \<Rightarrow> json_dict" where
  "superseded pid k d =
     (if fst k = pid \<and> pack_is_active d then dict_set ''activation_state'' (JStr ''SUPERSEDED'') d else d)"

lemma single_active_cases:
  assumes "single_active_definition pid c = Inr active" and wf: "dict_wf (pc_definitions c)"
  obtains "active = None" "\<And>k d. dict_get (pc_definitions c) k = Some d \<Longrightarrow> fst k = pid \<Longrightarrow> \<not> pack_is_active d"
  | k d where "active = Some (k, d)" "dict_get (pc_definitions c) k = Some d" "fst k = pid"
      "pack_is_active d"
      "\<And>k' d'. dict_get (pc_definitions c) k' = Some d' \<Longrightarrow> fst k' = pid \<Longrightarrow> pack_is_active d' \<Longrightarrow> k' = k"
proof (cases "active_entries pid c")
  case Nil
  then show thesis using assms(1) that(1) active_entries_iff [OF wf, of _ _ pid]
    by (auto simp: single_active_definition_def)
next
  case (Cons entry rest)
  obtain k d where entry: "entry = (k, d)" by fastforce
  from Cons assms(1) have rest: "rest = []" and active: "active = Some entry"
    by (auto simp: single_active_definition_def split: list.splits)
  have only: "(k', d') \<in> set (active_entries pid c) \<longleftrightarrow> k' = k \<and> d' = d" for k' d'
    by (simp add: Cons rest entry)
  show thesis
    using that(2) [of k d] active entry only [of k d] only
    unfolding active_entries_iff [OF wf] by blast
qed

lemma pack_activation_cases:
  assumes "activate_policy_pack_catalog_definition sha defn pid v actor h key reason prev now c =
    Inr (c2, r)"
  obtains "c2 = c" "ar_replayed r"
  | val e where "\<not> ar_replayed r" "validated_activation_event defn pid v actor h c = Inr val"
      "pe_event_type e = PackActivated" "pe_actor_id e = actor"
      "pc_definitions c2 = pc_definitions (set_activation_state (pid, v) ''ACTIVE'' c)"
      "\<And>k. dict_list (pc_events c2) k =
        dict_list (pc_events c) k @ (if k = (pid, v) then [e] else [])"
proof -
  let ?rh = "activation_request_hash sha pid v actor h reason"
  note unfolded = assms [unfolded activate_policy_pack_catalog_definition_def Let_def]
  from assms obtain rep where
    rep: "find_replayed_policy_pack_catalog_event sha key ?rh c = Inr rep"
    by (auto simp: activate_policy_pack_catalog_definition_def Let_def rbind_eq_Inr)
  show thesis
  proof (cases rep)
    case (Some event)
    with unfolded rep that(1) show ?thesis by auto
  next
    case None
    with unfolded rep obtain val where
      val: "validated_activation_event defn pid v actor h c = Inr val"
      by (auto simp: rbind_eq_Inr)
    let ?active = "dict_set ''activation_state'' (JStr ''ACTIVE'') defn"
    obtain c' e where app: "append_policy_pack_catalog_event PackActivated pid v actor
        (py_str (obj_get defn ''content_hash'')) key ?rh
        (activation_event_reason ?active val reason prev) now
        (set_activation_state (pid, v) ''ACTIVE'' c) = (c', e)"
      by fastforce
    with unfolded rep None val have "c2 = c'" "\<not> ar_replayed r" by auto
    with append_event_parts [OF app] val that(2) [of val e] show ?thesis by simp
  qed
qed

lemma activate_effect:
  assumes act: "activate_policy_pack_version sha pid v actor h raw reason now c = Inr (c1, r)"
    and wf: "dict_wf (pc_definitions c)"
  shows "c1 = c \<or> (\<exists>d e val. dict_get (pc_definitions c) (pid, v) = Some d \<and> \<not> pack_is_active d \<and>
    val \<in> set (dict_list (pc_events c) (pid, v)) \<and> pe_event_type val = PackValidated \<and>
    (needs_checker d \<longrightarrow> pe_actor_id val \<noteq> pe_actor_id e) \<and> pe_event_type e = PackActivated \<and>
    (\<forall>k. dict_list (pc_events c1) k =
       dict_list (pc_events c) k @ (if k = (pid, v) then [e] else [])) \<and>
    (\<forall>k. dict_get (pc_definitions c1) k =
       (if k = (pid, v) then Some (dict_set ''activation_state'' (JStr ''ACTIVE'') d)
        else map_option (superseded pid k) (dict_get (pc_definitions c) k))) \<and>
    dict_wf (pc_definitions c1))"
proof -
  from act obtain key defn active where
    defn: "dict_get (pc_definitions c) (pid, v) = Some defn"
    and single: "single_active_definition pid c = Inr active"
    and key: "require_proposal_idempotency_key raw = Inr key"
    by (auto simp: activate_policy_pack_version_def load_definition_def rbind_eq_Inr
        split: option.splits)
  define other where "other = (case active of
      Some (k, d) \<Rightarrow> if k \<noteq> (pid, v) then Some (k, d) else None | None \<Rightarrow> None)"
  define prev where "prev = map_option (\<lambda>(k, d). py_str (obj_get d ''policy_version'')) other"
  from act obtain c2 where
    inner: "activate_policy_pack_catalog_definition sha defn pid v actor h key reason prev now c =
      Inr (c2, r)"
    and c1: "c1 = (case other of
        Some (k, d) \<Rightarrow> if ar_replayed r then c2 else set_activation_state k ''SUPERSEDED'' c2
      | None \<Rightarrow> c2)"
    unfolding activate_policy_pack_version_def
    by (simp only: key load_definition_def defn single rbind_simps option.case Let_def
        flip: other_def prev_def) (fastforce simp: rbind_eq_Inr)
  show ?thesis
  proof (cases "ar_replayed r")
    case True
    have "c2 = c" by (rule pack_activation_cases [OF inner]) (use True in simp_all)
    with c1 True show ?thesis by (auto split: option.splits)
  next
    case False
    obtain e val where
      val: "validated_activation_event defn pid v actor h c = Inr val"
      and e: "pe_event_type e = PackActivated" "pe_actor_id e = actor"
      and defs2: "pc_definitions c2 = pc_definitions (set_activation_state (pid, v) ''ACTIVE'' c)"
      and log2: "\<forall>k. dict_list (pc_events c2) k =
        dict_list (pc_events c) k @ (if k = (pid, v) then [e] else [])"
      by (rule pack_activation_cases [OF inner]) (use False in blast)+
    have inactive: "\<not> pack_is_active defn"
      and found: "latest_policy_pack_validation_event pid v c = Some val"
      and checker: "needs_checker defn \<longrightarrow> pe_actor_id val \<noteq> actor"
      using val by (auto simp: validated_activation_event_def validate_activation_definition_def
          rbind_eq_Inr pack_is_active_def needs_checker_def split: option.splits if_splits)
    have val_in: "val \<in> set (dict_list (pc_events c) (pid, v))" "pe_event_type val = PackValidated"
      using found by (auto simp: latest_policy_pack_validation_event_def find_Some_iff
          intro: nth_mem dest!: arg_cong [of _ _ set] simp del: set_rev)
        (metis length_rev nth_mem set_rev)
    have defs1: "dict_get (pc_definitions c1) k =
        (if k = (pid, v) then Some (dict_set ''activation_state'' (JStr ''ACTIVE'') defn)
         else map_option (superseded pid k) (dict_get (pc_definitions c) k))" for k
      using single wf
    proof (cases rule: single_active_cases)
      case 1
      have keep: "superseded pid k d = d" if "dict_get (pc_definitions c) k = Some d" for d
        unfolding superseded_def using 1(2) [OF that] by presburger
      have "c1 = c2" using c1 by (simp add: other_def 1(1))
      then show ?thesis
        using keep by (cases "dict_get (pc_definitions c) k") (simp_all add: defs2 defn)
    next
      case (2 k' d')
      have other: "other = Some (k', d')" using 2(1,2,4) inactive defn by (auto simp: other_def)
      have change: "superseded pid k d = (if k = k'
          then dict_set ''activation_state'' (JStr ''SUPERSEDED'') d else d)"
        if "dict_get (pc_definitions c) k = Some d" for d
      proof (cases "fst k = pid \<and> pack_is_active d")
        case True
        then have "k = k'" using 2(5) [OF that] by blast
        with True show ?thesis by (simp add: superseded_def)
      next
        case False
        then have "k \<noteq> k'" using that 2(2-4) by fastforce
        then show ?thesis unfolding superseded_def using False by presburger
      qed
      have "k' \<noteq> (pid, v)" using 2(2,4) inactive defn by auto
      moreover have "c1 = set_activation_state k' ''SUPERSEDED'' c2"
        using c1 False by (simp add: other)
      ultimately show ?thesis
        using change
        by (cases "dict_get (pc_definitions c) k"; cases "k = k'") (simp_all add: defs2 defn)
    qed
    have "dict_wf (pc_definitions c1)" "pc_events c1 = pc_events c2"
      using wf c1 by (auto simp: defs2 set_activation_state_def dict_wf_set split: option.splits if_splits)
    then show ?thesis
      using defn inactive val_in checker e log2 defs1 by auto
  qed
qed

section \<open>Invariant and growth\<close>

lemma validate_keeps:
  assumes "validate_policy_pack_version sha pid v actor raw reason now c = Inr (c1, r)"
    and "catalog_inv c"
  shows "catalog_inv c1 \<and> catalog_later c c1"
  using validate_effect [OF assms(1)]
proof (elim disjE exE conjE)
  assume "c1 = c"
  with assms(2) show ?thesis by (simp add: catalog_later_def)
next
  fix e assume e: "pe_event_type e = PackValidated" "pc_definitions c1 = pc_definitions c"
    "\<forall>k. dict_list (pc_events c1) k =
      dict_list (pc_events c) k @ (if k = (pid, v) then [e] else [])"
  have "activations_checked (needs_checker d) (dict_list (pc_events c1) k)"
    if got: "dict_get (pc_definitions c) k = Some d" for k d
  proof -
    have "activations_checked (needs_checker d) (dict_list (pc_events c) k)"
      using assms(2) got unfolding catalog_inv_def by blast
    then show ?thesis
      using e(1) spec [OF e(3), of k] by (auto intro!: activations_checked_snoc)
  qed
  with e assms(2) show ?thesis
    by (simp add: catalog_inv_def catalog_later_def one_active_def)
qed

lemma superseded_props [simp]:
  "same_content d (superseded pid k d)"
  "pack_is_active (superseded pid k d) \<longleftrightarrow> pack_is_active d \<and> fst k \<noteq> pid"
  by (auto simp: superseded_def)

lemma activate_keeps:
  assumes act: "activate_policy_pack_version sha pid v actor h raw reason now c = Inr (c1, r)"
    and inv: "catalog_inv c"
  shows "catalog_inv c1 \<and> catalog_later c c1"
proof -
  have wf: "dict_wf (pc_definitions c)" using inv by (simp add: catalog_inv_def)
  show ?thesis
    using activate_effect [OF act wf]
  proof (elim disjE exE conjE)
    assume "c1 = c"
    with inv show ?thesis by (simp add: catalog_later_def)
  next
    fix d e val
    assume d: "dict_get (pc_definitions c) (pid, v) = Some d" "\<not> pack_is_active d"
      and val: "val \<in> set (dict_list (pc_events c) (pid, v))" "pe_event_type val = PackValidated"
        "needs_checker d \<longrightarrow> pe_actor_id val \<noteq> pe_actor_id e"
      and log: "\<forall>k. dict_list (pc_events c1) k =
        dict_list (pc_events c) k @ (if k = (pid, v) then [e] else [])"
      and defs: "\<forall>k. dict_get (pc_definitions c1) k =
        (if k = (pid, v) then Some (dict_set ''activation_state'' (JStr ''ACTIVE'') d)
         else map_option (superseded pid k) (dict_get (pc_definitions c) k))"
      and wf1: "dict_wf (pc_definitions c1)"
    have content: "\<exists>d0. dict_get (pc_definitions c) k = Some d0 \<and> same_content d0 d1"
      if "dict_get (pc_definitions c1) k = Some d1" for k d1
      using that defs d by (auto split: if_splits)
    have only: "k = (pid, v)" if "dict_get (pc_definitions c1) k = Some d1" "pack_is_active d1"
      "fst k = pid" for k d1
      using that defs by (auto split: if_splits)
    have old: "dict_get (pc_definitions c) k = Some d1 \<and> pack_is_active d1"
      if "dict_get (pc_definitions c1) k = Some d1" "pack_is_active d1" "fst k \<noteq> pid" for k d1
      using that defs by (auto split: if_splits simp: superseded_def)
    have "one_active c1"
      unfolding one_active_def
    proof (intro allI impI)
      fix k a k' a'
      assume "dict_get (pc_definitions c1) k = Some a" "pack_is_active a"
        "dict_get (pc_definitions c1) k' = Some a'" "pack_is_active a'" "fst k = fst k'"
      then show "k = k'"
        using only old inv unfolding catalog_inv_def one_active_def by metis
    qed
    moreover have "activations_checked (needs_checker d1) (dict_list (pc_events c1) k)"
      if got: "dict_get (pc_definitions c1) k = Some d1" for k d1
    proof -
      obtain d0 where d0: "dict_get (pc_definitions c) k = Some d0" "needs_checker d1 = needs_checker d0"
        using content [OF got] same_content_checker by blast
      then have old_log: "activations_checked (needs_checker d0) (dict_list (pc_events c) k)"
        using inv unfolding catalog_inv_def by blast
      have new_log: "dict_list (pc_events c1) k =
          dict_list (pc_events c) k @ (if k = (pid, v) then [e] else [])"
        using log by blast
      show ?thesis
      proof (cases "k = (pid, v)")
        case True
        then have "d0 = d" using d0 d(1) by simp
        with True old_log new_log d0(2) val show ?thesis by (auto intro!: activations_checked_snoc)
      next
        case False
        with old_log new_log d0(2) show ?thesis by simp
      qed
    qed
    moreover have "catalog_later c c1"
      using defs log d(1) by (auto simp: catalog_later_def)
    ultimately show ?thesis using wf1 by (simp add: catalog_inv_def)
  qed
qed

lemma catalog_later_trans:
  assumes ab: "catalog_later a b" and bc: "catalog_later b c"
  shows "catalog_later a c"
  unfolding catalog_later_def
proof (intro conjI allI impI)
  fix k
  show "dict_get (pc_definitions a) k = None \<longleftrightarrow> dict_get (pc_definitions c) k = None"
    using ab bc unfolding catalog_later_def by blast
  obtain es fs where "dict_list (pc_events b) k = dict_list (pc_events a) k @ es"
    "dict_list (pc_events c) k = dict_list (pc_events b) k @ fs"
    using ab bc unfolding catalog_later_def by blast
  then show "\<exists>es. dict_list (pc_events c) k = dict_list (pc_events a) k @ es" by simp
next
  fix k d d'
  assume d: "dict_get (pc_definitions a) k = Some d" "dict_get (pc_definitions c) k = Some d'"
  then have "dict_get (pc_definitions b) k \<noteq> None"
    using ab unfolding catalog_later_def by (metis option.distinct(1))
  then obtain d1 where "dict_get (pc_definitions b) k = Some d1" by blast
  with d ab bc have "same_content d d1" "same_content d1 d'"
    unfolding catalog_later_def by blast+
  then show "same_content d d'" by (rule same_content_trans)
qed

interpretation catalog: guarded_steps
  "run_catalog_command sha" "\<lambda>c cmd. True" catalog_inv catalog_later
proof
  fix c cmd assume inv: "catalog_inv c"
  have refl: "catalog_later c c" by (simp add: catalog_later_def)
  show "catalog_inv (fst (run_catalog_command sha c cmd))"
    using inv validate_keeps activate_keeps
    by (cases cmd) (auto split: sum.splits prod.splits)
  show "catalog_later c (fst (run_catalog_command sha c cmd))"
    using inv refl validate_keeps activate_keeps
    by (cases cmd) (auto split: sum.splits prod.splits)
next
  show "catalog_later c c" for c by (simp add: catalog_later_def)
next
  show "catalog_later a b \<Longrightarrow> catalog_later b c \<Longrightarrow> catalog_later a c" for a b c
    by (rule catalog_later_trans)
qed

lemma run_ok_True [simp]: "run_ok (\<lambda>c cmd. True) step s cs"
  by (induction cs arbitrary: s) simp_all

lemma dict_list_no_events [simp]: "dict_list (map (\<lambda>(key, d). (key, [])) xs) k = []"
  by (induction xs) (auto simp: dict_list_def)

lemma reference_definitions:
  "pc_definitions (reset_catalog sha reference_policy_packs) =
     [((''GLOBAL_PRIVATE_BANKING_BASELINE'', ''2026.05''),
       prepare_definition sha global_private_banking_baseline),
      ((''SG_PRIVATE_BANKING_REFERENCE'', ''2026.05''),
       prepare_definition sha sg_private_banking_reference)]"
  by (simp add: reset_catalog_def reference_policy_packs_def definition_key_def obj_get_def
      global_private_banking_baseline_def sg_private_banking_reference_def Let_def)

lemma reference_catalog_inv: "catalog_inv (reset_catalog sha reference_policy_packs)"
proof -
  have "dict_list (pc_events (reset_catalog sha reference_policy_packs)) k = []" for k
    by (simp add: reset_catalog_def Let_def)
  then show ?thesis
    by (auto simp: catalog_inv_def one_active_def reference_definitions activations_checked_def
        dict_wf_def dict_get_def split: if_splits)
qed

end
