(* ===== verification/Policy_Replay.thy ===== *)
theory Policy_Replay
  imports Policy_Laws Policy_Catalog_Laws
begin

text \<open>
  What a replay needs: a version that was active stays eligible, its content stays what the record
  was evaluated on, and an evaluation depends on nothing else of the catalogue.
\<close>

section \<open>A catalogue just loaded\<close>

lemma one_active_of_length:
  assumes wf: "dict_wf (pc_definitions c)" and "\<And>pid. length (active_entries pid c) \<le> 1"
  shows "one_active c"
  unfolding one_active_def
proof (intro allI impI)
  fix k d k' d'
  assume "dict_get (pc_definitions c) k = Some d" "pack_is_active d"
    "dict_get (pc_definitions c) k' = Some d'" "pack_is_active d'" "fst k = fst k'"
  then have "(k, d) \<in> set (active_entries (fst k) c)" "(k', d') \<in> set (active_entries (fst k) c)"
    by (simp_all add: active_entries_iff [OF wf])
  then show "k = k'"
    using assms(2) [of "fst k"] by (cases "active_entries (fst k) c") auto
qed

lemma dict_wf_fold: "dict_wf acc \<Longrightarrow> dict_wf (fold (\<lambda>d. dict_set (f d) (g d)) xs acc)"
  by (induction xs arbitrary: acc) simp_all

lemma reset_catalog_inv:
  assumes "\<And>pid. length (active_entries pid (reset_catalog sha packs)) \<le> 1"
  shows "catalog_inv (reset_catalog sha packs)"
proof -
  have wf: "dict_wf (pc_definitions (reset_catalog sha packs))"
    by (simp add: reset_catalog_def Let_def dict_wf_fold)
  have "dict_list (pc_events (reset_catalog sha packs)) k = []" for k
    by (simp add: reset_catalog_def Let_def)
  then show ?thesis
    using wf one_active_of_length [OF wf assms] by (simp add: catalog_inv_def activations_checked_def)
qed

section \<open>A version that was active\<close>

definition replay_eligible :: "json_dict \<Rightarrow> bool" where
  "replay_eligible d \<longleftrightarrow> py_str (obj_get d ''activation_state'') \<in> {''ACTIVE'', ''SUPERSEDED''}"

definition eligible_at :: "string \<times> string \<Rightarrow> policy_catalog \<Rightarrow> bool" where
  "eligible_at k c \<longleftrightarrow>
     catalog_inv c \<and> (\<exists>d. dict_get (pc_definitions c) k = Some d \<and> replay_eligible d)"

lemma replay_eligible_set [simp]:
  "replay_eligible (dict_set ''activation_state'' (JStr ''ACTIVE'') d)"
  "replay_eligible d \<Longrightarrow> replay_eligible (superseded pid k d)"
  by (auto simp: replay_eligible_def superseded_def)

lemma validate_eligible:
  assumes "validate_policy_pack_version sha pid v actor raw reason now c = Inr (c1, r)"
    and "eligible_at k c"
  shows "eligible_at k c1"
  using validate_effect [OF assms(1)] validate_keeps [OF assms(1)] assms(2)
  by (auto simp: eligible_at_def)

lemma activate_eligible:
  assumes act: "activate_policy_pack_version sha pid v actor h raw reason now c = Inr (c1, r)"
    and el: "eligible_at k c"
  shows "eligible_at k c1"
proof -
  have wf: "dict_wf (pc_definitions c)" using el by (simp add: eligible_at_def catalog_inv_def)
  from activate_effect [OF act wf]
  have "\<exists>d. dict_get (pc_definitions c1) k = Some d \<and> replay_eligible d"
    using el by (cases k) (auto simp: eligible_at_def)
  then show ?thesis
    using activate_keeps [OF act] el by (simp add: eligible_at_def)
qed

interpretation eligible_runs: guarded_steps
  "run_catalog_command sha" "\<lambda>c cmd. True" "eligible_at k" catalog_later
proof
  fix c cmd assume el: "eligible_at k c"
  then have inv: "catalog_inv c" by (simp add: eligible_at_def)
  show "eligible_at k (fst (run_catalog_command sha c cmd))"
    using el validate_eligible activate_eligible
    by (cases cmd) (auto split: sum.splits prod.splits)
  show "catalog_later c (fst (run_catalog_command sha c cmd))"
    using catalog.step_later [OF inv TrueI] .
qed (auto intro: catalog.later_refl catalog.later_trans)

section \<open>The evaluation depends on the content alone\<close>

lemma evaluate_other_detail:
  assumes "evaluate_policy_pack_detail evidence det = Inr ev"
    and "pd_rules det' = pd_rules det" and "pd_applicability det' = pd_applicability det"
  shows "evaluate_policy_pack_detail evidence det' = Inr (ev\<lparr>pev_policy_pack := pd_policy_pack det'\<rparr>)"
    and "pev_policy_pack ev = pd_policy_pack det"
  using assms by (auto simp: evaluate_policy_pack_detail_def Let_def rbind_eq_Inr split: if_splits)

lemma detail_same_content:
  assumes "same_content d d'"
  shows "pd_rules (build_policy_pack_detail_response d' c') = pd_rules (build_policy_pack_detail_response d c)"
    and "pd_applicability (build_policy_pack_detail_response d' c') =
      pd_applicability (build_policy_pack_detail_response d c)"
    and "(summary_from_definition d')\<lparr>ps_activation_state := s\<rparr> =
      (summary_from_definition d)\<lparr>ps_activation_state := s\<rparr>"
  using assms
  by (simp_all add: same_content_def build_policy_pack_detail_response_def dict_at_def list_at_def
      summary_from_definition_def)

lemma finalize_created:
  assumes "finalize_policy_evaluation_record sha cal c evidence pack version pid vid actor key reason
      trace t1 t2 s = Inr (s', res)" and "px_created res"
  obtains ev d k where "evaluate_policy_pack_version evidence pack version c = Inr ev"
    "load_definition pack version c = Inr d"
    "build_policy_evaluation_record sha cal ev evidence pid vid actor
       (hash_canonical_payload sha (JObj evidence)) (py_str (obj_get d ''content_hash'')) k reason
       trace t1 = Inr (px_record res)"
    "dict_get (st_records s') (po_evaluation_id (px_record res)) = Some (px_record res)"
  using assms unfolding finalize_policy_evaluation_record_def Let_def get_policy_pack_version_def
  by (auto simp: build_policy_pack_detail_response_def summary_from_definition_def
      elim!: rbind_InrE split: option.split_asm list.split_asm prod.split_asm)

text \<open>The fields of a record that the replay reads.\<close>

lemma record_of_evaluation:
  assumes "build_policy_evaluation_record sha cal ev evidence pid vid actor source content k reason
      trace t = Inr r"
  shows "po_policy_pack_id r = ps_policy_pack_id (pev_policy_pack ev)"
    "po_policy_version r = ps_policy_version (pev_policy_pack ev)"
    "po_policy_content_hash r = content" "po_source_evidence_hash r = source"
    "po_evaluation_hash r = policy_evaluation_hash sha ev source content"
    "po_evaluation_json r = policy_evaluation_json ev"
  using assms
  by (auto simp: build_policy_evaluation_record_def Let_def rbind_eq_Inr)

lemma recorded_activation_state:
  "obj_get (dict_at (policy_evaluation_json ev) ''policy_pack'') ''activation_state'' =
     JStr (ps_activation_state (pev_policy_pack ev))"
  by (simp add: policy_evaluation_json_def policy_pack_summary_json_def dict_at_def obj_get_Cons)

end
