(* ===== verification/Policy_Totality.thy ===== *)
theory Policy_Totality
  imports Policy_Catalog_Laws Policy_Evaluation
begin

text \<open>
  When an evaluation returns: on rules whose evidence fields are texts and a posture whose sections
  have a scalar status and textual references, which the readiness the code builds always is.
\<close>

definition rule_wf :: "json_dict \<Rightarrow> bool" where
  "rule_wf rule \<longleftrightarrow>
     dict_get rule ''rule_id'' \<noteq> None \<and> list_all is_str (list_at rule ''required_evidence_fields'')"

definition section_wf :: "json_dict \<Rightarrow> bool" where
  "section_wf s \<longleftrightarrow>
     is_hashable (obj_get s ''status'') \<and> list_all is_str (list_at s ''evidence_refs'')"

definition posture_wf :: "json_dict \<Rightarrow> bool" where
  "posture_wf posture \<longleftrightarrow> list_all section_wf (dict_items (list_at posture ''sections''))"

lemma str_list_total: "list_all is_str xs \<Longrightarrow> \<exists>ys. str_list xs = Inr ys"
  by (auto simp: str_list_def is_str_def)

lemma rule_results_total:
  assumes "rule_wf rule" and "list_all is_str refs"
  shows "\<exists>r. rule_ready rule outcome refs authority = Inr r"
    and "\<exists>r. rule_pending rule outcome missing reasons actions refs authority = Inr r"
    and "\<exists>r. rule_blocked rule outcome missing reasons actions = Inr r"
  using str_list_total [OF assms(2)] str_list_total [of "list_at rule ''required_evidence_fields''"]
    assms(1) by (auto simp: rule_ready_def rule_pending_def rule_blocked_def rule_wf_def)

lemma sections_by_key_wf:
  assumes "posture_wf posture" and "dict_get (sections_by_key posture) k = Some s"
  shows "section_wf s"
proof -
  have "dict_get (fold (\<lambda>s. dict_set (py_str (obj_get s ''key'')) s) xs d) k = Some s \<Longrightarrow>
      s \<in> set xs \<or> dict_get d k = Some s" for xs d
    by (induction xs arbitrary: d) (fastforce split: if_splits)+
  then show ?thesis
    using assms by (fastforce simp: posture_wf_def sections_by_key_def list_all_iff dict_get_def)
qed

lemma collect_total:
  assumes "posture_wf posture"
  shows "\<exists>c'. collect_source_evidence posture keys c = Inr c'"
proof (induction keys arbitrary: c)
  case (Cons k ks)
  have "\<exists>c1. collect_section_source_evidence k (sections_by_key posture) c = Inr c1"
    using sections_by_key_wf [OF assms, of k]
    by (auto simp: collect_section_source_evidence_def Let_def section_wf_def split: option.split)
  then show ?case using Cons.IH by (auto simp: rbind_eq_Inr)
qed simp

lemma required_total:
  assumes "posture_wf posture" and "rule_wf rule"
  shows "\<exists>res. required_source_result rule posture = Inr res"
proof -
  obtain c where "collect_source_evidence posture (source_evidence_fields rule)
      \<lparr>sc_missing = [], sc_reasons = [], sc_pending = False\<rparr> = Inr c"
    using collect_total [OF assms(1)] by blast
  moreover have "list_all is_str []" by simp
  note rule_results_total(2,3) [OF assms(2) this]
  then have "\<exists>res. (case source_evidence_result rule c of None \<Rightarrow> Inr None
      | Some result \<Rightarrow> rbind result (\<lambda>r. Inr (Some r))) = (Inr res :: proposal_error + _)"
    by (auto simp: source_evidence_result_def rbind_eq_Inr)
  ultimately show ?thesis by (simp add: required_source_result_def)
qed

lemma posture_section_refs:
  assumes "posture_wf posture"
  shows "list_all is_str (list_at (posture_section posture key) ''evidence_refs'')"
  using assms
  by (auto simp: posture_section_def posture_wf_def section_wf_def list_all_iff list_at_def
      find_Some_iff split: option.split json.splits dest!: nth_mem)

lemma evaluator_total:
  assumes "posture_wf posture" and "rule_wf rule"
    and "dict_get SPECIALIZED_RULE_EVALUATORS name = Some evaluator"
  shows "\<exists>r. evaluator rule evidence posture jurisdiction segment = Inr r"
proof -
  note total = rule_results_total [OF assms(2)]
  have refs: "list_all is_str [PRODUCT_SHELF_EVIDENCE_REF, PROPOSED_TRADES_EVIDENCE_REF]"
    "list_all is_str [PRODUCT_SHELF_EVIDENCE_REF]"
    "list_all is_str [JStr a]" "list_all is_str [JStr a, JStr b]" "list_all is_str []" for a b
    by (simp_all add: is_str_def PRODUCT_SHELF_EVIDENCE_REF_def PROPOSED_TRADES_EVIDENCE_REF_def)
  have "\<exists>r. evaluate_sg_product_eligibility rule evidence jurisdiction segment = Inr r"
    using total(1) [OF refs(1)] total(3) [OF refs(5)]
    by (auto simp: evaluate_sg_product_eligibility_def split: prod.split)
  moreover have "\<exists>r. evaluate_sg_complex_product_disclosure rule evidence = Inr r"
    using total(1) [OF refs(2)] total(2) [OF refs(2)]
    by (auto simp: evaluate_sg_complex_product_disclosure_def Let_def)
  moreover have "\<exists>r. evaluate_best_interest_cost rule evidence = Inr r"
    using total(1) [OF refs(3)] total(2) [OF refs(5)]
    by (simp add: evaluate_best_interest_cost_def Let_def)
  moreover have "\<exists>r. evaluate_conflict_disclosure_review rule evidence = Inr r"
    using total(1) [OF refs(4)] total(2) [OF refs(3)] total(3) [OF refs(5)]
    by (auto simp: evaluate_conflict_disclosure_review_def Let_def split: prod.split)
  moreover have "\<exists>r. evaluate_mandate_rule rule posture = Inr r"
    using total(1) [OF posture_section_refs [OF assms(1)]] by (simp add: evaluate_mandate_rule_def)
  ultimately show ?thesis
    using assms(3) total(1) [OF refs(5)]
    by (auto simp: SPECIALIZED_RULE_EVALUATORS_def split: if_splits)
qed

lemma rule_total:
  assumes "posture_wf posture" and "rule_wf rule"
  shows "\<exists>r. evaluate_policy_rule rule evidence posture jurisdiction segment = Inr r"
proof -
  obtain res where "required_source_result rule posture = Inr res"
    using required_total [OF assms] by blast
  then show ?thesis
    using assms(2) evaluator_total [OF assms] rule_results_total(2) [OF assms(2), of "[]"]
    by (auto simp: evaluate_policy_rule_def rule_wf_def split: option.split)
qed

lemma rules_total:
  assumes "posture_wf posture" and "list_all rule_wf rules"
  shows "\<exists>rs. evaluate_policy_rules evidence posture jurisdiction segment rules = Inr rs \<and>
    length rs = length rules"
  using assms(2)
proof (induction rules)
  case (Cons rule rules)
  then show ?case
    using rule_total [OF assms(1), of rule evidence jurisdiction segment] by auto
qed simp

text \<open>The strongest status among the results.\<close>

definition worst_status :: "policy_rule_result list \<Rightarrow> policy_status" where
  "worst_status results =
     (if list_ex (\<lambda>r. prr_status r = PolicyBlocked) results then PolicyBlocked
      else if list_ex (\<lambda>r. prr_status r = PolicyPending) results then PolicyPending
      else PolicyReady)"

lemma status_name_eq [simp]:
  "policy_status_name a = policy_status_name b \<longleftrightarrow> a = b"
  by (cases a; cases b) simp_all

lemma aggregate_worst:
  assumes "results \<noteq> []" and "list_all (\<lambda>r. prr_status r \<noteq> PolicyNotApplicable) results"
  shows "policy_status_of (aggregate_status results) = Inr (worst_status results)"
proof -
  have in_set: "JStr (policy_status_name st) \<in> set (map (\<lambda>s. obj_get s ''status'')
      (map (\<lambda>r. [(''status'', JStr (policy_status_name (prr_status r)))]) results)) \<longleftrightarrow>
    list_ex (\<lambda>r. prr_status r = st) results" for st
    by (auto simp: list_ex_iff obj_get_Cons)
  note in_set [of PolicyBlocked] in_set [of PolicyPending] in_set [of PolicyReady]
  moreover have "list_ex (\<lambda>r. prr_status r = PolicyReady) results"
    if "\<not> list_ex (\<lambda>r. prr_status r = PolicyBlocked) results"
      "\<not> list_ex (\<lambda>r. prr_status r = PolicyPending) results"
  proof -
    obtain r where "r \<in> set results" using assms(1) by (cases results) auto
    moreover from this have "prr_status r = PolicyReady"
      using that assms(2) by (cases "prr_status r") (auto simp: list_ex_iff list_all_iff)
    ultimately show ?thesis by (auto simp: list_ex_iff)
  qed
  ultimately show ?thesis
    by (simp add: aggregate_status_def overall_posture_def Let_def worst_status_def
        policy_status_of_def)
qed

text \<open>No rule answers NOT_APPLICABLE.\<close>

lemma rule_result_status:
  "rule_ready rule outcome refs authority = Inr r \<Longrightarrow> prr_status r = PolicyReady"
  "rule_pending rule outcome missing reasons actions refs authority = Inr r \<Longrightarrow>
     prr_status r = PolicyPending"
  "rule_blocked rule outcome missing reasons actions = Inr r \<Longrightarrow> prr_status r = PolicyBlocked"
  by (auto simp: rule_ready_def rule_pending_def rule_blocked_def rbind_eq_Inr)

lemma specialized_status:
  "evaluate_sg_product_eligibility rule evidence jurisdiction segment = Inr r \<Longrightarrow>
     prr_status r \<noteq> PolicyNotApplicable"
  "evaluate_sg_complex_product_disclosure rule evidence = Inr r \<Longrightarrow>
     prr_status r \<noteq> PolicyNotApplicable"
  "evaluate_best_interest_cost rule evidence = Inr r \<Longrightarrow> prr_status r \<noteq> PolicyNotApplicable"
  "evaluate_conflict_disclosure_review rule evidence = Inr r \<Longrightarrow> prr_status r \<noteq> PolicyNotApplicable"
  "evaluate_mandate_rule rule posture = Inr r \<Longrightarrow> prr_status r \<noteq> PolicyNotApplicable"
  by (auto simp: evaluate_sg_product_eligibility_def evaluate_sg_complex_product_disclosure_def
      evaluate_best_interest_cost_def evaluate_conflict_disclosure_review_def
      evaluate_mandate_rule_def Let_def dest!: rule_result_status split: if_splits prod.splits)

lemma evaluator_status:
  assumes "dict_get SPECIALIZED_RULE_EVALUATORS name = Some evaluator"
    and "evaluator rule evidence posture jurisdiction segment = Inr r"
  shows "prr_status r \<noteq> PolicyNotApplicable"
  using assms
  by (auto simp: SPECIALIZED_RULE_EVALUATORS_def dest: specialized_status rule_result_status(1)
      split: if_splits)

lemma required_status:
  assumes "required_source_result rule posture = Inr (Some r)"
  shows "prr_status r \<noteq> PolicyNotApplicable"
  using assms
  by (auto simp: required_source_result_def source_evidence_result_def rbind_eq_Inr
      dest!: rule_result_status split: option.split_asm if_split_asm)

text \<open>A result is that of the source evidence, of the evaluator, or a request for a steward.\<close>

lemma evaluate_policy_rule_cases:
  assumes "evaluate_policy_rule rule evidence posture jurisdiction segment = Inr r"
  obtains "required_source_result rule posture = Inr (Some r)"
  | name evaluator where "dict_get SPECIALIZED_RULE_EVALUATORS name = Some evaluator"
      "evaluator rule evidence posture jurisdiction segment = Inr r"
  | outcome where "rule_pending rule outcome [] [''POLICY_RULE_EVALUATOR_NOT_SPECIALIZED'']
      [''POLICY_STEWARD_REVIEW''] [] [] = Inr r"
proof -
  obtain name where name: "dict_get rule ''rule_id'' = Some name"
    using assms by (cases "dict_get rule ''rule_id''") (simp_all add: evaluate_policy_rule_def)
  obtain res where res: "required_source_result rule posture = Inr res"
    and r: "(case res of Some result \<Rightarrow> Inr result
      | None \<Rightarrow> (case dict_get SPECIALIZED_RULE_EVALUATORS (py_str name) of
           Some evaluator \<Rightarrow> evaluator rule evidence posture jurisdiction segment
         | None \<Rightarrow> rule_pending rule
             (py_str (json_or (obj_get rule ''outcome_mapping'')
                (JStr ''POLICY_RULE_REVIEW_REQUIRED'')))
             [] [''POLICY_RULE_EVALUATOR_NOT_SPECIALIZED''] [''POLICY_STEWARD_REVIEW''] [] [])) = Inr r"
    using assms name by (simp add: evaluate_policy_rule_def rbind_eq_Inr) blast
  show thesis
    using that res r by (auto split: option.split_asm)
qed

lemma rule_status:
  assumes "evaluate_policy_rule rule evidence posture jurisdiction segment = Inr r"
  shows "prr_status r \<noteq> PolicyNotApplicable"
  using assms
  by (cases rule: evaluate_policy_rule_cases)
    (auto dest: required_status evaluator_status rule_result_status(2))

lemma rules_status:
  "evaluate_policy_rules evidence posture jurisdiction segment rules = Inr rs \<Longrightarrow>
   list_all (\<lambda>r. prr_status r \<noteq> PolicyNotApplicable) rs"
  by (induction rules arbitrary: rs) (auto simp: rbind_eq_Inr dest: rule_status)

text \<open>Each result carries the name of its rule.\<close>

lemma rule_result_name:
  "rule_ready rule outcome refs authority = Inr r \<Longrightarrow> prr_rule_id r = py_str (obj_get rule ''rule_id'')"
  "rule_pending rule outcome missing reasons actions refs authority = Inr r \<Longrightarrow>
     prr_rule_id r = py_str (obj_get rule ''rule_id'')"
  "rule_blocked rule outcome missing reasons actions = Inr r \<Longrightarrow>
     prr_rule_id r = py_str (obj_get rule ''rule_id'')"
  by (auto simp: rule_ready_def rule_pending_def rule_blocked_def rbind_eq_Inr)

lemma specialized_name:
  "evaluate_sg_product_eligibility rule evidence jurisdiction segment = Inr r \<Longrightarrow>
     prr_rule_id r = py_str (obj_get rule ''rule_id'')"
  "evaluate_sg_complex_product_disclosure rule evidence = Inr r \<Longrightarrow>
     prr_rule_id r = py_str (obj_get rule ''rule_id'')"
  "evaluate_best_interest_cost rule evidence = Inr r \<Longrightarrow>
     prr_rule_id r = py_str (obj_get rule ''rule_id'')"
  "evaluate_conflict_disclosure_review rule evidence = Inr r \<Longrightarrow>
     prr_rule_id r = py_str (obj_get rule ''rule_id'')"
  "evaluate_mandate_rule rule posture = Inr r \<Longrightarrow>
     prr_rule_id r = py_str (obj_get rule ''rule_id'')"
  by (auto simp: evaluate_sg_product_eligibility_def evaluate_sg_complex_product_disclosure_def
      evaluate_best_interest_cost_def evaluate_conflict_disclosure_review_def
      evaluate_mandate_rule_def Let_def dest!: rule_result_name split: if_splits prod.splits)

lemma evaluator_name:
  assumes "dict_get SPECIALIZED_RULE_EVALUATORS name = Some evaluator"
    and "evaluator rule evidence posture jurisdiction segment = Inr r"
  shows "prr_rule_id r = py_str (obj_get rule ''rule_id'')"
  using assms
  by (auto simp: SPECIALIZED_RULE_EVALUATORS_def dest: specialized_name rule_result_name(1)
      split: if_splits)

lemma required_name:
  assumes "required_source_result rule posture = Inr (Some r)"
  shows "prr_rule_id r = py_str (obj_get rule ''rule_id'')"
  using assms
  by (auto simp: required_source_result_def source_evidence_result_def rbind_eq_Inr
      dest!: rule_result_name split: option.split_asm if_split_asm)

lemma rule_name:
  assumes "evaluate_policy_rule rule evidence posture jurisdiction segment = Inr r"
  shows "prr_rule_id r = py_str (obj_get rule ''rule_id'')"
  using assms
  by (cases rule: evaluate_policy_rule_cases)
    (auto dest: required_name evaluator_name rule_result_name(2))

lemma rules_names:
  "evaluate_policy_rules evidence posture jurisdiction segment rules = Inr rs \<Longrightarrow>
   map prr_rule_id rs = map (\<lambda>rule. py_str (obj_get rule ''rule_id'')) rules"
  by (induction rules arbitrary: rs) (auto simp: rbind_eq_Inr dest: rule_name)

text \<open>The readiness the code builds is well formed.\<close>

lemma section_wf_readiness [simp]:
  "section_wf (source_readiness_section key owner status refs missing reasons)"
  by (simp add: section_wf_def source_readiness_section_def obj_get_Cons is_hashable_def list_at_def
      list_all_iff is_str_def)

lemma dict_items_objects [simp]: "dict_items (map JObj ds) = ds"
  by (induction ds) (simp_all add: dict_items_def List.map_filter_simps)

lemma source_sections_wf: "list_all section_wf (policy_source_sections evidence)"
  by (simp add: policy_source_sections_def Let_def build_core_policy_source_sections_def
      build_product_policy_source_section_def build_risk_policy_source_section_def)

lemma posture_wf_readiness: "posture_wf (build_policy_source_readiness evidence)"
proof -
  have "list_at (build_policy_source_readiness evidence) ''sections'' =
      map JObj (policy_source_sections evidence)"
    by (simp add: build_policy_source_readiness_def Let_def list_at_def obj_get_Cons)
  then show ?thesis using source_sections_wf by (simp add: posture_wf_def)
qed

lemma rules_of_prepared [simp]:
  "pd_rules (build_policy_pack_detail_response (prepare_definition sha d) c) =
     dict_items (list_at d ''rules'')"
  by (simp add: build_policy_pack_detail_response_def prepare_definition_def Let_def list_at_def)

lemma reference_rules_wf:
  "list_all rule_wf (dict_items (list_at global_private_banking_baseline ''rules''))"
  "list_all rule_wf (dict_items (list_at sg_private_banking_reference ''rules''))"
  by code_simp+

end
