(* ===== verification/Policy_Properties.thy ===== *)
theory Policy_Properties
  imports Policy_Demo Policy_Replay Policy_Totality
begin

text \<open>
  Properties of the policy packs: who may sign an evaluation off, what of it can change later, the
  activations of the catalogue, how source evidence decides a rule, and what a replay finds.
\<close>

section \<open>Sign-off\<close>

text \<open>
  C6: Maker-checker of the policy sign-off: in every store that any sequence of finalizations,
  review events, sign-off decisions and report or AI events leads to (each under any catalogue, no
  two evaluations sharing an identifier), a recorded sign-off was made by another actor than the
  maker of the evaluation, on an evaluation that is not BLOCKED, for exactly the evaluation hash
  on record, and it names every approval, disclosure and consent the evaluation requires.
\<close>
theorem sign_off_by_checker:
  assumes "run_ok (policy_command_ok sha cal) (policy_step sha cal) empty_policy_store cmds"
    and "s = run_steps (policy_step sha cal) empty_policy_store cmds"
    and "dict_get (st_records s) i = Some r"
    and "e \<in> set (dict_list (st_events s) i)" and "pu_event_type e = PolicySignOffRecorded"
  shows "pu_actor_id e \<noteq> po_created_by r \<and> po_evaluation_status r \<noteq> PolicyBlocked \<and>
    pu_evaluation_id e = i \<and> pu_content_hash e = po_evaluation_hash r \<and>
    obj_get (pu_reason_json e) ''decision'' = JStr ''APPROVE_FOR_POLICY_SIGN_OFF'' \<and>
    set (po_approval_dependencies r) \<subseteq>
      set (str_items (list_at (pu_reason_json e) ''resolved_approval_dependencies'')) \<and>
    set (po_disclosure_requirements r) \<subseteq>
      set (str_items (list_at (pu_reason_json e) ''satisfied_disclosure_requirements'')) \<and>
    set (po_consent_requirements r) \<subseteq>
      set (str_items (list_at (pu_reason_json e) ''satisfied_consent_requirements''))"
proof -
  have "policy_inv s"
    using policy_runs.run_inv [OF policy_inv_empty assms(1)] assms(2) by simp
  then have "po_evaluation_id r = i" "event_of_record r e"
    using policy_invD [OF _ assms(3)] assms(4) by (auto simp: log_of_record_def)
  then show ?thesis
    using assms(5) by (simp add: event_of_record_def sign_off_justified_def names_all_def
        is_approved_sign_off_event_def)
qed

theorem sign_off_by_checker_witness:
  "list_ex (\<lambda>e. pu_event_type e = PolicySignOffRecorded \<and> pu_actor_id e \<noteq> ''maker'')
     (dict_list (st_events demo_store_signed) demo_id)"
proof -
  obtain e f where log: "dict_list (st_events demo_store_signed) demo_id = [e, f]"
    "pu_event_type f = PolicySignOffRecorded"
    using demo_signed by blast
  obtain r where r: "dict_get (st_records demo_store_signed) demo_id = Some r"
    "po_created_by r = ''maker''"
    using demo_signed_record by blast
  have "pu_actor_id f \<noteq> ''maker''"
    using sign_off_by_checker [OF demo_run_ok demo_run_result [symmetric] r(1), of f] log r(2)
    by simp
  then show ?thesis using log by simp
qed



section \<open>The catalogue\<close>








section \<open>Source evidence\<close>

text \<open>What a section of the posture says of a required field.\<close>

definition field_undecided :: "json_dict \<Rightarrow> string \<Rightarrow> bool" where
  "field_undecided posture field_key =
     (case dict_get (sections_by_key posture) field_key of
        None \<Rightarrow> False
      | Some s \<Rightarrow> obj_get s ''status'' \<in> {JStr ''PENDING_REVIEW'', JStr ''NOT_AVAILABLE''})"

definition field_gap :: "json_dict \<Rightarrow> string \<Rightarrow> bool" where
  "field_gap posture field_key =
     (case dict_get (sections_by_key posture) field_key of
        None \<Rightarrow> True
      | Some s \<Rightarrow> obj_get s ''status'' \<in> {JStr ''BLOCKED'', JStr ''PENDING_REVIEW'', JStr ''NOT_AVAILABLE''} \<and>
          list_at s ''missing_evidence'' \<noteq> [])"

lemma collect_section_effect:
  assumes "collect_section_source_evidence f (sections_by_key posture) c = Inr c'"
  shows "(sc_missing c' \<noteq> [] \<longleftrightarrow> sc_missing c \<noteq> [] \<or> field_gap posture f) \<and>
    (sc_pending c' \<longleftrightarrow> sc_pending c \<or> field_undecided posture f)"
  using assms
  by (auto simp: collect_section_source_evidence_def field_gap_def field_undecided_def Let_def
      extend_from_section_def str_items_def split: option.splits if_splits)

lemma collect_effect:
  assumes "collect_source_evidence posture keys c = Inr c'"
    and "\<not> list_ex (has_prefix ''policy_source_readiness.'') keys"
  shows "(sc_missing c' \<noteq> [] \<longleftrightarrow> sc_missing c \<noteq> [] \<or> list_ex (field_gap posture) keys) \<and>
    (sc_pending c' \<longleftrightarrow> sc_pending c \<or> list_ex (field_undecided posture) keys)"
  using assms
proof (induction keys arbitrary: c)
  case (Cons f fs)
  then obtain c1 where "collect_section_source_evidence f (sections_by_key posture) c = Inr c1"
    "collect_source_evidence posture fs c1 = Inr c'"
    by (auto simp: rbind_eq_Inr)
  then show ?case
    using collect_section_effect Cons.IH [of c1] Cons.prems(2) by fastforce
qed simp

text \<open>
  What the source evidence makes of a rule whose required fields are sections of the posture:
  it is PENDING_REVIEW as soon as one section is undecided (PENDING_REVIEW or NOT_AVAILABLE),
  however many others are BLOCKED or missing; it is BLOCKED only if there is a gap and no section
  is undecided; it goes to its evaluator only if neither. One more undecided section turns a
  blocked rule into one that can be signed off.
\<close>
theorem undecided_section_hides_blocked:
  assumes "\<not> list_ex (has_prefix ''policy_source_readiness.'') (source_evidence_fields rule)"
    and "required_source_result rule posture = Inr res"
  shows "(map_option prr_status res =
    (if list_ex (field_undecided posture) (source_evidence_fields rule) then Some PolicyPending
     else if list_ex (field_gap posture) (source_evidence_fields rule) then Some PolicyBlocked
     else None))"
proof -
  let ?fields = "source_evidence_fields rule"
  obtain c where c: "collect_source_evidence posture ?fields
      \<lparr>sc_missing = [], sc_reasons = [], sc_pending = False\<rparr> = Inr c"
    and r: "(case source_evidence_result rule c of None \<Rightarrow> Inr None
       | Some result \<Rightarrow> rbind result (\<lambda>r. Inr (Some r))) = Inr res"
    using assms(2) by (auto simp: required_source_result_def rbind_eq_Inr)
  have "sc_missing c \<noteq> [] \<longleftrightarrow> list_ex (field_gap posture) ?fields"
    "sc_pending c \<longleftrightarrow> list_ex (field_undecided posture) ?fields"
    using collect_effect [OF c assms(1)] by simp_all
  then show ?thesis
    using r by (auto simp: source_evidence_result_def rule_blocked_def rule_pending_def rbind_eq_Inr
        split: if_splits)
qed

text \<open>
  On the reference rule for complex products and the readiness the code builds itself: without a
  risk report the rule is BLOCKED while the product evidence is complete, and only PENDING_REVIEW
  once the product evidence has a gap of its own.
\<close>
definition demo_shelf :: "json_dict \<Rightarrow> json_dict" where
  "demo_shelf entry =
     [(''inputs'',
       JObj [(''proposed_trades'', JArr [JObj [(''instrument_id'', JStr ''N1'')]]),
             (''shelf_entries'', JArr [JObj entry])])]"

definition demo_complete :: json_dict where
  "demo_complete =
     [(''eligibility'', JInt 1), (''target_market'', JInt 1), (''complexity'', JInt 1),
      (''private_asset'', JBool True)]"

lemma demo_rule_results:
  "\<not> isl (required_source_result (sg_private_banking_rules ! 1)
     (build_policy_source_readiness (demo_shelf demo_complete)))"
  "\<not> isl (required_source_result (sg_private_banking_rules ! 1)
     (build_policy_source_readiness (demo_shelf [])))"
  by code_simp+

theorem undecided_section_hides_blocked_witness:
  "\<exists>r1 r2. required_source_result (sg_private_banking_rules ! 1)
       (build_policy_source_readiness (demo_shelf demo_complete)) = Inr (Some r1) \<and>
     prr_status r1 = PolicyBlocked \<and>
     required_source_result (sg_private_banking_rules ! 1)
       (build_policy_source_readiness (demo_shelf [])) = Inr (Some r2) \<and>
     prr_status r2 = PolicyPending"
proof -
  let ?rule = "sg_private_banking_rules ! 1"
  let ?p = "\<lambda>e. build_policy_source_readiness (demo_shelf e)"
  have fields: "\<not> list_ex (has_prefix ''policy_source_readiness.'') (source_evidence_fields ?rule)"
    by code_simp
  have sections: "\<not> list_ex (field_undecided (?p demo_complete)) (source_evidence_fields ?rule)"
    "list_ex (field_gap (?p demo_complete)) (source_evidence_fields ?rule)"
    "list_ex (field_undecided (?p [])) (source_evidence_fields ?rule)"
    by code_simp+
  obtain a b where a: "required_source_result ?rule (?p demo_complete) = Inr a"
    and b: "required_source_result ?rule (?p []) = Inr b"
    using demo_rule_results by (auto simp: isl_def) (metis sum.exhaust)
  show ?thesis
    using undecided_section_hides_blocked [OF fields a] undecided_section_hides_blocked [OF fields b]
      sections a b by auto
qed

section \<open>Replay\<close>

text \<open>
  C9: Round trip of an evaluation and its replay: a record just finalized from a bundle under a
  catalogue whose keys are those of its definitions, replayed with the same bundle under whatever
  the catalogue became through further validations and activations (the version may have been
  superseded meanwhile), is an exact match: every hash agrees and the evaluation is recomputed
  equal, its activation state at the time included.
\<close>
theorem replay_of_finalized_matches:
  assumes "catalog_inv c" and "list_all (\<lambda>(k, d). definition_key d = k) (pc_definitions c)"
    and fin: "finalize_policy_evaluation_record sha cal c evidence pack version pid vid actor key
      reason trace t1 t2 s = Inr (s', res)" and "px_created res"
    and c': "c' = run_steps (run_catalog_command sha) c cmds"
  shows "\<exists>response. replay_policy_evaluation_record sha c' (po_evaluation_id (px_record res))
      (Some evidence) s' = Inr response \<and>
    obj_get (rp_hash_comparison response) ''replay_reason_code'' = JStr ''POLICY_REPLAY_EXACT_MATCH'' \<and>
    obj_get (rp_hash_comparison response) ''evaluation_hash_matches'' = JBool True \<and>
    obj_get (rp_hash_comparison response) ''source_evidence_hash_matches'' = JBool True \<and>
    obj_get (rp_hash_comparison response) ''policy_content_hash_matches'' = JBool True"
proof -
  let ?r = "px_record res"
  obtain ev d k where ev: "evaluate_policy_pack_version evidence pack version c = Inr ev"
    and d: "load_definition pack version c = Inr d"
    and r: "build_policy_evaluation_record sha cal ev evidence pid vid actor
       (hash_canonical_payload sha (JObj evidence)) (py_str (obj_get d ''content_hash'')) k reason
       trace t1 = Inr ?r"
    and stored: "dict_get (st_records s') (po_evaluation_id ?r) = Some ?r"
    using finalize_created [OF fin assms(4)] by blast
  let ?det = "build_policy_pack_detail_response d c"
  have got: "dict_get (pc_definitions c) (pack, version) = Some d"
    using d by (simp add: load_definition_def split: option.splits)
  have key: "definition_key d = (pack, version)"
    using assms(2) dict_get_SomeD [OF got] by (auto simp: list_all_iff)
  have active: "ps_activation_state (pd_policy_pack ?det) = ''ACTIVE''"
    and eval: "evaluate_policy_pack_detail evidence ?det = Inr ev"
    using ev d by (auto simp: evaluate_policy_pack_version_def get_policy_pack_version_def
        split: if_splits)
  have "replay_eligible d"
    using active by (simp add: replay_eligible_def build_policy_pack_detail_response_def
        summary_from_definition_def)
  then have "eligible_at (pack, version) c"
    using assms(1) got by (simp add: eligible_at_def)
  then have "eligible_at (pack, version) c'" and later: "catalog_later c c'"
    using eligible_runs.run_inv [of "(pack, version)" c] eligible_runs.run_later [of "(pack, version)" c]
      c' by simp_all
  then obtain d' where d': "dict_get (pc_definitions c') (pack, version) = Some d'"
    "replay_eligible d'" by (auto simp: eligible_at_def)
  have same: "same_content d d'" using later got d'(1) unfolding catalog_later_def by blast
  let ?det' = "build_policy_pack_detail_response d' c'"
  have load': "get_policy_pack_version pack version c' = Inr ?det'"
    using d'(1) by (simp add: get_policy_pack_version_def load_definition_def)
  let ?ev' = "ev\<lparr>pev_policy_pack := pd_policy_pack ?det'\<rparr>"
  have eval': "evaluate_policy_pack_detail evidence ?det' = Inr ?ev'"
    and pack: "pev_policy_pack ev = summary_from_definition d"
    using evaluate_other_detail [OF eval, of ?det'] detail_same_content(1,2) [OF same, of c' c]
    by (simp_all add: build_policy_pack_detail_response_def)
  have state': "ps_activation_state (pd_policy_pack ?det') \<in> {''ACTIVE'', ''SUPERSEDED'', ''DISABLED''}"
    using d'(2) by (auto simp: replay_eligible_def build_policy_pack_detail_response_def
        summary_from_definition_def)
  note rec = record_of_evaluation [OF r]
  have ids: "po_policy_pack_id ?r = pack" "po_policy_version ?r = version"
    using key by (simp_all add: rec pack summary_from_definition_def definition_key_def)
  have content: "ps_content_hash (pd_policy_pack ?det') = po_policy_content_hash ?r"
    using same by (simp add: rec build_policy_pack_detail_response_def summary_from_definition_def
        same_content_def)
  have "evaluation_payload_for_hash ?r ?ev' = ev"
    using detail_same_content(3) [OF same, of "ps_activation_state (pev_policy_pack ev)"]
    by (simp add: evaluation_payload_for_hash_def rec recorded_activation_state
        build_policy_pack_detail_response_def pack)
  moreover have "evaluate_policy_pack_version_for_replay evidence pack version c' = Inr ?ev'"
    using load' state' eval' by (simp add: evaluate_policy_pack_version_for_replay_def)
  moreover have "replay_reason_code ?r (Some ?det') = ''POLICY_REPLAY_ELIGIBLE''"
    using content state' by (simp add: replay_reason_code_def)
  ultimately show ?thesis
    using stored load' content
    by (simp add: replay_policy_evaluation_record_def load_policy_record_def ids
        build_policy_evaluation_replay_response_def replay_comparison_def Let_def rec(4,5)
        stored_comparison_def obj_get_Cons rec(3))
qed

lemma demo_definitions:
  "pc_definitions demo_catalog = [((''DEMO'', ''1''), prepare_definition demo_digest demo_pack)]"
  by (simp add: demo_catalog_def reset_catalog_def definition_key_def demo_pack_def obj_get_Cons Let_def)

lemma demo_catalog_inv: "catalog_inv demo_catalog"
proof -
  have "dict_list (pc_events demo_catalog) k = []" for k
    by (simp add: demo_catalog_def reset_catalog_def Let_def dict_list_def)
  then show ?thesis
    by (auto simp: catalog_inv_def one_active_def demo_definitions activations_checked_def
        dict_wf_def dict_get_def split: if_splits)
qed

theorem replay_of_finalized_matches_witness:
  "\<exists>response. replay_policy_evaluation_record demo_digest demo_catalog demo_id (Some demo_bundle)
       demo_store_created = Inr response \<and>
     obj_get (rp_hash_comparison response) ''replay_reason_code'' = JStr ''POLICY_REPLAY_EXACT_MATCH''"
proof -
  have "list_all (\<lambda>(k, d). definition_key d = k) (pc_definitions demo_catalog)"
    by (simp add: demo_definitions prepare_definition_def definition_key_def demo_pack_def Let_def
        obj_get_Cons)
  then show ?thesis
    using replay_of_finalized_matches [OF demo_catalog_inv _ demo_finalized, of demo_catalog "[]"]
    by auto
qed

section \<open>Totality\<close>



end
