(* ===== verification/Workspace_Records.thy ===== *)
theory Workspace_Records
  imports Version_Commands Policy_Readiness
begin

text \<open>
  The data of an advisory workspace (src/core/workspace/draft_models.py, version_models.py,
  session_models.py, action_models.py) and the parts of a session that are computed from others:
  the evaluation summary (evaluation.py), the replay evidence (replay.py), the saved versions
  (versions.py) and the comparison (compare.py).
\<close>

section \<open>Drafts\<close>

text \<open>
  A trade and a cash flow are the dumps of their request models; the workspace stores and copies
  them. The identifiers come from \<open>uuid4\<close> and are arguments.
\<close>

record trade_draft =
  td_workspace_trade_id :: string
  td_trade :: json

record cash_flow_draft =
  cd_workspace_cash_flow_id :: string
  cd_cash_flow :: json

record draft_state =
  ds_options :: json_dict
  ds_alternatives_request :: "json_dict option"
  ds_reference_model :: "json_dict option"
  ds_trade_drafts :: "trade_draft list"
  ds_cash_flow_drafts :: "cash_flow_draft list"

definition draft_state_json :: "draft_state \<Rightarrow> json" where
  "draft_state_json d = JObj
     [(''options'', JObj (ds_options d)),
      (''alternatives_request'', opt_obj (ds_alternatives_request d)),
      (''reference_model'', opt_obj (ds_reference_model d)),
      (''trade_drafts'', JArr (map (\<lambda>t. JObj
         [(''workspace_trade_id'', JStr (td_workspace_trade_id t)), (''trade'', td_trade t)])
         (ds_trade_drafts d))),
      (''cash_flow_drafts'', JArr (map (\<lambda>c. JObj
         [(''workspace_cash_flow_id'', JStr (cd_workspace_cash_flow_id c)),
          (''cash_flow'', cd_cash_flow c)]) (ds_cash_flow_drafts d)))]"

text \<open>The identifiers of the drafts are those drawn, in the order of the items.\<close>

definition build_draft_state_from_simulate_request ::
  "(nat \<Rightarrow> string) \<Rightarrow> (nat \<Rightarrow> string) \<Rightarrow> simulate_request \<Rightarrow> draft_state" where
  "build_draft_state_from_simulate_request trade_ids cash_flow_ids r =
     \<lparr>ds_options = sr_options r, ds_alternatives_request = sr_alternatives_request r,
      ds_reference_model = sr_reference_model r,
      ds_trade_drafts =
        map (\<lambda>(i, t). \<lparr>td_workspace_trade_id = trade_ids i, td_trade = t\<rparr>)
          (enumerate 0 (sr_proposed_trades r)),
      ds_cash_flow_drafts =
        map (\<lambda>(i, c). \<lparr>cd_workspace_cash_flow_id = cash_flow_ids i, cd_cash_flow = c\<rparr>)
          (enumerate 0 (sr_proposed_cash_flows r))\<rparr>"

text \<open>The request an evaluation runs on. It names no narrative request, so that is the default.\<close>

definition apply_workspace_draft_state :: "simulate_request \<Rightarrow> draft_state \<Rightarrow> simulate_request" where
  "apply_workspace_draft_state base d =
     \<lparr>sr_portfolio_snapshot = sr_portfolio_snapshot base,
      sr_market_data_snapshot = sr_market_data_snapshot base,
      sr_shelf_entries = sr_shelf_entries base, sr_options = ds_options d,
      sr_proposed_cash_flows = map cd_cash_flow (ds_cash_flow_drafts d),
      sr_proposed_trades = map td_trade (ds_trade_drafts d),
      sr_reference_model = ds_reference_model d,
      sr_alternatives_request = ds_alternatives_request d, sr_narrative_request = None\<rparr>"

section \<open>Sessions\<close>

record evaluation_summary =
  es_status :: creation_status
  es_gate_decision :: "json_dict option"
  es_blocking_issue_count :: nat
  es_review_issue_count :: nat
  es_portfolio_value_delta :: string
  es_trade_count :: nat
  es_cash_flow_count :: nat

record replay_evidence =
  re_input_mode :: input_mode
  re_resolved_context :: "resolved_context option"
  re_draft_state_hash :: string
  re_evaluation_request_hash :: "string option"
  re_captured_at :: string
  re_continuity :: json_dict
  re_risk_lens :: json

record saved_version =
  sv_workspace_version_id :: string
  sv_version_number :: nat
  sv_version_label :: "string option"
  sv_saved_by :: string
  sv_saved_at :: string
  sv_draft_state :: draft_state
  sv_evaluation_summary :: "evaluation_summary option"
  sv_latest_proposal_result :: "proposal_result option"
  sv_replay_evidence :: replay_evidence

record saved_version_summary =
  ss_workspace_version_id :: string
  ss_version_number :: nat
  ss_version_label :: "string option"
  ss_saved_by :: string
  ss_saved_at :: string

record lifecycle_link =
  ll_proposal_id :: string
  ll_current_version_no :: int
  ll_last_handoff_at :: string
  ll_last_handoff_by :: string

text \<open>The stateless input is the simulate request it wraps.\<close>

record workspace_session =
  ws_workspace_id :: string
  ws_workspace_name :: string
  ws_lifecycle_state :: string
  ws_input_mode :: input_mode
  ws_created_by :: string
  ws_created_at :: string
  ws_stateless_input :: "simulate_request option"
  ws_stateful_input :: "stateful_input option"
  ws_draft_state :: draft_state
  ws_resolved_context :: "resolved_context option"
  ws_evaluation_summary :: "evaluation_summary option"
  ws_latest_proposal_result :: "proposal_result option"
  ws_latest_replay_evidence :: "replay_evidence option"
  ws_saved_version_count :: nat
  ws_latest_saved_version :: "saved_version_summary option"
  ws_lifecycle_link :: "lifecycle_link option"
  ws_saved_versions :: "saved_version list"

record session_create_request =
  sq_workspace_name :: string
  sq_created_by :: string
  sq_input_mode :: input_mode
  sq_stateless_input :: "simulate_request option"
  sq_stateful_input :: "stateful_input option"

definition validate_workspace_input_mode_payloads ::
  "input_mode \<Rightarrow> 'a option \<Rightarrow> 'b option \<Rightarrow> bool" where
  "validate_workspace_input_mode_payloads mode stateless stateful =
     (case mode of
        Stateless \<Rightarrow> stateless \<noteq> None \<and> stateful = None
      | Stateful \<Rightarrow> stateful \<noteq> None \<and> stateless = None)"

definition build_stateless_workspace_resolved_context ::
  "string \<Rightarrow> simulate_request \<Rightarrow> resolved_context" where
  "build_stateless_workspace_resolved_context fallback_as_of r =
     \<lparr>rc_portfolio_id = text_of (obj_get (sr_portfolio_snapshot r) ''portfolio_id''),
      rc_as_of = (case sr_reference_model r of
                    Some m \<Rightarrow> text_of (obj_get m ''as_of'') | None \<Rightarrow> fallback_as_of),
      rc_portfolio_snapshot_id = opt_text_of (obj_get (sr_portfolio_snapshot r) ''snapshot_id''),
      rc_market_data_snapshot_id =
        opt_text_of (obj_get (sr_market_data_snapshot r) ''snapshot_id''),
      rc_risk_context_id = None, rc_reporting_context_id = None,
      rc_source_provenance = JNull, rc_source_completeness = JNull\<rparr>"

definition build_workspace_session ::
  "session_create_request \<Rightarrow> string \<Rightarrow> string \<Rightarrow> draft_state \<Rightarrow> resolved_context \<Rightarrow>
   workspace_session" where
  "build_workspace_session q workspace_id created_at draft context =
     \<lparr>ws_workspace_id = workspace_id, ws_workspace_name = sq_workspace_name q,
      ws_lifecycle_state = ''ACTIVE'', ws_input_mode = sq_input_mode q,
      ws_created_by = sq_created_by q, ws_created_at = created_at,
      ws_stateless_input = sq_stateless_input q, ws_stateful_input = sq_stateful_input q,
      ws_draft_state = draft, ws_resolved_context = Some context, ws_evaluation_summary = None,
      ws_latest_proposal_result = None, ws_latest_replay_evidence = None,
      ws_saved_version_count = 0, ws_latest_saved_version = None, ws_lifecycle_link = None,
      ws_saved_versions = []\<rparr>"

section \<open>The evaluation summary\<close>

definition rule_failure_count :: "proposal_result \<Rightarrow> string \<Rightarrow> nat" where
  "rule_failure_count result severity =
     length (filter (\<lambda>r. obj_get r ''status'' = JStr ''FAIL'' \<and> obj_get r ''severity'' = JStr severity)
       (dict_items (list_at (rs_json result) ''rule_results'')))"

definition calculate_blocking_issue_count :: "proposal_result \<Rightarrow> nat" where
  "calculate_blocking_issue_count result = rule_failure_count result ''HARD''"

definition calculate_review_issue_count :: "proposal_result \<Rightarrow> nat" where
  "calculate_review_issue_count result =
     rule_failure_count result ''SOFT'' +
     length (list_at (dict_at (rs_json result) ''suitability'') ''issues'')"

text \<open>
  The text of the value delta (\<open>format_portfolio_delta\<close>) is a decimal of the result; it is the
  argument \<open>delta\<close>.
\<close>

definition build_evaluation_summary ::
  "(proposal_result \<Rightarrow> string) \<Rightarrow> proposal_result \<Rightarrow> workspace_session \<Rightarrow> evaluation_summary" where
  "build_evaluation_summary delta result session =
     \<lparr>es_status = rs_status result, es_gate_decision = rs_gate_decision result,
      es_blocking_issue_count = calculate_blocking_issue_count result,
      es_review_issue_count = calculate_review_issue_count result,
      es_portfolio_value_delta = delta result,
      es_trade_count = length (ds_trade_drafts (ws_draft_state session)),
      es_cash_flow_count = length (ds_cash_flow_drafts (ws_draft_state session))\<rparr>"

section \<open>Replay evidence\<close>

definition build_draft_state_hash :: "(string \<Rightarrow> string) \<Rightarrow> workspace_session \<Rightarrow> string" where
  "build_draft_state_hash sha session =
     hash_canonical_payload sha (draft_state_json (ws_draft_state session))"

definition build_replay_evidence ::
  "(string \<Rightarrow> string) \<Rightarrow> advisory_engine \<Rightarrow> workspace_session \<Rightarrow> string option \<Rightarrow> timestamp \<Rightarrow>
   replay_evidence" where
  "build_replay_evidence sha eng session evaluation_request_hash now =
     \<lparr>re_input_mode = ws_input_mode session, re_resolved_context = ws_resolved_context session,
      re_draft_state_hash = build_draft_state_hash sha session,
      re_evaluation_request_hash = evaluation_request_hash, re_captured_at = isoformat now,
      re_continuity = [],
      re_risk_lens = (case ws_latest_proposal_result session of
                        None \<Rightarrow> JNull | Some result \<Rightarrow> en_risk_lens eng result)\<rparr>"

text \<open>The saved version with the draft and, if one is known, the request of the session, latest first.\<close>

definition evidence_matches :: "string \<Rightarrow> string option \<Rightarrow> saved_version \<Rightarrow> bool" where
  "evidence_matches draft_state_hash evaluation_request_hash v \<longleftrightarrow>
     re_draft_state_hash (sv_replay_evidence v) = draft_state_hash \<and>
     (evaluation_request_hash \<noteq> None \<longrightarrow>
        re_evaluation_request_hash (sv_replay_evidence v) = evaluation_request_hash)"

definition latest_request_hash :: "workspace_session \<Rightarrow> string option" where
  "latest_request_hash session =
     Option.bind (ws_latest_replay_evidence session) re_evaluation_request_hash"

definition find_matching_saved_version ::
  "(string \<Rightarrow> string) \<Rightarrow> workspace_session \<Rightarrow> saved_version option" where
  "find_matching_saved_version sha session =
     find (evidence_matches (build_draft_state_hash sha session) (latest_request_hash session))
       (rev (ws_saved_versions session))"

definition build_workspace_handoff_replay_lineage ::
  "(string \<Rightarrow> string) \<Rightarrow> workspace_session \<Rightarrow> string \<Rightarrow> string \<Rightarrow> string \<Rightarrow> int \<Rightarrow> timestamp \<Rightarrow>
   json_dict" where
  "build_workspace_handoff_replay_lineage sha session handoff_by handoff_action proposal_id
     proposal_version_no now =
     [(''workspace_id'', JStr (ws_workspace_id session)),
      (''workspace_version_id'',
       opt_str (map_option sv_workspace_version_id (find_matching_saved_version sha session))),
      (''draft_state_hash'', JStr (build_draft_state_hash sha session)),
      (''evaluation_request_hash'', opt_str (latest_request_hash session)),
      (''handoff_action'', JStr handoff_action), (''handoff_at'', JStr (isoformat now)),
      (''handoff_by'', JStr handoff_by), (''proposal_id'', JStr proposal_id),
      (''proposal_version_no'', JInt proposal_version_no)]"

text \<open>The matching version is changed in place: it is the last one of the list that matches.\<close>

definition set_continuity :: "json_dict \<Rightarrow> saved_version \<Rightarrow> saved_version" where
  "set_continuity lineage v =
     v\<lparr>sv_replay_evidence := (sv_replay_evidence v)\<lparr>re_continuity := lineage\<rparr>\<rparr>"

definition apply_workspace_handoff_replay_lineage ::
  "(string \<Rightarrow> string) \<Rightarrow> json_dict \<Rightarrow> workspace_session \<Rightarrow> workspace_session" where
  "apply_workspace_handoff_replay_lineage sha lineage session =
     session\<lparr>ws_latest_replay_evidence :=
                map_option (\<lambda>e. e\<lparr>re_continuity := lineage\<rparr>) (ws_latest_replay_evidence session),
              ws_saved_versions :=
                rev (update_first
                  (evidence_matches (build_draft_state_hash sha session) (latest_request_hash session))
                  (set_continuity lineage) (rev (ws_saved_versions session)))\<rparr>"

section \<open>Saved versions\<close>

definition build_saved_version_summary :: "saved_version \<Rightarrow> saved_version_summary" where
  "build_saved_version_summary v =
     \<lparr>ss_workspace_version_id = sv_workspace_version_id v, ss_version_number = sv_version_number v,
      ss_version_label = sv_version_label v, ss_saved_by = sv_saved_by v,
      ss_saved_at = sv_saved_at v\<rparr>"

definition refresh_saved_version_metadata :: "workspace_session \<Rightarrow> workspace_session" where
  "refresh_saved_version_metadata session =
     session\<lparr>ws_saved_version_count := length (ws_saved_versions session),
              ws_latest_saved_version :=
                (if ws_saved_versions session = [] then None
                 else Some (build_saved_version_summary (last (ws_saved_versions session))))\<rparr>"

definition find_saved_version :: "workspace_session \<Rightarrow> string \<Rightarrow> saved_version option" where
  "find_saved_version session workspace_version_id =
     find (\<lambda>v. sv_workspace_version_id v = workspace_version_id) (ws_saved_versions session)"

definition build_saved_workspace_version ::
  "(string \<Rightarrow> string) \<Rightarrow> advisory_engine \<Rightarrow> workspace_session \<Rightarrow> string \<Rightarrow> string option \<Rightarrow> string \<Rightarrow>
   timestamp \<Rightarrow> timestamp \<Rightarrow> saved_version" where
  "build_saved_workspace_version sha eng session saved_by version_label workspace_version_id saved_at
     evidence_at =
     \<lparr>sv_workspace_version_id = workspace_version_id,
      sv_version_number = length (ws_saved_versions session) + 1,
      sv_version_label = version_label, sv_saved_by = saved_by, sv_saved_at = isoformat saved_at,
      sv_draft_state = ws_draft_state session,
      sv_evaluation_summary = ws_evaluation_summary session,
      sv_latest_proposal_result = ws_latest_proposal_result session,
      sv_replay_evidence =
        (case ws_latest_replay_evidence session of
           Some e \<Rightarrow> e
         | None \<Rightarrow> build_replay_evidence sha eng session None evidence_at)\<rparr>"

definition apply_saved_workspace_version ::
  "saved_version \<Rightarrow> workspace_session \<Rightarrow> workspace_session" where
  "apply_saved_workspace_version v session =
     session\<lparr>ws_draft_state := sv_draft_state v,
              ws_evaluation_summary := sv_evaluation_summary v,
              ws_latest_proposal_result := sv_latest_proposal_result v,
              ws_latest_replay_evidence := Some (sv_replay_evidence v)\<rparr>"

section \<open>Comparison\<close>

text \<open>The options and the reference models are compared by their dumps.\<close>

record compare_diff =
  df_trade_count_delta :: int
  df_cash_flow_count_delta :: int
  df_options_changed :: bool
  df_reference_model_changed :: bool
  df_evaluation_status_changed :: bool

record compare_response =
  cw_workspace_id :: string
  cw_baseline_version :: saved_version
  cw_current_evaluation_summary :: "evaluation_summary option"
  cw_current_replay_evidence :: "replay_evidence option"
  cw_diff_summary :: compare_diff

definition build_workspace_compare_response ::
  "workspace_session \<Rightarrow> saved_version \<Rightarrow> compare_response" where
  "build_workspace_compare_response session baseline =
     \<lparr>cw_workspace_id = ws_workspace_id session, cw_baseline_version = baseline,
      cw_current_evaluation_summary = ws_evaluation_summary session,
      cw_current_replay_evidence = ws_latest_replay_evidence session,
      cw_diff_summary =
        \<lparr>df_trade_count_delta =
           int (length (ds_trade_drafts (ws_draft_state session))) -
           int (length (ds_trade_drafts (sv_draft_state baseline))),
         df_cash_flow_count_delta =
           int (length (ds_cash_flow_drafts (ws_draft_state session))) -
           int (length (ds_cash_flow_drafts (sv_draft_state baseline))),
         df_options_changed =
           (ds_options (ws_draft_state session) \<noteq> ds_options (sv_draft_state baseline)),
         df_reference_model_changed =
           (ds_reference_model (ws_draft_state session) \<noteq>
            ds_reference_model (sv_draft_state baseline)),
         df_evaluation_status_changed =
           (map_option es_status (ws_evaluation_summary session) \<noteq>
            map_option es_status (sv_evaluation_summary baseline))\<rparr>\<rparr>"

end
