(* ===== verification/Workspace_Sessions.thy ===== *)
theory Workspace_Sessions
  imports Workspace_Records
begin

text \<open>
  The workspace service (src/core/workspace/application.py): draft actions (draft_actions.py,
  action_models.py), the evaluation of a draft (reevaluation.py, evaluator.py), the resolution of
  its source context (src/infrastructure/workspace/lotus_core_context.py), saved versions, and the
  two session repositories (src/infrastructure/workspace/in_memory.py, postgres.py).

  The in-memory repository hands out the stored session itself, so that a change of it is visible
  before it is saved and stays when a later step raises; the durable one hands out a copy. The
  field \<open>sp_reflect\<close> is this difference. A command returns the repository's state with its result.
  Clock readings and drawn identifiers are arguments; the lotus-core reads and the evaluation
  engine are fields of the environment.
\<close>

section \<open>Errors\<close>

datatype workspace_error =
    WorkspaceNotFoundError string
  | WorkspaceEvaluationUnavailableError string
  | WorkspaceSavedVersionNotFoundError string
  | WorkspaceLifecycleHandoffUnavailableError string
  | LotusCoreStatefulContextUnavailableError string
  | WorkspaceCallError proposal_error

definition safe_workspace_error_detail :: "string \<Rightarrow> string \<Rightarrow> string" where
  "safe_workspace_error_detail detail fallback =
     (if contains_sensitive_error_detail detail then fallback else detail)"

section \<open>Draft actions\<close>

datatype draft_action_type =
  ADD_TRADE | UPDATE_TRADE | REMOVE_TRADE | ADD_CASH_FLOW | UPDATE_CASH_FLOW | REMOVE_CASH_FLOW
| REPLACE_OPTIONS

record draft_action_request =
  da_actor_id :: string
  da_action_type :: draft_action_type
  da_workspace_trade_id :: "string option"
  da_workspace_cash_flow_id :: "string option"
  da_trade :: "json option"
  da_cash_flow :: "json option"
  da_options :: "json_dict option"

fun required_action_payload :: "draft_action_request \<Rightarrow> draft_action_type \<Rightarrow> bool \<times> string" where
  "required_action_payload q ADD_TRADE = (da_trade q \<noteq> None, ''ADD_TRADE requires trade'')"
| "required_action_payload q UPDATE_TRADE =
     (da_workspace_trade_id q \<noteq> None \<and> da_trade q \<noteq> None,
      ''UPDATE_TRADE requires workspace_trade_id and trade'')"
| "required_action_payload q REMOVE_TRADE =
     (da_workspace_trade_id q \<noteq> None, ''REMOVE_TRADE requires workspace_trade_id'')"
| "required_action_payload q ADD_CASH_FLOW =
     (da_cash_flow q \<noteq> None, ''ADD_CASH_FLOW requires cash_flow'')"
| "required_action_payload q UPDATE_CASH_FLOW =
     (da_workspace_cash_flow_id q \<noteq> None \<and> da_cash_flow q \<noteq> None,
      ''UPDATE_CASH_FLOW requires workspace_cash_flow_id and cash_flow'')"
| "required_action_payload q REMOVE_CASH_FLOW =
     (da_workspace_cash_flow_id q \<noteq> None, ''REMOVE_CASH_FLOW requires workspace_cash_flow_id'')"
| "required_action_payload q REPLACE_OPTIONS =
     (da_options q \<noteq> None, ''REPLACE_OPTIONS requires options'')"

definition TRADE_DRAFT_ACTIONS :: "draft_action_type list" where
  "TRADE_DRAFT_ACTIONS = [ADD_TRADE, UPDATE_TRADE, REMOVE_TRADE]"

definition CASH_FLOW_DRAFT_ACTIONS :: "draft_action_type list" where
  "CASH_FLOW_DRAFT_ACTIONS = [ADD_CASH_FLOW, UPDATE_CASH_FLOW, REMOVE_CASH_FLOW]"

definition validate_action_payload :: "draft_action_request \<Rightarrow> string + unit" where
  "validate_action_payload q =
     (let required = required_action_payload q (da_action_type q) in
      if \<not> fst required then Inl (snd required)
      else if da_action_type q \<notin> set TRADE_DRAFT_ACTIONS \<and> da_workspace_trade_id q \<noteq> None
      then Inl ''workspace_trade_id is only valid for trade actions''
      else if da_action_type q \<notin> set CASH_FLOW_DRAFT_ACTIONS \<and> da_workspace_cash_flow_id q \<noteq> None
      then Inl ''workspace_cash_flow_id is only valid for cash-flow actions''
      else Inr ())"

definition require_payload :: "string \<Rightarrow> 'a option \<Rightarrow> string + 'a" where
  "require_payload message value = (case value of None \<Rightarrow> Inl message | Some x \<Rightarrow> Inr x)"

definition find_trade_draft :: "draft_state \<Rightarrow> string \<Rightarrow> string + trade_draft" where
  "find_trade_draft d i = require_payload ''WORKSPACE_TRADE_NOT_FOUND''
     (find (\<lambda>t. td_workspace_trade_id t = i) (ds_trade_drafts d))"

definition find_cash_flow_draft :: "draft_state \<Rightarrow> string \<Rightarrow> string + cash_flow_draft" where
  "find_cash_flow_draft d i = require_payload ''WORKSPACE_CASH_FLOW_NOT_FOUND''
     (find (\<lambda>c. cd_workspace_cash_flow_id c = i) (ds_cash_flow_drafts d))"

definition remove_trade_draft :: "draft_state \<Rightarrow> string \<Rightarrow> string + draft_state" where
  "remove_trade_draft d i =
     (let kept = filter (\<lambda>t. td_workspace_trade_id t \<noteq> i) (ds_trade_drafts d) in
      if length kept = length (ds_trade_drafts d) then Inl ''WORKSPACE_TRADE_NOT_FOUND''
      else Inr (d\<lparr>ds_trade_drafts := kept\<rparr>))"

definition remove_cash_flow_draft :: "draft_state \<Rightarrow> string \<Rightarrow> string + draft_state" where
  "remove_cash_flow_draft d i =
     (let kept = filter (\<lambda>c. cd_workspace_cash_flow_id c \<noteq> i) (ds_cash_flow_drafts d) in
      if length kept = length (ds_cash_flow_drafts d) then Inl ''WORKSPACE_CASH_FLOW_NOT_FOUND''
      else Inr (d\<lparr>ds_cash_flow_drafts := kept\<rparr>))"

text \<open>The draft found is changed in place: the first one with the identifier.\<close>

definition add_trade_draft :: "string \<Rightarrow> draft_state \<Rightarrow> draft_action_request \<Rightarrow> string + draft_state"
  where
  "add_trade_draft new_id d q =
     rbind (require_payload ''WORKSPACE_DRAFT_TRADE_REQUIRED'' (da_trade q)) (\<lambda>trade.
       Inr (d\<lparr>ds_trade_drafts := ds_trade_drafts d @
         [\<lparr>td_workspace_trade_id = new_id, td_trade = trade\<rparr>]\<rparr>))"

definition update_trade_draft :: "draft_state \<Rightarrow> draft_action_request \<Rightarrow> string + draft_state" where
  "update_trade_draft d q =
     rbind (require_payload ''WORKSPACE_TRADE_ID_REQUIRED'' (da_workspace_trade_id q)) (\<lambda>i.
     rbind (find_trade_draft d i) (\<lambda>_.
     rbind (require_payload ''WORKSPACE_DRAFT_TRADE_REQUIRED'' (da_trade q)) (\<lambda>trade.
       Inr (d\<lparr>ds_trade_drafts := update_first (\<lambda>t. td_workspace_trade_id t = i)
         (\<lambda>t. t\<lparr>td_trade := trade\<rparr>) (ds_trade_drafts d)\<rparr>))))"

definition remove_trade_draft_action ::
  "draft_state \<Rightarrow> draft_action_request \<Rightarrow> string + draft_state" where
  "remove_trade_draft_action d q =
     rbind (require_payload ''WORKSPACE_TRADE_ID_REQUIRED'' (da_workspace_trade_id q))
       (remove_trade_draft d)"

definition add_cash_flow_draft ::
  "string \<Rightarrow> draft_state \<Rightarrow> draft_action_request \<Rightarrow> string + draft_state" where
  "add_cash_flow_draft new_id d q =
     rbind (require_payload ''WORKSPACE_DRAFT_CASH_FLOW_REQUIRED'' (da_cash_flow q)) (\<lambda>cash_flow.
       Inr (d\<lparr>ds_cash_flow_drafts := ds_cash_flow_drafts d @
         [\<lparr>cd_workspace_cash_flow_id = new_id, cd_cash_flow = cash_flow\<rparr>]\<rparr>))"

definition update_cash_flow_draft ::
  "draft_state \<Rightarrow> draft_action_request \<Rightarrow> string + draft_state" where
  "update_cash_flow_draft d q =
     rbind (require_payload ''WORKSPACE_CASH_FLOW_ID_REQUIRED'' (da_workspace_cash_flow_id q)) (\<lambda>i.
     rbind (find_cash_flow_draft d i) (\<lambda>_.
     rbind (require_payload ''WORKSPACE_DRAFT_CASH_FLOW_REQUIRED'' (da_cash_flow q)) (\<lambda>cash_flow.
       Inr (d\<lparr>ds_cash_flow_drafts := update_first (\<lambda>c. cd_workspace_cash_flow_id c = i)
         (\<lambda>c. c\<lparr>cd_cash_flow := cash_flow\<rparr>) (ds_cash_flow_drafts d)\<rparr>))))"

definition remove_cash_flow_draft_action ::
  "draft_state \<Rightarrow> draft_action_request \<Rightarrow> string + draft_state" where
  "remove_cash_flow_draft_action d q =
     rbind (require_payload ''WORKSPACE_CASH_FLOW_ID_REQUIRED'' (da_workspace_cash_flow_id q))
       (remove_cash_flow_draft d)"

definition replace_options :: "draft_state \<Rightarrow> draft_action_request \<Rightarrow> string + draft_state" where
  "replace_options d q =
     rbind (require_payload ''WORKSPACE_DRAFT_OPTIONS_REQUIRED'' (da_options q)) (\<lambda>options.
       Inr (d\<lparr>ds_options := options\<rparr>))"

definition apply_workspace_draft_action_to_state ::
  "string \<Rightarrow> draft_state \<Rightarrow> draft_action_request \<Rightarrow> string + draft_state" where
  "apply_workspace_draft_action_to_state new_id d q =
     (case da_action_type q of
        ADD_TRADE \<Rightarrow> add_trade_draft new_id d q
      | UPDATE_TRADE \<Rightarrow> update_trade_draft d q
      | REMOVE_TRADE \<Rightarrow> remove_trade_draft_action d q
      | ADD_CASH_FLOW \<Rightarrow> add_cash_flow_draft new_id d q
      | UPDATE_CASH_FLOW \<Rightarrow> update_cash_flow_draft d q
      | REMOVE_CASH_FLOW \<Rightarrow> remove_cash_flow_draft_action d q
      | REPLACE_OPTIONS \<Rightarrow> replace_options d q)"

section \<open>Session repositories\<close>

record 's session_repository =
  sp_get :: "'s \<Rightarrow> string \<Rightarrow> workspace_session option"
  sp_save :: "workspace_session \<Rightarrow> 's \<Rightarrow> 's"
  sp_reflect :: "workspace_session \<Rightarrow> 's \<Rightarrow> 's"

subsection \<open>In memory, least recently saved evicted first\<close>

definition DEFAULT_WORKSPACE_SESSION_CACHE_SIZE :: nat where
  "DEFAULT_WORKSPACE_SESSION_CACHE_SIZE = 500"

definition validate_workspace_session_cache_size :: "int \<Rightarrow> string + nat" where
  "validate_workspace_session_cache_size max_size =
     (if max_size < 1 then Inl ''WORKSPACE_SESSION_CACHE_SIZE_INVALID'' else Inr (nat max_size))"

record session_cache =
  sc_max_size :: nat
  sc_sessions :: "(string, workspace_session) dict"

function evict_over_capacity :: "nat \<Rightarrow> ('k, 'v) dict \<Rightarrow> ('k, 'v) dict" where
  "evict_over_capacity max_size sessions =
     (if length sessions > max_size then evict_over_capacity max_size (tl sessions) else sessions)"
  by pat_completeness auto
termination by (relation "measure (\<lambda>(_, sessions). length sessions)") auto

declare evict_over_capacity.simps [simp del]

definition move_to_end :: "'k \<Rightarrow> 'v \<Rightarrow> ('k, 'v) dict \<Rightarrow> ('k, 'v) dict" where
  "move_to_end k v d = filter (\<lambda>e. fst e \<noteq> k) d @ [(k, v)]"

definition mem_save_session :: "workspace_session \<Rightarrow> session_cache \<Rightarrow> session_cache" where
  "mem_save_session session s =
     s\<lparr>sc_sessions := evict_over_capacity (sc_max_size s)
         (move_to_end (ws_workspace_id session) session (sc_sessions s))\<rparr>"

definition mem_get_session :: "session_cache \<Rightarrow> string \<Rightarrow> workspace_session option" where
  "mem_get_session s workspace_id = dict_get (sc_sessions s) workspace_id"

definition mem_resize_sessions :: "int \<Rightarrow> session_cache \<Rightarrow> string + session_cache" where
  "mem_resize_sessions max_size s =
     rbind (validate_workspace_session_cache_size max_size) (\<lambda>n.
       Inr \<lparr>sc_max_size = n, sc_sessions = evict_over_capacity n (sc_sessions s)\<rparr>)"

definition mem_reset_sessions :: "session_cache \<Rightarrow> session_cache" where
  "mem_reset_sessions s = s\<lparr>sc_sessions := []\<rparr>"

definition mem_reflect_session :: "workspace_session \<Rightarrow> session_cache \<Rightarrow> session_cache" where
  "mem_reflect_session session s =
     s\<lparr>sc_sessions := dict_set (ws_workspace_id session) session (sc_sessions s)\<rparr>"

definition in_memory_sessions :: "session_cache session_repository" where
  "in_memory_sessions =
     \<lparr>sp_get = mem_get_session, sp_save = mem_save_session, sp_reflect = mem_reflect_session\<rparr>"

subsection \<open>Durable: a table of sessions and a table of their versions\<close>

text \<open>
  A row holds the dump of the session without its versions, or of a version; writing and reading a
  dump gives the model back. The columns derived from the dump are not read by the program.
\<close>

record durable_sessions =
  dw_sessions :: "(string, workspace_session) dict"
  dw_versions :: "(string \<times> saved_version) list"

definition workspace_session_from_rows ::
  "workspace_session \<Rightarrow> saved_version list \<Rightarrow> workspace_session" where
  "workspace_session_from_rows row versions =
     refresh_saved_version_metadata (row\<lparr>ws_saved_versions := versions\<rparr>)"

definition version_rows :: "durable_sessions \<Rightarrow> string \<Rightarrow> saved_version list" where
  "version_rows s workspace_id = map snd (filter (\<lambda>r. fst r = workspace_id) (dw_versions s))"

text \<open>The rows of one workspace have distinct version numbers (a UNIQUE constraint).\<close>

definition db_get_session :: "durable_sessions \<Rightarrow> string \<Rightarrow> workspace_session option" where
  "db_get_session s workspace_id =
     (case dict_get (dw_sessions s) workspace_id of
        None \<Rightarrow> None
      | Some row \<Rightarrow> Some (workspace_session_from_rows row
          (sort_key sv_version_number (version_rows s workspace_id))))"

definition db_save_session :: "workspace_session \<Rightarrow> durable_sessions \<Rightarrow> durable_sessions" where
  "db_save_session session s =
     \<lparr>dw_sessions = dict_set (ws_workspace_id session) (session\<lparr>ws_saved_versions := []\<rparr>)
        (dw_sessions s),
      dw_versions = filter (\<lambda>r. fst r \<noteq> ws_workspace_id session) (dw_versions s) @
        map (\<lambda>v. (ws_workspace_id session, v)) (ws_saved_versions session)\<rparr>"

definition db_reset_sessions :: "durable_sessions \<Rightarrow> durable_sessions" where
  "db_reset_sessions s = \<lparr>dw_sessions = [], dw_versions = []\<rparr>"

definition durable_session_repository :: "durable_sessions session_repository" where
  "durable_session_repository =
     \<lparr>sp_get = db_get_session, sp_save = db_save_session, sp_reflect = (\<lambda>session s. s)\<rparr>"

section \<open>The source context and the evaluation of a draft\<close>

text \<open>
  The environment: the digest, the engine, the lotus-core resolver (\<open>None\<close> stands for its
  resolution error), the enrichment of the drafted trades (which may raise), the options of an empty
  request and the text of a result's value delta. A workspace's stateful input has no narrative
  request.
\<close>

record workspace_env =
  ev_sha :: "string \<Rightarrow> string"
  ev_engine :: advisory_engine
  ev_resolve :: "stateful_input \<Rightarrow> (simulate_request \<times> resolved_context) option"
  ev_enrich :: "simulate_request \<Rightarrow> string \<Rightarrow> string + simulate_request"
  ev_default_options :: json_dict
  ev_delta :: "proposal_result \<Rightarrow> string"

definition build_initial_context ::
  "workspace_env \<Rightarrow> (nat \<Rightarrow> string) \<Rightarrow> (nat \<Rightarrow> string) \<Rightarrow> session_create_request \<Rightarrow> string \<Rightarrow>
   workspace_error + (resolved_context \<times> draft_state)" where
  "build_initial_context env trade_ids cash_flow_ids q fallback_as_of =
     (case sq_input_mode q of
        Stateless \<Rightarrow>
          (case sq_stateless_input q of
             None \<Rightarrow> Inl (WorkspaceCallError (PyValueError
               ''stateless workspace creation requires stateless_input''))
           | Some r \<Rightarrow> Inr (build_stateless_workspace_resolved_context fallback_as_of r,
               build_draft_state_from_simulate_request trade_ids cash_flow_ids r))
      | Stateful \<Rightarrow>
          (case sq_stateful_input q of
             None \<Rightarrow> Inl (WorkspaceCallError (PyValueError
               ''stateful workspace creation requires stateful_input''))
           | Some i \<Rightarrow>
               (case ev_resolve env i of
                  None \<Rightarrow> Inr (\<lparr>rc_portfolio_id = si_portfolio_id i, rc_as_of = si_as_of i,
                      rc_portfolio_snapshot_id = None, rc_market_data_snapshot_id = None,
                      rc_risk_context_id = None, rc_reporting_context_id = None,
                      rc_source_provenance = JNull, rc_source_completeness = JNull\<rparr>,
                    \<lparr>ds_options = ev_default_options env, ds_alternatives_request = None,
                      ds_reference_model = None, ds_trade_drafts = [], ds_cash_flow_drafts = []\<rparr>)
                | Some (r, c) \<Rightarrow>
                    Inr (c, build_draft_state_from_simulate_request trade_ids cash_flow_ids r))))"

text \<open>The resolution sets the session's context before the enrichment may raise.\<close>

definition build_simulate_request ::
  "workspace_env \<Rightarrow> workspace_session \<Rightarrow>
   workspace_session \<times> (workspace_error + simulate_request)" where
  "build_simulate_request env session =
     (case ws_input_mode session of
        Stateful \<Rightarrow>
          (case ws_stateful_input session of
             None \<Rightarrow> (session,
               Inl (WorkspaceEvaluationUnavailableError ''WORKSPACE_STATEFUL_INPUT_MISSING''))
           | Some i \<Rightarrow>
               (case ev_resolve env i of
                  None \<Rightarrow> (session, Inl (WorkspaceEvaluationUnavailableError
                    ''WORKSPACE_STATEFUL_CONTEXT_RESOLUTION_UNAVAILABLE''))
                | Some (r, c) \<Rightarrow>
                    (session\<lparr>ws_resolved_context := Some c\<rparr>,
                     rmap_error LotusCoreStatefulContextUnavailableError
                       (ev_enrich env (apply_workspace_draft_state r (ws_draft_state session))
                         (rc_as_of c)))))
      | Stateless \<Rightarrow>
          (session,
           case ws_stateless_input session of
             None \<Rightarrow>
               Inl (WorkspaceEvaluationUnavailableError ''WORKSPACE_STATELESS_INPUT_MISSING'')
           | Some r \<Rightarrow> Inr (apply_workspace_draft_state r (ws_draft_state session))))"

definition workspace_resolution_source :: "workspace_session \<Rightarrow> string" where
  "workspace_resolution_source session =
     (if ws_input_mode session = Stateful then ''LOTUS_CORE'' else ''DIRECT_REQUEST'')"

record evaluation_context =
  ec_resolved_request :: resolved_simulation_context
  ec_context_resolution :: json_dict
  ec_request_hash :: string

definition build_workspace_evaluation_context ::
  "(string \<Rightarrow> string) \<Rightarrow> workspace_session \<Rightarrow> simulate_request \<Rightarrow> string + evaluation_context" where
  "build_workspace_evaluation_context sha session r =
     (case ws_resolved_context session of
        None \<Rightarrow> Inl ''WORKSPACE_RESOLVED_CONTEXT_MISSING''
      | Some c \<Rightarrow>
          (let i = ws_stateful_input session;
               selectors = \<lparr>sel_household_id = Option.bind i si_household_id,
                 sel_mandate_id = Option.bind i si_mandate_id, sel_jurisdiction = None,
                 sel_legal_entity_code = None, sel_benchmark_id = Option.bind i si_benchmark_id\<rparr>;
               y = \<lparr>ry_input_mode = ws_input_mode session,
                 ry_resolution_source = workspace_resolution_source session,
                 ry_simulate_request = r, ry_resolved_context = c,
                 ry_policy_selectors = selectors, ry_used_legacy_contract = False\<rparr>
           in Inr \<lparr>ec_resolved_request = y,
                ec_context_resolution = context_resolution_json (ry_input_mode y)
                  (ry_resolution_source y) (ry_used_legacy_contract y) (ry_resolved_context y)
                  (ry_policy_selectors y),
                ec_request_hash = build_simulation_request_hash sha y\<rparr>))"

definition with_context_resolution :: "json_dict \<Rightarrow> proposal_result \<Rightarrow> proposal_result" where
  "with_context_resolution context_resolution result =
     result\<lparr>rs_json := dict_set ''explanation''
       (JObj (dict_set ''context_resolution'' (JObj context_resolution)
          (dict_at (rs_json result) ''explanation''))) (rs_json result)\<rparr>"

record evaluation_outcome =
  eo_proposal_result :: proposal_result
  eo_evaluation_summary :: evaluation_summary
  eo_replay_evidence :: replay_evidence

definition evaluate_workspace ::
  "workspace_env \<Rightarrow> workspace_session \<Rightarrow> simulate_request \<Rightarrow> string \<Rightarrow> timestamp \<Rightarrow>
   workspace_error + evaluation_outcome" where
  "evaluate_workspace env session r correlation_hex now =
     rbind (rmap_error (\<lambda>m. WorkspaceEvaluationUnavailableError
              (safe_workspace_error_detail m ''WORKSPACE_EVALUATION_UNAVAILABLE''))
              (build_workspace_evaluation_context (ev_sha env) session r)) (\<lambda>ctx.
     rbind (rmap_error WorkspaceCallError
              (en_evaluate (ev_engine env) r (ec_request_hash ctx) None
                (resolve_correlation_id None correlation_hex)
                (rc_as_of (ry_resolved_context (ec_resolved_request ctx)))
                (ry_input_mode (ec_resolved_request ctx))
                (obj_get (ec_context_resolution ctx) ''advisory_policy_context''))) (\<lambda>result.
       let result = with_context_resolution (ec_context_resolution ctx) result;
           session = session\<lparr>ws_latest_proposal_result := Some result\<rparr>
       in Inr \<lparr>eo_proposal_result = result,
            eo_evaluation_summary = build_evaluation_summary (ev_delta env) result session,
            eo_replay_evidence = build_replay_evidence (ev_sha env) (ev_engine env) session
              (Some (ec_request_hash ctx)) now\<rparr>))"

section \<open>The commands\<close>

definition get_session ::
  "'s session_repository \<Rightarrow> 's \<Rightarrow> string \<Rightarrow> workspace_error + workspace_session" where
  "get_session repo s workspace_id =
     (case sp_get repo s workspace_id of
        None \<Rightarrow> Inl (WorkspaceNotFoundError ''WORKSPACE_NOT_FOUND'')
      | Some session \<Rightarrow> Inr session)"

text \<open>The identifiers and clock readings a command draws.\<close>

record workspace_draws =
  wd_workspace_id :: string
  wd_version_id :: string
  wd_trade_ids :: "nat \<Rightarrow> string"
  wd_cash_flow_ids :: "nat \<Rightarrow> string"
  wd_correlation_hex :: string
  wd_today :: string
  wd_now :: timestamp
  wd_evidence_at :: timestamp
  wd_completed_at :: timestamp

definition create_session ::
  "workspace_env \<Rightarrow> 's session_repository \<Rightarrow> session_create_request \<Rightarrow> workspace_draws \<Rightarrow> 's \<Rightarrow>
   's \<times> (workspace_error + workspace_session)" where
  "create_session env repo q draws s =
     (case build_initial_context env (wd_trade_ids draws) (wd_cash_flow_ids draws) q (wd_today draws) of
        Inl err \<Rightarrow> (s, Inl err)
      | Inr (context, draft) \<Rightarrow>
          (let session = build_workspace_session q (wd_workspace_id draws)
                 (isoformat (wd_now draws)) draft context
           in (sp_save repo session s, Inr session)))"

definition with_outcome :: "evaluation_outcome \<Rightarrow> workspace_session \<Rightarrow> workspace_session" where
  "with_outcome outcome session =
     session\<lparr>ws_latest_proposal_result := Some (eo_proposal_result outcome),
              ws_evaluation_summary := Some (eo_evaluation_summary outcome),
              ws_latest_replay_evidence := Some (eo_replay_evidence outcome)\<rparr>"

definition reevaluate_session ::
  "workspace_env \<Rightarrow> 's session_repository \<Rightarrow> string \<Rightarrow> workspace_draws \<Rightarrow> 's \<Rightarrow>
   's \<times> (workspace_error + workspace_session)" where
  "reevaluate_session env repo workspace_id draws s =
     (case get_session repo s workspace_id of
        Inl err \<Rightarrow> (s, Inl err)
      | Inr session \<Rightarrow>
          (case build_simulate_request env session of
             (resolved, Inl err) \<Rightarrow> (sp_reflect repo resolved s, Inl err)
           | (resolved, Inr r) \<Rightarrow>
               (case evaluate_workspace env resolved r (wd_correlation_hex draws)
                       (wd_evidence_at draws) of
                  Inl err \<Rightarrow> (sp_reflect repo resolved s, Inl err)
                | Inr outcome \<Rightarrow>
                    (sp_save repo (with_outcome outcome resolved) s,
                     Inr (with_outcome outcome resolved)))))"

definition apply_draft_action ::
  "workspace_env \<Rightarrow> 's session_repository \<Rightarrow> string \<Rightarrow> draft_action_request \<Rightarrow> workspace_draws \<Rightarrow>
   's \<Rightarrow> 's \<times> (workspace_error + workspace_session)" where
  "apply_draft_action env repo workspace_id q draws s =
     (case get_session repo s workspace_id of
        Inl err \<Rightarrow> (s, Inl err)
      | Inr session \<Rightarrow>
          (case apply_workspace_draft_action_to_state
                  (if da_action_type q = ADD_CASH_FLOW then wd_cash_flow_ids draws 0
                   else wd_trade_ids draws 0) (ws_draft_state session) q of
             Inl message \<Rightarrow> (s, Inl (WorkspaceNotFoundError message))
           | Inr draft \<Rightarrow>
               reevaluate_session env repo workspace_id draws
                 (sp_save repo (session\<lparr>ws_draft_state := draft\<rparr>) s)))"

definition save_version ::
  "workspace_env \<Rightarrow> 's session_repository \<Rightarrow> string \<Rightarrow> string \<Rightarrow> string option \<Rightarrow> workspace_draws \<Rightarrow>
   's \<Rightarrow> 's \<times> (workspace_error + (workspace_session \<times> saved_version))" where
  "save_version env repo workspace_id saved_by version_label draws s =
     (case get_session repo s workspace_id of
        Inl err \<Rightarrow> (s, Inl err)
      | Inr session \<Rightarrow>
          (let v = build_saved_workspace_version (ev_sha env) (ev_engine env) session saved_by
                     version_label (wd_version_id draws) (wd_now draws) (wd_evidence_at draws);
               session' = refresh_saved_version_metadata
                 (session\<lparr>ws_saved_versions := ws_saved_versions session @ [v]\<rparr>)
           in (sp_save repo session' s, Inr (session', v))))"

definition list_saved_versions ::
  "'s session_repository \<Rightarrow> string \<Rightarrow> 's \<Rightarrow> workspace_error + (string \<times> saved_version list)" where
  "list_saved_versions repo workspace_id s =
     rbind (get_session repo s workspace_id) (\<lambda>session.
       Inr (ws_workspace_id session, ws_saved_versions session))"

definition require_saved_version ::
  "workspace_session \<Rightarrow> string \<Rightarrow> workspace_error + saved_version" where
  "require_saved_version session workspace_version_id =
     (case find_saved_version session workspace_version_id of
        None \<Rightarrow> Inl (WorkspaceSavedVersionNotFoundError ''WORKSPACE_SAVED_VERSION_NOT_FOUND'')
      | Some v \<Rightarrow> Inr v)"

definition resume_version ::
  "'s session_repository \<Rightarrow> string \<Rightarrow> string \<Rightarrow> 's \<Rightarrow> 's \<times> (workspace_error + workspace_session)"
  where
  "resume_version repo workspace_id workspace_version_id s =
     (case get_session repo s workspace_id of
        Inl err \<Rightarrow> (s, Inl err)
      | Inr session \<Rightarrow>
          (case require_saved_version session workspace_version_id of
             Inl err \<Rightarrow> (s, Inl err)
           | Inr v \<Rightarrow> (sp_save repo (apply_saved_workspace_version v session) s,
               Inr (apply_saved_workspace_version v session))))"

definition compare_to_saved_version ::
  "'s session_repository \<Rightarrow> string \<Rightarrow> string \<Rightarrow> 's \<Rightarrow> workspace_error + compare_response" where
  "compare_to_saved_version repo workspace_id workspace_version_id s =
     rbind (get_session repo s workspace_id) (\<lambda>session.
     rbind (require_saved_version session workspace_version_id) (\<lambda>v.
       Inr (build_workspace_compare_response session v)))"

end
