(* ===== verification/Workspace_Handoff.thy ===== *)
theory Workspace_Handoff
  imports Workspace_Sessions
begin

text \<open>
  The hand-off of a workspace to the proposal lifecycle (src/core/workspace/handoff.py,
  handoff_errors.py, handoff_idempotency.py and \<open>handoff_to_proposal_lifecycle\<close> of application.py),
  composed with the create and version commands, and the replay evidence of a saved version
  (\<open>build_workspace_saved_version_replay_response\<close> of src/core/replay/service.py).
\<close>

section \<open>Requests\<close>

record handoff_request =
  wh_handoff_by :: string
  wh_title :: "string option"
  wh_advisor_notes :: "string option"
  wh_jurisdiction :: "string option"
  wh_mandate_id :: "string option"

datatype handoff_action = CREATED_PROPOSAL | CREATED_PROPOSAL_VERSION

fun handoff_action_name :: "handoff_action \<Rightarrow> string" where
  "handoff_action_name CREATED_PROPOSAL = ''CREATED_PROPOSAL''"
| "handoff_action_name CREATED_PROPOSAL_VERSION = ''CREATED_PROPOSAL_VERSION''"

definition build_handoff_metadata :: "handoff_request \<Rightarrow> workspace_session \<Rightarrow> create_metadata" where
  "build_handoff_metadata q session =
     \<lparr>md_title = str_or (wh_title q) (Some (ws_workspace_name session)),
      md_advisor_notes = wh_advisor_notes q, md_jurisdiction = wh_jurisdiction q,
      md_mandate_id =
        (case wh_mandate_id q of
           Some m \<Rightarrow> Some m
         | None \<Rightarrow> Option.bind (ws_stateful_input session) si_mandate_id)\<rparr>"

text \<open>The evidence that replaces the one the lifecycle would build itself.\<close>

definition build_workspace_handoff_context_resolution ::
  "workspace_session \<Rightarrow> create_metadata \<Rightarrow> string + json_dict" where
  "build_workspace_handoff_context_resolution session metadata =
     (case ws_resolved_context session of
        None \<Rightarrow> Inl ''WORKSPACE_RESOLVED_CONTEXT_MISSING''
      | Some c \<Rightarrow>
          Inr (context_resolution_json (ws_input_mode session)
            (workspace_resolution_source session) False c
            \<lparr>sel_household_id = Option.bind (ws_stateful_input session) si_household_id,
             sel_mandate_id = md_mandate_id metadata, sel_jurisdiction = md_jurisdiction metadata,
             sel_legal_entity_code = None,
             sel_benchmark_id = Option.bind (ws_stateful_input session) si_benchmark_id\<rparr>))"

definition build_proposal_create_request ::
  "workspace_session \<Rightarrow> handoff_request \<Rightarrow> simulate_request \<Rightarrow> create_request" where
  "build_proposal_create_request session q r =
     \<lparr>cq_created_by = wh_handoff_by q, cq_input_mode = None, cq_simulate_request = Some r,
      cq_stateless_input = None, cq_stateful_input = None,
      cq_metadata = build_handoff_metadata q session\<rparr>"

definition build_proposal_version_request ::
  "workspace_session \<Rightarrow> handoff_request \<Rightarrow> simulate_request \<Rightarrow> version_request" where
  "build_proposal_version_request session q r =
     \<lparr>vq_created_by = wh_handoff_by q,
      vq_expected_current_version_no = map_option ll_current_version_no (ws_lifecycle_link session),
      vq_input_mode = None, vq_simulate_request = Some r, vq_stateless_input = None,
      vq_stateful_input = None\<rparr>"

definition require_handoff_simulate_request :: "simulate_request option \<Rightarrow> string + simulate_request"
  where
  "require_handoff_simulate_request r =
     require_payload ''WORKSPACE_HANDOFF_SIMULATE_REQUEST_MISSING'' r"

definition normalize_workspace_handoff_idempotency_key ::
  "string option \<Rightarrow> workspace_error + string" where
  "normalize_workspace_handoff_idempotency_key key =
     rmap_error (\<lambda>_. WorkspaceLifecycleHandoffUnavailableError
         ''WORKSPACE_HANDOFF_IDEMPOTENCY_KEY_REQUIRED'')
       (normalize_required_idempotency_key key)"

text \<open>A value error and an unavailable evaluation become an unavailable hand-off.\<close>

definition handoff_unavailable :: "string \<Rightarrow> workspace_error" where
  "handoff_unavailable m = WorkspaceLifecycleHandoffUnavailableError
     (safe_workspace_error_detail m ''WORKSPACE_LIFECYCLE_HANDOFF_UNAVAILABLE'')"

fun run_workspace_handoff_operation :: "workspace_error \<Rightarrow> workspace_error" where
  "run_workspace_handoff_operation (WorkspaceEvaluationUnavailableError m) = handoff_unavailable m"
| "run_workspace_handoff_operation (WorkspaceCallError (PyValueError m)) = handoff_unavailable m"
| "run_workspace_handoff_operation err = err"

definition complete_workspace_lifecycle_handoff ::
  "(string \<Rightarrow> string) \<Rightarrow> handoff_request \<Rightarrow> create_response \<Rightarrow> json_dict \<Rightarrow> timestamp \<Rightarrow>
   workspace_session \<Rightarrow> workspace_session" where
  "complete_workspace_lifecycle_handoff sha q response lineage completed_at session =
     (let proposal_id = sm_proposal_id (cr_proposal response);
          version_no = vd_version_no (cr_version response);
          lineage = dict_set ''proposal_version_no'' (JInt version_no)
            (dict_set ''proposal_id'' (JStr proposal_id) lineage)
      in (apply_workspace_handoff_replay_lineage sha lineage session)
           \<lparr>ws_lifecycle_link := Some \<lparr>ll_proposal_id = proposal_id,
              ll_current_version_no = version_no, ll_last_handoff_at = isoformat completed_at,
              ll_last_handoff_by = wh_handoff_by q\<rparr>\<rparr>)"

section \<open>The hand-off\<close>

text \<open>The proposal lifecycle the hand-off calls: its resolver, date, settings and repository.\<close>

record 'p proposal_port =
  pp_resolver :: stateful_resolver
  pp_today :: string
  pp_settings :: version_settings
  pp_repo :: "'p proposal_repository"

definition handoff_create ::
  "workspace_env \<Rightarrow> 'p proposal_port \<Rightarrow> workspace_session \<Rightarrow> handoff_request \<Rightarrow> simulate_request \<Rightarrow>
   string \<Rightarrow> string option \<Rightarrow> workspace_draws \<Rightarrow> fresh_ids \<Rightarrow> 'p \<Rightarrow>
   'p \<times> (workspace_error + (create_response \<times> json_dict \<times> handoff_action))" where
  "handoff_create env port session q r key correlation_id draws ids p =
     (let payload = build_proposal_create_request session q r;
          lineage = build_workspace_handoff_replay_lineage (ev_sha env) session (wh_handoff_by q)
            (handoff_action_name CREATED_PROPOSAL) [] 1 (wd_evidence_at draws)
      in case rbind (require_handoff_simulate_request (cq_simulate_request payload)) (\<lambda>_.
                build_workspace_handoff_context_resolution session (cq_metadata payload)) of
           Inl m \<Rightarrow> (p, Inl (WorkspaceCallError (PyValueError m)))
         | Inr override \<Rightarrow>
             (case create_proposal_command (ev_sha env) (ev_engine env) (pp_resolver port)
                     (pp_today port) (pp_settings port) (pp_repo port) payload (Some key)
                     correlation_id WORKSPACE_HANDOFF (Some (ws_workspace_id session))
                     (Some lineage) (Some override) (wd_now draws) ids p of
                Inl err \<Rightarrow> (p, Inl (WorkspaceCallError err))
              | Inr (response, p') \<Rightarrow> (p', Inr (response, lineage, CREATED_PROPOSAL))))"

definition handoff_version ::
  "workspace_env \<Rightarrow> 'p proposal_port \<Rightarrow> workspace_session \<Rightarrow> lifecycle_link \<Rightarrow> handoff_request \<Rightarrow>
   simulate_request \<Rightarrow> string option \<Rightarrow> workspace_draws \<Rightarrow> fresh_ids \<Rightarrow> 'p \<Rightarrow>
   'p \<times> (workspace_error + (create_response \<times> json_dict \<times> handoff_action))" where
  "handoff_version env port session link q r correlation_id draws ids p =
     (let payload = build_proposal_version_request session q r;
          lineage = build_workspace_handoff_replay_lineage (ev_sha env) session (wh_handoff_by q)
            (handoff_action_name CREATED_PROPOSAL_VERSION) (ll_proposal_id link)
            (ll_current_version_no link + 1) (wd_evidence_at draws)
      in case rbind (require_handoff_simulate_request (vq_simulate_request payload)) (\<lambda>_.
                build_workspace_handoff_context_resolution session empty_metadata) of
           Inl m \<Rightarrow> (p, Inl (WorkspaceCallError (PyValueError m)))
         | Inr override \<Rightarrow>
             (case create_proposal_version (ev_sha env) (ev_engine env) (pp_resolver port)
                     (pp_today port) (pp_settings port) (pp_repo port) (ll_proposal_id link) payload
                     correlation_id (Some lineage) (Some override) (wd_now draws) ids p of
                (p', Inl err) \<Rightarrow> (p', Inl (WorkspaceCallError err))
              | (p', Inr response) \<Rightarrow> (p', Inr (response, lineage, CREATED_PROPOSAL_VERSION))))"

text \<open>The key is read before the draft's request is built, and only for a first hand-off.\<close>

definition execute_handoff ::
  "workspace_env \<Rightarrow> 'p proposal_port \<Rightarrow> workspace_session \<Rightarrow> handoff_request \<Rightarrow> string option \<Rightarrow>
   string option \<Rightarrow> workspace_draws \<Rightarrow> fresh_ids \<Rightarrow> 'p \<Rightarrow>
   workspace_session \<times> 'p \<times> (workspace_error + (create_response \<times> json_dict \<times> handoff_action))"
  where
  "execute_handoff env port session q idempotency_key correlation_id draws ids p =
     (case (case ws_lifecycle_link session of
              None \<Rightarrow> normalize_workspace_handoff_idempotency_key idempotency_key
            | Some _ \<Rightarrow> Inr []) of
        Inl err \<Rightarrow> (session, p, Inl err)
      | Inr key \<Rightarrow>
          (case build_simulate_request env session of
             (resolved, Inl err) \<Rightarrow> (resolved, p, Inl err)
           | (resolved, Inr r) \<Rightarrow>
               (resolved,
                case ws_lifecycle_link session of
                  None \<Rightarrow> handoff_create env port resolved q r key correlation_id draws ids p
                | Some link \<Rightarrow> handoff_version env port resolved link q r correlation_id draws ids p)))"

definition handoff_to_proposal_lifecycle ::
  "workspace_env \<Rightarrow> 'p proposal_port \<Rightarrow> 's session_repository \<Rightarrow> string \<Rightarrow> handoff_request \<Rightarrow>
   string option \<Rightarrow> string option \<Rightarrow> workspace_draws \<Rightarrow> fresh_ids \<Rightarrow> 's \<Rightarrow> 'p \<Rightarrow>
   's \<times> 'p \<times> (workspace_error + (workspace_session \<times> handoff_action \<times> create_response))" where
  "handoff_to_proposal_lifecycle env port repo workspace_id q idempotency_key correlation_id draws
     ids s p =
     (case get_session repo s workspace_id of
        Inl err \<Rightarrow> (s, p, Inl err)
      | Inr session \<Rightarrow>
          (case execute_handoff env port session q idempotency_key correlation_id draws ids p of
             (resolved, p', Inl err) \<Rightarrow>
               (sp_reflect repo resolved s, p', Inl (run_workspace_handoff_operation err))
           | (resolved, p', Inr (response, lineage, action)) \<Rightarrow>
               (let session' = complete_workspace_lifecycle_handoff (ev_sha env) q response lineage
                      (wd_completed_at draws) resolved
                in (sp_save repo session' s, p', Inr (session', action, response)))))"

section \<open>The replay evidence of a saved version\<close>

record saved_version_replay =
  vr_workspace_id :: string
  vr_workspace_version_id :: string
  vr_proposal_id :: "string option"
  vr_proposal_version_no :: "int option"
  vr_resolved_context :: "resolved_context option"
  vr_evaluation_request_hash :: "string option"
  vr_draft_state_hash :: string
  vr_handoff_action :: "string option"
  vr_handoff_at :: "string option"
  vr_handoff_by :: "string option"
  vr_lifecycle_origin :: "lifecycle_origin option"
  vr_saved_at :: string
  vr_saved_by :: string
  vr_version_number :: nat
  vr_version_label :: "string option"
  vr_risk_lens :: json
  vr_proposal_decision_summary :: json
  vr_proposal_alternatives :: json
  vr_linked :: bool

definition opt_int_of :: "json \<Rightarrow> int option" where
  "opt_int_of v = (case v of JInt i \<Rightarrow> Some i | _ \<Rightarrow> None)"

text \<open>
  The continuity has texts and numbers only. \<open>vr_linked\<close> is the continuity status
  \<open>LINKED_TO_PROPOSAL_LIFECYCLE\<close>. The replayed context has no provenance fields.
\<close>

definition to_replay_resolved_context :: "resolved_context \<Rightarrow> resolved_context" where
  "to_replay_resolved_context c = c\<lparr>rc_source_provenance := JNull, rc_source_completeness := JNull\<rparr>"

definition result_section :: "saved_version \<Rightarrow> string \<Rightarrow> json" where
  "result_section v key =
     (case sv_latest_proposal_result v of None \<Rightarrow> JNull | Some r \<Rightarrow> obj_get (rs_json r) key)"

definition build_workspace_saved_version_replay_response ::
  "workspace_session \<Rightarrow> saved_version \<Rightarrow> saved_version_replay" where
  "build_workspace_saved_version_replay_response session v =
     (let evidence = sv_replay_evidence v; continuity = re_continuity evidence in
      \<lparr>vr_workspace_id = ws_workspace_id session,
       vr_workspace_version_id = sv_workspace_version_id v,
       vr_proposal_id = opt_text_of (obj_get continuity ''proposal_id''),
       vr_proposal_version_no = opt_int_of (obj_get continuity ''proposal_version_no''),
       vr_resolved_context = map_option to_replay_resolved_context (re_resolved_context evidence),
       vr_evaluation_request_hash = re_evaluation_request_hash evidence,
       vr_draft_state_hash = re_draft_state_hash evidence,
       vr_handoff_action = opt_text_of (obj_get continuity ''handoff_action''),
       vr_handoff_at = opt_text_of (obj_get continuity ''handoff_at''),
       vr_handoff_by = opt_text_of (obj_get continuity ''handoff_by''),
       vr_lifecycle_origin = (if obj_get continuity ''proposal_id'' \<noteq> JNull
                              then Some WORKSPACE_HANDOFF else None),
       vr_saved_at = sv_saved_at v, vr_saved_by = sv_saved_by v,
       vr_version_number = sv_version_number v, vr_version_label = sv_version_label v,
       vr_risk_lens = re_risk_lens evidence,
       vr_proposal_decision_summary = result_section v ''proposal_decision_summary'',
       vr_proposal_alternatives = result_section v ''proposal_alternatives'',
       vr_linked = (obj_get continuity ''proposal_id'' \<noteq> JNull)\<rparr>)"

definition get_saved_version_replay ::
  "'s session_repository \<Rightarrow> string \<Rightarrow> string \<Rightarrow> 's \<Rightarrow> workspace_error + saved_version_replay" where
  "get_saved_version_replay repo workspace_id workspace_version_id s =
     rbind (get_session repo s workspace_id) (\<lambda>session.
     rbind (require_saved_version session workspace_version_id) (\<lambda>v.
       Inr (build_workspace_saved_version_replay_response session v)))"

end
