(* ===== verification/Workspace_Laws.thy ===== *)
theory Workspace_Laws
  imports Workspace_Handoff
begin

text \<open>
  What the workspace commands keep, for any repository that returns what was saved: a session has
  its own key, the input its mode asks for, a resolved context, and saved versions numbered from
  one whose count and summary it states; a saved version never changes but for its continuity. Both
  repositories keep the contract, and the in-memory one stays within its capacity.
\<close>

section \<open>Eviction\<close>

lemma evict_over_capacity_drop:
  "evict_over_capacity n d = drop (length d - n) d"
proof (induction n d rule: evict_over_capacity.induct)
  case (1 n d)
  then show ?case
    by (cases d) (auto simp: evict_over_capacity.simps [of n] Suc_diff_le drop_Cons'
        dest: not_less_eq_eq [THEN iffD1])
qed

lemma length_evict [simp]: "length (evict_over_capacity n d) = min n (length d)"
  by (simp add: evict_over_capacity_drop)

lemma dict_wf_drop: "dict_wf d \<Longrightarrow> dict_wf (drop n d)"
  by (simp add: dict_wf_def drop_map [symmetric])

lemma dict_wf_move_to_end: "dict_wf d \<Longrightarrow> dict_wf (move_to_end k v d)"
  by (auto simp: dict_wf_def move_to_end_def distinct_map inj_on_def)

lemma dict_get_iff_mem: "dict_wf d \<Longrightarrow> dict_get d k = Some v \<longleftrightarrow> (k, v) \<in> set d"
  by (simp add: dict_wf_def dict_get_def)

lemma dict_get_drop:
  "dict_wf d \<Longrightarrow> dict_get (drop n d) k = Some v \<Longrightarrow> dict_get d k = Some v"
  by (auto simp: dict_get_iff_mem dict_wf_drop dest: in_set_dropD)

lemma dict_get_move_to_end:
  assumes "dict_wf d"
  shows "dict_get (move_to_end k v d) j = (if j = k then Some v else dict_get d j)"
proof -
  have "dict_get (move_to_end k v d) j = Some w \<longleftrightarrow> (if j = k then Some v else dict_get d j) = Some w"
    for w
    using assms by (auto simp: dict_get_iff_mem dict_wf_move_to_end) (auto simp: move_to_end_def)
  then show ?thesis by (metis option.exhaust)
qed

lemma evict_keeps_last:
  "1 \<le> n \<Longrightarrow> (k, v) \<in> set (evict_over_capacity n (xs @ [(k, v)]))"
  by (simp add: evict_over_capacity_drop Suc_diff_le)

section \<open>Sessions\<close>

definition session_inv :: "workspace_session \<Rightarrow> bool" where
  "session_inv x \<longleftrightarrow>
     map sv_version_number (ws_saved_versions x) = map Suc [0..<length (ws_saved_versions x)] \<and>
     ws_saved_version_count x = length (ws_saved_versions x) \<and>
     ws_latest_saved_version x =
       (if ws_saved_versions x = [] then None
        else Some (build_saved_version_summary (last (ws_saved_versions x)))) \<and>
     validate_workspace_input_mode_payloads (ws_input_mode x) (ws_stateless_input x)
       (ws_stateful_input x) \<and>
     ws_resolved_context x \<noteq> None"

text \<open>The versions of a session but for the continuity written into them at a hand-off.\<close>

definition kept_versions :: "workspace_session \<Rightarrow> saved_version list" where
  "kept_versions x = map (set_continuity []) (ws_saved_versions x)"

definition versions_grow :: "workspace_session \<Rightarrow> workspace_session \<Rightarrow> bool" where
  "versions_grow x y \<longleftrightarrow> prefix (kept_versions x) (kept_versions y)"

lemma versions_grow_refl [simp]: "versions_grow x x"
  by (simp add: versions_grow_def)

lemma versions_grow_trans: "versions_grow x y \<Longrightarrow> versions_grow y z \<Longrightarrow> versions_grow x z"
  using prefix_order.trans by (auto simp: versions_grow_def)

lemma set_continuity_fields [simp]:
  "sv_version_number (set_continuity l v) = sv_version_number v"
  "sv_workspace_version_id (set_continuity l v) = sv_workspace_version_id v"
  "sv_draft_state (set_continuity l v) = sv_draft_state v"
  "sv_evaluation_summary (set_continuity l v) = sv_evaluation_summary v"
  "sv_latest_proposal_result (set_continuity l v) = sv_latest_proposal_result v"
  "build_saved_version_summary (set_continuity l v) = build_saved_version_summary v"
  "set_continuity k (set_continuity l v) = set_continuity k v"
  by (simp_all add: set_continuity_def build_saved_version_summary_def)

lemma lineage_versions:
  "(\<And>v. g (set_continuity l v) = g v) \<Longrightarrow>
     map g (ws_saved_versions (apply_workspace_handoff_replay_lineage sha l x)) =
       map g (ws_saved_versions x)"
  by (simp add: apply_workspace_handoff_replay_lineage_def rev_map [symmetric] map_update_first)

lemma lineage_length [simp]:
  "length (ws_saved_versions (apply_workspace_handoff_replay_lineage sha l x)) =
     length (ws_saved_versions x)"
  by (simp add: apply_workspace_handoff_replay_lineage_def)

lemma lineage_fields [simp]:
  "ws_workspace_id (apply_workspace_handoff_replay_lineage sha l x) = ws_workspace_id x"
  "ws_saved_version_count (apply_workspace_handoff_replay_lineage sha l x) = ws_saved_version_count x"
  "ws_latest_saved_version (apply_workspace_handoff_replay_lineage sha l x) =
     ws_latest_saved_version x"
  "ws_input_mode (apply_workspace_handoff_replay_lineage sha l x) = ws_input_mode x"
  "ws_stateless_input (apply_workspace_handoff_replay_lineage sha l x) = ws_stateless_input x"
  "ws_stateful_input (apply_workspace_handoff_replay_lineage sha l x) = ws_stateful_input x"
  "ws_resolved_context (apply_workspace_handoff_replay_lineage sha l x) = ws_resolved_context x"
  "ws_draft_state (apply_workspace_handoff_replay_lineage sha l x) = ws_draft_state x"
  "ws_lifecycle_link (apply_workspace_handoff_replay_lineage sha l x) = ws_lifecycle_link x"
  by (simp_all add: apply_workspace_handoff_replay_lineage_def)

lemma summary_of_last:
  "map build_saved_version_summary vs = map build_saved_version_summary ws \<Longrightarrow>
     (if vs = [] then None else Some (build_saved_version_summary (last vs))) =
     (if ws = [] then None else Some (build_saved_version_summary (last ws)))"
  by (metis last_map list.map_disc_iff)

lemma lineage_inv:
  "session_inv x \<Longrightarrow> session_inv (apply_workspace_handoff_replay_lineage sha l x)"
  using lineage_versions [of sv_version_number l sha x]
    summary_of_last [OF lineage_versions [of build_saved_version_summary l sha x]]
  by (simp add: session_inv_def)

lemma lineage_kept: "kept_versions (apply_workspace_handoff_replay_lineage sha l x) = kept_versions x"
  by (simp add: kept_versions_def lineage_versions)

lemma complete_fields [simp]:
  "ws_workspace_id (complete_workspace_lifecycle_handoff sha q r l t x) = ws_workspace_id x"
  "kept_versions (complete_workspace_lifecycle_handoff sha q r l t x) = kept_versions x"
  using lineage_kept [of sha _ x]
  by (simp_all add: complete_workspace_lifecycle_handoff_def Let_def kept_versions_def)

lemma with_link_inv: "session_inv (x\<lparr>ws_lifecycle_link := l\<rparr>) = session_inv x"
  by (simp add: session_inv_def)

lemma complete_inv:
  "session_inv x \<Longrightarrow> session_inv (complete_workspace_lifecycle_handoff sha q r l t x)"
  by (simp add: complete_workspace_lifecycle_handoff_def Let_def lineage_inv with_link_inv)

lemma build_simulate_request_session:
  assumes "build_simulate_request env x = (y, r)"
  shows "y = x \<or> (\<exists>c. y = x\<lparr>ws_resolved_context := Some c\<rparr>)"
  using assms by (auto simp: build_simulate_request_def split: input_mode.splits option.splits)

lemma build_simulate_request_keeps:
  assumes "build_simulate_request env x = (y, r)"
  shows "ws_workspace_id y = ws_workspace_id x" "ws_saved_versions y = ws_saved_versions x"
    "kept_versions y = kept_versions x" "ws_draft_state y = ws_draft_state x"
    "ws_lifecycle_link y = ws_lifecycle_link x"
    "ws_latest_replay_evidence y = ws_latest_replay_evidence x"
    "session_inv x \<Longrightarrow> session_inv y"
  using build_simulate_request_session [OF assms] by (auto simp: session_inv_def kept_versions_def)

lemma with_outcome_keeps [simp]:
  "ws_workspace_id (with_outcome o1 x) = ws_workspace_id x"
  "kept_versions (with_outcome o1 x) = kept_versions x"
  "session_inv (with_outcome o1 x) = session_inv x"
  by (simp_all add: with_outcome_def session_inv_def kept_versions_def)

lemma with_draft_keeps [simp]:
  "kept_versions (x\<lparr>ws_draft_state := d\<rparr>) = kept_versions x"
  "session_inv (x\<lparr>ws_draft_state := d\<rparr>) = session_inv x"
  by (simp_all add: session_inv_def kept_versions_def)

lemma resumed_keeps [simp]:
  "ws_workspace_id (apply_saved_workspace_version v x) = ws_workspace_id x"
  "kept_versions (apply_saved_workspace_version v x) = kept_versions x"
  "session_inv (apply_saved_workspace_version v x) = session_inv x"
  by (simp_all add: apply_saved_workspace_version_def session_inv_def kept_versions_def)

lemma saved_keeps:
  assumes "v = build_saved_workspace_version sha eng x by label i t t'"
  shows "session_inv x \<Longrightarrow>
      session_inv (refresh_saved_version_metadata (x\<lparr>ws_saved_versions := ws_saved_versions x @ [v]\<rparr>))"
    and "versions_grow x
      (refresh_saved_version_metadata (x\<lparr>ws_saved_versions := ws_saved_versions x @ [v]\<rparr>))"
  by (simp_all add: assms session_inv_def refresh_saved_version_metadata_def
      build_saved_workspace_version_def versions_grow_def kept_versions_def)

lemma built_session_inv:
  "validate_workspace_input_mode_payloads (sq_input_mode q) (sq_stateless_input q)
     (sq_stateful_input q) \<Longrightarrow> session_inv (build_workspace_session q i t d c)"
  by (simp add: session_inv_def build_workspace_session_def)

lemma execute_handoff_keeps:
  assumes "execute_handoff env port x q key corr draws ids p = (y, p', r)"
  shows "ws_workspace_id y = ws_workspace_id x" "kept_versions y = kept_versions x"
    "session_inv x \<Longrightarrow> session_inv y"
proof -
  have "y = x \<or> (\<exists>r. build_simulate_request env x = (y, r))"
    using assms by (auto simp: execute_handoff_def split: sum.splits prod.splits option.splits)
  then show "ws_workspace_id y = ws_workspace_id x" "kept_versions y = kept_versions x"
    "session_inv x \<Longrightarrow> session_inv y"
    by (auto dest: build_simulate_request_keeps)
qed

section \<open>The contract of a session repository\<close>

locale workspace_store =
  fixes repo :: "'s session_repository"
    and ok :: "'s \<Rightarrow> bool"
  assumes get_save: "ok s \<Longrightarrow> session_inv x \<Longrightarrow>
      sp_get repo (sp_save repo x s) (ws_workspace_id x) = Some x"
    and get_save_other: "ok s \<Longrightarrow> k \<noteq> ws_workspace_id x \<Longrightarrow>
      sp_get repo (sp_save repo x s) k = Some y \<Longrightarrow> sp_get repo s k = Some y"
    and get_reflect: "sp_get repo s (ws_workspace_id x) = Some y \<Longrightarrow>
      sp_get repo (sp_reflect repo x s) (ws_workspace_id x) \<in> {Some x, Some y}"
    and get_reflect_other: "k \<noteq> ws_workspace_id x \<Longrightarrow>
      sp_get repo (sp_reflect repo x s) k = sp_get repo s k"
    and ok_save: "ok s \<Longrightarrow> ok (sp_save repo x s)"
    and ok_reflect: "ok s \<Longrightarrow> sp_get repo s (ws_workspace_id x) \<noteq> None \<Longrightarrow> ok (sp_reflect repo x s)"
begin

definition sessions_inv :: "'s \<Rightarrow> bool" where
  "sessions_inv s \<longleftrightarrow> ok s \<and>
     (\<forall>k x. sp_get repo s k = Some x \<longrightarrow> ws_workspace_id x = k \<and> session_inv x)"

text \<open>What became of one workspace: evicted for good, or there with its versions.\<close>

definition workspace_later :: "string \<Rightarrow> 's \<Rightarrow> 's \<Rightarrow> bool" where
  "workspace_later w s t \<longleftrightarrow>
     (\<forall>y. sp_get repo t w = Some y \<longrightarrow> (\<exists>x. sp_get repo s w = Some x \<and> versions_grow x y))"

lemma sessions_invD:
  "sessions_inv s \<Longrightarrow> sp_get repo s k = Some x \<Longrightarrow> ws_workspace_id x = k \<and> session_inv x"
  by (simp add: sessions_inv_def)

lemma later_refl: "workspace_later w s s"
  by (simp add: workspace_later_def)

lemma later_trans: "workspace_later w s t \<Longrightarrow> workspace_later w t u \<Longrightarrow> workspace_later w s u"
  unfolding workspace_later_def using versions_grow_trans by blast

lemma sessions_invI:
  "ok s \<Longrightarrow> (\<And>k x. sp_get repo s k = Some x \<Longrightarrow> ws_workspace_id x = k \<and> session_inv x) \<Longrightarrow>
     sessions_inv s"
  by (simp add: sessions_inv_def)

lemma save_inv:
  assumes "sessions_inv s" "session_inv x"
  shows "sessions_inv (sp_save repo x s)"
proof (rule sessions_invI)
  have o1: "ok s" using assms(1) by (simp add: sessions_inv_def)
  then show "ok (sp_save repo x s)" by (rule ok_save)
  fix k y
  assume g: "sp_get repo (sp_save repo x s) k = Some y"
  show "ws_workspace_id y = k \<and> session_inv y"
  proof (cases "k = ws_workspace_id x")
    case True
    then have "y = x" using g get_save [OF o1 assms(2)] by simp
    then show ?thesis using True assms(2) by simp
  next
    case False
    then show ?thesis using get_save_other [OF o1 False g] sessions_invD [OF assms(1)] by blast
  qed
qed

lemma reflect_inv:
  assumes "sessions_inv s" "session_inv x" "sp_get repo s (ws_workspace_id x) = Some z"
  shows "sessions_inv (sp_reflect repo x s)"
proof (rule sessions_invI)
  show "ok (sp_reflect repo x s)"
    using assms(1,3) by (intro ok_reflect) (simp_all add: sessions_inv_def)
  fix k y
  assume g: "sp_get repo (sp_reflect repo x s) k = Some y"
  show "ws_workspace_id y = k \<and> session_inv y"
  proof (cases "k = ws_workspace_id x")
    case True
    then have "y = x \<or> y = z" using g get_reflect [OF assms(3)] by auto
    then show ?thesis using True assms(2) sessions_invD [OF assms(1,3)] by blast
  next
    case False
    then show ?thesis using g get_reflect_other [OF False] sessions_invD [OF assms(1)] by simp
  qed
qed

lemma save_later:
  assumes "sessions_inv s" "session_inv y"
    and "ws_workspace_id y = w \<longrightarrow> (\<exists>x. sp_get repo s w = Some x \<and> versions_grow x y)"
  shows "workspace_later w s (sp_save repo y s)"
proof (cases "ws_workspace_id y = w")
  case True
  then show ?thesis using assms get_save [of s y]
    by (auto simp: workspace_later_def sessions_inv_def)
next
  case False
  then show ?thesis using assms get_save_other [of s w y]
    by (force simp: workspace_later_def sessions_inv_def)
qed

lemma reflect_later:
  assumes "sp_get repo s (ws_workspace_id y) = Some x" "versions_grow x y"
  shows "workspace_later w s (sp_reflect repo y s)"
proof (cases "ws_workspace_id y = w")
  case True
  then show ?thesis using assms get_reflect [of s y x] by (auto simp: workspace_later_def)
next
  case False
  then show ?thesis by (simp add: workspace_later_def get_reflect_other)
qed

text \<open>A command on the session \<open>x\<close> that leaves \<open>y\<close> behind, saved or only reflected.\<close>

lemma save_keeps:
  assumes "sessions_inv s" "sp_get repo s w = Some x" "session_inv y" "ws_workspace_id y = w"
    "versions_grow x y"
  shows "sessions_inv (sp_save repo y s) \<and> workspace_later k s (sp_save repo y s)"
  using assms by (auto intro: save_inv save_later)

lemma reflect_keeps:
  assumes "sessions_inv s" "sp_get repo s w = Some x" "session_inv y" "ws_workspace_id y = w"
    "versions_grow x y"
  shows "sessions_inv (sp_reflect repo y s) \<and> workspace_later k s (sp_reflect repo y s)"
  using assms reflect_inv [of s y] reflect_later [of s y x k] by auto

lemma reevaluate_keeps:
  assumes "sessions_inv s"
  shows "sessions_inv (fst (reevaluate_session env repo w draws s)) \<and>
    workspace_later k s (fst (reevaluate_session env repo w draws s))"
proof (cases "sp_get repo s w")
  case None
  then show ?thesis by (simp add: reevaluate_session_def get_session_def assms later_refl)
next
  case (Some x)
  obtain y r where b: "build_simulate_request env x = (y, r)" by fastforce
  note x = sessions_invD [OF assms Some] and y = build_simulate_request_keeps [OF b]
  have g: "versions_grow x y" "versions_grow x (with_outcome o1 y)" for o1
    by (simp_all add: versions_grow_def y)
  have i: "session_inv y" "ws_workspace_id y = w" using x y by auto
  have refl: "sessions_inv (sp_reflect repo y s) \<and> workspace_later k s (sp_reflect repo y s)"
    by (rule reflect_keeps [OF assms Some i g(1)])
  have sav: "sessions_inv (sp_save repo (with_outcome o1 y) s) \<and>
      workspace_later k s (sp_save repo (with_outcome o1 y) s)" for o1
    by (rule save_keeps [OF assms Some _ _ g(2)]) (simp_all add: i)
  show ?thesis using refl sav Some
    by (simp add: reevaluate_session_def get_session_def b split: sum.split)
qed

lemma draft_action_keeps:
  assumes "sessions_inv s"
  shows "sessions_inv (fst (apply_draft_action env repo w q draws s)) \<and>
    workspace_later k s (fst (apply_draft_action env repo w q draws s))"
proof (cases "sp_get repo s w")
  case None
  then show ?thesis by (simp add: apply_draft_action_def get_session_def assms later_refl)
next
  case (Some x)
  have sav: "sessions_inv (sp_save repo (x\<lparr>ws_draft_state := d\<rparr>) s) \<and>
      workspace_later k s (sp_save repo (x\<lparr>ws_draft_state := d\<rparr>) s)" for d
    by (rule save_keeps [OF assms Some]) (use sessions_invD [OF assms Some] in
      \<open>simp_all add: versions_grow_def\<close>)
  show ?thesis using sav reevaluate_keeps later_trans Some assms later_refl
    by (simp add: apply_draft_action_def get_session_def split: sum.split) blast
qed

lemma save_version_keeps:
  assumes "sessions_inv s"
  shows "sessions_inv (fst (save_version env repo w by label draws s)) \<and>
    workspace_later k s (fst (save_version env repo w by label draws s))"
proof (cases "sp_get repo s w")
  case None
  then show ?thesis by (simp add: save_version_def get_session_def assms later_refl)
next
  case (Some x)
  note x = sessions_invD [OF assms Some]
  show ?thesis
    using save_keeps [OF assms Some saved_keeps(1) [OF refl] _ saved_keeps(2) [OF refl]] x Some
    by (simp add: save_version_def get_session_def Let_def refresh_saved_version_metadata_def)
qed

lemma resume_keeps:
  assumes "sessions_inv s"
  shows "sessions_inv (fst (resume_version repo w i s)) \<and>
    workspace_later k s (fst (resume_version repo w i s))"
proof (cases "sp_get repo s w")
  case None
  then show ?thesis by (simp add: resume_version_def get_session_def assms later_refl)
next
  case (Some x)
  have "sessions_inv (sp_save repo (apply_saved_workspace_version v x) s) \<and>
      workspace_later k s (sp_save repo (apply_saved_workspace_version v x) s)" for v
    by (rule save_keeps [OF assms Some]) (use sessions_invD [OF assms Some] in
      \<open>simp_all add: versions_grow_def\<close>)
  then show ?thesis using assms later_refl Some
    by (simp add: resume_version_def get_session_def split: sum.split)
qed

lemma handoff_keeps:
  assumes "sessions_inv s"
  shows "sessions_inv (fst (handoff_to_proposal_lifecycle env port repo w q key corr draws ids s p)) \<and>
    workspace_later k s
      (fst (handoff_to_proposal_lifecycle env port repo w q key corr draws ids s p))"
proof (cases "sp_get repo s w")
  case None
  then show ?thesis by (simp add: handoff_to_proposal_lifecycle_def get_session_def assms later_refl)
next
  case (Some x)
  obtain y p' r where e: "execute_handoff env port x q key corr draws ids p = (y, p', r)"
    using prod_cases3 by blast
  note x = sessions_invD [OF assms Some] and y = execute_handoff_keeps [OF e]
  have i: "session_inv y" "ws_workspace_id y = w" "versions_grow x y"
    using x y by (auto simp: versions_grow_def)
  have refl: "sessions_inv (sp_reflect repo y s) \<and> workspace_later k s (sp_reflect repo y s)"
    by (rule reflect_keeps [OF assms Some i])
  have sav: "sessions_inv (sp_save repo z s) \<and> workspace_later k s (sp_save repo z s)"
    if "z = complete_workspace_lifecycle_handoff sha q r1 l t y" for sha r1 l t z
    by (rule save_keeps [OF assms Some]) (use i in \<open>simp_all add: that complete_inv versions_grow_def\<close>)
  show ?thesis using refl sav Some
    by (auto simp: handoff_to_proposal_lifecycle_def get_session_def e Let_def split: sum.split)
qed

lemma create_session_keeps:
  assumes "sessions_inv s" and "validate_workspace_input_mode_payloads (sq_input_mode q)
    (sq_stateless_input q) (sq_stateful_input q)"
  shows "sessions_inv (fst (create_session env repo q draws s))"
    and "wd_workspace_id draws \<noteq> k \<Longrightarrow> workspace_later k s (fst (create_session env repo q draws s))"
proof -
  have i: "session_inv (build_workspace_session q (wd_workspace_id draws) t d c)" for t d c
    by (rule built_session_inv [OF assms(2)])
  have w: "ws_workspace_id (build_workspace_session q (wd_workspace_id draws) t d c) =
    wd_workspace_id draws" for t d c by (simp add: build_workspace_session_def)
  show "sessions_inv (fst (create_session env repo q draws s))"
    using save_inv [OF assms(1) i] assms(1)
    by (simp add: create_session_def Let_def split: sum.split)
  assume "wd_workspace_id draws \<noteq> k"
  then show "workspace_later k s (fst (create_session env repo q draws s))"
    using save_later [OF assms(1) i] later_refl
    by (simp add: create_session_def Let_def w split: sum.split)
qed

end

end
