(* ===== verification/Workspace_System.thy ===== *)
theory Workspace_System
  imports Workspace_Laws
begin

text \<open>
  The two session repositories keep the contract of a store, and the workspace commands run on
  either of them next to the proposal store: sequences of commands keep the sessions well formed
  and every saved version as it was saved.
\<close>

section \<open>The repositories\<close>

definition cache_ok :: "nat \<Rightarrow> session_cache \<Rightarrow> bool" where
  "cache_ok n s \<longleftrightarrow> sc_max_size s = n \<and> 1 \<le> n \<and> dict_wf (sc_sessions s) \<and>
     length (sc_sessions s) \<le> n"

lemma in_memory_sessions_sel [simp]:
  "sp_get in_memory_sessions = mem_get_session"
  "sp_save in_memory_sessions = mem_save_session"
  "sp_reflect in_memory_sessions = mem_reflect_session"
  by (simp_all add: in_memory_sessions_def)

lemma mem_save_get:
  assumes "cache_ok n s"
  shows "mem_get_session (mem_save_session x s) (ws_workspace_id x) = Some x"
    and "mem_get_session (mem_save_session x s) k = Some y \<Longrightarrow> k \<noteq> ws_workspace_id x \<Longrightarrow>
      mem_get_session s k = Some y"
proof -
  let ?d = "move_to_end (ws_workspace_id x) x (sc_sessions s)"
  have wf: "dict_wf ?d" using assms by (simp add: cache_ok_def dict_wf_move_to_end)
  have last: "(ws_workspace_id x, x) \<in> set (evict_over_capacity (sc_max_size s) ?d)"
    unfolding move_to_end_def by (rule evict_keeps_last) (use assms in \<open>simp add: cache_ok_def\<close>)
  have wf': "dict_wf (evict_over_capacity (sc_max_size s) ?d)"
    using wf by (simp add: evict_over_capacity_drop dict_wf_drop)
  show "mem_get_session (mem_save_session x s) (ws_workspace_id x) = Some x"
    using last wf' by (simp add: mem_get_session_def mem_save_session_def dict_get_iff_mem)
  assume "mem_get_session (mem_save_session x s) k = Some y" and k: "k \<noteq> ws_workspace_id x"
  then have "dict_get ?d k = Some y"
    by (intro dict_get_drop [OF wf])
      (simp add: mem_get_session_def mem_save_session_def evict_over_capacity_drop)
  then show "mem_get_session s k = Some y"
    using k assms by (simp add: dict_get_move_to_end cache_ok_def mem_get_session_def)
qed

lemma cache_ok_save: "cache_ok n s \<Longrightarrow> cache_ok n (mem_save_session x s)"
  by (simp add: cache_ok_def mem_save_session_def evict_over_capacity_drop dict_wf_drop
      dict_wf_move_to_end)

lemma length_dict_set: "dict_get d k \<noteq> None \<Longrightarrow> length (dict_set k v d) = length d"
  by (induction d) (auto split: if_splits)

interpretation mem_sessions: workspace_store in_memory_sessions "cache_ok n"
proof unfold_locales
  show "cache_ok n (sp_reflect in_memory_sessions x s)"
    if "cache_ok n s" "sp_get in_memory_sessions s (ws_workspace_id x) \<noteq> None" for s x
    using that length_dict_set [of "sc_sessions s"]
    by (simp add: cache_ok_def mem_reflect_session_def mem_get_session_def)
qed (auto simp: mem_save_get(1) cache_ok_save intro: mem_save_get(2),
    auto simp: mem_reflect_session_def mem_get_session_def)

lemma durable_session_repository_sel [simp]:
  "sp_get durable_session_repository = db_get_session"
  "sp_save durable_session_repository = db_save_session"
  "sp_reflect durable_session_repository = (\<lambda>x s. s)"
  by (simp_all add: durable_session_repository_def)

lemma version_rows_save:
  "version_rows (db_save_session x s) k =
     (if k = ws_workspace_id x then ws_saved_versions x else version_rows s k)"
  by (auto simp: version_rows_def db_save_session_def filter_map comp_def
      intro!: arg_cong [where f = "map snd"] filter_cong)

text \<open>Reading the rows of a well-formed session gives the session back.\<close>

lemma session_from_rows:
  assumes "session_inv x"
  shows "workspace_session_from_rows (x\<lparr>ws_saved_versions := []\<rparr>)
    (sort_key sv_version_number (ws_saved_versions x)) = x"
proof -
  have "sort_key sv_version_number (ws_saved_versions x) = ws_saved_versions x"
    using assms by (intro sort_key_id_if_sorted)
      (simp add: session_inv_def sorted_map sorted_wrt_map)
  then show ?thesis using assms
    by (simp add: workspace_session_from_rows_def refresh_saved_version_metadata_def session_inv_def)
qed

lemma db_save_sessions:
  "dict_get (dw_sessions (db_save_session x s)) k =
     (if k = ws_workspace_id x then Some (x\<lparr>ws_saved_versions := []\<rparr>) else dict_get (dw_sessions s) k)"
  by (simp add: db_save_session_def)

lemma db_save_get:
  "session_inv x \<Longrightarrow> db_get_session (db_save_session x s) (ws_workspace_id x) = Some x"
  by (simp add: db_get_session_def db_save_sessions version_rows_save session_from_rows)

lemma db_save_get_other:
  "k \<noteq> ws_workspace_id x \<Longrightarrow> db_get_session (db_save_session x s) k = db_get_session s k"
  by (simp add: db_get_session_def db_save_sessions version_rows_save split: option.split)

interpretation durable_store: workspace_store durable_session_repository "\<lambda>s. True"
  by unfold_locales (auto simp: db_save_get db_save_get_other)

section \<open>Runs\<close>

datatype workspace_command =
  CreateSession session_create_request workspace_draws
| ReevaluateSession string workspace_draws
| ApplyDraftAction string draft_action_request workspace_draws
| SaveVersion string string "string option" workspace_draws
| ResumeVersion string string
| HandoffWorkspace string handoff_request "string option" "string option" workspace_draws fresh_ids

definition keep_proposals :: "'p \<Rightarrow> 's \<times> (workspace_error + 'a) \<Rightarrow> ('s \<times> 'p) \<times> (workspace_error + unit)" where
  "keep_proposals p r = ((fst r, p), map_sum (\<lambda>e. e) (\<lambda>_. ()) (snd r))"

fun workspace_step ::
  "workspace_env \<Rightarrow> 'p proposal_port \<Rightarrow> 's session_repository \<Rightarrow> 's \<times> 'p \<Rightarrow> workspace_command \<Rightarrow>
   ('s \<times> 'p) \<times> (workspace_error + unit)" where
  "workspace_step env port repo (s, p) (CreateSession q draws) =
     keep_proposals p (create_session env repo q draws s)"
| "workspace_step env port repo (s, p) (ReevaluateSession w draws) =
     keep_proposals p (reevaluate_session env repo w draws s)"
| "workspace_step env port repo (s, p) (ApplyDraftAction w q draws) =
     keep_proposals p (apply_draft_action env repo w q draws s)"
| "workspace_step env port repo (s, p) (SaveVersion w by_actor label draws) =
     keep_proposals p (save_version env repo w by_actor label draws s)"
| "workspace_step env port repo (s, p) (ResumeVersion w i) =
     keep_proposals p (resume_version repo w i s)"
| "workspace_step env port repo (s, p) (HandoffWorkspace w q key corr draws ids) =
     (case handoff_to_proposal_lifecycle env port repo w q key corr draws ids s p of
        (s', p', r) \<Rightarrow> ((s', p'), map_sum (\<lambda>e. e) (\<lambda>_. ()) r))"

text \<open>The request model has checked a creation; the identifier \<open>w\<close> is not drawn again.\<close>

fun workspace_command_ok :: "string \<Rightarrow> 's \<times> 'p \<Rightarrow> workspace_command \<Rightarrow> bool" where
  "workspace_command_ok w s (CreateSession q draws) =
     (validate_workspace_input_mode_payloads (sq_input_mode q) (sq_stateless_input q)
        (sq_stateful_input q) \<and> wd_workspace_id draws \<noteq> w)"
| "workspace_command_ok w s _ = True"

context workspace_store
begin

lemma workspace_step_keeps:
  "sessions_inv (fst s) \<Longrightarrow> workspace_command_ok w s c \<Longrightarrow>
     sessions_inv (fst (fst (workspace_step env port repo s c))) \<and>
     workspace_later w (fst s) (fst (fst (workspace_step env port repo s c)))"
proof (cases s, cases c)
  fix t p w' q key corr draws ids
  assume i: "sessions_inv (fst s)" and s: "s = (t, p)"
    and c: "c = HandoffWorkspace w' q key corr draws ids"
  show ?thesis
    using handoff_keeps [of t env port w' q key corr draws ids p w] i
    by (cases "handoff_to_proposal_lifecycle env port repo w' q key corr draws ids t p")
      (simp add: s c)
qed (use create_session_keeps reevaluate_keeps draft_action_keeps save_version_keeps resume_keeps in
    \<open>auto simp: keep_proposals_def\<close>)

end

text \<open>For what holds of every session no identifier has to stay undrawn.\<close>

fun workspace_request_checked :: "'s \<times> 'p \<Rightarrow> workspace_command \<Rightarrow> bool" where
  "workspace_request_checked s (CreateSession q draws) =
     validate_workspace_input_mode_payloads (sq_input_mode q) (sq_stateless_input q)
       (sq_stateful_input q)"
| "workspace_request_checked s _ = True"

lemma checked_command_ok:
  "workspace_request_checked s c \<Longrightarrow> \<exists>w. workspace_command_ok w s c"
proof (cases c)
  case (CreateSession q draws)
  assume "workspace_request_checked s c"
  then show ?thesis using CreateSession
    by (auto intro!: exI [of _ "CHR ''x'' # wd_workspace_id draws"])
qed auto

interpretation mem_checked: guarded_steps "workspace_step env port in_memory_sessions"
  workspace_request_checked "\<lambda>s. mem_sessions.sessions_inv n (fst s)" "\<lambda>s t. True"
  by unfold_locales (use mem_sessions.workspace_step_keeps checked_command_ok in blast)+

interpretation mem_runs: guarded_steps "workspace_step env port in_memory_sessions"
  "workspace_command_ok w" "\<lambda>s. mem_sessions.sessions_inv n (fst s)"
  "\<lambda>s t. mem_sessions.workspace_later w (fst s) (fst t)"
  by unfold_locales (use mem_sessions.workspace_step_keeps mem_sessions.later_refl
    mem_sessions.later_trans in blast)+

interpretation durable_runs: guarded_steps "workspace_step env port durable_session_repository"
  "workspace_command_ok w" "\<lambda>s. durable_store.sessions_inv (fst s)"
  "\<lambda>s t. durable_store.workspace_later w (fst s) (fst t)"
  by unfold_locales (use durable_store.workspace_step_keeps durable_store.later_refl
    durable_store.later_trans in blast)+

end
