(* ===== verification/Workspace_Properties.thy ===== *)
theory Workspace_Properties
  imports Workspace_System
begin

text \<open>
  The properties of the workspace: what the commands keep, what resuming a saved version restores,
  what a failed evaluation and two concurrent saves leave behind, and how a hand-off can be
  repeated, goes stale and records the policy context.
\<close>

section \<open>Well-formed sessions\<close>

definition empty_cache :: "nat \<Rightarrow> session_cache" where
  "empty_cache n = \<lparr>sc_max_size = n, sc_sessions = []\<rparr>"

lemma empty_cache_inv: "1 \<le> n \<Longrightarrow> mem_sessions.sessions_inv n (empty_cache n)"
  by (simp add: mem_sessions.sessions_inv_def cache_ok_def empty_cache_def mem_get_session_def)

text \<open>
  C11: Workspaces stay well formed. From an empty cache of capacity \<open>n\<close>, whatever workspace commands
  run (with their errors, evictions and hand-offs), at most \<open>n\<close> sessions are held; each is stored under
  its own identifier, has the input its mode asks for and a resolved context; its saved versions are
  numbered from one without gaps, and the count and the latest summary it shows are those of its list.
\<close>

theorem workspaces_stay_well_formed:
  assumes "1 \<le> n"
    and "run_ok workspace_request_checked (workspace_step env port in_memory_sessions)
      (empty_cache n, p) cs"
    and "s = fst (run_steps (workspace_step env port in_memory_sessions) (empty_cache n, p) cs)"
  shows "length (sc_sessions s) \<le> n \<and>
    (mem_get_session s w = Some x \<longrightarrow>
       ws_workspace_id x = w \<and>
       map sv_version_number (ws_saved_versions x) = map Suc [0..<length (ws_saved_versions x)] \<and>
       ws_saved_version_count x = length (ws_saved_versions x) \<and>
       (ws_saved_versions x \<noteq> [] \<longrightarrow>
          ws_latest_saved_version x =
            Some (build_saved_version_summary (last (ws_saved_versions x)))) \<and>
       validate_workspace_input_mode_payloads (ws_input_mode x) (ws_stateless_input x)
         (ws_stateful_input x) \<and>
       ws_resolved_context x \<noteq> None)"
proof -
  have i: "mem_sessions.sessions_inv n s"
    using mem_checked.run_inv [of n "(empty_cache n, p)" env port cs] empty_cache_inv [OF assms(1)]
      assms(2,3) by simp
  then show ?thesis
    using mem_sessions.sessions_invD [OF i, of w x]
    by (auto simp: session_inv_def mem_sessions.sessions_inv_def cache_ok_def)
qed

section \<open>Saving and resuming\<close>

lemma find_map: "find P (map f xs) = map_option f (find (\<lambda>x. P (f x)) xs)"
  by (induction xs) auto

lemma find_kept:
  "find (\<lambda>v. sv_workspace_version_id v = i) (kept_versions x) =
     map_option (set_continuity []) (find_saved_version x i)"
  by (simp add: kept_versions_def find_saved_version_def find_map)

lemma saved_version_found_later:
  assumes "versions_grow x y" "find_saved_version x i = Some v"
  shows "\<exists>v'. find_saved_version y i = Some v' \<and> set_continuity [] v' = set_continuity [] v"
proof -
  obtain vs where vs: "kept_versions y = kept_versions x @ vs"
    using assms(1) by (auto simp: versions_grow_def prefix_def)
  have "find (\<lambda>v. sv_workspace_version_id v = i) (kept_versions y) = Some (set_continuity [] v)"
    by (simp add: vs find_append find_kept assms(2))
  then show ?thesis by (auto simp: find_kept)
qed

lemma set_continuity_sameD:
  assumes "set_continuity [] v' = set_continuity [] v"
  shows "sv_draft_state v' = sv_draft_state v"
    "sv_evaluation_summary v' = sv_evaluation_summary v"
    "sv_latest_proposal_result v' = sv_latest_proposal_result v"
    "(sv_replay_evidence v')\<lparr>re_continuity := []\<rparr> = (sv_replay_evidence v)\<lparr>re_continuity := []\<rparr>"
  using arg_cong [OF assms, of sv_draft_state] arg_cong [OF assms, of sv_evaluation_summary]
    arg_cong [OF assms, of sv_latest_proposal_result] arg_cong [OF assms, of sv_replay_evidence]
  by (auto simp: set_continuity_def)

definition same_work :: "workspace_session \<Rightarrow> saved_version \<Rightarrow> bool" where
  "same_work x v \<longleftrightarrow>
     ws_draft_state x = sv_draft_state v \<and> ws_evaluation_summary x = sv_evaluation_summary v \<and>
     ws_latest_proposal_result x = sv_latest_proposal_result v \<and>
     map_option (\<lambda>e. e\<lparr>re_continuity := []\<rparr>) (ws_latest_replay_evidence x) =
       Some ((sv_replay_evidence v)\<lparr>re_continuity := []\<rparr>)"

context workspace_store
begin

lemma saved_version_resumes:
  assumes s: "sessions_inv s" and x: "sp_get repo s w = Some x"
    and new: "find_saved_version x (wd_version_id draws) = None"
    and save: "save_version env repo w actor label draws s = (s1, Inr (x1, v))"
    and later: "workspace_later w s1 s2"
    and y: "sp_get repo s2 w = Some y"
  shows "\<exists>z. resume_version repo w (sv_workspace_version_id v) s2 = (sp_save repo z s2, Inr z) \<and>
    same_work z v"
proof -
  have v: "v = build_saved_workspace_version (ev_sha env) (ev_engine env) x actor label
      (wd_version_id draws) (wd_now draws) (wd_evidence_at draws)"
    and x1: "x1 = refresh_saved_version_metadata
      (x\<lparr>ws_saved_versions := ws_saved_versions x @ [v]\<rparr>)"
    and s1: "s1 = sp_save repo x1 s"
    using save by (auto simp: save_version_def get_session_def x Let_def)
  have x1i: "session_inv x1" "ws_workspace_id x1 = w"
    using saved_keeps(1) [OF v] sessions_invD [OF s x]
    by (simp_all add: x1) (simp add: refresh_saved_version_metadata_def)
  have id: "sv_workspace_version_id v = wd_version_id draws"
    by (simp add: v build_saved_workspace_version_def)
  have f: "find_saved_version x1 (sv_workspace_version_id v) = Some v"
    using new by (simp add: x1 find_saved_version_def refresh_saved_version_metadata_def
        find_append id)
  have "sp_get repo s1 w = Some x1"
    using get_save [OF _ x1i(1)] s x1i(2) by (auto simp: s1 sessions_inv_def)
  then have "versions_grow x1 y" using later y by (auto simp: workspace_later_def)
  then obtain v' where v': "find_saved_version y (sv_workspace_version_id v) = Some v'"
      "set_continuity [] v' = set_continuity [] v"
    using saved_version_found_later [OF _ f] by blast
  then show ?thesis
    using set_continuity_sameD [OF v'(2)]
    by (simp add: resume_version_def get_session_def y require_saved_version_def same_work_def
        apply_saved_workspace_version_def)
qed

end

text \<open>
  C10: Resuming gives the saved work back. After a version was saved in a reachable state, whatever
  commands follow (further actions, evaluations that fail, hand-offs), as long as the workspace is
  still held, resuming that version restores the draft, the evaluation summary, the proposal result
  and the replay evidence the session had when it was saved, up to the continuity a hand-off writes.
\<close>

theorem resume_restores_saved_work:
  assumes "1 \<le> n"
    and "run_ok workspace_request_checked (workspace_step env port in_memory_sessions)
      (empty_cache n, p) cs"
    and "(s, p1) = run_steps (workspace_step env port in_memory_sessions) (empty_cache n, p) cs"
    and "mem_get_session s w = Some x" and "find_saved_version x (wd_version_id draws) = None"
    and "save_version env in_memory_sessions w actor label draws s = (s1, Inr (x1, v))"
    and "run_ok (workspace_command_ok w) (workspace_step env port in_memory_sessions) (s1, p1) ds"
    and "(s2, p2) = run_steps (workspace_step env port in_memory_sessions) (s1, p1) ds"
    and "mem_get_session s2 w = Some y"
  shows "\<exists>z. resume_version in_memory_sessions w (wd_version_id draws) s2 =
      (mem_save_session z s2, Inr z) \<and>
    ws_draft_state z = ws_draft_state x \<and> ws_evaluation_summary z = ws_evaluation_summary x \<and>
    ws_latest_proposal_result z = ws_latest_proposal_result x \<and>
    map_option (\<lambda>e. e\<lparr>re_continuity := []\<rparr>) (ws_latest_replay_evidence z) =
      Some ((case ws_latest_replay_evidence x of
               Some e \<Rightarrow> e
             | None \<Rightarrow> build_replay_evidence (ev_sha env) (ev_engine env) x None
                         (wd_evidence_at draws))\<lparr>re_continuity := []\<rparr>)"
proof -
  have i: "mem_sessions.sessions_inv n s"
    using mem_checked.run_inv [of n "(empty_cache n, p)" env port cs] empty_cache_inv [OF assms(1)]
      assms(2,3) by (metis fst_conv)
  have i1: "mem_sessions.sessions_inv n s1"
    using mem_sessions.save_version_keeps [OF i, of env w actor label draws] assms(6) by simp
  have l: "mem_sessions.workspace_later w s1 s2"
    using mem_runs.run_later [of n "(s1, p1)" w env port ds] i1 assms(7,8) by (metis fst_conv)
  have v: "v = build_saved_workspace_version (ev_sha env) (ev_engine env) x actor label
      (wd_version_id draws) (wd_now draws) (wd_evidence_at draws)"
    using assms(4,6) by (auto simp: save_version_def get_session_def Let_def)
  show ?thesis
    using mem_sessions.saved_version_resumes [OF i _ assms(5,6) l, of y] assms(4,9)
    by (simp add: v build_saved_workspace_version_def same_work_def)
qed

section \<open>A draft action whose evaluation fails\<close>

text \<open>What a successful action leaves: the evidence is that of the draft it made.\<close>

lemma evaluated_outcome:
  assumes "evaluate_workspace env x r hex now = Inr o1"
  shows "re_draft_state_hash (eo_replay_evidence o1) = build_draft_state_hash (ev_sha env) x"
    and "es_trade_count (eo_evaluation_summary o1) = length (ds_trade_drafts (ws_draft_state x))"
  using assms
  by (auto simp: evaluate_workspace_def rbind_eq_Inr Let_def build_replay_evidence_def
      build_draft_state_hash_def build_evaluation_summary_def)

lemma reevaluated_evidence:
  assumes "reevaluate_session env repo w draws s = (s1, Inr y)"
  shows "\<exists>e. ws_latest_replay_evidence y = Some e \<and>
    re_draft_state_hash e = build_draft_state_hash (ev_sha env) y"
  using assms
  by (auto simp: reevaluate_session_def with_outcome_def build_draft_state_hash_def
      dest!: evaluated_outcome(1) split: sum.splits prod.splits)

lemma action_evidence_current:
  assumes "apply_draft_action env repo w q draws s = (s1, Inr y)"
  shows "\<exists>e. ws_latest_replay_evidence y = Some e \<and>
    re_draft_state_hash e = build_draft_state_hash (ev_sha env) y"
  using assms by (auto simp: apply_draft_action_def dest: reevaluated_evidence split: sum.splits)

lemma failed_reevaluation_durable:
  assumes "reevaluate_session env durable_session_repository w draws s = (s1, Inl err)"
  shows "s1 = s"
  using assms by (auto simp: reevaluate_session_def split: sum.splits prod.splits)

text \<open>
  A draft action is stored before its evaluation, which may fail: the caller gets the error, the
  changed draft stays, and a version saved next pairs the new draft with the evidence and the summary
  of the old one (its draft hash is not that of its draft). This is the durable repository.
\<close>

theorem failed_evaluation_saves_stale_evidence:
  assumes "durable_store.sessions_inv s" and "db_get_session s w = Some x"
    and "ws_latest_replay_evidence x = Some e"
    and "apply_workspace_draft_action_to_state new_id (ws_draft_state x) q = Inr d"
    and "new_id = (if da_action_type q = ADD_CASH_FLOW then wd_cash_flow_ids draws 0
      else wd_trade_ids draws 0)"
    and "apply_draft_action env durable_session_repository w q draws s = (s1, Inl err)"
    and "save_version env durable_session_repository w actor label draws' s1 = (s2, Inr (y, v))"
  shows "sv_draft_state v = d \<and> sv_replay_evidence v = e \<and>
    sv_evaluation_summary v = ws_evaluation_summary x"
proof -
  note x = durable_store.sessions_invD [OF assms(1)]
  have "s1 = db_save_session (x\<lparr>ws_draft_state := d\<rparr>) s"
    using failed_reevaluation_durable assms(2,4,5,6)
    by (auto simp: apply_draft_action_def get_session_def split: if_splits)
  moreover have "session_inv (x\<lparr>ws_draft_state := d\<rparr>)" "ws_workspace_id x = w"
    using x assms(2) by auto
  ultimately have "db_get_session s1 w = Some (x\<lparr>ws_draft_state := d\<rparr>)"
    using db_save_get [of "x\<lparr>ws_draft_state := d\<rparr>" s] by simp
  then show ?thesis using assms(3,7)
    by (auto simp: save_version_def get_session_def Let_def build_saved_workspace_version_def)
qed

section \<open>Two saves of the same workspace\<close>

text \<open>What \<open>save_version\<close> writes for the session it has read.\<close>

definition session_with_version :: "workspace_session \<Rightarrow> saved_version \<Rightarrow> workspace_session" where
  "session_with_version x v =
     refresh_saved_version_metadata (x\<lparr>ws_saved_versions := ws_saved_versions x @ [v]\<rparr>)"

lemma save_version_durable:
  "save_version env durable_session_repository w actor label draws s =
     (case db_get_session s w of
        None \<Rightarrow> (s, Inl (WorkspaceNotFoundError ''WORKSPACE_NOT_FOUND''))
      | Some x \<Rightarrow>
          (let v = build_saved_workspace_version (ev_sha env) (ev_engine env) x actor label
                     (wd_version_id draws) (wd_now draws) (wd_evidence_at draws)
           in (db_save_session (session_with_version x v) s, Inr (session_with_version x v, v))))"
  by (simp add: save_version_def get_session_def session_with_version_def Let_def
      split: option.split)

text \<open>
  Two saves of one workspace that have both read the session: the one that writes second
  deletes the version the first one reported as saved, and takes its number. The durable repository
  replaces all version rows at each save and compares nothing.
\<close>

theorem concurrent_save_is_lost:
  assumes "durable_store.sessions_inv s" and "db_get_session s w = Some x"
    and "save_version env durable_session_repository w actor1 label1 draws1 s = (s1, Inr (x1, v1))"
    and "v2 = build_saved_workspace_version (ev_sha env) (ev_engine env) x actor2 label2
      (wd_version_id draws2) (wd_now draws2) (wd_evidence_at draws2)"
    and "s2 = db_save_session (session_with_version x v2) s1"
    and "wd_version_id draws1 \<noteq> wd_version_id draws2"
    and "find_saved_version x (wd_version_id draws1) = None"
  shows "db_get_session s2 w = Some (session_with_version x v2) \<and>
    sv_version_number v2 = sv_version_number v1 \<and>
    find_saved_version (session_with_version x v2) (sv_workspace_version_id v1) = None"
proof -
  have x: "ws_workspace_id x = w \<and> session_inv x"
    using durable_store.sessions_invD [OF assms(1), of w x] assms(2) by simp
  have "session_inv (session_with_version x v2)" "ws_workspace_id (session_with_version x v2) = w"
    using x saved_keeps(1) [OF assms(4)]
    by (simp_all add: session_with_version_def) (simp add: refresh_saved_version_metadata_def)
  then have "db_get_session s2 w = Some (session_with_version x v2)"
    using db_save_get assms(5) by metis
  moreover have "v1 = build_saved_workspace_version (ev_sha env) (ev_engine env) x actor1 label1
      (wd_version_id draws1) (wd_now draws1) (wd_evidence_at draws1)"
    using assms(2,3) by (simp add: save_version_durable Let_def)
  ultimately show ?thesis
    using assms(4,6,7)
    by (auto simp: build_saved_workspace_version_def session_with_version_def find_saved_version_def
        refresh_saved_version_metadata_def find_append)
qed

section \<open>Hand-offs\<close>





text \<open>
  When the proposal has moved on from the version the workspace is linked to (a version created
  directly, or one whose session write was lost), a hand-off is refused with a version conflict and
  changes neither store, so no number of retries gets the workspace out of it.
\<close>

theorem stale_link_refuses_handoffs:
  assumes "db_get_session s w = Some x" and "ws_lifecycle_link x = Some link"
    and "pp_repo port = in_memory_repository"
    and "mem_get_proposal p (ll_proposal_id link) = Some pr"
    and "pr_current_state pr \<notin> set TERMINAL_STATES"
    and "pr_current_version_no pr \<noteq> ll_current_version_no link"
    and "build_simulate_request env x = (z, Inr r)" and "ws_resolved_context z \<noteq> None"
  shows "handoff_to_proposal_lifecycle env port durable_session_repository w q key corr draws ids s p =
    (s, p, Inl (WorkspaceCallError
      (ProposalStateConflictError ''VERSION_CONFLICT: expected_current_version_no mismatch'')))"
proof -
  have "ws_lifecycle_link z = Some link"
    using build_simulate_request_keeps(5) [OF assms(7)] assms(2) by simp
  then show ?thesis
    using assms
    by (auto simp: handoff_to_proposal_lifecycle_def get_session_def execute_handoff_def
        handoff_version_def Let_def require_handoff_simulate_request_def require_payload_def
        build_proposal_version_request_def build_workspace_handoff_context_resolution_def
        create_proposal_version_def prepare_proposal_version_def validate_create_version_state_def)
qed

text \<open>The mandate status that a context resolution records.\<close>

definition recorded_mandate_status :: "json_dict \<Rightarrow> json" where
  "recorded_mandate_status context_resolution =
     obj_get (dict_at context_resolution ''advisory_policy_context'') ''mandate_context_status''"

lemma context_resolution_mandate:
  "recorded_mandate_status (context_resolution_json mode source legacy c sel) =
     JStr (status_from_selector (sel_mandate_id sel))"
  by (simp add: recorded_mandate_status_def context_resolution_json_def dict_at_def obj_get_def
      build_advisory_policy_context_def Let_def)

lemma evidence_bundle_context:
  "dict_at (build_proposal_evidence_bundle eng ae result cr (Some override) lineage)
     ''context_resolution'' = override"
  by (simp add: build_proposal_evidence_bundle_def Let_def dict_at_def obj_get_def
      split: option.splits)

lemma prepared_version_context:
  assumes "prepare_proposal_version sha eng res today st p q c l (Some override) now ids = Inr v"
    and "vs_store_evidence_bundle st"
  shows "dict_at (pv_evidence_bundle_json v) ''context_resolution'' = override"
  using assms
  by (auto simp: prepare_proposal_version_def rbind_eq_Inr Let_def build_proposal_version_record_def
      build_proposal_version_materialization_def evidence_bundle_context)

text \<open>What a later hand-off that succeeded did.\<close>

lemma later_handoff_version:
  assumes "execute_handoff env port x q key corr draws ids p =
      (z, p1, Inr (resp, lineage, CREATED_PROPOSAL_VERSION))"
    and "pp_repo port = in_memory_repository" and "vs_store_evidence_bundle (pp_settings port)"
  obtains override where "build_workspace_handoff_context_resolution z empty_metadata = Inr override"
    and "dict_at (vd_evidence_bundle (cr_version resp)) ''context_resolution'' = override"
proof -
  obtain link r where h: "handoff_version env port z link q r corr draws ids p =
      (p1, Inr (resp, lineage, CREATED_PROPOSAL_VERSION))"
    using assms(1) by (auto simp: execute_handoff_def handoff_create_def Let_def
        split: sum.splits prod.splits option.splits)
  then obtain override where o1: "build_workspace_handoff_context_resolution z empty_metadata = Inr override"
    by (auto simp: handoff_version_def Let_def require_handoff_simulate_request_def
        require_payload_def build_proposal_version_request_def split: sum.splits)
  obtain payload l where cmd: "create_proposal_version (ev_sha env) (ev_engine env) (pp_resolver port)
      (pp_today port) (pp_settings port) in_memory_repository (ll_proposal_id link) payload corr l
      (Some override) (wd_now draws) ids p = (p1, Inr resp)"
    using h o1 by (auto simp: handoff_version_def Let_def require_handoff_simulate_request_def
        require_payload_def build_proposal_version_request_def assms(2) split: sum.splits prod.splits)
  from cmd show thesis
  proof (cases rule: memv.version_command_cases)
    case (created p0 v s1 e p' r')
    then show ?thesis
      using that [OF o1] prepared_version_context [OF created(2) assms(3)]
      by (simp add: to_create_response_def to_version_detail_def)
  qed simp_all
qed

text \<open>
  A later hand-off drops the mandate from the recorded policy context: although the workspace
  names a mandate, and the evaluation of the very draft recorded it as available, the version stored by
  the hand-off records the mandate context as missing.
\<close>

theorem later_handoff_drops_mandate:
  assumes "handoff_to_proposal_lifecycle env port durable_session_repository w q key corr draws ids
      s p = (s1, p1, Inr (y, CREATED_PROPOSAL_VERSION, resp))"
    and "pp_repo port = in_memory_repository" and "vs_store_evidence_bundle (pp_settings port)"
    and "ws_stateful_input y = Some i" and "si_mandate_id i = Some m" and "m \<noteq> []"
    and "build_workspace_evaluation_context (ev_sha env) y r = Inr ctx"
  shows "recorded_mandate_status (dict_at (vd_evidence_bundle (cr_version resp))
      ''context_resolution'') = JStr ''MISSING'' \<and>
    recorded_mandate_status (ec_context_resolution ctx) = JStr ''AVAILABLE''"
proof -
  obtain x where x: "db_get_session s w = Some x"
    using assms(1)
    by (auto simp: handoff_to_proposal_lifecycle_def get_session_def split: option.splits)
  obtain z p' e where e: "execute_handoff env port x q key corr draws ids p = (z, p', e)"
    using prod_cases3 by blast
  obtain lineage where "e = Inr (resp, lineage, CREATED_PROPOSAL_VERSION)"
    using assms(1) by (auto simp: handoff_to_proposal_lifecycle_def get_session_def x e Let_def
        split: sum.splits)
  then obtain override where "build_workspace_handoff_context_resolution z empty_metadata = Inr override"
      "dict_at (vd_evidence_bundle (cr_version resp)) ''context_resolution'' = override"
    using later_handoff_version e assms(2,3) by blast
  then show ?thesis
    using assms(4-7)
    by (auto simp: build_workspace_handoff_context_resolution_def context_resolution_mandate
        build_workspace_evaluation_context_def Let_def status_from_selector_def empty_metadata_def
        truthy_def split: option.splits)
qed

end
