(* ===== verification/Workspace_Demo.thy ===== *)
theory Workspace_Demo
  imports Workspace_Properties Example_Run
begin

text \<open>
  Concrete workspaces for the witnesses: a stateful session whose input names a mandate, evaluated,
  saved, changed, resumed and handed off to the in-memory proposal repository.
\<close>

section \<open>The environment\<close>

definition wk_context :: resolved_context where
  "wk_context = build_stateless_workspace_resolved_context ''2026-01-01'' demo_simulate"

definition wk_env :: workspace_env where
  "wk_env = \<lparr>ev_sha = demo_sha, ev_engine = demo_engine,
     ev_resolve = \<lambda>i. Some (demo_simulate, wk_context), ev_enrich = \<lambda>r t. Inr r,
     ev_default_options = [], ev_delta = \<lambda>r. ''0.00''\<rparr>"

text \<open>The same environment with an engine that is down.\<close>

definition wk_down :: workspace_env where
  "wk_down = wk_env\<lparr>ev_engine := demo_engine\<lparr>en_evaluate :=
     \<lambda>_ _ _ _ _ _ _. Inl (PyException ''SimulationUnavailableError'' ''down'')\<rparr>\<rparr>"

definition wk_port :: "proposal_store proposal_port" where
  "wk_port = \<lparr>pp_resolver = None, pp_today = ''2026-01-01'',
     pp_settings = demo_settings\<lparr>vs_store_evidence_bundle := True\<rparr>,
     pp_repo = in_memory_repository\<rparr>"

definition wk_draws :: "string \<Rightarrow> string \<Rightarrow> workspace_draws" where
  "wk_draws w v = \<lparr>wd_workspace_id = w, wd_version_id = v, wd_trade_ids = \<lambda>n. ''T'',
     wd_cash_flow_ids = \<lambda>n. ''C'', wd_correlation_hex = ''c'', wd_today = ''2026-01-01'',
     wd_now = 0, wd_evidence_at = 0, wd_completed_at = 0\<rparr>"

definition wk_input :: stateful_input where
  "wk_input = \<lparr>si_portfolio_id = ''PF'', si_as_of = ''2026-01-01'', si_household_id = None,
     si_mandate_id = Some ''M'', si_benchmark_id = None, si_narrative_request = None\<rparr>"

definition wk_create :: session_create_request where
  "wk_create = \<lparr>sq_workspace_name = ''N'', sq_created_by = ''adv'', sq_input_mode = Stateful,
     sq_stateless_input = None, sq_stateful_input = Some wk_input\<rparr>"

definition wk_add :: draft_action_request where
  "wk_add = \<lparr>da_actor_id = ''adv'', da_action_type = ADD_TRADE, da_workspace_trade_id = None,
     da_workspace_cash_flow_id = None, da_trade = Some (JStr ''trade''), da_cash_flow = None,
     da_options = None\<rparr>"

definition wk_handoff :: handoff_request where
  "wk_handoff = \<lparr>wh_handoff_by = ''adv'', wh_title = None, wh_advisor_notes = None,
     wh_jurisdiction = None, wh_mandate_id = None\<rparr>"

section \<open>The session\<close>

definition wk_draft :: "trade_draft list \<Rightarrow> draft_state" where
  "wk_draft ts = \<lparr>ds_options = [(''enable_proposal_simulation'', JBool True)],
     ds_alternatives_request = None, ds_reference_model = None, ds_trade_drafts = ts,
     ds_cash_flow_drafts = []\<rparr>"

definition wk_session :: workspace_session where
  "wk_session = build_workspace_session wk_create ''W'' (isoformat 0) (wk_draft []) wk_context"

lemma wk_env_simps [simp]:
  "ev_sha wk_env = demo_sha" "ev_engine wk_env = demo_engine"
  "ev_resolve wk_env i = Some (demo_simulate, wk_context)" "ev_enrich wk_env r t = Inr r"
  "ev_sha wk_down = demo_sha" "ev_resolve wk_down i = Some (demo_simulate, wk_context)"
  "ev_enrich wk_down r t = Inr r"
  "en_evaluate (ev_engine wk_down) a b c d e f g =
     Inl (PyException ''SimulationUnavailableError'' ''down'')"
  "en_evaluate demo_engine a b c d e f g =
     Inr \<lparr>rs_status = READY, rs_json = [], rs_gate_decision = None\<rparr>"
  by (simp_all add: wk_env_def wk_down_def demo_engine_def)

lemma wk_draws_simps [simp]:
  "wd_workspace_id (wk_draws w v) = w" "wd_version_id (wk_draws w v) = v"
  "wd_trade_ids (wk_draws w v) n = ''T''" "wd_today (wk_draws w v) = ''2026-01-01''"
  "wd_now (wk_draws w v) = 0" "wd_evidence_at (wk_draws w v) = 0"
  by (simp_all add: wk_draws_def)

lemma wk_create_session:
  "create_session wk_env repo wk_create (wk_draws ''W'' v) s =
     (sp_save repo wk_session s, Inr wk_session)"
  by (simp add: create_session_def build_initial_context_def wk_create_def wk_session_def
      wk_draft_def build_draft_state_from_simulate_request_def demo_simulate_def Let_def)

lemma wk_session_simps [simp]:
  "ws_workspace_id wk_session = ''W''" "ws_input_mode wk_session = Stateful"
  "ws_stateful_input wk_session = Some wk_input" "ws_draft_state wk_session = wk_draft []"
  "ws_saved_versions wk_session = []" "ws_resolved_context wk_session = Some wk_context"
  "ws_lifecycle_link wk_session = None" "ws_latest_replay_evidence wk_session = None"
  "ws_evaluation_summary wk_session = None" "ws_latest_proposal_result wk_session = None"
  "ws_workspace_name wk_session = ''N''" "ws_saved_version_count wk_session = 0"
  "ws_latest_saved_version wk_session = None" "ws_stateless_input wk_session = None"
  by (simp_all add: wk_session_def build_workspace_session_def wk_create_def)

lemma wk_session_inv [simp]: "session_inv wk_session"
  by (simp add: session_inv_def validate_workspace_input_mode_payloads_def)

lemma wk_down_fails:
  assumes "sp_get repo s w = Some x" "ws_input_mode x = Stateful" "ws_stateful_input x = Some i"
  shows "\<exists>err. reevaluate_session wk_down repo w draws s =
    (sp_reflect repo (x\<lparr>ws_resolved_context := Some wk_context\<rparr>) s, Inl err)"
proof -
  have b: "build_simulate_request wk_down x = (x\<lparr>ws_resolved_context := Some wk_context\<rparr>,
      Inr (apply_workspace_draft_state demo_simulate (ws_draft_state x)))"
    by (simp add: build_simulate_request_def assms)
  have "\<exists>err. evaluate_workspace wk_down y r h t = Inl err" for y r h t
    by (cases "build_workspace_evaluation_context (ev_sha wk_down) y r")
      (simp_all add: evaluate_workspace_def)
  then show ?thesis by (simp add: reevaluate_session_def get_session_def assms(1) b)
    (metis (lifting) old.sum.simps(5))
qed

section \<open>Durable stores\<close>

definition db_with :: "workspace_session \<Rightarrow> durable_sessions" where
  "db_with x = db_save_session x \<lparr>dw_sessions = [], dw_versions = []\<rparr>"

lemma db_with_get:
  "session_inv x \<Longrightarrow> db_get_session (db_with x) (ws_workspace_id x) = Some x"
  by (simp add: db_with_def db_save_get)

lemma db_with_inv: "session_inv x \<Longrightarrow> durable_store.sessions_inv (db_with x)"
  unfolding db_with_def
  using durable_store.save_inv [of "\<lparr>dw_sessions = [], dw_versions = []\<rparr>" x]
  by (simp add: durable_store.sessions_inv_def db_get_session_def)

theorem workspaces_stay_well_formed_witness:
  "length (sc_sessions (fst (run_steps (workspace_step wk_env wk_port in_memory_sessions)
     (empty_cache 1, empty_store) [CreateSession wk_create (wk_draws ''W'' ''V''),
      SaveVersion ''W'' ''adv'' None (wk_draws ''W'' ''V'')]))) \<le> 1"
  by (rule conjunct1 [OF workspaces_stay_well_formed [OF _ _ refl]])
    (simp_all add: validate_workspace_input_mode_payloads_def wk_create_def)

definition wk_evidence :: replay_evidence where
  "wk_evidence = build_replay_evidence demo_sha demo_engine wk_session (Some ''sha256:h'') 0"

definition wk_evaluated :: workspace_session where
  "wk_evaluated = wk_session\<lparr>ws_latest_replay_evidence := Some wk_evidence\<rparr>"

lemma wk_evaluated_inv: "session_inv wk_evaluated" "ws_workspace_id wk_evaluated = ''W''"
  by (simp_all add: wk_evaluated_def session_inv_def validate_workspace_input_mode_payloads_def)

lemma wk_evaluated_input:
  "ws_input_mode wk_evaluated = Stateful" "ws_stateful_input wk_evaluated = Some wk_input"
  "ws_lifecycle_link wk_evaluated = None"
  by (simp_all add: wk_evaluated_def)

theorem failed_evaluation_saves_stale_evidence_witness:
  "\<exists>s1 s2 y v err. apply_draft_action wk_down durable_session_repository ''W'' wk_add
      (wk_draws ''W'' ''V'') (db_with wk_evaluated) = (s1, Inl err) \<and>
    save_version wk_down durable_session_repository ''W'' ''adv'' None (wk_draws ''W'' ''V'') s1 =
      (s2, Inr (y, v)) \<and>
    sv_draft_state v = wk_draft [\<lparr>td_workspace_trade_id = ''T'', td_trade = JStr ''trade''\<rparr>] \<and>
    sv_replay_evidence v = wk_evidence"
proof -
  let ?d = "wk_draft [\<lparr>td_workspace_trade_id = ''T'', td_trade = JStr ''trade''\<rparr>]"
  have g: "db_get_session (db_with wk_evaluated) ''W'' = Some wk_evaluated"
    using db_with_get [OF wk_evaluated_inv(1)] by (simp add: wk_evaluated_inv)
  have a: "apply_workspace_draft_action_to_state ''T'' (ws_draft_state wk_evaluated) wk_add = Inr ?d"
    by (simp add: apply_workspace_draft_action_to_state_def wk_add_def add_trade_draft_def
        require_payload_def wk_evaluated_def wk_draft_def)
  have t: "''T'' = (if da_action_type wk_add = ADD_CASH_FLOW
      then wd_cash_flow_ids (wk_draws ''W'' ''V'') 0 else wd_trade_ids (wk_draws ''W'' ''V'') 0)"
    by (simp add: wk_add_def)
  have inv: "session_inv (wk_evaluated\<lparr>ws_draft_state := ?d\<rparr>)" by (simp add: wk_evaluated_inv)
  have g1: "db_get_session (db_save_session (wk_evaluated\<lparr>ws_draft_state := ?d\<rparr>) t) ''W'' =
      Some (wk_evaluated\<lparr>ws_draft_state := ?d\<rparr>)" for t
    using db_save_get [OF inv, of t] by (simp add: wk_evaluated_inv)
  let ?s1 = "db_save_session (wk_evaluated\<lparr>ws_draft_state := ?d\<rparr>) (db_with wk_evaluated)"
  obtain err where "reevaluate_session wk_down durable_session_repository ''W''
      (wk_draws ''W'' ''V'') ?s1 = (?s1, Inl err)"
    using wk_down_fails [of durable_session_repository ?s1 "''W''" "wk_evaluated\<lparr>ws_draft_state := ?d\<rparr>"
        wk_input "wk_draws ''W'' ''V''"] g1 by (auto simp: wk_evaluated_input)
  then have 1: "apply_draft_action wk_down durable_session_repository ''W'' wk_add
      (wk_draws ''W'' ''V'') (db_with wk_evaluated) = (?s1, Inl err)"
    using a t by (simp add: apply_draft_action_def get_session_def g)
  obtain s2 y v where 2: "save_version wk_down durable_session_repository ''W'' ''adv'' None
      (wk_draws ''W'' ''V'') ?s1 = (s2, Inr (y, v))"
    by (simp add: save_version_def get_session_def g1 Let_def)
  show ?thesis
    using failed_evaluation_saves_stale_evidence [OF db_with_inv [OF wk_evaluated_inv(1)] g _ a t 1 2,
        of wk_evidence] 1 2
    by (auto simp: wk_evaluated_def)
qed

theorem concurrent_save_is_lost_witness:
  "\<exists>s1 x1 v1 v2. save_version wk_env durable_session_repository ''W'' ''adv'' None
      (wk_draws ''W'' ''V1'') (db_with wk_session) = (s1, Inr (x1, v1)) \<and>
    sv_workspace_version_id v1 = ''V1'' \<and>
    db_get_session (db_save_session (session_with_version wk_session v2) s1) ''W'' =
      Some (session_with_version wk_session v2) \<and>
    find_saved_version (session_with_version wk_session v2) ''V1'' = None"
proof -
  let ?v2 = "build_saved_workspace_version (ev_sha wk_env) (ev_engine wk_env) wk_session ''rev'' None
      (wd_version_id (wk_draws ''W'' ''V2'')) (wd_now (wk_draws ''W'' ''V2''))
      (wd_evidence_at (wk_draws ''W'' ''V2''))"
  have g: "db_get_session (db_with wk_session) ''W'' = Some wk_session"
    using db_with_get [OF wk_session_inv] by simp
  obtain s1 x1 v1 where 1: "save_version wk_env durable_session_repository ''W'' ''adv'' None
      (wk_draws ''W'' ''V1'') (db_with wk_session) = (s1, Inr (x1, v1))"
    and v1: "sv_workspace_version_id v1 = ''V1''"
    using g by (simp add: save_version_durable Let_def build_saved_workspace_version_def)
  show ?thesis
    using concurrent_save_is_lost [OF db_with_inv [OF wk_session_inv] g 1 refl [of ?v2] refl] 1 v1
    by (auto simp: find_saved_version_def)
qed

definition cache_with :: "workspace_session \<Rightarrow> session_cache" where
  "cache_with x = \<lparr>sc_max_size = 1, sc_sessions = [(ws_workspace_id x, x)]\<rparr>"

lemma cache_with_get [simp]:
  "mem_get_session (cache_with x) w = (if w = ws_workspace_id x then Some x else None)"
  by (simp add: cache_with_def mem_get_session_def)

lemma cache_with_save [simp]:
  "ws_workspace_id y = ws_workspace_id x \<Longrightarrow> mem_save_session y (cache_with x) = cache_with y"
  by (simp add: cache_with_def mem_save_session_def move_to_end_def evict_over_capacity.simps)

lemma cache_with_first: "mem_save_session x (empty_cache 1) = cache_with x"
  by (simp add: cache_with_def empty_cache_def mem_save_session_def move_to_end_def
      evict_over_capacity.simps)

lemma cache_with_reflect [simp]:
  "ws_workspace_id y = ws_workspace_id x \<Longrightarrow> mem_reflect_session y (cache_with x) = cache_with y"
  by (simp add: cache_with_def mem_reflect_session_def)

text \<open>A trade added while the engine is down: the draft has it, the call failed.\<close>

definition wk_traded :: "workspace_session \<Rightarrow> workspace_session" where
  "wk_traded x = x\<lparr>ws_draft_state := (ws_draft_state x)\<lparr>ds_trade_drafts :=
       ds_trade_drafts (ws_draft_state x) @ [\<lparr>td_workspace_trade_id = ''T'', td_trade = JStr ''trade''\<rparr>]\<rparr>,
     ws_resolved_context := Some wk_context\<rparr>"

lemma wk_down_add:
  assumes "ws_workspace_id x = ''W''" "ws_input_mode x = Stateful" "ws_stateful_input x = Some i"
  shows "\<exists>err. apply_draft_action wk_down in_memory_sessions ''W'' wk_add (wk_draws ''W'' ''V'')
      (cache_with x) = (cache_with (wk_traded x), Inl err)"
proof -
  let ?y = "x\<lparr>ws_draft_state := (ws_draft_state x)\<lparr>ds_trade_drafts := ds_trade_drafts (ws_draft_state x)
    @ [\<lparr>td_workspace_trade_id = ''T'', td_trade = JStr ''trade''\<rparr>]\<rparr>\<rparr>"
  have a: "apply_workspace_draft_action_to_state t d wk_add =
      Inr (d\<lparr>ds_trade_drafts := ds_trade_drafts d @
        [\<lparr>td_workspace_trade_id = t, td_trade = JStr ''trade''\<rparr>]\<rparr>)" for t d
    by (simp add: apply_workspace_draft_action_to_state_def wk_add_def add_trade_draft_def
        require_payload_def)
  have "da_action_type wk_add \<noteq> ADD_CASH_FLOW" by (simp add: wk_add_def)
  moreover obtain err where "reevaluate_session wk_down in_memory_sessions ''W'' (wk_draws ''W'' ''V'')
      (cache_with ?y) = (cache_with (wk_traded x), Inl err)"
    using wk_down_fails [of in_memory_sessions "cache_with ?y" "''W''" ?y i "wk_draws ''W'' ''V''"] assms
    by (auto simp: wk_traded_def)
  ultimately show ?thesis
    by (simp add: apply_draft_action_def get_session_def assms(1) a)
qed

theorem resume_restores_saved_work_witness:
  "\<exists>x1 v z. save_version wk_down in_memory_sessions ''W'' ''adv'' None (wk_draws ''W'' ''V'')
      (cache_with wk_session) = (cache_with x1, Inr (x1, v)) \<and>
    ws_draft_state (wk_traded x1) \<noteq> ws_draft_state wk_session \<and>
    resume_version in_memory_sessions ''W'' ''V'' (cache_with (wk_traded x1)) =
      (mem_save_session z (cache_with (wk_traded x1)), Inr z) \<and>
    ws_draft_state z = ws_draft_state wk_session"
proof -
  let ?step = "workspace_step wk_down wk_port in_memory_sessions"
  let ?create = "CreateSession wk_create (wk_draws ''W'' ''V'')"
  let ?add = "ApplyDraftAction ''W'' wk_add (wk_draws ''W'' ''V'')"
  let ?v = "build_saved_workspace_version (ev_sha wk_down) (ev_engine wk_down) wk_session ''adv'' None
    ''V'' 0 0"
  let ?x1 = "session_with_version wk_session ?v"
  have x1: "ws_workspace_id ?x1 = ''W''" "ws_input_mode ?x1 = Stateful"
      "ws_stateful_input ?x1 = Some wk_input" "ws_draft_state ?x1 = wk_draft []"
    by (simp_all add: session_with_version_def refresh_saved_version_metadata_def)
  have created: "create_session wk_down in_memory_sessions wk_create (wk_draws ''W'' ''V'')
      (empty_cache 1) = (cache_with wk_session, Inr wk_session)"
    by (simp add: create_session_def build_initial_context_def wk_create_def wk_session_def
      wk_draft_def build_draft_state_from_simulate_request_def demo_simulate_def Let_def
      cache_with_first [simplified])
  have 1: "(cache_with wk_session, empty_store) = run_steps ?step (empty_cache 1, empty_store) [?create]"
    using created by (simp add: keep_proposals_def)
  have save: "save_version wk_down in_memory_sessions ''W'' ''adv'' None (wk_draws ''W'' ''V'')
      (cache_with wk_session) = (cache_with ?x1, Inr (?x1, ?v))"
    using x1 by (simp add: save_version_def get_session_def Let_def session_with_version_def)
  obtain err where "apply_draft_action wk_down in_memory_sessions ''W'' wk_add (wk_draws ''W'' ''V'')
      (cache_with ?x1) = (cache_with (wk_traded ?x1), Inl err)"
    using wk_down_add [OF x1(1-3)] by blast
  then have 2: "(cache_with (wk_traded ?x1), empty_store) = run_steps ?step (cache_with ?x1, empty_store) [?add]"
    by (simp add: keep_proposals_def)
  have y: "mem_get_session (cache_with (wk_traded ?x1)) ''W'' = Some (wk_traded ?x1)"
    using x1(1) by (simp add: wk_traded_def)
  have "\<exists>z. resume_version in_memory_sessions ''W'' (wd_version_id (wk_draws ''W'' ''V''))
        (cache_with (wk_traded ?x1)) = (mem_save_session z (cache_with (wk_traded ?x1)), Inr z) \<and>
      ws_draft_state z = ws_draft_state wk_session"
    using resume_restores_saved_work [OF _ _ 1 _ _ save _ 2 y]
    by (auto simp: wk_create_def validate_workspace_input_mode_payloads_def find_saved_version_def)
  moreover have "ws_draft_state (wk_traded ?x1) \<noteq> ws_draft_state wk_session"
    using x1(4) by (simp add: wk_traded_def wk_draft_def)
  ultimately show ?thesis using save by auto
qed

section \<open>Hand-offs\<close>

lemma wk_port_simps [simp]:
  "pp_repo wk_port = in_memory_repository" "pp_resolver wk_port = None"
  "vs_store_evidence_bundle (pp_settings wk_port)"
  "vs_require_simulation_flag (pp_settings wk_port)"
  "\<not> vs_allow_portfolio_id_change (pp_settings wk_port)"
  by (simp_all add: wk_port_def demo_settings_def)

definition wk_request :: simulate_request where
  "wk_request = apply_workspace_draft_state demo_simulate (wk_draft [])"

lemma wk_request_simps [simp]:
  "sr_options wk_request = [(''enable_proposal_simulation'', JBool True)]"
  "sr_portfolio_snapshot wk_request = [(''portfolio_id'', JStr ''PF'')]"
  by (simp_all add: wk_request_def apply_workspace_draft_state_def wk_draft_def demo_simulate_def)

lemma wk_build_request:
  assumes "ws_input_mode x = Stateful" "ws_stateful_input x = Some i"
    and "ws_draft_state x = wk_draft []" "ws_resolved_context x = Some wk_context"
  shows "build_simulate_request wk_env x = (x, Inr wk_request)"
  using assms by (simp add: build_simulate_request_def wk_request_def)

lemma wk_override:
  "ws_resolved_context x = Some c \<Longrightarrow>
     \<exists>override. build_workspace_handoff_context_resolution x m = Inr override"
  by (simp add: build_workspace_handoff_context_resolution_def)



definition wk_linked :: "int \<Rightarrow> workspace_session" where
  "wk_linked n = wk_session\<lparr>ws_lifecycle_link := Some \<lparr>ll_proposal_id = ''P'',
     ll_current_version_no = n, ll_last_handoff_at = ''t'', ll_last_handoff_by = ''adv''\<rparr>\<rparr>"

lemma wk_linked_inv: "session_inv (wk_linked n)" "ws_workspace_id (wk_linked n) = ''W''"
  by (simp_all add: wk_linked_def with_link_inv)

lemma wk_linked_get: "db_get_session (db_with (wk_linked n)) ''W'' = Some (wk_linked n)"
  using db_with_get [OF wk_linked_inv(1)] by (simp add: wk_linked_inv)

lemma wk_linked_request: "build_simulate_request wk_env (wk_linked n) = (wk_linked n, Inr wk_request)"
  by (rule wk_build_request) (simp_all add: wk_linked_def)

theorem stale_link_refuses_handoffs_witness:
  "handoff_to_proposal_lifecycle wk_env wk_port durable_session_repository ''W'' wk_handoff None None
      (wk_draws ''W'' ''V'') (demo_ids ''E9'') (db_with (wk_linked 1)) store5 =
    (db_with (wk_linked 1), store5, Inl (WorkspaceCallError
      (ProposalStateConflictError ''VERSION_CONFLICT: expected_current_version_no mismatch'')))"
  by (rule stale_link_refuses_handoffs [OF wk_linked_get _ wk_port_simps(1) _ _ _ wk_linked_request,
        where pr = "demo_proposal DRAFT 600 2" and link = "\<lparr>ll_proposal_id = ''P'',
          ll_current_version_no = 1, ll_last_handoff_at = ''t'', ll_last_handoff_by = ''adv''\<rparr>"])
    (simp_all add: wk_linked_def store5_def TERMINAL_STATES_def)

lemma wk_create_version:
  "\<exists>resp p1. create_proposal_version demo_sha demo_engine None today (pp_settings wk_port)
      in_memory_repository ''P'' (build_proposal_version_request (wk_linked 2) q wk_request) corr l
      (Some override) now ids store5 = (p1, Inr resp)"
proof -
  have v: "\<exists>v. prepare_proposal_version demo_sha demo_engine None today (pp_settings wk_port)
      (demo_proposal DRAFT 600 2) (build_proposal_version_request (wk_linked 2) q wk_request) corr l
      (Some override) now ids = Inr v"
    by (simp add: prepare_proposal_version_def validate_create_version_state_def
        build_proposal_version_request_def wk_linked_def TERMINAL_STATES_def
        resolve_version_request_def require_legacy_simulate_request_def direct_proposal_context_def
        rmap_error_def validate_proposal_simulation_flag_def validate_proposal_simulation_enabled_def
        validate_create_version_portfolio_context_def run_advisory_proposal_simulation_def Let_def
        obj_get_def)
  then obtain v where v: "prepare_proposal_version demo_sha demo_engine None today
      (pp_settings wk_port) (demo_proposal DRAFT 600 2) (build_proposal_version_request (wk_linked 2) q
      wk_request) corr l (Some override) now ids = Inr v" by blast
  note f = prepare_version_fields [OF v]
  have g: "dict_get (ps_proposals store5) ''P'' = Some (demo_proposal DRAFT 600 2)"
    by (simp add: store5_def demo_store_def)
  show ?thesis
    by (simp add: create_proposal_version_def Let_def v persist_created_proposal_version_def f
        build_new_version_created_event_and_apply_state_def build_new_version_created_event_def
        mem_create_version_def mem_transition_proposal_def apply_new_version_lifecycle_state_def g
        mem_get_proposal_def)
qed

theorem later_handoff_drops_mandate_witness:
  "\<exists>s1 p1 y resp ctx. handoff_to_proposal_lifecycle wk_env wk_port durable_session_repository
      ''W'' wk_handoff None None (wk_draws ''W'' ''V'') (demo_ids ''E9'') (db_with (wk_linked 2))
      store5 = (s1, p1, Inr (y, CREATED_PROPOSAL_VERSION, resp)) \<and>
    build_workspace_evaluation_context demo_sha y wk_request = Inr ctx \<and>
    recorded_mandate_status (dict_at (vd_evidence_bundle (cr_version resp)) ''context_resolution'') =
      JStr ''MISSING'' \<and>
    recorded_mandate_status (ec_context_resolution ctx) = JStr ''AVAILABLE''"
proof -
  have ctx: "ws_resolved_context (wk_linked 2) = Some wk_context"
    "ws_lifecycle_link (wk_linked 2) = Some \<lparr>ll_proposal_id = ''P'', ll_current_version_no = 2,
       ll_last_handoff_at = ''t'', ll_last_handoff_by = ''adv''\<rparr>"
    "ws_stateful_input (wk_linked 2) = Some wk_input" by (simp_all add: wk_linked_def)
  obtain override where o1: "build_workspace_handoff_context_resolution (wk_linked 2) empty_metadata =
      Inr override"
    using wk_override [OF ctx(1)] by auto
  define l where "l = build_workspace_handoff_replay_lineage demo_sha (wk_linked 2)
      (wh_handoff_by wk_handoff) ''CREATED_PROPOSAL_VERSION'' ''P'' (2 + 1) 0"
  obtain resp p1 where c: "create_proposal_version demo_sha demo_engine None (pp_today wk_port)
      (pp_settings wk_port) in_memory_repository ''P'' (build_proposal_version_request (wk_linked 2)
      wk_handoff wk_request) None (Some l) (Some override) 0 (demo_ids ''E9'') store5 = (p1, Inr resp)"
    using wk_create_version by blast
  obtain s1 y where h: "handoff_to_proposal_lifecycle wk_env wk_port durable_session_repository
      ''W'' wk_handoff None None (wk_draws ''W'' ''V'') (demo_ids ''E9'') (db_with (wk_linked 2))
      store5 = (s1, p1, Inr (y, CREATED_PROPOSAL_VERSION, resp))"
    and y: "ws_stateful_input y = Some wk_input" "ws_resolved_context y = Some wk_context"
    using o1 c
    by (simp add: handoff_to_proposal_lifecycle_def get_session_def wk_linked_get execute_handoff_def
        wk_linked_request ctx handoff_version_def Let_def require_handoff_simulate_request_def
        require_payload_def build_proposal_version_request_def l_def
        complete_workspace_lifecycle_handoff_def)
  obtain e where e: "build_workspace_evaluation_context (ev_sha wk_env) y wk_request = Inr e"
    by (simp add: build_workspace_evaluation_context_def y Let_def)
  show ?thesis
    using later_handoff_drops_mandate [OF h wk_port_simps(1,3) y(1) _ _ e, of "''M''"] h e
    by (auto simp: wk_input_def)
qed

end
