(* ===== verification/Py_Decimal_Ops.thy ===== *)
theory Py_Decimal_Ops
  imports Py_Decimal
begin

text \<open>
  The rest of Python's \<open>decimal\<close> that the advisory simulation uses: division, \<open>quantize\<close>, \<open>abs\<close>,
  negation, \<open>max\<close> and \<open>min\<close>, under the default context, with the two signals that it traps as
  exceptions (a division by zero, and a quantized value of more than 28 digits).
\<close>

datatype decimal_signal = DivisionByZero | InvalidOperation

section \<open>Division\<close>

text \<open>
  An exact quotient drops trailing zeros until it reaches the ideal exponent, at most \<open>n\<close> of them.
  The result is the shorter coefficient and the number of zeros dropped.
\<close>

fun strip_zeros :: "nat \<Rightarrow> nat \<Rightarrow> nat \<times> nat" where
  "strip_zeros 0 c = (c, 0)"
| "strip_zeros (Suc n) c =
     (if c mod 10 = 0 then (let (d, k) = strip_zeros n (c div 10) in (d, Suc k)) else (c, 0))"

text \<open>
  The quotient by a divisor that is not zero: one digit more than the precision, a sticky last digit
  when the division leaves a rest, and a final rounding.
\<close>

definition dec_quot :: "decimal \<Rightarrow> decimal \<Rightarrow> decimal" where
  "dec_quot x y =
     (let neg = (dc_neg x \<noteq> dc_neg y); ideal = dc_exp x - dc_exp y in
      if dc_coef x = 0 then dec_fix \<lparr>dc_neg = neg, dc_coef = 0, dc_exp = ideal\<rparr>
      else
        let shift = int (dec_digits (dc_coef y)) - int (dec_digits (dc_coef x)) + int DEC_PREC + 1;
            a = dc_coef x * 10 ^ nat shift;
            b = dc_coef y * 10 ^ nat (- shift);
            q = a div b
        in if a mod b \<noteq> 0
           then dec_fix \<lparr>dc_neg = neg, dc_coef = (if q mod 5 = 0 then q + 1 else q),
                  dc_exp = ideal - shift\<rparr>
           else let (d, k) = strip_zeros (nat shift) q
                in dec_fix \<lparr>dc_neg = neg, dc_coef = d, dc_exp = ideal - shift + int k\<rparr>)"

definition dec_is_zero :: "decimal \<Rightarrow> bool" where
  "dec_is_zero x = (dc_coef x = 0)"

definition dec_div :: "decimal \<Rightarrow> decimal \<Rightarrow> decimal_signal + decimal" where
  "dec_div x y =
     (if dec_is_zero y then Inl (if dec_is_zero x then InvalidOperation else DivisionByZero)
      else Inr (dec_quot x y))"

section \<open>Quantizing, absolute value, extrema\<close>

definition dec_quantize :: "int \<Rightarrow> decimal \<Rightarrow> decimal_signal + decimal" where
  "dec_quantize e x =
     (let y = dec_rescale e x in
      if DEC_PREC < dec_digits (dc_coef y) then Inl InvalidOperation else Inr y)"

definition dec_abs :: "decimal \<Rightarrow> decimal" where
  "dec_abs x = dec_fix (x\<lparr>dc_neg := False\<rparr>)"

definition dec_max :: "decimal \<Rightarrow> decimal \<Rightarrow> decimal" where
  "dec_max x y = (if dec_less x y then y else x)"

definition dec_min :: "decimal \<Rightarrow> decimal \<Rightarrow> decimal" where
  "dec_min x y = (if dec_less y x then y else x)"

definition dec_sum :: "decimal list \<Rightarrow> decimal" where
  "dec_sum xs = foldl dec_add (dec 0 0) xs"

section \<open>Laws\<close>

lemma dec_val_0 [simp]: "dec_val (dec 0 e) = 0"
  by (simp add: dec_val_coef dec_def)

lemma dec_is_zero_val: "dec_is_zero x = (dec_val x = 0)"
  by (simp add: dec_is_zero_def dec_val_coef less_imp_neq [OF pow10_pos, symmetric])

lemma dec_max_val: "dec_val (dec_max x y) = max (dec_val x) (dec_val y)"
  by (auto simp: dec_max_def dec_less_val)

lemma dec_min_val: "dec_val (dec_min x y) = min (dec_val x) (dec_val y)"
  by (auto simp: dec_min_def dec_less_val)

lemma dec_div_total: "\<not> dec_is_zero y \<Longrightarrow> dec_div x y = Inr (dec_quot x y)"
  by (simp add: dec_div_def)

lemma dec_mul_error:
  "\<bar>dec_val (dec_mul x y) - dec_val x * dec_val y\<bar> * (2 * 10 ^ 27) \<le> \<bar>dec_val x * dec_val y\<bar>"
  using dec_fix_error [of "\<lparr>dc_neg = (dc_neg x \<noteq> dc_neg y), dc_coef = dc_coef x * dc_coef y,
     dc_exp = dc_exp x + dc_exp y\<rparr>"]
  by (simp add: dec_mul_def dec_val_coef pow10_add mult.assoc mult.left_commute split: if_splits)

text \<open>Quantizing moves a value by at most half a unit of the last place kept.\<close>

lemma dec_quantize_error:
  assumes "dec_quantize e x = Inr y"
  shows "2 * \<bar>dec_val y - dec_val x\<bar> \<le> pow10 e"
proof (cases "e \<le> dc_exp x")
  case True
  then have y: "y = x\<lparr>dc_coef := dc_coef x * 10 ^ nat (dc_exp x - e), dc_exp := e\<rparr>"
    using assms by (simp add: dec_quantize_def dec_rescale_def Let_def split: if_splits)
  have "dec_val y = of_int (dec_scaled e x) * pow10 e"
    by (simp add: y dec_val_def dec_scaled_def dec_signed_def)
  then have "dec_val y = dec_val x" by (simp only: dec_val_scaled [OF True])
  then show ?thesis by (simp add: less_imp_le)
next
  case False
  define k where "k = nat (e - dc_exp x)"
  define d where "d = drop_digits k (dc_coef x)"
  have y: "y = x\<lparr>dc_coef := d, dc_exp := e\<rparr>"
    using assms False
    by (simp add: dec_quantize_def dec_rescale_def Let_def d_def k_def split: if_splits)
  have "pow10 (int k + dc_exp x) = 10 ^ k * pow10 (dc_exp x)" by (simp only: pow10_add pow10_nat)
  then have e: "pow10 e = 10 ^ k * pow10 (dc_exp x)" using False by (simp add: k_def)
  have "2 * \<bar>of_nat (d * 10 ^ k) - of_nat (dc_coef x)\<bar> \<le> (10 ^ k :: rat)"
  proof -
    have "of_int (2 * \<bar>int (d * 10 ^ k) - int (dc_coef x)\<bar>) \<le> (of_int (10 ^ k) :: rat)"
      using drop_digits_error [of k "dc_coef x"] unfolding d_def by (rule of_int_le_iff [THEN iffD2])
    then show ?thesis by simp
  qed
  then have "2 * \<bar>of_nat (d * 10 ^ k) - of_nat (dc_coef x)\<bar> * pow10 (dc_exp x)
      \<le> 10 ^ k * pow10 (dc_exp x)"
    using less_imp_le [OF pow10_pos [of "dc_exp x"]] by (rule mult_right_mono)
  moreover have "\<bar>dec_val y - dec_val x\<bar> = \<bar>of_nat (d * 10 ^ k) - of_nat (dc_coef x)\<bar> * pow10 (dc_exp x)"
  proof -
    have "dec_val y - dec_val x = (if dc_neg x then - 1 else 1) *
        ((of_nat (d * 10 ^ k) - of_nat (dc_coef x)) * pow10 (dc_exp x))"
      by (simp add: y dec_val_coef e left_diff_distrib mult.assoc)
    then show ?thesis by (simp add: abs_mult)
  qed
  ultimately show ?thesis by (simp add: e mult.assoc)
qed

section \<open>Computing with short decimals\<close>

text \<open>
  Results of at most 28 digits are exact; these rules compute with numbers of the form \<open>dec c e\<close> and
  \<open>dec_minus (dec c e)\<close>, which the simplifier then need not take apart.
\<close>

named_theorems dec_compute \<open>exact results on short decimals\<close>

lemma dec_digits_small: "n < 10 ^ 28 \<Longrightarrow> dec_digits n \<le> DEC_PREC"
  using dec_digits_less [of 28 n] by (cases "dec_digits n \<le> 28") (simp_all add: DEC_PREC_def)

lemma dec_fix_small: "dc_coef x < 10 ^ 28 \<Longrightarrow> dec_fix x = x"
  using dec_digits_small by (simp add: dec_fix_def)

lemma dc_dec [simp]:
  "dc_neg (dec a e) = False" "dc_coef (dec a e) = a" "dc_exp (dec a e) = e"
  "dc_neg (dec_minus x) = (\<not> dc_neg x)" "dc_coef (dec_minus x) = dc_coef x"
  "dc_exp (dec_minus x) = dc_exp x"
  by (simp_all add: dec_def dec_minus_def)

lemma dec_scaled_dec:
  "dec_scaled e (dec a f) = int a * 10 ^ nat (f - e)"
  "dec_scaled e (dec_minus x) = - dec_scaled e x"
  by (simp_all add: dec_scaled_def dec_signed_def dec_def dec_minus_def)

lemma dec_mul_dec [dec_compute]:
  "a * b < 10 ^ 28 \<Longrightarrow> dec_mul (dec a e) (dec b f) = dec (a * b) (e + f)"
  by (simp add: dec_mul_def dec_def dec_fix_small)

lemma dec_add_dec [dec_compute]:
  assumes "a * 10 ^ nat (e - min e f) + b * 10 ^ nat (f - min e f) < 10 ^ 28"
  shows "dec_add (dec a e) (dec b f) =
    dec (a * 10 ^ nat (e - min e f) + b * 10 ^ nat (f - min e f)) (min e f)"
proof -
  define c where "c = a * 10 ^ nat (e - min e f) + b * 10 ^ nat (f - min e f)"
  have s: "int a * 10 ^ nat (e - min e f) + int b * 10 ^ nat (f - min e f) = int c" by (simp add: c_def)
  have "c < 10 ^ 28" using assms by (simp add: c_def)
  then have "dec_add (dec a e) (dec b f) = dec c (min e f)"
    by (simp add: dec_add_def dec_scaled_dec Let_def s dec_fix_small)
  then show ?thesis by (simp only: c_def)
qed

lemma dec_sub_dec [dec_compute]:
  assumes "a * 10 ^ nat (e - min e f) < 10 ^ 28" "b * 10 ^ nat (f - min e f) < 10 ^ 28"
  shows "dec_sub (dec a e) (dec b f) =
    (if b * 10 ^ nat (f - min e f) \<le> a * 10 ^ nat (e - min e f)
     then dec (a * 10 ^ nat (e - min e f) - b * 10 ^ nat (f - min e f)) (min e f)
     else dec_minus (dec (b * 10 ^ nat (f - min e f) - a * 10 ^ nat (e - min e f)) (min e f)))"
proof -
  define x where "x = a * 10 ^ nat (e - min e f)"
  define y where "y = b * 10 ^ nat (f - min e f)"
  have sx: "dec_scaled (min e f) (dec a e) = int x" and sy: "dec_scaled (min e f) (dec b f) = int y"
    by (simp_all add: x_def y_def dec_scaled_dec)
  have bound: "x < 10 ^ 28" "y < 10 ^ 28" using assms by (simp_all add: x_def y_def)
  have "dec_sub (dec a e) (dec b f) = dec_fix \<lparr>dc_neg = int x < int y, dc_coef = nat \<bar>int x - int y\<bar>,
      dc_exp = min e f\<rparr>"
    by (auto simp: dec_sub_def dec_add_def dec_scaled_dec(2) sx sy Let_def)
  also have "\<dots> = \<lparr>dc_neg = int x < int y, dc_coef = nat \<bar>int x - int y\<bar>, dc_exp = min e f\<rparr>"
    using bound by (intro dec_fix_small) auto
  also have "\<dots> = (if y \<le> x then dec (x - y) (min e f) else dec_minus (dec (y - x) (min e f)))"
    by (auto simp: dec_def dec_minus_def nat_minus_as_int of_nat_diff)
  finally show ?thesis by (simp only: x_def y_def)
qed

lemma dec_quantize_dec [dec_compute]:
  assumes "(if e \<le> f then a * 10 ^ nat (f - e) else drop_digits (nat (e - f)) a) < 10 ^ 28"
  shows "dec_quantize e (dec a f) =
    Inr (dec (if e \<le> f then a * 10 ^ nat (f - e) else drop_digits (nat (e - f)) a) e)"
  using assms dec_digits_small
  by (auto simp: dec_quantize_def dec_rescale_def Let_def dec_def not_less)

lemma dec_compare_dec [dec_compute]:
  "dec_less (dec a e) (dec b f) =
    (a * 10 ^ nat (e - min e f) < b * 10 ^ nat (f - min e f))"
  "dec_le (dec a e) (dec b f) =
    (a * 10 ^ nat (e - min e f) \<le> b * 10 ^ nat (f - min e f))"
  "dec_less (dec_minus (dec a e)) (dec b f) = (0 < a \<or> 0 < b)"
  "dec_le (dec_minus (dec a e)) (dec b f)"
  "dec_is_zero (dec a e) = (a = 0)"
proof -
  have eq: "(int x * 10 ^ m < int y * 10 ^ n) = (x * 10 ^ m < y * 10 ^ n)" for x y m n :: nat
    using of_nat_less_iff [of "x * 10 ^ m" "y * 10 ^ n", where ?'a = int] by simp
  show "dec_less (dec a e) (dec b f) = (a * 10 ^ nat (e - min e f) < b * 10 ^ nat (f - min e f))"
    by (simp add: dec_less_def dec_scaled_dec Let_def eq)
  then show "dec_le (dec a e) (dec b f) = (a * 10 ^ nat (e - min e f) \<le> b * 10 ^ nat (f - min e f))"
    by (simp add: dec_le_def dec_less_def dec_scaled_dec Let_def eq not_less min.commute)
  have val: "dec_val (dec x m) = of_nat x * pow10 m" "dec_val (dec_minus (dec x m)) = - (of_nat x * pow10 m)"
    for x m by (simp_all add: dec_val_coef)
  have nonneg: "0 \<le> of_nat x * pow10 m" and pos: "0 < of_nat x * pow10 m \<longleftrightarrow> 0 < x" for x m
    by (simp_all add: less_imp_le zero_less_mult_iff)
  have "- X < Y \<longleftrightarrow> 0 < X \<or> 0 < Y" if "0 \<le> X" "0 \<le> Y" for X Y :: rat using that by auto
  from this [OF nonneg nonneg] show "dec_less (dec_minus (dec a e)) (dec b f) = (0 < a \<or> 0 < b)"
    by (simp only: dec_less_val val pos)
  show "dec_le (dec_minus (dec a e)) (dec b f)"
    using nonneg [of a e] nonneg [of b f] by (simp only: dec_le_val val)
  show "dec_is_zero (dec a e) = (a = 0)" by (simp add: dec_is_zero_def)
qed

end
