(* ===== verification/Simulation_Models.thy ===== *)
theory Simulation_Models
  imports Py_Decimal_Ops Suitability_Models
begin

text \<open>
  The data of the advisory simulation (src/core/portfolio_models.py, proposal_request_models.py,
  order_intent_models.py, diagnostics_models.py, simulation_state_models.py, proposal_effect_models.py,
  source_provenance_models.py and the engine options that the simulation reads), with the validators
  of the request models. \<open>money\<close>, \<open>shelf_entry\<close>, \<open>allocation_metric\<close> and \<open>rule_result\<close> are shared with the
  suitability scanner; the simulated state and the options extend the records that it reads.
\<close>

section \<open>Errors\<close>

text \<open>The exceptions a run can end in: the two decimal signals, and reading a field of \<open>None\<close>.\<close>

datatype engine_error = DecimalSignal decimal_signal | AttributeError | ValueError

definition dec_op :: "decimal_signal + 'a \<Rightarrow> engine_error + 'a" where
  "dec_op r = rmap_error DecimalSignal r"

section \<open>Portfolio and market data\<close>

record source_provenance =
  sv_source_system :: string
  sv_source_kind :: string
  sv_source_id :: string
  sv_as_of :: string
  sv_contract_version :: string
  sv_source_version :: "string option"
  sv_source_event_id :: "string option"
  sv_source_batch_id :: "string option"
  sv_source_hash :: "string option"
  sv_valuation_timestamp :: "string option"
  sv_freshness_status :: string

record source_provenance_envelope =
  se_source_system :: string
  se_portfolio :: source_provenance
  se_market_data :: source_provenance

record fx_rate =
  fx_pair :: string
  fx_rate_value :: decimal

text \<open>Decimal fields only take finite numbers, so positivity is what the rate validator adds.\<close>

definition validate_finite_positive_rate :: "decimal \<Rightarrow> string + decimal" where
  "validate_finite_positive_rate v =
     (if dec_le v (dec 0 0) then Inl ''FX rate must be finite and strictly positive'' else Inr v)"

record tax_lot =
  tl_lot_id :: string
  tl_quantity :: decimal
  tl_unit_cost :: money
  tl_purchase_date :: string

record position =
  po_instrument_id :: string
  po_quantity :: decimal
  po_market_value :: "money option"
  po_lots :: "tax_lot list"

definition validate_lot_quantity_total :: "position \<Rightarrow> string + position" where
  "validate_lot_quantity_total p =
     (if po_lots p = [] then Inr p
      else if dec_less (dec 1 (- 4))
                (dec_abs (dec_sub (dec_sum (map tl_quantity (po_lots p))) (po_quantity p)))
      then Inl ''sum(lot.quantity) must equal position.quantity within tolerance 0.0001''
      else Inr p)"

record cash_balance =
  cb_currency :: string
  cb_amount :: decimal
  cb_settled :: "decimal option"
  cb_pending :: "decimal option"

record portfolio_snapshot =
  pn_snapshot_id :: "string option"
  pn_source_provenance :: "source_provenance option"
  pn_source_completeness :: "json option"
  pn_portfolio_id :: string
  pn_base_currency :: string
  pn_positions :: "position list"
  pn_cash_balances :: "cash_balance list"

record price =
  pr_instrument_id :: string
  pr_price :: decimal
  pr_currency :: string

record market_data_snapshot =
  md_snapshot_id :: "string option"
  md_source_provenance :: "source_provenance option"
  md_source_completeness :: "json option"
  md_prices :: "price list"
  md_fx_rates :: "fx_rate list"

record reference_model =
  rm_model_id :: string
  rm_as_of :: string
  rm_base_currency :: string
  rm_asset_class_targets :: "(string \<times> decimal) list"
  rm_instrument_targets :: "(string \<times> decimal) list"

section \<open>Options\<close>

datatype valuation_mode = Calculated | TrustSnapshot

datatype funding_source = BaseOnly | AnyCash

record simulation_options = engine_options +
  so_valuation_mode :: valuation_mode
  so_cash_band_min_weight :: decimal
  so_cash_band_max_weight :: decimal
  so_single_position_max_weight :: "decimal option"
  so_block_on_missing_prices :: bool
  so_block_on_missing_fx :: bool
  so_enable_workflow_gates :: bool
  so_proposal_apply_cash_flows_first :: bool
  so_proposal_block_negative_cash :: bool
  so_link_buy_to_same_currency_sell_dependency :: "bool option"
  so_enable_drift_analytics :: bool
  so_enable_suitability_scanner :: bool
  so_enable_instrument_drift :: bool
  so_drift_top_contributors_limit :: nat
  so_drift_unmodeled_exposure_threshold :: decimal
  so_auto_funding :: bool
  so_fx_funding_source_currency :: funding_source

section \<open>Proposed cash flows and trades\<close>

datatype trade_side = Buy | Sell

record proposed_cash_flow =
  cf_currency :: string
  cf_amount :: decimal
  cf_description :: "string option"

record proposed_trade =
  pt_side :: trade_side
  pt_instrument_id :: string
  pt_quantity :: "decimal option"
  pt_notional :: "money option"

definition quantity_trade_validation_error :: "money option \<Rightarrow> string option" where
  "quantity_trade_validation_error notional =
     (case notional of None \<Rightarrow> None
      | Some _ \<Rightarrow> Some ''PROPOSAL_INVALID_TRADE_INPUT: provide either quantity or notional, not both'')"

definition notional_trade_validation_error :: "money option \<Rightarrow> string option" where
  "notional_trade_validation_error notional =
     (case notional of
        None \<Rightarrow> Some ''PROPOSAL_INVALID_TRADE_INPUT: quantity or notional is required''
      | Some m \<Rightarrow>
          if dec_le (mn_amount m) (dec 0 0)
          then Some ''PROPOSAL_INVALID_TRADE_INPUT: notional.amount must be greater than 0''
          else None)"

definition trade_size_validation_error :: "decimal option \<Rightarrow> money option \<Rightarrow> string option" where
  "trade_size_validation_error quantity notional =
     (case quantity of
        Some _ \<Rightarrow> quantity_trade_validation_error notional
      | None \<Rightarrow> notional_trade_validation_error notional)"

text \<open>A trade that the request model accepts: a positive quantity or a positive notional.\<close>

definition validate_proposed_trade :: "proposed_trade \<Rightarrow> string + proposed_trade" where
  "validate_proposed_trade t =
     (if (case pt_quantity t of None \<Rightarrow> False | Some q \<Rightarrow> dec_le q (dec 0 0))
      then Inl ''Input should be greater than 0''
      else case trade_size_validation_error (pt_quantity t) (pt_notional t) of
             Some e \<Rightarrow> Inl e
           | None \<Rightarrow> Inr t)"

section \<open>Order intents\<close>

record security_trade_intent =
  si_intent_id :: string
  si_instrument_id :: string
  si_side :: trade_side
  si_quantity :: "decimal option"
  si_notional :: "money option"
  si_notional_base :: "money option"
  si_dependencies :: "string list"
  si_rationale :: "(string \<times> string) option"
  si_constraints_applied :: "string list"

record fx_spot_intent =
  xi_intent_id :: string
  xi_pair :: string
  xi_buy_currency :: string
  xi_buy_amount :: decimal
  xi_sell_currency :: string
  xi_sell_amount_estimated :: decimal
  xi_dependencies :: "string list"
  xi_rationale :: "(string \<times> string) option"

record cash_flow_intent =
  ci_intent_id :: string
  ci_currency :: string
  ci_amount :: decimal
  ci_description :: "string option"

datatype order_intent =
    CashFlow cash_flow_intent
  | FxSpot fx_spot_intent
  | SecurityTrade security_trade_intent

fun intent_id :: "order_intent \<Rightarrow> string" where
  "intent_id (CashFlow i) = ci_intent_id i"
| "intent_id (FxSpot i) = xi_intent_id i"
| "intent_id (SecurityTrade i) = si_intent_id i"

fun intent_dependencies :: "order_intent \<Rightarrow> string list" where
  "intent_dependencies (CashFlow i) = []"
| "intent_dependencies (FxSpot i) = xi_dependencies i"
| "intent_dependencies (SecurityTrade i) = si_dependencies i"

section \<open>Diagnostics\<close>

record suppressed_intent =
  sq_instrument_id :: string
  sq_reason :: string
  sq_intended_notional :: money
  sq_threshold :: money

record funding_plan_entry =
  fp_target_currency :: string
  fp_required :: decimal
  fp_available_before_fx :: decimal
  fp_fx_needed :: decimal
  fp_fx_pair :: "string option"
  fp_funding_currency :: "string option"

record insufficient_cash_entry =
  ie_currency :: string
  ie_deficit :: decimal

type_synonym data_quality = "(string, string list) dict"

text \<open>The lists of the diagnostics that the advisory simulation writes or reads.\<close>

record diagnostics_data =
  dg_warnings :: "string list"
  dg_suppressed_intents :: "suppressed_intent list"
  dg_missing_fx_pairs :: "string list"
  dg_funding_plan :: "funding_plan_entry list"
  dg_insufficient_cash :: "insufficient_cash_entry list"
  dg_data_quality :: data_quality

definition make_empty_data_quality_log :: data_quality where
  "make_empty_data_quality_log = [(''price_missing'', []), (''fx_missing'', []), (''shelf_missing'', [])]"

definition make_diagnostics_data :: diagnostics_data where
  "make_diagnostics_data =
     \<lparr>dg_warnings = [], dg_suppressed_intents = [], dg_missing_fx_pairs = [], dg_funding_plan = [],
      dg_insufficient_cash = [], dg_data_quality = make_empty_data_quality_log\<rparr>"

definition add_warning :: "string \<Rightarrow> diagnostics_data \<Rightarrow> diagnostics_data" where
  "add_warning w d = d\<lparr>dg_warnings := dg_warnings d @ [w]\<rparr>"

definition log_quality :: "string \<Rightarrow> string \<Rightarrow> diagnostics_data \<Rightarrow> diagnostics_data" where
  "log_quality bucket key d = d\<lparr>dg_data_quality := dict_push bucket key (dg_data_quality d)\<rparr>"

section \<open>The simulated state\<close>

record position_summary =
  sm_instrument_id :: string
  sm_quantity :: decimal
  sm_instrument_currency :: string
  sm_asset_class :: string
  sm_price :: "money option"
  sm_value_in_instrument_ccy :: money
  sm_value_in_base_ccy :: money
  sm_weight :: decimal

record valued_state = simulated_state +
  vs_cash_balances :: "cash_balance list"
  vs_positions :: "position_summary list"
  vs_allocation :: "allocation_metric list"
  vs_allocation_by_attribute :: "(string, allocation_metric list) dict"

datatype reconciliation_status = ReconOk | ReconMismatch

record reconciliation =
  rc_before_total_value :: money
  rc_after_total_value :: money
  rc_delta :: money
  rc_tolerance :: money
  rc_status :: reconciliation_status

end
