(* ===== verification/Simulation_Valuation.thy ===== *)
theory Simulation_Valuation
  imports Simulation_Models
begin

text \<open>
  Working on a simulated portfolio (src/core/common/simulation_shared.py) and valuing it
  (src/core/valuation.py). The objects that the source mutates in place are passed and returned; the
  first row of an instrument or currency is the one that is read and changed, as there.
\<close>

section \<open>Rows of a portfolio\<close>

definition ensure_position :: "portfolio_snapshot \<Rightarrow> string \<Rightarrow> portfolio_snapshot" where
  "ensure_position pf i =
     (if find (\<lambda>p. po_instrument_id p = i) (pn_positions pf) = None
      then pf\<lparr>pn_positions := pn_positions pf @
        [\<lparr>po_instrument_id = i, po_quantity = dec 0 0, po_market_value = None, po_lots = []\<rparr>]\<rparr>
      else pf)"

definition ensure_cash_balance :: "portfolio_snapshot \<Rightarrow> string \<Rightarrow> portfolio_snapshot" where
  "ensure_cash_balance pf c =
     (if find (\<lambda>b. cb_currency b = c) (pn_cash_balances pf) = None
      then pf\<lparr>pn_cash_balances := pn_cash_balances pf @
        [\<lparr>cb_currency = c, cb_amount = dec 0 0, cb_settled = None, cb_pending = None\<rparr>]\<rparr>
      else pf)"

text \<open>The amount of the row that \<open>ensure_cash_balance\<close> returns.\<close>

definition cash_amount :: "portfolio_snapshot \<Rightarrow> string \<Rightarrow> decimal" where
  "cash_amount pf c =
     (case find (\<lambda>b. cb_currency b = c) (pn_cash_balances pf) of
        None \<Rightarrow> dec 0 0 | Some b \<Rightarrow> cb_amount b)"

definition position_quantity :: "portfolio_snapshot \<Rightarrow> string \<Rightarrow> decimal" where
  "position_quantity pf i =
     (case find (\<lambda>p. po_instrument_id p = i) (pn_positions pf) of
        None \<Rightarrow> dec 0 0 | Some p \<Rightarrow> po_quantity p)"

text \<open>\<open>ensure_cash_balance(pf, c).amount = f(amount)\<close>, and the same for a position.\<close>

definition change_cash :: "(decimal \<Rightarrow> decimal) \<Rightarrow> portfolio_snapshot \<Rightarrow> string \<Rightarrow> portfolio_snapshot" where
  "change_cash f pf c =
     (let pf1 = ensure_cash_balance pf c in
      pf1\<lparr>pn_cash_balances := update_first (\<lambda>b. cb_currency b = c)
        (\<lambda>b. b\<lparr>cb_amount := f (cb_amount b)\<rparr>) (pn_cash_balances pf1)\<rparr>)"

definition change_position :: "(decimal \<Rightarrow> decimal) \<Rightarrow> portfolio_snapshot \<Rightarrow> string \<Rightarrow> portfolio_snapshot" where
  "change_position f pf i =
     (let pf1 = ensure_position pf i in
      pf1\<lparr>pn_positions := update_first (\<lambda>p. po_instrument_id p = i)
        (\<lambda>p. p\<lparr>po_quantity := f (po_quantity p)\<rparr>) (pn_positions pf1)\<rparr>)"

definition apply_security_trade_to_portfolio ::
  "portfolio_snapshot \<Rightarrow> security_trade_intent \<Rightarrow> portfolio_snapshot" where
  "apply_security_trade_to_portfolio pf intent =
     (case (si_notional intent, si_quantity intent) of
        (Some notional, Some quantity) \<Rightarrow>
          (case si_side intent of
             Buy \<Rightarrow>
               change_cash (\<lambda>a. dec_sub a (mn_amount notional))
                 (change_position (\<lambda>q. dec_add q quantity) pf (si_instrument_id intent))
                 (mn_currency notional)
           | Sell \<Rightarrow>
               change_cash (\<lambda>a. dec_add a (mn_amount notional))
                 (change_position (\<lambda>q. dec_sub q quantity) pf (si_instrument_id intent))
                 (mn_currency notional))
      | _ \<Rightarrow> pf)"

definition apply_fx_spot_to_portfolio :: "portfolio_snapshot \<Rightarrow> fx_spot_intent \<Rightarrow> portfolio_snapshot" where
  "apply_fx_spot_to_portfolio pf intent =
     change_cash (\<lambda>a. dec_add a (xi_buy_amount intent))
       (change_cash (\<lambda>a. dec_sub a (xi_sell_amount_estimated intent)) pf (xi_sell_currency intent))
       (xi_buy_currency intent)"

definition CURRENCY_MINOR_UNITS :: "(string, nat) dict" where
  "CURRENCY_MINOR_UNITS =
     [(''BHD'', 3), (''JPY'', 0), (''KRW'', 0), (''KWD'', 3), (''OMR'', 3), (''VND'', 0)]"

definition quantize_amount_for_currency :: "decimal \<Rightarrow> string \<Rightarrow> engine_error + decimal" where
  "quantize_amount_for_currency amount currency =
     (let digits = (case dict_get CURRENCY_MINOR_UNITS currency of None \<Rightarrow> 2 | Some n \<Rightarrow> n)
      in dec_op (dec_quantize (- int digits) amount))"

section \<open>Exchange rates\<close>

definition fx_pair_of :: "string \<Rightarrow> string \<Rightarrow> string" where
  "fx_pair_of from_ccy to_ccy = from_ccy @ ''/'' @ to_ccy"

definition fx_rate_for_pair :: "market_data_snapshot \<Rightarrow> string \<Rightarrow> decimal option" where
  "fx_rate_for_pair md pair =
     map_option fx_rate_value (find (\<lambda>r. fx_pair r = pair) (md_fx_rates md))"

text \<open>
  The rate, from the pair or from its inverse. A rate of the snapshot is positive
  (\<open>validate_finite_positive_rate\<close>), so the division is by a number that is not zero; reading the
  rate from its own text gives it back.
\<close>

definition get_fx_rate :: "market_data_snapshot \<Rightarrow> string \<Rightarrow> string \<Rightarrow> decimal option" where
  "get_fx_rate md from_ccy to_ccy =
     (if from_ccy = to_ccy then Some (dec 10 (- 1))
      else case fx_rate_for_pair md (fx_pair_of from_ccy to_ccy) of
             Some rate \<Rightarrow> Some rate
           | None \<Rightarrow> map_option (dec_quot (dec 10 (- 1)))
                       (fx_rate_for_pair md (fx_pair_of to_ccy from_ccy)))"

section \<open>Valuing a position\<close>

record position_valuation =
  pv_price_entry :: "price option"
  pv_price_value :: decimal
  pv_currency :: string
  pv_instrument_value :: decimal
  pv_base_value :: decimal

definition price_for :: "market_data_snapshot \<Rightarrow> string \<Rightarrow> price option" where
  "price_for md i = find (\<lambda>p. pr_instrument_id p = i) (md_prices md)"

definition converted_base_value ::
  "decimal \<Rightarrow> string \<Rightarrow> string \<Rightarrow> market_data_snapshot \<Rightarrow> decimal" where
  "converted_base_value amount currency base_ccy md =
     (case get_fx_rate md currency base_ccy of None \<Rightarrow> dec 0 0 | Some rate \<Rightarrow> dec_mul amount rate)"

definition mark_to_market_position_value ::
  "position \<Rightarrow> market_data_snapshot \<Rightarrow> string \<Rightarrow> price option \<Rightarrow> decimal \<Rightarrow> position_valuation" where
  "mark_to_market_position_value p md base_ccy price_entry price_value =
     (let currency = (case price_entry of Some e \<Rightarrow> pr_currency e | None \<Rightarrow> base_ccy);
          instrument_value = dec_mul (po_quantity p) price_value
      in \<lparr>pv_price_entry = price_entry, pv_price_value = price_value, pv_currency = currency,
          pv_instrument_value = instrument_value,
          pv_base_value = converted_base_value instrument_value currency base_ccy md\<rparr>)"

definition trust_snapshot_uses_base_authority :: "money \<Rightarrow> string \<Rightarrow> string \<Rightarrow> bool" where
  "trust_snapshot_uses_base_authority trusted_value price_currency base_ccy =
     (mn_currency trusted_value = base_ccy \<and> price_currency \<noteq> base_ccy)"

definition trust_snapshot_position_value ::
  "position \<Rightarrow> market_data_snapshot \<Rightarrow> string \<Rightarrow> price option \<Rightarrow> decimal \<Rightarrow> position_valuation" where
  "trust_snapshot_position_value p md base_ccy price_entry price_value =
     (case po_market_value p of
        None \<Rightarrow> mark_to_market_position_value p md base_ccy price_entry price_value
      | Some trusted_value \<Rightarrow>
          let price_currency =
                (case price_entry of Some e \<Rightarrow> pr_currency e | None \<Rightarrow> mn_currency trusted_value)
          in if trust_snapshot_uses_base_authority trusted_value price_currency base_ccy
             then \<lparr>pv_price_entry = price_entry, pv_price_value = price_value,
                   pv_currency = price_currency,
                   pv_instrument_value =
                     (if price_entry = None then dec 0 0 else dec_mul (po_quantity p) price_value),
                   pv_base_value = mn_amount trusted_value\<rparr>
             else \<lparr>pv_price_entry = price_entry, pv_price_value = price_value,
                   pv_currency = mn_currency trusted_value,
                   pv_instrument_value = mn_amount trusted_value,
                   pv_base_value = converted_base_value (mn_amount trusted_value)
                     (mn_currency trusted_value) base_ccy md\<rparr>)"

definition value_position_amounts ::
  "position \<Rightarrow> market_data_snapshot \<Rightarrow> string \<Rightarrow> valuation_mode \<Rightarrow> position_valuation" where
  "value_position_amounts p md base_ccy mode =
     (let price_entry = price_for md (po_instrument_id p);
          price_value = (case price_entry of Some e \<Rightarrow> pr_price e | None \<Rightarrow> dec 0 0)
      in if mode = TrustSnapshot \<and> po_market_value p \<noteq> None
         then trust_snapshot_position_value p md base_ccy price_entry price_value
         else mark_to_market_position_value p md base_ccy price_entry price_value)"

definition value_position ::
  "position \<Rightarrow> market_data_snapshot \<Rightarrow> string \<Rightarrow> valuation_mode \<Rightarrow> position_summary" where
  "value_position p md base_ccy mode =
     (let v = value_position_amounts p md base_ccy mode in
      \<lparr>sm_instrument_id = po_instrument_id p, sm_quantity = po_quantity p,
       sm_instrument_currency = pv_currency v, sm_asset_class = ''UNKNOWN'',
       sm_price = map_option (\<lambda>_. \<lparr>mn_amount = pv_price_value v, mn_currency = pv_currency v\<rparr>)
         (pv_price_entry v),
       sm_value_in_instrument_ccy =
         \<lparr>mn_amount = pv_instrument_value v, mn_currency = pv_currency v\<rparr>,
       sm_value_in_base_ccy = \<lparr>mn_amount = pv_base_value v, mn_currency = base_ccy\<rparr>,
       sm_weight = dec 0 0\<rparr>)"

section \<open>Valuing the portfolio\<close>

definition record_missing_price :: "position \<Rightarrow> market_data_snapshot \<Rightarrow> data_quality \<Rightarrow> data_quality" where
  "record_missing_price p md dq =
     (if list_ex (\<lambda>e. pr_instrument_id e = po_instrument_id p) (md_prices md) then dq
      else dict_push ''price_missing'' (po_instrument_id p) dq)"

definition record_missing_position_fx ::
  "position_summary \<Rightarrow> market_data_snapshot \<Rightarrow> string \<Rightarrow> data_quality \<Rightarrow> data_quality" where
  "record_missing_position_fx summary md base_ccy dq =
     (if sm_instrument_currency summary = base_ccy then dq
      else if get_fx_rate md (sm_instrument_currency summary) base_ccy = None
      then dict_push ''fx_missing'' (fx_pair_of (sm_instrument_currency summary) base_ccy) dq
      else dq)"

fun build_position_summaries ::
  "position list \<Rightarrow> market_data_snapshot \<Rightarrow> string \<Rightarrow> valuation_mode \<Rightarrow> data_quality \<Rightarrow>
   position_summary list \<Rightarrow> decimal \<Rightarrow> position_summary list \<times> decimal \<times> data_quality" where
  "build_position_summaries [] md base_ccy mode dq summaries total_value =
     (summaries, total_value, dq)"
| "build_position_summaries (p # ps) md base_ccy mode dq summaries total_value =
     (let dq1 = record_missing_price p md dq;
          summary = value_position p md base_ccy mode;
          dq2 = record_missing_position_fx summary md base_ccy dq1
      in build_position_summaries ps md base_ccy mode dq2 (summaries @ [summary])
           (dec_add total_value (mn_amount (sm_value_in_base_ccy summary))))"

definition cash_value_in_base ::
  "cash_balance \<Rightarrow> market_data_snapshot \<Rightarrow> string \<Rightarrow> data_quality \<Rightarrow> decimal \<times> data_quality" where
  "cash_value_in_base cash md base_ccy dq =
     (if cb_currency cash = base_ccy then (cb_amount cash, dq)
      else case get_fx_rate md (cb_currency cash) base_ccy of
             Some rate \<Rightarrow> (dec_mul (cb_amount cash) rate, dq)
           | None \<Rightarrow> (dec 0 0, dict_push ''fx_missing'' (fx_pair_of (cb_currency cash) base_ccy) dq))"

fun cash_total_value ::
  "cash_balance list \<Rightarrow> market_data_snapshot \<Rightarrow> string \<Rightarrow> data_quality \<Rightarrow> decimal \<Rightarrow>
   decimal \<times> data_quality" where
  "cash_total_value [] md base_ccy dq acc = (acc, dq)"
| "cash_total_value (c # cs) md base_ccy dq acc =
     (let (v, dq1) = cash_value_in_base c md base_ccy dq
      in cash_total_value cs md base_ccy dq1 (dec_add acc v))"

definition safe_total_value :: "decimal \<Rightarrow> decimal" where
  "safe_total_value total_value = (if dec_is_zero total_value then dec 1 0 else total_value)"

definition shelf_by_instrument :: "shelf_entry list \<Rightarrow> (string, shelf_entry) dict" where
  "shelf_by_instrument shelf = foldl (\<lambda>d e. dict_setdefault (sh_instrument_id e) e d) [] shelf"

text \<open>The sum under a key of an allocation map, a missing key counting as zero.\<close>

definition add_allocation :: "string \<Rightarrow> decimal \<Rightarrow> (string, decimal) dict \<Rightarrow> (string, decimal) dict" where
  "add_allocation k v m =
     dict_set k (dec_add (case dict_get m k of None \<Rightarrow> dec 0 0 | Some w \<Rightarrow> w) v) m"

definition apply_shelf_allocation_attributes ::
  "position_summary \<Rightarrow> (string, shelf_entry) dict \<Rightarrow> (string, (string, decimal) dict) dict \<Rightarrow>
   position_summary \<times> (string, (string, decimal) dict) dict" where
  "apply_shelf_allocation_attributes p shelf_entries alloc_attr_map =
     (case dict_get shelf_entries (sm_instrument_id p) of
        None \<Rightarrow> (p, alloc_attr_map)
      | Some entry \<Rightarrow>
          (p\<lparr>sm_asset_class := sh_asset_class entry\<rparr>,
           foldl (\<lambda>m (attr_key, attr_val).
               dict_set attr_key
                 (add_allocation attr_val (mn_amount (sm_value_in_base_ccy p))
                   (case dict_get m attr_key of None \<Rightarrow> [] | Some a \<Rightarrow> a)) m)
             alloc_attr_map (sh_attributes entry)))"

fun build_position_allocation_maps ::
  "position_summary list \<Rightarrow> (string, shelf_entry) dict \<Rightarrow> decimal \<Rightarrow> (string, decimal) dict \<Rightarrow>
   (string, (string, decimal) dict) dict \<Rightarrow>
   position_summary list \<times> (string, decimal) dict \<times> (string, (string, decimal) dict) dict" where
  "build_position_allocation_maps [] shelf_entries total_val_safe class_map attr_map =
     ([], class_map, attr_map)"
| "build_position_allocation_maps (p # ps) shelf_entries total_val_safe class_map attr_map =
     (let amount = mn_amount (sm_value_in_base_ccy p);
          (p1, attr_map1) = apply_shelf_allocation_attributes
            (p\<lparr>sm_weight := dec_quot amount total_val_safe\<rparr>) shelf_entries attr_map;
          (rest, class_map2, attr_map2) = build_position_allocation_maps ps shelf_entries
            total_val_safe (add_allocation (sm_asset_class p1) amount class_map) attr_map1
      in (p1 # rest, class_map2, attr_map2))"

definition instrument_allocations :: "position_summary list \<Rightarrow> allocation_metric list" where
  "instrument_allocations ps =
     map (\<lambda>p. \<lparr>am_key = sm_instrument_id p, am_weight = sm_weight p,
               am_value = sm_value_in_base_ccy p\<rparr>) ps"

definition allocation_metrics ::
  "(string, decimal) dict \<Rightarrow> decimal \<Rightarrow> string \<Rightarrow> allocation_metric list" where
  "allocation_metrics allocation_map total_val_safe base_ccy =
     map (\<lambda>(k, v). \<lparr>am_key = k, am_weight = dec_quot v total_val_safe,
                    am_value = \<lparr>mn_amount = v, mn_currency = base_ccy\<rparr>\<rparr>) allocation_map"

definition attribute_allocation_metrics ::
  "(string, (string, decimal) dict) dict \<Rightarrow> decimal \<Rightarrow> string \<Rightarrow>
   (string, allocation_metric list) dict" where
  "attribute_allocation_metrics attr_map total_val_safe base_ccy =
     map (\<lambda>(k, m). (k, allocation_metrics m total_val_safe base_ccy)) attr_map"

definition build_simulated_state ::
  "portfolio_snapshot \<Rightarrow> market_data_snapshot \<Rightarrow> shelf_entry list \<Rightarrow> data_quality \<Rightarrow>
   valuation_mode \<Rightarrow> valued_state \<times> data_quality" where
  "build_simulated_state pf md shelf dq mode =
     (let base_ccy = pn_base_currency pf;
          (summaries, position_total, dq1) =
            build_position_summaries (pn_positions pf) md base_ccy mode dq [] (dec 0 0);
          (total_cash_val, dq2) = cash_total_value (pn_cash_balances pf) md base_ccy dq1 (dec 0 0);
          total_val = dec_add position_total total_cash_val;
          total_val_safe = safe_total_value total_val;
          (positions, class_map, attr_map) = build_position_allocation_maps summaries
            (shelf_by_instrument shelf) total_val_safe [] [];
          alloc_instr = instrument_allocations positions
      in (\<lparr>ss_total_value = \<lparr>mn_amount = total_val, mn_currency = base_ccy\<rparr>,
           ss_allocation_by_asset_class =
             allocation_metrics (add_allocation ''CASH'' total_cash_val class_map) total_val_safe base_ccy,
           ss_allocation_by_instrument = alloc_instr,
           vs_cash_balances = pn_cash_balances pf, vs_positions = positions,
           vs_allocation = alloc_instr,
           vs_allocation_by_attribute =
             attribute_allocation_metrics attr_map total_val_safe base_ccy\<rparr>, dq2))"

end
