(* ===== verification/Simulation_Intents.thy ===== *)
theory Simulation_Intents
  imports Simulation_Valuation
begin

text \<open>
  From the proposed cash flows and trades to the order intents (src/core/advisory/intents.py and the
  first part of src/core/advisory/simulation_intent_plan.py, with
  src/core/common/intent_dependencies.py). The portfolio, the diagnostics and the list of hard
  failures that the source mutates are arguments and results.
\<close>

section \<open>Cash flows\<close>

definition apply_proposal_cash_flow ::
  "portfolio_snapshot \<Rightarrow> proposed_cash_flow \<Rightarrow> portfolio_snapshot" where
  "apply_proposal_cash_flow pf cf = change_cash (\<lambda>a. dec_add a (cf_amount cf)) pf (cf_currency cf)"

definition cash_flow_intent_of :: "proposed_cash_flow \<Rightarrow> nat \<Rightarrow> cash_flow_intent" where
  "cash_flow_intent_of cf index =
     \<lparr>ci_intent_id = ''oi_cf_'' @ nat_digits (index + 1), ci_currency = cf_currency cf,
      ci_amount = cf_amount cf, ci_description = cf_description cf\<rparr>"

definition cash_flow_creates_negative_balance ::
  "portfolio_snapshot \<Rightarrow> proposed_cash_flow \<Rightarrow> bool" where
  "cash_flow_creates_negative_balance pf cf =
     (case find (\<lambda>b. cb_currency b = cf_currency cf) (pn_cash_balances pf) of
        None \<Rightarrow> False | Some b \<Rightarrow> dec_less (cb_amount b) (dec 0 0))"

definition record_negative_cash_failure_if_needed ::
  "portfolio_snapshot \<Rightarrow> proposed_cash_flow \<Rightarrow> simulation_options \<Rightarrow> diagnostics_data \<Rightarrow>
   string list \<Rightarrow> diagnostics_data \<times> string list" where
  "record_negative_cash_failure_if_needed pf cf options dg hard_failures =
     (if \<not> so_proposal_block_negative_cash options then (dg, hard_failures)
      else if cash_flow_creates_negative_balance pf cf
      then (add_warning ''PROPOSAL_WITHDRAWAL_NEGATIVE_CASH'' dg,
            hard_failures @ [''PROPOSAL_WITHDRAWAL_NEGATIVE_CASH''])
      else (dg, hard_failures))"

fun build_cash_flow_intents ::
  "nat \<Rightarrow> proposed_cash_flow list \<Rightarrow> simulation_options \<Rightarrow> portfolio_snapshot \<Rightarrow> diagnostics_data \<Rightarrow>
   string list \<Rightarrow> cash_flow_intent list \<times> portfolio_snapshot \<times> diagnostics_data \<times> string list" where
  "build_cash_flow_intents idx [] options pf dg hf = ([], pf, dg, hf)"
| "build_cash_flow_intents idx (cf # cfs) options pf dg hf =
     (let pf1 = apply_proposal_cash_flow pf cf;
          (dg1, hf1) = record_negative_cash_failure_if_needed pf1 cf options dg hf;
          (intents, result) = build_cash_flow_intents (idx + 1) cfs options pf1 dg1 hf1
      in (cash_flow_intent_of cf idx # intents, result))"

section \<open>Security trades\<close>

record trade_notional =
  tn_quantity :: decimal
  tn_amount :: decimal
  tn_currency :: string

text \<open>
  The outer sum is an exception, the option inside says that the currencies differ. A trade with
  neither size is refused by the request model; here reading its notional ends in an error.
\<close>

definition resolve_trade_notional ::
  "proposed_trade \<Rightarrow> price \<Rightarrow> engine_error + trade_notional option" where
  "resolve_trade_notional trade p =
     (case pt_quantity trade of
        Some q \<Rightarrow> Inr (Some \<lparr>tn_quantity = q, tn_amount = dec_mul q (pr_price p),
                           tn_currency = pr_currency p\<rparr>)
      | None \<Rightarrow>
          (case pt_notional trade of
             None \<Rightarrow> Inl AttributeError
           | Some notional \<Rightarrow>
               if mn_currency notional \<noteq> pr_currency p then Inr None
               else rbind (dec_op (dec_div (mn_amount notional) (pr_price p))) (\<lambda>q.
                 Inr (Some \<lparr>tn_quantity = q, tn_amount = mn_amount notional,
                            tn_currency = pr_currency p\<rparr>))))"

definition notional_base_money ::
  "market_data_snapshot \<Rightarrow> trade_notional \<Rightarrow> string \<Rightarrow> diagnostics_data \<Rightarrow>
   money option \<times> diagnostics_data" where
  "notional_base_money md notional base_currency dg =
     (case get_fx_rate md (tn_currency notional) base_currency of
        None \<Rightarrow> (None, log_quality ''fx_missing'' (fx_pair_of (tn_currency notional) base_currency) dg)
      | Some rate \<Rightarrow>
          (Some \<lparr>mn_amount = dec_mul (tn_amount notional) rate, mn_currency = base_currency\<rparr>, dg))"

text \<open>The intent, or an error code, with the diagnostics.\<close>

definition build_proposal_security_trade_intent ::
  "proposed_trade \<Rightarrow> market_data_snapshot \<Rightarrow> string \<Rightarrow> string \<Rightarrow> diagnostics_data \<Rightarrow>
   engine_error + security_trade_intent option \<times> string option \<times> diagnostics_data" where
  "build_proposal_security_trade_intent trade md base_currency new_id dg =
     (case price_for md (pt_instrument_id trade) of
        None \<Rightarrow> Inr (None, None, log_quality ''price_missing'' (pt_instrument_id trade) dg)
      | Some p \<Rightarrow>
          rbind (resolve_trade_notional trade p) (\<lambda>resolved.
            case resolved of
              None \<Rightarrow> Inr (None, Some ''PROPOSAL_INVALID_TRADE_INPUT'', dg)
            | Some notional \<Rightarrow>
                let (notional_base, dg1) = notional_base_money md notional base_currency dg
                in Inr (Some \<lparr>si_intent_id = new_id, si_instrument_id = pt_instrument_id trade,
                      si_side = pt_side trade, si_quantity = Some (tn_quantity notional),
                      si_notional = Some \<lparr>mn_amount = tn_amount notional,
                                          mn_currency = tn_currency notional\<rparr>,
                      si_notional_base = notional_base, si_dependencies = [],
                      si_rationale = Some (''MANUAL_PROPOSAL'', ''Advisor proposed trade''),
                      si_constraints_applied = []\<rparr>, None, dg1)))"

definition expected_cash_delta_base ::
  "portfolio_snapshot \<Rightarrow> market_data_snapshot \<Rightarrow> proposed_cash_flow list \<Rightarrow> diagnostics_data \<Rightarrow>
   decimal \<times> diagnostics_data" where
  "expected_cash_delta_base pf md cash_flows dg =
     foldl (\<lambda>(acc, d) cf.
         case get_fx_rate md (cf_currency cf) (pn_base_currency pf) of
           None \<Rightarrow> (acc, log_quality ''fx_missing'' (fx_pair_of (cf_currency cf) (pn_base_currency pf)) d)
         | Some rate \<Rightarrow> (dec_add acc (dec_mul (cf_amount cf) rate), d))
       (dec 0 0, dg) cash_flows"

section \<open>Shelf checks\<close>

definition trade_has_shelf_entry ::
  "proposed_trade \<Rightarrow> (string, shelf_entry) dict \<Rightarrow> diagnostics_data \<Rightarrow> bool \<times> diagnostics_data" where
  "trade_has_shelf_entry trade entries dg =
     (if dict_get entries (pt_instrument_id trade) \<noteq> None then (True, dg)
      else (False, log_quality ''shelf_missing'' (pt_instrument_id trade) dg))"

definition shelf_supports_trade :: "proposed_trade \<Rightarrow> shelf_entry \<Rightarrow> simulation_options \<Rightarrow> bool" where
  "shelf_supports_trade trade entry options =
     (if pt_side trade \<noteq> Buy then True
      else if sh_status entry \<in> {ShelfSellOnly, ShelfBanned, ShelfSuspended} then False
      else if sh_status entry = ShelfRestricted \<and> \<not> eo_allow_restricted options then False
      else True)"

definition trade_is_supported_by_shelf ::
  "proposed_trade \<Rightarrow> shelf_entry \<Rightarrow> simulation_options \<Rightarrow> diagnostics_data \<Rightarrow> string list \<Rightarrow>
   bool \<times> diagnostics_data \<times> string list" where
  "trade_is_supported_by_shelf trade entry options dg hf =
     (if shelf_supports_trade trade entry options then (True, dg, hf)
      else (False, add_warning ''PROPOSAL_TRADE_NOT_SUPPORTED_BY_SHELF'' dg,
            hf @ [''PROPOSAL_TRADE_NOT_SUPPORTED_BY_SHELF'']))"

definition build_supported_security_trade_intent ::
  "proposed_trade \<Rightarrow> market_data_snapshot \<Rightarrow> string \<Rightarrow> string \<Rightarrow> diagnostics_data \<Rightarrow> string list \<Rightarrow>
   engine_error + security_trade_intent option \<times> diagnostics_data \<times> string list" where
  "build_supported_security_trade_intent trade md base_currency new_id dg hf =
     rbind (build_proposal_security_trade_intent trade md base_currency new_id dg)
       (\<lambda>(intent, error_code, dg1).
         case error_code of
           None \<Rightarrow> Inr (intent, dg1, hf)
         | Some code \<Rightarrow> Inr (intent, add_warning code dg1, hf @ [code]))"

definition security_trade_intent_for_trade ::
  "proposed_trade \<Rightarrow> (string, shelf_entry) dict \<Rightarrow> market_data_snapshot \<Rightarrow> string \<Rightarrow> string \<Rightarrow>
   simulation_options \<Rightarrow> diagnostics_data \<Rightarrow> string list \<Rightarrow>
   engine_error + security_trade_intent option \<times> diagnostics_data \<times> string list" where
  "security_trade_intent_for_trade trade entries md base_currency new_id options dg hf =
     (let (listed, dg1) = trade_has_shelf_entry trade entries dg in
      if \<not> listed then Inr (None, dg1, hf)
      else case dict_get entries (pt_instrument_id trade) of
             None \<Rightarrow> Inr (None, dg1, hf)
           | Some entry \<Rightarrow>
               let (supported, dg2, hf2) = trade_is_supported_by_shelf trade entry options dg1 hf
               in if \<not> supported then Inr (None, dg2, hf2)
                  else build_supported_security_trade_intent trade md base_currency new_id dg2 hf2)"

text \<open>The shelf by instrument: of two rows of an instrument the later one is looked up.\<close>

definition eligibility_shelf :: "shelf_entry list \<Rightarrow> (string, shelf_entry) dict" where
  "eligibility_shelf shelf = foldl (\<lambda>d e. dict_set (sh_instrument_id e) e d) [] shelf"

fun security_trade_loop ::
  "nat \<Rightarrow> proposed_trade list \<Rightarrow> (string, shelf_entry) dict \<Rightarrow> market_data_snapshot \<Rightarrow> string \<Rightarrow>
   simulation_options \<Rightarrow> diagnostics_data \<Rightarrow> string list \<Rightarrow>
   engine_error + security_trade_intent list \<times> diagnostics_data \<times> string list" where
  "security_trade_loop idx [] entries md base_currency options dg hf = Inr ([], dg, hf)"
| "security_trade_loop idx (trade # trades) entries md base_currency options dg hf =
     rbind (security_trade_intent_for_trade trade entries md base_currency
              (''oi_'' @ nat_digits (idx + 1)) options dg hf)
       (\<lambda>(intent, dg1, hf1).
         rbind (security_trade_loop (idx + 1) trades entries md base_currency options dg1 hf1)
           (\<lambda>(intents, dg2, hf2).
             Inr ((case intent of None \<Rightarrow> intents | Some i \<Rightarrow> i # intents), dg2, hf2)))"

definition build_security_trade_intents ::
  "portfolio_snapshot \<Rightarrow> market_data_snapshot \<Rightarrow> shelf_entry list \<Rightarrow> proposed_trade list \<Rightarrow>
   simulation_options \<Rightarrow> diagnostics_data \<Rightarrow> string list \<Rightarrow>
   engine_error + security_trade_intent list \<times> diagnostics_data \<times> string list" where
  "build_security_trade_intents pf md shelf trades options dg hf =
     security_trade_loop 0 trades (eligibility_shelf shelf) md (pn_base_currency pf) options dg hf"

definition sorted_security_intents_by_instrument ::
  "security_trade_intent list \<Rightarrow> trade_side \<Rightarrow> security_trade_intent list" where
  "sorted_security_intents_by_instrument intents side =
     sort_key si_instrument_id (filter (\<lambda>i. si_side i = side) intents)"

section \<open>Dependencies\<close>

definition append_dependency :: "string option \<Rightarrow> security_trade_intent \<Rightarrow> security_trade_intent" where
  "append_dependency dependency intent =
     (case dependency of
        None \<Rightarrow> intent
      | Some d \<Rightarrow> if d \<in> set (si_dependencies intent) then intent
                 else intent\<lparr>si_dependencies := si_dependencies intent @ [d]\<rparr>)"

definition sell_intent_id_by_currency ::
  "security_trade_intent list \<Rightarrow> bool \<Rightarrow> (string, string) dict" where
  "sell_intent_id_by_currency intents include_same_currency_sell_dependency =
     (if \<not> include_same_currency_sell_dependency then []
      else foldl (\<lambda>d i. case si_notional i of
                          None \<Rightarrow> d | Some m \<Rightarrow> dict_set (mn_currency m) (si_intent_id i) d)
             [] (filter (\<lambda>i. si_side i = Sell \<and> si_notional i \<noteq> None) intents))"

definition link_buy_intent_dependencies ::
  "security_trade_intent list \<Rightarrow> (string, string) dict \<Rightarrow> bool \<Rightarrow> security_trade_intent list" where
  "link_buy_intent_dependencies intents fx_dependencies include_same_currency_sell_dependency =
     (let sell_ids = sell_intent_id_by_currency intents include_same_currency_sell_dependency in
      map (\<lambda>i. case si_notional i of
                 None \<Rightarrow> i
               | Some m \<Rightarrow>
                   if si_side i \<noteq> Buy then i
                   else let j = append_dependency (dict_get fx_dependencies (mn_currency m)) i
                        in if include_same_currency_sell_dependency
                           then append_dependency (dict_get sell_ids (mn_currency m)) j
                           else j) intents)"

end
