(* ===== verification/Simulation_Funding.thy ===== *)
theory Simulation_Funding
  imports Simulation_Intents
begin

text \<open>
  Automatic funding of the buys by currency exchange (src/core/advisory/funding_selection.py,
  src/core/advisory/funding.py) and the intent plan that puts the parts together
  (src/core/advisory/simulation_intent_plan.py).
\<close>

section \<open>Choosing the currency to sell\<close>

record funding_selection =
  fs_pair :: string
  fs_rate :: decimal
  fs_funding_currency :: string
  fs_sell_required :: decimal

record funding_deficit =
  fd_currency :: string
  fd_deficit :: decimal

record funding_candidate =
  fc_pair :: string
  fc_funding_currency :: string
  fc_rate :: "decimal option"

definition record_missing_fx_pair :: "diagnostics_data \<Rightarrow> string \<Rightarrow> diagnostics_data" where
  "record_missing_fx_pair dg pair =
     (let dg1 = (if pair \<in> set (dg_missing_fx_pairs dg) then dg
                 else dg\<lparr>dg_missing_fx_pairs := dg_missing_fx_pairs dg @ [pair]\<rparr>)
      in if pair \<in> set (dict_list (dg_data_quality dg1) ''fx_missing'') then dg1
         else log_quality ''fx_missing'' pair dg1)"

definition base_only_funding_candidates :: "string \<Rightarrow> string \<Rightarrow> string list" where
  "base_only_funding_candidates base_currency target_currency =
     (if base_currency = target_currency then [] else [base_currency])"

definition any_cash_funding_candidates :: "string \<Rightarrow> string \<Rightarrow> string list \<Rightarrow> string list" where
  "any_cash_funding_candidates base_currency target_currency ledger_currencies =
     base_only_funding_candidates base_currency target_currency @
     sort (filter (\<lambda>c. c \<notin> {base_currency, target_currency}) (remdups ledger_currencies))"

text \<open>The keys of the cash ledger are all that is read of it.\<close>

definition funding_priority_currencies ::
  "simulation_options \<Rightarrow> string \<Rightarrow> string \<Rightarrow> string list \<Rightarrow> string list" where
  "funding_priority_currencies options base_currency target_currency ledger_currencies =
     (if so_fx_funding_source_currency options = BaseOnly
      then base_only_funding_candidates base_currency target_currency
      else any_cash_funding_candidates base_currency target_currency ledger_currencies)"

definition candidate_funding_source ::
  "market_data_snapshot \<Rightarrow> string \<Rightarrow> string \<Rightarrow> funding_candidate" where
  "candidate_funding_source md target_currency funding_currency =
     \<lparr>fc_pair = fx_pair_of target_currency funding_currency,
      fc_funding_currency = funding_currency,
      fc_rate = get_fx_rate md target_currency funding_currency\<rparr>"

text \<open>
  The selection or the deficit, and the portfolio, to which reading the balance of a currency adds
  an empty row when it has none.
\<close>

definition funding_selection_for_candidate ::
  "portfolio_snapshot \<Rightarrow> decimal \<Rightarrow> funding_candidate \<Rightarrow>
   engine_error + funding_selection option \<times> funding_deficit option \<times> portfolio_snapshot" where
  "funding_selection_for_candidate pf fx_needed candidate =
     (case fc_rate candidate of
        None \<Rightarrow> Inl ValueError
      | Some rate \<Rightarrow>
          let funding_currency = fc_funding_currency candidate in
          rbind (quantize_amount_for_currency (dec_mul fx_needed rate) funding_currency)
            (\<lambda>sell_required.
              let pf1 = ensure_cash_balance pf funding_currency;
                  available_funding = cash_amount pf1 funding_currency
              in if dec_le sell_required available_funding
                 then Inr (Some \<lparr>fs_pair = fc_pair candidate, fs_rate = rate,
                             fs_funding_currency = funding_currency,
                             fs_sell_required = sell_required\<rparr>, None, pf1)
                 else Inr (None, Some \<lparr>fd_currency = funding_currency,
                             fd_deficit = dec_sub sell_required available_funding\<rparr>, pf1)))"

definition smaller_funding_deficit :: "funding_deficit option \<Rightarrow> funding_deficit \<Rightarrow> funding_deficit" where
  "smaller_funding_deficit current candidate =
     (case current of
        None \<Rightarrow> candidate
      | Some d \<Rightarrow> if dec_less (fd_deficit candidate) (fd_deficit d) then candidate else d)"

fun select_funding_loop ::
  "string list \<Rightarrow> market_data_snapshot \<Rightarrow> string \<Rightarrow> decimal \<Rightarrow> portfolio_snapshot \<Rightarrow> diagnostics_data \<Rightarrow>
   funding_deficit option \<Rightarrow>
   engine_error + funding_selection option \<times> funding_deficit option \<times> portfolio_snapshot \<times>
     diagnostics_data" where
  "select_funding_loop [] md target fx_needed pf dg smallest = Inr (None, smallest, pf, dg)"
| "select_funding_loop (c # cs) md target fx_needed pf dg smallest =
     (let candidate = candidate_funding_source md target c in
      if fc_rate candidate = None
      then select_funding_loop cs md target fx_needed pf
             (record_missing_fx_pair dg (fc_pair candidate)) smallest
      else rbind (funding_selection_for_candidate pf fx_needed candidate)
        (\<lambda>(selection, deficit, pf1).
          case selection of
            Some s \<Rightarrow> Inr (Some s, smallest, pf1, dg)
          | None \<Rightarrow>
              select_funding_loop cs md target fx_needed pf1 dg
                (case deficit of None \<Rightarrow> smallest
                 | Some d \<Rightarrow> Some (smaller_funding_deficit smallest d))))"

definition select_funding_source ::
  "portfolio_snapshot \<Rightarrow> market_data_snapshot \<Rightarrow> simulation_options \<Rightarrow> diagnostics_data \<Rightarrow> string \<Rightarrow>
   decimal \<Rightarrow> string list \<Rightarrow>
   engine_error + funding_selection option \<times> funding_deficit option \<times> portfolio_snapshot \<times>
     diagnostics_data" where
  "select_funding_source pf md options dg target_currency fx_needed ledger_currencies =
     select_funding_loop
       (funding_priority_currencies options (pn_base_currency pf) target_currency ledger_currencies)
       md target_currency fx_needed pf dg None"

section \<open>The funding plan\<close>

record funding_state =
  fu_portfolio :: portfolio_snapshot
  fu_diagnostics :: diagnostics_data
  fu_fx_intents :: "fx_spot_intent list"
  fu_fx_by_currency :: "(string, string) dict"
  fu_unfunded_currencies :: "string set"
  fu_hard_failures :: "string list"

fun group_buy_intents_by_currency ::
  "security_trade_intent list \<Rightarrow> (string, security_trade_intent list) dict \<Rightarrow>
   engine_error + (string, security_trade_intent list) dict" where
  "group_buy_intents_by_currency [] grouped = Inr grouped"
| "group_buy_intents_by_currency (i # is) grouped =
     (case si_notional i of
        None \<Rightarrow> Inl AttributeError
      | Some m \<Rightarrow> group_buy_intents_by_currency is (dict_push (mn_currency m) i grouped))"

definition notional_amounts :: "security_trade_intent list \<Rightarrow> decimal list" where
  "notional_amounts buys = map mn_amount (List.map_filter si_notional buys)"

definition target_currency_funding_need ::
  "portfolio_snapshot \<Rightarrow> string \<Rightarrow> security_trade_intent list \<Rightarrow>
   engine_error + decimal \<times> funding_plan_entry \<times> portfolio_snapshot" where
  "target_currency_funding_need pf target_currency buys =
     (let required = dec_sum (notional_amounts buys);
          pf1 = ensure_cash_balance pf target_currency;
          available_before_fx = cash_amount pf1 target_currency;
          fx_needed = dec_max (dec 0 0) (dec_sub required available_before_fx)
      in rbind (quantize_amount_for_currency required target_currency) (\<lambda>r.
         rbind (quantize_amount_for_currency available_before_fx target_currency) (\<lambda>a.
         rbind (quantize_amount_for_currency fx_needed target_currency) (\<lambda>n.
         Inr (fx_needed,
              \<lparr>fp_target_currency = target_currency, fp_required = r, fp_available_before_fx = a,
               fp_fx_needed = n, fp_fx_pair = None, fp_funding_currency = None\<rparr>, pf1)))))"

definition record_missing_fx_funding_failure ::
  "funding_state \<Rightarrow> simulation_options \<Rightarrow> bool \<times> funding_state" where
  "record_missing_fx_funding_failure s options =
     (if so_block_on_missing_fx options
      then (False, s\<lparr>fu_hard_failures := fu_hard_failures s @ [''PROPOSAL_MISSING_FX_FOR_FUNDING'']\<rparr>)
      else if ''PROPOSAL_MISSING_FX_NON_BLOCKING'' \<in> set (dg_warnings (fu_diagnostics s))
      then (True, s)
      else (True, s\<lparr>fu_diagnostics :=
              add_warning ''PROPOSAL_MISSING_FX_NON_BLOCKING'' (fu_diagnostics s)\<rparr>))"

definition add_funding_plan :: "funding_plan_entry \<Rightarrow> diagnostics_data \<Rightarrow> diagnostics_data" where
  "add_funding_plan plan dg = dg\<lparr>dg_funding_plan := dg_funding_plan dg @ [plan]\<rparr>"

definition record_unfunded_target_currency ::
  "funding_state \<Rightarrow> simulation_options \<Rightarrow> string \<Rightarrow> funding_deficit option \<Rightarrow> funding_plan_entry \<Rightarrow>
   engine_error + bool \<times> funding_state" where
  "record_unfunded_target_currency s options target_currency smallest_deficit plan =
     (let s1 = s\<lparr>fu_unfunded_currencies := insert target_currency (fu_unfunded_currencies s),
                 fu_diagnostics := add_funding_plan plan (fu_diagnostics s)\<rparr>
      in if dg_missing_fx_pairs (fu_diagnostics s1) \<noteq> []
         then Inr (record_missing_fx_funding_failure s1 options)
         else case smallest_deficit of
                None \<Rightarrow>
                  Inr (False, s1\<lparr>fu_hard_failures :=
                         fu_hard_failures s1 @ [''PROPOSAL_INSUFFICIENT_FUNDING_CASH'']\<rparr>)
              | Some d \<Rightarrow>
                  rbind (quantize_amount_for_currency (fd_deficit d) (fd_currency d)) (\<lambda>q.
                    Inr (False, s1\<lparr>fu_diagnostics := (fu_diagnostics s1)\<lparr>dg_insufficient_cash :=
                           dg_insufficient_cash (fu_diagnostics s1) @
                             [\<lparr>ie_currency = fd_currency d, ie_deficit = q\<rparr>]\<rparr>,
                         fu_hard_failures :=
                           fu_hard_failures s1 @ [''PROPOSAL_INSUFFICIENT_FUNDING_CASH'']\<rparr>)))"

definition record_funding_fx_intent ::
  "funding_state \<Rightarrow> string \<Rightarrow> decimal \<Rightarrow> funding_selection \<Rightarrow> funding_plan_entry \<Rightarrow>
   engine_error + funding_state" where
  "record_funding_fx_intent s target_currency fx_needed selected plan =
     rbind (quantize_amount_for_currency fx_needed target_currency) (\<lambda>buy_amount.
       let intent =
             \<lparr>xi_intent_id = ''oi_fx_'' @ nat_digits (length (fu_fx_intents s) + 1),
              xi_pair = fs_pair selected, xi_buy_currency = target_currency,
              xi_buy_amount = buy_amount, xi_sell_currency = fs_funding_currency selected,
              xi_sell_amount_estimated = fs_sell_required selected, xi_dependencies = [],
              xi_rationale = Some (''FUNDING'', ''Fund '' @ target_currency @ '' buys'')\<rparr>
       in Inr (s\<lparr>fu_portfolio := apply_fx_spot_to_portfolio (fu_portfolio s) intent,
                 fu_fx_intents := fu_fx_intents s @ [intent],
                 fu_fx_by_currency := dict_set target_currency (xi_intent_id intent) (fu_fx_by_currency s),
                 fu_diagnostics := add_funding_plan
                   (plan\<lparr>fp_fx_pair := Some (fs_pair selected),
                         fp_funding_currency := Some (fs_funding_currency selected)\<rparr>)
                   (fu_diagnostics s)\<rparr>))"

text \<open>The Boolean of the result asks for a review.\<close>

definition fund_target_currency ::
  "funding_state \<Rightarrow> market_data_snapshot \<Rightarrow> simulation_options \<Rightarrow> string \<Rightarrow> security_trade_intent list \<Rightarrow>
   engine_error + bool \<times> funding_state" where
  "fund_target_currency s md options target_currency buys =
     rbind (target_currency_funding_need (fu_portfolio s) target_currency buys)
       (\<lambda>(fx_needed, plan, pf1).
         let s1 = s\<lparr>fu_portfolio := pf1\<rparr> in
         if dec_le fx_needed (dec 0 0)
         then Inr (False, s1\<lparr>fu_diagnostics := add_funding_plan plan (fu_diagnostics s1)\<rparr>)
         else rbind (select_funding_source pf1 md options (fu_diagnostics s1) target_currency
                       fx_needed (map cb_currency (pn_cash_balances pf1)))
           (\<lambda>(selected, smallest_deficit, pf2, dg2).
             let s2 = s1\<lparr>fu_portfolio := pf2, fu_diagnostics := dg2\<rparr> in
             case selected of
               None \<Rightarrow> record_unfunded_target_currency s2 options target_currency smallest_deficit plan
             | Some selection \<Rightarrow>
                 rbind (record_funding_fx_intent s2 target_currency fx_needed selection plan)
                   (\<lambda>s3. Inr (False, s3))))"

fun fund_target_currencies ::
  "string list \<Rightarrow> (string, security_trade_intent list) dict \<Rightarrow> market_data_snapshot \<Rightarrow>
   simulation_options \<Rightarrow> bool \<Rightarrow> funding_state \<Rightarrow> engine_error + bool \<times> funding_state" where
  "fund_target_currencies [] grouped md options force_pending s = Inr (force_pending, s)"
| "fund_target_currencies (c # cs) grouped md options force_pending s =
     rbind (fund_target_currency s md options c (dict_list grouped c))
       (\<lambda>(pending, s1).
         fund_target_currencies cs grouped md options (pending \<or> force_pending) s1)"

definition build_auto_funding_plan ::
  "portfolio_snapshot \<Rightarrow> market_data_snapshot \<Rightarrow> simulation_options \<Rightarrow> security_trade_intent list \<Rightarrow>
   diagnostics_data \<Rightarrow> engine_error + bool \<times> funding_state" where
  "build_auto_funding_plan pf md options buy_intents dg =
     (let s = \<lparr>fu_portfolio = pf, fu_diagnostics = dg, fu_fx_intents = [], fu_fx_by_currency = [],
               fu_unfunded_currencies = {}, fu_hard_failures = []\<rparr>
      in if \<not> so_auto_funding options then Inr (False, s)
         else rbind (group_buy_intents_by_currency buy_intents []) (\<lambda>grouped.
                fund_target_currencies (sort (dict_keys grouped)) grouped md options False s))"

section \<open>The intent plan\<close>

record simulation_intent_plan =
  ip_after_portfolio :: portfolio_snapshot
  ip_cash_flows :: "proposed_cash_flow list"
  ip_trades :: "proposed_trade list"
  ip_intents :: "order_intent list"
  ip_hard_failures :: "string list"
  ip_force_pending_review :: bool

definition apply_sell_intents ::
  "portfolio_snapshot \<Rightarrow> security_trade_intent list \<Rightarrow> portfolio_snapshot" where
  "apply_sell_intents pf sell_intents = foldl apply_security_trade_to_portfolio pf sell_intents"

fun apply_executable_buy_intents ::
  "security_trade_intent list \<Rightarrow> string set \<Rightarrow> portfolio_snapshot \<Rightarrow> diagnostics_data \<Rightarrow>
   security_trade_intent list \<times> portfolio_snapshot \<times> diagnostics_data" where
  "apply_executable_buy_intents [] unfunded pf dg = ([], pf, dg)"
| "apply_executable_buy_intents (i # is) unfunded pf dg =
     (case si_notional i of
        None \<Rightarrow> apply_executable_buy_intents is unfunded pf dg
      | Some m \<Rightarrow>
          if mn_currency m \<in> unfunded
          then apply_executable_buy_intents is unfunded pf
                 (if ''PROPOSAL_BUY_SKIPPED_UNFUNDED'' \<in> set (dg_warnings dg) then dg
                  else add_warning ''PROPOSAL_BUY_SKIPPED_UNFUNDED'' dg)
          else let (rest, result) = apply_executable_buy_intents is unfunded
                 (apply_security_trade_to_portfolio pf i) dg
               in (i # rest, result))"

fun execution_rank :: "order_intent \<Rightarrow> nat" where
  "execution_rank (CashFlow i) = 0"
| "execution_rank (SecurityTrade i) = (if si_side i = Sell then 1 else 3)"
| "execution_rank (FxSpot i) = 2"

definition sort_execution_intents :: "order_intent list \<Rightarrow> order_intent list" where
  "sort_execution_intents intents = sort_key execution_rank intents"

definition ordered_execution_intents ::
  "cash_flow_intent list \<Rightarrow> security_trade_intent list \<Rightarrow> fx_spot_intent list \<Rightarrow>
   security_trade_intent list \<Rightarrow> order_intent list" where
  "ordered_execution_intents cash_flow_intents sell_intents fx_intents buy_intents =
     sort_execution_intents
       (map CashFlow cash_flow_intents @ map SecurityTrade sell_intents @
        map FxSpot (sort_key xi_pair fx_intents) @ map SecurityTrade buy_intents)"

text \<open>
  Linking changes the dependencies of the executable buys only, so the sells are passed on as they
  are. The inputs are already validated models, which validating again leaves as they are.
\<close>

definition build_simulation_intent_plan ::
  "portfolio_snapshot \<Rightarrow> market_data_snapshot \<Rightarrow> shelf_entry list \<Rightarrow> simulation_options \<Rightarrow>
   proposed_cash_flow list \<Rightarrow> proposed_trade list \<Rightarrow> diagnostics_data \<Rightarrow>
   engine_error + simulation_intent_plan \<times> diagnostics_data" where
  "build_simulation_intent_plan pf md shelf options cash_flows trades dg =
     (let (cash_flow_intents, pf1, dg1, hf1) = build_cash_flow_intents 0 cash_flows options pf dg []
      in rbind (build_security_trade_intents pf md shelf trades options dg1 hf1)
        (\<lambda>(security_intents, dg2, hf2).
          let sells = sorted_security_intents_by_instrument security_intents Sell;
              buys = sorted_security_intents_by_instrument security_intents Buy;
              pf2 = apply_sell_intents pf1 sells
          in rbind (build_auto_funding_plan pf2 md options buys dg2)
            (\<lambda>(force_pending, funding).
              let (executable, pf3, dg3) = apply_executable_buy_intents buys
                    (fu_unfunded_currencies funding) (fu_portfolio funding) (fu_diagnostics funding);
                  linked = link_buy_intent_dependencies (sells @ executable)
                    (fu_fx_by_currency funding)
                    (so_link_buy_to_same_currency_sell_dependency options = Some True)
              in Inr (\<lparr>ip_after_portfolio = pf3, ip_cash_flows = cash_flows, ip_trades = trades,
                       ip_intents = ordered_execution_intents cash_flow_intents
                         (take (length sells) linked) (fu_fx_intents funding)
                         (drop (length sells) linked),
                       ip_hard_failures = hf2 @ fu_hard_failures funding,
                       ip_force_pending_review = force_pending\<rparr>, dg3))))"

end
