(* ===== verification/Simulation_Review.thy ===== *)
theory Simulation_Review
  imports Simulation_Funding Workflow_Gates
begin

text \<open>
  Judging the simulated state: the rule engine (src/core/compliance.py, src/core/compliance_rules.py),
  the value reconciliation and the status (src/core/common/simulation_shared.py), and the review that
  composes them (src/core/advisory/simulation_review.py).
\<close>

section \<open>The rules\<close>

definition evaluate_cash_band :: "valued_state \<Rightarrow> simulation_options \<Rightarrow> rule_result" where
  "evaluate_cash_band state options =
     (let cash_weight = (case find (\<lambda>a. am_key a = ''CASH'') (ss_allocation_by_asset_class state) of
            None \<Rightarrow> dec 0 0 | Some a \<Rightarrow> am_weight a);
          min_w = so_cash_band_min_weight options;
          max_w = so_cash_band_max_weight options
      in if dec_less cash_weight min_w \<or> dec_less max_w cash_weight
         then \<lparr>rr_rule_id = ''CASH_BAND'', rr_severity = RuleSoft, rr_status = RuleFail,
               rr_measured = cash_weight, rr_threshold = [(''min'', min_w), (''max'', max_w)],
               rr_reason_code = ''THRESHOLD_BREACH'',
               rr_remediation_hint = Some ''Portfolio cash is outside policy bands.''\<rparr>
         else \<lparr>rr_rule_id = ''CASH_BAND'', rr_severity = RuleSoft, rr_status = RulePass,
               rr_measured = cash_weight, rr_threshold = [(''min'', min_w), (''max'', max_w)],
               rr_reason_code = ''OK'', rr_remediation_hint = None\<rparr>)"

definition evaluate_single_position_max :: "valued_state \<Rightarrow> simulation_options \<Rightarrow> rule_result list" where
  "evaluate_single_position_max state options =
     (case so_single_position_max_weight options of
        None \<Rightarrow>
          [\<lparr>rr_rule_id = ''SINGLE_POSITION_MAX'', rr_severity = RuleHard, rr_status = RulePass,
            rr_measured = dec 0 0, rr_threshold = [(''max'', dec_minus (dec 1 0))],
            rr_reason_code = ''NO_LIMIT_SET'', rr_remediation_hint = None\<rparr>]
      | Some limit_w \<Rightarrow>
          let allocations = ss_allocation_by_instrument state;
              max_measured = foldl (\<lambda>m a. dec_max m (am_weight a)) (dec 0 0) allocations;
              results = map (\<lambda>a.
                  \<lparr>rr_rule_id = ''SINGLE_POSITION_MAX'', rr_severity = RuleHard, rr_status = RuleFail,
                   rr_measured = am_weight a, rr_threshold = [(''max'', limit_w)],
                   rr_reason_code = ''LIMIT_BREACH'',
                   rr_remediation_hint =
                     Some (''Instrument '' @ am_key a @ '' exceeds max weight.'')\<rparr>)
                (filter (\<lambda>a. dec_less (dec_add limit_w (dec 1 (- 3))) (am_weight a)) allocations)
          in if results \<noteq> [] then results
             else [\<lparr>rr_rule_id = ''SINGLE_POSITION_MAX'', rr_severity = RuleHard, rr_status = RulePass,
                    rr_measured = max_measured, rr_threshold = [(''max'', limit_w)],
                    rr_reason_code = ''OK'', rr_remediation_hint = None\<rparr>])"

definition evaluate_data_quality :: "simulation_options \<Rightarrow> diagnostics_data \<Rightarrow> rule_result" where
  "evaluate_data_quality options dg =
     (let dq = dg_data_quality dg;
          dq_count =
            (if so_block_on_missing_prices options then length (dict_list dq ''price_missing'') else 0) +
            (if so_block_on_missing_fx options then length (dict_list dq ''fx_missing'') else 0) +
            length (dict_list dq ''shelf_missing'')
      in if 0 < dq_count
         then \<lparr>rr_rule_id = ''DATA_QUALITY'', rr_severity = RuleHard, rr_status = RuleFail,
               rr_measured = dec dq_count 0, rr_threshold = [(''max'', dec 0 0)],
               rr_reason_code = ''MISSING_DATA'',
               rr_remediation_hint = Some ''Check diagnostics for missing prices/FX.''\<rparr>
         else \<lparr>rr_rule_id = ''DATA_QUALITY'', rr_severity = RuleHard, rr_status = RulePass,
               rr_measured = dec dq_count 0, rr_threshold = [(''max'', dec 0 0)],
               rr_reason_code = ''OK'', rr_remediation_hint = None\<rparr>)"

definition evaluate_min_trade_size :: "diagnostics_data \<Rightarrow> rule_result" where
  "evaluate_min_trade_size dg =
     (let suppressed_count = length (dg_suppressed_intents dg) in
      \<lparr>rr_rule_id = ''MIN_TRADE_SIZE'', rr_severity = RuleSoft, rr_status = RulePass,
       rr_measured = dec suppressed_count 0, rr_threshold = [(''min'', dec 0 0)],
       rr_reason_code = (if 0 < suppressed_count then ''INTENTS_SUPPRESSED'' else ''OK''),
       rr_remediation_hint = None\<rparr>)"

text \<open>The least of the negative numbers of a list, zero without any.\<close>

definition least_negative :: "decimal list \<Rightarrow> decimal" where
  "least_negative xs =
     foldl (\<lambda>m x. if dec_less x (dec 0 0) then dec_min m x else m) (dec 0 0) xs"

definition evaluate_no_shorting :: "valued_state \<Rightarrow> rule_result" where
  "evaluate_no_shorting state =
     (let min_qty = least_negative (map sm_quantity (vs_positions state)) in
      if dec_less min_qty (dec 0 0)
      then \<lparr>rr_rule_id = ''NO_SHORTING'', rr_severity = RuleHard, rr_status = RuleFail,
            rr_measured = min_qty, rr_threshold = [(''min'', dec 0 0)],
            rr_reason_code = ''SELL_EXCEEDS_HOLDINGS'',
            rr_remediation_hint = Some ''Reduce sell quantity.''\<rparr>
      else \<lparr>rr_rule_id = ''NO_SHORTING'', rr_severity = RuleHard, rr_status = RulePass,
            rr_measured = dec 0 0, rr_threshold = [(''min'', dec 0 0)], rr_reason_code = ''OK'',
            rr_remediation_hint = None\<rparr>)"

definition evaluate_sufficient_cash :: "valued_state \<Rightarrow> rule_result" where
  "evaluate_sufficient_cash state =
     (let min_cash = least_negative (map cb_amount (vs_cash_balances state)) in
      if dec_less min_cash (dec 0 0)
      then \<lparr>rr_rule_id = ''INSUFFICIENT_CASH'', rr_severity = RuleHard, rr_status = RuleFail,
            rr_measured = min_cash, rr_threshold = [(''min'', dec 0 0)],
            rr_reason_code = ''CASH_BALANCE_NEGATIVE'',
            rr_remediation_hint = Some ''Ensure sufficient funding.''\<rparr>
      else \<lparr>rr_rule_id = ''INSUFFICIENT_CASH'', rr_severity = RuleHard, rr_status = RulePass,
            rr_measured = dec 0 0, rr_threshold = [(''min'', dec 0 0)], rr_reason_code = ''OK'',
            rr_remediation_hint = None\<rparr>)"

definition evaluate_rules ::
  "valued_state \<Rightarrow> simulation_options \<Rightarrow> diagnostics_data \<Rightarrow> rule_result list" where
  "evaluate_rules state options dg =
     evaluate_cash_band state options # evaluate_single_position_max state options @
     [evaluate_data_quality options dg, evaluate_min_trade_size dg, evaluate_no_shorting state,
      evaluate_sufficient_cash state]"

section \<open>Status and reconciliation\<close>

definition has_failed_rule_with_severity :: "rule_result list \<Rightarrow> rule_severity \<Rightarrow> bool" where
  "has_failed_rule_with_severity rs sev =
     list_ex (\<lambda>r. rr_severity r = sev \<and> rr_status r = RuleFail) rs"

definition derive_status_from_rules :: "rule_result list \<Rightarrow> creation_status" where
  "derive_status_from_rules rs =
     (if has_failed_rule_with_severity rs RuleHard then BLOCKED
      else if has_failed_rule_with_severity rs RuleSoft then PENDING_REVIEW
      else READY)"

definition build_reconciliation ::
  "decimal \<Rightarrow> decimal \<Rightarrow> decimal \<Rightarrow> string \<Rightarrow> bool \<Rightarrow> reconciliation \<times> decimal \<times> decimal" where
  "build_reconciliation before_total after_total expected_after_total base_currency
       use_absolute_scale =
     (let recon_diff = dec_abs (dec_sub after_total expected_after_total);
          scale_value = (if use_absolute_scale then dec_abs expected_after_total
                         else expected_after_total);
          tolerance = dec_add (dec 5 (- 1)) (dec_mul scale_value (dec 5 (- 4)));
          as_money = (\<lambda>a. \<lparr>mn_amount = a, mn_currency = base_currency\<rparr>)
      in (\<lparr>rc_before_total_value = as_money before_total, rc_after_total_value = as_money after_total,
           rc_delta = as_money (dec_sub after_total before_total), rc_tolerance = as_money tolerance,
           rc_status = (if dec_le recon_diff tolerance then ReconOk else ReconMismatch)\<rparr>,
          recon_diff, tolerance))"

section \<open>The review\<close>

record simulation_review =
  sw_final_status :: creation_status
  sw_rule_results :: "rule_result list"
  sw_reconciliation :: reconciliation

definition append_input_guard_failure_if_needed ::
  "rule_result list \<Rightarrow> simulation_intent_plan \<Rightarrow> rule_result list" where
  "append_input_guard_failure_if_needed rs plan =
     (case ip_hard_failures plan of
        [] \<Rightarrow> rs
      | first # rest \<Rightarrow>
          rs @ [\<lparr>rr_rule_id = ''PROPOSAL_INPUT_GUARDS'', rr_severity = RuleHard, rr_status = RuleFail,
                 rr_measured = dec (length (ip_hard_failures plan)) 0,
                 rr_threshold = [(''max'', dec 0 0)], rr_reason_code = first,
                 rr_remediation_hint =
                   Some ''Adjust proposal cash flows, funding inputs, or shelf eligibility.''\<rparr>])"

definition append_funding_data_quality_failure_if_needed ::
  "rule_result list \<Rightarrow> diagnostics_data \<Rightarrow> simulation_intent_plan \<Rightarrow> rule_result list" where
  "append_funding_data_quality_failure_if_needed rs dg plan =
     (if \<not> ip_force_pending_review plan then rs
      else rs @ [\<lparr>rr_rule_id = ''PROPOSAL_FUNDING_DQ'', rr_severity = RuleSoft, rr_status = RuleFail,
                  rr_measured = dec (length (dg_missing_fx_pairs dg)) 0,
                  rr_threshold = [(''max'', dec 0 0)], rr_reason_code = ''MISSING_FX_FOR_FUNDING'',
                  rr_remediation_hint =
                    Some ''Provide required FX rates for advisory auto-funding.''\<rparr>])"

definition final_status_after_reconciliation ::
  "creation_status \<Rightarrow> rule_result list \<Rightarrow> reconciliation \<Rightarrow> decimal \<Rightarrow> decimal \<Rightarrow>
   creation_status \<times> rule_result list" where
  "final_status_after_reconciliation final_status rs recon recon_diff tolerance =
     (if rc_status recon \<noteq> ReconMismatch then (final_status, rs)
      else (BLOCKED,
            rs @ [\<lparr>rr_rule_id = ''RECONCILIATION'', rr_severity = RuleHard, rr_status = RuleFail,
                   rr_measured = recon_diff, rr_threshold = [(''max'', tolerance)],
                   rr_reason_code = ''VALUE_MISMATCH'',
                   rr_remediation_hint = Some ''Check pricing/FX or proposal inputs.''\<rparr>]))"

definition final_status_after_pending_review ::
  "creation_status \<Rightarrow> simulation_intent_plan \<Rightarrow> creation_status" where
  "final_status_after_pending_review final_status plan =
     (if ip_force_pending_review plan \<and> final_status = READY then PENDING_REVIEW else final_status)"

definition build_value_reconciliation ::
  "portfolio_snapshot \<Rightarrow> market_data_snapshot \<Rightarrow> valued_state \<Rightarrow> valued_state \<Rightarrow>
   simulation_intent_plan \<Rightarrow> diagnostics_data \<Rightarrow>
   (reconciliation \<times> decimal \<times> decimal) \<times> diagnostics_data" where
  "build_value_reconciliation pf md before_state after_state plan dg =
     (let (expected_delta_base, dg1) = expected_cash_delta_base pf md (ip_cash_flows plan) dg;
          before_total = mn_amount (ss_total_value before_state)
      in (build_reconciliation before_total (mn_amount (ss_total_value after_state))
            (dec_add before_total expected_delta_base) (pn_base_currency pf) True, dg1))"

definition evaluate_simulation_review ::
  "portfolio_snapshot \<Rightarrow> market_data_snapshot \<Rightarrow> simulation_options \<Rightarrow> diagnostics_data \<Rightarrow>
   valued_state \<Rightarrow> valued_state \<Rightarrow> simulation_intent_plan \<Rightarrow> simulation_review \<times> diagnostics_data" where
  "evaluate_simulation_review pf md options dg before_state after_state plan =
     (let rs = append_funding_data_quality_failure_if_needed
            (append_input_guard_failure_if_needed (evaluate_rules after_state options dg) plan) dg plan;
          status1 = derive_status_from_rules rs;
          ((recon, recon_diff, tolerance), dg1) =
            build_value_reconciliation pf md before_state after_state plan dg;
          (status2, rs2) = final_status_after_reconciliation status1 rs recon recon_diff tolerance
      in (\<lparr>sw_final_status = final_status_after_pending_review status2 plan, sw_rule_results = rs2,
           sw_reconciliation = recon\<rparr>, dg1))"

end
