(* ===== verification/Simulation_Drift.thy ===== *)
theory Simulation_Drift
  imports Simulation_Models
begin

text \<open>
  Drift of the portfolio from a reference model, before and after the proposal
  (src/core/common/drift_analytics.py, src/core/drift_models.py).
\<close>

record drift_bucket_detail =
  db_bucket :: string
  db_model_weight :: decimal
  db_portfolio_weight_before :: decimal
  db_portfolio_weight_after :: decimal
  db_drift_before :: decimal
  db_drift_after :: decimal
  db_abs_drift_before :: decimal
  db_abs_drift_after :: decimal
  db_improvement :: decimal

record drift_dimension_analysis =
  dm_drift_total_before :: decimal
  dm_drift_total_after :: decimal
  dm_drift_total_delta :: decimal
  dm_top_contributors_before :: "drift_bucket_detail list"
  dm_buckets :: "drift_bucket_detail list"

record drift_highlight_entry =
  dh_bucket :: string
  dh_improvement :: decimal

record drift_unmodeled_exposure =
  de_bucket :: string
  de_portfolio_weight_before :: decimal
  de_portfolio_weight_after :: decimal
  de_max_portfolio_weight :: decimal

record drift_highlights =
  dl_largest_improvements :: "drift_highlight_entry list"
  dl_largest_deteriorations :: "drift_highlight_entry list"
  dl_unmodeled_exposures :: "drift_unmodeled_exposure list"

record drift_reference_model_summary =
  ds_model_id :: string
  ds_as_of :: string
  ds_base_currency :: string

record drift_analysis =
  da_reference_model :: drift_reference_model_summary
  da_asset_class :: drift_dimension_analysis
  da_instrument :: "drift_dimension_analysis option"
  da_highlights :: drift_highlights

section \<open>Weights\<close>

definition to_weight_map :: "allocation_metric list \<Rightarrow> (string, decimal) dict" where
  "to_weight_map allocations = foldl (\<lambda>d a. dict_set (am_key a) (am_weight a) d) [] allocations"

text \<open>Targets are pairs of a key and a weight, for asset classes and for instruments.\<close>

definition to_target_map :: "(string \<times> decimal) list \<Rightarrow> (string, decimal) dict" where
  "to_target_map targets = foldl (\<lambda>d (k, w). dict_set k w d) [] targets"

definition weight_or_zero :: "(string, decimal) dict \<Rightarrow> string \<Rightarrow> decimal" where
  "weight_or_zero m k = (case dict_get m k of None \<Rightarrow> dec 0 0 | Some w \<Rightarrow> w)"

section \<open>One dimension\<close>

definition drift_bucket_detail_of ::
  "(string, decimal) dict \<Rightarrow> (string, decimal) dict \<Rightarrow> (string, decimal) dict \<Rightarrow> string \<Rightarrow>
   drift_bucket_detail" where
  "drift_bucket_detail_of before_weights after_weights model_weights bucket =
     (let model_weight = weight_or_zero model_weights bucket;
          before_weight = weight_or_zero before_weights bucket;
          after_weight = weight_or_zero after_weights bucket;
          drift_before = dec_sub before_weight model_weight;
          drift_after = dec_sub after_weight model_weight
      in \<lparr>db_bucket = bucket, db_model_weight = model_weight,
          db_portfolio_weight_before = before_weight, db_portfolio_weight_after = after_weight,
          db_drift_before = drift_before, db_drift_after = drift_after,
          db_abs_drift_before = dec_abs drift_before, db_abs_drift_after = dec_abs drift_after,
          db_improvement = dec_sub (dec_abs drift_before) (dec_abs drift_after)\<rparr>)"

text \<open>Decimals are ordered by value, so a sort by a negated number is one by the negated value.\<close>

definition build_dimension ::
  "(string, decimal) dict \<Rightarrow> (string, decimal) dict \<Rightarrow> (string, decimal) dict \<Rightarrow> string list \<Rightarrow> nat \<Rightarrow>
   drift_dimension_analysis" where
  "build_dimension before_weights after_weights model_weights buckets top_limit =
     (let details = map (drift_bucket_detail_of before_weights after_weights model_weights)
            (sort (remdups buckets));
          drift_total_before = dec_mul (dec 5 (- 1)) (dec_sum (map db_abs_drift_before details));
          drift_total_after = dec_mul (dec 5 (- 1)) (dec_sum (map db_abs_drift_after details))
      in \<lparr>dm_drift_total_before = drift_total_before, dm_drift_total_after = drift_total_after,
          dm_drift_total_delta = dec_sub drift_total_after drift_total_before,
          dm_top_contributors_before = take top_limit
            (sort_key (\<lambda>d. (- dec_val (db_abs_drift_before d), db_bucket d)) details),
          dm_buckets = details\<rparr>)"

section \<open>Highlights\<close>

definition max_portfolio_weight :: "drift_bucket_detail \<Rightarrow> decimal" where
  "max_portfolio_weight d = dec_max (db_portfolio_weight_before d) (db_portfolio_weight_after d)"

definition largest_improvements :: "drift_bucket_detail list \<Rightarrow> nat \<Rightarrow> drift_bucket_detail list" where
  "largest_improvements details top_limit =
     take top_limit (sort_key (\<lambda>d. (- dec_val (db_improvement d), db_bucket d))
       (filter (\<lambda>d. dec_less (dec 0 0) (db_improvement d)) details))"

definition largest_deteriorations :: "drift_bucket_detail list \<Rightarrow> nat \<Rightarrow> drift_bucket_detail list" where
  "largest_deteriorations details top_limit =
     take top_limit (sort_key (\<lambda>d. (dec_val (db_improvement d), db_bucket d))
       (filter (\<lambda>d. dec_less (db_improvement d) (dec 0 0)) details))"

definition largest_unmodeled_exposures ::
  "drift_bucket_detail list \<Rightarrow> nat \<Rightarrow> decimal \<Rightarrow> drift_bucket_detail list" where
  "largest_unmodeled_exposures details top_limit unmodeled_threshold =
     take top_limit (sort_key (\<lambda>d. (- dec_val (max_portfolio_weight d), db_bucket d))
       (filter (\<lambda>d. dec_is_zero (db_model_weight d) \<and>
                    dec_le unmodeled_threshold (max_portfolio_weight d)) details))"

definition highlight_entries :: "drift_bucket_detail list \<Rightarrow> drift_highlight_entry list" where
  "highlight_entries details =
     map (\<lambda>d. \<lparr>dh_bucket = db_bucket d, dh_improvement = db_improvement d\<rparr>) details"

definition unmodeled_exposure_entries :: "drift_bucket_detail list \<Rightarrow> drift_unmodeled_exposure list" where
  "unmodeled_exposure_entries details =
     map (\<lambda>d. \<lparr>de_bucket = db_bucket d, de_portfolio_weight_before = db_portfolio_weight_before d,
               de_portfolio_weight_after = db_portfolio_weight_after d,
               de_max_portfolio_weight = max_portfolio_weight d\<rparr>) details"

definition build_highlights :: "drift_bucket_detail list \<Rightarrow> nat \<Rightarrow> decimal \<Rightarrow> drift_highlights" where
  "build_highlights details top_limit unmodeled_threshold =
     \<lparr>dl_largest_improvements = highlight_entries (largest_improvements details top_limit),
      dl_largest_deteriorations = highlight_entries (largest_deteriorations details top_limit),
      dl_unmodeled_exposures = unmodeled_exposure_entries
        (largest_unmodeled_exposures details top_limit unmodeled_threshold)\<rparr>"

section \<open>The analysis\<close>

definition compute_drift_analysis ::
  "valued_state \<Rightarrow> valued_state \<Rightarrow> reference_model \<Rightarrow> string list \<Rightarrow> simulation_options \<Rightarrow>
   drift_analysis" where
  "compute_drift_analysis before_state after_state model traded_instruments options =
     (let before_by_asset_class = to_weight_map (ss_allocation_by_asset_class before_state);
          after_by_asset_class = to_weight_map (ss_allocation_by_asset_class after_state);
          model_by_asset_class = to_target_map (rm_asset_class_targets model);
          asset_class = build_dimension before_by_asset_class after_by_asset_class
            model_by_asset_class
            (dict_keys before_by_asset_class @ dict_keys after_by_asset_class @
             dict_keys model_by_asset_class @ [''CASH''])
            (so_drift_top_contributors_limit options);
          before_by_instrument = to_weight_map (ss_allocation_by_instrument before_state);
          after_by_instrument = to_weight_map (ss_allocation_by_instrument after_state);
          model_by_instrument = to_target_map (rm_instrument_targets model);
          instrument =
            (if so_enable_instrument_drift options \<and> rm_instrument_targets model \<noteq> []
             then Some (build_dimension before_by_instrument after_by_instrument model_by_instrument
               (dict_keys before_by_instrument @ dict_keys after_by_instrument @
                dict_keys model_by_instrument @ traded_instruments)
               (so_drift_top_contributors_limit options))
             else None)
      in \<lparr>da_reference_model = \<lparr>ds_model_id = rm_model_id model, ds_as_of = rm_as_of model,
                               ds_base_currency = rm_base_currency model\<rparr>,
          da_asset_class = asset_class, da_instrument = instrument,
          da_highlights = build_highlights
            (dm_buckets (case instrument of Some d \<Rightarrow> d | None \<Rightarrow> asset_class))
            (so_drift_top_contributors_limit options)
            (so_drift_unmodeled_exposure_threshold options)\<rparr>)"

end
