(* ===== verification/Simulation_Engine.thy ===== *)
theory Simulation_Engine
  imports Simulation_Review Simulation_Drift
begin

text \<open>
  The advisory simulation as a whole (src/core/advisory_engine.py,
  src/core/advisory/simulation_decision_support.py, src/core/advisory/ids.py): value the portfolio,
  plan the intents, value the result, review it, and add the drift, suitability and gate decision.
  The hash function and the random identifier are parameters.
\<close>

section \<open>Decision support\<close>

record simulation_decision_support =
  dp_drift_analysis :: "drift_analysis option"
  dp_suitability :: "suitability_result option"
  dp_gate_decision :: "gate_decision option"

definition traded_instruments :: "order_intent list \<Rightarrow> string list" where
  "traded_instruments intents =
     List.map_filter (\<lambda>i. case i of SecurityTrade t \<Rightarrow> Some (si_instrument_id t) | _ \<Rightarrow> None) intents"

definition build_drift_analysis ::
  "portfolio_snapshot \<Rightarrow> simulation_options \<Rightarrow> diagnostics_data \<Rightarrow> valued_state \<Rightarrow> valued_state \<Rightarrow>
   simulation_intent_plan \<Rightarrow> reference_model option \<Rightarrow> drift_analysis option \<times> diagnostics_data" where
  "build_drift_analysis pf options dg before_state after_state plan model =
     (case model of
        None \<Rightarrow> (None, dg)
      | Some m \<Rightarrow>
          if \<not> so_enable_drift_analytics options then (None, dg)
          else if rm_base_currency m \<noteq> pn_base_currency pf
          then (None, add_warning ''REFERENCE_MODEL_BASE_CURRENCY_MISMATCH'' dg)
          else (Some (compute_drift_analysis before_state after_state m
                        (traded_instruments (ip_intents plan)) options), dg))"

text \<open>\<open>x or y\<close> on an optional text.\<close>

definition text_or :: "string option \<Rightarrow> string \<Rightarrow> string" where
  "text_or x y = (case x of None \<Rightarrow> y | Some s \<Rightarrow> if s = [] then y else s)"

fun trade_side_name :: "trade_side \<Rightarrow> string" where
  "trade_side_name Buy = ''BUY''"
| "trade_side_name Sell = ''SELL''"

text \<open>The two fields of a trade that the suitability scanner reads.\<close>

definition trade_object :: "proposed_trade \<Rightarrow> json_dict" where
  "trade_object t =
     [(''side'', JStr (trade_side_name (pt_side t))), (''instrument_id'', JStr (pt_instrument_id t))]"

definition build_suitability ::
  "portfolio_snapshot \<Rightarrow> market_data_snapshot \<Rightarrow> shelf_entry list \<Rightarrow> simulation_options \<Rightarrow>
   valued_state \<Rightarrow> valued_state \<Rightarrow> simulation_intent_plan \<Rightarrow> json_dict option \<Rightarrow>
   suitability_result option" where
  "build_suitability pf md shelf options before_state after_state plan policy_context =
     (if \<not> so_enable_suitability_scanner options then None
      else Some (compute_suitability_result (simulated_state.truncate before_state)
             (simulated_state.truncate after_state) shelf (engine_options.truncate options)
             (text_or (pn_snapshot_id pf) (pn_portfolio_id pf)) (text_or (md_snapshot_id md) ''md'')
             None (map trade_object (ip_trades plan)) policy_context))"

definition build_gate_decision ::
  "simulation_options \<Rightarrow> diagnostics_data \<Rightarrow> creation_status \<Rightarrow> rule_result list \<Rightarrow>
   suitability_result option \<Rightarrow> gate_decision option" where
  "build_gate_decision options dg final_status rs suitability =
     (if \<not> so_enable_workflow_gates options then None
      else Some (evaluate_gate_decision final_status rs suitability (Some (dg_data_quality dg))
             (engine_options.truncate options) True))"

definition build_simulation_decision_support ::
  "portfolio_snapshot \<Rightarrow> market_data_snapshot \<Rightarrow> shelf_entry list \<Rightarrow> simulation_options \<Rightarrow>
   diagnostics_data \<Rightarrow> valued_state \<Rightarrow> valued_state \<Rightarrow> simulation_intent_plan \<Rightarrow> creation_status \<Rightarrow>
   rule_result list \<Rightarrow> reference_model option \<Rightarrow> json_dict option \<Rightarrow>
   simulation_decision_support \<times> diagnostics_data" where
  "build_simulation_decision_support pf md shelf options dg before_state after_state plan
       final_status rs model policy_context =
     (let (drift, dg1) = build_drift_analysis pf options dg before_state after_state plan model;
          suitability =
            build_suitability pf md shelf options before_state after_state plan policy_context
      in (\<lparr>dp_drift_analysis = drift, dp_suitability = suitability,
           dp_gate_decision = build_gate_decision options dg1 final_status rs suitability\<rparr>, dg1))"

section \<open>Lineage\<close>

record lineage_data =
  ld_portfolio_snapshot_id :: string
  ld_market_data_snapshot_id :: string
  ld_request_hash :: string
  ld_idempotency_key :: "string option"
  ld_engine_version :: string
  ld_simulation_contract_version :: "string option"
  ld_source_provenance :: "source_provenance_envelope option"
  ld_source_completeness :: "json option"

definition proposal_run_id_from_request_hash :: "(string \<Rightarrow> string) \<Rightarrow> string \<Rightarrow> string \<Rightarrow> string" where
  "proposal_run_id_from_request_hash sha256 uuid_hex request_hash =
     ''pr_'' @ take 8 (if request_hash \<noteq> [] \<and> request_hash \<noteq> ''no_hash'' then sha256 request_hash
                      else uuid_hex)"

definition source_provenance_envelope_of ::
  "portfolio_snapshot \<Rightarrow> market_data_snapshot \<Rightarrow> source_provenance_envelope option" where
  "source_provenance_envelope_of pf md =
     (case (pn_source_provenance pf, md_source_provenance md) of
        (Some p, Some m) \<Rightarrow>
          if sv_source_system m \<noteq> sv_source_system p then None
          else Some \<lparr>se_source_system = sv_source_system p, se_portfolio = p, se_market_data = m\<rparr>
      | _ \<Rightarrow> None)"

definition source_completeness_report ::
  "portfolio_snapshot \<Rightarrow> market_data_snapshot \<Rightarrow> json option" where
  "source_completeness_report pf md =
     (case pn_source_completeness pf of Some r \<Rightarrow> Some r | None \<Rightarrow> md_source_completeness md)"

section \<open>The run\<close>

record simulation_request_data =
  sd_portfolio :: portfolio_snapshot
  sd_market_data :: market_data_snapshot
  sd_shelf :: "shelf_entry list"
  sd_options :: simulation_options
  sd_cash_flows :: "proposed_cash_flow list"
  sd_trades :: "proposed_trade list"
  sd_reference_model :: "reference_model option"
  sd_request_hash :: string
  sd_idempotency_key :: "string option"
  sd_correlation_id :: string
  sd_simulation_contract_version :: "string option"
  sd_policy_context :: "json_dict option"

record simulation_result =
  sl_proposal_run_id :: string
  sl_correlation_id :: string
  sl_status :: creation_status
  sl_before :: valued_state
  sl_intents :: "order_intent list"
  sl_after_simulated :: valued_state
  sl_reconciliation :: reconciliation
  sl_rule_results :: "rule_result list"
  sl_diagnostics :: diagnostics_data
  sl_drift_analysis :: "drift_analysis option"
  sl_suitability :: "suitability_result option"
  sl_gate_decision :: "gate_decision option"
  sl_explanation :: "(string, string) dict"
  sl_lineage :: lineage_data

definition simulated_after ::
  "simulation_intent_plan \<Rightarrow> valued_state \<Rightarrow> market_data_snapshot \<Rightarrow> shelf_entry list \<Rightarrow>
   diagnostics_data \<Rightarrow> valued_state \<times> diagnostics_data" where
  "simulated_after plan before_state md shelf dg =
     (if ip_intents plan \<noteq> []
      then let (after_state, dq) = build_simulated_state (ip_after_portfolio plan) md shelf
                 (dg_data_quality dg) Calculated
           in (after_state, dg\<lparr>dg_data_quality := dq\<rparr>)
      else (before_state, dg))"

definition run_proposal_simulation ::
  "(string \<Rightarrow> string) \<Rightarrow> string \<Rightarrow> simulation_request_data \<Rightarrow> engine_error + simulation_result" where
  "run_proposal_simulation sha256 uuid_hex rq =
     (let pf = sd_portfolio rq; md = sd_market_data rq; shelf = sd_shelf rq; options = sd_options rq;
          dg0 = make_diagnostics_data;
          (before_state, dq) = build_simulated_state pf md shelf (dg_data_quality dg0)
            (so_valuation_mode options);
          dg1 = dg0\<lparr>dg_data_quality := dq\<rparr>
      in rbind (build_simulation_intent_plan pf md shelf options (sd_cash_flows rq) (sd_trades rq) dg1)
        (\<lambda>(plan, dg2).
          let (after_state, dg3) = simulated_after plan before_state md shelf dg2;
              (review, dg4) = evaluate_simulation_review pf md options dg3 before_state after_state plan;
              (support, dg5) = build_simulation_decision_support pf md shelf options dg4 before_state
                after_state plan (sw_final_status review) (sw_rule_results review)
                (sd_reference_model rq) (sd_policy_context rq)
          in Inr \<lparr>sl_proposal_run_id =
                     proposal_run_id_from_request_hash sha256 uuid_hex (sd_request_hash rq),
                   sl_correlation_id = sd_correlation_id rq,
                   sl_status = sw_final_status review, sl_before = before_state,
                   sl_intents = ip_intents plan, sl_after_simulated = after_state,
                   sl_reconciliation = sw_reconciliation review,
                   sl_rule_results = sw_rule_results review, sl_diagnostics = dg5,
                   sl_drift_analysis = dp_drift_analysis support,
                   sl_suitability = dp_suitability support,
                   sl_gate_decision = dp_gate_decision support,
                   sl_explanation = [(''summary'', creation_status_name (sw_final_status review))],
                   sl_lineage =
                     \<lparr>ld_portfolio_snapshot_id = text_or (pn_snapshot_id pf) (pn_portfolio_id pf),
                      ld_market_data_snapshot_id = text_or (md_snapshot_id md) ''md'',
                      ld_request_hash = sd_request_hash rq,
                      ld_idempotency_key =
                        normalize_optional_idempotency_key (sd_idempotency_key rq),
                      ld_engine_version = ''0.1.0'',
                      ld_simulation_contract_version = sd_simulation_contract_version rq,
                      ld_source_provenance = source_provenance_envelope_of pf md,
                      ld_source_completeness = source_completeness_report pf md\<rparr>\<rparr>))"

end
