(* ===== verification/Decision_Models.thy ===== *)
theory Decision_Models
  imports Simulation_Engine
begin

text \<open>
  The data of a decision summary (src/core/advisory/decision_summary_models.py) and the result of a
  simulation with its governed explanation sections (src/core/proposal_result_models.py,
  src/core/advisory/explanation_contracts.py). A section is validated when it is attached, so the
  explanation is a record of typed sections here.
\<close>

section \<open>Enumerations\<close>

datatype decision_status =
    ReadyForClientReview | RequiresRiskReview | RequiresComplianceReview | RequiresClientConsent
  | BlockedRemediationRequired | InsufficientEvidence | RevisionRecommended

datatype decision_next_action =
    ActFixInput | ActReviewRisk | ActReviewCompliance | ActDiscussWithClient | ActApproveAndProceed
  | ActReviseProposal | ActCompareAlternatives | ActRequestClientContext | ActRequestMandateContext

datatype decision_confidence = ConfidenceHigh | ConfidenceMedium | ConfidenceLow | ConfidenceInsufficient

datatype requirement_type =
    NeedRiskReview | NeedComplianceReview | NeedClientConsent | NeedInvestmentCounsellorReview
  | NeedProductSpecialistReview | NeedMandateExceptionApproval | NeedDataRemediation

fun requirement_type_name :: "requirement_type \<Rightarrow> string" where
  "requirement_type_name NeedRiskReview = ''RISK_REVIEW''"
| "requirement_type_name NeedComplianceReview = ''COMPLIANCE_REVIEW''"
| "requirement_type_name NeedClientConsent = ''CLIENT_CONSENT''"
| "requirement_type_name NeedInvestmentCounsellorReview = ''INVESTMENT_COUNSELLOR_REVIEW''"
| "requirement_type_name NeedProductSpecialistReview = ''PRODUCT_SPECIALIST_REVIEW''"
| "requirement_type_name NeedMandateExceptionApproval = ''MANDATE_EXCEPTION_APPROVAL''"
| "requirement_type_name NeedDataRemediation = ''DATA_REMEDIATION''"

datatype change_family =
    AllocationChange | ConcentrationChange | CurrencyExposureChange | LiquidityChange | CashChange
  | ProductComplexityChange | RiskProfileAlignmentChange | MandateAlignmentChange
  | ApprovalRequirementChange | DataQualityChange

fun change_family_name :: "change_family \<Rightarrow> string" where
  "change_family_name AllocationChange = ''ALLOCATION_CHANGE''"
| "change_family_name ConcentrationChange = ''CONCENTRATION_CHANGE''"
| "change_family_name CurrencyExposureChange = ''CURRENCY_EXPOSURE_CHANGE''"
| "change_family_name LiquidityChange = ''LIQUIDITY_CHANGE''"
| "change_family_name CashChange = ''CASH_CHANGE''"
| "change_family_name ProductComplexityChange = ''PRODUCT_COMPLEXITY_CHANGE''"
| "change_family_name RiskProfileAlignmentChange = ''RISK_PROFILE_ALIGNMENT_CHANGE''"
| "change_family_name MandateAlignmentChange = ''MANDATE_ALIGNMENT_CHANGE''"
| "change_family_name ApprovalRequirementChange = ''APPROVAL_REQUIREMENT_CHANGE''"
| "change_family_name DataQualityChange = ''DATA_QUALITY_CHANGE''"

section \<open>Records\<close>

record missing_evidence =
  mg_evidence_type :: string
  mg_reason_code :: string
  mg_summary :: string
  mg_blocking :: bool
  mg_evidence_refs :: "string list"

record approval_requirement =
  nr_approval_type :: requirement_type
  nr_required :: bool
  nr_severity :: severity
  nr_reason_code :: string
  nr_summary :: string
  nr_blocking_until_approved :: bool
  nr_evidence_refs :: "string list"
  nr_policy_version :: string

record material_change =
  mc_change_id :: string
  mc_family :: change_family
  mc_severity :: severity
  mc_before :: json_dict
  mc_after :: json_dict
  mc_delta :: json_dict
  mc_threshold :: json_dict
  mc_summary :: string
  mc_evidence_refs :: "string list"

record decision_action_item =
  di_action_code :: decision_next_action
  di_reason_code :: string
  di_summary :: string
  di_evidence_refs :: "string list"

datatype suitability_posture_status = PostureAvailable | PostureNotAvailable

record suitability_posture =
  sq_status :: suitability_posture_status
  sq_issue_count_new :: nat
  sq_issue_count_resolved :: nat
  sq_issue_count_persistent :: nat
  sq_highest_severity_new :: "severity option"
  sq_recommended_gate :: "string option"

datatype risk_posture_status = RiskAvailable | RiskUnavailable

record risk_posture =
  rk_status :: risk_posture_status
  rk_source_service :: "string option"
  rk_summary :: string

datatype mandate_posture_status = MandateNotEvaluated | MandatePartial | MandateAvailable

record client_mandate_posture =
  cm_status :: mandate_posture_status
  cm_summary :: string

record decision_summary =
  dy_decision_status :: decision_status
  dy_top_level_status :: creation_status
  dy_primary_reason_code :: string
  dy_primary_summary :: string
  dy_recommended_next_action :: decision_next_action
  dy_decision_policy_version :: string
  dy_suitability_policy_version :: "string option"
  dy_confidence :: decision_confidence
  dy_approval_requirements :: "approval_requirement list"
  dy_material_changes :: "material_change list"
  dy_suitability_posture :: suitability_posture
  dy_missing_evidence :: "missing_evidence list"
  dy_risk_posture :: risk_posture
  dy_client_and_mandate_posture :: client_mandate_posture
  dy_advisor_action_items :: "decision_action_item list"
  dy_evidence_refs :: "string list"

section \<open>The explained result\<close>

datatype simulation_authority = LotusCore | LocalFallback

datatype risk_authority = LotusRisk | RiskAuthorityUnavailable

record authority_resolution =
  ah_simulation_authority :: simulation_authority
  ah_risk_authority :: risk_authority
  ah_degraded :: bool
  ah_degraded_reasons :: "string list"

text \<open>The validator of the section; the exception of pydantic is a \<open>ValueError\<close>.\<close>

definition degraded_flag_matches_reasons ::
  "authority_resolution \<Rightarrow> engine_error + authority_resolution" where
  "degraded_flag_matches_reasons a =
     (if ah_degraded a \<noteq> (ah_degraded_reasons a \<noteq> []) then Inl ValueError
      else if ah_risk_authority a = RiskAuthorityUnavailable \<and> \<not> ah_degraded a then Inl ValueError
      else Inr a)"

text \<open>
  A missing section is \<open>None\<close>, a missing risk lens \<open>JNull\<close>; the alternatives are not modelled, their
  envelope is a JSON value.
\<close>

record explained_result = simulation_result +
  er_authority_resolution :: "authority_resolution option"
  er_policy_context :: "json_dict option"
  er_risk_lens :: json
  er_allocation_lens_source :: string
  er_decision_summary :: "decision_summary option"
  er_proposal_alternatives :: json

end
