(* ===== verification/Decision_Requirements.thy ===== *)
theory Decision_Requirements
  imports Decision_Models
begin

text \<open>
  Missing evidence, the decision status and what follows from it, and the approval requirements
  (src/core/advisory/decision_summary.py, decision_summary_status_rules.py,
  decision_requirements.py).
\<close>

section \<open>Missing evidence\<close>

definition price_missing_evidence :: "bool \<Rightarrow> missing_evidence" where
  "price_missing_evidence blocking =
     \<lparr>mg_evidence_type = ''MARKET_PRICE'', mg_reason_code = ''MISSING_REQUIRED_MARKET_PRICE'',
      mg_summary = ''Required price data is missing for one or more instruments.'',
      mg_blocking = blocking,
      mg_evidence_refs = [''proposal.diagnostics.data_quality.price_missing'']\<rparr>"

definition fx_missing_evidence :: "bool \<Rightarrow> missing_evidence" where
  "fx_missing_evidence blocking =
     \<lparr>mg_evidence_type = ''FX_RATE'', mg_reason_code = ''MISSING_REQUIRED_FX_DATA'',
      mg_summary = ''Required FX data is missing for one or more currency pairs.'',
      mg_blocking = blocking,
      mg_evidence_refs = [''proposal.diagnostics.data_quality.fx_missing'']\<rparr>"

definition market_data_missing_evidence :: "('a explained_result_scheme) \<Rightarrow> missing_evidence list" where
  "market_data_missing_evidence result =
     (let dq = dg_data_quality (sl_diagnostics result); blocking = (sl_status result = BLOCKED)
      in (if dict_list dq ''price_missing'' \<noteq> [] then [price_missing_evidence blocking] else []) @
         (if dict_list dq ''fx_missing'' \<noteq> [] then [fx_missing_evidence blocking] else []))"

definition risk_missing_evidence :: "('a explained_result_scheme) \<Rightarrow> missing_evidence option" where
  "risk_missing_evidence result =
     (case er_authority_resolution result of
        None \<Rightarrow> None
      | Some a \<Rightarrow>
          if ah_risk_authority a \<noteq> RiskAuthorityUnavailable then None
          else Some \<lparr>mg_evidence_type = ''RISK_LENS'', mg_reason_code = ''MISSING_RISK_LENS'',
                 mg_summary = ''Canonical risk evidence is unavailable for this proposal run.'',
                 mg_blocking = True,
                 mg_evidence_refs = [''proposal.explanation.authority_resolution'']\<rparr>)"

definition issue_ref :: "suitability_issue \<Rightarrow> string" where
  "issue_ref issue = ''proposal.suitability.issues.'' @ su_issue_key issue"

definition missing_evidence_from_suitability_issue ::
  "('a explained_result_scheme) \<Rightarrow> suitability_issue \<Rightarrow> missing_evidence option" where
  "missing_evidence_from_suitability_issue result issue =
     (if su_dimension issue = ''DATA_QUALITY''
      then Some \<lparr>mg_evidence_type = ''SUITABILITY_DATA_QUALITY'', mg_reason_code = su_issue_id issue,
             mg_summary = su_summary issue,
             mg_blocking = (sl_status result = BLOCKED \<and> su_severity issue = SevHigh),
             mg_evidence_refs = [issue_ref issue]\<rparr>
      else if su_classification issue \<noteq> ''UNKNOWN_DUE_TO_MISSING_EVIDENCE'' then None
      else Some \<lparr>mg_evidence_type = ''SUITABILITY_CONTEXT'', mg_reason_code = su_issue_id issue,
             mg_summary = su_summary issue,
             mg_blocking = (su_severity issue = SevHigh \<or> sl_status result \<noteq> READY),
             mg_evidence_refs = [issue_ref issue]\<rparr>)"

definition suitability_missing_evidence :: "('a explained_result_scheme) \<Rightarrow> missing_evidence list" where
  "suitability_missing_evidence result =
     (case sl_suitability result of
        None \<Rightarrow> []
      | Some su \<Rightarrow> List.map_filter (missing_evidence_from_suitability_issue result) (sf_issues su))"

definition build_missing_evidence :: "('a explained_result_scheme) \<Rightarrow> missing_evidence list" where
  "build_missing_evidence result =
     market_data_missing_evidence result @
     (case risk_missing_evidence result of None \<Rightarrow> [] | Some e \<Rightarrow> [e]) @
     suitability_missing_evidence result"

section \<open>Status\<close>

fun gate_decision_status :: "gate \<Rightarrow> decision_status option" where
  "gate_decision_status GateComplianceReview = Some RequiresComplianceReview"
| "gate_decision_status GateRiskReview = Some RequiresRiskReview"
| "gate_decision_status GateClientConsent = Some RequiresClientConsent"
| "gate_decision_status _ = None"

definition status_from_gate_decision :: "('a explained_result_scheme) \<Rightarrow> decision_status option" where
  "status_from_gate_decision result =
     (case sl_gate_decision result of None \<Rightarrow> None | Some g \<Rightarrow> gate_decision_status (gd_gate g))"

definition has_blocking_missing_evidence :: "missing_evidence list \<Rightarrow> bool" where
  "has_blocking_missing_evidence missing = list_ex mg_blocking missing"

definition status_from_proposal_result :: "('a explained_result_scheme) \<Rightarrow> decision_status" where
  "status_from_proposal_result result =
     (if sl_status result = PENDING_REVIEW then RevisionRecommended else ReadyForClientReview)"

definition derive_decision_status ::
  "('a explained_result_scheme) \<Rightarrow> missing_evidence list \<Rightarrow> decision_status" where
  "derive_decision_status result missing =
     (if sl_status result = BLOCKED then BlockedRemediationRequired
      else if has_blocking_missing_evidence missing then InsufficientEvidence
      else case status_from_gate_decision result of
             Some s \<Rightarrow> s
           | None \<Rightarrow> status_from_proposal_result result)"

fun DECISION_STATUS_REASON_CODES :: "decision_status \<Rightarrow> string" where
  "DECISION_STATUS_REASON_CODES ReadyForClientReview = ''PROPOSAL_READY_FOR_CLIENT_REVIEW''"
| "DECISION_STATUS_REASON_CODES RevisionRecommended = ''PROPOSAL_REVISION_RECOMMENDED''"
| "DECISION_STATUS_REASON_CODES RequiresClientConsent = ''CLIENT_CONSENT_REQUIRED''"
| "DECISION_STATUS_REASON_CODES RequiresRiskReview = ''RISK_REVIEW_REQUIRED''"
| "DECISION_STATUS_REASON_CODES RequiresComplianceReview = ''COMPLIANCE_REVIEW_REQUIRED''"
| "DECISION_STATUS_REASON_CODES InsufficientEvidence = ''INSUFFICIENT_EVIDENCE''"
| "DECISION_STATUS_REASON_CODES BlockedRemediationRequired = ''PROPOSAL_BLOCKED''"

fun DECISION_STATUS_SUMMARIES :: "decision_status \<Rightarrow> string" where
  "DECISION_STATUS_SUMMARIES BlockedRemediationRequired =
     ''Proposal cannot proceed until blocking issues are remediated.''"
| "DECISION_STATUS_SUMMARIES RequiresComplianceReview =
     ''Proposal requires compliance review before client progression.''"
| "DECISION_STATUS_SUMMARIES RequiresRiskReview =
     ''Proposal requires risk review before client progression.''"
| "DECISION_STATUS_SUMMARIES RequiresClientConsent =
     ''Proposal is ready for client discussion and recorded client consent.''"
| "DECISION_STATUS_SUMMARIES InsufficientEvidence =
     ''Proposal cannot be fully assessed because required evidence is unavailable.''"
| "DECISION_STATUS_SUMMARIES RevisionRecommended =
     ''Proposal should be revised before further progression.''"
| "DECISION_STATUS_SUMMARIES ReadyForClientReview = ''Proposal is ready for client review.''"

definition gate_reason_code :: "('a explained_result_scheme) \<Rightarrow> string option" where
  "gate_reason_code result =
     (case sl_gate_decision result of
        None \<Rightarrow> None
      | Some g \<Rightarrow> (case gd_reasons g of [] \<Rightarrow> None | r # rs \<Rightarrow> Some (gr_reason_code r)))"

definition primary_decision_reason_code ::
  "('a explained_result_scheme) \<Rightarrow> missing_evidence list \<Rightarrow> decision_status \<Rightarrow> string" where
  "primary_decision_reason_code result missing status =
     (if status = InsufficientEvidence \<and> missing \<noteq> [] then mg_reason_code (hd missing)
      else case gate_reason_code result of
             Some code \<Rightarrow> code
           | None \<Rightarrow> if missing \<noteq> [] then mg_reason_code (hd missing)
                     else DECISION_STATUS_REASON_CODES status)"

definition primary_decision_summary :: "decision_status \<Rightarrow> string \<Rightarrow> string" where
  "primary_decision_summary status primary_reason_code =
     (if primary_reason_code = ''MISSING_RISK_LENS''
      then ''Proposal is ready, but risk evidence is currently unavailable.''
      else DECISION_STATUS_SUMMARIES status)"

definition CLIENT_CONTEXT_EVIDENCE_GAPS :: "string list" where
  "CLIENT_CONTEXT_EVIDENCE_GAPS =
     [''MISSING_CLIENT_CONTEXT'', ''MISSING_CLIENT_PRODUCT_COMPLEXITY_EVIDENCE'']"

definition MANDATE_CONTEXT_EVIDENCE_GAPS :: "string list" where
  "MANDATE_CONTEXT_EVIDENCE_GAPS =
     [''MISSING_MANDATE_CONTEXT'', ''MISSING_MANDATE_RESTRICTED_PRODUCT_EVIDENCE'']"

fun insufficient_evidence_next_action :: "missing_evidence list \<Rightarrow> decision_next_action" where
  "insufficient_evidence_next_action [] = ActReviseProposal"
| "insufficient_evidence_next_action (item # items) =
     (if mg_reason_code item \<in> set CLIENT_CONTEXT_EVIDENCE_GAPS then ActRequestClientContext
      else if mg_reason_code item \<in> set MANDATE_CONTEXT_EVIDENCE_GAPS then ActRequestMandateContext
      else insufficient_evidence_next_action items)"

text \<open>The table has no entry for \<open>INSUFFICIENT_EVIDENCE\<close>, which does not read it.\<close>

fun recommended_decision_next_action ::
  "decision_status \<Rightarrow> missing_evidence list \<Rightarrow> decision_next_action" where
  "recommended_decision_next_action InsufficientEvidence missing =
     insufficient_evidence_next_action missing"
| "recommended_decision_next_action BlockedRemediationRequired missing = ActFixInput"
| "recommended_decision_next_action RequiresComplianceReview missing = ActReviewCompliance"
| "recommended_decision_next_action RequiresRiskReview missing = ActReviewRisk"
| "recommended_decision_next_action RequiresClientConsent missing = ActDiscussWithClient"
| "recommended_decision_next_action RevisionRecommended missing = ActReviseProposal"
| "recommended_decision_next_action ReadyForClientReview missing = ActDiscussWithClient"

definition decision_confidence_of ::
  "('a explained_result_scheme) \<Rightarrow> missing_evidence list \<Rightarrow> decision_confidence" where
  "decision_confidence_of result missing =
     (if sl_status result = BLOCKED \<and> missing \<noteq> [] then ConfidenceInsufficient
      else if missing \<noteq> [] then ConfidenceLow
      else if sl_status result = PENDING_REVIEW then ConfidenceMedium
      else ConfidenceHigh)"

section \<open>Approval requirements\<close>

fun suitability_approval_type :: "string \<Rightarrow> requirement_type option" where
  "suitability_approval_type implication =
     dict_get [(''COMPLIANCE_REVIEW'', NeedComplianceReview), (''RISK_REVIEW'', NeedRiskReview),
        (''MANDATE_EXCEPTION_APPROVAL'', NeedMandateExceptionApproval),
        (''CLIENT_CONTEXT_REQUIRED'', NeedDataRemediation),
        (''DATA_REMEDIATION'', NeedDataRemediation)] implication"

fun gate_requirement_args :: "gate \<Rightarrow> (requirement_type \<times> severity \<times> string \<times> string) option" where
  "gate_requirement_args GateComplianceReview =
     Some (NeedComplianceReview, SevHigh, ''COMPLIANCE_REVIEW_REQUIRED'',
       ''Compliance review is required before client progression.'')"
| "gate_requirement_args GateRiskReview =
     Some (NeedRiskReview, SevMedium, ''RISK_REVIEW_REQUIRED'',
       ''Risk review is required before client progression.'')"
| "gate_requirement_args GateClientConsent =
     Some (NeedClientConsent, SevMedium, ''CLIENT_CONSENT_REQUIRED'',
       ''Client consent is required before execution progression.'')"
| "gate_requirement_args _ = None"

definition gate_approval_requirements ::
  "('a explained_result_scheme) \<Rightarrow> string \<Rightarrow> approval_requirement list" where
  "gate_approval_requirements result policy_version =
     (case Option.bind (sl_gate_decision result) (\<lambda>g. gate_requirement_args (gd_gate g)) of
        None \<Rightarrow> []
      | Some (kind, sev, code, summary) \<Rightarrow>
          [\<lparr>nr_approval_type = kind, nr_required = True, nr_severity = sev, nr_reason_code = code,
            nr_summary = summary, nr_blocking_until_approved = False,
            nr_evidence_refs = [''proposal.gate_decision''], nr_policy_version = policy_version\<rparr>])"

definition approval_type_for_missing_evidence :: "string \<Rightarrow> requirement_type option" where
  "approval_type_for_missing_evidence reason_code =
     (if reason_code \<in> {''MISSING_REQUIRED_MARKET_PRICE'', ''MISSING_REQUIRED_FX_DATA'',
           ''MISSING_CLIENT_PRODUCT_COMPLEXITY_EVIDENCE''}
      then Some NeedDataRemediation
      else if reason_code = ''MISSING_MANDATE_RESTRICTED_PRODUCT_EVIDENCE''
      then Some NeedMandateExceptionApproval
      else None)"

definition missing_evidence_requirement_summary :: "missing_evidence \<Rightarrow> string" where
  "missing_evidence_requirement_summary item =
     (if mg_reason_code item = ''MISSING_MANDATE_RESTRICTED_PRODUCT_EVIDENCE''
      then ''Mandate exception evidence is required before progressing the restricted product.''
      else ''Blocking data or evidence remediation is required before progression.'')"

definition requirement_from_missing_evidence ::
  "string \<Rightarrow> missing_evidence \<Rightarrow> approval_requirement option" where
  "requirement_from_missing_evidence policy_version item =
     (if \<not> mg_blocking item then None
      else case approval_type_for_missing_evidence (mg_reason_code item) of
             None \<Rightarrow> None
           | Some kind \<Rightarrow>
               Some \<lparr>nr_approval_type = kind, nr_required = True, nr_severity = SevHigh,
                 nr_reason_code = mg_reason_code item,
                 nr_summary = missing_evidence_requirement_summary item,
                 nr_blocking_until_approved = True, nr_evidence_refs = mg_evidence_refs item,
                 nr_policy_version = policy_version\<rparr>)"

definition requirement_from_suitability_issue ::
  "string \<Rightarrow> suitability_issue \<Rightarrow> approval_requirement option" where
  "requirement_from_suitability_issue policy_version issue =
     (case Option.bind (su_approval_implication issue) suitability_approval_type of
        None \<Rightarrow> None
      | Some kind \<Rightarrow>
          Some \<lparr>nr_approval_type = kind, nr_required = True, nr_severity = su_severity issue,
            nr_reason_code = su_issue_id issue,
            nr_summary = text_or (su_remediation issue) (su_summary issue),
            nr_blocking_until_approved =
              (kind \<in> {NeedDataRemediation, NeedMandateExceptionApproval}),
            nr_evidence_refs = [issue_ref issue], nr_policy_version = policy_version\<rparr>)"

definition suitability_approval_requirements ::
  "('a explained_result_scheme) \<Rightarrow> string \<Rightarrow> approval_requirement list" where
  "suitability_approval_requirements result policy_version =
     (case sl_suitability result of
        None \<Rightarrow> []
      | Some su \<Rightarrow>
          List.map_filter (requirement_from_suitability_issue policy_version)
            (filter (\<lambda>i. su_status_change i \<in> {ScNew, ScPersistent}) (sf_issues su)))"

definition merge_requirement ::
  "(requirement_type \<times> string, approval_requirement) dict \<Rightarrow> approval_requirement \<Rightarrow>
   (requirement_type \<times> string, approval_requirement) dict" where
  "merge_requirement requirements r =
     (let key = (nr_approval_type r, nr_reason_code r) in
      case dict_get requirements key of
        None \<Rightarrow> dict_set key r requirements
      | Some existing \<Rightarrow>
          dict_set key
            (existing
              \<lparr>nr_severity :=
                 (if SEVERITY_SORT (nr_severity r) < SEVERITY_SORT (nr_severity existing)
                  then nr_severity r else nr_severity existing),
               nr_blocking_until_approved :=
                 (nr_blocking_until_approved existing \<or> nr_blocking_until_approved r),
               nr_evidence_refs :=
                 sorted_union (nr_evidence_refs existing) (nr_evidence_refs r)\<rparr>)
            requirements)"

definition requirement_sort_key :: "approval_requirement \<Rightarrow> nat \<times> string \<times> string" where
  "requirement_sort_key r =
     (SEVERITY_SORT (nr_severity r), requirement_type_name (nr_approval_type r), nr_reason_code r)"

definition build_approval_requirements ::
  "('a explained_result_scheme) \<Rightarrow> missing_evidence list \<Rightarrow> string \<Rightarrow> approval_requirement list" where
  "build_approval_requirements result missing policy_version =
     sort_key requirement_sort_key
       (dict_values (foldl merge_requirement []
          (gate_approval_requirements result policy_version @
           List.map_filter (requirement_from_missing_evidence policy_version) missing @
           suitability_approval_requirements result policy_version)))"

end
