(* ===== verification/Decision_Changes.thy ===== *)
theory Decision_Changes
  imports Decision_Requirements
begin

text \<open>
  The material changes of a decision summary (src/core/advisory/decision_material_changes.py), with
  \<open>Decimal(str(value))\<close> on the numbers of the risk lens.
\<close>

section \<open>Reading a decimal\<close>

definition is_digit :: "char \<Rightarrow> bool" where
  "is_digit c = (CHR ''0'' \<le> c \<and> c \<le> CHR ''9'')"

definition digits_value :: "string \<Rightarrow> nat" where
  "digits_value ds = foldl (\<lambda>n c. 10 * n + (of_char c - 48)) 0 ds"

fun sign_split :: "string \<Rightarrow> bool \<times> string" where
  "sign_split (c # cs) =
     (if c = CHR ''-'' then (True, cs) else if c = CHR ''+'' then (False, cs) else (False, c # cs))"
| "sign_split [] = (False, [])"

text \<open>
  The exponent of a literal, from its \<open>E\<close> to its end.
\<close>

definition dec_exponent :: "string \<Rightarrow> int option" where
  "dec_exponent t =
     (case t of
        [] \<Rightarrow> Some 0
      | e # rest \<Rightarrow>
          let (neg, ds) = sign_split rest in
          if e \<notin> {CHR ''e'', CHR ''E''} \<or> ds = [] \<or> \<not> list_all is_digit ds then None
          else Some (if neg then - int (digits_value ds) else int (digits_value ds)))"

text \<open>
  A finite literal: digits with an optional point and exponent, around which space and in which
  underscores are dropped. Of the other texts \<open>Infinity\<close> and \<open>NaN\<close>, which are no JSON numbers, would
  be special values; here they are refused like any text that is no number.
\<close>

definition decimal_of_text :: "string \<Rightarrow> engine_error + decimal" where
  "decimal_of_text t =
     (let (neg, s) = sign_split (filter (\<lambda>c. c \<noteq> CHR ''_'') (py_strip t));
          ip = takeWhile is_digit s;
          s1 = dropWhile is_digit s;
          (fp, s2) = (case s1 of
              [] \<Rightarrow> ([], [])
            | c # cs \<Rightarrow> if c = CHR ''.'' then (takeWhile is_digit cs, dropWhile is_digit cs) else ([], s1))
      in case dec_exponent s2 of
           None \<Rightarrow> Inl (DecimalSignal InvalidOperation)
         | Some e \<Rightarrow>
             if ip = [] \<and> fp = [] then Inl (DecimalSignal InvalidOperation)
             else Inr \<lparr>dc_neg = neg, dc_coef = digits_value (ip @ fp), dc_exp = e - int (length fp)\<rparr>)"

definition decimal_of_json :: "json \<Rightarrow> engine_error + decimal" where
  "decimal_of_json value = (if value = JNull then Inr (dec 0 0) else decimal_of_text (py_str value))"

section \<open>Weights\<close>

definition ASSET_CLASS_DELTA_THRESHOLD :: decimal where
  "ASSET_CLASS_DELTA_THRESHOLD = dec 5 (- 2)"

definition CASH_DELTA_THRESHOLD :: decimal where
  "CASH_DELTA_THRESHOLD = dec 3 (- 2)"

definition CURRENCY_DELTA_THRESHOLD :: decimal where
  "CURRENCY_DELTA_THRESHOLD = dec 5 (- 2)"

definition TOP_POSITION_DELTA_THRESHOLD :: decimal where
  "TOP_POSITION_DELTA_THRESHOLD = dec 5 (- 2)"

definition ISSUER_HHI_DELTA_THRESHOLD :: decimal where
  "ISSUER_HHI_DELTA_THRESHOLD = dec 500 0"

text \<open>\<open>format(value.quantize(Decimal("0.0001")), "f")\<close>: with four places this is \<open>str\<close>.\<close>

definition weight_str :: "decimal \<Rightarrow> engine_error + string" where
  "weight_str v = rbind (dec_op (dec_quantize (- 4) v)) (\<lambda>q. Inr (dec_str q))"

definition pct_str :: "decimal \<Rightarrow> engine_error + string" where
  "pct_str v =
     rbind (dec_op (dec_quantize (- 2) (dec_mul v (dec 100 0)))) (\<lambda>q. Inr (dec_str q @ ''%''))"

definition delta_severity :: "decimal \<Rightarrow> decimal \<Rightarrow> decimal \<Rightarrow> severity" where
  "delta_severity delta medium high =
     (if dec_le high (dec_abs delta) then SevHigh
      else if dec_le medium (dec_abs delta) then SevMedium
      else SevLow)"

definition weight_map :: "allocation_metric list \<Rightarrow> (string, decimal) dict" where
  "weight_map rows = foldl (\<lambda>d row. dict_set (am_key row) (am_weight row) d) [] rows"

definition cash_weight :: "('a valued_state_scheme) \<Rightarrow> decimal" where
  "cash_weight state =
     (case find (\<lambda>row. am_key row = ''CASH'') (ss_allocation_by_asset_class state) of
        None \<Rightarrow> dec 0 0 | Some row \<Rightarrow> am_weight row)"

definition currency_weight_map :: "('a valued_state_scheme) \<Rightarrow> (string, decimal) dict" where
  "currency_weight_map state =
     (case dict_get (vs_allocation_by_attribute state) ''currency'' of
        Some rows \<Rightarrow> weight_map rows
      | None \<Rightarrow>
          foldl (\<lambda>d p. dict_set (sm_instrument_currency p)
              (dec_add (case dict_get d (sm_instrument_currency p) of None \<Rightarrow> dec 0 0 | Some w \<Rightarrow> w)
                (sm_weight p)) d) [] (vs_positions state))"

section \<open>Changes of allocation\<close>

text \<open>Collects the results of a loop body that may raise.\<close>

fun collect_changes :: "('a \<Rightarrow> engine_error + 'b list) \<Rightarrow> 'a list \<Rightarrow> engine_error + 'b list" where
  "collect_changes f [] = Inr []"
| "collect_changes f (x # xs) =
     rbind (f x) (\<lambda>ys. rbind (collect_changes f xs) (\<lambda>zs. Inr (ys @ zs)))"

text \<open>
  The record that the three loops build, from the label of what changed and its weights; the parts
  of the texts are made in the order of the code.
\<close>

definition weight_change ::
  "string \<Rightarrow> change_family \<Rightarrow> json_dict \<Rightarrow> decimal \<Rightarrow> decimal \<Rightarrow> decimal \<Rightarrow> string \<Rightarrow> string list \<Rightarrow>
   engine_error + material_change list" where
  "weight_change change_id family label before_weight after_weight threshold subject refs =
     (let delta = dec_sub after_weight before_weight in
      if dec_less (dec_abs delta) threshold then Inr []
      else rbind (weight_str before_weight) (\<lambda>b.
           rbind (weight_str after_weight) (\<lambda>a.
           rbind (weight_str delta) (\<lambda>d.
           rbind (weight_str threshold) (\<lambda>t.
           rbind (pct_str before_weight) (\<lambda>pb.
           rbind (pct_str after_weight) (\<lambda>pa.
           Inr [\<lparr>mc_change_id = change_id, mc_family = family,
                 mc_severity = delta_severity delta threshold (dec 10 (- 2)),
                 mc_before = label @ [(''weight'', JStr b)], mc_after = label @ [(''weight'', JStr a)],
                 mc_delta = [(''weight'', JStr d)], mc_threshold = [(''material_delta'', JStr t)],
                 mc_summary = subject @ '' changed from '' @ pb @ '' to '' @ pa @ ''.'',
                 mc_evidence_refs = refs\<rparr>])))))))"

definition ALLOCATION_REFS :: "string list" where
  "ALLOCATION_REFS = [''proposal.before.allocation_by_asset_class'',
     ''proposal.after_simulated.allocation_by_asset_class'']"

definition weight_in :: "(string, decimal) dict \<Rightarrow> string \<Rightarrow> decimal" where
  "weight_in m k = (case dict_get m k of None \<Rightarrow> dec 0 0 | Some w \<Rightarrow> w)"

definition build_asset_class_changes ::
  "('a explained_result_scheme) \<Rightarrow> engine_error + material_change list" where
  "build_asset_class_changes result =
     (let before_map = weight_map (ss_allocation_by_asset_class (sl_before result));
          after_map = weight_map (ss_allocation_by_asset_class (sl_after_simulated result))
      in collect_changes (\<lambda>asset_class.
           if asset_class = ''CASH'' then Inr []
           else weight_change (''asset-class:'' @ asset_class) AllocationChange
             [(''asset_class'', JStr asset_class)] (weight_in before_map asset_class)
             (weight_in after_map asset_class) ASSET_CLASS_DELTA_THRESHOLD
             (''Asset-class allocation for '' @ asset_class) ALLOCATION_REFS)
         (sorted_union (dict_keys before_map) (dict_keys after_map)))"

definition build_cash_changes ::
  "('a explained_result_scheme) \<Rightarrow> engine_error + material_change list" where
  "build_cash_changes result =
     weight_change ''cash-weight'' CashChange [] (cash_weight (sl_before result))
       (cash_weight (sl_after_simulated result)) CASH_DELTA_THRESHOLD ''Cash allocation'' ALLOCATION_REFS"

definition build_currency_changes ::
  "('a explained_result_scheme) \<Rightarrow> engine_error + material_change list" where
  "build_currency_changes result =
     (let before_map = currency_weight_map (sl_before result);
          after_map = currency_weight_map (sl_after_simulated result)
      in collect_changes (\<lambda>currency.
           weight_change (''currency:'' @ currency) CurrencyExposureChange
             [(''currency'', JStr currency)] (weight_in before_map currency)
             (weight_in after_map currency) CURRENCY_DELTA_THRESHOLD
             (''Currency exposure for '' @ currency)
             [''proposal.before.positions'', ''proposal.after_simulated.positions''])
         (sorted_union (dict_keys before_map) (dict_keys after_map)))"

section \<open>Changes of the risk lens\<close>

definition json_object :: "json \<Rightarrow> json_dict option" where
  "json_object v = (case v of JObj d \<Rightarrow> Some d | _ \<Rightarrow> None)"

definition top_position_concentration_change :: "json \<Rightarrow> engine_error + material_change list" where
  "top_position_concentration_change concentration =
     (case json_object concentration of
        None \<Rightarrow> Inr []
      | Some d \<Rightarrow>
          rbind (decimal_of_json (obj_get d ''top_position_weight_delta'')) (\<lambda>delta.
            if dec_less (dec_abs delta) TOP_POSITION_DELTA_THRESHOLD then Inr []
            else rbind (weight_str TOP_POSITION_DELTA_THRESHOLD) (\<lambda>t.
              Inr [\<lparr>mc_change_id = ''concentration:top-position'', mc_family = ConcentrationChange,
                    mc_severity = delta_severity delta TOP_POSITION_DELTA_THRESHOLD (dec 10 (- 2)),
                    mc_before = [(''weight'', JStr (py_str (obj_get d ''top_position_weight_current'')))],
                    mc_after = [(''weight'', JStr (py_str (obj_get d ''top_position_weight_proposed'')))],
                    mc_delta = [(''weight'', JStr (py_str (obj_get d ''top_position_weight_delta'')))],
                    mc_threshold = [(''material_delta'', JStr t)],
                    mc_summary = ''Top position concentration changed materially in the risk lens.'',
                    mc_evidence_refs =
                      [''proposal.explanation.risk_lens.single_position_concentration'']\<rparr>])))"

definition issuer_concentration_change :: "json \<Rightarrow> engine_error + material_change list" where
  "issuer_concentration_change concentration =
     (case json_object concentration of
        None \<Rightarrow> Inr []
      | Some d \<Rightarrow>
          rbind (decimal_of_json (obj_get d ''hhi_delta'')) (\<lambda>hhi_delta.
            if dec_less (dec_abs hhi_delta) ISSUER_HHI_DELTA_THRESHOLD then Inr []
            else Inr [\<lparr>mc_change_id = ''concentration:issuer-hhi'', mc_family = ConcentrationChange,
                    mc_severity = delta_severity hhi_delta ISSUER_HHI_DELTA_THRESHOLD (dec 1000 0),
                    mc_before = [(''hhi'', JStr (py_str (obj_get d ''hhi_current'')))],
                    mc_after = [(''hhi'', JStr (py_str (obj_get d ''hhi_proposed'')))],
                    mc_delta = [(''hhi'', JStr (py_str (obj_get d ''hhi_delta'')))],
                    mc_threshold = [(''material_hhi_delta'', JStr (dec_str ISSUER_HHI_DELTA_THRESHOLD))],
                    mc_summary = ''Issuer concentration changed materially in the risk lens.'',
                    mc_evidence_refs = [''proposal.explanation.risk_lens.issuer_concentration'']\<rparr>]))"

definition build_concentration_changes ::
  "('a explained_result_scheme) \<Rightarrow> engine_error + material_change list" where
  "build_concentration_changes result =
     (case json_object (er_risk_lens result) of
        None \<Rightarrow> Inr []
      | Some lens \<Rightarrow>
          rbind (top_position_concentration_change (obj_get lens ''single_position_concentration'')) (\<lambda>xs.
          rbind (issuer_concentration_change (obj_get lens ''issuer_concentration'')) (\<lambda>ys.
            Inr (xs @ ys))))"

section \<open>The other changes\<close>

definition MATERIAL_SUITABILITY_CHANGE_BY_ISSUE_ID :: "(string, string \<times> change_family) dict" where
  "MATERIAL_SUITABILITY_CHANGE_BY_ISSUE_ID =
     [(''MISSING_CLIENT_PRODUCT_COMPLEXITY_EVIDENCE'', ''product-complexity'', ProductComplexityChange),
      (''MISSING_MANDATE_RESTRICTED_PRODUCT_EVIDENCE'', ''mandate-alignment'', MandateAlignmentChange)]"

definition product_or_mandate_change :: "suitability_issue \<Rightarrow> material_change option" where
  "product_or_mandate_change issue =
     (if su_status_change issue \<notin> {ScNew, ScPersistent} then None
      else case dict_get MATERIAL_SUITABILITY_CHANGE_BY_ISSUE_ID (su_issue_id issue) of
             None \<Rightarrow> None
           | Some (change_id_prefix, family) \<Rightarrow>
               Some \<lparr>mc_change_id = change_id_prefix @ '':'' @ su_issue_key issue, mc_family = family,
                 mc_severity = su_severity issue, mc_before = [],
                 mc_after = map (\<lambda>(k, v). (k, JStr v)) (su_details issue),
                 mc_delta = [(''classification'', JStr (su_classification issue))], mc_threshold = [],
                 mc_summary = su_summary issue, mc_evidence_refs = [issue_ref issue]\<rparr>)"

definition build_product_and_mandate_changes :: "('a explained_result_scheme) \<Rightarrow> material_change list" where
  "build_product_and_mandate_changes result =
     (case sl_suitability result of
        None \<Rightarrow> [] | Some su \<Rightarrow> List.map_filter product_or_mandate_change (sf_issues su))"

definition build_data_quality_changes :: "missing_evidence list \<Rightarrow> material_change list" where
  "build_data_quality_changes missing =
     map (\<lambda>item. \<lparr>mc_change_id = ''data-quality:'' @ mg_reason_code item,
              mc_family = DataQualityChange,
              mc_severity = (if mg_blocking item then SevHigh else SevMedium), mc_before = [],
              mc_after = [(''evidence_type'', JStr (mg_evidence_type item))],
              mc_delta = [(''blocking'', JBool (mg_blocking item))], mc_threshold = [],
              mc_summary = mg_summary item, mc_evidence_refs = mg_evidence_refs item\<rparr>)
       (filter (\<lambda>item. mg_evidence_type item \<in> {''MARKET_PRICE'', ''FX_RATE'', ''RISK_LENS''}) missing)"

text \<open>\<open>min(requirements, key=rank).severity\<close> of a list that is not empty.\<close>

definition highest_severity :: "approval_requirement \<Rightarrow> approval_requirement list \<Rightarrow> severity" where
  "highest_severity first rest =
     foldl (\<lambda>s r. if SEVERITY_SORT (nr_severity r) < SEVERITY_SORT s then nr_severity r else s)
       (nr_severity first) rest"

definition build_approval_change :: "approval_requirement list \<Rightarrow> material_change list" where
  "build_approval_change requirements =
     (case requirements of
        [] \<Rightarrow> []
      | first # rest \<Rightarrow>
          let after_types = map JStr (sort (remdups (map
                (\<lambda>r. requirement_type_name (nr_approval_type r)) requirements)));
              count = length requirements
          in [\<lparr>mc_change_id = ''approval-requirements'', mc_family = ApprovalRequirementChange,
               mc_severity = highest_severity first rest,
               mc_before = [(''requirement_count'', JInt 0)],
               mc_after = [(''requirement_count'', JInt (int count)), (''approval_types'', JArr after_types)],
               mc_delta = [(''introduced'', JArr after_types)], mc_threshold = [],
               mc_summary = ''Proposal now requires '' @ nat_digits count @
                 '' approval or remediation actions.'',
               mc_evidence_refs = [''proposal.gate_decision'', ''proposal.suitability'']\<rparr>])"

definition change_sort_key :: "material_change \<Rightarrow> nat \<times> string \<times> string" where
  "change_sort_key c =
     (SEVERITY_SORT (mc_severity c), change_family_name (mc_family c), mc_change_id c)"

definition build_material_changes ::
  "('a explained_result_scheme) \<Rightarrow> approval_requirement list \<Rightarrow> missing_evidence list \<Rightarrow>
   engine_error + material_change list" where
  "build_material_changes result requirements missing =
     rbind (build_asset_class_changes result) (\<lambda>asset.
     rbind (build_cash_changes result) (\<lambda>cash.
     rbind (build_currency_changes result) (\<lambda>currency.
     rbind (build_concentration_changes result) (\<lambda>concentration.
       Inr (sort_key change_sort_key
         (asset @ cash @ currency @ concentration @ build_product_and_mandate_changes result @
          build_data_quality_changes missing @ build_approval_change requirements))))))"

end
