(* ===== verification/Decision_Summary.thy ===== *)
theory Decision_Summary
  imports Decision_Changes
begin

text \<open>
  The decision summary as a whole (src/core/advisory/decision_summary.py), and the orchestration that
  obtains a result, enriches and explains it and attaches the summary
  (src/core/advisory/orchestration.py, provider_ports.py). The providers that are configured at
  start-up, the environment and the builder of the alternatives are parameters.
\<close>

section \<open>Postures and references\<close>

definition DECISION_POLICY_VERSION :: string where
  "DECISION_POLICY_VERSION = ''advisory-decision-policy.2026-04''"

definition build_suitability_posture :: "suitability_result option \<Rightarrow> suitability_posture" where
  "build_suitability_posture suitability =
     (case suitability of
        None \<Rightarrow> \<lparr>sq_status = PostureNotAvailable, sq_issue_count_new = 0, sq_issue_count_resolved = 0,
                 sq_issue_count_persistent = 0, sq_highest_severity_new = None,
                 sq_recommended_gate = None\<rparr>
      | Some su \<Rightarrow> \<lparr>sq_status = PostureAvailable, sq_issue_count_new = sy_new_count (sf_summary su),
                   sq_issue_count_resolved = sy_resolved_count (sf_summary su),
                   sq_issue_count_persistent = sy_persistent_count (sf_summary su),
                   sq_highest_severity_new = sy_highest_severity_new (sf_summary su),
                   sq_recommended_gate = Some (sf_recommended_gate su)\<rparr>)"

definition build_risk_posture :: "('a explained_result_scheme) \<Rightarrow> risk_posture" where
  "build_risk_posture result =
     (case json_object (er_risk_lens result) of
        Some lens \<Rightarrow>
          \<lparr>rk_status = RiskAvailable,
           rk_source_service = (case obj_get lens ''source_service'' of JStr s \<Rightarrow> Some s | _ \<Rightarrow> None),
           rk_summary = ''Risk lens evidence is available from canonical upstream enrichment.''\<rparr>
      | None \<Rightarrow>
          \<lparr>rk_status = RiskUnavailable, rk_source_service = None,
           rk_summary = (if map_option ah_risk_authority (er_authority_resolution result) =
                Some RiskAuthorityUnavailable
              then ''Risk lens evidence is unavailable for this proposal run.''
              else ''Risk lens evidence was not attached to this proposal result.'')\<rparr>)"

definition build_client_and_mandate_posture :: "('a explained_result_scheme) \<Rightarrow> client_mandate_posture" where
  "build_client_and_mandate_posture result =
     (case er_policy_context result of
        None \<Rightarrow> \<lparr>cm_status = MandateNotEvaluated,
          cm_summary = ''Client and mandate posture was not attached to this proposal result.''\<rparr>
      | Some context \<Rightarrow>
          if client_context_available (Some context) \<and> mandate_context_available (Some context)
          then \<lparr>cm_status = MandateAvailable,
            cm_summary = ''Client and mandate context are available for policy evaluation.''\<rparr>
          else \<lparr>cm_status = MandatePartial,
            cm_summary = ''Client or mandate context is incomplete for policy evaluation.''\<rparr>)"

definition proposal_state_evidence_refs :: "('a explained_result_scheme) \<Rightarrow> string list" where
  "proposal_state_evidence_refs result =
     ''proposal.status'' #
     (if sl_gate_decision result \<noteq> None then [''proposal.gate_decision''] else []) @
     (if sl_suitability result \<noteq> None then [''proposal.suitability''] else [])"

definition explanation_evidence_refs :: "('a explained_result_scheme) \<Rightarrow> string list" where
  "explanation_evidence_refs result =
     (if er_authority_resolution result \<noteq> None
      then [''proposal.explanation.authority_resolution''] else []) @
     (if er_policy_context result \<noteq> None
      then [''proposal.explanation.advisory_policy_context''] else [])"

definition build_evidence_refs ::
  "('a explained_result_scheme) \<Rightarrow> missing_evidence list \<Rightarrow> string list" where
  "build_evidence_refs result missing =
     sort (remdups (proposal_state_evidence_refs result @ explanation_evidence_refs result @
       concat (map mg_evidence_refs missing)))"

section \<open>The summary\<close>

definition build_proposal_decision_summary ::
  "('a explained_result_scheme) \<Rightarrow> engine_error + decision_summary" where
  "build_proposal_decision_summary result =
     (let missing = build_missing_evidence result;
          status = derive_decision_status result missing;
          requirements = build_approval_requirements result missing DECISION_POLICY_VERSION
      in rbind (build_material_changes result requirements missing) (\<lambda>changes.
        let code = primary_decision_reason_code result missing status;
            summary = primary_decision_summary status code;
            action = recommended_decision_next_action status missing;
            refs = build_evidence_refs result missing
        in Inr \<lparr>dy_decision_status = status, dy_top_level_status = sl_status result,
             dy_primary_reason_code = code, dy_primary_summary = summary,
             dy_recommended_next_action = action,
             dy_decision_policy_version = DECISION_POLICY_VERSION,
             dy_suitability_policy_version = map_option sf_policy_version (sl_suitability result),
             dy_confidence = decision_confidence_of result missing,
             dy_approval_requirements = requirements, dy_material_changes = changes,
             dy_suitability_posture = build_suitability_posture (sl_suitability result),
             dy_missing_evidence = missing, dy_risk_posture = build_risk_posture result,
             dy_client_and_mandate_posture = build_client_and_mandate_posture result,
             dy_advisor_action_items =
               [\<lparr>di_action_code = action, di_reason_code = code, di_summary = summary,
                 di_evidence_refs = refs\<rparr>],
             dy_evidence_refs = refs\<rparr>))"

section \<open>Provider ports\<close>

datatype advisory_error =
    SimulationUnavailable string "int option"
  | RiskEnrichmentUnavailable string
  | EngineFailed engine_error

record dependency_state =
  dp_configured :: bool
  dp_degraded_reason :: "string option"

record fallback_policy =
  fb_requested :: bool
  fb_permitted :: bool
  fb_enabled :: bool

text \<open>
  The four module globals, the environment, and the builder of the alternatives. The readings of the
  identifiers and the hash of a local run are those of the engine.
\<close>

record advisory_ports =
  ad_simulation_provider ::
    "(simulation_request_data \<Rightarrow> advisory_error + explained_result) option"
  ad_risk_enrichment_provider ::
    "(simulation_request_data \<Rightarrow> explained_result \<Rightarrow> advisory_error + explained_result) option"
  ad_risk_dependency_state_provider :: "dependency_state option"
  ad_fallback_policy_provider :: "fallback_policy option"
  ad_environment :: "string \<Rightarrow> string option"
  ad_build_alternatives ::
    "simulation_request_data \<Rightarrow> explained_result \<Rightarrow> advisory_error + json"

definition simulate_with_advisory_simulation_provider ::
  "advisory_ports \<Rightarrow> simulation_request_data \<Rightarrow> advisory_error + explained_result" where
  "simulate_with_advisory_simulation_provider ports rq =
     (case ad_simulation_provider ports of
        None \<Rightarrow> Inl (SimulationUnavailable ''LOTUS_CORE_SIMULATION_UNAVAILABLE'' None)
      | Some provider \<Rightarrow> provider rq)"

definition enrich_with_advisory_risk_provider ::
  "advisory_ports \<Rightarrow> simulation_request_data \<Rightarrow> explained_result \<Rightarrow> advisory_error + explained_result" where
  "enrich_with_advisory_risk_provider ports rq result =
     (case ad_risk_enrichment_provider ports of
        None \<Rightarrow> Inl (RiskEnrichmentUnavailable ''LOTUS_RISK_ENRICHMENT_UNAVAILABLE'')
      | Some provider \<Rightarrow> provider rq result)"

definition build_advisory_risk_dependency_state :: "advisory_ports \<Rightarrow> dependency_state" where
  "build_advisory_risk_dependency_state ports =
     (case ad_risk_dependency_state_provider ports of
        None \<Rightarrow> \<lparr>dp_configured = False,
                 dp_degraded_reason = Some ''LOTUS_RISK_DEPENDENCY_UNAVAILABLE''\<rparr>
      | Some state \<Rightarrow> state)"

definition env_text :: "advisory_ports \<Rightarrow> string \<Rightarrow> string \<Rightarrow> string" where
  "env_text ports name unset =
     map lower_char (py_strip (case ad_environment ports name of None \<Rightarrow> unset | Some v \<Rightarrow> v))"

definition truthy_env :: "advisory_ports \<Rightarrow> string \<Rightarrow> bool" where
  "truthy_env ports name =
     (env_text ports name ''false'' \<in> {''1'', ''true'', ''yes'', ''on''})"

definition environment_allows_local_fallback :: "advisory_ports \<Rightarrow> bool" where
  "environment_allows_local_fallback ports =
     (env_text ports ''ENVIRONMENT'' ''local'' \<in>
        {''local'', ''dev'', ''development'', ''test'', ''ci''})"

definition resolve_advisory_simulation_fallback_policy :: "advisory_ports \<Rightarrow> fallback_policy" where
  "resolve_advisory_simulation_fallback_policy ports =
     (case ad_fallback_policy_provider ports of
        Some policy \<Rightarrow> policy
      | None \<Rightarrow>
          let requested = truthy_env ports ''LOTUS_ADVISE_ALLOW_LOCAL_SIMULATION_FALLBACK'';
              permitted = environment_allows_local_fallback ports
          in \<lparr>fb_requested = requested, fb_permitted = permitted, fb_enabled = requested \<and> permitted\<rparr>)"

section \<open>Orchestration\<close>

text \<open>A local result before its explanation is attached.\<close>

definition local_result :: "simulation_result \<Rightarrow> explained_result" where
  "local_result r =
     simulation_result.extend r
       \<lparr>er_authority_resolution = None, er_policy_context = None, er_risk_lens = JNull,
        er_allocation_lens_source = ''LOTUS_ADVISE_LOCAL_FALLBACK'', er_decision_summary = None,
        er_proposal_alternatives = JNull\<rparr>"

definition run_local_fallback_simulation ::
  "(string \<Rightarrow> string) \<Rightarrow> string \<Rightarrow> advisory_ports \<Rightarrow> simulation_request_data \<Rightarrow> string \<Rightarrow> int option \<Rightarrow>
   advisory_error + explained_result" where
  "run_local_fallback_simulation sha256 uuid_hex ports rq original_detail original_code =
     (let policy = resolve_advisory_simulation_fallback_policy ports in
      if fb_requested policy \<and> \<not> fb_permitted policy
      then Inl (SimulationUnavailable ''LOTUS_CORE_SIMULATION_REQUIRED_IN_THIS_ENVIRONMENT'' original_code)
      else if \<not> fb_enabled policy then Inl (SimulationUnavailable original_detail original_code)
      else rbind (rmap_error EngineFailed (run_proposal_simulation sha256 uuid_hex
             (rq\<lparr>sd_simulation_contract_version := Some ''advisory-simulation.v1''\<rparr>)))
           (\<lambda>r. Inr (local_result r)))"

definition resolve_simulation ::
  "(string \<Rightarrow> string) \<Rightarrow> string \<Rightarrow> advisory_ports \<Rightarrow> simulation_request_data \<Rightarrow>
   advisory_error + explained_result \<times> simulation_authority \<times> string list" where
  "resolve_simulation sha256 uuid_hex ports rq =
     (case simulate_with_advisory_simulation_provider ports rq of
        Inr result \<Rightarrow> Inr (result, LotusCore, [])
      | Inl (SimulationUnavailable detail code) \<Rightarrow>
          rbind (run_local_fallback_simulation sha256 uuid_hex ports rq detail code)
            (\<lambda>result. Inr (result, LocalFallback, [''LOTUS_CORE_SIMULATION_UNAVAILABLE'']))
      | Inl e \<Rightarrow> Inl e)"

definition risk_degraded_reason :: "dependency_state \<Rightarrow> string" where
  "risk_degraded_reason state =
     (case dp_degraded_reason state of
        Some reason \<Rightarrow>
          if reason \<noteq> [] then reason
          else if \<not> dp_configured state then ''LOTUS_RISK_DEPENDENCY_UNAVAILABLE''
          else ''LOTUS_RISK_ENRICHMENT_UNAVAILABLE''
      | None \<Rightarrow>
          if \<not> dp_configured state then ''LOTUS_RISK_DEPENDENCY_UNAVAILABLE''
          else ''LOTUS_RISK_ENRICHMENT_UNAVAILABLE'')"

definition resolve_risk_enrichment ::
  "advisory_ports \<Rightarrow> simulation_request_data \<Rightarrow> explained_result \<Rightarrow> string list \<Rightarrow>
   advisory_error + explained_result \<times> risk_authority \<times> string list" where
  "resolve_risk_enrichment ports rq result degraded_reasons =
     (let state = build_advisory_risk_dependency_state ports in
      case enrich_with_advisory_risk_provider ports rq result of
        Inr enriched \<Rightarrow> Inr (enriched, LotusRisk, degraded_reasons)
      | Inl (RiskEnrichmentUnavailable detail) \<Rightarrow>
          Inr (result, RiskAuthorityUnavailable, degraded_reasons @ [risk_degraded_reason state])
      | Inl e \<Rightarrow> Inl e)"

definition build_authority_resolution_explanation ::
  "simulation_authority \<Rightarrow> risk_authority \<Rightarrow> string list \<Rightarrow> engine_error + authority_resolution" where
  "build_authority_resolution_explanation simulation_authority risk_authority degraded_reasons =
     degraded_flag_matches_reasons
       \<lparr>ah_simulation_authority = simulation_authority, ah_risk_authority = risk_authority,
        ah_degraded = (degraded_reasons \<noteq> []), ah_degraded_reasons = degraded_reasons\<rparr>"

text \<open>The types that \<open>AdvisoryPolicyContextExplanation\<close> asks of its fields; others are let through.\<close>

definition optional_text_field :: "json_dict \<Rightarrow> string \<Rightarrow> bool" where
  "optional_text_field c k = (case obj_get c k of JNull \<Rightarrow> True | JStr s \<Rightarrow> True | _ \<Rightarrow> False)"

definition context_status_field :: "json_dict \<Rightarrow> string \<Rightarrow> bool" where
  "context_status_field c k =
     (case obj_get c k of JNull \<Rightarrow> True | JStr s \<Rightarrow> s \<in> {''AVAILABLE'', ''MISSING''} | _ \<Rightarrow> False)"

definition missing_context_field :: "json_dict \<Rightarrow> bool" where
  "missing_context_field c =
     (case dict_get c ''missing_context'' of
        None \<Rightarrow> True
      | Some (JArr xs) \<Rightarrow> list_all (\<lambda>x. case x of JStr s \<Rightarrow> True | _ \<Rightarrow> False) xs
      | Some _ \<Rightarrow> False)"

definition policy_context_valid :: "json_dict \<Rightarrow> bool" where
  "policy_context_valid c =
     (list_all (optional_text_field c) [''input_mode'', ''context_source'', ''household_id'', ''mandate_id'',
        ''jurisdiction'', ''legal_entity_code'', ''benchmark_id''] \<and>
      list_all (context_status_field c) [''client_context_status'', ''mandate_context_status'',
        ''jurisdiction_context_status''] \<and>
      missing_context_field c)"

definition attach_governed_explanation_sections ::
  "explained_result \<Rightarrow> authority_resolution \<Rightarrow> json_dict option \<Rightarrow> engine_error + explained_result" where
  "attach_governed_explanation_sections result authority policy_context =
     (let updated = result\<lparr>er_authority_resolution := Some authority\<rparr>
      in case policy_context of
           None \<Rightarrow> Inr updated
         | Some c \<Rightarrow>
             if policy_context_valid c then Inr (updated\<lparr>er_policy_context := Some c\<rparr>) else Inl ValueError)"

definition attach_authority_explanation ::
  "explained_result \<Rightarrow> simulation_authority \<Rightarrow> risk_authority \<Rightarrow> string list \<Rightarrow> json_dict option \<Rightarrow>
   engine_error + explained_result" where
  "attach_authority_explanation result simulation_authority risk_authority reasons policy_context =
     rbind (build_authority_resolution_explanation simulation_authority risk_authority reasons)
       (\<lambda>authority. attach_governed_explanation_sections result authority policy_context)"

definition attach_proposal_outputs ::
  "advisory_ports \<Rightarrow> simulation_request_data \<Rightarrow> explained_result \<Rightarrow> advisory_error + explained_result" where
  "attach_proposal_outputs ports rq result =
     rbind (rmap_error EngineFailed (build_proposal_decision_summary result)) (\<lambda>summary.
       let decided = result\<lparr>er_decision_summary := Some summary\<rparr>
       in rbind (ad_build_alternatives ports rq decided) (\<lambda>alternatives.
            Inr (decided\<lparr>er_proposal_alternatives := alternatives\<rparr>)))"

definition evaluate_advisory_proposal ::
  "(string \<Rightarrow> string) \<Rightarrow> string \<Rightarrow> advisory_ports \<Rightarrow> simulation_request_data \<Rightarrow>
   advisory_error + explained_result" where
  "evaluate_advisory_proposal sha256 uuid_hex ports request =
     (let rq = request\<lparr>sd_idempotency_key :=
                  normalize_optional_idempotency_key (sd_idempotency_key request)\<rparr>
      in rbind (resolve_simulation sha256 uuid_hex ports rq)
        (\<lambda>(simulated, simulation_authority, reasons).
          rbind (resolve_risk_enrichment ports rq simulated reasons)
            (\<lambda>(result, risk_authority, all_reasons).
              rbind (rmap_error EngineFailed (attach_authority_explanation result simulation_authority
                       risk_authority all_reasons (sd_policy_context rq)))
                (\<lambda>explained. attach_proposal_outputs ports rq explained))))"

end
