(* ===== verification/Simulation_Ledger.thy ===== *)
theory Simulation_Ledger
  imports Simulation_Engine
begin

text \<open>
  The abstract view of a simulated portfolio: the cash of every currency and the units of every
  instrument. Applying a cash flow, a trade or an exchange to the rows of a portfolio is executing
  the intent on this ledger; the locales state the two contracts, a change under a key and a step
  that an abstraction carries over, and the interpretations prove them for the model.
\<close>

section \<open>A change under a key\<close>

locale keyed_change =
  fixes get :: "'s \<Rightarrow> 'k \<Rightarrow> 'v"
    and change :: "('v \<Rightarrow> 'v) \<Rightarrow> 's \<Rightarrow> 'k \<Rightarrow> 's"
  assumes get_change: "get (change f s k) j = (if j = k then f (get s k) else get s j)"
begin

lemma get_change_upd: "get (change f s k) = (get s)(k := f (get s k))"
  by (rule ext) (simp add: get_change)

lemma change_commute: "k \<noteq> j \<Longrightarrow> get (change f (change g s k) j) = get (change g (change f s j) k)"
  by (rule ext) (auto simp: get_change)

lemma get_change_run:
  "j \<notin> k ` set xs \<Longrightarrow> get (foldl (\<lambda>s x. change (f x) s (k x)) s xs) j = get s j"
  by (induction xs arbitrary: s) (auto simp: get_change)

end

lemma cash_rows_ensure [simp]:
  "pn_positions (ensure_cash_balance pf c) = pn_positions pf"
  "pn_base_currency (ensure_cash_balance pf c) = pn_base_currency pf"
  "pn_cash_balances (ensure_cash_balance pf c) =
    (if find (\<lambda>b. cb_currency b = c) (pn_cash_balances pf) = None
     then pn_cash_balances pf @
       [\<lparr>cb_currency = c, cb_amount = dec 0 0, cb_settled = None, cb_pending = None\<rparr>]
     else pn_cash_balances pf)"
  by (simp_all add: ensure_cash_balance_def)

lemma position_rows_ensure [simp]:
  "pn_cash_balances (ensure_position pf i) = pn_cash_balances pf"
  "pn_base_currency (ensure_position pf i) = pn_base_currency pf"
  "pn_positions (ensure_position pf i) =
    (if find (\<lambda>p. po_instrument_id p = i) (pn_positions pf) = None
     then pn_positions pf @
       [\<lparr>po_instrument_id = i, po_quantity = dec 0 0, po_market_value = None, po_lots = []\<rparr>]
     else pn_positions pf)"
  by (simp_all add: ensure_position_def)

lemma cash_amount_ensure [simp]: "cash_amount (ensure_cash_balance pf c) d = cash_amount pf d"
  by (auto simp: cash_amount_def find_append split: option.split)

lemma position_quantity_ensure_cash [simp]:
  "position_quantity (ensure_cash_balance pf c) i = position_quantity pf i"
  by (simp add: position_quantity_def)

lemma cash_amount_change:
  "cash_amount (change_cash f pf c) d = (if d = c then f (cash_amount pf c) else cash_amount pf d)"
proof -
  have upd: "find (\<lambda>b. cb_currency b = d) (update_first (\<lambda>b. cb_currency b = c)
        (\<lambda>b. b\<lparr>cb_amount := f (cb_amount b)\<rparr>) bs) =
      (if d = c then map_option (\<lambda>b. b\<lparr>cb_amount := f (cb_amount b)\<rparr>)
         (find (\<lambda>b. cb_currency b = c) bs) else find (\<lambda>b. cb_currency b = d) bs)" for bs
    by (rule find_update_first) simp
  show ?thesis
    by (auto simp: change_cash_def cash_amount_def Let_def upd find_append split: option.split)
qed

lemma position_quantity_change:
  "position_quantity (change_position f pf i) j =
    (if j = i then f (position_quantity pf i) else position_quantity pf j)"
proof -
  have upd: "find (\<lambda>p. po_instrument_id p = j) (update_first (\<lambda>p. po_instrument_id p = i)
        (\<lambda>p. p\<lparr>po_quantity := f (po_quantity p)\<rparr>) ps) =
      (if j = i then map_option (\<lambda>p. p\<lparr>po_quantity := f (po_quantity p)\<rparr>)
         (find (\<lambda>p. po_instrument_id p = i) ps) else find (\<lambda>p. po_instrument_id p = j) ps)" for ps
    by (rule find_update_first) simp
  show ?thesis
    by (auto simp: change_position_def position_quantity_def Let_def upd find_append
        split: option.split)
qed

interpretation cash: keyed_change cash_amount change_cash
  by unfold_locales (rule cash_amount_change)

interpretation units: keyed_change position_quantity change_position
  by unfold_locales (rule position_quantity_change)

lemma change_frame [simp]:
  "position_quantity (change_cash f pf c) = position_quantity pf"
  "cash_amount (change_position f pf i) = cash_amount pf"
  "pn_base_currency (change_cash f pf c) = pn_base_currency pf"
  "pn_base_currency (change_position f pf i) = pn_base_currency pf"
  by (simp_all add: fun_eq_iff change_cash_def change_position_def Let_def position_quantity_def
      cash_amount_def)

section \<open>The ledger\<close>

record ledger =
  lg_cash :: "string \<Rightarrow> decimal"
  lg_units :: "string \<Rightarrow> decimal"

definition ledger_of :: "portfolio_snapshot \<Rightarrow> ledger" where
  "ledger_of pf = \<lparr>lg_cash = cash_amount pf, lg_units = position_quantity pf\<rparr>"

definition add_cash :: "(decimal \<Rightarrow> decimal) \<Rightarrow> string \<Rightarrow> ledger \<Rightarrow> ledger" where
  "add_cash f c l = l\<lparr>lg_cash := (lg_cash l)(c := f (lg_cash l c))\<rparr>"

definition add_units :: "(decimal \<Rightarrow> decimal) \<Rightarrow> string \<Rightarrow> ledger \<Rightarrow> ledger" where
  "add_units f i l = l\<lparr>lg_units := (lg_units l)(i := f (lg_units l i))\<rparr>"

fun execute_intent :: "ledger \<Rightarrow> order_intent \<Rightarrow> ledger" where
  "execute_intent l (CashFlow i) = add_cash (\<lambda>a. dec_add a (ci_amount i)) (ci_currency i) l"
| "execute_intent l (FxSpot i) =
     add_cash (\<lambda>a. dec_add a (xi_buy_amount i)) (xi_buy_currency i)
       (add_cash (\<lambda>a. dec_sub a (xi_sell_amount_estimated i)) (xi_sell_currency i) l)"
| "execute_intent l (SecurityTrade i) =
     (case (si_notional i, si_quantity i) of
        (Some m, Some q) \<Rightarrow>
          (case si_side i of
             Buy \<Rightarrow> add_cash (\<lambda>a. dec_sub a (mn_amount m)) (mn_currency m)
                      (add_units (\<lambda>u. dec_add u q) (si_instrument_id i) l)
           | Sell \<Rightarrow> add_cash (\<lambda>a. dec_add a (mn_amount m)) (mn_currency m)
                       (add_units (\<lambda>u. dec_sub u q) (si_instrument_id i) l))
      | _ \<Rightarrow> l)"

lemma ledger_of_change [simp]:
  "ledger_of (change_cash f pf c) = add_cash f c (ledger_of pf)"
  "ledger_of (change_position f pf i) = add_units f i (ledger_of pf)"
  "ledger_of (ensure_cash_balance pf c) = ledger_of pf"
  by (simp_all add: ledger_of_def add_cash_def add_units_def cash.get_change_upd units.get_change_upd
      fun_eq_iff)

section \<open>Steps that the abstraction carries over\<close>

locale step_refinement =
  fixes abstraction :: "'p \<Rightarrow> 'l"
    and concrete :: "'p \<Rightarrow> 'i \<Rightarrow> 'p"
    and abstract :: "'l \<Rightarrow> 'i \<Rightarrow> 'l"
  assumes step: "abstraction (concrete p i) = abstract (abstraction p) i"
begin

lemma run: "abstraction (foldl concrete p is) = foldl abstract (abstraction p) is"
  by (induction "is" arbitrary: p) (simp_all add: step)

end

interpretation flow: step_refinement ledger_of apply_proposal_cash_flow
    "\<lambda>l cf. add_cash (\<lambda>a. dec_add a (cf_amount cf)) (cf_currency cf) l"
  by unfold_locales (simp add: apply_proposal_cash_flow_def)

interpretation trade: step_refinement ledger_of apply_security_trade_to_portfolio
    "\<lambda>l i. execute_intent l (SecurityTrade i)"
  by unfold_locales
    (simp add: apply_security_trade_to_portfolio_def split: option.split trade_side.split)

interpretation exchange: step_refinement ledger_of apply_fx_spot_to_portfolio
    "\<lambda>l i. execute_intent l (FxSpot i)"
  by unfold_locales (simp add: apply_fx_spot_to_portfolio_def)

lemma apply_base_currency [simp]:
  "pn_base_currency (apply_proposal_cash_flow pf cf) = pn_base_currency pf"
  "pn_base_currency (apply_security_trade_to_portfolio pf i) = pn_base_currency pf"
  "pn_base_currency (apply_fx_spot_to_portfolio pf x) = pn_base_currency pf"
  by (simp_all add: apply_proposal_cash_flow_def apply_security_trade_to_portfolio_def
      apply_fx_spot_to_portfolio_def split: option.split trade_side.split)

text \<open>The dependencies of an intent do not matter to its execution.\<close>

lemma execute_dependencies [simp]:
  "execute_intent l (SecurityTrade (i\<lparr>si_dependencies := ds\<rparr>)) = execute_intent l (SecurityTrade i)"
  by (simp split: option.split trade_side.split)

text \<open>The ledger of a valued state is read from its rows in the same way.\<close>

definition state_ledger :: "valued_state \<Rightarrow> ledger" where
  "state_ledger st =
     \<lparr>lg_cash = (\<lambda>c. case find (\<lambda>b. cb_currency b = c) (vs_cash_balances st) of
        None \<Rightarrow> dec 0 0 | Some b \<Rightarrow> cb_amount b),
      lg_units = (\<lambda>i. case find (\<lambda>p. sm_instrument_id p = i) (vs_positions st) of
        None \<Rightarrow> dec 0 0 | Some p \<Rightarrow> sm_quantity p)\<rparr>"

section \<open>Diagnostics only grow\<close>

definition quality_later :: "data_quality \<Rightarrow> data_quality \<Rightarrow> bool" where
  "quality_later d e = (\<forall>k. prefix (dict_list d k) (dict_list e k))"

lemma quality_later_refl [simp, intro]: "quality_later d d"
  by (simp add: quality_later_def)

lemma quality_later_trans [trans]: "quality_later d e \<Longrightarrow> quality_later e f \<Longrightarrow> quality_later d f"
  unfolding quality_later_def by (blast intro: prefix_order.trans)

lemma quality_later_push [simp, intro]: "quality_later d (dict_push k x d)"
  by (simp add: quality_later_def)

lemma quality_later_empty: "quality_later d e \<Longrightarrow> dict_list e k = [] \<Longrightarrow> dict_list d k = []"
  unfolding quality_later_def by (metis prefix_bot.extremum_uniqueI)

lemma log_quality_simps [simp]:
  "dg_data_quality (log_quality k x dg) = dict_push k x (dg_data_quality dg)"
  "dg_missing_fx_pairs (log_quality k x dg) = dg_missing_fx_pairs dg"
  "dg_suppressed_intents (log_quality k x dg) = dg_suppressed_intents dg"
  "dg_warnings (log_quality k x dg) = dg_warnings dg"
  "dg_data_quality (add_warning w dg) = dg_data_quality dg"
  "dg_data_quality (add_funding_plan p dg) = dg_data_quality dg"
  by (simp_all add: log_quality_def add_warning_def add_funding_plan_def)

lemma record_missing_fx_pair_later [simp, intro]:
  "quality_later (dg_data_quality dg) (dg_data_quality (record_missing_fx_pair dg pair))"
  by (simp add: record_missing_fx_pair_def Let_def)

end
