(* ===== verification/Simulation_Laws.thy ===== *)
theory Simulation_Laws
  imports Simulation_Ledger Canonical_Injective
begin

text \<open>
  What each stage of the simulation does: the cash flows and trades become intents or leave a trace
  in the diagnostics and the failures, the funding adds exchanges whose effect is that of executing
  them, and the plan lists what was applied, in the order in which it was applied.
\<close>

section \<open>Cash flows\<close>

lemma build_cash_flow_intents_facts:
  "build_cash_flow_intents idx cfs options pf dg hf = (intents, pf', dg', hf') \<Longrightarrow>
    ledger_of pf' = foldl execute_intent (ledger_of pf) (map CashFlow intents) \<and>
    pn_base_currency pf' = pn_base_currency pf \<and>
    dg_data_quality dg' = dg_data_quality dg \<and> prefix hf hf' \<and>
    intents = map (\<lambda>(n, cf). cash_flow_intent_of cf n) (enumerate idx cfs)"
proof (induction idx cfs options pf dg hf arbitrary: intents pf' dg' hf'
    rule: build_cash_flow_intents.induct)
  case (1 idx options pf dg hf)
  then show ?case by simp
next
  case (2 idx cf cfs options pf dg hf)
  define pf1 where "pf1 = apply_proposal_cash_flow pf cf"
  obtain dg1 hf1 where rec: "record_negative_cash_failure_if_needed pf1 cf options dg hf = (dg1, hf1)"
    by fastforce
  obtain rest where rest: "build_cash_flow_intents (idx + 1) cfs options pf1 dg1 hf1 =
      (rest, pf', dg', hf')" and intents: "intents = cash_flow_intent_of cf idx # rest"
    using "2.prems" rec by (auto simp: pf1_def Let_def split: prod.splits)
  have "dg_data_quality dg1 = dg_data_quality dg" "prefix hf hf1"
    using rec by (auto simp: record_negative_cash_failure_if_needed_def split: if_splits)
  moreover have "ledger_of pf1 = execute_intent (ledger_of pf) (CashFlow (cash_flow_intent_of cf idx))"
    unfolding pf1_def flow.step by (simp add: cash_flow_intent_of_def)
  moreover have "pn_base_currency pf1 = pn_base_currency pf" by (simp add: pf1_def)
  moreover note "2.IH" [OF pf1_def rec [symmetric] refl rest]
  ultimately show ?case by (auto simp: intents intro: prefix_order.trans)
qed

section \<open>Trades\<close>

text \<open>The intent that stands for a trade, sized by the price of its instrument.\<close>

definition trade_sized :: "market_data_snapshot \<Rightarrow> proposed_trade \<Rightarrow> security_trade_intent \<Rightarrow> bool" where
  "trade_sized md trade i =
     (si_side i = pt_side trade \<and> si_instrument_id i = pt_instrument_id trade \<and>
      (\<exists>p q m. price_for md (pt_instrument_id trade) = Some p \<and> si_quantity i = Some q \<and>
         si_notional i = Some m \<and> mn_currency m = pr_currency p \<and>
         (case pt_quantity trade of
            Some units \<Rightarrow> q = units \<and> mn_amount m = dec_mul units (pr_price p)
          | None \<Rightarrow> pt_notional trade = Some m \<and> \<not> dec_is_zero (pr_price p) \<and>
                     q = dec_quot (mn_amount m) (pr_price p))))"

definition trade_intent_id :: "nat \<Rightarrow> string" where
  "trade_intent_id n = ''oi_'' @ nat_digits (n + 1)"

text \<open>What a trade without an intent leaves behind.\<close>

definition trade_refused :: "diagnostics_data \<Rightarrow> string list \<Rightarrow> bool" where
  "trade_refused dg hf =
     (hf \<noteq> [] \<or> dict_list (dg_data_quality dg) ''shelf_missing'' \<noteq> [] \<or>
      dict_list (dg_data_quality dg) ''price_missing'' \<noteq> [])"

lemma resolve_trade_notional_sized:
  assumes "resolve_trade_notional trade p = Inr (Some n)"
  shows "tn_currency n = pr_currency p \<and>
    (case pt_quantity trade of
       Some units \<Rightarrow> tn_quantity n = units \<and> tn_amount n = dec_mul units (pr_price p)
     | None \<Rightarrow> (\<exists>m. pt_notional trade = Some m \<and> mn_currency m = pr_currency p \<and>
                 mn_amount m = tn_amount n) \<and>
              \<not> dec_is_zero (pr_price p) \<and> tn_quantity n = dec_quot (tn_amount n) (pr_price p))"
  using assms
  by (auto simp: resolve_trade_notional_def dec_op_def dec_div_def rbind_eq_Inr
      split: option.splits if_splits)

lemma security_trade_intent_for_trade_facts:
  assumes "security_trade_intent_for_trade trade entries md base new_id options dg hf =
    Inr (intent, dg', hf')"
  shows "quality_later (dg_data_quality dg) (dg_data_quality dg') \<and> prefix hf hf' \<and>
    (case intent of
       None \<Rightarrow> trade_refused dg' hf'
     | Some i \<Rightarrow> trade_sized md trade i \<and> si_intent_id i = new_id \<and> si_dependencies i = [])"
proof (cases "dict_get entries (pt_instrument_id trade)")
  case None
  with assms show ?thesis
    by (auto simp: security_trade_intent_for_trade_def trade_has_shelf_entry_def trade_refused_def)
next
  case (Some entry)
  show ?thesis
  proof (cases "shelf_supports_trade trade entry options")
    case False
    with Some assms show ?thesis
      by (auto simp: security_trade_intent_for_trade_def trade_has_shelf_entry_def trade_refused_def
          trade_is_supported_by_shelf_def)
  next
    case True
    with Some assms have built:
      "build_supported_security_trade_intent trade md base new_id dg hf = Inr (intent, dg', hf')"
      by (simp add: security_trade_intent_for_trade_def trade_has_shelf_entry_def
          trade_is_supported_by_shelf_def)
    show ?thesis
    proof (cases "price_for md (pt_instrument_id trade)")
      case None
      with built show ?thesis
        by (auto simp: build_supported_security_trade_intent_def trade_refused_def
            build_proposal_security_trade_intent_def)
    next
      case (Some p)
      with built obtain resolved where r: "resolve_trade_notional trade p = Inr resolved"
        by (auto simp: build_supported_security_trade_intent_def rbind_eq_Inr
            build_proposal_security_trade_intent_def)
      show ?thesis
      proof (cases resolved)
        case None
        with Some built r show ?thesis
          by (auto simp: build_supported_security_trade_intent_def trade_refused_def
              build_proposal_security_trade_intent_def)
      next
        case (Some n)
        with r have n: "resolve_trade_notional trade p = Inr (Some n)" by simp
        obtain base_money dg1 where nb: "notional_base_money md n base dg = (base_money, dg1)"
          by fastforce
        have "quality_later (dg_data_quality dg) (dg_data_quality dg1)"
          using nb by (auto simp: notional_base_money_def split: option.splits)
        moreover have "dg' = dg1 \<and> hf' = hf \<and> (\<exists>i. intent = Some i \<and> trade_sized md trade i \<and>
            si_intent_id i = new_id \<and> si_dependencies i = [])"
          using built \<open>price_for md (pt_instrument_id trade) = Some p\<close> n nb
            resolve_trade_notional_sized [OF n]
          by (auto simp: build_supported_security_trade_intent_def trade_sized_def
              build_proposal_security_trade_intent_def split: option.splits)
        ultimately show ?thesis by auto
      qed
    qed
  qed
qed

lemma trade_refused_later:
  assumes "trade_refused dg hf" "quality_later (dg_data_quality dg) (dg_data_quality dg')" "prefix hf hf'"
  shows "trade_refused dg' hf'"
  using assms quality_later_empty [OF assms(2)] unfolding trade_refused_def by auto

text \<open>The intents stand for the trades in order; where one is missing, the run has a trace of it.\<close>

lemma security_trade_loop_facts:
  "security_trade_loop idx trades entries md base options dg hf = Inr (intents, dg', hf') \<Longrightarrow>
    quality_later (dg_data_quality dg) (dg_data_quality dg') \<and> prefix hf hf' \<and>
    subseq (map si_intent_id intents) (map trade_intent_id [idx..<idx + length trades]) \<and>
    (\<forall>i \<in> set intents. si_dependencies i = [] \<and> (\<exists>trade \<in> set trades. trade_sized md trade i)) \<and>
    (trade_refused dg' hf' \<or>
     list_all2 (trade_sized md) trades intents \<and>
     map si_intent_id intents = map trade_intent_id [idx..<idx + length trades])"
proof (induction idx trades entries md base options dg hf arbitrary: intents dg' hf'
    rule: security_trade_loop.induct)
  case (1 idx entries md base options dg hf)
  then show ?case by simp
next
  case (2 idx trade trades entries md base options dg hf)
  obtain intent dg1 hf1 rest where
    first: "security_trade_intent_for_trade trade entries md base (trade_intent_id idx) options dg hf =
      Inr (intent, dg1, hf1)" and
    rest: "security_trade_loop (idx + 1) trades entries md base options dg1 hf1 = Inr (rest, dg', hf')" and
    intents: "intents = (case intent of None \<Rightarrow> rest | Some i \<Rightarrow> i # rest)"
    using "2.prems" by (auto simp: rbind_eq_Inr trade_intent_id_def)
  define ids where "ids = map trade_intent_id [idx + 1..<idx + 1 + length trades]"
  have ids: "map trade_intent_id [idx..<idx + length (trade # trades)] = trade_intent_id idx # ids"
    by (simp add: ids_def upt_conv_Cons del: upt_Suc)
  note IH = "2.IH" [OF rest, folded ids_def]
  note F = security_trade_intent_for_trade_facts [OF first]
  have later: "quality_later (dg_data_quality dg) (dg_data_quality dg')" "prefix hf hf'"
    using F IH by (auto intro: quality_later_trans prefix_order.trans)
  show ?case
  proof (cases intent)
    case None
    with F IH have "trade_refused dg' hf'" by (auto intro: trade_refused_later)
    with later IH None show ?thesis unfolding ids intents by (auto intro: list_emb_Cons)
  next
    case (Some i)
    with F IH later show ?thesis unfolding ids intents by auto
  qed
qed

section \<open>Funding\<close>

lemma select_funding_loop_facts:
  "select_funding_loop cs md target needed pf dg smallest = Inr (sel, deficit, pf', dg') \<Longrightarrow>
    ledger_of pf' = ledger_of pf \<and> pn_base_currency pf' = pn_base_currency pf \<and>
    quality_later (dg_data_quality dg) (dg_data_quality dg') \<and>
    (\<forall>s. sel = Some s \<longrightarrow> fs_pair s = fx_pair_of target (fs_funding_currency s))"
proof (induction cs md target needed pf dg smallest arbitrary: sel deficit pf' dg'
    rule: select_funding_loop.induct)
  case (1 md target needed pf dg smallest)
  then show ?case by simp
next
  case (2 c cs md target needed pf dg smallest)
  define candidate where "candidate = candidate_funding_source md target c"
  show ?case
  proof (cases "fc_rate candidate")
    case None
    then have "select_funding_loop cs md target needed pf
        (record_missing_fx_pair dg (fc_pair candidate)) smallest = Inr (sel, deficit, pf', dg')"
      using "2.prems" by (simp add: candidate_def Let_def)
    then show ?thesis
      using "2.IH"(1) [OF candidate_def None] record_missing_fx_pair_later
      by (blast intro: quality_later_trans)
  next
    case (Some rate)
    then obtain s d pf1 where
      found: "funding_selection_for_candidate pf needed candidate = Inr (s, d, pf1)"
      using "2.prems" by (auto simp: candidate_def Let_def rbind_eq_Inr)
    then have pf1: "ledger_of pf1 = ledger_of pf" "pn_base_currency pf1 = pn_base_currency pf"
      and s: "\<forall>x. s = Some x \<longrightarrow> fs_pair x = fx_pair_of target (fs_funding_currency x)"
      using Some by (auto simp: funding_selection_for_candidate_def Let_def rbind_eq_Inr candidate_def
          candidate_funding_source_def split: if_splits)
    show ?thesis
    proof (cases s)
      case (Some x)
      with "2.prems" found \<open>fc_rate candidate = Some rate\<close>
      have "sel = s \<and> pf' = pf1 \<and> dg' = dg" by (auto simp: candidate_def Let_def)
      with pf1 s show ?thesis by simp
    next
      case None
      with "2.prems" found \<open>fc_rate candidate = Some rate\<close> have
        "select_funding_loop cs md target needed pf1 dg (case d of None \<Rightarrow> smallest
           | Some d \<Rightarrow> Some (smaller_funding_deficit smallest d)) = Inr (sel, deficit, pf', dg')"
        by (simp add: candidate_def Let_def)
      then show ?thesis using "2.IH"(2) [OF candidate_def] \<open>fc_rate candidate = Some rate\<close> None pf1
        by auto
    qed
  qed
qed

definition fx_intent_id :: "nat \<Rightarrow> string" where
  "fx_intent_id n = ''oi_fx_'' @ nat_digits (n + 1)"

text \<open>
  One currency of the funding loop: it adds the exchange that buys the currency, or nothing; a
  currency it cannot fund leaves a failure or asks for a review.
\<close>

inductive funding_step :: "string \<Rightarrow> funding_state \<Rightarrow> bool \<Rightarrow> funding_state \<Rightarrow> bool" where
  unfunded: "ledger_of (fu_portfolio s') = ledger_of (fu_portfolio s) \<Longrightarrow>
     pn_base_currency (fu_portfolio s') = pn_base_currency (fu_portfolio s) \<Longrightarrow>
     quality_later (dg_data_quality (fu_diagnostics s)) (dg_data_quality (fu_diagnostics s')) \<Longrightarrow>
     fu_fx_intents s' = fu_fx_intents s \<Longrightarrow> fu_fx_by_currency s' = fu_fx_by_currency s \<Longrightarrow>
     prefix (fu_hard_failures s) (fu_hard_failures s') \<Longrightarrow>
     fu_unfunded_currencies s' = fu_unfunded_currencies s \<or> pending \<or> fu_hard_failures s' \<noteq> [] \<Longrightarrow>
     funding_step c s pending s'"
| funded: "ledger_of (fu_portfolio s') = execute_intent (ledger_of (fu_portfolio s)) (FxSpot x) \<Longrightarrow>
     pn_base_currency (fu_portfolio s') = pn_base_currency (fu_portfolio s) \<Longrightarrow>
     quality_later (dg_data_quality (fu_diagnostics s)) (dg_data_quality (fu_diagnostics s')) \<Longrightarrow>
     xi_intent_id x = fx_intent_id (length (fu_fx_intents s)) \<Longrightarrow>
     xi_pair x = fx_pair_of (xi_buy_currency x) (xi_sell_currency x) \<Longrightarrow>
     xi_buy_currency x = c \<Longrightarrow> xi_dependencies x = [] \<Longrightarrow>
     fu_fx_intents s' = fu_fx_intents s @ [x] \<Longrightarrow>
     fu_fx_by_currency s' = dict_set c (xi_intent_id x) (fu_fx_by_currency s) \<Longrightarrow>
     fu_hard_failures s' = fu_hard_failures s \<Longrightarrow>
     fu_unfunded_currencies s' = fu_unfunded_currencies s \<Longrightarrow>
     funding_step c s pending s'"

lemma record_unfunded_step:
  assumes "record_unfunded_target_currency s options c deficit plan = Inr (pending, s')"
  shows "funding_step c s pending s'"
  using assms
  by (intro funding_step.unfunded)
    (auto simp: record_unfunded_target_currency_def record_missing_fx_funding_failure_def Let_def
      rbind_eq_Inr split: if_splits option.splits)

lemma record_funding_step:
  assumes "record_funding_fx_intent s c needed sel plan = Inr s'"
    and "fs_pair sel = fx_pair_of c (fs_funding_currency sel)"
  shows "funding_step c s pending s'"
proof -
  obtain buy where "quantize_amount_for_currency needed c = Inr buy"
    using assms(1) by (auto simp: record_funding_fx_intent_def rbind_eq_Inr)
  then show ?thesis
    using assms
    by (intro funding_step.funded [where
        x = "\<lparr>xi_intent_id = fx_intent_id (length (fu_fx_intents s)), xi_pair = fs_pair sel,
          xi_buy_currency = c, xi_buy_amount = buy, xi_sell_currency = fs_funding_currency sel,
          xi_sell_amount_estimated = fs_sell_required sel, xi_dependencies = [],
          xi_rationale = Some (''FUNDING'', ''Fund '' @ c @ '' buys'')\<rparr>"])
      (auto simp: record_funding_fx_intent_def Let_def exchange.step fx_intent_id_def)
qed

lemma funding_step_start:
  assumes "funding_step c s1 pending s'"
    and "ledger_of (fu_portfolio s1) = ledger_of (fu_portfolio s)"
    and "pn_base_currency (fu_portfolio s1) = pn_base_currency (fu_portfolio s)"
    and "quality_later (dg_data_quality (fu_diagnostics s)) (dg_data_quality (fu_diagnostics s1))"
    and "fu_fx_intents s1 = fu_fx_intents s" "fu_fx_by_currency s1 = fu_fx_by_currency s"
    and "fu_hard_failures s1 = fu_hard_failures s"
    and "fu_unfunded_currencies s1 = fu_unfunded_currencies s"
  shows "funding_step c s pending s'"
  using assms(1)
proof cases
  case unfunded
  then show ?thesis using assms(2-)
    by (intro funding_step.unfunded) (auto intro: quality_later_trans)
next
  case (funded x)
  then show ?thesis using assms(2-)
    by (intro funding_step.funded [where x = x]) (auto intro: quality_later_trans)
qed

lemma fund_target_currency_step:
  assumes "fund_target_currency s md options c buys = Inr (pending, s')"
  shows "funding_step c s pending s'"
proof -
  obtain needed plan pf1 where need:
    "target_currency_funding_need (fu_portfolio s) c buys = Inr (needed, plan, pf1)"
    using assms by (auto simp: fund_target_currency_def rbind_eq_Inr)
  then have pf1: "ledger_of pf1 = ledger_of (fu_portfolio s)"
      "pn_base_currency pf1 = pn_base_currency (fu_portfolio s)"
    by (auto simp: target_currency_funding_need_def rbind_eq_Inr Let_def)
  show ?thesis
  proof (cases "dec_le needed (dec 0 0)")
    case True
    with assms need pf1 show ?thesis
      by (intro funding_step.unfunded) (auto simp: fund_target_currency_def Let_def)
  next
    case False
    with assms need obtain sel deficit pf2 dg2 where
      sel: "select_funding_source pf1 md options (fu_diagnostics s) c needed
        (map cb_currency (pn_cash_balances pf1)) = Inr (sel, deficit, pf2, dg2)"
      by (auto simp: fund_target_currency_def rbind_eq_Inr Let_def)
    define s2 where "s2 = s\<lparr>fu_portfolio := pf2, fu_diagnostics := dg2\<rparr>"
    note L = select_funding_loop_facts [OF sel [unfolded select_funding_source_def]]
    have step: "funding_step c s2 pending s'"
    proof (cases sel)
      case None
      with assms need False sel show ?thesis
        by (intro record_unfunded_step) (auto simp: fund_target_currency_def Let_def s2_def)
    next
      case (Some x)
      with assms need False sel have "record_funding_fx_intent s2 c needed x plan = Inr s'"
        by (auto simp: fund_target_currency_def Let_def s2_def rbind_eq_Inr)
      with L Some show ?thesis by (intro record_funding_step) auto
    qed
    show ?thesis by (rule funding_step_start [OF step]) (use L pf1 in \<open>simp_all add: s2_def\<close>)
  qed
qed

text \<open>What the funding loop has established after the currencies it went through.\<close>

definition funding_inv :: "portfolio_snapshot \<Rightarrow> funding_state \<Rightarrow> bool" where
  "funding_inv pf s =
     (ledger_of (fu_portfolio s) = foldl execute_intent (ledger_of pf) (map FxSpot (fu_fx_intents s)) \<and>
      pn_base_currency (fu_portfolio s) = pn_base_currency pf \<and>
      map xi_intent_id (fu_fx_intents s) = map fx_intent_id [0..<length (fu_fx_intents s)] \<and>
      (\<forall>x \<in> set (fu_fx_intents s). xi_dependencies x = [] \<and>
         xi_pair x = fx_pair_of (xi_buy_currency x) (xi_sell_currency x)) \<and>
      (\<forall>c d. dict_get (fu_fx_by_currency s) c = Some d \<longrightarrow> d \<in> xi_intent_id ` set (fu_fx_intents s)))"

lemma funding_step_inv:
  assumes "funding_step c s pending s'" "funding_inv pf s"
  shows "funding_inv pf s'"
  using assms by cases (auto simp: funding_inv_def split: if_splits)

lemma fund_target_currencies_facts:
  "fund_target_currencies cs grouped md options fp s = Inr (pending, s') \<Longrightarrow>
    (funding_inv pf s \<longrightarrow> funding_inv pf s') \<and> (fp \<longrightarrow> pending) \<and>
    quality_later (dg_data_quality (fu_diagnostics s)) (dg_data_quality (fu_diagnostics s')) \<and>
    prefix (fu_hard_failures s) (fu_hard_failures s') \<and>
    (fu_unfunded_currencies s' = fu_unfunded_currencies s \<or> pending \<or> fu_hard_failures s' \<noteq> []) \<and>
    (\<exists>ys. map xi_buy_currency (fu_fx_intents s') = map xi_buy_currency (fu_fx_intents s) @ ys \<and>
          subseq ys cs)"
proof (induction cs grouped md options fp s arbitrary: pending s'
    rule: fund_target_currencies.induct)
  case (1 grouped md options fp s)
  then show ?case by simp
next
  case (2 c cs grouped md options fp s)
  obtain p1 s1 where one: "fund_target_currency s md options c (dict_list grouped c) = Inr (p1, s1)"
    and rest: "fund_target_currencies cs grouped md options (p1 \<or> fp) s1 = Inr (pending, s')"
    using "2.prems" by (auto simp: rbind_eq_Inr)
  note IH = "2.IH" [OF rest]
  note step = fund_target_currency_step [OF one]
  have "(funding_inv pf s \<longrightarrow> funding_inv pf s1) \<and>
    quality_later (dg_data_quality (fu_diagnostics s)) (dg_data_quality (fu_diagnostics s1)) \<and>
    prefix (fu_hard_failures s) (fu_hard_failures s1) \<and>
    (fu_unfunded_currencies s1 = fu_unfunded_currencies s \<or> p1 \<or> fu_hard_failures s1 \<noteq> []) \<and>
    (\<exists>ys. map xi_buy_currency (fu_fx_intents s1) = map xi_buy_currency (fu_fx_intents s) @ ys \<and>
          subseq ys [c])"
    using step funding_step_inv [OF step] by cases auto
  then obtain ys where one_facts: "funding_inv pf s \<longrightarrow> funding_inv pf s1"
    "quality_later (dg_data_quality (fu_diagnostics s)) (dg_data_quality (fu_diagnostics s1))"
    "prefix (fu_hard_failures s) (fu_hard_failures s1)"
    "fu_unfunded_currencies s1 = fu_unfunded_currencies s \<or> p1 \<or> fu_hard_failures s1 \<noteq> []"
    "map xi_buy_currency (fu_fx_intents s1) = map xi_buy_currency (fu_fx_intents s) @ ys" "subseq ys [c]"
    by blast
  obtain zs where rest_facts: "funding_inv pf s1 \<longrightarrow> funding_inv pf s'" "p1 \<or> fp \<longrightarrow> pending"
    "quality_later (dg_data_quality (fu_diagnostics s1)) (dg_data_quality (fu_diagnostics s'))"
    "prefix (fu_hard_failures s1) (fu_hard_failures s')"
    "fu_unfunded_currencies s' = fu_unfunded_currencies s1 \<or> pending \<or> fu_hard_failures s' \<noteq> []"
    "map xi_buy_currency (fu_fx_intents s') = map xi_buy_currency (fu_fx_intents s1) @ zs" "subseq zs cs"
    using IH by blast
  have "subseq (ys @ zs) ([c] @ cs)" using one_facts(6) rest_facts(7) by (rule list_emb_append_mono)
  moreover have "map xi_buy_currency (fu_fx_intents s') =
      map xi_buy_currency (fu_fx_intents s) @ (ys @ zs)"
    using one_facts(5) rest_facts(6) by simp
  ultimately have "\<exists>ys. map xi_buy_currency (fu_fx_intents s') =
      map xi_buy_currency (fu_fx_intents s) @ ys \<and> subseq ys (c # cs)" by auto
  moreover have "fu_unfunded_currencies s' = fu_unfunded_currencies s \<or> pending \<or> fu_hard_failures s' \<noteq> []"
    using one_facts(4) rest_facts(2,5) prefix_bot.extremum_uniqueI [of "fu_hard_failures s1"]
      rest_facts(4) by metis
  ultimately show ?case
    using one_facts(1-3) rest_facts(1-4)
    by (blast intro: quality_later_trans prefix_order.trans)
qed

end
