(* ===== verification/Simulation_Plan.thy ===== *)
theory Simulation_Plan
  imports Simulation_Laws
begin

text \<open>
  The intent plan as a whole: its stages, the intents it lists and the dependencies between them, the
  portfolio it leaves as the ledger after executing them, and the trades it carries out.
\<close>

section \<open>Buys and dependencies\<close>

definition funded_buy :: "string set \<Rightarrow> security_trade_intent \<Rightarrow> bool" where
  "funded_buy unfunded i = (\<exists>m. si_notional i = Some m \<and> mn_currency m \<notin> unfunded)"

lemma apply_executable_buy_intents_facts:
  "apply_executable_buy_intents is unfunded pf dg = (executable, pf', dg') \<Longrightarrow>
    executable = filter (funded_buy unfunded) is \<and>
    pf' = foldl apply_security_trade_to_portfolio pf executable \<and>
    dg_data_quality dg' = dg_data_quality dg"
proof (induction "is" unfunded pf dg arbitrary: executable pf' dg'
    rule: apply_executable_buy_intents.induct)
  case (1 unfunded pf dg)
  then show ?case by simp
next
  case (2 i js unfunded pf dg)
  show ?case
  proof (cases "funded_buy unfunded i")
    case False
    show ?thesis
    proof (cases "si_notional i")
      case None
      with "2.prems" "2.IH"(1) False show ?thesis by simp
    next
      case (Some m)
      with False have m: "mn_currency m \<in> unfunded" by (simp add: funded_buy_def)
      with "2.prems" "2.IH"(2) [OF Some m] Some False show ?thesis by (simp split: if_splits)
    qed
  next
    case True
    then obtain m where m: "si_notional i = Some m" "mn_currency m \<notin> unfunded"
      by (auto simp: funded_buy_def)
    with "2.prems" obtain rest where
      "apply_executable_buy_intents js unfunded (apply_security_trade_to_portfolio pf i) dg =
        (rest, pf', dg')" "executable = i # rest"
      by (auto simp: Let_def split: prod.splits)
    with "2.IH"(3) [OF m] True show ?thesis by simp
  qed
qed

lemma append_dependency_eq:
  "\<exists>ds. append_dependency d i = i\<lparr>si_dependencies := ds\<rparr> \<and>
     set ds \<subseteq> set (si_dependencies i) \<union> set_option d"
  by (cases d) (auto simp: append_dependency_def intro: exI [of _ "si_dependencies i"])

lemma latest_ids:
  "dict_get (foldl (\<lambda>d i. case si_notional i of None \<Rightarrow> d
      | Some m \<Rightarrow> dict_set (mn_currency m) (si_intent_id i) d) e js) c = Some d \<Longrightarrow>
    dict_get e c = Some d \<or> (\<exists>i \<in> set js. si_intent_id i = d)"
  by (induction js arbitrary: e) (fastforce split: option.splits if_splits)+

lemma sell_intent_ids:
  assumes "dict_get (sell_intent_id_by_currency is linked) c = Some d"
  shows "\<exists>i \<in> set is. si_side i = Sell \<and> si_intent_id i = d"
  using assms latest_ids [where e = "[]"]
  by (fastforce simp: sell_intent_id_by_currency_def split: if_splits)

text \<open>Linking changes the dependencies of buys, to identifiers of exchanges and of sells.\<close>

lemma link_buy_intent_dependencies_facts:
  "\<exists>f. link_buy_intent_dependencies is fx linked = map f is \<and>
    (\<forall>i. \<exists>ds. f i = i\<lparr>si_dependencies := ds\<rparr> \<and> (si_side i \<noteq> Buy \<longrightarrow> f i = i) \<and>
      (\<forall>d \<in> set ds. d \<in> set (si_dependencies i) \<or> (\<exists>c. dict_get fx c = Some d) \<or>
         (\<exists>j \<in> set is. si_side j = Sell \<and> si_intent_id j = d)))"
proof -
  define sells where "sells = sell_intent_id_by_currency is linked"
  define f where "f i = (case si_notional i of
      None \<Rightarrow> i
    | Some m \<Rightarrow>
        if si_side i \<noteq> Buy then i
        else let j = append_dependency (dict_get fx (mn_currency m)) i
             in if linked then append_dependency (dict_get sells (mn_currency m)) j else j)" for i
  have "\<exists>ds. f i = i\<lparr>si_dependencies := ds\<rparr> \<and> (si_side i \<noteq> Buy \<longrightarrow> f i = i) \<and>
      (\<forall>d \<in> set ds. d \<in> set (si_dependencies i) \<or> (\<exists>c. dict_get fx c = Some d) \<or>
         (\<exists>j \<in> set is. si_side j = Sell \<and> si_intent_id j = d))" for i
  proof (cases "\<exists>m. si_notional i = Some m \<and> si_side i = Buy")
    case False
    then have "f i = i" by (auto simp: f_def split: option.split)
    then show ?thesis by (intro exI [of _ "si_dependencies i"]) simp
  next
    case True
    then obtain m where m: "si_notional i = Some m" "si_side i = Buy" by blast
    obtain ds where ds: "append_dependency (dict_get fx (mn_currency m)) i = i\<lparr>si_dependencies := ds\<rparr>"
      "set ds \<subseteq> set (si_dependencies i) \<union> set_option (dict_get fx (mn_currency m))"
      using append_dependency_eq by blast
    obtain es where es: "append_dependency (dict_get sells (mn_currency m)) (i\<lparr>si_dependencies := ds\<rparr>)
        = i\<lparr>si_dependencies := es\<rparr>" "set es \<subseteq> set ds \<union> set_option (dict_get sells (mn_currency m))"
      using append_dependency_eq [of "dict_get sells (mn_currency m)" "i\<lparr>si_dependencies := ds\<rparr>"] by auto
    show ?thesis
    proof (cases linked)
      case True
      with m ds es have "f i = i\<lparr>si_dependencies := es\<rparr>" by (simp add: f_def)
      with m ds(2) es(2) show ?thesis
        by (intro exI [of _ es]) (auto simp: sells_def dest: sell_intent_ids)
    next
      case False
      with m ds have "f i = i\<lparr>si_dependencies := ds\<rparr>" by (simp add: f_def)
      with m ds(2) show ?thesis by (intro exI [of _ ds]) auto
    qed
  qed
  moreover have "link_buy_intent_dependencies is fx linked = map f is"
    unfolding link_buy_intent_dependencies_def f_def [abs_def] sells_def Let_def ..
  ultimately show ?thesis by blast
qed

section \<open>The currencies to fund\<close>

definition notional_currencies :: "security_trade_intent list \<Rightarrow> string set" where
  "notional_currencies js = mn_currency ` set (List.map_filter si_notional js)"

lemma notional_currencies_Cons [simp]:
  "notional_currencies (i # js) =
    (case si_notional i of None \<Rightarrow> {} | Some m \<Rightarrow> {mn_currency m}) \<union> notional_currencies js"
  by (simp add: notional_currencies_def map_filter_simps split: option.split)

lemma group_buy_intents_facts:
  "group_buy_intents_by_currency is g = Inr g' \<Longrightarrow> dict_wf g \<Longrightarrow>
    dict_wf g' \<and> set (dict_keys g') \<subseteq> set (dict_keys g) \<union>
      notional_currencies is"
proof (induction "is" g rule: group_buy_intents_by_currency.induct)
  case (1 g)
  then show ?case by simp
next
  case (2 i js g)
  then obtain m where m: "si_notional i = Some m" by (auto split: option.splits)
  have "set (dict_keys (dict_push (mn_currency m) i g)) = insert (mn_currency m) (set (dict_keys g))"
    by (simp add: dict_keys_def dict_push_def dict_set_def dom_update)
  moreover have "group_buy_intents_by_currency js (dict_push (mn_currency m) i g) = Inr g'"
    using "2.prems"(1) m by simp
  ultimately have "dict_wf g' \<and> set (dict_keys g') \<subseteq> insert (mn_currency m) (set (dict_keys g)) \<union>
      notional_currencies js"
    using "2.IH" [OF m] "2.prems"(2) by simp
  with m show ?case by auto
qed

lemma subseq_sorted_wrt: "subseq xs ys \<Longrightarrow> sorted_wrt P ys \<Longrightarrow> sorted_wrt P xs"
proof (induction rule: list_emb.induct)
  case (list_emb_Cons2 x y xs ys)
  then show ?case by (auto elim: list_emb_set)
qed simp_all

lemma build_auto_funding_plan_facts:
  assumes "build_auto_funding_plan pf md options buys dg = Inr (pending, s)"
  shows "funding_inv pf s \<and> quality_later (dg_data_quality dg) (dg_data_quality (fu_diagnostics s)) \<and>
    (fu_unfunded_currencies s = {} \<or> pending \<or> fu_hard_failures s \<noteq> []) \<and>
    sorted_wrt (<) (map xi_buy_currency (fu_fx_intents s)) \<and>
    xi_buy_currency ` set (fu_fx_intents s) \<subseteq> notional_currencies buys"
proof -
  define s0 where "s0 = \<lparr>fu_portfolio = pf, fu_diagnostics = dg, fu_fx_intents = [],
    fu_fx_by_currency = [], fu_unfunded_currencies = {}, fu_hard_failures = []\<rparr>"
  have inv0: "funding_inv pf s0" by (simp add: funding_inv_def s0_def)
  show ?thesis
  proof (cases "so_auto_funding options")
    case False
    with assms inv0 show ?thesis by (auto simp: build_auto_funding_plan_def s0_def)
  next
    case True
    with assms obtain grouped where g: "group_buy_intents_by_currency buys [] = Inr grouped"
      and run: "fund_target_currencies (sort (dict_keys grouped)) grouped md options False s0 =
        Inr (pending, s)"
      by (auto simp: build_auto_funding_plan_def s0_def rbind_eq_Inr)
    have keys: "dict_wf grouped \<and> set (dict_keys grouped) \<subseteq>
        notional_currencies buys"
      using group_buy_intents_facts [OF g] by (simp add: dict_wf_def dict_keys_def)
    then have strict: "sorted_wrt (<) (sort (dict_keys grouped))"
      by (simp add: strict_sorted_iff dict_wf_def dict_keys_def)
    note F = fund_target_currencies_facts [OF run]
    then obtain ys where "map xi_buy_currency (fu_fx_intents s) = map xi_buy_currency (fu_fx_intents s0) @ ys"
      "subseq ys (sort (dict_keys grouped))" by blast
    then have sub: "subseq (map xi_buy_currency (fu_fx_intents s)) (sort (dict_keys grouped))"
      by (simp add: s0_def)
    have "xi_buy_currency ` set (fu_fx_intents s) \<subseteq> set (dict_keys grouped)"
    proof
      fix c assume "c \<in> xi_buy_currency ` set (fu_fx_intents s)"
      then have "c \<in> set (map xi_buy_currency (fu_fx_intents s))" by simp
      then show "c \<in> set (dict_keys grouped)" by (rule list_emb_set [OF sub]) simp
    qed
    moreover have "sorted_wrt (<) (map xi_buy_currency (fu_fx_intents s))"
      using sub strict by (rule subseq_sorted_wrt)
    moreover have s0: "fu_diagnostics s0 = dg" "fu_unfunded_currencies s0 = {}"
      by (simp_all add: s0_def)
    moreover have "funding_inv pf s" using F inv0 by blast
    moreover have "quality_later (dg_data_quality dg) (dg_data_quality (fu_diagnostics s))"
      "fu_unfunded_currencies s = {} \<or> pending \<or> fu_hard_failures s \<noteq> []"
      using F unfolding s0 by blast+
    ultimately show ?thesis using keys by blast
  qed
qed

section \<open>The stages\<close>

abbreviation sells_of :: "security_trade_intent list \<Rightarrow> security_trade_intent list" where
  "sells_of js \<equiv> sorted_security_intents_by_instrument js Sell"

abbreviation buys_of :: "security_trade_intent list \<Rightarrow> security_trade_intent list" where
  "buys_of js \<equiv> sorted_security_intents_by_instrument js Buy"

lemma set_sorted_security_intents [simp]:
  "set (sorted_security_intents_by_instrument js side) = {i \<in> set js. si_side i = side}"
  by (auto simp: sorted_security_intents_by_instrument_def)

text \<open>What linking does to a buy: \<open>fx\<close> are the exchanges by currency, \<open>sells\<close> the sells.\<close>

definition links_buys ::
  "(security_trade_intent \<Rightarrow> security_trade_intent) \<Rightarrow> (string, string) dict \<Rightarrow>
   security_trade_intent list \<Rightarrow> bool" where
  "links_buys f fx sells =
     (\<forall>i. \<exists>ds. f i = i\<lparr>si_dependencies := ds\<rparr> \<and>
        (\<forall>d \<in> set ds. d \<in> set (si_dependencies i) \<or> (\<exists>c. dict_get fx c = Some d) \<or>
           d \<in> si_intent_id ` set sells))"

lemma plan_stages:
  assumes "build_simulation_intent_plan pf md shelf options cfs trades dg = Inr (plan, dg')"
  obtains cfi pf1 dg1 hf1 js dg2 hf2 pending s executable pf3 f where
    "build_cash_flow_intents 0 cfs options pf dg [] = (cfi, pf1, dg1, hf1)"
    "security_trade_loop 0 trades (eligibility_shelf shelf) md (pn_base_currency pf) options dg1 hf1 =
      Inr (js, dg2, hf2)"
    "build_auto_funding_plan (apply_sell_intents pf1 (sells_of js)) md options (buys_of js) dg2 =
      Inr (pending, s)"
    "apply_executable_buy_intents (buys_of js) (fu_unfunded_currencies s) (fu_portfolio s)
       (fu_diagnostics s) = (executable, pf3, dg')"
    "links_buys f (fu_fx_by_currency s) (sells_of js)"
    "plan = \<lparr>ip_after_portfolio = pf3, ip_cash_flows = cfs, ip_trades = trades,
       ip_intents = ordered_execution_intents cfi (sells_of js) (fu_fx_intents s) (map f executable),
       ip_hard_failures = hf2 @ fu_hard_failures s, ip_force_pending_review = pending\<rparr>"
proof -
  obtain cfi pf1 dg1 hf1 where cf: "build_cash_flow_intents 0 cfs options pf dg [] = (cfi, pf1, dg1, hf1)"
    by (metis prod_cases4)
  with assms obtain js dg2 hf2 where
    loop: "security_trade_loop 0 trades (eligibility_shelf shelf) md (pn_base_currency pf) options dg1 hf1 =
      Inr (js, dg2, hf2)"
    by (auto simp: build_simulation_intent_plan_def build_security_trade_intents_def rbind_eq_Inr)
  with assms cf obtain pending s where
    fund: "build_auto_funding_plan (apply_sell_intents pf1 (sells_of js)) md options (buys_of js) dg2 =
      Inr (pending, s)"
    by (auto simp: build_simulation_intent_plan_def build_security_trade_intents_def rbind_eq_Inr Let_def)
  obtain executable pf3 dg3 where
    buys: "apply_executable_buy_intents (buys_of js) (fu_unfunded_currencies s) (fu_portfolio s)
       (fu_diagnostics s) = (executable, pf3, dg3)" by (metis prod_cases3)
  define linked where "linked = (so_link_buy_to_same_currency_sell_dependency options = Some True)"
  obtain f where f: "link_buy_intent_dependencies (sells_of js @ executable) (fu_fx_by_currency s) linked =
      map f (sells_of js @ executable)" and
    each: "\<forall>i. \<exists>ds. f i = i\<lparr>si_dependencies := ds\<rparr> \<and> (si_side i \<noteq> Buy \<longrightarrow> f i = i) \<and>
      (\<forall>d \<in> set ds. d \<in> set (si_dependencies i) \<or> (\<exists>c. dict_get (fu_fx_by_currency s) c = Some d) \<or>
         (\<exists>j \<in> set (sells_of js @ executable). si_side j = Sell \<and> si_intent_id j = d))"
    using link_buy_intent_dependencies_facts by blast
  have "f i = i" if "si_side i \<noteq> Buy" for i using each that by blast
  then have "map f (sells_of js) = sells_of js" by (intro map_idI) simp
  with f have "take (length (sells_of js)) (map f (sells_of js @ executable)) = sells_of js"
    "drop (length (sells_of js)) (map f (sells_of js @ executable)) = map f executable" by simp_all
  with assms cf loop fund buys f have plan: "dg3 = dg'" "plan = \<lparr>ip_after_portfolio = pf3,
       ip_cash_flows = cfs, ip_trades = trades,
       ip_intents = ordered_execution_intents cfi (sells_of js) (fu_fx_intents s) (map f executable),
       ip_hard_failures = hf2 @ fu_hard_failures s, ip_force_pending_review = pending\<rparr>"
    by (simp_all add: build_simulation_intent_plan_def build_security_trade_intents_def Let_def
        linked_def [symmetric])
  have "set executable \<subseteq> {i \<in> set js. si_side i = Buy}"
    using apply_executable_buy_intents_facts [OF buys] by auto
  with each have "links_buys f (fu_fx_by_currency s) (sells_of js)"
    unfolding links_buys_def by (fastforce simp: image_iff)
  with cf loop fund buys plan that show ?thesis by blast
qed

section \<open>The order of the intents\<close>

lemma sorted_map_const: "\<forall>x \<in> set xs. f x = c \<Longrightarrow> sorted (map f xs)"
  by (induction xs) auto

lemma ordered_execution_intents_eq:
  assumes "\<forall>i \<in> set sells. si_side i = Sell" "\<forall>i \<in> set buys. si_side i = Buy"
  shows "ordered_execution_intents cfi sells fx buys =
    map CashFlow cfi @ map SecurityTrade sells @ map FxSpot (sort_key xi_pair fx) @ map SecurityTrade buys"
proof -
  have "sorted (map execution_rank (map CashFlow cfi))" "sorted (map execution_rank (map SecurityTrade sells))"
    "sorted (map execution_rank (map FxSpot (sort_key xi_pair fx)))"
    "sorted (map execution_rank (map SecurityTrade buys))"
    using assms by (intro sorted_map_const [where c = 0] sorted_map_const [where c = 1]
        sorted_map_const [where c = 2] sorted_map_const [where c = 3]; simp)+
  with assms show ?thesis
    unfolding ordered_execution_intents_def sort_execution_intents_def
    by (intro sort_key_id_if_sorted) (auto simp: sorted_append)
qed

lemma append_less:
  fixes a b :: string
  shows "length a = length b \<Longrightarrow> a < b \<Longrightarrow> a @ x < b @ y"
  by (induction a b rule: list_induct2) auto

text \<open>With currency codes of one length the exchanges are listed in the order they were made.\<close>

lemma sort_exchanges:
  assumes "sorted_wrt (<) (map xi_buy_currency fx)"
    and "\<forall>x \<in> set fx. xi_pair x = fx_pair_of (xi_buy_currency x) (xi_sell_currency x)"
    and "\<forall>x \<in> set fx. length (xi_buy_currency x) = n"
  shows "sort_key xi_pair fx = fx"
proof -
  have "sorted (map xi_pair fx)"
    using assms
  proof (induction fx)
    case Nil
    then show ?case by simp
  next
    case (Cons x fx)
    have "xi_pair x \<le> xi_pair y" if "y \<in> set fx" for y
      using Cons.prems that append_less [of "xi_buy_currency x" "xi_buy_currency y"]
      by (auto simp: fx_pair_of_def intro: less_imp_le)
    with Cons show ?case by simp
  qed
  then show ?thesis by (rule sort_key_id_if_sorted)
qed

lemma execute_linked:
  assumes "links_buys f fx sells"
  shows "foldl execute_intent l (map SecurityTrade (map f is)) =
    foldl execute_intent l (map SecurityTrade is)"
proof (induction "is" arbitrary: l)
  case Nil
  then show ?case by simp
next
  case (Cons i js)
  obtain ds where "f i = i\<lparr>si_dependencies := ds\<rparr>" using assms by (auto simp: links_buys_def)
  with Cons show ?case by (simp del: execute_intent.simps)
qed

lemma trade_sized_currency: "trade_sized md trade i \<Longrightarrow>
    \<exists>m. si_notional i = Some m \<and> mn_currency m \<in> pr_currency ` set (md_prices md)"
  by (fastforce simp: trade_sized_def price_for_def find_Some_iff)

section \<open>The parts of a plan\<close>

lemma links_buys_simps:
  assumes "links_buys f fx sells"
  shows "si_side (f i) = si_side i" "si_intent_id (f i) = si_intent_id i"
    "trade_sized md trade (f i) = trade_sized md trade i"
    "d \<in> set (si_dependencies (f i)) \<Longrightarrow> d \<in> set (si_dependencies i) \<or>
       (\<exists>c. dict_get fx c = Some d) \<or> d \<in> si_intent_id ` set sells"
proof -
  obtain ds where "f i = i\<lparr>si_dependencies := ds\<rparr>" "\<forall>d \<in> set ds. d \<in> set (si_dependencies i) \<or>
      (\<exists>c. dict_get fx c = Some d) \<or> d \<in> si_intent_id ` set sells"
    using assms unfolding links_buys_def by blast
  then show "si_side (f i) = si_side i" "si_intent_id (f i) = si_intent_id i"
    "trade_sized md trade (f i) = trade_sized md trade i"
    "d \<in> set (si_dependencies (f i)) \<Longrightarrow> d \<in> set (si_dependencies i) \<or>
       (\<exists>c. dict_get fx c = Some d) \<or> d \<in> si_intent_id ` set sells"
    by (simp_all add: trade_sized_def)
qed

text \<open>
  The facts about a plan that its properties rest on: \<open>js\<close> are the intents of the trades, \<open>fx\<close> the
  exchanges in the order they were made, \<open>buys\<close> the buys that are carried out before linking.
\<close>

lemma plan_parts:
  assumes plan: "build_simulation_intent_plan pf md shelf options cfs trades dg = Inr (plan, dg')"
  obtains js fx fx_ids buys unfunded f where
    "ip_intents plan = (map CashFlow (map (\<lambda>(n, cf). cash_flow_intent_of cf n) (enumerate 0 cfs)) @
       map SecurityTrade (sells_of js) @ map FxSpot (sort_key xi_pair fx)) @ map SecurityTrade (map f buys)"
    "links_buys f fx_ids (sells_of js)"
    "\<And>c d. dict_get fx_ids c = Some d \<Longrightarrow> d \<in> xi_intent_id ` set fx"
    "subseq (map si_intent_id js) (map trade_intent_id [0..<length trades])"
    "\<And>i. i \<in> set js \<Longrightarrow> si_dependencies i = [] \<and> (\<exists>trade \<in> set trades. trade_sized md trade i)"
    "trade_refused dg' (ip_hard_failures plan) \<or> list_all2 (trade_sized md) trades js \<and>
       map si_intent_id js = map trade_intent_id [0..<length trades]"
    "buys = filter (funded_buy unfunded) (buys_of js)"
    "unfunded = {} \<or> ip_force_pending_review plan \<or> ip_hard_failures plan \<noteq> []"
    "map xi_intent_id fx = map fx_intent_id [0..<length fx]"
    "\<And>x. x \<in> set fx \<Longrightarrow> xi_dependencies x = [] \<and>
       xi_pair x = fx_pair_of (xi_buy_currency x) (xi_sell_currency x) \<and>
       xi_buy_currency x \<in> notional_currencies (buys_of js)"
    "sorted_wrt (<) (map xi_buy_currency fx)"
    "ledger_of (ip_after_portfolio plan) = foldl execute_intent (ledger_of pf)
       (map CashFlow (map (\<lambda>(n, cf). cash_flow_intent_of cf n) (enumerate 0 cfs)) @
        map SecurityTrade (sells_of js) @ map FxSpot fx @ map SecurityTrade buys)"
    "pn_base_currency (ip_after_portfolio plan) = pn_base_currency pf"
    "quality_later (dg_data_quality dg) (dg_data_quality dg')"
    "ip_cash_flows plan = cfs"
proof -
  from plan obtain cfi pf1 dg1 hf1 js dg2 hf2 pending s executable pf3 f where
    cf: "build_cash_flow_intents 0 cfs options pf dg [] = (cfi, pf1, dg1, hf1)" and
    loop: "security_trade_loop 0 trades (eligibility_shelf shelf) md (pn_base_currency pf) options dg1 hf1 =
      Inr (js, dg2, hf2)" and
    fund: "build_auto_funding_plan (apply_sell_intents pf1 (sells_of js)) md options (buys_of js) dg2 =
      Inr (pending, s)" and
    buys: "apply_executable_buy_intents (buys_of js) (fu_unfunded_currencies s) (fu_portfolio s)
       (fu_diagnostics s) = (executable, pf3, dg')" and
    f: "links_buys f (fu_fx_by_currency s) (sells_of js)" and
    eq: "plan = \<lparr>ip_after_portfolio = pf3, ip_cash_flows = cfs, ip_trades = trades,
       ip_intents = ordered_execution_intents cfi (sells_of js) (fu_fx_intents s) (map f executable),
       ip_hard_failures = hf2 @ fu_hard_failures s, ip_force_pending_review = pending\<rparr>"
    by (rule plan_stages)
  note C = build_cash_flow_intents_facts [OF cf]
  note T = security_trade_loop_facts [OF loop]
  note F = build_auto_funding_plan_facts [OF fund]
  note B = apply_executable_buy_intents_facts [OF buys]
  have "\<forall>i \<in> set (map f executable). si_side i = Buy" using B links_buys_simps [OF f] by auto
  then have intents: "ip_intents plan = (map CashFlow cfi @ map SecurityTrade (sells_of js) @
      map FxSpot (sort_key xi_pair (fu_fx_intents s))) @ map SecurityTrade (map f executable)"
    by (simp add: eq ordered_execution_intents_eq del: map_map)
  have "ledger_of (apply_sell_intents pf1 (sells_of js)) =
      foldl execute_intent (ledger_of pf1) (map SecurityTrade (sells_of js))"
    by (simp add: apply_sell_intents_def trade.run foldl_map)
  moreover have "ledger_of pf3 = foldl execute_intent (ledger_of (fu_portfolio s)) (map SecurityTrade executable)"
    using B by (simp add: trade.run foldl_map)
  moreover have inv: "funding_inv (apply_sell_intents pf1 (sells_of js)) s" using F by blast
  ultimately have ledger: "ledger_of (ip_after_portfolio plan) = foldl execute_intent (ledger_of pf)
      (map CashFlow cfi @ map SecurityTrade (sells_of js) @ map FxSpot (fu_fx_intents s) @
       map SecurityTrade executable)"
    using C by (simp add: eq funding_inv_def)
  have keep: "pn_base_currency (foldl apply_security_trade_to_portfolio p is) = pn_base_currency p" for p "is"
    by (induction "is" arbitrary: p) simp_all
  have base: "pn_base_currency (ip_after_portfolio plan) = pn_base_currency pf"
    using B inv C by (simp add: eq keep funding_inv_def apply_sell_intents_def)
  have later: "quality_later (dg_data_quality dg2) (dg_data_quality dg')" using F B by simp
  moreover have "quality_later (dg_data_quality dg) (dg_data_quality dg2)" using C T by simp
  ultimately have quality: "quality_later (dg_data_quality dg) (dg_data_quality dg')"
    by (blast intro: quality_later_trans)
  have refused: "trade_refused dg' (ip_hard_failures plan) \<or> list_all2 (trade_sized md) trades js \<and>
      map si_intent_id js = map trade_intent_id [0..<length trades]"
    using T later by (auto simp: eq intro: trade_refused_later)
  show ?thesis
    using C T F B inv intents ledger base quality refused
    by (intro that [where js = js and fx = "fu_fx_intents s" and f = f and buys = executable and
        fx_ids = "fu_fx_by_currency s" and unfunded = "fu_unfunded_currencies s", OF _ f])
      (auto simp: eq funding_inv_def)
qed

section \<open>The portfolio of the plan\<close>

lemma plan_ledger:
  assumes plan: "build_simulation_intent_plan pf md shelf options cfs trades dg = Inr (plan, dg')"
    and codes: "\<forall>p \<in> set (md_prices md). length (pr_currency p) = n"
  shows "ledger_of (ip_after_portfolio plan) = foldl execute_intent (ledger_of pf) (ip_intents plan)"
  using plan
proof (rule plan_parts)
  fix js fx fx_ids buys unfunded f
  assume intents: "ip_intents plan = (map CashFlow (map (\<lambda>(n, cf). cash_flow_intent_of cf n)
       (enumerate 0 cfs)) @ map SecurityTrade (sells_of js) @ map FxSpot (sort_key xi_pair fx)) @
       map SecurityTrade (map f buys)"
    and f: "links_buys f fx_ids (sells_of js)"
    and js: "\<And>i. i \<in> set js \<Longrightarrow> si_dependencies i = [] \<and> (\<exists>trade \<in> set trades. trade_sized md trade i)"
    and fx: "\<And>x. x \<in> set fx \<Longrightarrow> xi_dependencies x = [] \<and>
       xi_pair x = fx_pair_of (xi_buy_currency x) (xi_sell_currency x) \<and>
       xi_buy_currency x \<in> notional_currencies (buys_of js)"
    and strict: "sorted_wrt (<) (map xi_buy_currency fx)"
    and ledger: "ledger_of (ip_after_portfolio plan) = foldl execute_intent (ledger_of pf)
       (map CashFlow (map (\<lambda>(n, cf). cash_flow_intent_of cf n) (enumerate 0 cfs)) @
        map SecurityTrade (sells_of js) @ map FxSpot fx @ map SecurityTrade buys)"
  have "\<forall>i \<in> set js. \<exists>m. si_notional i = Some m \<and> length (mn_currency m) = n"
    using js codes trade_sized_currency by fastforce
  then have "\<forall>c \<in> notional_currencies (buys_of js). length c = n"
    by (fastforce simp: notional_currencies_def List.map_filter_def)
  with fx strict have "sort_key xi_pair fx = fx" by (intro sort_exchanges [where n = n]) auto
  then show ?thesis using ledger intents execute_linked [OF f] by (simp del: map_map)
qed

section \<open>Identifiers\<close>

definition cash_flow_id :: "nat \<Rightarrow> string" where
  "cash_flow_id n = ''oi_cf_'' @ nat_digits (n + 1)"

lemma digits_not_letter: "nat_digits n \<noteq> CHR ''c'' # cs" "nat_digits n \<noteq> CHR ''f'' # cs"
proof -
  have no: "CHR ''c'' \<notin> set digit_chars" "CHR ''f'' \<notin> set digit_chars" by code_simp+
  show "nat_digits n \<noteq> CHR ''c'' # cs" "nat_digits n \<noteq> CHR ''f'' # cs"
    using nat_digits_chars [of n] no by auto
qed

lemma intent_ids_differ [simp]:
  "trade_intent_id m \<noteq> cash_flow_id n" "cash_flow_id n \<noteq> trade_intent_id m"
  "trade_intent_id m \<noteq> fx_intent_id n" "fx_intent_id n \<noteq> trade_intent_id m"
  "cash_flow_id m \<noteq> fx_intent_id n" "fx_intent_id n \<noteq> cash_flow_id m"
  using digits_not_letter digits_not_letter [symmetric]
  by (auto simp: trade_intent_id_def cash_flow_id_def fx_intent_id_def)

lemma inj_intent_ids: "inj trade_intent_id" "inj cash_flow_id" "inj fx_intent_id"
  by (auto simp: inj_def trade_intent_id_def cash_flow_id_def fx_intent_id_def dest: nat_digits_inj)

lemma distinct_ids [simp]:
  "distinct (map trade_intent_id [a..<b])" "distinct (map cash_flow_id [a..<b])"
  "distinct (map fx_intent_id [a..<b])"
  using inj_intent_ids by (auto simp: distinct_map inj_def intro: inj_onI)

lemma distinct_sorted_wrt: "distinct xs = sorted_wrt (\<noteq>) xs"
  by (induction xs) auto

lemma distinct_map_sort_key [simp]: "distinct (map f (sort_key k xs)) = distinct (map f xs)"
  by (simp add: distinct_map)

definition depends_backwards :: "order_intent list \<Rightarrow> bool" where
  "depends_backwards is =
     (\<forall>k < length is. \<forall>d \<in> set (intent_dependencies (is ! k)). \<exists>j < k. intent_id (is ! j) = d)"

lemma depends_backwards_append:
  assumes "\<forall>i \<in> set xs. intent_dependencies i = []"
    and "\<forall>i \<in> set ys. set (intent_dependencies i) \<subseteq> intent_id ` set xs"
  shows "depends_backwards (xs @ ys)"
  unfolding depends_backwards_def
proof (intro allI impI ballI)
  fix k d assume k: "k < length (xs @ ys)" and d: "d \<in> set (intent_dependencies ((xs @ ys) ! k))"
  then have late: "length xs \<le> k" using assms(1) by (fastforce simp: nth_append split: if_splits)
  then have "(xs @ ys) ! k \<in> set ys" using k by (auto simp: nth_append)
  with d assms(2) obtain x where "x \<in> set xs" "intent_id x = d" by blast
  then obtain j where "j < length xs" "xs ! j = x" by (auto simp: in_set_conv_nth)
  with late \<open>intent_id x = d\<close> show "\<exists>j < k. intent_id ((xs @ ys) ! j) = d"
    by (intro exI [of _ j]) (simp add: nth_append)
qed

lemma enumerate_ids: "map (\<lambda>i. ci_intent_id i) (map (\<lambda>(n, cf). cash_flow_intent_of cf n) (enumerate k cfs)) =
    map cash_flow_id [k..<k + length cfs]"
  by (induction cfs arbitrary: k)
    (simp_all add: cash_flow_intent_of_def cash_flow_id_def upt_conv_Cons del: upt_Suc)

lemma plan_dependencies:
  assumes plan: "build_simulation_intent_plan pf md shelf options cfs trades dg = Inr (plan, dg')"
  shows "depends_backwards (ip_intents plan)"
  using plan
proof (rule plan_parts)
  fix js fx fx_ids buys unfunded f
  assume intents: "ip_intents plan = (map CashFlow (map (\<lambda>(n, cf). cash_flow_intent_of cf n)
       (enumerate 0 cfs)) @ map SecurityTrade (sells_of js) @ map FxSpot (sort_key xi_pair fx)) @
       map SecurityTrade (map f buys)"
    and f: "links_buys f fx_ids (sells_of js)"
    and ids: "\<And>c d. dict_get fx_ids c = Some d \<Longrightarrow> d \<in> xi_intent_id ` set fx"
    and js: "\<And>i. i \<in> set js \<Longrightarrow> si_dependencies i = [] \<and> (\<exists>trade \<in> set trades. trade_sized md trade i)"
    and buys: "buys = filter (funded_buy unfunded) (buys_of js)"
    and fx: "\<And>x. x \<in> set fx \<Longrightarrow> xi_dependencies x = [] \<and>
       xi_pair x = fx_pair_of (xi_buy_currency x) (xi_sell_currency x) \<and>
       xi_buy_currency x \<in> notional_currencies (buys_of js)"
  define pre where "pre = map CashFlow (map (\<lambda>(n, cf). cash_flow_intent_of cf n) (enumerate 0 cfs)) @
    map SecurityTrade (sells_of js) @ map FxSpot (sort_key xi_pair fx)"
  have earlier: "intent_id ` set pre \<supseteq> xi_intent_id ` set fx \<union> si_intent_id ` set (sells_of js)"
    by (force simp: pre_def image_Un image_image)
  show ?thesis
    unfolding intents pre_def [symmetric]
  proof (rule depends_backwards_append)
    show "\<forall>i \<in> set pre. intent_dependencies i = []" using js fx by (auto simp: pre_def)
    show "\<forall>i \<in> set (map SecurityTrade (map f buys)). set (intent_dependencies i) \<subseteq> intent_id ` set pre"
    proof (intro ballI subsetI)
      fix i d assume "i \<in> set (map SecurityTrade (map f buys))" "d \<in> set (intent_dependencies i)"
      then obtain j where j: "j \<in> set buys" "d \<in> set (si_dependencies (f j))" by auto
      then have "si_dependencies j = []" using js buys by auto
      with links_buys_simps(4) [OF f j(2)] ids
      have "d \<in> xi_intent_id ` set fx \<union> si_intent_id ` set (sells_of js)" by auto
      with earlier show "d \<in> intent_id ` set pre" by blast
    qed
  qed
qed

lemma distinct_four:
  assumes "distinct as" "distinct xs" "distinct (bs @ ds)"
    and "set as \<subseteq> A" "set xs \<subseteq> X" "set (bs @ ds) \<subseteq> T"
    and "A \<inter> T = {}" "A \<inter> X = {}" "T \<inter> X = {}"
  shows "distinct (as @ bs @ xs @ ds)"
  using assms by (auto dest: subsetD)

lemma plan_ids:
  assumes plan: "build_simulation_intent_plan pf md shelf options cfs trades dg = Inr (plan, dg')"
  shows "distinct (map intent_id (ip_intents plan))"
  using plan
proof (rule plan_parts)
  fix js fx fx_ids buys unfunded f
  assume intents: "ip_intents plan = (map CashFlow (map (\<lambda>(n, cf). cash_flow_intent_of cf n)
       (enumerate 0 cfs)) @ map SecurityTrade (sells_of js) @ map FxSpot (sort_key xi_pair fx)) @
       map SecurityTrade (map f buys)"
    and f: "links_buys f fx_ids (sells_of js)"
    and sub: "subseq (map si_intent_id js) (map trade_intent_id [0..<length trades])"
    and buys: "buys = filter (funded_buy unfunded) (buys_of js)"
    and exchange: "map xi_intent_id fx = map fx_intent_id [0..<length fx]"
  have js: "set (map si_intent_id js) \<subseteq> range trade_intent_id"
  proof
    fix d assume "d \<in> set (map si_intent_id js)"
    then have "d \<in> set (map trade_intent_id [0..<length trades])" by (rule list_emb_set [OF sub]) simp
    then show "d \<in> range trade_intent_id" by auto
  qed
  have "distinct (map si_intent_id js)"
    unfolding distinct_sorted_wrt using sub by (rule subseq_sorted_wrt) (simp flip: distinct_sorted_wrt)
  then have d: "distinct js" "inj_on si_intent_id (set js)" by (simp_all add: distinct_map)
  have trades: "distinct (map si_intent_id (sells_of js @ buys))"
    unfolding distinct_map
    using d buys by (auto simp: sorted_security_intents_by_instrument_def intro: inj_on_subset)
  have "map intent_id (ip_intents plan) = map cash_flow_id [0..<length cfs] @
      map si_intent_id (sells_of js) @ map xi_intent_id (sort_key xi_pair fx) @ map si_intent_id buys"
    using enumerate_ids [of 0 cfs] links_buys_simps(2) [OF f] by (simp add: intents comp_def)
  moreover have "distinct (map cash_flow_id [0..<length cfs] @ map si_intent_id (sells_of js) @
      map xi_intent_id (sort_key xi_pair fx) @ map si_intent_id buys)"
  proof (rule distinct_four [where A = "range cash_flow_id" and T = "range trade_intent_id" and
        X = "range fx_intent_id"])
    have "distinct (map xi_intent_id fx)" unfolding exchange by simp
    then show "distinct (map xi_intent_id (sort_key xi_pair fx))" by simp
    have "set (map xi_intent_id fx) \<subseteq> range fx_intent_id" unfolding exchange by auto
    then show "set (map xi_intent_id (sort_key xi_pair fx)) \<subseteq> range fx_intent_id" by simp
    show "distinct (map si_intent_id (sells_of js) @ map si_intent_id buys)" using trades by simp
    show "set (map si_intent_id (sells_of js) @ map si_intent_id buys) \<subseteq> range trade_intent_id"
      using js buys by auto
  qed auto
  ultimately show ?thesis by simp
qed

section \<open>What is carried out\<close>

lemma plan_carries_out:
  assumes plan: "build_simulation_intent_plan pf md shelf options cfs trades dg = Inr (plan, dg')"
    and clean: "\<not> trade_refused dg' (ip_hard_failures plan)" "\<not> ip_force_pending_review plan"
    and n: "n < length trades"
  shows "\<exists>i. SecurityTrade i \<in> set (ip_intents plan) \<and> si_intent_id i = trade_intent_id n \<and>
    trade_sized md (trades ! n) i"
  using plan
proof (rule plan_parts)
  fix js fx fx_ids buys unfunded f
  assume intents: "ip_intents plan = (map CashFlow (map (\<lambda>(n, cf). cash_flow_intent_of cf n)
       (enumerate 0 cfs)) @ map SecurityTrade (sells_of js) @ map FxSpot (sort_key xi_pair fx)) @
       map SecurityTrade (map f buys)"
    and f: "links_buys f fx_ids (sells_of js)"
    and all: "trade_refused dg' (ip_hard_failures plan) \<or> list_all2 (trade_sized md) trades js \<and>
       map si_intent_id js = map trade_intent_id [0..<length trades]"
    and buys: "buys = filter (funded_buy unfunded) (buys_of js)"
    and funded: "unfunded = {} \<or> ip_force_pending_review plan \<or> ip_hard_failures plan \<noteq> []"
  have all: "list_all2 (trade_sized md) trades js"
      "map si_intent_id js = map trade_intent_id [0..<length trades]"
    using all clean by auto
  then have len: "n < length js" using n by (simp add: list_all2_lengthD)
  have sized: "trade_sized md (trades ! n) (js ! n)" using all n by (simp add: list_all2_nthD)
  have "map si_intent_id js ! n = map trade_intent_id [0..<length trades] ! n" using all by simp
  then have id: "si_intent_id (js ! n) = trade_intent_id n" using len n by simp
  have "unfunded = {}" using funded clean by (auto simp: trade_refused_def)
  with sized have "funded_buy unfunded (js ! n)" by (auto simp: trade_sized_def funded_buy_def)
  with len buys have bought: "si_side (js ! n) = Buy \<Longrightarrow> js ! n \<in> set buys" by simp
  show ?thesis
  proof (cases "si_side (js ! n)")
    case Buy
    then have "SecurityTrade (f (js ! n)) \<in> set (ip_intents plan)" using bought by (auto simp: intents)
    then show ?thesis using sized id links_buys_simps [OF f]
      by (intro exI [of _ "f (js ! n)"]) simp
  next
    case Sell
    then have "SecurityTrade (js ! n) \<in> set (ip_intents plan)" using len by (auto simp: intents)
    then show ?thesis using sized id by blast
  qed
qed

lemma plan_cash_flows:
  assumes plan: "build_simulation_intent_plan pf md shelf options cfs trades dg = Inr (plan, dg')"
    and n: "n < length cfs"
  shows "CashFlow (cash_flow_intent_of (cfs ! n) n) \<in> set (ip_intents plan)"
  using plan
proof (rule plan_parts)
  fix js fx f and buys :: "security_trade_intent list"
  assume "ip_intents plan = (map CashFlow (map (\<lambda>(n, cf). cash_flow_intent_of cf n) (enumerate 0 cfs)) @
       map SecurityTrade (sells_of js) @ map FxSpot (sort_key xi_pair fx)) @ map SecurityTrade (map f buys)"
  moreover have "(n, cfs ! n) \<in> set (enumerate 0 cfs)" using n by (simp add: in_set_enumerate_eq)
  ultimately show ?thesis by (force simp del: execute_intent.simps)
qed

end
