(* ===== verification/Simulation_Run.thy ===== *)
theory Simulation_Run
  imports Simulation_Plan
begin

text \<open>
  From the plan to the published result: what the valuation keeps of the portfolio and what it logs,
  what a status says about the rules, and the stages of a run.
\<close>

section \<open>Valuation\<close>

lemma find_mapped:
  "map (\<lambda>x. (k x, v x)) xs = map (\<lambda>y. (k' y, v' y)) ys \<Longrightarrow>
    (case find (\<lambda>x. k x = i) xs of None \<Rightarrow> z | Some x \<Rightarrow> v x) =
    (case find (\<lambda>y. k' y = i) ys of None \<Rightarrow> z | Some y \<Rightarrow> v' y)"
proof (induction xs arbitrary: ys)
  case Nil
  then show ?case by simp
next
  case (Cons x xs)
  then show ?case by (cases ys) auto
qed

text \<open>A position is priced, and its currency can be converted.\<close>

definition position_known :: "market_data_snapshot \<Rightarrow> string \<Rightarrow> data_quality \<Rightarrow> position_summary \<Rightarrow> bool" where
  "position_known md base dq p =
     ((dict_list dq ''price_missing'' = [] \<longrightarrow> price_for md (sm_instrument_id p) \<noteq> None) \<and>
      (dict_list dq ''fx_missing'' = [] \<longrightarrow> get_fx_rate md (sm_instrument_currency p) base \<noteq> None))"

lemma position_known_later:
  "position_known md base dq p \<Longrightarrow> quality_later dq dq' \<Longrightarrow> position_known md base dq' p"
  by (auto simp: position_known_def dest: quality_later_empty)

lemma build_position_summaries_facts:
  "build_position_summaries ps md base mode dq acc v = (summaries, v', dq') \<Longrightarrow>
    quality_later dq dq' \<and>
    (\<exists>new. summaries = acc @ new \<and> (\<forall>p \<in> set new. position_known md base dq' p) \<and>
       map (\<lambda>p. (sm_instrument_id p, sm_quantity p)) new = map (\<lambda>p. (po_instrument_id p, po_quantity p)) ps)"
proof (induction ps md base mode dq acc v arbitrary: summaries v' dq'
    rule: build_position_summaries.induct)
  case (1 md base mode dq acc v)
  then show ?case by simp
next
  case (2 p ps md base mode dq acc v)
  define s where "s = value_position p md base mode"
  define dq1 where "dq1 = record_missing_price p md dq"
  define dq2 where "dq2 = record_missing_position_fx s md base dq1"
  have step: "quality_later dq dq1" "quality_later dq1 dq2"
    by (simp_all add: dq1_def dq2_def record_missing_price_def record_missing_position_fx_def)
  have ids: "sm_instrument_id s = po_instrument_id p" "sm_quantity s = po_quantity p"
    by (simp_all add: s_def value_position_def Let_def)
  have "dict_list dq1 ''price_missing'' = [] \<Longrightarrow> price_for md (sm_instrument_id s) \<noteq> None"
    by (auto simp: dq1_def record_missing_price_def price_for_def find_None_iff list_ex_iff ids
        split: if_splits)
  moreover have "dict_list dq2 ''fx_missing'' = [] \<Longrightarrow>
      get_fx_rate md (sm_instrument_currency s) base \<noteq> None"
    by (auto simp: dq2_def record_missing_position_fx_def get_fx_rate_def split: if_splits)
  ultimately have known: "position_known md base dq2 s"
    using quality_later_empty [OF step(2)] by (auto simp: position_known_def)
  have "build_position_summaries ps md base mode dq2 (acc @ [s])
      (dec_add v (mn_amount (sm_value_in_base_ccy s))) = (summaries, v', dq')"
    using "2.prems" by (simp add: s_def dq1_def dq2_def Let_def)
  from "2.IH" [OF dq1_def s_def dq2_def this] obtain new where
    later: "quality_later dq2 dq'" and
    new: "summaries = acc @ s # new" "\<forall>p \<in> set new. position_known md base dq' p"
      "map (\<lambda>p. (sm_instrument_id p, sm_quantity p)) new = map (\<lambda>p. (po_instrument_id p, po_quantity p)) ps"
    by auto
  have "quality_later dq dq'" using step later by (blast intro: quality_later_trans)
  then show ?case
    using new ids position_known_later [OF known later] by (auto intro!: exI [of _ "s # new"])
qed

lemma cash_total_value_facts:
  "cash_total_value cs md base dq v = (v', dq') \<Longrightarrow>
    quality_later dq dq' \<and> (dict_list dq' ''fx_missing'' = [] \<longrightarrow>
      (\<forall>c \<in> set cs. get_fx_rate md (cb_currency c) base \<noteq> None))"
proof (induction cs md base dq v arbitrary: v' dq' rule: cash_total_value.induct)
  case (1 md base dq v)
  then show ?case by simp
next
  case (2 c cs md base dq v)
  obtain w dq1 where one: "cash_value_in_base c md base dq = (w, dq1)" by fastforce
  then have step: "quality_later dq dq1"
    and rate: "dict_list dq1 ''fx_missing'' = [] \<longrightarrow> get_fx_rate md (cb_currency c) base \<noteq> None"
    by (auto simp: cash_value_in_base_def get_fx_rate_def split: if_splits option.splits)
  have rest: "cash_total_value cs md base dq1 (dec_add v w) = (v', dq')"
    using "2.prems" one by simp
  note IH = "2.IH" [OF one [symmetric] refl rest]
  then show ?case
    using step rate quality_later_empty [of dq1 dq' "''fx_missing''"]
    by (auto intro: quality_later_trans)
qed

lemma build_position_allocation_maps_facts:
  "build_position_allocation_maps ps shelf tv class_map attr_map = (positions, rest) \<Longrightarrow>
    map (\<lambda>p. (sm_instrument_id p, sm_quantity p, sm_instrument_currency p)) positions =
    map (\<lambda>p. (sm_instrument_id p, sm_quantity p, sm_instrument_currency p)) ps"
proof (induction ps shelf tv class_map attr_map arbitrary: positions rest
    rule: build_position_allocation_maps.induct)
  case (1 shelf tv class_map attr_map)
  then show ?case by simp
next
  case (2 p ps shelf tv class_map attr_map)
  define q where "q = p\<lparr>sm_weight := dec_quot (mn_amount (sm_value_in_base_ccy p)) tv\<rparr>"
  obtain p1 am where one: "apply_shelf_allocation_attributes q shelf attr_map = (p1, am)" by fastforce
  then have "sm_instrument_id p1 = sm_instrument_id p \<and> sm_quantity p1 = sm_quantity p \<and>
      sm_instrument_currency p1 = sm_instrument_currency p"
    by (auto simp: apply_shelf_allocation_attributes_def q_def split: option.splits)
  moreover obtain more rest2 where "build_position_allocation_maps ps shelf tv
      (add_allocation (sm_asset_class p1) (mn_amount (sm_value_in_base_ccy p)) class_map) am =
      (more, rest2)" "positions = p1 # more"
    using "2.prems" one by (auto simp: q_def [symmetric] Let_def split: prod.splits)
  moreover note "2.IH" [OF refl one [unfolded q_def, symmetric] refl this(1)]
  ultimately show ?case by simp
qed

text \<open>
  A valued state has the rows of the portfolio. Without a missing price or rate in the log, all of
  them are priced and can be converted.
\<close>

lemma build_simulated_state_facts:
  assumes "build_simulated_state pf md shelf dq mode = (st, dq')"
  shows "state_ledger st = ledger_of pf" "quality_later dq dq'" "vs_cash_balances st = pn_cash_balances pf"
    "\<And>p. p \<in> set (vs_positions st) \<Longrightarrow> position_known md (pn_base_currency pf) dq' p"
    "dict_list dq' ''fx_missing'' = [] \<Longrightarrow> b \<in> set (vs_cash_balances st) \<Longrightarrow>
       get_fx_rate md (cb_currency b) (pn_base_currency pf) \<noteq> None"
proof -
  let ?base = "pn_base_currency pf"
  obtain summaries pos_total dq1 where
    sums: "build_position_summaries (pn_positions pf) md ?base mode dq [] (dec 0 0) =
      (summaries, pos_total, dq1)" by (metis prod_cases3)
  obtain cash_total dq2 where
    cash: "cash_total_value (pn_cash_balances pf) md ?base dq1 (dec 0 0) = (cash_total, dq2)" by fastforce
  obtain positions cm am where
    alloc: "build_position_allocation_maps summaries (shelf_by_instrument shelf)
      (safe_total_value (dec_add pos_total cash_total)) [] [] = (positions, cm, am)" by (metis prod_cases3)
  have st: "vs_cash_balances st = pn_cash_balances pf" "vs_positions st = positions" "dq' = dq2"
    using assms sums cash alloc by (auto simp: build_simulated_state_def Let_def)
  note S = build_position_summaries_facts [OF sums] and C = cash_total_value_facts [OF cash]
    and A = build_position_allocation_maps_facts [OF alloc]
  have rows: "map (\<lambda>p. (sm_instrument_id p, sm_quantity p)) positions =
      map (\<lambda>p. (po_instrument_id p, po_quantity p)) (pn_positions pf)"
    using S arg_cong [OF A, of "map (\<lambda>(i, q, c). (i, q))"] by (simp add: comp_def)
  show "vs_cash_balances st = pn_cash_balances pf" by (rule st)
  show "state_ledger st = ledger_of pf"
    using find_mapped [OF rows]
    by (simp add: state_ledger_def ledger_of_def st cash_amount_def position_quantity_def fun_eq_iff)
  show "quality_later dq dq'" using S C st by (auto intro: quality_later_trans)
  show "position_known md ?base dq' p" if "p \<in> set (vs_positions st)" for p
  proof -
    have "(sm_instrument_id p, sm_quantity p, sm_instrument_currency p) \<in>
        set (map (\<lambda>p. (sm_instrument_id p, sm_quantity p, sm_instrument_currency p)) summaries)"
      using that by (simp add: st flip: A)
    then obtain q where "q \<in> set summaries" "sm_instrument_id q = sm_instrument_id p"
      "sm_instrument_currency q = sm_instrument_currency p" by auto
    then have "position_known md ?base dq1 p" using S by (auto simp: position_known_def)
    then show ?thesis using C st by (auto intro: position_known_later)
  qed
  show "dict_list dq' ''fx_missing'' = [] \<Longrightarrow> b \<in> set (vs_cash_balances st) \<Longrightarrow>
      get_fx_rate md (cb_currency b) ?base \<noteq> None"
    using C st by auto
qed

section \<open>Status and rules\<close>

lemma least_negative_less:
  "dec_less (foldl (\<lambda>m x. if dec_less x (dec 0 0) then dec_min m x else m) m xs) (dec 0 0) =
    (dec_less m (dec 0 0) \<or> (\<exists>x \<in> set xs. dec_less x (dec 0 0)))"
  by (induction xs arbitrary: m) (auto simp: dec_less_val dec_min_val min_less_iff_disj)

lemma least_negative_nonneg:
  "dec_less (least_negative xs) (dec 0 0) = (\<exists>x \<in> set xs. dec_less x (dec 0 0))"
  unfolding least_negative_def least_negative_less by (simp add: dec_less_val)

lemma has_failed_append [simp]:
  "has_failed_rule_with_severity (rs @ qs) sev =
    (has_failed_rule_with_severity rs sev \<or> has_failed_rule_with_severity qs sev)"
  by (simp add: has_failed_rule_with_severity_def)

lemma derive_status_simps:
  "derive_status_from_rules rs = BLOCKED \<longleftrightarrow> has_failed_rule_with_severity rs RuleHard"
  "derive_status_from_rules rs = READY \<longleftrightarrow> \<not> has_failed_rule_with_severity rs RuleHard \<and>
     \<not> has_failed_rule_with_severity rs RuleSoft"
  "derive_status_from_rules rs = PENDING_REVIEW \<longleftrightarrow> \<not> has_failed_rule_with_severity rs RuleHard \<and>
     has_failed_rule_with_severity rs RuleSoft"
  by (auto simp: derive_status_from_rules_def)

lemma failed_rule_simps [simp]:
  "has_failed_rule_with_severity [evaluate_no_shorting st] RuleHard \<longleftrightarrow>
     (\<exists>p \<in> set (vs_positions st). dec_less (sm_quantity p) (dec 0 0))"
  "has_failed_rule_with_severity [evaluate_sufficient_cash st] RuleHard \<longleftrightarrow>
     (\<exists>b \<in> set (vs_cash_balances st). dec_less (cb_amount b) (dec 0 0))"
  "has_failed_rule_with_severity [evaluate_data_quality options dg] RuleHard \<longleftrightarrow>
     so_block_on_missing_prices options \<and> dict_list (dg_data_quality dg) ''price_missing'' \<noteq> [] \<or>
     so_block_on_missing_fx options \<and> dict_list (dg_data_quality dg) ''fx_missing'' \<noteq> [] \<or>
     dict_list (dg_data_quality dg) ''shelf_missing'' \<noteq> []"
  by (simp_all add: has_failed_rule_with_severity_def evaluate_no_shorting_def Let_def
      evaluate_sufficient_cash_def evaluate_data_quality_def least_negative_nonneg)

text \<open>The rules that a run without hard failures has passed.\<close>

lemma evaluate_rules_pass:
  assumes "\<not> has_failed_rule_with_severity (evaluate_rules st options dg) RuleHard"
  shows "\<forall>p \<in> set (vs_positions st). dec_le (dec 0 0) (sm_quantity p)"
    "\<forall>b \<in> set (vs_cash_balances st). dec_le (dec 0 0) (cb_amount b)"
    "dict_list (dg_data_quality dg) ''shelf_missing'' = []"
    "so_block_on_missing_prices options \<Longrightarrow> dict_list (dg_data_quality dg) ''price_missing'' = []"
    "so_block_on_missing_fx options \<Longrightarrow> dict_list (dg_data_quality dg) ''fx_missing'' = []"
proof -
  have "evaluate_rules st options dg = (evaluate_cash_band st options # evaluate_single_position_max st options) @
      [evaluate_data_quality options dg] @ [evaluate_min_trade_size dg] @ [evaluate_no_shorting st] @
      [evaluate_sufficient_cash st]"
    by (simp add: evaluate_rules_def)
  note pass = assms [unfolded this]
  then have
    "\<not> has_failed_rule_with_severity [evaluate_data_quality options dg] RuleHard"
    "\<not> has_failed_rule_with_severity [evaluate_no_shorting st] RuleHard"
    "\<not> has_failed_rule_with_severity [evaluate_sufficient_cash st] RuleHard"
    unfolding has_failed_append by blast+
  then show "\<forall>p \<in> set (vs_positions st). dec_le (dec 0 0) (sm_quantity p)"
    "\<forall>b \<in> set (vs_cash_balances st). dec_le (dec 0 0) (cb_amount b)"
    "dict_list (dg_data_quality dg) ''shelf_missing'' = []"
    "so_block_on_missing_prices options \<Longrightarrow> dict_list (dg_data_quality dg) ''price_missing'' = []"
    "so_block_on_missing_fx options \<Longrightarrow> dict_list (dg_data_quality dg) ''fx_missing'' = []"
    by (auto simp: dec_le_def)
qed

lemma expected_cash_delta_later:
  "quality_later (dg_data_quality dg) (dg_data_quality (snd (expected_cash_delta_base pf md cfs dg)))"
proof -
  have "quality_later (dg_data_quality d) (dg_data_quality (snd (foldl (\<lambda>(acc, d) cf.
         case get_fx_rate md (cf_currency cf) (pn_base_currency pf) of
           None \<Rightarrow> (acc, log_quality ''fx_missing'' (fx_pair_of (cf_currency cf) (pn_base_currency pf)) d)
         | Some rate \<Rightarrow> (dec_add acc (dec_mul (cf_amount cf) rate), d)) (a, d) cfs)))" for a d
  proof (induction cfs arbitrary: a d)
    case Nil
    then show ?case by simp
  next
    case (Cons cf cfs)
    show ?case
    proof (cases "get_fx_rate md (cf_currency cf) (pn_base_currency pf)")
      case None
      then show ?thesis
        using Cons [of "log_quality ''fx_missing'' (fx_pair_of (cf_currency cf) (pn_base_currency pf)) d" a]
        by (auto intro: quality_later_trans)
    next
      case (Some rate)
      then show ?thesis using Cons by simp
    qed
  qed
  then show ?thesis by (simp add: expected_cash_delta_base_def)
qed

lemma evaluate_simulation_review_facts:
  assumes "evaluate_simulation_review pf md options dg before_state after_state plan = (review, dg')"
  shows "sw_final_status review = derive_status_from_rules (sw_rule_results review)"
    "sw_final_status review = READY \<Longrightarrow>
       \<not> has_failed_rule_with_severity (evaluate_rules after_state options dg) RuleHard \<and>
       ip_hard_failures plan = [] \<and> \<not> ip_force_pending_review plan \<and>
       rc_status (sw_reconciliation review) = ReconOk"
    "quality_later (dg_data_quality dg) (dg_data_quality dg')"
    "\<exists>b \<in> set (vs_cash_balances after_state). dec_less (cb_amount b) (dec 0 0) \<Longrightarrow>
       sw_final_status review = BLOCKED"
proof -
  define rules where "rules = evaluate_rules after_state options dg"
  define rs where "rs = append_funding_data_quality_failure_if_needed
    (append_input_guard_failure_if_needed rules plan) dg plan"
  obtain recon diff tolerance dg1 where
    recon: "build_value_reconciliation pf md before_state after_state plan dg = ((recon, diff, tolerance), dg1)"
    by (metis prod_cases4 surj_pair)
  have rev: "dg' = dg1" "sw_reconciliation review = recon"
    "sw_rule_results review =
      snd (final_status_after_reconciliation (derive_status_from_rules rs) rs recon diff tolerance)"
    "sw_final_status review = final_status_after_pending_review
      (fst (final_status_after_reconciliation (derive_status_from_rules rs) rs recon diff tolerance)) plan"
    using assms recon
    by (auto simp: evaluate_simulation_review_def Let_def rs_def rules_def split: prod.splits)
  have guard: "has_failed_rule_with_severity (append_input_guard_failure_if_needed rules plan) sev \<longleftrightarrow>
      has_failed_rule_with_severity rules sev \<or> sev = RuleHard \<and> ip_hard_failures plan \<noteq> []" for sev
    by (auto simp: append_input_guard_failure_if_needed_def has_failed_rule_with_severity_def
        split: list.split)
  have rs: "has_failed_rule_with_severity rs sev \<longleftrightarrow>
      has_failed_rule_with_severity rules sev \<or> sev = RuleHard \<and> ip_hard_failures plan \<noteq> [] \<or>
      sev = RuleSoft \<and> ip_force_pending_review plan" for sev
    using guard [of sev]
    by (auto simp: rs_def append_funding_data_quality_failure_if_needed_def
        has_failed_rule_with_severity_def [of "[x]" for x])
  show "sw_final_status review = derive_status_from_rules (sw_rule_results review)"
    using rs
    by (auto simp: rev final_status_after_reconciliation_def final_status_after_pending_review_def
        derive_status_from_rules_def has_failed_rule_with_severity_def [of "[x]" for x])
  show "sw_final_status review = READY \<Longrightarrow>
       \<not> has_failed_rule_with_severity (evaluate_rules after_state options dg) RuleHard \<and>
       ip_hard_failures plan = [] \<and> \<not> ip_force_pending_review plan \<and>
       rc_status (sw_reconciliation review) = ReconOk"
    using rs
    by (cases "rc_status recon")
      (auto simp: rev final_status_after_reconciliation_def final_status_after_pending_review_def
        derive_status_simps rules_def split: if_splits)
  show "sw_final_status review = BLOCKED"
    if "\<exists>b \<in> set (vs_cash_balances after_state). dec_less (cb_amount b) (dec 0 0)"
  proof -
    have "has_failed_rule_with_severity [evaluate_sufficient_cash after_state] RuleHard"
      using that by simp
    then have "has_failed_rule_with_severity rules RuleHard"
      by (simp add: rules_def evaluate_rules_def has_failed_rule_with_severity_def)
    then show ?thesis
      using rs [of RuleHard]
      by (auto simp: rev final_status_after_reconciliation_def final_status_after_pending_review_def
          derive_status_from_rules_def)
  qed
  show "quality_later (dg_data_quality dg) (dg_data_quality dg')"
    using recon expected_cash_delta_later [of dg pf md "ip_cash_flows plan"]
    by (auto simp: rev build_value_reconciliation_def Let_def split: prod.splits)
qed

end
