(* ===== verification/Simulation_Properties.thy ===== *)
theory Simulation_Properties
  imports Simulation_Run
begin

text \<open>
  Properties of a simulation run: the published states, intents, rules, status and gate agree with
  each other and with the request.
\<close>

section \<open>The stages of a run\<close>

lemma run_stages:
  assumes "run_proposal_simulation sha hex rq = Inr r"
  obtains dq plan dg2 after_state dg3 review dg4 support where
    "build_simulated_state (sd_portfolio rq) (sd_market_data rq) (sd_shelf rq)
       (dg_data_quality make_diagnostics_data) (so_valuation_mode (sd_options rq)) = (sl_before r, dq)"
    "build_simulation_intent_plan (sd_portfolio rq) (sd_market_data rq) (sd_shelf rq) (sd_options rq)
       (sd_cash_flows rq) (sd_trades rq) (make_diagnostics_data\<lparr>dg_data_quality := dq\<rparr>) = Inr (plan, dg2)"
    "simulated_after plan (sl_before r) (sd_market_data rq) (sd_shelf rq) dg2 =
       (sl_after_simulated r, dg3)"
    "evaluate_simulation_review (sd_portfolio rq) (sd_market_data rq) (sd_options rq) dg3 (sl_before r)
       (sl_after_simulated r) plan = (review, dg4)"
    "build_simulation_decision_support (sd_portfolio rq) (sd_market_data rq) (sd_shelf rq)
       (sd_options rq) dg4 (sl_before r) (sl_after_simulated r) plan (sw_final_status review)
       (sw_rule_results review) (sd_reference_model rq) (sd_policy_context rq) =
       (support, sl_diagnostics r)"
    "sl_intents r = ip_intents plan" "sl_status r = sw_final_status review"
    "sl_rule_results r = sw_rule_results review" "sl_reconciliation r = sw_reconciliation review"
    "sl_gate_decision r = dp_gate_decision support" "sl_suitability r = dp_suitability support"
proof -
  obtain before_state dq where v: "build_simulated_state (sd_portfolio rq) (sd_market_data rq) (sd_shelf rq)
       (dg_data_quality make_diagnostics_data) (so_valuation_mode (sd_options rq)) = (before_state, dq)"
    by fastforce
  with assms obtain plan dg2 where
    p: "build_simulation_intent_plan (sd_portfolio rq) (sd_market_data rq) (sd_shelf rq) (sd_options rq)
       (sd_cash_flows rq) (sd_trades rq) (make_diagnostics_data\<lparr>dg_data_quality := dq\<rparr>) = Inr (plan, dg2)"
    by (auto simp: run_proposal_simulation_def rbind_eq_Inr Let_def)
  obtain after_state dg3 where
    a: "simulated_after plan before_state (sd_market_data rq) (sd_shelf rq) dg2 = (after_state, dg3)"
    by fastforce
  obtain review dg4 where
    w: "evaluate_simulation_review (sd_portfolio rq) (sd_market_data rq) (sd_options rq) dg3 before_state
       after_state plan = (review, dg4)" by fastforce
  obtain support dg5 where
    u: "build_simulation_decision_support (sd_portfolio rq) (sd_market_data rq) (sd_shelf rq)
       (sd_options rq) dg4 before_state after_state plan (sw_final_status review)
       (sw_rule_results review) (sd_reference_model rq) (sd_policy_context rq) = (support, dg5)"
    by fastforce
  have "sl_before r = before_state \<and> sl_after_simulated r = after_state \<and> sl_diagnostics r = dg5 \<and>
    sl_intents r = ip_intents plan \<and> sl_status r = sw_final_status review \<and>
    sl_rule_results r = sw_rule_results review \<and> sl_reconciliation r = sw_reconciliation review \<and>
    sl_gate_decision r = dp_gate_decision support \<and> sl_suitability r = dp_suitability support"
    using assms v p a w u by (auto simp: run_proposal_simulation_def Let_def)
  with v p a w u that show ?thesis by blast
qed

lemma simulated_after_facts:
  assumes "simulated_after plan before_state md shelf dg = (after_state, dg')"
  shows "quality_later (dg_data_quality dg) (dg_data_quality dg')"
    "ip_intents plan = [] \<Longrightarrow> after_state = before_state \<and> dg' = dg"
    "ip_intents plan \<noteq> [] \<Longrightarrow> build_simulated_state (ip_after_portfolio plan) md shelf
       (dg_data_quality dg) Calculated = (after_state, dg_data_quality dg')"
  using assms build_simulated_state_facts(2)
  by (auto simp: simulated_after_def split: if_splits prod.splits)

section \<open>The published states\<close>

text \<open>
  C13: The simulated state that a run publishes is its published starting state after the published
  intents, executed in the order in which they are listed: the cash of every currency and the units
  of every instrument. (Currency codes have one length, as ISO codes do: the exchanges are listed by
  their pair and were made by their currency.)
\<close>

theorem after_state_executes_intents:
  assumes "run_proposal_simulation sha hex rq = Inr r"
    and "\<forall>p \<in> set (md_prices (sd_market_data rq)). length (pr_currency p) = n"
  shows "state_ledger (sl_before r) = ledger_of (sd_portfolio rq) \<and>
    state_ledger (sl_after_simulated r) = foldl execute_intent (state_ledger (sl_before r)) (sl_intents r)"
  using assms(1)
proof (rule run_stages)
  fix dq plan dg2 dg3
  assume v: "build_simulated_state (sd_portfolio rq) (sd_market_data rq) (sd_shelf rq)
       (dg_data_quality make_diagnostics_data) (so_valuation_mode (sd_options rq)) = (sl_before r, dq)"
    and p: "build_simulation_intent_plan (sd_portfolio rq) (sd_market_data rq) (sd_shelf rq)
       (sd_options rq) (sd_cash_flows rq) (sd_trades rq) (make_diagnostics_data\<lparr>dg_data_quality := dq\<rparr>) =
       Inr (plan, dg2)"
    and a: "simulated_after plan (sl_before r) (sd_market_data rq) (sd_shelf rq) dg2 =
       (sl_after_simulated r, dg3)"
    and i: "sl_intents r = ip_intents plan"
  have b: "state_ledger (sl_before r) = ledger_of (sd_portfolio rq)"
    by (rule build_simulated_state_facts(1) [OF v])
  have "state_ledger (sl_after_simulated r) = foldl execute_intent (state_ledger (sl_before r)) (sl_intents r)"
  proof (cases "ip_intents plan = []")
    case True
    then show ?thesis using simulated_after_facts(2) [OF a] i by simp
  next
    case False
    then show ?thesis
      using build_simulated_state_facts(1) [OF simulated_after_facts(3) [OF a False]]
        plan_ledger [OF p assms(2)] b i by simp
  qed
  with b show "state_ledger (sl_before r) = ledger_of (sd_portfolio rq) \<and>
      state_ledger (sl_after_simulated r) = foldl execute_intent (state_ledger (sl_before r)) (sl_intents r)"
    by simp
qed


section \<open>The published intents\<close>


text \<open>
  C16: Every intent of a run depends on intents listed before it only, and no two intents have the
  same identifier, so the list can be executed from the front.
\<close>

theorem intents_in_dependency_order:
  assumes "run_proposal_simulation sha hex rq = Inr r"
  shows "depends_backwards (sl_intents r) \<and> distinct (map intent_id (sl_intents r))"
  using assms by (rule run_stages) (simp add: plan_dependencies plan_ids)

section \<open>Status and gate\<close>

lemma failed_rules_empty:
  "failed_rules sev rs = [] \<longleftrightarrow> \<not> has_failed_rule_with_severity rs sev"
  by (auto simp: failed_rules_def has_failed_rule_with_severity_def filter_empty_conv list_ex_iff)

lemma run_status_and_gate:
  assumes "run_proposal_simulation sha hex rq = Inr r"
  shows "sl_status r = derive_status_from_rules (sl_rule_results r) \<and>
    (case sl_gate_decision r of
       None \<Rightarrow> \<not> so_enable_workflow_gates (sd_options rq)
     | Some g \<Rightarrow>
         (case sl_status r of
            BLOCKED \<Rightarrow> gd_gate g = GateBlocked
          | PENDING_REVIEW \<Rightarrow> gd_gate g \<in> {GateComplianceReview, GateRiskReview}
          | READY \<Rightarrow> gd_gate g =
              (if 0 < gs_new_high_suitability_count (gd_summary g) then GateComplianceReview
               else if 0 < gs_new_medium_suitability_count (gd_summary g) then GateRiskReview
               else if eo_client_consent_already_obtained (sd_options rq) then GateExecutionReady
               else GateClientConsent)))"
  using assms
proof (rule run_stages)
  fix plan dg3 review dg4 support
  assume w: "evaluate_simulation_review (sd_portfolio rq) (sd_market_data rq) (sd_options rq) dg3
       (sl_before r) (sl_after_simulated r) plan = (review, dg4)"
    and u: "build_simulation_decision_support (sd_portfolio rq) (sd_market_data rq) (sd_shelf rq)
       (sd_options rq) dg4 (sl_before r) (sl_after_simulated r) plan (sw_final_status review)
       (sw_rule_results review) (sd_reference_model rq) (sd_policy_context rq) =
       (support, sl_diagnostics r)"
    and s: "sl_status r = sw_final_status review" "sl_rule_results r = sw_rule_results review"
      "sl_gate_decision r = dp_gate_decision support"
  have status: "sl_status r = derive_status_from_rules (sl_rule_results r)"
    using evaluate_simulation_review_facts(1) [OF w] s by simp
  obtain su where g: "sl_gate_decision r = build_gate_decision (sd_options rq) (sl_diagnostics r)
      (sl_status r) (sl_rule_results r) su"
    using u s by (auto simp: build_simulation_decision_support_def Let_def split: prod.splits)
  show ?thesis
    using status derive_status_simps [of "sl_rule_results r"]
    by (cases "sl_status r")
      (auto simp: g build_gate_decision_def evaluate_gate_decision_def resolve_gate_outcome_def
        GATE_OUTCOME_RULES_def has_blocking_input_def requires_compliance_review_def
        requires_risk_review_def has_client_consent_def still_requires_client_consent_def
        requires_client_consent_def collect_gate_reason_bundle_def rule_reasons_def Let_def
        failed_rules_empty engine_options.defs split: prod.splits)
qed

text \<open>
  C17: The status of a run is what its published rules say, and its gate agrees with it: the gate is
  blocked exactly for a BLOCKED run, a run that is PENDING_REVIEW goes to a compliance or risk
  review, and one that is READY goes to a review only for a new suitability issue.
\<close>

theorem status_and_gate_agree:
  assumes "run_proposal_simulation sha hex rq = Inr r"
  shows "sl_status r = derive_status_from_rules (sl_rule_results r) \<and>
    (case sl_gate_decision r of
       None \<Rightarrow> \<not> so_enable_workflow_gates (sd_options rq)
     | Some g \<Rightarrow>
         (case sl_status r of
            BLOCKED \<Rightarrow> gd_gate g = GateBlocked
          | PENDING_REVIEW \<Rightarrow> gd_gate g \<in> {GateComplianceReview, GateRiskReview}
          | READY \<Rightarrow> gd_gate g =
              (if 0 < gs_new_high_suitability_count (gd_summary g) then GateComplianceReview
               else if 0 < gs_new_medium_suitability_count (gd_summary g) then GateRiskReview
               else if eo_client_consent_already_obtained (sd_options rq) then GateExecutionReady
               else GateClientConsent)))"
  using assms by (rule run_status_and_gate)

end
