(* ===== verification/Simulation_Outcomes.thy ===== *)
theory Simulation_Outcomes
  imports Simulation_Properties
begin

text \<open>
  Funding and errors: which currency pays for the buys of another one, how far the exchange is from
  the missing amount, and the errors in which a run can end.
\<close>

section \<open>The currency that pays\<close>

text \<open>What it costs to buy an amount with a currency, and whether its balance covers the cost.\<close>

definition funding_cost ::
  "market_data_snapshot \<Rightarrow> string \<Rightarrow> decimal \<Rightarrow> string \<Rightarrow> decimal option" where
  "funding_cost md target needed c =
     (case get_fx_rate md target c of
        None \<Rightarrow> None
      | Some rate \<Rightarrow>
          (case quantize_amount_for_currency (dec_mul needed rate) c of
             Inl e \<Rightarrow> None | Inr a \<Rightarrow> Some a))"

definition can_fund ::
  "(string \<Rightarrow> decimal) \<Rightarrow> market_data_snapshot \<Rightarrow> string \<Rightarrow> decimal \<Rightarrow> string \<Rightarrow> bool" where
  "can_fund cash md target needed c =
     (case funding_cost md target needed c of None \<Rightarrow> False | Some a \<Rightarrow> dec_le a (cash c))"

lemma select_funding_loop_first:
  "select_funding_loop cs md target needed pf dg smallest = Inr (sel, deficit, pf', dg') \<Longrightarrow>
    map_option fs_funding_currency sel = find (can_fund (cash_amount pf) md target needed) cs \<and>
    (\<forall>s. sel = Some s \<longrightarrow> funding_cost md target needed (fs_funding_currency s) = Some (fs_sell_required s))"
proof (induction cs md target needed pf dg smallest arbitrary: sel deficit pf' dg'
    rule: select_funding_loop.induct)
  case (1 md target needed pf dg smallest)
  then show ?case by simp
next
  case (2 c cs md target needed pf dg smallest)
  define candidate where "candidate = candidate_funding_source md target c"
  show ?case
  proof (cases "fc_rate candidate")
    case None
    then have no: "\<not> can_fund (cash_amount pf) md target needed c"
      by (simp add: candidate_def candidate_funding_source_def can_fund_def funding_cost_def)
    from None have "select_funding_loop cs md target needed pf
        (record_missing_fx_pair dg (fc_pair candidate)) smallest = Inr (sel, deficit, pf', dg')"
      using "2.prems" by (simp add: candidate_def Let_def)
    from "2.IH"(1) [OF candidate_def None this] no show ?thesis by simp
  next
    case (Some rate)
    then obtain s d pf1 where
      found: "funding_selection_for_candidate pf needed candidate = Inr (s, d, pf1)"
      using "2.prems" by (auto simp: candidate_def Let_def rbind_eq_Inr)
    then obtain a where a: "funding_cost md target needed c = Some a"
      and pf1: "pf1 = ensure_cash_balance pf c"
      and s: "s = (if dec_le a (cash_amount pf c)
          then Some \<lparr>fs_pair = fc_pair candidate, fs_rate = rate, fs_funding_currency = c,
                 fs_sell_required = a\<rparr> else None)"
      using Some by (auto simp: funding_selection_for_candidate_def Let_def rbind_eq_Inr candidate_def
          candidate_funding_source_def funding_cost_def split: if_splits)
    show ?thesis
    proof (cases s)
      case (Some x)
      with "2.prems" found \<open>fc_rate candidate = Some rate\<close> have "sel = s"
        by (auto simp: candidate_def Let_def)
      with Some s a show ?thesis by (auto simp: can_fund_def split: if_splits)
    next
      case None
      with "2.prems" found \<open>fc_rate candidate = Some rate\<close> have
        "select_funding_loop cs md target needed pf1 dg (case d of None \<Rightarrow> smallest
           | Some d \<Rightarrow> Some (smaller_funding_deficit smallest d)) = Inr (sel, deficit, pf', dg')"
        by (simp add: candidate_def Let_def)
      with "2.IH"(2) [OF candidate_def] \<open>fc_rate candidate = Some rate\<close> None
      have "map_option fs_funding_currency sel = find (can_fund (cash_amount pf1) md target needed) cs \<and>
          (\<forall>s. sel = Some s \<longrightarrow>
             funding_cost md target needed (fs_funding_currency s) = Some (fs_sell_required s))"
        by auto
      moreover have "cash_amount pf1 = cash_amount pf" by (simp add: pf1 fun_eq_iff)
      moreover have "\<not> can_fund (cash_amount pf) md target needed c"
        using s a None by (auto simp: can_fund_def split: if_splits)
      ultimately show ?thesis by simp
    qed
  qed
qed


section \<open>The exchange that funds a currency\<close>

definition minor_unit :: "string \<Rightarrow> rat" where
  "minor_unit c = pow10 (- int (case dict_get CURRENCY_MINOR_UNITS c of None \<Rightarrow> 2 | Some n \<Rightarrow> n))"

lemma quantize_amount_error:
  assumes "quantize_amount_for_currency a c = Inr b"
  shows "2 * \<bar>dec_val b - dec_val a\<bar> \<le> minor_unit c"
  using assms dec_quantize_error unfolding minor_unit_def
  by (auto simp: quantize_amount_for_currency_def Let_def dec_op_def rmap_error_def
      split: sum.splits)

text \<open>
  C19: An exchange that the funding adds is made for a real shortfall of the buys in its currency. It
  buys the shortfall to within half a minor unit, so it can leave the currency short by that much,
  and sells the quantized cost, which the balance of the sold currency covers at that moment.
\<close>

theorem funding_exchange_bounds:
  assumes run: "fund_target_currency s md options c buys = Inr (pending, s')"
    and new: "fu_fx_intents s' = fu_fx_intents s @ [x]"
  defines "shortfall \<equiv> dec_sub (dec_sum (notional_amounts buys)) (cash_amount (fu_portfolio s) c)"
  shows "xi_buy_currency x = c \<and> dec_less (dec 0 0) shortfall \<and>
    2 * \<bar>dec_val (xi_buy_amount x) - dec_val shortfall\<bar> \<le> minor_unit c \<and>
    funding_cost md c shortfall (xi_sell_currency x) = Some (xi_sell_amount_estimated x) \<and>
    dec_le (xi_sell_amount_estimated x) (cash_amount (fu_portfolio s) (xi_sell_currency x))"
proof -
  obtain needed plan pf1 where need:
    "target_currency_funding_need (fu_portfolio s) c buys = Inr (needed, plan, pf1)"
    using run by (auto simp: fund_target_currency_def rbind_eq_Inr)
  then have pf1: "pf1 = ensure_cash_balance (fu_portfolio s) c"
    and needed: "needed = dec_max (dec 0 0) shortfall"
    by (auto simp: target_currency_funding_need_def rbind_eq_Inr Let_def shortfall_def)
  have positive: "\<not> dec_le needed (dec 0 0)"
    using run need new by (auto simp: fund_target_currency_def Let_def)
  then have less: "dec_less (dec 0 0) shortfall" and same: "needed = shortfall"
    using needed by (auto simp: dec_max_def dec_le_def dec_less_val split: if_splits)
  obtain sel deficit pf2 dg2 where
    sel: "select_funding_source pf1 md options (fu_diagnostics s) c needed
      (map cb_currency (pn_cash_balances pf1)) = Inr (sel, deficit, pf2, dg2)"
    using run need positive by (auto simp: fund_target_currency_def rbind_eq_Inr Let_def)
  note first = select_funding_loop_first [OF sel [unfolded select_funding_source_def]]
  show ?thesis
  proof (cases sel)
    case None
    then have "fu_fx_intents s' = fu_fx_intents s"
      using run need positive sel
      by (auto simp: fund_target_currency_def Let_def record_unfunded_target_currency_def
          record_missing_fx_funding_failure_def rbind_eq_Inr split: if_splits option.splits)
    with new show ?thesis by simp
  next
    case (Some y)
    then have "record_funding_fx_intent (s\<lparr>fu_portfolio := pf2, fu_diagnostics := dg2\<rparr>) c needed y plan = Inr s'"
      using run need positive sel
      by (auto simp: fund_target_currency_def Let_def rbind_eq_Inr)
    then have x: "xi_buy_currency x = c" "quantize_amount_for_currency needed c = Inr (xi_buy_amount x)"
      "xi_sell_currency x = fs_funding_currency y" "xi_sell_amount_estimated x = fs_sell_required y"
      using new by (auto simp: record_funding_fx_intent_def rbind_eq_Inr Let_def)
    have "find (can_fund (cash_amount pf1) md c needed) (funding_priority_currencies options
        (pn_base_currency pf1) c (map cb_currency (pn_cash_balances pf1))) = Some (fs_funding_currency y)"
      using first Some by simp
    then have "can_fund (cash_amount pf1) md c needed (fs_funding_currency y)"
      by (auto simp: find_Some_iff)
    moreover have "cash_amount pf1 = cash_amount (fu_portfolio s)" by (simp add: pf1 fun_eq_iff)
    moreover have "funding_cost md c needed (fs_funding_currency y) = Some (fs_sell_required y)"
      using first Some by simp
    ultimately have "dec_le (fs_sell_required y) (cash_amount (fu_portfolio s) (fs_funding_currency y))"
      by (simp add: can_fund_def)
    with first Some x less same quantize_amount_error [OF x(2)] show ?thesis by simp
  qed
qed

section \<open>The errors of a run\<close>

text \<open>The errors that an operation on decimals raises when no division by zero is involved.\<close>

lemma quantize_amount_Inl:
  "quantize_amount_for_currency a c = Inl e \<Longrightarrow> e = DecimalSignal InvalidOperation"
  by (auto simp: quantize_amount_for_currency_def Let_def dec_op_def dec_quantize_def rmap_error_def
      split: if_splits sum.splits)

lemma select_funding_loop_Inl:
  "select_funding_loop cs md target needed pf dg smallest = Inl e \<Longrightarrow>
    e = DecimalSignal InvalidOperation"
proof (induction cs md target needed pf dg smallest rule: select_funding_loop.induct)
  case (1 md target needed pf dg smallest)
  then show ?case by simp
next
  case (2 c cs md target needed pf dg smallest)
  define candidate where "candidate = candidate_funding_source md target c"
  show ?case
  proof (cases "fc_rate candidate")
    case None
    then show ?thesis using "2.prems" "2.IH"(1) [OF candidate_def None] by (simp add: candidate_def Let_def)
  next
    case (Some rate)
    have cand: "funding_selection_for_candidate pf needed candidate = Inl x \<Longrightarrow>
        x = DecimalSignal InvalidOperation" for x
      using Some by (auto simp: funding_selection_for_candidate_def rbind_eq_Inl Let_def
          dest: quantize_amount_Inl split: if_splits)
    show ?thesis
    proof (cases "funding_selection_for_candidate pf needed candidate")
      case (Inl x)
      then show ?thesis using "2.prems" Some cand by (simp add: candidate_def Let_def)
    next
      case (Inr y)
      obtain s d pf1 where y: "y = (s, d, pf1)" by (metis prod_cases3)
      show ?thesis
      proof (cases s)
        case None
        then show ?thesis using "2.prems" Some Inr y "2.IH"(2) [OF candidate_def]
          by (auto simp: candidate_def Let_def)
      next
        case (Some a)
        then show ?thesis using "2.prems" \<open>fc_rate candidate = Some rate\<close> Inr y
          by (simp add: candidate_def Let_def)
      qed
    qed
  qed
qed

lemma fund_target_currency_Inl:
  "fund_target_currency s md options c buys = Inl e \<Longrightarrow> e = DecimalSignal InvalidOperation"
  by (auto simp: fund_target_currency_def rbind_eq_Inl target_currency_funding_need_def Let_def
      select_funding_source_def record_unfunded_target_currency_def record_funding_fx_intent_def
      dest: quantize_amount_Inl select_funding_loop_Inl split: if_splits option.splits)

lemma fund_target_currencies_Inl:
  "fund_target_currencies cs grouped md options fp s = Inl e \<Longrightarrow> e = DecimalSignal InvalidOperation"
  by (induction cs grouped md options fp s rule: fund_target_currencies.induct)
    (auto simp: rbind_eq_Inl dest: fund_target_currency_Inl)

lemma group_buy_intents_total:
  "\<forall>i \<in> set is. si_notional i \<noteq> None \<Longrightarrow> group_buy_intents_by_currency is g \<noteq> Inl e"
  by (induction "is" g rule: group_buy_intents_by_currency.induct) auto

lemma build_auto_funding_plan_Inl:
  assumes "build_auto_funding_plan pf md options buys dg = Inl e" "\<forall>i \<in> set buys. si_notional i \<noteq> None"
  shows "e = DecimalSignal InvalidOperation"
  using assms group_buy_intents_total [OF assms(2)]
  by (auto simp: build_auto_funding_plan_def rbind_eq_Inl Let_def dest: fund_target_currencies_Inl
      split: if_splits)

text \<open>What makes a trade raise: no size at all, or a notional of an instrument priced at zero.\<close>

definition unsizable :: "market_data_snapshot \<Rightarrow> proposed_trade \<Rightarrow> engine_error \<Rightarrow> bool" where
  "unsizable md t e =
     (pt_quantity t = None \<and>
      (case (price_for md (pt_instrument_id t), pt_notional t) of
         (Some p, None) \<Rightarrow> e = AttributeError
       | (Some p, Some m) \<Rightarrow> mn_currency m = pr_currency p \<and> dec_is_zero (pr_price p) \<and>
           e = DecimalSignal (if dec_is_zero (mn_amount m) then InvalidOperation else DivisionByZero)
       | _ \<Rightarrow> False))"

lemma trade_intent_Inl:
  assumes "security_trade_intent_for_trade trade entries md base new_id options dg hf = Inl e"
  shows "unsizable md trade e"
  using assms
  by (auto simp: security_trade_intent_for_trade_def trade_has_shelf_entry_def unsizable_def
      trade_is_supported_by_shelf_def build_supported_security_trade_intent_def rbind_eq_Inl
      build_proposal_security_trade_intent_def resolve_trade_notional_def dec_op_def dec_div_def Let_def
      split: option.splits if_splits prod.splits)

lemma security_trade_loop_Inl:
  "security_trade_loop idx trades entries md base options dg hf = Inl e \<Longrightarrow>
    \<exists>t \<in> set trades. unsizable md t e"
  by (induction idx trades entries md base options dg hf rule: security_trade_loop.induct)
    (fastforce simp: rbind_eq_Inl dest: trade_intent_Inl)+

lemma run_Inl:
  assumes "run_proposal_simulation sha hex rq = Inl e"
  shows "e = DecimalSignal InvalidOperation \<or> (\<exists>t \<in> set (sd_trades rq). unsizable (sd_market_data rq) t e)"
proof -
  let ?pf = "sd_portfolio rq" and ?md = "sd_market_data rq" and ?o = "sd_options rq"
  obtain dg where plan: "build_simulation_intent_plan ?pf ?md (sd_shelf rq) ?o (sd_cash_flows rq)
      (sd_trades rq) dg = Inl e"
    using assms by (auto simp: run_proposal_simulation_def rbind_eq_Inl Let_def case_prod_beta)
  obtain cfi pf1 dg1 hf1 where cf: "build_cash_flow_intents 0 (sd_cash_flows rq) ?o ?pf dg [] =
      (cfi, pf1, dg1, hf1)" by (metis prod_cases4)
  define loop where "loop = security_trade_loop 0 (sd_trades rq) (eligibility_shelf (sd_shelf rq)) ?md
    (pn_base_currency ?pf) ?o dg1 hf1"
  show ?thesis
  proof (cases loop)
    case (Inl x)
    then have "x = e"
      using plan cf by (simp add: build_simulation_intent_plan_def build_security_trade_intents_def loop_def)
    with Inl show ?thesis using security_trade_loop_Inl unfolding loop_def by blast
  next
    case (Inr y)
    obtain js dg2 hf2 where y: "y = (js, dg2, hf2)" by (metis prod_cases3)
    have fund: "build_auto_funding_plan (apply_sell_intents pf1 (sells_of js)) ?md ?o (buys_of js) dg2 = Inl e"
      using plan cf Inr y
      by (auto simp: build_simulation_intent_plan_def build_security_trade_intents_def loop_def
          rbind_eq_Inl Let_def case_prod_beta)
    have "\<forall>i \<in> set js. \<exists>t. trade_sized ?md t i"
      using security_trade_loop_facts Inr y unfolding loop_def by blast
    then have "\<forall>i \<in> set (buys_of js). si_notional i \<noteq> None" by (auto simp: trade_sized_def)
    with build_auto_funding_plan_Inl [OF fund] show ?thesis by blast
  qed
qed

text \<open>
  C20: A run ends in an error only through its arithmetic. When every trade has a size, the error is a
  signal of the decimal library; a division by zero comes from a notional trade of an instrument
  whose price is zero, and without such a trade only a quotient of more than 28 digits remains.
\<close>

theorem run_fails_only_in_arithmetic:
  assumes "run_proposal_simulation sha hex rq = Inl e"
    and "\<forall>t \<in> set (sd_trades rq). pt_quantity t \<noteq> None \<or> pt_notional t \<noteq> None"
  shows "e = DecimalSignal InvalidOperation \<or>
    e = DecimalSignal DivisionByZero \<and>
    (\<exists>t \<in> set (sd_trades rq). pt_quantity t = None \<and>
       (\<exists>p. price_for (sd_market_data rq) (pt_instrument_id t) = Some p \<and> dec_is_zero (pr_price p)))"
  using run_Inl [OF assms(1)] assms(2)
  by (fastforce simp: unsizable_def split: option.splits if_splits)

lemma trade_intent_unsizable:
  assumes "dict_get entries (pt_instrument_id t) = Some entry" "shelf_supports_trade t entry options"
    and "unsizable md t e"
  shows "security_trade_intent_for_trade t entries md base new_id options dg hf = Inl e"
  using assms
  by (auto simp: security_trade_intent_for_trade_def trade_has_shelf_entry_def unsizable_def
      trade_is_supported_by_shelf_def build_supported_security_trade_intent_def
      build_proposal_security_trade_intent_def resolve_trade_notional_def dec_op_def dec_div_def Let_def
      split: option.splits if_splits)

lemma security_trade_loop_unsizable:
  "t \<in> set trades \<Longrightarrow> dict_get entries (pt_instrument_id t) = Some entry \<Longrightarrow>
    shelf_supports_trade t entry options \<Longrightarrow> unsizable md t e \<Longrightarrow>
    security_trade_loop idx trades entries md base options dg hf \<noteq> Inr x"
proof (induction idx trades entries md base options dg hf arbitrary: x rule: security_trade_loop.induct)
  case (1 idx entries md base options dg hf)
  then show ?case by simp
next
  case (2 idx u trades entries md base options dg hf)
  then show ?case
    by (cases "t = u") (auto simp: rbind_eq_Inr trade_intent_unsizable split: prod.splits)
qed

text \<open>
  C40: One priced-at-zero row of the market data ends the whole run in an error: a notional trade in
  the currency of its price, on an instrument whose shelf entry permits it, is divided by the price
  without a check, whatever the other trades are.
\<close>

theorem zero_price_ends_run:
  assumes "t \<in> set (sd_trades rq)" "pt_quantity t = None" "pt_notional t = Some m"
    and "price_for (sd_market_data rq) (pt_instrument_id t) = Some p"
    and "mn_currency m = pr_currency p" "dec_is_zero (pr_price p)"
    and "dict_get (eligibility_shelf (sd_shelf rq)) (pt_instrument_id t) = Some entry"
    and "shelf_supports_trade t entry (sd_options rq)"
  shows "\<exists>e. run_proposal_simulation sha hex rq = Inl e"
proof (cases "run_proposal_simulation sha hex rq")
  case (Inr r)
  have bad: "\<exists>e. unsizable (sd_market_data rq) t e" using assms(2-6) by (simp add: unsizable_def)
  from Inr show ?thesis
  proof (rule run_stages)
    fix dq plan dg2
    assume "build_simulation_intent_plan (sd_portfolio rq) (sd_market_data rq) (sd_shelf rq)
       (sd_options rq) (sd_cash_flows rq) (sd_trades rq) (make_diagnostics_data\<lparr>dg_data_quality := dq\<rparr>) =
       Inr (plan, dg2)"
    then show ?thesis
    proof (rule plan_stages)
      fix dg1 hf1 js dg2 hf2
      assume "security_trade_loop 0 (sd_trades rq) (eligibility_shelf (sd_shelf rq)) (sd_market_data rq)
        (pn_base_currency (sd_portfolio rq)) (sd_options rq) dg1 hf1 = Inr (js, dg2, hf2)"
      with bad security_trade_loop_unsizable [OF assms(1,7,8)] show ?thesis by blast
    qed
  qed
qed blast

section \<open>From the plan to the result\<close>

lemma run_of_plan:
  assumes "build_simulated_state (sd_portfolio rq) (sd_market_data rq) (sd_shelf rq)
       (dg_data_quality make_diagnostics_data) (so_valuation_mode (sd_options rq)) = (before_state, dq)"
    and "build_simulation_intent_plan (sd_portfolio rq) (sd_market_data rq) (sd_shelf rq)
       (sd_options rq) (sd_cash_flows rq) (sd_trades rq) (make_diagnostics_data\<lparr>dg_data_quality := dq\<rparr>) =
       Inr (plan, dg2)"
    and "simulated_after plan before_state (sd_market_data rq) (sd_shelf rq) dg2 = (after_state, dg3)"
  shows "\<exists>r. run_proposal_simulation sha hex rq = Inr r \<and> sl_before r = before_state \<and>
    sl_intents r = ip_intents plan \<and> sl_after_simulated r = after_state \<and>
    sl_status r = sw_final_status (fst (evaluate_simulation_review (sd_portfolio rq) (sd_market_data rq)
      (sd_options rq) dg3 before_state after_state plan))"
  using assms by (simp add: run_proposal_simulation_def Let_def split: prod.split)

text \<open>A plan that leaves a negative balance makes a run that is blocked.\<close>

lemma overdrawn_plan_blocks:
  assumes plan: "\<And>dg. \<exists>dg'. build_simulation_intent_plan (sd_portfolio rq) (sd_market_data rq)
      (sd_shelf rq) (sd_options rq) (sd_cash_flows rq) (sd_trades rq) dg = Inr (plan, dg')"
    and some: "ip_intents plan \<noteq> []"
    and negative: "\<exists>b \<in> set (pn_cash_balances (ip_after_portfolio plan)). dec_less (cb_amount b) (dec 0 0)"
  shows "\<exists>r. run_proposal_simulation sha hex rq = Inr r \<and> sl_status r = BLOCKED \<and>
    sl_intents r = ip_intents plan \<and>
    vs_cash_balances (sl_after_simulated r) = pn_cash_balances (ip_after_portfolio plan)"
proof -
  obtain before_state dq where v: "build_simulated_state (sd_portfolio rq) (sd_market_data rq) (sd_shelf rq)
       (dg_data_quality make_diagnostics_data) (so_valuation_mode (sd_options rq)) = (before_state, dq)"
    by fastforce
  obtain dg2 where p: "build_simulation_intent_plan (sd_portfolio rq) (sd_market_data rq) (sd_shelf rq)
       (sd_options rq) (sd_cash_flows rq) (sd_trades rq) (make_diagnostics_data\<lparr>dg_data_quality := dq\<rparr>) =
       Inr (plan, dg2)" using plan by blast
  obtain after_state dg3 where a: "simulated_after plan before_state (sd_market_data rq) (sd_shelf rq) dg2 =
      (after_state, dg3)" by fastforce
  have cash: "vs_cash_balances after_state = pn_cash_balances (ip_after_portfolio plan)"
    by (rule build_simulated_state_facts(3) [OF simulated_after_facts(3) [OF a some]])
  have "sw_final_status (fst (evaluate_simulation_review (sd_portfolio rq) (sd_market_data rq)
      (sd_options rq) dg3 before_state after_state plan)) = BLOCKED"
    by (rule evaluate_simulation_review_facts(4) [OF surjective_pairing]) (simp add: cash negative)
  with run_of_plan [OF v p a, of sha hex] cash show ?thesis by auto
qed

end
