(* ===== verification/Decision_Properties.thy ===== *)
theory Decision_Properties
  imports Decision_Summary Simulation_Outcomes
begin

text \<open>
  What a decision summary promises: it follows the run it summarises, its requirements merge their
  sources, its changes are those above the thresholds, and the explanation says which authorities
  answered.
\<close>

section \<open>Requirements\<close>

definition requirement_key :: "approval_requirement \<Rightarrow> requirement_type \<times> string" where
  "requirement_key r = (nr_approval_type r, nr_reason_code r)"

text \<open>The requirement that stands for a list of sources, and for all sources of its key.\<close>

definition merges :: "approval_requirement list \<Rightarrow> approval_requirement \<Rightarrow> bool" where
  "merges same r =
     (same \<noteq> [] \<and>
      SEVERITY_SORT (nr_severity r) = Min ((\<lambda>s. SEVERITY_SORT (nr_severity s)) ` set same) \<and>
      nr_blocking_until_approved r = list_ex nr_blocking_until_approved same \<and>
      set (nr_evidence_refs r) = \<Union> ((\<lambda>s. set (nr_evidence_refs s)) ` set same))"

definition merged_from :: "approval_requirement list \<Rightarrow> approval_requirement \<Rightarrow> bool" where
  "merged_from sources r = merges (filter (\<lambda>s. requirement_key s = requirement_key r) sources) r"

lemma merges_single: "merges [s] s"
  by (simp add: merges_def)

lemma merges_snoc:
  assumes "merges same e"
  shows "merges (same @ [s])
    (e\<lparr>nr_severity := (if SEVERITY_SORT (nr_severity s) < SEVERITY_SORT (nr_severity e)
         then nr_severity s else nr_severity e),
       nr_blocking_until_approved := (nr_blocking_until_approved e \<or> nr_blocking_until_approved s),
       nr_evidence_refs := sorted_union (nr_evidence_refs e) (nr_evidence_refs s)\<rparr>)"
proof -
  let ?f = "\<lambda>s. SEVERITY_SORT (nr_severity s)"
  have same: "same \<noteq> []" "Min (?f ` set same) = ?f e" using assms by (simp_all add: merges_def)
  then have "Min (?f ` set (same @ [s])) = min (?f s) (?f e)" by simp
  then show ?thesis using assms same by (auto simp: merges_def sorted_union_def)
qed

definition merged_inv ::
  "approval_requirement list \<Rightarrow> (requirement_type \<times> string, approval_requirement) dict \<Rightarrow> bool" where
  "merged_inv sources d =
     (dict_wf d \<and>
      (\<forall>k. dict_get d k = None \<longrightarrow> k \<notin> requirement_key ` set sources) \<and>
      (\<forall>k r. dict_get d k = Some r \<longrightarrow> requirement_key r = k \<and> merged_from sources r))"

lemma merged_inv_missing: "merged_inv sources d \<Longrightarrow> dict_get d k = None \<Longrightarrow> k \<notin> requirement_key ` set sources"
  unfolding merged_inv_def by blast

lemma merged_inv_entry:
  "merged_inv sources d \<Longrightarrow> dict_get d k = Some r \<Longrightarrow> requirement_key r = k \<and> merged_from sources r"
  unfolding merged_inv_def by blast

lemma merged_from_snoc:
  "requirement_key r \<noteq> requirement_key s \<Longrightarrow> merged_from (sources @ [s]) r = merged_from sources r"
  by (simp add: merged_from_def)

lemma merged_from_source:
  assumes "merged_from sources r"
  shows "requirement_key r \<in> requirement_key ` set sources"
proof -
  have "filter (\<lambda>s. requirement_key s = requirement_key r) sources \<noteq> []"
    using assms unfolding merged_from_def merges_def by simp
  then obtain s where "s \<in> set sources" "requirement_key s = requirement_key r"
    unfolding filter_empty_conv by blast
  then show ?thesis by (metis image_eqI)
qed

lemma merged_inv_set:
  assumes inv: "merged_inv sources d"
    and key: "requirement_key f = requirement_key s"
    and new: "merged_from (sources @ [s]) f"
  shows "merged_inv (sources @ [s]) (dict_set (requirement_key s) f d)"
  unfolding merged_inv_def
proof (intro conjI allI impI)
  show "dict_wf (dict_set (requirement_key s) f d)" using inv by (simp add: merged_inv_def)
next
  fix k
  assume "dict_get (dict_set (requirement_key s) f d) k = None"
  then show "k \<notin> requirement_key ` set (sources @ [s])"
    using merged_inv_missing [OF inv, of k] by (auto split: if_splits)
next
  fix k r
  assume "dict_get (dict_set (requirement_key s) f d) k = Some r"
  then consider "k = requirement_key s" "r = f" | "k \<noteq> requirement_key s" "dict_get d k = Some r"
    by (auto split: if_splits)
  then have "requirement_key r = k \<and> merged_from (sources @ [s]) r"
    by cases (use key new merged_inv_entry [OF inv] merged_from_snoc in auto)
  then show "requirement_key r = k" "merged_from (sources @ [s]) r" by auto
qed

lemma merged_inv_step:
  assumes inv: "merged_inv sources d"
  shows "merged_inv (sources @ [s]) (merge_requirement d s)"
proof (cases "dict_get d (requirement_key s)")
  case None
  then have "requirement_key s \<notin> requirement_key ` set sources" by (rule merged_inv_missing [OF inv])
  then have "filter (\<lambda>x. requirement_key x = requirement_key s) (sources @ [s]) = [s]"
    by (auto simp: filter_empty_conv image_iff)
  then have "merged_from (sources @ [s]) s" by (simp add: merged_from_def merges_single)
  moreover have "merge_requirement d s = dict_set (requirement_key s) s d"
    using None by (simp add: merge_requirement_def requirement_key_def)
  ultimately show ?thesis using merged_inv_set [OF inv] by simp
next
  case (Some e)
  define f where "f = e\<lparr>nr_severity := (if SEVERITY_SORT (nr_severity s) < SEVERITY_SORT (nr_severity e)
       then nr_severity s else nr_severity e),
     nr_blocking_until_approved := (nr_blocking_until_approved e \<or> nr_blocking_until_approved s),
     nr_evidence_refs := sorted_union (nr_evidence_refs e) (nr_evidence_refs s)\<rparr>"
  have e: "requirement_key e = requirement_key s" "merged_from sources e"
    using merged_inv_entry [OF inv Some] by auto
  have key: "requirement_key f = requirement_key s" using e by (simp add: f_def requirement_key_def)
  have "filter (\<lambda>x. requirement_key x = requirement_key f) (sources @ [s]) =
      filter (\<lambda>x. requirement_key x = requirement_key e) sources @ [s]" using e key by simp
  then have "merged_from (sources @ [s]) f"
    using merges_snoc [of _ e s] e(2) unfolding merged_from_def f_def [symmetric] by simp
  moreover have "merge_requirement d s = dict_set (requirement_key s) f d"
    using Some by (simp add: merge_requirement_def requirement_key_def f_def)
  ultimately show ?thesis using merged_inv_set [OF inv key] by simp
qed

lemma merged_inv_all: "merged_inv sources (foldl merge_requirement [] sources)"
proof (induction sources rule: rev_induct)
  case Nil
  then show ?case by (simp add: merged_inv_def)
next
  case (snoc s sources)
  then show ?case by (simp add: merged_inv_step)
qed

text \<open>What requires an approval: the gate, the missing evidence and the suitability issues, in turn.\<close>

definition requirement_sources ::
  "'a explained_result_scheme \<Rightarrow> missing_evidence list \<Rightarrow> string \<Rightarrow> approval_requirement list" where
  "requirement_sources result missing v =
     gate_approval_requirements result v @
     List.map_filter (requirement_from_missing_evidence v) missing @
     suitability_approval_requirements result v"

text \<open>
  C24: The approval requirements have one entry for every kind and reason that the gate, the missing
  evidence or the suitability issues name, in the order of severity; an entry has the worst severity
  of its sources, blocks when one of them does, and refers to the evidence of all of them.
\<close>

theorem requirements_merge_sources:
  shows "sorted (map requirement_sort_key (build_approval_requirements result missing v)) \<and>
    distinct (map requirement_key (build_approval_requirements result missing v)) \<and>
    requirement_key ` set (build_approval_requirements result missing v) = requirement_key ` set (requirement_sources result missing v) \<and>
    list_all (merged_from (requirement_sources result missing v)) (build_approval_requirements result missing v)"
proof -
  define sources where "sources = requirement_sources result missing v"
  define d where "d = foldl merge_requirement [] sources"
  have rs: "build_approval_requirements result missing v = sort_key requirement_sort_key (dict_values d)"
    by (simp add: build_approval_requirements_def d_def sources_def requirement_sources_def)
  have inv: "merged_inv sources d" unfolding d_def by (rule merged_inv_all)
  then have wf: "dict_wf d" by (simp add: merged_inv_def)
  have entry: "requirement_key r = k \<and> merged_from sources r" if "dict_get d k = Some r" for k r
    using that by (rule merged_inv_entry [OF inv])
  have pair: "requirement_key r = k \<and> merged_from sources r" if "(k, r) \<in> set d" for k r
    using that wf by (intro entry) (simp add: dict_get_def dict_wf_def map_of_eq_Some_iff)
  then have keys: "map requirement_key (dict_values d) = map fst d"
    by (auto simp: dict_values_def)
  have "k \<in> requirement_key ` set sources \<longleftrightarrow> k \<in> set (map fst d)" for k
  proof (cases "dict_get d k")
    case None
    then have "k \<notin> requirement_key ` set sources" by (rule merged_inv_missing [OF inv])
    with None show ?thesis by (simp add: dict_get_def map_of_eq_None_iff)
  next
    case (Some r)
    with entry [OF Some] have "k \<in> requirement_key ` set sources"
      using merged_from_source [of sources r] by simp
    moreover have "k \<in> set (map fst d)" using Some by (force dest: dict_get_SomeD)
    ultimately show ?thesis by simp
  qed
  then have "requirement_key ` set (dict_values d) = requirement_key ` set sources"
    using keys by (metis set_map set_eqI)
  moreover have "list_all (merged_from sources) (dict_values d)"
    using pair by (auto simp: dict_values_def list_all_iff)
  moreover have "distinct (map requirement_key (dict_values d))" using wf keys by (simp add: dict_wf_def)
  ultimately show ?thesis unfolding sources_def [symmetric] by (simp add: rs list_all_iff)
qed

section \<open>Following the run\<close>

lemma truncate_simps [simp]:
  "sl_status (simulation_result.truncate r) = sl_status r"
  "sl_gate_decision (simulation_result.truncate r) = sl_gate_decision r"
  "sl_rule_results (simulation_result.truncate r) = sl_rule_results r"
  "simulation_result.truncate (local_result s) = s"
  by (simp_all add: simulation_result.defs local_result_def)

lemma summary_parts:
  assumes "build_proposal_decision_summary result = Inr d"
  shows "dy_missing_evidence d = build_missing_evidence result"
    "dy_decision_status d = derive_decision_status result (build_missing_evidence result)"
    "dy_confidence d = decision_confidence_of result (build_missing_evidence result)"
    "dy_primary_summary d = primary_decision_summary (dy_decision_status d) (dy_primary_reason_code d)"
    "dy_primary_reason_code d =
      primary_decision_reason_code result (build_missing_evidence result) (dy_decision_status d)"
  using assms by (auto simp: build_proposal_decision_summary_def rbind_eq_Inr Let_def)

lemma risk_gap_blocks:
  assumes "map_option ah_risk_authority (er_authority_resolution result) = Some RiskAuthorityUnavailable"
  shows "has_blocking_missing_evidence (build_missing_evidence result)" "build_missing_evidence result \<noteq> []"
  using assms
  by (auto simp: has_blocking_missing_evidence_def build_missing_evidence_def risk_missing_evidence_def)

text \<open>
  C21: The decision follows the run it summarises, when the gates are on: it asks for remediation
  exactly for a BLOCKED run, never merely recommends a revision, and lets a proposal go to the client
  only if the run is READY, no rule of either severity failed, the risk authority answered and no
  evidence that blocks is missing.
\<close>

theorem decision_follows_run:
  assumes run: "run_proposal_simulation sha hex rq = Inr (simulation_result.truncate result)"
    and gates: "so_enable_workflow_gates (sd_options rq)"
    and summary: "build_proposal_decision_summary result = Inr d"
  shows "(dy_decision_status d = BlockedRemediationRequired \<longleftrightarrow> sl_status result = BLOCKED) \<and>
    dy_decision_status d \<noteq> RevisionRecommended \<and>
    (dy_decision_status d \<in> {RequiresClientConsent, ReadyForClientReview} \<longrightarrow>
       sl_status result = READY \<and>
       \<not> has_failed_rule_with_severity (sl_rule_results result) RuleHard \<and>
       \<not> has_failed_rule_with_severity (sl_rule_results result) RuleSoft \<and>
       map_option ah_risk_authority (er_authority_resolution result) \<noteq> Some RiskAuthorityUnavailable \<and>
       \<not> list_ex mg_blocking (dy_missing_evidence d))"
proof -
  note agree = run_status_and_gate [OF run]
  obtain g where g: "sl_gate_decision result = Some g" using agree gates by (auto split: option.splits)
  have status: "sl_status result = derive_status_from_rules (sl_rule_results result)" using agree by simp
  note S = summary_parts [OF summary]
  show ?thesis
    using agree g risk_gap_blocks [of result] derive_status_simps [of "sl_rule_results result"] status
    by (auto simp: S derive_decision_status_def status_from_gate_decision_def
        has_blocking_missing_evidence_def status_from_proposal_result_def split: if_splits
        creation_status.splits)
qed

section \<open>Authorities\<close>

lemma evaluate_stages:
  assumes "evaluate_advisory_proposal sha hex ports request = Inr result"
  obtains rq simulated authority reasons enriched risk all_reasons a explained d alternatives where
    "rq = request\<lparr>sd_idempotency_key := normalize_optional_idempotency_key (sd_idempotency_key request)\<rparr>"
    "resolve_simulation sha hex ports rq = Inr (simulated, authority, reasons)"
    "resolve_risk_enrichment ports rq simulated reasons = Inr (enriched, risk, all_reasons)"
    "build_authority_resolution_explanation authority risk all_reasons = Inr a"
    "attach_governed_explanation_sections enriched a (sd_policy_context rq) = Inr explained"
    "build_proposal_decision_summary explained = Inr d"
    "result = explained\<lparr>er_decision_summary := Some d, er_proposal_alternatives := alternatives\<rparr>"
  using assms
  by (auto simp: evaluate_advisory_proposal_def rbind_eq_Inr rmap_error_eq_Inr Let_def
      attach_authority_explanation_def attach_proposal_outputs_def)

lemma simulation_stage:
  assumes "resolve_simulation sha hex ports rq = Inr (simulated, authority, reasons)"
  shows "(authority = LotusCore \<and> reasons = [] \<and> ad_simulation_provider ports \<noteq> None) \<or>
    (authority = LocalFallback \<and> reasons = [''LOTUS_CORE_SIMULATION_UNAVAILABLE''] \<and>
     fb_enabled (resolve_advisory_simulation_fallback_policy ports) \<and>
     (fb_requested (resolve_advisory_simulation_fallback_policy ports) \<longrightarrow>
      fb_permitted (resolve_advisory_simulation_fallback_policy ports)) \<and>
     (\<exists>r. simulated = local_result r))"
  using assms
  by (auto simp: resolve_simulation_def simulate_with_advisory_simulation_provider_def
      run_local_fallback_simulation_def Let_def rbind_eq_Inr split: sum.splits advisory_error.splits
      option.splits if_splits)

lemma risk_stage:
  assumes "resolve_risk_enrichment ports rq r reasons = Inr (enriched, risk, all_reasons)"
  shows "(risk = LotusRisk \<and> all_reasons = reasons \<and> ad_risk_enrichment_provider ports \<noteq> None) \<or>
    (risk = RiskAuthorityUnavailable \<and> enriched = r \<and>
     all_reasons = reasons @ [risk_degraded_reason (build_advisory_risk_dependency_state ports)])"
  using assms
  by (auto simp: resolve_risk_enrichment_def enrich_with_advisory_risk_provider_def Let_def
      split: sum.splits advisory_error.splits option.splits)

lemma governed_sections:
  assumes "attach_governed_explanation_sections r a c = Inr explained"
  shows "er_authority_resolution explained = Some a \<and> sl_status explained = sl_status r \<and>
    (\<forall>x. c = Some x \<longrightarrow> policy_context_valid x)"
  using assms by (auto simp: attach_governed_explanation_sections_def Let_def split: option.splits if_splits)

text \<open>
  C23: Every evaluated proposal says which authorities stand behind it, and its section is valid. It
  is marked degraded exactly if the simulation is a local one or the risk authority did not answer; a
  named authority is a provider that is configured; and a local simulation only stands in where the
  policy enables it, which without a configured policy takes both the request in the environment and
  an environment that permits it.
\<close>

theorem authority_is_explained:
  assumes "evaluate_advisory_proposal sha hex ports request = Inr result"
  shows "\<exists>a. er_authority_resolution result = Some a \<and>
    degraded_flag_matches_reasons a = Inr a \<and>
    (ah_degraded a \<longleftrightarrow>
       ah_simulation_authority a = LocalFallback \<or> ah_risk_authority a = RiskAuthorityUnavailable) \<and>
    (ah_simulation_authority a = LotusCore \<longrightarrow> ad_simulation_provider ports \<noteq> None) \<and>
    (ah_risk_authority a = LotusRisk \<longrightarrow> ad_risk_enrichment_provider ports \<noteq> None) \<and>
    (ah_simulation_authority a = LocalFallback \<longrightarrow>
       fb_enabled (resolve_advisory_simulation_fallback_policy ports) \<and>
       (ad_fallback_policy_provider ports = None \<longrightarrow>
          truthy_env ports ''LOTUS_ADVISE_ALLOW_LOCAL_SIMULATION_FALLBACK'' \<and>
          environment_allows_local_fallback ports))"
  using assms
proof (rule evaluate_stages)
  fix rq simulated authority reasons enriched risk all_reasons a explained d alternatives
  assume sim: "resolve_simulation sha hex ports rq = Inr (simulated, authority, reasons)"
    and risk: "resolve_risk_enrichment ports rq simulated reasons = Inr (enriched, risk, all_reasons)"
    and a: "build_authority_resolution_explanation authority risk all_reasons = Inr a"
    and attached: "attach_governed_explanation_sections enriched a (sd_policy_context rq) = Inr explained"
    and result: "result = explained\<lparr>er_decision_summary := Some d, er_proposal_alternatives := alternatives\<rparr>"
  have facts: "ah_simulation_authority a = authority" "ah_risk_authority a = risk"
    "ah_degraded a = (all_reasons \<noteq> [])" "ah_degraded_reasons a = all_reasons"
    using a by (auto simp: build_authority_resolution_explanation_def degraded_flag_matches_reasons_def
        split: if_splits)
  have valid: "degraded_flag_matches_reasons a = Inr a"
    using a by (auto simp: build_authority_resolution_explanation_def degraded_flag_matches_reasons_def
        split: if_splits)
  have policy: "truthy_env ports ''LOTUS_ADVISE_ALLOW_LOCAL_SIMULATION_FALLBACK'' \<and>
      environment_allows_local_fallback ports"
    if "fb_enabled (resolve_advisory_simulation_fallback_policy ports)" "ad_fallback_policy_provider ports = None"
    using that by (simp add: resolve_advisory_simulation_fallback_policy_def Let_def)
  have "er_authority_resolution result = Some a" using governed_sections [OF attached] by (simp add: result)
  then show ?thesis
    using simulation_stage [OF sim] risk_stage [OF risk] facts valid policy by auto
qed

text \<open>
  C22: Without an answer of the risk authority no proposal goes on to a client, a reviewer or the
  recording of a consent: the decision is that the evidence is insufficient, or that the proposal is
  blocked, with the low confidence that goes with it and a risk posture that is unavailable unless a
  lens came with the simulation.
\<close>

theorem no_progress_without_risk:
  assumes evaluated: "evaluate_advisory_proposal sha hex ports request = Inr result"
    and silent: "map_option ah_risk_authority (er_authority_resolution result) = Some RiskAuthorityUnavailable"
  shows "\<exists>d. er_decision_summary result = Some d \<and>
    dy_decision_status d = (if sl_status result = BLOCKED then BlockedRemediationRequired else InsufficientEvidence) \<and>
    dy_confidence d = (if sl_status result = BLOCKED then ConfidenceInsufficient else ConfidenceLow) \<and>
    list_ex (\<lambda>e. mg_reason_code e = ''MISSING_RISK_LENS'' \<and> mg_blocking e) (dy_missing_evidence d) \<and>
    (json_object (er_risk_lens result) = None \<longrightarrow> rk_status (dy_risk_posture d) = RiskUnavailable)"
  using evaluated
proof (rule evaluate_stages)
  fix rq simulated authority reasons enriched risk all_reasons a explained d alternatives
  assume summary: "build_proposal_decision_summary explained = Inr d"
    and result: "result = explained\<lparr>er_decision_summary := Some d, er_proposal_alternatives := alternatives\<rparr>"
  have gap: "map_option ah_risk_authority (er_authority_resolution explained) = Some RiskAuthorityUnavailable"
    using silent by (simp add: result)
  note S = summary_parts [OF summary]
  have "list_ex (\<lambda>e. mg_reason_code e = ''MISSING_RISK_LENS'' \<and> mg_blocking e) (build_missing_evidence explained)"
    using gap by (auto simp: build_missing_evidence_def risk_missing_evidence_def)
  moreover have "json_object (er_risk_lens result) = None \<longrightarrow> rk_status (dy_risk_posture d) = RiskUnavailable"
    using summary by (auto simp: build_proposal_decision_summary_def rbind_eq_Inr Let_def build_risk_posture_def
        result)
  moreover have "sl_status result = sl_status explained" "er_decision_summary result = Some d"
    by (simp_all add: result)
  ultimately show ?thesis
    using risk_gap_blocks [OF gap] by (simp add: S derive_decision_status_def decision_confidence_of_def)
qed

section \<open>Material changes\<close>

text \<open>A weight moves materially when the change of it is not below the threshold.\<close>

definition moved :: "decimal \<Rightarrow> decimal \<Rightarrow> decimal \<Rightarrow> bool" where
  "moved threshold w w' = (\<not> dec_less (dec_abs (dec_sub w' w)) threshold)"

lemma weight_change_Inr:
  assumes "weight_change change_id family label w w' threshold subject refs = Inr cs"
  shows "map (\<lambda>c. (mc_family c, mc_change_id c)) cs =
    (if moved threshold w w' then [(family, change_id)] else [])"
  using assms by (auto simp: weight_change_def moved_def Let_def rbind_eq_Inr split: if_splits)

text \<open>What a list of changes is about.\<close>

definition listed :: "material_change list \<Rightarrow> (change_family \<times> string) set" where
  "listed changes = (\<lambda>c. (mc_family c, mc_change_id c)) ` set changes"

lemma listed_append [simp]: "listed (xs @ ys) = listed xs \<union> listed ys" "listed [] = {}"
  by (auto simp: listed_def)

lemma listed_sort_key [simp]: "listed (sort_key f xs) = listed xs" by (simp add: listed_def)

lemma listed_weight_change:
  "weight_change change_id family label w w' threshold subject refs = Inr cs \<Longrightarrow>
   listed cs = (if moved threshold w w' then {(family, change_id)} else {})"
  by (auto dest: weight_change_Inr simp: listed_def simp flip: set_map)

lemma listed_collect:
  assumes "collect_changes f xs = Inr cs"
    and "\<And>x ys. f x = Inr ys \<Longrightarrow> listed ys = g x"
  shows "listed cs = (\<Union>x \<in> set xs. g x)"
  using assms(1) by (induction xs arbitrary: cs) (auto simp: rbind_eq_Inr assms(2))

lemma dec_val_sub_self: "dec_val (dec_sub w w) = 0"
proof -
  have "dec_val w + dec_val (dec_minus w) = 0"
    by (simp add: dec_val_coef dec_minus_def)
  then show ?thesis using dec_add_error [of w "dec_minus w"] by (simp add: dec_sub_def)
qed

lemma dec_val_abs_zero: "dec_val x = 0 \<Longrightarrow> dec_val (dec_abs x) = 0"
  using pow10_pos [of "dc_exp x"] by (auto simp: dec_abs_def dec_val_coef dec_fix_small split: if_splits)

lemma not_moved_same: "0 < dec_val threshold \<Longrightarrow> \<not> moved threshold w w"
  by (simp add: moved_def dec_less_val dec_val_abs_zero dec_val_sub_self)

lemma thresholds_positive [simp]: "0 < dec_val ASSET_CLASS_DELTA_THRESHOLD"
  "0 < dec_val CASH_DELTA_THRESHOLD" "0 < dec_val CURRENCY_DELTA_THRESHOLD"
  by (simp_all add: ASSET_CLASS_DELTA_THRESHOLD_def CASH_DELTA_THRESHOLD_def CURRENCY_DELTA_THRESHOLD_def
      dec_val_coef dec_def)

lemma moved_key:
  assumes "moved threshold (weight_in m k) (weight_in m' k)" "0 < dec_val threshold"
  shows "k \<in> set (sorted_union (dict_keys m) (dict_keys m'))"
proof (rule ccontr)
  assume "k \<notin> set (sorted_union (dict_keys m) (dict_keys m'))"
  then have "weight_in m k = weight_in m' k"
    by (simp add: sorted_union_def dict_keys_def weight_in_def dict_get_def map_of_eq_None_iff [symmetric])
  with assms show False by (simp add: not_moved_same)
qed

lemma listed_asset_class:
  assumes "build_asset_class_changes result = Inr cs"
  shows "listed cs = {(AllocationChange, ''asset-class:'' @ c) |c. c \<noteq> ''CASH'' \<and>
    moved ASSET_CLASS_DELTA_THRESHOLD (weight_in (weight_map (ss_allocation_by_asset_class (sl_before result))) c)
      (weight_in (weight_map (ss_allocation_by_asset_class (sl_after_simulated result))) c)}"
proof -
  let ?b = "weight_map (ss_allocation_by_asset_class (sl_before result))"
    and ?a = "weight_map (ss_allocation_by_asset_class (sl_after_simulated result))"
  have "listed cs = (\<Union>c \<in> set (sorted_union (dict_keys ?b) (dict_keys ?a)).
      if c \<noteq> ''CASH'' \<and> moved ASSET_CLASS_DELTA_THRESHOLD (weight_in ?b c) (weight_in ?a c)
      then {(AllocationChange, ''asset-class:'' @ c)} else {})"
    using assms unfolding build_asset_class_changes_def Let_def
    by (rule listed_collect) (auto dest: listed_weight_change split: if_splits)
  then show ?thesis using moved_key [of ASSET_CLASS_DELTA_THRESHOLD ?b _ ?a] by (auto split: if_splits)
qed

lemma listed_currency:
  assumes "build_currency_changes result = Inr cs"
  shows "listed cs = {(CurrencyExposureChange, ''currency:'' @ c) |c.
    moved CURRENCY_DELTA_THRESHOLD (weight_in (currency_weight_map (sl_before result)) c)
      (weight_in (currency_weight_map (sl_after_simulated result)) c)}"
proof -
  let ?b = "currency_weight_map (sl_before result)" and ?a = "currency_weight_map (sl_after_simulated result)"
  have "listed cs = (\<Union>c \<in> set (sorted_union (dict_keys ?b) (dict_keys ?a)).
      if moved CURRENCY_DELTA_THRESHOLD (weight_in ?b c) (weight_in ?a c)
      then {(CurrencyExposureChange, ''currency:'' @ c)} else {})"
    using assms unfolding build_currency_changes_def Let_def
    by (rule listed_collect) (auto dest: listed_weight_change)
  then show ?thesis using moved_key [of CURRENCY_DELTA_THRESHOLD ?b _ ?a] by (auto split: if_splits)
qed

lemma listed_risk_lens:
  "top_position_concentration_change v = Inr cs \<Longrightarrow> c \<in> set cs \<Longrightarrow> mc_family c = ConcentrationChange"
  "issuer_concentration_change v = Inr cs \<Longrightarrow> c \<in> set cs \<Longrightarrow> mc_family c = ConcentrationChange"
  by (auto simp: top_position_concentration_change_def issuer_concentration_change_def
      rbind_eq_Inr split: option.splits if_split_asm)

lemma listed_other:
  "build_concentration_changes result = Inr cs \<Longrightarrow> fst ` listed cs \<subseteq> {ConcentrationChange}"
  "fst ` listed (build_product_and_mandate_changes result) \<subseteq> {ProductComplexityChange, MandateAlignmentChange}"
  "fst ` listed (build_data_quality_changes missing) \<subseteq> {DataQualityChange}"
  "fst ` listed (build_approval_change requirements) \<subseteq> {ApprovalRequirementChange}"
     apply (auto simp: listed_def build_concentration_changes_def rbind_eq_Inr dest: listed_risk_lens
      split: option.splits)[1]
    apply (auto simp: listed_def build_product_and_mandate_changes_def map_filter_def
      product_or_mandate_change_def MATERIAL_SUITABILITY_CHANGE_BY_ISSUE_ID_def dict_get_def
      split: option.splits if_splits)[1]
   apply (auto simp: listed_def build_data_quality_changes_def)[1]
  apply (auto simp: listed_def build_approval_change_def Let_def split: list.splits)
  done

lemma listed_family: "fst ` listed cs \<subseteq> F \<Longrightarrow> (f, n) \<in> listed cs \<Longrightarrow> f \<in> F"
  by force

text \<open>
  C25: The material changes of a decision are in the order of severity, family and name, and among
  them are exactly these changes of weight: an asset class other than cash by 5 points or more, cash
  by 3 points or more, and a currency by 5 points or more, where a class or currency that a state
  does not have weighs nothing.
\<close>

theorem material_changes_listed:
  assumes "build_material_changes result requirements missing = Inr changes"
  shows "sorted (map change_sort_key changes) \<and>
    ((AllocationChange, ''asset-class:'' @ c) \<in> listed changes \<longleftrightarrow> c \<noteq> ''CASH'' \<and>
       moved (dec 5 (- 2)) (weight_in (weight_map (ss_allocation_by_asset_class (sl_before result))) c)
         (weight_in (weight_map (ss_allocation_by_asset_class (sl_after_simulated result))) c)) \<and>
    ((CashChange, ''cash-weight'') \<in> listed changes \<longleftrightarrow>
       moved (dec 3 (- 2)) (cash_weight (sl_before result)) (cash_weight (sl_after_simulated result))) \<and>
    ((CurrencyExposureChange, ''currency:'' @ c) \<in> listed changes \<longleftrightarrow>
       moved (dec 5 (- 2)) (weight_in (currency_weight_map (sl_before result)) c)
         (weight_in (currency_weight_map (sl_after_simulated result)) c))"
proof -
  obtain asset cash currency concentration where parts:
    "build_asset_class_changes result = Inr asset" "build_cash_changes result = Inr cash"
    "build_currency_changes result = Inr currency" "build_concentration_changes result = Inr concentration"
    and changes: "changes = sort_key change_sort_key
         (asset @ cash @ currency @ concentration @ build_product_and_mandate_changes result @
          build_data_quality_changes missing @ build_approval_change requirements)"
    using assms by (auto simp: build_material_changes_def rbind_eq_Inr)
  have cash: "listed cash = (if moved CASH_DELTA_THRESHOLD (cash_weight (sl_before result))
      (cash_weight (sl_after_simulated result)) then {(CashChange, ''cash-weight'')} else {})"
    using parts(2) unfolding build_cash_changes_def by (rule listed_weight_change)
  have other: "(f, n) \<notin> listed (concentration @ build_product_and_mandate_changes result @
      build_data_quality_changes missing @ build_approval_change requirements)"
    if "f \<in> {AllocationChange, CashChange, CurrencyExposureChange}" for f n
    using that by (auto dest: listed_family [OF listed_other(1) [OF parts(4)]]
      listed_family [OF listed_other(2)] listed_family [OF listed_other(3)] listed_family [OF listed_other(4)])
  have "listed changes = listed asset \<union> listed cash \<union> listed currency \<union>
      listed (concentration @ build_product_and_mandate_changes result @
      build_data_quality_changes missing @ build_approval_change requirements)"
    by (simp add: changes Un_assoc)
  moreover have "sorted (map change_sort_key changes)" by (simp add: changes)
  ultimately show ?thesis
    using other listed_asset_class [OF parts(1)] listed_currency [OF parts(3)] cash
    by (auto simp: ASSET_CLASS_DELTA_THRESHOLD_def CASH_DELTA_THRESHOLD_def CURRENCY_DELTA_THRESHOLD_def
        split: if_splits)
qed

text \<open>
  The summary of a run that still needs a review, and for which no risk evidence was obtained, calls
  the proposal ready.
\<close>

lemma pending_run_called_ready:
  assumes "build_proposal_decision_summary result = Inr d"
    and "map_option ah_risk_authority (er_authority_resolution result) = Some RiskAuthorityUnavailable"
    and "sl_status result = PENDING_REVIEW"
    and "dict_list (dg_data_quality (sl_diagnostics result)) ''price_missing'' = []"
    and "dict_list (dg_data_quality (sl_diagnostics result)) ''fx_missing'' = []"
  shows "dy_decision_status d = InsufficientEvidence \<and>
    dy_primary_summary d = ''Proposal is ready, but risk evidence is currently unavailable.''"
  using assms(2-) risk_gap_blocks [OF assms(2)]
  by (auto simp: summary_parts [OF assms(1)] derive_decision_status_def primary_decision_summary_def
      primary_decision_reason_code_def build_missing_evidence_def market_data_missing_evidence_def
      risk_missing_evidence_def)

end
