(* ===== verification/Simulation_Demo.thy ===== *)
theory Simulation_Demo
  imports Simulation_Outcomes
begin

text \<open>
  Concrete simulation runs: one that is ready, two in which the automatic funding spends cash that is
  needed elsewhere, one that it leaves a fraction of a cent short, and one that a price of zero ends.
  The properties of the runs are applied to them.
\<close>

section \<open>Requests\<close>

definition sm_thresholds :: suitability_thresholds where
  "sm_thresholds = \<lparr>tc_single_position_max_weight = dec 1 0, tc_issuer_max_weight = dec 1 0,
     tc_max_weight_by_liquidity_tier = [], tc_cash_band_min_weight = dec 0 0,
     tc_cash_band_max_weight = dec 1 0, tc_data_quality_issue_severity = SevMedium\<rparr>"

definition sm_options :: simulation_options where
  "sm_options =
     \<lparr>eo_allow_restricted = False, eo_workflow_requires_client_consent = False,
      eo_client_consent_already_obtained = False, eo_suitability_thresholds = sm_thresholds,
      so_valuation_mode = Calculated, so_cash_band_min_weight = dec 0 0,
      so_cash_band_max_weight = dec 1 0, so_single_position_max_weight = None,
      so_block_on_missing_prices = True, so_block_on_missing_fx = True,
      so_enable_workflow_gates = True, so_proposal_apply_cash_flows_first = True,
      so_proposal_block_negative_cash = True, so_link_buy_to_same_currency_sell_dependency = None,
      so_enable_drift_analytics = True, so_enable_suitability_scanner = False,
      so_enable_instrument_drift = True, so_drift_top_contributors_limit = 5,
      so_drift_unmodeled_exposure_threshold = dec 1 (- 2), so_auto_funding = True,
      so_fx_funding_source_currency = AnyCash\<rparr>"

definition sm_shelf_entry :: "string \<Rightarrow> shelf_entry" where
  "sm_shelf_entry i = \<lparr>sh_instrument_id = i, sh_status = ShelfApproved, sh_asset_class = ''EQUITY'',
     sh_issuer_id = None, sh_liquidity_tier = None, sh_settlement_days = 2, sh_min_notional = None,
     sh_attributes = []\<rparr>"

definition sm_cash :: "string \<Rightarrow> nat \<Rightarrow> cash_balance" where
  "sm_cash c n = \<lparr>cb_currency = c, cb_amount = dec n 0, cb_settled = None, cb_pending = None\<rparr>"

definition sm_request ::
  "cash_balance list \<Rightarrow> price list \<Rightarrow> fx_rate list \<Rightarrow> proposed_cash_flow list \<Rightarrow> proposed_trade list \<Rightarrow>
   simulation_request_data" where
  "sm_request cash prices rates cfs trades =
     \<lparr>sd_portfolio = \<lparr>pn_snapshot_id = None, pn_source_provenance = None,
        pn_source_completeness = None, pn_portfolio_id = ''PF_1'', pn_base_currency = ''USD'',
        pn_positions = [], pn_cash_balances = cash\<rparr>,
      sd_market_data = \<lparr>md_snapshot_id = None, md_source_provenance = None,
        md_source_completeness = None, md_prices = prices, md_fx_rates = rates\<rparr>,
      sd_shelf = map (\<lambda>p. sm_shelf_entry (pr_instrument_id p)) prices, sd_options = sm_options,
      sd_cash_flows = cfs, sd_trades = trades, sd_reference_model = None,
      sd_request_hash = ''no_hash'', sd_idempotency_key = None, sd_correlation_id = ''corr_1'',
      sd_simulation_contract_version = None, sd_policy_context = None\<rparr>"

definition sm_price_row :: "string \<Rightarrow> decimal \<Rightarrow> string \<Rightarrow> price" where
  "sm_price_row i p c = \<lparr>pr_instrument_id = i, pr_price = p, pr_currency = c\<rparr>"
definition sm_rate :: "string \<Rightarrow> decimal \<Rightarrow> fx_rate" where
  "sm_rate p r = \<lparr>fx_pair = p, fx_rate_value = r\<rparr>"
definition sm_buy :: "string \<Rightarrow> decimal \<Rightarrow> proposed_trade" where
  "sm_buy i q = \<lparr>pt_side = Buy, pt_instrument_id = i, pt_quantity = Some q, pt_notional = None\<rparr>"

definition sm_deposit :: "string \<Rightarrow> nat \<Rightarrow> proposed_cash_flow" where
  "sm_deposit c n = \<lparr>cf_currency = c, cf_amount = dec n 0, cf_description = None\<rparr>"

text \<open>A deposit in the base currency pays for a buy in another one.\<close>

definition funded_request :: simulation_request_data where
  "funded_request = sm_request [sm_cash ''USD'' 900] [sm_price_row ''AWAY'' (dec 10 0) ''EUR'']
     [sm_rate ''EUR/USD'' (dec 1 0)] [sm_deposit ''USD'' 100] [sm_buy ''AWAY'' (dec 5 0)]"

text \<open>A buy in the base currency for all the cash in it, and a buy in another currency.\<close>

definition two_markets :: "string \<Rightarrow> simulation_request_data" where
  "two_markets c = sm_request [sm_cash ''USD'' 100, sm_cash ''EUR'' 1000]
     [sm_price_row ''HOME'' (dec 100 0) ''USD'', sm_price_row ''AWAY'' (dec 1 0) c]
     [sm_rate (c @ ''/USD'') (dec 1 0), sm_rate (''USD/'' @ c) (dec 1 0), sm_rate (c @ ''/EUR'') (dec 1 0),
      sm_rate ''EUR/USD'' (dec 1 0)] []
     [sm_buy ''HOME'' (dec 1 0), sm_buy ''AWAY'' (dec 50 0)]"

text \<open>A buy whose notional is not a whole number of cents.\<close>

definition fractional :: simulation_request_data where
  "fractional = sm_request [sm_cash ''USD'' 1000] [sm_price_row ''AWAY'' (dec 1031 (- 2)) ''EUR'']
     [sm_rate ''EUR/USD'' (dec 1 0)] [] [sm_buy ''AWAY'' (dec 3334 (- 3))]"

text \<open>A buy for an amount of money, of an instrument priced at zero.\<close>

definition worthless_trade :: proposed_trade where
  "worthless_trade = \<lparr>pt_side = Buy, pt_instrument_id = ''AWAY'', pt_quantity = None,
     pt_notional = Some \<lparr>mn_amount = dec 10 0, mn_currency = ''USD''\<rparr>\<rparr>"

definition worthless :: simulation_request_data where
  "worthless = sm_request [sm_cash ''USD'' 100] [sm_price_row ''AWAY'' (dec 0 0) ''USD''] [] [] [worthless_trade]"

section \<open>Evaluation\<close>

lemma strip_zeros_numeral:
  "strip_zeros (numeral n) c =
    (if c mod 10 = 0
     then (let (d, k) = strip_zeros (pred_numeral n) (c div 10) in (d, Suc k)) else (c, 0))"
  using strip_zeros.simps(2) [of "pred_numeral n" c] by (simp only: numeral_eq_Suc [of n, symmetric])

lemma short_digits [simp]: "nat_digits 1 = ''1''" "nat_digits (Suc 0) = ''1''" "nat_digits 2 = ''2''"
  "nat_digits (Suc (Suc 0)) = ''2''"
  by code_simp+

named_theorems demo_eval \<open>requests, plans and valuations\<close>

lemmas request_eval [demo_eval] = sm_thresholds_def sm_options_def sm_shelf_entry_def sm_cash_def sm_request_def
  sm_price_row_def sm_rate_def sm_buy_def sm_deposit_def

lemmas intents_eval [demo_eval] = build_simulation_intent_plan_def build_security_trade_intents_def
  eligibility_shelf_def security_trade_intent_for_trade_def trade_has_shelf_entry_def
  trade_is_supported_by_shelf_def shelf_supports_trade_def build_supported_security_trade_intent_def
  build_proposal_security_trade_intent_def price_for_def resolve_trade_notional_def
  notional_base_money_def get_fx_rate_def fx_rate_for_pair_def fx_pair_of_def
  sorted_security_intents_by_instrument_def apply_sell_intents_def cash_flow_intent_of_def
  apply_proposal_cash_flow_def record_negative_cash_failure_if_needed_def
  cash_flow_creates_negative_balance_def link_buy_intent_dependencies_def append_dependency_def
  sell_intent_id_by_currency_def ordered_execution_intents_def sort_execution_intents_def

lemmas funding_eval [demo_eval] = build_auto_funding_plan_def fund_target_currency_def
  target_currency_funding_need_def notional_amounts_def map_filter_simps quantize_amount_for_currency_def
  dec_sum_def dec_op_def dec_max_def CURRENCY_MINOR_UNITS_def select_funding_source_def
  funding_priority_currencies_def any_cash_funding_candidates_def base_only_funding_candidates_def
  candidate_funding_source_def funding_selection_for_candidate_def record_funding_fx_intent_def
  add_funding_plan_def drop_digits_def

lemmas rows_eval [demo_eval] = apply_fx_spot_to_portfolio_def apply_security_trade_to_portfolio_def
  cash_amount_def ensure_cash_balance_def ensure_position_def change_cash_def change_position_def
  dict_push_def dict_list_def dict_keys_def Let_def

lemmas value_eval = build_simulated_state_def value_position_def value_position_amounts_def
  mark_to_market_position_value_def converted_base_value_def record_missing_price_def
  record_missing_position_fx_def cash_value_in_base_def safe_total_value_def shelf_by_instrument_def
  dict_setdefault_def add_allocation_def apply_shelf_allocation_attributes_def
  instrument_allocations_def allocation_metrics_def attribute_allocation_metrics_def

lemmas review_eval = evaluate_simulation_review_def build_value_reconciliation_def
  expected_cash_delta_base_def build_reconciliation_def evaluate_rules_def evaluate_cash_band_def
  evaluate_single_position_max_def evaluate_data_quality_def evaluate_min_trade_size_def
  evaluate_no_shorting_def evaluate_sufficient_cash_def least_negative_def
  append_input_guard_failure_if_needed_def append_funding_data_quality_failure_if_needed_def
  derive_status_from_rules_def has_failed_rule_with_severity_def final_status_after_reconciliation_def
  final_status_after_pending_review_def

lemma dec_abs_dec [dec_compute]: "a < 10 ^ 28 \<Longrightarrow> dec_abs (dec a e) = dec a e"
  by (simp add: dec_abs_def dec_def dec_fix_small)

lemmas quot_eval = dec_quot_def strip_zeros_numeral dec_digits.simps DEC_PREC_def dec_fix_def

lemma demo_quotients [simp]:
  "dec_quot (dec 95000 (- 2)) (dec 100000 (- 2)) = dec 95 (- 2)"
  "dec_quot (dec 50 0) (dec 100000 (- 2)) = dec 5 (- 2)"
  by (simp_all add: quot_eval Let_def dec_def)

section \<open>A run that is ready\<close>

definition funded_plan :: simulation_intent_plan where
  "funded_plan =
     \<lparr>ip_after_portfolio = (sd_portfolio funded_request)
        \<lparr>pn_positions := [\<lparr>po_instrument_id = ''AWAY'', po_quantity = dec 5 0, po_market_value = None,
                          po_lots = []\<rparr>],
         pn_cash_balances :=
           [\<lparr>cb_currency = ''USD'', cb_amount = dec 95000 (- 2), cb_settled = None, cb_pending = None\<rparr>,
            \<lparr>cb_currency = ''EUR'', cb_amount = dec 0 (- 2), cb_settled = None, cb_pending = None\<rparr>]\<rparr>,
      ip_cash_flows = [sm_deposit ''USD'' 100], ip_trades = [sm_buy ''AWAY'' (dec 5 0)],
      ip_intents =
        [CashFlow \<lparr>ci_intent_id = ''oi_cf_1'', ci_currency = ''USD'', ci_amount = dec 100 0,
           ci_description = None\<rparr>,
         FxSpot \<lparr>xi_intent_id = ''oi_fx_1'', xi_pair = ''EUR/USD'', xi_buy_currency = ''EUR'',
           xi_buy_amount = dec 5000 (- 2), xi_sell_currency = ''USD'',
           xi_sell_amount_estimated = dec 5000 (- 2), xi_dependencies = [],
           xi_rationale = Some (''FUNDING'', ''Fund EUR buys'')\<rparr>,
         SecurityTrade \<lparr>si_intent_id = ''oi_1'', si_instrument_id = ''AWAY'', si_side = Buy,
           si_quantity = Some (dec 5 0),
           si_notional = Some \<lparr>mn_amount = dec 50 0, mn_currency = ''EUR''\<rparr>,
           si_notional_base = Some \<lparr>mn_amount = dec 50 0, mn_currency = ''USD''\<rparr>,
           si_dependencies = [''oi_fx_1''],
           si_rationale = Some (''MANUAL_PROPOSAL'', ''Advisor proposed trade''),
           si_constraints_applied = []\<rparr>],
      ip_hard_failures = [], ip_force_pending_review = False\<rparr>"

lemma funded_plan_built:
  "\<exists>entry. build_simulation_intent_plan (sd_portfolio funded_request) (sd_market_data funded_request)
     (sd_shelf funded_request) (sd_options funded_request) (sd_cash_flows funded_request)
     (sd_trades funded_request) dg = Inr (funded_plan, add_funding_plan entry dg)"
  by (simp add: demo_eval funded_request_def funded_plan_def dec_compute del: nat_digits.simps)
    (blast intro: refl)

lemma funded_before:
  "\<exists>st. build_simulated_state (sd_portfolio funded_request) (sd_market_data funded_request)
     (sd_shelf funded_request) dq Calculated = (st, dq) \<and> mn_amount (ss_total_value st) = dec 900 0"
  by (simp add: demo_eval value_eval funded_request_def dec_compute)

lemma funded_after:
  "\<exists>st e c. build_simulated_state (ip_after_portfolio funded_plan) (sd_market_data funded_request)
     (sd_shelf funded_request) dq Calculated = (st, dq) \<and>
     mn_amount (ss_total_value st) = dec 100000 (- 2) \<and>
     ss_allocation_by_asset_class st = [e, c] \<and> am_key e = ''EQUITY'' \<and> am_key c = ''CASH'' \<and>
     am_weight c = dec 95 (- 2) \<and> map sm_quantity (vs_positions st) = [dec 5 0] \<and>
     map cb_amount (vs_cash_balances st) = [dec 95000 (- 2), dec 0 (- 2)]"
  by (simp add: demo_eval value_eval funded_request_def funded_plan_def dec_compute)

lemma funded_run_ready:
  "\<exists>r. run_proposal_simulation sha hex funded_request = Inr r \<and> sl_status r = READY"
proof -
  let ?rq = funded_request and ?dq = "dg_data_quality make_diagnostics_data"
  have mode: "so_valuation_mode (sd_options ?rq) = Calculated"
    by (simp add: funded_request_def sm_request_def sm_options_def)
  obtain before_state where v: "build_simulated_state (sd_portfolio ?rq) (sd_market_data ?rq) (sd_shelf ?rq)
      ?dq (so_valuation_mode (sd_options ?rq)) = (before_state, ?dq)"
    and total_before: "mn_amount (ss_total_value before_state) = dec 900 0"
    using funded_before unfolding mode by blast
  define dg where "dg = make_diagnostics_data\<lparr>dg_data_quality := ?dq\<rparr>"
  obtain entry where p: "build_simulation_intent_plan (sd_portfolio ?rq) (sd_market_data ?rq) (sd_shelf ?rq)
      (sd_options ?rq) (sd_cash_flows ?rq) (sd_trades ?rq) dg = Inr (funded_plan, add_funding_plan entry dg)"
    using funded_plan_built by blast
  have quality: "dg_data_quality (add_funding_plan entry dg) = ?dq" by (simp add: dg_def)
  obtain after_state e c where b: "build_simulated_state (ip_after_portfolio funded_plan)
      (sd_market_data ?rq) (sd_shelf ?rq) ?dq Calculated = (after_state, ?dq)"
    and after_facts: "mn_amount (ss_total_value after_state) = dec 100000 (- 2)"
      "ss_allocation_by_asset_class after_state = [e, c]" "am_key e = ''EQUITY''" "am_key c = ''CASH''"
      "am_weight c = dec 95 (- 2)" "map sm_quantity (vs_positions after_state) = [dec 5 0]"
      "map cb_amount (vs_cash_balances after_state) = [dec 95000 (- 2), dec 0 (- 2)]"
    using funded_after [of ?dq] by fastforce
  have a: "simulated_after funded_plan before_state (sd_market_data ?rq) (sd_shelf ?rq)
      (add_funding_plan entry dg) = (after_state, add_funding_plan entry dg)"
    using b quality by (simp add: simulated_after_def funded_plan_def)
  have "sw_final_status (fst (evaluate_simulation_review (sd_portfolio ?rq) (sd_market_data ?rq)
      (sd_options ?rq) (add_funding_plan entry dg) before_state after_state funded_plan)) = READY"
    using after_facts total_before
    by (simp add: review_eval demo_eval funded_plan_def funded_request_def dg_def
        make_diagnostics_data_def make_empty_data_quality_log_def dec_compute)
  with run_of_plan [OF v p [unfolded dg_def] a [unfolded dg_def], of sha hex] show ?thesis
    by (auto simp: dg_def)
qed

section \<open>The properties of the runs\<close>

lemma funded_market [simp]: "\<forall>p \<in> set (md_prices (sd_market_data funded_request)). length (pr_currency p) = 3"
  "so_block_on_missing_prices (sd_options funded_request)" "so_block_on_missing_fx (sd_options funded_request)"
  "length (sd_trades funded_request) = 1" "length (sd_cash_flows funded_request) = 1"
  by (simp_all add: funded_request_def request_eval)

theorem after_state_executes_intents_witness:
  "\<exists>r. run_proposal_simulation id ''1f'' funded_request = Inr r \<and>
    state_ledger (sl_after_simulated r) = foldl execute_intent (state_ledger (sl_before r)) (sl_intents r)"
  using funded_run_ready [of id "''1f''"] after_state_executes_intents [OF _ funded_market(1)] by blast



theorem intents_in_dependency_order_witness:
  "\<exists>r. run_proposal_simulation id ''1f'' funded_request = Inr r \<and> depends_backwards (sl_intents r)"
  using funded_run_ready [of id "''1f''"] intents_in_dependency_order by blast

theorem status_and_gate_agree_witness:
  "\<exists>r. run_proposal_simulation id ''1f'' funded_request = Inr r \<and>
    derive_status_from_rules (sl_rule_results r) = READY"
proof -
  obtain r where r: "run_proposal_simulation id ''1f'' funded_request = Inr r" "sl_status r = READY"
    using funded_run_ready by blast
  from status_and_gate_agree [OF r(1)] r show ?thesis by auto
qed

section \<open>Funding\<close>



definition fractional_buy :: security_trade_intent where
  "fractional_buy = \<lparr>si_intent_id = ''oi_1'', si_instrument_id = ''AWAY'', si_side = Buy,
     si_quantity = Some (dec 3334 (- 3)),
     si_notional = Some \<lparr>mn_amount = dec 3437354 (- 5), mn_currency = ''EUR''\<rparr>,
     si_notional_base = Some \<lparr>mn_amount = dec 34373540 (- 6), mn_currency = ''USD''\<rparr>,
     si_dependencies = [], si_rationale = Some (''MANUAL_PROPOSAL'', ''Advisor proposed trade''),
     si_constraints_applied = []\<rparr>"

definition fractional_funding :: funding_state where
  "fractional_funding = \<lparr>fu_portfolio = sd_portfolio fractional, fu_diagnostics = make_diagnostics_data,
     fu_fx_intents = [], fu_fx_by_currency = [], fu_unfunded_currencies = {}, fu_hard_failures = []\<rparr>"

lemma demo_exchange:
  "\<exists>pending s x. fund_target_currency fractional_funding (sd_market_data fractional) sm_options ''EUR''
     [fractional_buy] = Inr (pending, s) \<and> fu_fx_intents s = [x] \<and> xi_sell_currency x = ''USD''"
  by (simp add: demo_eval fractional_def fractional_funding_def fractional_buy_def dec_compute
      del: nat_digits.simps) blast

theorem funding_exchange_bounds_witness:
  "\<exists>pending s x. fund_target_currency fractional_funding (sd_market_data fractional) sm_options ''EUR''
     [fractional_buy] = Inr (pending, s) \<and> fu_fx_intents s = [x] \<and>
     dec_le (xi_sell_amount_estimated x) (cash_amount (sd_portfolio fractional) ''USD'')"
proof -
  obtain pending s x where f: "fund_target_currency fractional_funding (sd_market_data fractional)
     sm_options ''EUR'' [fractional_buy] = Inr (pending, s)" "fu_fx_intents s = [x]"
     "xi_sell_currency x = ''USD''" using demo_exchange by blast
  then have "fu_fx_intents s = fu_fx_intents fractional_funding @ [x]" by (simp add: fractional_funding_def)
  from funding_exchange_bounds [OF f(1) this] f show ?thesis by (auto simp: fractional_funding_def)
qed

section \<open>Runs that end in an error or are blocked\<close>

lemma worthless_simps:
  "sd_trades worthless = [worthless_trade]"
  "price_for (sd_market_data worthless) ''AWAY'' = Some (sm_price_row ''AWAY'' (dec 0 0) ''USD'')"
  "dict_get (eligibility_shelf (sd_shelf worthless)) ''AWAY'' = Some (sm_shelf_entry ''AWAY'')"
  by (simp_all add: worthless_def request_eval price_for_def eligibility_shelf_def)

theorem zero_price_ends_run_witness:
  "\<exists>e. run_proposal_simulation id ''1f'' worthless = Inl e"
  by (rule zero_price_ends_run [where t = worthless_trade and entry = "sm_shelf_entry ''AWAY''" and
        p = "sm_price_row ''AWAY'' (dec 0 0) ''USD''" and m = "\<lparr>mn_amount = dec 10 0, mn_currency = ''USD''\<rparr>"])
    (simp_all add: worthless_simps worthless_trade_def sm_price_row_def sm_shelf_entry_def
      shelf_supports_trade_def dec_compute)

lemma worthless_run_fails: "\<exists>e. run_proposal_simulation id ''1f'' worthless = Inl e"
  by (simp add: run_proposal_simulation_def Let_def build_simulation_intent_plan_def rbind_eq_Inl
      build_security_trade_intents_def worthless_simps security_trade_intent_for_trade_def
      trade_has_shelf_entry_def trade_is_supported_by_shelf_def shelf_supports_trade_def
      build_supported_security_trade_intent_def build_proposal_security_trade_intent_def
      resolve_trade_notional_def dec_op_def dec_div_def worthless_trade_def sm_price_row_def
      sm_shelf_entry_def dec_compute split: prod.split)

theorem run_fails_only_in_arithmetic_witness:
  "\<exists>s. run_proposal_simulation id ''1f'' worthless = Inl (DecimalSignal s)"
proof -
  obtain e where e: "run_proposal_simulation id ''1f'' worthless = Inl e" using worthless_run_fails by blast
  have "\<forall>t \<in> set (sd_trades worthless). pt_quantity t \<noteq> None \<or> pt_notional t \<noteq> None"
    by (simp add: worthless_simps worthless_trade_def)
  from run_fails_only_in_arithmetic [OF e this] e show ?thesis by auto
qed

lemma two_markets_overdrawn:
  "\<exists>plan. (\<forall>dg. \<exists>dg'. build_simulation_intent_plan (sd_portfolio (two_markets ''ZAR''))
       (sd_market_data (two_markets ''ZAR'')) (sd_shelf (two_markets ''ZAR'')) (sd_options (two_markets ''ZAR''))
       (sd_cash_flows (two_markets ''ZAR'')) (sd_trades (two_markets ''ZAR'')) dg = Inr (plan, dg')) \<and>
     map intent_id (ip_intents plan) = [''oi_fx_1'', ''oi_2'', ''oi_1''] \<and>
     map (\<lambda>b. (cb_currency b, cb_amount b)) (pn_cash_balances (ip_after_portfolio plan)) =
       [(''USD'', dec_minus (dec 5000 (- 2))), (''EUR'', dec 1000 0), (''ZAR'', dec 0 (- 2))]"
  by (simp add: demo_eval two_markets_def dec_compute del: nat_digits.simps)

lemma two_markets_resold:
  "\<exists>plan. (\<forall>dg. \<exists>dg'. build_simulation_intent_plan (sd_portfolio (two_markets ''AUD''))
       (sd_market_data (two_markets ''AUD'')) (sd_shelf (two_markets ''AUD'')) (sd_options (two_markets ''AUD''))
       (sd_cash_flows (two_markets ''AUD'')) (sd_trades (two_markets ''AUD'')) dg = Inr (plan, dg')) \<and>
     map intent_id (ip_intents plan) = [''oi_fx_1'', ''oi_fx_2'', ''oi_2'', ''oi_1''] \<and>
     map (\<lambda>b. (cb_currency b, cb_amount b)) (pn_cash_balances (ip_after_portfolio plan)) =
       [(''USD'', dec 0 (- 2)), (''EUR'', dec 1000 0), (''AUD'', dec_minus (dec 5000 (- 2)))]"
  by (simp add: demo_eval two_markets_def dec_compute del: nat_digits.simps)

lemma fractional_overdrawn:
  "\<exists>plan. (\<forall>dg. \<exists>dg'. build_simulation_intent_plan (sd_portfolio fractional)
       (sd_market_data fractional) (sd_shelf fractional) (sd_options fractional)
       (sd_cash_flows fractional) (sd_trades fractional) dg = Inr (plan, dg')) \<and>
     map intent_id (ip_intents plan) = [''oi_fx_1'', ''oi_1''] \<and>
     map (\<lambda>b. (cb_currency b, cb_amount b)) (pn_cash_balances (ip_after_portfolio plan)) =
       [(''USD'', dec 96563 (- 2)), (''EUR'', dec_minus (dec 354 (- 5)))]"
  by (simp add: demo_eval fractional_def dec_compute del: nat_digits.simps)

abbreviation cash_rows :: "cash_balance list \<Rightarrow> (string \<times> decimal) list" where
  "cash_rows bs \<equiv> map (\<lambda>b. (cb_currency b, cb_amount b)) bs"

lemma overdrawn_run:
  assumes "\<exists>plan. (\<forall>dg. \<exists>dg'. build_simulation_intent_plan (sd_portfolio rq) (sd_market_data rq)
      (sd_shelf rq) (sd_options rq) (sd_cash_flows rq) (sd_trades rq) dg = Inr (plan, dg')) \<and>
      map intent_id (ip_intents plan) = ids \<and> cash_rows (pn_cash_balances (ip_after_portfolio plan)) = rows"
    and "ids \<noteq> []" "\<exists>(c, a) \<in> set rows. dec_less a (dec 0 0)"
  shows "\<exists>r. run_proposal_simulation sha hex rq = Inr r \<and> sl_status r = BLOCKED \<and>
    map intent_id (sl_intents r) = ids \<and> cash_rows (vs_cash_balances (sl_after_simulated r)) = rows"
proof -
  obtain plan where plan: "\<And>dg. \<exists>dg'. build_simulation_intent_plan (sd_portfolio rq) (sd_market_data rq)
      (sd_shelf rq) (sd_options rq) (sd_cash_flows rq) (sd_trades rq) dg = Inr (plan, dg')"
    and ids: "map intent_id (ip_intents plan) = ids"
    and rows: "cash_rows (pn_cash_balances (ip_after_portfolio plan)) = rows"
    using assms(1) by blast
  have "ip_intents plan \<noteq> []" using ids assms(2) by auto
  moreover have "\<exists>b \<in> set (pn_cash_balances (ip_after_portfolio plan)). dec_less (cb_amount b) (dec 0 0)"
    using assms(3) unfolding rows [symmetric] by auto
  ultimately show ?thesis using overdrawn_plan_blocks [OF plan, of sha hex] ids rows by fastforce
qed

text \<open>
  The automatic funding does not set aside the cash that the buys of the funding currency need.
  With 100 in the base currency, 1000 in EUR and buys of 100 in the base currency and of 50 in a
  third one, the base currency is sold first: funded after it in the alphabet the run ends 50 short
  in the base currency, funded before it the currency just bought is sold again and is short by 50.
  Both runs are blocked, and the balance in EUR that could pay is untouched.
\<close>

theorem funding_spends_earmarked_cash:
  "(\<exists>r. run_proposal_simulation sha hex (two_markets ''ZAR'') = Inr r \<and> sl_status r = BLOCKED \<and>
      map intent_id (sl_intents r) = [''oi_fx_1'', ''oi_2'', ''oi_1''] \<and>
      cash_rows (vs_cash_balances (sl_after_simulated r)) =
        [(''USD'', dec_minus (dec 5000 (- 2))), (''EUR'', dec 1000 0), (''ZAR'', dec 0 (- 2))]) \<and>
   (\<exists>r. run_proposal_simulation sha hex (two_markets ''AUD'') = Inr r \<and> sl_status r = BLOCKED \<and>
      map intent_id (sl_intents r) = [''oi_fx_1'', ''oi_fx_2'', ''oi_2'', ''oi_1''] \<and>
      cash_rows (vs_cash_balances (sl_after_simulated r)) =
        [(''USD'', dec 0 (- 2)), (''EUR'', dec 1000 0), (''AUD'', dec_minus (dec 5000 (- 2)))])"
  by (intro conjI overdrawn_run two_markets_overdrawn two_markets_resold) (simp_all add: dec_compute)

text \<open>
  The funding exchange buys the shortfall rounded to the minor unit, half to even. A buy of 3.334
  units at 10.31 needs 34.37354, the exchange buys 34.37, and a portfolio with plenty of cash ends
  with a negative balance and a blocked proposal.
\<close>

theorem funding_rounds_below_need:
  "\<exists>r. run_proposal_simulation sha hex fractional = Inr r \<and> sl_status r = BLOCKED \<and>
     map intent_id (sl_intents r) = [''oi_fx_1'', ''oi_1''] \<and>
     cash_rows (vs_cash_balances (sl_after_simulated r)) =
       [(''USD'', dec 96563 (- 2)), (''EUR'', dec_minus (dec 354 (- 5)))]"
  by (intro overdrawn_run fractional_overdrawn) (simp_all add: dec_compute)

end
