(* ===== verification/Decision_Demo.thy ===== *)
theory Decision_Demo
  imports Decision_Properties Simulation_Demo
begin

text \<open>
  A proposal that trades nothing, evaluated where no provider is configured and the local simulation is
  permitted. The properties of the decision are applied to it.
\<close>

section \<open>Idle proposals\<close>

lemma idle_run:
  assumes "sd_cash_flows rq = []" "sd_trades rq = []"
  shows "\<exists>r. run_proposal_simulation sha hex rq = Inr r \<and> sl_after_simulated r = sl_before r"
proof -
  obtain before_state dq where v: "build_simulated_state (sd_portfolio rq) (sd_market_data rq) (sd_shelf rq)
       (dg_data_quality make_diagnostics_data) (so_valuation_mode (sd_options rq)) = (before_state, dq)"
    by fastforce
  obtain plan dg where p: "build_simulation_intent_plan (sd_portfolio rq) (sd_market_data rq) (sd_shelf rq)
       (sd_options rq) (sd_cash_flows rq) (sd_trades rq) (make_diagnostics_data\<lparr>dg_data_quality := dq\<rparr>) =
       Inr (plan, dg)" and none: "ip_intents plan = []"
    using assms
    by (cases "so_auto_funding (sd_options rq)")
      (simp_all add: intents_eval funding_eval Let_def dict_keys_def)
  show ?thesis using run_of_plan [OF v p, of before_state dg sha hex] none by (auto simp: simulated_after_def)
qed

lemma idle_changes:
  assumes "sl_after_simulated result = sl_before result" "er_risk_lens result = JNull"
  shows "\<exists>d. build_proposal_decision_summary result = Inr d"
proof -
  have none: "collect_changes (\<lambda>c. Inr []) xs = Inr ([] :: material_change list)" for xs :: "string list"
    by (induction xs) auto
  have same: "0 < dec_val t \<Longrightarrow> weight_change n f l w w t s refs = Inr []" for n f l w t s refs
    using not_moved_same [of t w] by (simp add: weight_change_def moved_def Let_def)
  show ?thesis
    using assms by (simp add: build_proposal_decision_summary_def build_material_changes_def
        build_asset_class_changes_def build_cash_changes_def build_currency_changes_def
        build_concentration_changes_def json_object_def same none Let_def cong: if_cong)
qed

section \<open>An evaluation without providers\<close>

definition idle_request :: simulation_request_data where
  "idle_request = sm_request [sm_cash ''USD'' 100] [] [] [] []"

definition offline_ports :: advisory_ports where
  "offline_ports = \<lparr>ad_simulation_provider = None, ad_risk_enrichment_provider = None,
     ad_risk_dependency_state_provider = None, ad_fallback_policy_provider = None,
     ad_environment = (\<lambda>name. if name = ''LOTUS_ADVISE_ALLOW_LOCAL_SIMULATION_FALLBACK''
       then Some ''TRUE'' else None),
     ad_build_alternatives = (\<lambda>rq r. Inr JNull)\<rparr>"

lemma offline_policy:
  "resolve_advisory_simulation_fallback_policy offline_ports =
     \<lparr>fb_requested = True, fb_permitted = True, fb_enabled = True\<rparr>"
  by code_simp

lemma offline_evaluation:
  "\<exists>result. evaluate_advisory_proposal sha hex offline_ports idle_request = Inr result \<and>
     map_option ah_risk_authority (er_authority_resolution result) = Some RiskAuthorityUnavailable \<and>
     map_option ah_simulation_authority (er_authority_resolution result) = Some LocalFallback"
proof -
  define rq where "rq = idle_request\<lparr>sd_idempotency_key :=
    normalize_optional_idempotency_key (sd_idempotency_key idle_request)\<rparr>"
  obtain r where run: "run_proposal_simulation sha hex
      (rq\<lparr>sd_simulation_contract_version := Some ''advisory-simulation.v1''\<rparr>) = Inr r"
    and same: "sl_after_simulated r = sl_before r"
    using idle_run [of "rq\<lparr>sd_simulation_contract_version := Some ''advisory-simulation.v1''\<rparr>" sha hex]
    by (auto simp: rq_def idle_request_def sm_request_def)
  define reasons where "reasons = [''LOTUS_CORE_SIMULATION_UNAVAILABLE'',
    risk_degraded_reason (build_advisory_risk_dependency_state offline_ports)]"
  define a where "a = \<lparr>ah_simulation_authority = LocalFallback,
    ah_risk_authority = RiskAuthorityUnavailable, ah_degraded = True, ah_degraded_reasons = reasons\<rparr>"
  have none: "ad_simulation_provider offline_ports = None" "ad_risk_enrichment_provider offline_ports = None"
    "ad_build_alternatives offline_ports = (\<lambda>rq r. Inr JNull)" by (simp_all add: offline_ports_def)
  have sim: "resolve_simulation sha hex offline_ports rq =
      Inr (local_result r, LocalFallback, [''LOTUS_CORE_SIMULATION_UNAVAILABLE''])"
    using run by (simp add: resolve_simulation_def simulate_with_advisory_simulation_provider_def none
        run_local_fallback_simulation_def offline_policy rmap_error_def)
  have risk: "resolve_risk_enrichment offline_ports rq (local_result r)
      [''LOTUS_CORE_SIMULATION_UNAVAILABLE''] = Inr (local_result r, RiskAuthorityUnavailable, reasons)"
    by (simp add: resolve_risk_enrichment_def enrich_with_advisory_risk_provider_def none reasons_def Let_def)
  have a: "build_authority_resolution_explanation LocalFallback RiskAuthorityUnavailable reasons = Inr a"
    by (simp add: build_authority_resolution_explanation_def degraded_flag_matches_reasons_def a_def reasons_def)
  define e where "e = (local_result r)\<lparr>er_authority_resolution := Some a\<rparr>"
  have attached: "attach_governed_explanation_sections (local_result r) a (sd_policy_context rq) = Inr e"
    by (simp add: attach_governed_explanation_sections_def e_def rq_def idle_request_def sm_request_def)
  have "sl_after_simulated e = sl_before e" "er_risk_lens e = JNull"
    using same by (simp_all add: e_def local_result_def simulation_result.defs)
  then obtain d where d: "build_proposal_decision_summary e = Inr d" using idle_changes by blast
  have "evaluate_advisory_proposal sha hex offline_ports idle_request =
      Inr (e\<lparr>er_decision_summary := Some d, er_proposal_alternatives := JNull\<rparr>)"
    using sim risk a d attached unfolding evaluate_advisory_proposal_def rq_def [symmetric]
    by (simp add: Let_def attach_authority_explanation_def attach_proposal_outputs_def none rmap_error_def)
  then show ?thesis using governed_sections [OF attached] by (simp add: a_def)
qed

section \<open>The properties\<close>

theorem authority_is_explained_witness:
  "\<exists>result a. evaluate_advisory_proposal id ''1f'' offline_ports idle_request = Inr result \<and>
     er_authority_resolution result = Some a \<and> ah_degraded a"
proof -
  obtain result where r: "evaluate_advisory_proposal id ''1f'' offline_ports idle_request = Inr result"
    "map_option ah_simulation_authority (er_authority_resolution result) = Some LocalFallback"
    using offline_evaluation by blast
  from authority_is_explained [OF r(1)] r show ?thesis by auto
qed

theorem no_progress_without_risk_witness:
  "\<exists>result d. evaluate_advisory_proposal id ''1f'' offline_ports idle_request = Inr result \<and>
     er_decision_summary result = Some d \<and>
     list_ex (\<lambda>e. mg_reason_code e = ''MISSING_RISK_LENS'' \<and> mg_blocking e) (dy_missing_evidence d)"
proof -
  obtain result where r: "evaluate_advisory_proposal id ''1f'' offline_ports idle_request = Inr result"
    "map_option ah_risk_authority (er_authority_resolution result) = Some RiskAuthorityUnavailable"
    using offline_evaluation by blast
  from no_progress_without_risk [OF r] r show ?thesis by blast
qed

lemma idle_summary:
  "\<exists>r d. run_proposal_simulation sha hex idle_request = Inr r \<and>
     build_proposal_decision_summary (local_result r) = Inr d"
proof -
  obtain r where r: "run_proposal_simulation sha hex idle_request = Inr r"
    and same: "sl_after_simulated r = sl_before r"
    using idle_run [of idle_request sha hex] by (auto simp: idle_request_def sm_request_def)
  have "sl_after_simulated (local_result r) = sl_before (local_result r)" "er_risk_lens (local_result r) = JNull"
    using same by (simp_all add: local_result_def simulation_result.defs)
  then obtain d where "build_proposal_decision_summary (local_result r) = Inr d" using idle_changes by blast
  with r show ?thesis by blast
qed

theorem decision_follows_run_witness:
  "\<exists>r d. run_proposal_simulation id ''1f'' idle_request = Inr r \<and>
     build_proposal_decision_summary (local_result r) = Inr d \<and>
     dy_decision_status d \<noteq> RevisionRecommended"
proof -
  obtain r d where r: "run_proposal_simulation id ''1f'' idle_request = Inr r"
    and d: "build_proposal_decision_summary (local_result r) = Inr d" using idle_summary by blast
  have gates: "so_enable_workflow_gates (sd_options idle_request)"
    by (simp add: idle_request_def sm_request_def sm_options_def)
  have "run_proposal_simulation id ''1f'' idle_request =
      Inr (simulation_result.truncate (local_result r))" using r by simp
  from decision_follows_run [OF this gates d] r d show ?thesis by blast
qed

section \<open>A change of weights\<close>

definition weighted_row :: "string \<Rightarrow> decimal \<Rightarrow> allocation_metric" where
  "weighted_row k w = \<lparr>am_key = k, am_weight = w, am_value = \<lparr>mn_amount = dec 0 0, mn_currency = ''USD''\<rparr>\<rparr>"

definition weighted_state :: "allocation_metric list \<Rightarrow> valued_state \<Rightarrow> valued_state" where
  "weighted_state rows s =
     s\<lparr>ss_allocation_by_asset_class := rows, vs_allocation_by_attribute := [(''currency'', [])]\<rparr>"

definition reweighted :: "simulation_result \<Rightarrow> explained_result" where
  "reweighted r = (local_result r)
     \<lparr>sl_before := weighted_state [weighted_row ''CASH'' (dec 1 0)] (sl_before r),
      sl_after_simulated := weighted_state [weighted_row ''EQUITY'' (dec 4 (- 2)),
        weighted_row ''CASH'' (dec 96 (- 2))] (sl_before r)\<rparr>"

lemma weights_printable:
  "\<exists>q. weight_str (dec 1 0) = Inr q" "\<exists>q. weight_str (dec 96 (- 2)) = Inr q"
  "\<exists>q. weight_str (dec_sub (dec 96 (- 2)) (dec 1 0)) = Inr q" "\<exists>q. weight_str CASH_DELTA_THRESHOLD = Inr q"
  "\<exists>q. pct_str (dec 1 0) = Inr q" "\<exists>q. pct_str (dec 96 (- 2)) = Inr q"
proof -
  have "dec_quantize (- 4) (dec_minus (dec 4 (- 2))) = Inr (dec_minus (dec 400 (- 4)))"
    using dec_digits_small [of 400]
    by (simp add: dec_quantize_def dec_rescale_def dec_minus_def dec_def Let_def not_less)
  then show "\<exists>q. weight_str (dec 1 0) = Inr q" "\<exists>q. weight_str (dec 96 (- 2)) = Inr q"
    "\<exists>q. weight_str (dec_sub (dec 96 (- 2)) (dec 1 0)) = Inr q"
    "\<exists>q. weight_str CASH_DELTA_THRESHOLD = Inr q"
    "\<exists>q. pct_str (dec 1 0) = Inr q" "\<exists>q. pct_str (dec 96 (- 2)) = Inr q"
    by (simp_all add: weight_str_def pct_str_def dec_op_def rmap_error_def dec_compute CASH_DELTA_THRESHOLD_def)
qed

lemma cash_change_texts:
  "\<exists>c. weight_change ''cash-weight'' CashChange [] (dec 1 0) (dec 96 (- 2)) CASH_DELTA_THRESHOLD
     ''Cash allocation'' ALLOCATION_REFS = Inr [c]"
proof -
  have "moved CASH_DELTA_THRESHOLD (dec 1 0) (dec 96 (- 2))" by code_simp
  then show ?thesis using weights_printable
    by (clarsimp simp: weight_change_def moved_def Let_def simp del: One_nat_def)
qed

lemma small_change:
  "weight_change n f l (dec 0 0) (dec 4 (- 2)) ASSET_CLASS_DELTA_THRESHOLD s refs = Inr []"
proof -
  have "dec_less (dec_abs (dec_sub (dec 4 (- 2)) (dec 0 0))) ASSET_CLASS_DELTA_THRESHOLD" by code_simp
  then show ?thesis by (simp add: weight_change_def Let_def)
qed

lemma reweighted_parts:
  "build_asset_class_changes (reweighted r) = Inr []"
  "\<exists>c. build_cash_changes (reweighted r) = Inr [c]"
  "build_currency_changes (reweighted r) = Inr []"
  "build_concentration_changes (reweighted r) = Inr []"
proof -
  have rows: "ss_allocation_by_asset_class (sl_before (reweighted r)) = [weighted_row ''CASH'' (dec 1 0)]"
    "ss_allocation_by_asset_class (sl_after_simulated (reweighted r)) =
      [weighted_row ''EQUITY'' (dec 4 (- 2)), weighted_row ''CASH'' (dec 96 (- 2))]"
    "vs_allocation_by_attribute (sl_before (reweighted r)) = [(''currency'', [])]"
    "vs_allocation_by_attribute (sl_after_simulated (reweighted r)) = [(''currency'', [])]"
    "er_risk_lens (reweighted r) = JNull"
    by (simp_all add: reweighted_def weighted_state_def local_result_def simulation_result.defs)
  have classes: "sorted_union [''CASH''] [''EQUITY'', ''CASH''] = [''CASH'', ''EQUITY'']" by code_simp
  show "build_asset_class_changes (reweighted r) = Inr []"
    by (simp add: build_asset_class_changes_def rows weight_map_def weighted_row_def dict_set_def dict_keys_def
        Let_def classes weight_in_def dict_get_def small_change)
  show "\<exists>c. build_cash_changes (reweighted r) = Inr [c]"
    using cash_change_texts by (simp add: build_cash_changes_def cash_weight_def rows weighted_row_def)
  show "build_currency_changes (reweighted r) = Inr []" "build_concentration_changes (reweighted r) = Inr []"
    by (simp_all add: build_currency_changes_def build_concentration_changes_def currency_weight_map_def rows
        dict_get_def weight_map_def dict_keys_def sorted_union_def json_object_def)
qed

text \<open>Cash falls by four points: a change of cash, and none of the equity that it bought.\<close>

theorem material_changes_listed_witness:
  "\<exists>result changes. build_material_changes (result :: explained_result) [] [] = Inr changes \<and>
     (CashChange, ''cash-weight'') \<in> listed changes \<and>
     (AllocationChange, ''asset-class:'' @ ''EQUITY'') \<notin> listed changes"
proof -
  obtain r where "run_proposal_simulation id ''1f'' idle_request = Inr r" using idle_summary by blast
  obtain changes where c: "build_material_changes (reweighted r) [] [] = Inr changes"
    using reweighted_parts [of r] by (auto simp: build_material_changes_def)
  have rows: "ss_allocation_by_asset_class (sl_before (reweighted r)) = [weighted_row ''CASH'' (dec 1 0)]"
    "ss_allocation_by_asset_class (sl_after_simulated (reweighted r)) =
      [weighted_row ''EQUITY'' (dec 4 (- 2)), weighted_row ''CASH'' (dec 96 (- 2))]"
    by (simp_all add: reweighted_def weighted_state_def)
  have "moved (dec 3 (- 2)) (dec 1 0) (dec 96 (- 2))" "\<not> moved (dec 5 (- 2)) (dec 0 0) (dec 4 (- 2))"
    by code_simp+
  with material_changes_listed [OF c, of "''EQUITY''"] c show ?thesis
    by (intro exI [of _ "reweighted r"] exI [of _ changes])
      (simp add: rows cash_weight_def weight_in_def weight_map_def weighted_row_def dict_set_def dict_get_def)
qed

end
