(* ===== verification/Spec2Isabelle.thy ===== *)
theory Spec2Isabelle
  imports Example_Run Queue_Properties Gate_Properties Policy_Properties Workspace_Demo Decision_Demo
begin

text \<open>
  A model of the decision core of lotus-advise, an advisory proposal service: the proposal
  lifecycle, the queue that runs its commands in the background, the simulation of a proposal on a
  portfolio, the suitability scan and workflow gate it is judged by, the policy packs it is
  evaluated and signed off under, and the workspaces it is drafted in. Paths are below src/src/ of
  the repository.

  \<^bold>\<open>The program.\<close> A client of the HTTP API creates a proposal, adds versions to it, moves it
  through review and consent (\<open>transition\<close>, \<open>approval\<close>), requests an execution handoff and reports
  execution updates. \<open>ProposalWorkflowService\<close> (core/proposals/service*.py) is the one entry to
  these commands. Every command reads the repository, decides by the rule tables, and writes an
  immutable version, a workflow event, an approval and the new state of the proposal, under an
  idempotency key that makes a retry return the first answer. Creates and versions can also be
  queued: an operation record is accepted once, a worker claims it with a lease, retries it up to
  its bound, and recovery picks up operations whose worker died. The payload of a version is made
  by the advisory engine: it values the portfolio, turns the proposed cash flows and trades into
  order intents, adds the currency exchanges that fund the buys, values the result, applies the
  rules and reconciles the two values; the suitability scan and the gate then decide whether a
  proposal is blocked, goes to compliance, to risk, to the client, or to execution. A decision
  summary says the same to the advisor, with the evidence that is missing, the approvals that are
  required and the weights that move. Beside that,
  the evidence of a version is evaluated against a versioned policy pack; the evaluation is stored
  once, with its hashes, and another actor than its maker signs it off. An advisor drafts in a
  workspace: a session whose draft is edited action by action and evaluated after each, saved under
  version numbers, resumed, compared, and handed off to the lifecycle as a proposal or its next
  version.

  \<^bold>\<open>Theories, in the order of their imports.\<close>

  \<^item> \<open>Lotus_Prelude\<close>: Python dictionaries as association lists in insertion order, stable sorting,
    string normalisation, steps that fail; the locales \<open>keyed_store\<close> (lookup after update) and
    \<open>guarded_steps\<close> (an invariant kept by every step holds in every reachable state).
  \<^item> \<open>Canonical_Json\<close>, \<open>Canonical_Injective\<close>: core/common/canonical.py, idempotency.py, actors.py.
    JSON values, the sorted and escaped text that is hashed, and that this text determines the
    value up to the order of keys.
  \<^item> \<open>Py_Decimal\<close>: the part of Python's \<open>decimal\<close> module the suitability scan computes with, with
    precision 28 and rounding half to even, and its error bounds over the rationals.
  \<^item> \<open>Workflow_Rules\<close>: core/proposals/workflow_rules.py, contract_types.py, concurrency.py,
    lifecycle.py, exceptions.py, command_validation.py. The states, the transition and approval
    tables, and the graph \<open>lifecycle_edge\<close> they refine.
  \<^item> \<open>Proposal_Records\<close>, \<open>Repository_Queries\<close>, \<open>Proposal_Repository\<close>: persistence_models.py and
    infrastructure/proposals/in_memory*.py. The record \<open>proposal_store\<close> has one field per dictionary
    of the class, and each method is a function on it, since the class takes its lock for the whole
    method. The locale \<open>lifecycle_repository\<close> states what the commands rely on; the in-memory
    store interprets it, also by its extensions \<open>version_repository\<close> and \<open>operation_repository\<close>.
  \<^item> \<open>Lifecycle_Commands\<close>, \<open>Execution_Commands\<close>, \<open>Version_Commands\<close>, \<open>Narrative_Review\<close>: one
    function per command of core/proposals (lifecycle_command.py, execution_handoff_command.py,
    execution_update_command.py, create_command.py, version_command.py, narrative_review.py,
    report_request_command.py and the builders they call). \<open>Proposal_Context\<close> is the resolution of
    a request to a simulation input, \<open>Lifecycle_Views\<close> the read models.
  \<^item> \<open>Lifecycle_Invariant\<close>, \<open>Lifecycle_System\<close>: the invariants, proved once in
    \<open>lifecycle_repository\<close>; the commands as one step function \<open>run_command\<close>, the reachable states,
    and \<open>log_effect\<close>, the abstract specification of a step. \<open>Example_Run\<close> computes one life of a
    proposal; its states are the inputs of the witnesses.
  \<^item> \<open>Async_Operations\<close>, \<open>Async_Invariant\<close>, \<open>Async_Control\<close>, \<open>Async_System\<close>: core/proposals/async_*.py
    and service_async_operations.py. Submission, leases, the retry loop, recovery, the control
    plane, and the queue with the commands as its executors. \<open>Queue_Properties\<close> states what they
    promise.
  \<^item> \<open>Suitability_Models\<close>, \<open>Suitability\<close>, \<open>Suitability_Result\<close>, \<open>Workflow_Gates\<close>: core/common/
    suitability*.py and workflow_gates.py. \<open>Suitability_Laws\<close> holds their lemmas and
    \<open>Gate_Properties\<close> what the two promise together.
  \<^item> \<open>Policy_Readiness\<close>: core/proposals/policy_source_readiness*.py. Which source evidence of a
    bundle is ready, pending or blocked.
  \<^item> \<open>Policy_Catalog\<close>, \<open>Policy_Catalog_Laws\<close>: core/policy_packs/catalog*.py. The versions of the
    policy packs with their validation and activation commands, and the invariant of the catalog.
  \<^item> \<open>Policy_Rules\<close>, \<open>Policy_Evaluation\<close>: core/policy_packs/evaluation*.py. The rules, whether a pack
    applies, and the aggregate status.
  \<^item> \<open>Policy_Records\<close>, \<open>Policy_Store\<close>, \<open>Policy_Persistence\<close>, \<open>Policy_Signoff\<close>: core/policy_packs/
    persistence*.py, receipt_identity.py, event_authority.py and workflow*.py. The finalized record
    of an evaluation, the store with its idempotency and replay, and the sign-off decision.
  \<^item> \<open>Policy_Laws\<close>, \<open>Policy_Replay\<close>, \<open>Policy_Totality\<close>: the invariant of the policy store and its
    commands, what a replay depends on, and when an evaluation returns. \<open>Policy_Demo\<close> computes one
    evaluation with its sign-off; \<open>Policy_Properties\<close> states what the packs promise.
  \<^item> \<open>Workspace_Records\<close>, \<open>Workspace_Sessions\<close>, \<open>Workspace_Handoff\<close>: core/workspace/*.py and
    infrastructure/workspace/*.py. The session with its draft, evaluation, replay evidence and saved
    versions; the draft actions and commands over any session repository; the hand-off composed with
    the create and version commands. The record \<open>session_repository\<close> has the reads and writes and, as
    \<open>sp_reflect\<close>, what becomes of changes that are not saved: the in-memory repository hands out the
    stored object, the durable one a copy.
  \<^item> \<open>Workspace_Laws\<close>, \<open>Workspace_System\<close>: the locale \<open>workspace_store\<close> with what every command
    keeps, its interpretation by both repositories, and runs of commands. \<open>Workspace_Properties\<close>
    states what a workspace promises, \<open>Workspace_Demo\<close> holds the concrete sessions.
  \<^item> \<open>Py_Decimal_Ops\<close>: division, quantizing and the other decimal operations of the simulation,
    with their error bounds and the rules \<open>dec_compute\<close> that compute with short decimals.
  \<^item> \<open>Simulation_Models\<close>, \<open>Simulation_Valuation\<close>, \<open>Simulation_Intents\<close>, \<open>Simulation_Funding\<close>,
    \<open>Simulation_Review\<close>, \<open>Simulation_Drift\<close>, \<open>Simulation_Engine\<close>: core/advisory_engine.py with
    core/advisory/ (intents.py, simulation_intent_plan.py, funding*.py, simulation_review.py,
    simulation_decision_support.py, ids.py), core/valuation.py, core/compliance*.py and
    core/common/ (simulation_shared.py, drift_analytics.py, intent_dependencies.py). The objects that
    the code changes in place (portfolio, diagnostics, list of failures) are passed and returned;
    \<open>run_proposal_simulation\<close> is the whole run.
  \<^item> \<open>Simulation_Ledger\<close>: the abstract specification of a portfolio, the cash of each currency and the
    units of each instrument, and the execution of an intent on it. The locale \<open>keyed_change\<close> states
    what changing one row means, \<open>step_refinement\<close> that a concrete step is an abstract one; the cash
    and position rows and the three kinds of intents interpret them.
  \<^item> \<open>Simulation_Laws\<close>, \<open>Simulation_Plan\<close>, \<open>Simulation_Run\<close>: what each stage keeps and leaves behind,
    with the funding loop as a step relation, the plan as a whole, and valuation and status.
    \<open>Simulation_Properties\<close> and \<open>Simulation_Outcomes\<close> state what a run promises, \<open>Simulation_Demo\<close>
    evaluates concrete runs.
  \<^item> \<open>Decision_Models\<close>, \<open>Decision_Requirements\<close>, \<open>Decision_Changes\<close>, \<open>Decision_Summary\<close>:
    core/advisory/decision_*.py, orchestration.py, provider_ports.py and explanation_contracts.py. The
    summary of a run, and the orchestration that takes the run from lotus-core or makes it locally,
    has it enriched with the risk lens and attaches explanation and summary; \<open>advisory_ports\<close>
    holds the configured providers. \<open>Decision_Properties\<close> states what a summary promises,
    \<open>Decision_Demo\<close> evaluates a proposal without providers.

  \<^bold>\<open>Conventions.\<close> A record carries one field per attribute, with a prefix per record. Errors are the
  left side of a sum: \<open>proposal_error\<close> has one constructor per exception class of exceptions.py, and
  \<open>PyException\<close> stands for an exception of the interpreter that no handler expects. A command returns
  the new store beside its result also when it fails, because writes made before an exception stay.
  Identifiers from \<open>uuid4\<close> and readings of the clock are arguments. Python integers are \<open>int\<close>, times
  are microseconds since the epoch.

  \<^bold>\<open>What the properties show.\<close> Below: the lifecycle (logs are chains of legal steps, consent comes
  before execution, terminal states are final, logs only grow, versions have no gaps), the
  idempotency of the commands, the agreement of the read models, paging, the selection of
  recoverable operations, and the places where the code does something it should not (an update
  that executes a proposal in review, a reason that hides a command, a refused version that stays
  stored, an exception that escapes). \<open>Queue_Properties\<close>: the retry loop and the recovery batch end,
  a queued create stores at most one proposal, retries and recovery agree, quarantine is final, and
  the hashes identify the requests. \<open>Gate_Properties\<close>: the order of the gate, that a forbidden
  product never reaches the client, the classification, and the cap in decimal arithmetic.
  \<open>Simulation_Properties\<close>, \<open>Simulation_Outcomes\<close>: the published state is the starting state after the
  published intents, a READY run carries out the whole proposal and is clean, the intents are in
  dependency order, status, rules and gate agree, the funding takes the first solvent currency and
  buys the shortfall to half a minor unit, and the errors a run can end in. \<open>Simulation_Demo\<close>: the
  funding spends cash that other buys need. \<open>Decision_Properties\<close>: the decision follows the run, one
  requirement stands for all its sources, the changes listed are those above the thresholds, the
  authorities behind a proposal are named, and nothing goes on without the risk authority.
  \<open>Policy_Properties\<close>: sign-off by a checker, evaluations that are never rewritten, the governance
  of the catalogue, exact replays, totality, and how an undecided section hides a blocked one.
  \<open>Workspace_Properties\<close>: sessions stay well formed within their capacity, a resumed version is the
  saved one, a lost hand-off can be retried; and what goes wrong: evidence of another draft after a
  failed evaluation, a save lost to a concurrent one, a link that stays behind for good, a mandate
  that later hand-offs forget.

  \<^bold>\<open>Bounds and fuel.\<close> The retry loop \<open>run_async_operation_until_terminal\<close> is a \<open>partial_function\<close>, so a run
  that does not end is \<open>None\<close>; that it ends is proved, with the attempts left as the measure. All
  other recursion is structural. Decimals are unbounded integers with an exponent, rounded to 28
  digits by the code's context; the limits of the exponent (\<open>Emax\<close>, \<open>Emin\<close>) are not modelled, weights
  and prices are far from them. The signals \<open>InvalidOperation\<close> and \<open>DivisionByZero\<close> are errors of a
  run, as in the code's context.

  \<^bold>\<open>Parameters.\<close> SHA-256 is a function \<open>sha\<close>; where a theorem needs that it does not collide it says so
  for the two texts at hand. \<open>parse_iso\<close> is \<open>datetime.fromisoformat\<close>, the advisory engine is the
  record \<open>advisory_engine\<close>, the stateful resolver of lotus-core and the pydantic validation of stored
  payloads are arguments, as are the providers of the orchestration and the builder of the alternatives
  (\<open>advisory_ports\<close>), the lotus-core reads of a workspace (\<open>workspace_env\<close>), and so are, as the record \<open>calendar\<close>, the readings of ISO dates and of
  time zones a policy receipt is stamped with. No theorem assumes more of them than it states.

  \<^bold>\<open>Not modelled.\<close> The FastAPI routers and their examples, the PostgreSQL adapters (SQL text run by
  psycopg; the in-memory adapter of the same port is modelled, and of the workspace sessions both), the HTTP clients of the other
  services, the snapshots by which the durable policy repositories load and save their store, the
  alternatives and narrative around a simulation run (to the commands the
  advisory engine stays a parameter), the numerical target generation, generated narrative text, and the scripts
  and demos; of the workspaces the rationale assistant. A dump of a session that is written and read
  is taken to be the session. Proposal memos, idea intake, the advisor cockpit and the copilot
  guardrails are left for a later extension: they read and annotate what is modelled here.
\<close>

section \<open>The lifecycle of a proposal\<close>



text \<open>
  C2: Nothing becomes ready for execution, is handed off or is executed without a client consent:
  in every reachable state, an event that leads to execution readiness or to an execution, and a
  handoff, has a recorded client consent among the events up to it.
\<close>

theorem execution_needs_consent:
  assumes "reachable env s" and "n < length (mem_list_events s pid)"
    and "we_to_state (mem_list_events s pid ! n) \<in> {EXECUTION_READY, EXECUTED} \<or>
      we_event_type (mem_list_events s pid ! n) = EXECUTION_REQUESTED"
  shows "\<exists>m \<le> n. we_event_type (mem_list_events s pid ! m) = CLIENT_CONSENT_RECORDED"
proof -
  have "consented (take (Suc n) (mem_list_events s pid))"
    using reachable_system_inv [OF assms(1)] by (simp add: system_inv_def consent_inv_def)
  moreover have "list_ex needs_consent (take (Suc n) (mem_list_events s pid))"
    using assms(2,3) by (auto simp: list_ex_iff take_Suc_conv_app_nth needs_consent_def)
  ultimately obtain c where "c \<in> set (take (Suc n) (mem_list_events s pid))"
    "we_event_type c = CLIENT_CONSENT_RECORDED"
    by (auto simp: consented_def list_ex_iff)
  then show ?thesis by (auto simp: in_set_conv_nth less_Suc_eq_le)
qed

theorem execution_needs_consent_witness:
  "\<exists>m \<le> 4. we_event_type (mem_list_events store6 ''P'' ! m) = CLIENT_CONSENT_RECORDED"
  by (rule execution_needs_consent [OF demo_reachable(7)])
    (simp_all add: store6_def ev4_def build_execution_handoff_requested_event_def Let_def)

text \<open>
  C3: A closed proposal stays closed. Once a proposal is executed, rejected, cancelled or expired,
  no run of commands changes its state, and all its log still receives are narrative reviews and
  report requests.
\<close>

theorem closed_stays_closed:
  assumes "reachable env s"
    and "run_ok (command_ok in_memory_repository) (run_command env in_memory_repository) s cs"
    and "mem_get_proposal s pid = Some p" and "pr_current_state p \<in> set TERMINAL_STATES"
  defines "t \<equiv> run_steps (run_command env in_memory_repository) s cs"
  shows "\<exists>p'. mem_get_proposal t pid = Some p' \<and> pr_current_state p' = pr_current_state p \<and>
    (\<forall>e \<in> set (drop (length (mem_list_events s pid)) (mem_list_events t pid)).
       we_event_type e \<in> {NARRATIVE_REVIEWED, REPORT_REQUESTED})"
proof -
  obtain es p' where "mem_list_events t pid = mem_list_events s pid @ es"
    and "mem_get_proposal t pid = Some p'" and "\<forall>e \<in> set es. legal_event e"
    and "chain_from (Some (pr_current_state p)) es (Some (pr_current_state p'))"
    and "pr_current_state p' = pr_current_state p"
    using run_extends_log [OF assms(1,2,3)] assms(4) unfolding t_def by metis
  then show ?thesis using chain_terminal_annotations [OF _ _ assms(4)] by auto
qed

theorem closed_stays_closed_witness:
  "\<exists>p'. mem_get_proposal
      (run_steps (run_command demo_env in_memory_repository) store6 [cmd_submit]) ''P'' = Some p' \<and>
    pr_current_state p' = EXECUTED"
proof -
  have "run_ok (command_ok in_memory_repository) (run_command demo_env in_memory_repository) store6
      [cmd_submit]" by (simp add: cmd_submit_def)
  moreover have "mem_get_proposal store6 ''P'' = Some (demo_proposal EXECUTED 700 2)"
    by (simp add: store6_def)
  moreover have "pr_current_state (demo_proposal EXECUTED 700 2) \<in> set TERMINAL_STATES"
    by (simp add: TERMINAL_STATES_def)
  ultimately show ?thesis
    using closed_stays_closed [OF demo_reachable(7)] by fastforce
qed

text \<open>
  C4: The audit log is append-only: whatever commands run, the log of every proposal is extended
  at its end only, and no proposal disappears.
\<close>

theorem audit_log_append_only:
  assumes "reachable env s"
    and "run_ok (command_ok in_memory_repository) (run_command env in_memory_repository) s cs"
  defines "t \<equiv> run_steps (run_command env in_memory_repository) s cs"
  shows "(\<exists>es. mem_list_events t pid = mem_list_events s pid @ es) \<and>
    (mem_get_proposal s pid \<noteq> None \<longrightarrow> mem_get_proposal t pid \<noteq> None)"
proof -
  have later: "logs_extend in_memory_repository s t"
    unfolding t_def by (rule lifecycle.run_later [OF reachable_system_inv [OF assms(1)] assms(2)])
  then have "take (length (mem_list_events s pid)) (mem_list_events t pid) = mem_list_events s pid"
    by (simp add: logs_extend_def)
  then have "\<exists>es. mem_list_events t pid = mem_list_events s pid @ es"
    by (metis append_take_drop_id)
  moreover have "mem_get_proposal s pid \<noteq> None \<longrightarrow> mem_get_proposal t pid \<noteq> None"
    using later unfolding logs_extend_def in_memory_simps by (metis option.exhaust option.simps(3))
  ultimately show ?thesis by simp
qed

theorem audit_log_append_only_witness:
  "\<exists>es. mem_list_events (run_steps (run_command demo_env in_memory_repository) store0
      [cmd_submit, cmd_risk]) ''P'' = mem_list_events store0 ''P'' @ es"
  using audit_log_append_only [OF demo_reachable(1), of "[cmd_submit, cmd_risk]" "''P''"]
  by (simp add: cmd_submit_def cmd_risk_def)





text \<open>
  C27: A retried transition is answered from the log. When a transition under a fresh idempotency
  key was carried out, the same request under the same key gives the same response and changes
  nothing, in every later state whose log goes on from there without that key.
\<close>

theorem transition_retry_replays:
  assumes "reachable env s"
    and "transition_proposal_state sha in_memory_repository pid q raw req now eid s = Inr (resp, s1)"
    and "normalize_optional_idempotency_key raw = Some k"
    and "load_replayed_event in_memory_repository s pid (Some k)
      (build_state_transition_request_hash sha q) = Inr None"
    and "mem_list_events s2 pid = mem_list_events s1 pid @ es"
    and "\<forall>e \<in> set es. obj_get (we_reason_json e) ''idempotency_key'' \<noteq> JStr k"
    and "mem_get_proposal s2 pid \<noteq> None"
  shows "transition_proposal_state sha in_memory_repository pid q raw req' at' eid' s2 =
    Inr (resp, s2)"
  using mem.transition_retry [OF assms(2,3,4)] reachable_system_inv [OF assms(1)] assms(5,6,7)
  by (simp add: system_inv_def)

theorem transition_retry_replays_witness:
  "\<exists>resp. transition_proposal_state demo_sha in_memory_repository ''P'' submit_request (Some ''k1'')
     False 999 ''E9'' store2 = Inr (resp, store2)"
proof -
  obtain resp where "transition_proposal_state demo_sha in_memory_repository ''P'' submit_request
      (Some ''k1'') True 200 ''E1'' store0 = Inr (resp, store1)"
    using step_submit by (auto simp: cmd_submit_def commit_def split: sum.splits)
  moreover have "load_replayed_event in_memory_repository store0 ''P'' (Some ''k1'') h = Inr None" for h
    by (simp add: load_replayed_event_def find_replayed_event_def store0_def rmap_error_def
        find_replayed_record_def metadata_matches_replay_def ev0_def
        build_proposal_created_event_def correlation_reason_def)
  moreover have "mem_list_events store2 ''P'' = mem_list_events store1 ''P'' @ [ev2]"
    by (simp add: store1_def store2_def)
  moreover have "\<forall>e \<in> set [ev2]. obj_get (we_reason_json e) ''idempotency_key'' \<noteq> JStr ''k1''"
    by (simp add: ev2_def build_approval_transition_event_def demo_approval_def)
  moreover have "mem_get_proposal store2 ''P'' \<noteq> None" by (simp add: store2_def)
  ultimately show ?thesis
    using transition_retry_replays [OF demo_reachable(1)] demo_keys(2) by blast
qed

text \<open>
  An idempotency key cannot be reused for another request: under the conditions of
  \<open>transition_retry_replays\<close>, a
  request with another hash under the same key is refused as a conflict.
\<close>

theorem transition_key_reuse_conflicts:
  assumes "lifecycle_inv in_memory_repository s"
    and "transition_proposal_state sha in_memory_repository pid q raw req now eid s = Inr (resp, s1)"
    and "normalize_optional_idempotency_key raw = Some k"
    and "load_replayed_event in_memory_repository s pid (Some k)
      (build_state_transition_request_hash sha q) = Inr None"
    and "mem_list_events s2 pid = mem_list_events s1 pid @ es"
    and "\<forall>e \<in> set es. obj_get (we_reason_json e) ''idempotency_key'' \<noteq> JStr k"
    and "mem_get_proposal s2 pid \<noteq> None"
    and "build_state_transition_request_hash sha q \<noteq> build_state_transition_request_hash sha q'"
  shows "transition_proposal_state sha in_memory_repository pid q' raw req' at' eid' s2 =
    Inl (ProposalIdempotencyConflictError ''IDEMPOTENCY_KEY_CONFLICT: request hash mismatch'')"
  using mem.transition_key_reuse_refused [OF assms(2,3,4,1)] assms(5-8) by simp

theorem transition_key_reuse_conflicts_witness:
  "\<exists>s1. transition_proposal_state (\<lambda>t. t) in_memory_repository ''P''
     (submit_request\<lparr>tq_actor_id := ''bob''\<rparr>) (Some ''k1'') False 999 ''E9'' s1 =
    Inl (ProposalIdempotencyConflictError ''IDEMPOTENCY_KEY_CONFLICT: request hash mismatch'')"
proof -
  have none: "load_replayed_event in_memory_repository store0 ''P'' (Some ''k1'') h = Inr None" for h
    by (simp add: load_replayed_event_def find_replayed_event_def store0_def rmap_error_def
        find_replayed_record_def metadata_matches_replay_def ev0_def
        build_proposal_created_event_def correlation_reason_def)
  let ?h = "build_state_transition_request_hash (\<lambda>t. t) submit_request"
  let ?e = "build_state_transition_event ''E1'' (demo_proposal DRAFT 100 1) submit_request
    RISK_REVIEW 200 (Some ''k1'') ?h"
  let ?s1 = "demo_store (demo_proposal RISK_REVIEW 200 1) [(1, 100)] [ev0, ?e] []"
  have "\<exists>resp. transition_proposal_state (\<lambda>t. t) in_memory_repository ''P'' submit_request
      (Some ''k1'') True 200 ''E1'' store0 = Inr (resp, ?s1)"
    using none
    by (simp add: transition_proposal_state_def store0_def Let_def
        validate_proposal_expected_state_def validate_expected_state_def submit_request_def
        rmap_error_def resolve_proposal_transition_state_def resolve_transition_state_def
        rule_tables build_state_transition_event_and_apply_state_def
        persist_proposal_transition_def apply_lifecycle_transition_state_def
        build_state_transition_event_def demo_transition)
  moreover have "?h \<noteq> build_state_transition_request_hash (\<lambda>t. t)
      (submit_request\<lparr>tq_actor_id := ''bob''\<rparr>)"
    by (simp add: build_state_transition_request_hash_def hash_canonical_payload_def
        json_member_def json_quote_def json_escape_def state_transition_request_json_def
        submit_request_def)
  moreover have "lifecycle_inv in_memory_repository store0"
    using reachable_system_inv [OF demo_reachable(1)] by (simp add: system_inv_def)
  moreover have "mem_list_events ?s1 ''P'' = mem_list_events ?s1 ''P'' @ []"
    "mem_get_proposal ?s1 ''P'' \<noteq> None" by simp_all
  ultimately show ?thesis
    using transition_key_reuse_conflicts [where es = "[]" and ?s2.0 = ?s1] none demo_keys(2)
    by (metis (no_types, lifting) empty_iff list.set(1))
qed

text \<open>
  C28: A retried create is answered with the proposal it created. In every reachable state that
  still holds the proposal and the key, the same create request under the same key returns version
  one of that proposal and writes nothing.
\<close>

theorem create_retry_replays:
  assumes "create_proposal_command sha eng res today st in_memory_repository q raw c orig src l ov
      now ids s = Inr (resp, s1)"
    and "normalize_optional_idempotency_key raw = Some k" and "mem_get_idempotency s k = None"
    and "reachable env s2" and "mem_get_idempotency s2 k = mem_get_idempotency s1 k"
    and "mem_get_proposal s2 (fi_proposal_id ids) \<noteq> None"
    and "validate_proposal_lifecycle_origin orig src = Inr ()"
  shows "\<exists>resp'. create_proposal_command sha eng' res' today' st' in_memory_repository q raw c' orig
      src l' ov' now' ids' s2 = Inr (resp', s2) \<and>
    sm_proposal_id (cr_proposal resp') = fi_proposal_id ids \<and> vd_version_no (cr_version resp') = 1"
  using memv.create_retry [OF assms(1,2)] reachable_system_inv [OF assms(4)] assms(3,5,6,7)
  by (simp add: system_inv_def)

theorem create_retry_replays_witness:
  "\<exists>resp'. create_proposal_command demo_sha demo_engine None ''2030-01-01'' demo_settings
      in_memory_repository demo_create (Some ''k0'') None DIRECT_CREATE None None None 999
      (demo_ids ''E9'') store6 = Inr (resp', store6) \<and>
    sm_proposal_id (cr_proposal resp') = ''P'' \<and> vd_version_no (cr_version resp') = 1"
proof -
  obtain resp where "create_proposal_command demo_sha demo_engine None ''2026-01-01'' demo_settings
      in_memory_repository demo_create (Some ''k0'') None DIRECT_CREATE None None None 100
      (demo_ids ''E0'') empty_store = Inr (resp, store0)"
    using step_create by (auto simp: cmd_create_def commit_def split: sum.splits)
  moreover have "mem_get_idempotency empty_store ''k0'' = None"
    by (simp add: mem_get_idempotency_def empty_store_def)
  moreover have "mem_get_idempotency store6 ''k0'' = mem_get_idempotency store0 ''k0''"
    "mem_get_proposal store6 (fi_proposal_id (demo_ids ''E0'')) \<noteq> None"
    by (simp_all add: store0_def store6_def demo_ids_def)
  moreover have "validate_proposal_lifecycle_origin DIRECT_CREATE None = Inr ()"
    by (simp add: validate_proposal_lifecycle_origin_def validate_lifecycle_origin_def rmap_error_def)
  ultimately show ?thesis
    using create_retry_replays [OF _ demo_keys(1) _ demo_reachable(7)] by (fastforce simp: demo_ids_def)
qed

text \<open>
  A create key cannot be reused for another request: once a key has created a proposal, a
  create request with another hash under it is refused, unless the stored hash is that of the
  stored version (the format that older records have, which a create does not produce).
\<close>

theorem create_key_reuse_conflicts:
  assumes "create_proposal_command sha eng res today st in_memory_repository q raw c orig src l ov
      now ids s = Inr (resp, s1)"
    and "normalize_optional_idempotency_key raw = Some k" and "mem_get_idempotency s k = None"
    and "mem_get_idempotency s2 k = mem_get_idempotency s1 k"
    and "build_create_command_idempotency_hash sha q' \<noteq> build_create_command_idempotency_hash sha q"
    and "\<forall>v. mem_get_version s2 (fi_proposal_id ids) 1 = Some v \<longrightarrow>
      pv_request_hash v \<noteq> build_create_command_idempotency_hash sha q"
    and "validate_proposal_lifecycle_origin orig' src' = Inr ()"
  shows "create_proposal_command sha eng' res' today' st' in_memory_repository q' raw c' orig' src'
      l' ov' now' ids' s2 =
    Inl (ProposalIdempotencyConflictError ''IDEMPOTENCY_KEY_CONFLICT: request hash mismatch'')"
  using memv.create_key_reuse_refused [OF assms(1,2)] assms(3-7) by simp

theorem create_key_reuse_conflicts_witness:
  "\<exists>s1. mem_get_proposal s1 ''P'' \<noteq> None \<and>
    create_proposal_command (\<lambda>t. t) demo_engine None ''2030-01-01'' demo_settings
      in_memory_repository (demo_create\<lparr>cq_created_by := ''eve''\<rparr>) (Some ''k0'') None DIRECT_CREATE
      None None None 999 (demo_ids ''E9'') s1 =
    Inl (ProposalIdempotencyConflictError ''IDEMPOTENCY_KEY_CONFLICT: request hash mismatch'')"
proof -
  have res: "resolve_create_request None ''2026-01-01'' demo_create =
      Inr (direct_proposal_context ''2026-01-01'' demo_simulate empty_metadata True)"
    by (simp add: resolve_create_request_def demo_create_def require_legacy_simulate_request_def)
  have none: "mem_get_idempotency empty_store ''k0'' = None"
    by (simp add: mem_get_idempotency_def empty_store_def)
  obtain r s1 where first: "create_proposal_command (\<lambda>t. t) demo_engine None ''2026-01-01''
      demo_settings in_memory_repository demo_create (Some ''k0'') None DIRECT_CREATE None None None
      100 (demo_ids ''E0'') empty_store = Inr (r, s1)"
    and s1: "mem_get_proposal s1 ''P'' \<noteq> None"
    "\<And>v. mem_get_version s1 ''P'' 1 = Some v \<Longrightarrow> pv_request_hash v =
       build_create_request_hash (\<lambda>t. t) demo_create
         (direct_proposal_context ''2026-01-01'' demo_simulate empty_metadata True)"
    using res none
    by (simp add: create_proposal_command_def Let_def
        require_proposal_idempotency_key_def normalize_required_idempotency_key_def
        rmap_error_def validate_proposal_lifecycle_origin_def validate_lifecycle_origin_def
        prepare_created_proposal_def validate_proposal_simulation_flag_def
        validate_proposal_simulation_enabled_def direct_proposal_context_def demo_simulate_def
        run_advisory_proposal_simulation_def demo_engine_def persist_created_proposal_def
        build_proposal_create_command_state_def build_proposal_record_def demo_ids_def
        mem_create_proposal_with_version_event_idempotency_def mem_get_proposal_def
        mem_get_version_def build_proposal_version_record_def empty_metadata_def)
  have "build_create_command_idempotency_hash (\<lambda>t. t) (demo_create\<lparr>cq_created_by := ''eve''\<rparr>) \<noteq>
      build_create_command_idempotency_hash (\<lambda>t. t) demo_create"
    by (simp add: build_create_command_idempotency_hash_def hash_canonical_payload_def
        canonicalize_create_command_payload_def demo_create_def json_member_def json_quote_def
        json_escape_def)
  moreover have "build_create_request_hash (\<lambda>t. t) demo_create
      (direct_proposal_context ''2026-01-01'' demo_simulate empty_metadata True) \<noteq>
      build_create_command_idempotency_hash (\<lambda>t. t) demo_create"
    by (simp add: build_create_command_idempotency_hash_def hash_canonical_payload_def
        canonicalize_create_command_payload_def build_create_request_hash_def
        canonicalize_create_request_payload_def demo_create_def json_member_def json_quote_def
        json_escape_def)
  moreover have "validate_proposal_lifecycle_origin DIRECT_CREATE None = Inr ()"
    by (simp add: validate_proposal_lifecycle_origin_def validate_lifecycle_origin_def rmap_error_def)
  ultimately show ?thesis
    using create_key_reuse_conflicts [OF first demo_keys(1) none, of s1] s1
    by (intro exI [of _ s1]) (auto simp: demo_ids_def)
qed

text \<open>
  A recorded execution update is what the execution status then reports: the handoff status
  of its event, the state it led to, the request and provider it was matched with and its
  external identifier.
\<close>

theorem execution_update_reported:
  assumes "reachable env s"
    and "record_proposal_execution_update sha parse in_memory_repository pid q terms now eid s =
      Inr (None, s')"
    and "resolve_execution_update_event (uq_update_status q) = Inr (ety, t)"
  shows "\<exists>x. build_execution_status_view in_memory_repository s' pid = Inr x \<and>
    xs_handoff_status x = execution_status_for_event ety \<and>
    sm_current_state (xs_proposal x) = t \<and>
    xs_execution_request_id x = Some (uq_execution_request_id q) \<and>
    xs_execution_provider x = Some (uq_execution_provider q) \<and>
    xs_external_execution_id x = uq_external_execution_id q"
  using mem.update_command_status [OF _ assms(2,3)] reachable_system_inv [OF assms(1)]
  by (simp add: system_inv_def)

theorem execution_update_reported_witness:
  "\<exists>x. build_execution_status_view in_memory_repository store6 ''P'' = Inr x \<and>
    xs_handoff_status x = EXECUTED_hs \<and> sm_current_state (xs_proposal x) = EXECUTED"
proof -
  have ev: "resolve_execution_update_event (uq_update_status demo_update) =
      Inr (EXECUTED_ev, EXECUTED)"
    by (simp add: resolve_execution_update_event_def rule_tables demo_update_def)
  have "latest_execution_requested_event [ev0, ev1, ev2, ev3, ev4, ev5] = Some ev4"
    by (simp add: latest_execution_requested_event_def demo_events event_builders Let_def)
  obtain x where x: "record_proposal_execution_update demo_sha demo_parse in_memory_repository ''P''
      demo_update TERMINAL_STATES 700 ''E6'' store5 = Inr (x, store6)"
    using step_update by (auto simp: cmd_update_def commit_def split: sum.splits)
  have "mem_list_events store6 ''P'' \<noteq> mem_list_events store5 ''P''"
    by (simp add: store5_def store6_def)
  then have "store6 \<noteq> store5" by auto
  with x have "record_proposal_execution_update demo_sha demo_parse in_memory_repository ''P''
      demo_update TERMINAL_STATES 700 ''E6'' store5 = Inr (None, store6)"
    by (cases rule: mem.update_command_cases [OF x]) simp_all
  from execution_update_reported [OF demo_reachable(6) this ev] show ?thesis
    by (auto simp: execution_status_for_event_def rule_tables)
qed

text \<open>
  The delivery summary and the execution status tell the same story of every log: the
  delivery summary has an execution part exactly when the status is not ``not requested'', and
  then with the same handoff status.
\<close>

theorem delivery_summary_agrees:
  "map_option xe_handoff_status (ds_execution (build_delivery_summary_response p es)) =
     (let st = xp_handoff_status (build_execution_status_projection
         (latest_execution_requested_event es) (latest_execution_status_event es))
      in if st = NOT_REQUESTED then None else Some st)"
  by (simp add: build_delivery_summary_response_def delivery_agrees_with_status Let_def)

section \<open>Narrative review and reports\<close>

text \<open>
  A recorded narrative review is the one the read model reports for that version, with the
  state of its action; the lifecycle state of the proposal is untouched.
\<close>

theorem narrative_review_recorded:
  assumes "reachable env s"
    and "record_narrative_review sha in_memory_repository pid n q raw eid now s = Inr (resp, s')"
    and "\<not> nr_replayed (nw_narrative_review resp)"
    and "mem_get_version s pid n = Some v"
    and "narrative_of v = Inr d" and "obj_get d ''narrative_id'' = JStr nid"
  shows "latest_narrative_review_record (mem_list_events s' pid) v =
      Some (nw_narrative_review resp) \<and>
    nr_review_state (nw_narrative_review resp) = JStr (review_state (nq_action q)) \<and>
    map_option pr_current_state (mem_get_proposal s' pid) =
      map_option pr_current_state (mem_get_proposal s pid)"
proof -
  have "pv_version_no v = n"
    using versions_inv_key [of in_memory_repository s pid n v] assms(4)
      reachable_system_inv [OF assms(1)] by (simp add: system_inv_def)
  then show ?thesis
    using mem.review_is_latest [OF _ assms(2,3) _ _ assms(5,6)] assms(4)
      reachable_system_inv [OF assms(1)] by (simp add: system_inv_def)
qed

theorem narrative_review_recorded_witness:
  "\<exists>resp s'. record_narrative_review demo_sha in_memory_repository ''P'' 1 demo_review None ''E9'' 999
      store6 = Inr (resp, s') \<and>
    latest_narrative_review_record (mem_list_events s' ''P'') (demo_stored_version 1 100) =
      Some (nw_narrative_review resp) \<and>
    nr_review_state (nw_narrative_review resp) = JStr ''APPROVED_FOR_ADVISOR_USE''"
proof -
  let ?v = "demo_stored_version 1 100"
  have nar: "narrative_of ?v = Inr [(''narrative_id'', JStr ''n1'')]"
    by (simp add: narrative_of_def demo_stored_version_def)
  have v: "mem_get_version store6 ''P'' 1 = Some ?v"
    by (simp add: store6_def demo_stored_version_def)
  have "load_proposal_version_replay_referents in_memory_repository store6 ''P'' 1 =
      (Some (demo_proposal EXECUTED 700 2), Some ?v, [ev0, ev1, ev2, ev3, ev4, ev5, ev6])"
    using v by (simp add: load_proposal_version_replay_referents_def) (simp add: store6_def)
  then obtain resp s' where r: "record_narrative_review demo_sha in_memory_repository ''P'' 1
      demo_review None ''E9'' 999 store6 = Inr (resp, s')"
    and fresh: "\<not> nr_replayed (nw_narrative_review resp)"
    by (simp add: record_narrative_review_def record_narrative_review_event_def Let_def
        require_reviewable_narrative_def nar rmap_error_def build_narrative_review_request_hash_def
        narrative_id_of_def find_replayed_review_event_def build_review_event_def store6_def
        demo_transition build_review_response_def review_record_from_event_def)
  from narrative_review_recorded [OF demo_reachable(7) r fresh v nar] r show ?thesis
    by (auto simp: demo_review_def)
qed

text \<open>
  A report carries a narrative only if its review approved that very text: the package is
  built exactly when the replay evidence has a narrative and a review with the state
  ``approved for advisor use'' whose recorded hash is the hash of the narrative.
\<close>

theorem report_package_needs_matching_review:
  "(\<exists>pk. build_reviewed_narrative_report_package sha pid n ev = Inr pk) =
     (\<exists>narrative review.
        obj_get ev ''proposal_narrative'' = JObj narrative \<and>
        obj_get ev ''proposal_narrative_review'' = JObj review \<and>
        text_or_empty (obj_get review ''review_state'') = ''APPROVED_FOR_ADVISOR_USE'' \<and>
        text_or_empty (obj_get narrative ''narrative_id'') \<noteq> [] \<and>
        text_or_empty (obj_get review ''review_id'') \<noteq> [] \<and>
        text_or_empty (obj_get review ''source_narrative_hash'') =
          hash_canonical_payload sha (JObj narrative))"
  by (rule report_package_iff)

section \<open>The repository\<close>

text \<open>
  C29: Paging loses and repeats nothing: following the cursors page by page through the stored
  proposals gives exactly the matching proposals, newest first.
\<close>

theorem paging_complete:
  assumes "distinct (map pr_proposal_id rows)"
    and "\<And>row. row \<in> set rows \<Longrightarrow> pr_proposal_id row \<noteq> []"
    and "0 < limit" and "length (matching_proposals rows f) < n"
  shows "all_pages n rows f limit None = matching_proposals rows f \<and>
    sorted_wrt (\<lambda>x y. proposal_sort_key y \<le> proposal_sort_key x) (matching_proposals rows f)"
  using all_pages_matching [OF assms] matching_proposals_sorted by blast

theorem paging_complete_witness:
  "map pr_proposal_id (all_pages 9 demo_rows
     \<lparr>pf_portfolio_id = None, pf_state = None, pf_created_by = None, pf_created_from = None,
      pf_created_to = None\<rparr> 2 None) = [''B'', ''C'', ''A'']"
proof -
  let ?f = "\<lparr>pf_portfolio_id = None, pf_state = None, pf_created_by = None,
      pf_created_from = None, pf_created_to = None\<rparr>"
  have m: "map pr_proposal_id (matching_proposals demo_rows ?f) = [''B'', ''C'', ''A'']" by code_simp
  have "length (map pr_proposal_id (matching_proposals demo_rows ?f)) < 9" by (subst m) simp
  then have "length (matching_proposals demo_rows ?f) < 9" by (simp only: length_map)
  moreover have "distinct (map pr_proposal_id demo_rows)" by (simp add: demo_rows_def)
  moreover have "\<And>row. row \<in> set demo_rows \<Longrightarrow> pr_proposal_id row \<noteq> []"
    by (auto simp: demo_rows_def)
  ultimately show ?thesis using paging_complete [of demo_rows 2 ?f 9] m by simp
qed

text \<open>
  A cursor that is no longer in the result restarts the listing: a page asked for after a
  proposal that does not match the filters, or does not exist, is the first page again.
\<close>

theorem unknown_cursor_restarts:
  assumes "c \<notin> pr_proposal_id ` set (matching_proposals rows f)"
  shows "filtered_proposal_page rows f limit (Some c) = filtered_proposal_page rows f limit None"
proof -
  have "proposal_cursor_index_from i rs c = None" if "c \<notin> pr_proposal_id ` set rs" for i rs
    using that by (induction rs arbitrary: i) auto
  then show ?thesis
    using assms by (simp add: filtered_proposal_page_def apply_proposal_cursor_def Let_def
        proposal_cursor_index_def)
qed

theorem unknown_cursor_restarts_witness:
  "filtered_proposal_page [demo_proposal DRAFT 1 1]
     \<lparr>pf_portfolio_id = None, pf_state = Some ''EXECUTED'', pf_created_by = None, pf_created_from = None,
      pf_created_to = None\<rparr> 1 (Some ''P'') =
   filtered_proposal_page [demo_proposal DRAFT 1 1]
     \<lparr>pf_portfolio_id = None, pf_state = Some ''EXECUTED'', pf_created_by = None, pf_created_from = None,
      pf_created_to = None\<rparr> 1 None"
  by (rule unknown_cursor_restarts)
    (simp add: matching_proposals_def sort_key_desc_def proposal_matches_filters_def
      proposal_matches_state_def)

text \<open>
  Recovery finds exactly the operations that can be taken up: every operation it lists is
  pending or running with an expired lease, none of them is finished, and without a limit it
  lists all of them.
\<close>

theorem recovery_selects_recoverable:
  "(operation \<in> set (recoverable_operations operations as_of limit) \<longrightarrow>
      operation \<in> set operations \<and> operation_is_recoverable operation as_of \<and>
      ao_status operation \<notin> {SUCCEEDED, FAILED}) \<and>
   set (recoverable_operations operations as_of None) =
     {operation \<in> set operations. operation_is_recoverable operation as_of}"
  using recoverable_operations_sound [of operation operations as_of limit]
    recoverable_not_finished recoverable_operations_complete by blast

theorem recovery_selects_recoverable_witness:
  "operation_is_recoverable (demo_operation PENDING) 5"
proof -
  have "recoverable_operations [demo_operation PENDING] 5 (Some 1) = [demo_operation PENDING]"
    by code_simp
  then show ?thesis
    using recovery_selects_recoverable [of "demo_operation PENDING" "[demo_operation PENDING]" 5
        "Some 1"] by simp
qed

section \<open>Where the code departs from its intent\<close>

text \<open>
  An execution update is not tied to the version it is about. Whatever state the open proposal
  is in and whichever version is current, an update that names the last handoff executes the
  proposal as it stands, also when a new version was created, and nobody reviewed it, since.
\<close>

theorem stale_update_executes:
  assumes "reachable env s" and "mem_get_proposal s pid = Some p"
    and "pr_current_state p \<notin> set TERMINAL_STATES"
    and "latest_execution_requested_event (mem_list_events s pid) = Some h"
    and "validate_execution_update_handoff_identity h q = Inr ()"
    and "find_replayed_execution_update_event (mem_list_events s pid) q
      (build_execution_update_request_hash sha q) = Inr None"
    and "uq_update_status q = EXECUTED_us" and "uq_occurred_at q = None"
    and "we_occurred_at h \<le> now"
  shows "\<exists>s'. record_proposal_execution_update sha parse in_memory_repository pid q TERMINAL_STATES
      now eid s = Inr (None, s') \<and>
    mem_get_proposal s' pid = Some (p\<lparr>pr_current_state := EXECUTED, pr_last_event_at := now\<rparr>)"
proof -
  have "pr_proposal_id p = pid"
    using lifecycle_inv_id [of in_memory_repository s pid p] reachable_system_inv [OF assms(1)] assms(2)
    by (simp add: system_inv_def)
  then show ?thesis
    using assms(2-)
    by (auto simp: record_proposal_execution_update_def required_execution_requested_event_def
        rmap_error_def resolve_execution_update_event_def rule_tables
        validate_execution_update_state_def resolve_valid_execution_update_timestamp_def
        resolve_execution_update_occurred_at_def Let_def persist_proposal_transition_def
        validate_execution_update_occurred_after_handoff_def mem_transition_proposal_def
        build_execution_update_event_and_apply_state_def build_execution_update_event_def
        apply_execution_update_state_def mem_get_proposal_def)
qed

theorem stale_update_executes_witness:
  "pr_current_state (demo_proposal DRAFT 600 2) = DRAFT \<and>
   (\<exists>s'. record_proposal_execution_update demo_sha demo_parse in_memory_repository ''P'' demo_update
      TERMINAL_STATES 700 ''E6'' store5 = Inr (None, s') \<and>
    mem_get_proposal s' ''P'' = Some (demo_proposal EXECUTED 700 2))"
proof -
  have es: "mem_list_events store5 ''P'' = [ev0, ev1, ev2, ev3, ev4, ev5]"
    by (simp add: store5_def)
  note facts = demo_update_facts [folded es]
  have "mem_get_proposal store5 ''P'' = Some (demo_proposal DRAFT 600 2)"
    by (simp add: store5_def)
  moreover have "uq_update_status demo_update = EXECUTED_us" "uq_occurred_at demo_update = None"
    by (simp_all add: demo_update_def)
  moreover have "pr_current_state (demo_proposal DRAFT 600 2) \<notin> set TERMINAL_STATES"
    by (simp add: TERMINAL_STATES_def)
  ultimately show ?thesis
    using facts stale_update_executes [OF demo_reachable(6), of "''P''" "demo_proposal DRAFT 600 2" ev4
        demo_update demo_sha 700 demo_parse "''E6''"] by auto
qed

text \<open>
  A reason can take an idempotency key that no command ever used. When the last event of a
  proposal has an ``idempotency_key'' in its reason but no request hash, which is what a command
  without a key records when its caller put that entry into the reason, then the first transition
  sent with that key is not carried out: it is answered with the old event.
\<close>

theorem reason_takes_idempotency_key:
  assumes "mem_get_proposal s pid \<noteq> None"
    and "mem_list_events s pid = es @ [e]"
    and "obj_get (we_reason_json e) ''idempotency_key'' = JStr k"
    and "obj_get (we_reason_json e) ''idempotency_request_hash'' = JNull"
    and "normalize_optional_idempotency_key raw = Some k" and "k \<noteq> []"
  shows "transition_proposal_state sha in_memory_repository pid q raw req now eid s =
    Inr (build_state_transition_replay_response pid e, s)"
  using assms
  by (auto simp: transition_proposal_state_def load_replayed_event_def find_replayed_event_def
      find_replayed_record_def metadata_matches_replay_def rmap_error_def)

theorem reason_takes_idempotency_key_witness:
  "\<exists>s1 resp. transition_proposal_state demo_sha in_memory_repository ''P''
      (submit_request\<lparr>tq_reason := [(''idempotency_key'', JStr ''k1'')]\<rparr>) None True 200 ''E1'' store0 =
      Inr (resp, s1) \<and>
    transition_proposal_state demo_sha in_memory_repository ''P''
      (submit_request\<lparr>tq_event_type := CANCELLED_ev, tq_expected_state := Some RISK_REVIEW\<rparr>)
      (Some ''k1'') True 300 ''E2'' s1 = Inr (resp, s1)"
proof -
  let ?q = "submit_request\<lparr>tq_reason := [(''idempotency_key'', JStr ''k1'')]\<rparr>"
  let ?e = "build_state_transition_event ''E1'' (demo_proposal DRAFT 100 1) ?q RISK_REVIEW 200 None
    ''sha256:h''"
  let ?s1 = "demo_store (demo_proposal RISK_REVIEW 200 1) [(1, 100)] [ev0, ?e] []"
  have first: "transition_proposal_state demo_sha in_memory_repository ''P'' ?q None True 200 ''E1''
      store0 = Inr (build_state_transition_replay_response ''P'' ?e, ?s1)"
    by (simp add: transition_proposal_state_def store0_def Let_def demo_replays_none
        validate_proposal_expected_state_def validate_expected_state_def submit_request_def
        rmap_error_def resolve_proposal_transition_state_def resolve_transition_state_def
        rule_tables build_state_transition_event_and_apply_state_def
        persist_proposal_transition_def apply_lifecycle_transition_state_def
        build_state_transition_event_def demo_transition build_state_transition_response_def
        build_state_transition_replay_response_def build_state_transition_request_hash_def)
  have "mem_list_events ?s1 ''P'' = [ev0] @ [?e]" "mem_get_proposal ?s1 ''P'' \<noteq> None" by simp_all
  moreover have "obj_get (we_reason_json ?e) ''idempotency_key'' = JStr ''k1''"
    "obj_get (we_reason_json ?e) ''idempotency_request_hash'' = JNull"
    by (simp_all add: build_state_transition_event_def with_idempotency_def)
  ultimately have "transition_proposal_state demo_sha in_memory_repository ''P''
      (submit_request\<lparr>tq_event_type := CANCELLED_ev, tq_expected_state := Some RISK_REVIEW\<rparr>)
      (Some ''k1'') True 300 ''E2'' ?s1 = Inr (build_state_transition_replay_response ''P'' ?e, ?s1)"
    using reason_takes_idempotency_key demo_keys(2) by blast
  with first show ?thesis by blast
qed

text \<open>
  A refused version stays in the store. When the proposal moved on between the time a new
  version was prepared and the time it is written, the write is refused with a conflict and the
  proposal keeps its state, but the version itself was stored: the version lookup finds it, and
  the current version of the proposal is now one beyond the number the proposal records.
\<close>

theorem refused_version_stays_stored:
  assumes "reachable env s" and "mem_get_proposal s pid = Some p"
    and "pv_proposal_id v = pid" and "pr_current_version_no p < pv_version_no v"
    and "pr_proposal_id p' = pid"
    and "we_from_state e = Some st" and "st \<noteq> pr_current_state p"
  shows "\<exists>s' err. persist_created_proposal_version in_memory_repository p' v e s = (s', Inl err) \<and>
    mem_get_proposal s' pid = Some p \<and> mem_list_events s' pid = mem_list_events s pid \<and>
    mem_get_version s' pid (pv_version_no v) = Some v \<and>
    (\<exists>w. mem_get_current_version s' pid = Some w \<and>
       pr_current_version_no p < pv_version_no w)"
proof -
  let ?s = "mem_create_version v s"
  have v: "v \<in> set (dict_values (ps_versions ?s))"
    by (rule dict_get_in_values [of _ "(pv_proposal_id v, pv_version_no v)"])
      (simp add: mem_create_version_def)
  then have "mem_get_current_version ?s pid \<noteq> None"
    using assms(3) current_version_exists unfolding mem_get_current_version_def by blast
  then obtain w where w: "mem_get_current_version ?s pid = Some w" by blast
  moreover have "pv_version_no v \<le> pv_version_no w"
    using current_version_max [OF w [unfolded mem_get_current_version_def]] v assms(3) by blast
  moreover have "persist_created_proposal_version in_memory_repository p' v e s =
      (?s, Inl (ProposalStateConflictError
         ''STATE_CONFLICT: proposal aggregate changed during transition''))"
    using assms(2,5,6,7)
    by (simp add: persist_created_proposal_version_def mem_transition_proposal_def
        mem_create_version_def mem_get_proposal_def)
  ultimately show ?thesis
    using assms(2,3,4)
    by (auto simp: mem_create_version_def mem_get_proposal_def mem_list_events_def
        mem_get_version_def)
qed

theorem refused_version_stays_stored_witness:
  "\<exists>s' err. persist_created_proposal_version in_memory_repository (demo_proposal DRAFT 600 2)
      (demo_stored_version 2 600)
      (build_new_version_created_event ''E5'' (demo_proposal DRAFT 100 1) ''adv'' 600 2 None) store1 =
      (s', Inl err) \<and>
    (\<exists>w. mem_get_current_version s' ''P'' = Some w \<and> 1 < pv_version_no w)"
proof -
  have "mem_get_proposal store1 ''P'' = Some (demo_proposal RISK_REVIEW 200 1)"
    by (simp add: store1_def)
  moreover have "pv_proposal_id (demo_stored_version 2 600) = ''P''"
    "pv_version_no (demo_stored_version 2 600) = 2"
    by (simp_all add: demo_stored_version_def)
  moreover have "we_from_state (build_new_version_created_event ''E5'' (demo_proposal DRAFT 100 1)
      ''adv'' 600 2 None) = Some DRAFT"
    by (simp add: build_new_version_created_event_def)
  ultimately show ?thesis
    using refused_version_stays_stored [OF demo_reachable(2), of "''P''"
        "demo_proposal RISK_REVIEW 200 1" "demo_stored_version 2 600" "demo_proposal DRAFT 600 2"
        "build_new_version_created_event ''E5'' (demo_proposal DRAFT 100 1) ''adv'' 600 2 None" DRAFT]
    by auto
qed

text \<open>
  A malformed time in an execution update is not answered as a validation error. An update
  that is otherwise acceptable and whose time is not an ISO time, or has no offset, ends in a
  \<open>ValueError\<close> or \<open>TypeError\<close> of the interpreter, which is none of the errors of the lifecycle, and
  leaves the store as it was.
\<close>

theorem malformed_update_time_escapes:
  assumes "mem_get_proposal s pid = Some p" and "pr_current_state p \<notin> set TERMINAL_STATES"
    and "latest_execution_requested_event (mem_list_events s pid) = Some h"
    and "validate_execution_update_handoff_identity h q = Inr ()"
    and "find_replayed_execution_update_event (mem_list_events s pid) q
      (build_execution_update_request_hash sha q) = Inr None"
    and "resolve_execution_update_event (uq_update_status q) = Inr et"
    and "uq_occurred_at q = Some txt" and "\<forall>t. parse txt \<noteq> IsoAware t"
  shows "record_execution_update sha parse in_memory_repository pid q now eid s =
    (s, Inl (if parse txt = IsoInvalid then PyValueError ''Invalid isoformat string''
             else PyTypeError ''can't compare offset-naive and offset-aware datetimes''))"
  using assms
  by (cases et; cases "parse txt")
    (auto simp: record_execution_update_def record_proposal_execution_update_def rmap_error_def
      required_execution_requested_event_def validate_execution_update_state_def Let_def
      resolve_valid_execution_update_timestamp_def resolve_execution_update_occurred_at_def
      validate_execution_update_occurred_after_handoff_def)

theorem malformed_update_time_escapes_witness:
  "record_execution_update demo_sha demo_parse in_memory_repository ''P''
     (demo_update\<lparr>uq_occurred_at := Some []\<rparr>) 700 ''E6'' store5 =
   (store5, Inl (PyValueError ''Invalid isoformat string''))"
proof -
  let ?q = "demo_update\<lparr>uq_occurred_at := Some []\<rparr>"
  have es: "mem_list_events store5 ''P'' = [ev0, ev1, ev2, ev3, ev4, ev5]"
    by (simp add: store5_def)
  have "find_replayed_execution_update_event (mem_list_events store5 ''P'') ?q h =
      find_replayed_execution_update_event (mem_list_events store5 ''P'') demo_update h" for h
    by (simp add: find_replayed_execution_update_event_def
        build_execution_update_idempotency_key_def)
  moreover have "validate_execution_update_handoff_identity ev4 ?q =
      validate_execution_update_handoff_identity ev4 demo_update"
    by (simp add: validate_execution_update_handoff_identity_def)
  moreover have "mem_get_proposal store5 ''P'' = Some (demo_proposal DRAFT 600 2)"
    by (simp add: store5_def)
  moreover have "resolve_execution_update_event (uq_update_status ?q) = Inr (EXECUTED_ev, EXECUTED)"
    by (simp add: resolve_execution_update_event_def rule_tables demo_update_def)
  moreover have "pr_current_state (demo_proposal DRAFT 600 2) \<notin> set TERMINAL_STATES"
    by (simp add: TERMINAL_STATES_def)
  moreover have "demo_parse [] = IsoInvalid" by (simp add: demo_parse_def)
  ultimately show ?thesis
    using demo_update_facts [folded es]
      malformed_update_time_escapes [of store5 "''P''" "demo_proposal DRAFT 600 2" ev4 ?q demo_sha
        "(EXECUTED_ev, EXECUTED)" "[]" demo_parse 700 "''E6''"] by simp
qed

end
